(* ===== verification/Prelude.thy ===== *)
theory Prelude
  imports Main "HOL-Library.Char_ord" "HOL-Library.List_Lexorder" "HOL-Library.Multiset"
    "HOL-Library.AList"
begin

text \<open>
  The vocabulary shared by every component theory.

  Go values are modelled as follows. A Go \<open>string\<close> and a Go \<open>[]byte\<close> are both byte
  sequences, that is \<open>string\<close> (\<open>char\<close> is an eight bit byte); the order on them is the
  byte-wise lexicographic one of \<open>bytes.Compare\<close> and of \<open><\<close> on Go strings. A pointer
  \<open>*T\<close> is \<open>T option\<close>. A Go \<open>map[string]V\<close> is an association list: its order stands for
  one iteration order of the Go map, which Go leaves unspecified; the well-formed ones have
  distinct keys. Go's \<open>error\<close> is the datatype \<open>gerr\<close>, whose constructors are the ways the
  program builds errors, and a function that may return an error or panic returns a \<open>res\<close>.
\<close>

section \<open>Collections of facts\<close>

named_theorems res_simps \<open>evaluation of the result type\<close>
named_theorems pool_simps \<open>behaviour of the certificate pool\<close>
named_theorems frame_simps \<open>fields an operation does not write\<close>

section \<open>Errors and results\<close>

datatype gerr =
    Errorf string \<comment> \<open>a leaf: \<open>errors.New\<close>, \<open>fmt.Errorf\<close> without \<open>%w\<close>, or a library error\<close>
  | Wrapf string gerr \<comment> \<open>\<open>fmt.Errorf("prefix%w", err)\<close>\<close>
  | ApiNotFound string \<comment> \<open>an API status error with reason NotFound\<close>
  | NotFoundError gerr
  | InvalidPEMError gerr
  | InvalidSecretError gerr
  | CompatError gerr string \<comment> \<open>\<open>compat.Error\<close>: Underlying and Message\<close>

fun error_text :: "gerr \<Rightarrow> string" where
  "error_text (Errorf s) = s"
| "error_text (Wrapf p e) = p @ error_text e"
| "error_text (ApiNotFound s) = s"
| "error_text (NotFoundError e) = error_text e"
| "error_text (InvalidPEMError e) = error_text e"
| "error_text (InvalidSecretError e) = error_text e"
| "error_text (CompatError u m) = m"

text \<open>
  \<open>errors.As\<close> walks the chain of \<open>Unwrap\<close>. The struct types that embed an \<open>error\<close>
  (\<open>NotFoundError\<close> and its siblings) promote \<open>Error\<close> only, so the walk stops at them.
\<close>

fun errors_As :: "(gerr \<Rightarrow> bool) \<Rightarrow> gerr \<Rightarrow> bool" where
  "errors_As p (Wrapf s e) = (p (Wrapf s e) \<or> errors_As p e)"
| "errors_As p (CompatError u m) = (p (CompatError u m) \<or> errors_As p u)"
| "errors_As p e = p e"

definition apierrors_IsNotFound :: "gerr \<Rightarrow> bool" where
  "apierrors_IsNotFound = errors_As (\<lambda>e. case e of ApiNotFound _ \<Rightarrow> True | _ \<Rightarrow> False)"

definition client_IgnoreNotFound :: "gerr option \<Rightarrow> gerr option" where
  "client_IgnoreNotFound e =
     (case e of None \<Rightarrow> None | Some x \<Rightarrow> if apierrors_IsNotFound x then None else Some x)"

datatype 'a res = Ok 'a | Err gerr | Panic string

fun bind_res :: "'a res \<Rightarrow> ('a \<Rightarrow> 'b res) \<Rightarrow> 'b res" where
  "bind_res (Ok a) f = f a"
| "bind_res (Err e) f = Err e"
| "bind_res (Panic s) f = Panic s"

fun map_err :: "(gerr \<Rightarrow> gerr) \<Rightarrow> 'a res \<Rightarrow> 'a res" where
  "map_err f (Ok a) = Ok a"
| "map_err f (Err e) = Err (f e)"
| "map_err f (Panic s) = Panic s"

lemma bind_res_Ok_iff [res_simps]: "bind_res r f = Ok b \<longleftrightarrow> (\<exists>a. r = Ok a \<and> f a = Ok b)"
  by (cases r) auto

lemma bind_res_Panic_iff [res_simps]: "bind_res r f = Panic s \<longleftrightarrow> r = Panic s \<or> (\<exists>a. r = Ok a \<and> f a = Panic s)"
  by (cases r) auto

lemma map_err_Ok_iff [res_simps]: "map_err f r = Ok b \<longleftrightarrow> r = Ok b"
  by (cases r) auto

lemma map_err_Err_iff [res_simps]: "map_err f r = Err e \<longleftrightarrow> (\<exists>e'. r = Err e' \<and> e = f e')"
  by (cases r) auto

lemma map_err_Panic_iff [res_simps]: "map_err f r = Panic s \<longleftrightarrow> r = Panic s"
  by (cases r) auto

section \<open>Go strings\<close>

definition ptr_Deref :: "'a option \<Rightarrow> 'a \<Rightarrow> 'a" where
  "ptr_Deref p d = (case p of None \<Rightarrow> d | Some x \<Rightarrow> x)"

lemma ptr_Deref_simps [simp]: "ptr_Deref None d = d" "ptr_Deref (Some x) d = x"
  by (simp_all add: ptr_Deref_def)

fun has_prefix :: "string \<Rightarrow> string \<Rightarrow> bool" where
  "has_prefix s [] = True"
| "has_prefix [] (p # ps) = False"
| "has_prefix (c # s) (p # ps) = (c = p \<and> has_prefix s ps)"

definition has_suffix :: "string \<Rightarrow> string \<Rightarrow> bool" where
  "has_suffix s t = has_prefix (rev s) (rev t)"

definition trim_suffix :: "string \<Rightarrow> string \<Rightarrow> string" where
  "trim_suffix s t = (if has_suffix s t then take (length s - length t) s else s)"

lemma has_prefix_iff: "has_prefix s p \<longleftrightarrow> (\<exists>r. s = p @ r)"
  by (induction s p rule: has_prefix.induct) auto

lemma has_suffix_iff: "has_suffix s t \<longleftrightarrow> (\<exists>r. s = r @ t)"
proof
  assume "has_suffix s t"
  then obtain r where "rev s = rev t @ r" by (auto simp: has_suffix_def has_prefix_iff)
  then have "s = rev r @ t" by (metis rev_append rev_rev_ident)
  then show "\<exists>r. s = r @ t" by blast
qed (auto simp: has_suffix_def has_prefix_iff)

lemma has_prefix_append [simp]: "has_prefix (p @ r) p"
  by (auto simp: has_prefix_iff)

lemma trim_suffix_append [simp]: "trim_suffix (s @ t) t = s"
  by (simp add: trim_suffix_def has_suffix_iff)

definition nl :: char where "nl = CHR 0x0A"

definition is_space :: "char \<Rightarrow> bool" where
  "is_space c \<longleftrightarrow> c = CHR 0x20 \<or> c = CHR 0x09 \<or> c = nl \<or> c = CHR 0x0B \<or> c = CHR 0x0C \<or> c = CHR 0x0D"

definition trim_space :: "string \<Rightarrow> string" where
  "trim_space s = rev (dropWhile is_space (rev (dropWhile is_space s)))"

text \<open>Decimal digits (\<open>%d\<close>) and quoting (\<open>%q\<close>; a byte of 0x80 and above is kept, as for
  printable UTF-8).\<close>

fun itoa :: "nat \<Rightarrow> string" where
  "itoa n = (if n < 10 then [char_of (48 + n)] else itoa (n div 10) @ [char_of (48 + n mod 10)])"

declare itoa.simps [simp del]

definition hexdigit :: "nat \<Rightarrow> char" where
  "hexdigit n = (if n < 10 then char_of (48 + n) else char_of (87 + n))"

definition hex_EncodeToString :: "string \<Rightarrow> string" where
  "hex_EncodeToString s =
     concat (map (\<lambda>c. [hexdigit (of_char c div 16), hexdigit (of_char c mod 16)]) s)"

definition quote_char :: "char \<Rightarrow> string" where
  "quote_char c =
     (if c = CHR 0x22 then [CHR 0x5C, CHR 0x22]
      else if c = CHR 0x5C then [CHR 0x5C, CHR 0x5C]
      else if c = CHR 0x07 then [CHR 0x5C, CHR ''a'']
      else if c = CHR 0x08 then [CHR 0x5C, CHR ''b'']
      else if c = CHR 0x0C then [CHR 0x5C, CHR ''f'']
      else if c = nl then [CHR 0x5C, CHR ''n'']
      else if c = CHR 0x0D then [CHR 0x5C, CHR ''r'']
      else if c = CHR 0x09 then [CHR 0x5C, CHR ''t'']
      else if c = CHR 0x0B then [CHR 0x5C, CHR ''v'']
      else if of_char c < (32::nat) \<or> of_char c = (127::nat)
           then [CHR 0x5C, CHR ''x'', hexdigit (of_char c div 16), hexdigit (of_char c mod 16)]
      else [c])"

definition go_quote :: "string \<Rightarrow> string" where
  "go_quote s = [CHR 0x22] @ concat (map quote_char s) @ [CHR 0x22]"

definition to_upper_char :: "char \<Rightarrow> char" where
  "to_upper_char c = (if CHR ''a'' \<le> c \<and> c \<le> CHR ''z'' then char_of (of_char c - (32::nat)) else c)"

definition to_lower_char :: "char \<Rightarrow> char" where
  "to_lower_char c = (if CHR ''A'' \<le> c \<and> c \<le> CHR ''Z'' then char_of (of_char c + (32::nat)) else c)"

lemma length_hex_EncodeToString: "length (hex_EncodeToString s) = 2 * length s"
  by (induction s) (auto simp: hex_EncodeToString_def)

section \<open>Go maps\<close>

type_synonym 'v gomap = "(string \<times> 'v) list"

definition map_put :: "string \<Rightarrow> 'v \<Rightarrow> 'v gomap \<Rightarrow> 'v gomap" where
  "map_put k v m = AList.update k v m"

definition map_copy :: "'v gomap \<Rightarrow> 'v gomap \<Rightarrow> 'v gomap" where
  \<comment> \<open>\<open>for k, v := range src { dst[k] = v }\<close>, also \<open>maps.Copy(dst, src)\<close>\<close>
  "map_copy dst src = fold (\<lambda>(k, v) m. map_put k v m) src dst"

definition sorted_entries :: "'v gomap \<Rightarrow> 'v gomap" where
  \<comment> \<open>the entries in the order of \<open>slices.Sorted(maps.Keys(m))\<close>\<close>
  "sorted_entries m = sort_key fst m"

definition wf_map :: "'v gomap \<Rightarrow> bool" where
  "wf_map m \<longleftrightarrow> distinct (map fst m)"

lemma map_of_put [simp]: "map_of (map_put k v m) = (map_of m)(k \<mapsto> v)"
  by (simp add: map_put_def update_conv')

lemma fst_set_map_put: "fst ` set (map_put k v m) = insert k (fst ` set m)"
proof -
  have "dom (map_of (map_put k v m)) = insert k (dom (map_of m))"
    by (simp del: fun_upd_apply)
  then show ?thesis by (simp only: dom_map_of_conv_image_fst)
qed

lemma wf_map_put [simp]: "wf_map m \<Longrightarrow> wf_map (map_put k v m)"
  by (simp add: wf_map_def map_put_def distinct_update)

lemma wf_map_Nil [simp]: "wf_map []"
  by (simp add: wf_map_def)

lemma map_copy_Nil [simp]: "map_copy m [] = m"
  by (simp add: map_copy_def)

lemma map_copy_Cons [simp]: "map_copy m ((k, v) # xs) = map_copy (map_put k v m) xs"
  by (simp add: map_copy_def)

lemma wf_map_copy [simp]: "wf_map m \<Longrightarrow> wf_map (map_copy m xs)"
  by (induction xs arbitrary: m) auto

lemma map_of_copy: "wf_map xs \<Longrightarrow> map_of (map_copy m xs) = map_of m ++ map_of xs"
proof (induction xs arbitrary: m)
  case Nil
  then show ?case by simp
next
  case (Cons x xs)
  obtain k v where x: "x = (k, v)" by force
  with Cons.prems have "wf_map xs" and k: "k \<notin> fst ` set xs" by (auto simp: wf_map_def)
  from k have k': "map_of xs k = None" by (simp add: map_of_eq_None_iff)
  show ?case
  proof
    fix a
    show "map_of (map_copy m (x # xs)) a = (map_of m ++ map_of (x # xs)) a"
      using k' Cons.IH [OF \<open>wf_map xs\<close>, of "map_put k v m"]
      by (cases "map_of xs a") (auto simp: x map_add_def)
  qed
qed

lemma fst_set_map_copy [simp]: "fst ` set (map_copy m xs) = fst ` set m \<union> fst ` set xs"
  by (induction xs arbitrary: m) (simp, force simp: fst_set_map_put)

text \<open>Sorting the keys removes the dependence on the iteration order of a Go map.\<close>

lemma sorted_entries_mset:
  assumes "wf_map m" and "mset m' = mset m"
  shows "sorted_entries m' = sorted_entries m"
proof -
  from assms have "wf_map m'"
    unfolding wf_map_def by (metis mset_map mset_eq_imp_distinct_iff)
  then have "inj_on fst (set m')" by (simp add: wf_map_def distinct_map)
  moreover have "mset m' = mset (sort_key fst m)" by (simp add: assms(2))
  ultimately show ?thesis
    by (simp add: sorted_entries_def sort_key_inj_key_eq)
qed

lemma wf_map_of_eq_mset:
  assumes "wf_map m" and "wf_map m'" and "map_of m = map_of m'"
  shows "mset m = mset m'"
proof -
  have "set m = set m'" using assms
    by (metis graph_map_of_if_distinct_dom wf_map_def)
  then show ?thesis using assms
    by (metis distinct_map set_eq_iff_mset_eq_distinct wf_map_def)
qed

end
