(* ===== verification/GoCrypto.thy ===== *)
theory GoCrypto
  imports Prelude "HOL-Library.Word"
begin

unbundle bit_operations_syntax

text \<open>
  The hash of the Go standard library that the program uses, \<open>crypto/sha256.Sum256\<close>, as
  FIPS 180-4 defines it on 32 bit words. Nothing here models a file of the repository: the
  component theories use \<open>Sum256\<close> where the code calls \<open>sha256.Sum256\<close> or writes to a
  \<open>sha256.New()\<close> hash and takes its sum (the digest of all the bytes written).
\<close>

type_synonym u32 = "32 word"
type_synonym sha_state = "u32 \<times> u32 \<times> u32 \<times> u32 \<times> u32 \<times> u32 \<times> u32 \<times> u32"

definition sha_K :: "u32 list" where
  "sha_K = [
   1116352408, 1899447441, 3049323471, 3921009573, 961987163, 1508970993, 2453635748, 2870763221,
   3624381080, 310598401, 607225278, 1426881987, 1925078388, 2162078206, 2614888103, 3248222580,
   3835390401, 4022224774, 264347078, 604807628, 770255983, 1249150122, 1555081692, 1996064986,
   2554220882, 2821834349, 2952996808, 3210313671, 3336571891, 3584528711, 113926993, 338241895,
   666307205, 773529912, 1294757372, 1396182291, 1695183700, 1986661051, 2177026350, 2456956037,
   2730485921, 2820302411, 3259730800, 3345764771, 3516065817, 3600352804, 4094571909, 275423344,
   430227734, 506948616, 659060556, 883997877, 958139571, 1322822218, 1537002063, 1747873779,
   1955562222, 2024104815, 2227730452, 2361852424, 2428436474, 2756734187, 3204031479, 3329325298]"

definition sha_init :: sha_state where
  "sha_init = (1779033703, 3144134277, 1013904242, 2773480762,
               1359893119, 2600822924, 528734635, 1541459225)"

definition rotr :: "nat \<Rightarrow> u32 \<Rightarrow> u32" where
  "rotr n x = drop_bit n x OR push_bit (32 - n) x"

fun words_of_bytes :: "string \<Rightarrow> u32 list" where
  "words_of_bytes (a # b # c # d # r) =
     (push_bit 24 (of_char a) + push_bit 16 (of_char b) + push_bit 8 (of_char c) + of_char d)
     # words_of_bytes r"
| "words_of_bytes _ = []"

definition bytes_of_word :: "u32 \<Rightarrow> string" where
  "bytes_of_word w =
     map (\<lambda>k. char_of (uint (drop_bit k w))) [24, 16, 8, 0]"

text \<open>Padding: a one bit, zeros up to 56 modulo 64 bytes, the bit length in eight bytes.\<close>

definition sha_pad :: "string \<Rightarrow> string" where
  "sha_pad m =
     (let b = 8 * int (length m)
      in m @ [char_of (128::int)]
         @ replicate ((119 - length m mod 64) mod 64) (char_of (0::int))
         @ map (\<lambda>k. char_of (drop_bit k b)) [56, 48, 40, 32, 24, 16, 8, 0])"

text \<open>The message schedule, latest word first.\<close>

fun sha_schedule :: "nat \<Rightarrow> u32 list \<Rightarrow> u32 list" where
  "sha_schedule 0 w = w"
| "sha_schedule (Suc n) w =
     (let a = w ! 1; b = w ! 14
      in sha_schedule n
          ((w ! 15 + (rotr 7 b XOR rotr 18 b XOR drop_bit 3 b) + w ! 6
            + (rotr 17 a XOR rotr 19 a XOR drop_bit 10 a)) # w))"

fun sha_rounds :: "u32 list \<Rightarrow> u32 list \<Rightarrow> sha_state \<Rightarrow> sha_state" where
  "sha_rounds (k # ks) (w # ws) (a, b, c, d, e, f, g, h) =
     (let t1 = h + (rotr 6 e XOR rotr 11 e XOR rotr 25 e) + ((e AND f) XOR (NOT e AND g)) + k + w;
          t2 = (rotr 2 a XOR rotr 13 a XOR rotr 22 a) + ((a AND b) XOR (a AND c) XOR (b AND c))
      in sha_rounds ks ws (t1 + t2, a, b, c, d + t1, e, f, g))"
| "sha_rounds _ _ s = s"

fun sha_add :: "sha_state \<Rightarrow> sha_state \<Rightarrow> sha_state" where
  "sha_add (a, b, c, d, e, f, g, h) (a', b', c', d', e', f', g', h') =
     (a + a', b + b', c + c', d + d', e + e', f + f', g + g', h + h')"

function sha_blocks :: "u32 list \<Rightarrow> sha_state \<Rightarrow> sha_state" where
  "sha_blocks ws s =
     (if ws = [] then s
      else sha_blocks (drop 16 ws)
             (sha_add s (sha_rounds sha_K (rev (sha_schedule 48 (rev (take 16 ws)))) s)))"
  by pat_completeness auto
termination by (relation "measure (length \<circ> fst)") auto

declare sha_blocks.simps [simp del]

definition Sum256 :: "string \<Rightarrow> string" where
  "Sum256 m =
     (case sha_blocks (words_of_bytes (sha_pad m)) sha_init of
        (a, b, c, d, e, f, g, h) \<Rightarrow> concat (map bytes_of_word [a, b, c, d, e, f, g, h]))"

lemma length_Sum256 [simp]: "length (Sum256 m) = 32"
  by (simp add: Sum256_def bytes_of_word_def split: prod.split)

end
