(* ===== verification/ApiTypes.thy ===== *)
theory ApiTypes
  imports Prelude
begin

text \<open>
  The API objects. The first section holds the fields of Kubernetes types that the program
  reads or writes (\<open>k8s.io/apimachinery\<close>, \<open>k8s.io/api\<close>). The others hold the program's
  own types: \<open>pkg/apis/trust/v1alpha1/types_bundle.go\<close> (Bundle) and
  \<open>pkg/apis/trustmanager/v1alpha2/types_cluster_bundle.go\<close> (ClusterBundle). The field
  names carry a prefix per struct, since both API versions reuse the same field names; the
  types of the second version that clash with the first end in \<open>_v2\<close>.
\<close>

section \<open>Kubernetes types\<close>

record LabelSelectorRequirement =
  lsr_Key :: string
  lsr_Operator :: string
  lsr_Values :: "string list"

record LabelSelector =
  ls_MatchLabels :: "string gomap"
  ls_MatchExpressions :: "LabelSelectorRequirement list"

record Condition =
  cond_Type :: string
  cond_Status :: string
  cond_ObservedGeneration :: int
  cond_LastTransitionTime :: int
  cond_Reason :: string
  cond_Message :: string

record OwnerReference =
  or_APIVersion :: string
  or_Kind :: string
  or_Name :: string
  or_UID :: string
  or_Controller :: "bool option"
  or_BlockOwnerDeletion :: "bool option"

record ManagedFieldsEntry =
  mf_Manager :: string
  mf_FieldsV1 :: "string option" \<comment> \<open>the raw bytes, None for a nil FieldsV1\<close>

record ObjectMeta =
  om_Name :: string
  om_Namespace :: string
  om_UID :: string
  om_Generation :: int
  om_Labels :: "string gomap"
  om_Annotations :: "string gomap option" \<comment> \<open>None is the nil map\<close>
  om_OwnerReferences :: "OwnerReference list"
  om_DeletionTimestamp :: "int option"
  om_ManagedFields :: "ManagedFieldsEntry list"

definition entries :: "'v gomap option \<Rightarrow> 'v gomap" where
  "entries m = (case m of None \<Rightarrow> [] | Some xs \<Rightarrow> xs)"

lemma entries_simps [simp]: "entries None = []" "entries (Some m) = m"
  by (simp_all add: entries_def)

definition ConditionTrue :: string where "ConditionTrue = ''True''"
definition ConditionFalse :: string where "ConditionFalse = ''False''"

record NamespacedName =
  nn_Namespace :: string
  nn_Name :: string

definition nn_String :: "NamespacedName \<Rightarrow> string" where
  "nn_String n = nn_Namespace n @ ''/'' @ nn_Name n"

record ConfigMap =
  cm_Meta :: ObjectMeta
  cm_Data :: "string gomap"
  cm_BinaryData :: "string option gomap"

record Secret =
  sec_Meta :: ObjectMeta
  sec_Type :: string
  sec_Data :: "string option gomap"

record Namespace =
  ns_Meta :: ObjectMeta
  ns_Phase :: string

definition SecretTypeTLS :: string where "SecretTypeTLS = ''kubernetes.io/tls''"
definition NamespaceTerminating :: string where "NamespaceTerminating = ''Terminating''"

section \<open>trust.cert-manager.io/v1alpha1\<close>

definition BundleKind :: string where "BundleKind = ''Bundle''"
definition BundleLabelKey :: string where "BundleLabelKey = ''trust.cert-manager.io/bundle''"
definition BundleHashAnnotationKey :: string where
  "BundleHashAnnotationKey = ''trust.cert-manager.io/hash''"

record SourceObjectKeySelector =
  sok_Name :: string
  sok_Selector :: "LabelSelector option"
  sok_Key :: string
  sok_IncludeAllKeys :: "bool option"

record BundleSource =
  bs_ConfigMap :: "SourceObjectKeySelector option"
  bs_Secret :: "SourceObjectKeySelector option"
  bs_InLine :: string
  bs_UseDefaultCAs :: "bool option"

record TargetMetadata =
  tm_Annotations :: "string gomap"
  tm_Labels :: "string gomap"

record TargetTemplate =
  tt_Key :: string
  tt_Metadata :: TargetMetadata

record JKS =
  jks_Key :: string
  jks_Password :: string

type_synonym PKCS12Profile = string

definition LegacyRC2PKCS12Profile :: PKCS12Profile where "LegacyRC2PKCS12Profile = ''LegacyRC2''"
definition LegacyDESPKCS12Profile :: PKCS12Profile where "LegacyDESPKCS12Profile = ''LegacyDES''"
definition Modern2023PKCS12Profile :: PKCS12Profile where "Modern2023PKCS12Profile = ''Modern2023''"

record PKCS12 =
  p12_Key :: string
  p12_Password :: "string option"
  p12_Profile :: PKCS12Profile

record AdditionalFormats =
  af_JKS :: "JKS option"
  af_PKCS12 :: "PKCS12 option"

record BundleTarget =
  bt_ConfigMap :: "TargetTemplate option"
  bt_Secret :: "TargetTemplate option"
  bt_AdditionalFormats :: "AdditionalFormats option"
  bt_NamespaceSelector :: "LabelSelector option"

record BundleSpec =
  spec_Sources :: "BundleSource list"
  spec_Target :: BundleTarget

record BundleStatus =
  st_Conditions :: "Condition list"
  st_DefaultCAPackageVersion :: string

record Bundle =
  bd_Meta :: ObjectMeta
  bd_Spec :: BundleSpec
  bd_Status :: BundleStatus

definition BundleConditionSynced :: string where "BundleConditionSynced = ''Synced''"
definition BundleConditionDeprecated :: string where "BundleConditionDeprecated = ''Deprecated''"
definition BundleConditionMigrated :: string where "BundleConditionMigrated = ''Migrated''"

text \<open>The getters work on a nil receiver and then return the nil map.\<close>

definition GetAnnotations :: "TargetTemplate option \<Rightarrow> string gomap" where
  "GetAnnotations t = (case t of None \<Rightarrow> [] | Some t' \<Rightarrow> tm_Annotations (tt_Metadata t'))"

definition GetLabels :: "TargetTemplate option \<Rightarrow> string gomap" where
  "GetLabels t = (case t of None \<Rightarrow> [] | Some t' \<Rightarrow> tm_Labels (tt_Metadata t'))"

section \<open>trust-manager.io/v1alpha2\<close>

record SourceReference =
  sr_Kind :: string
  sr_Name :: string
  sr_Selector :: "LabelSelector option"

record BundleSourceRef = SourceReference +
  bsr_Key :: string

record DefaultCAsSource =
  dca_Provider :: string

record PKCS12_v2 =
  p2_Password :: "string option"
  p2_Profile :: PKCS12Profile

record TargetKeyValue =
  tkv_Key :: string
  tkv_Format :: string
  tkv_PKCS12 :: PKCS12_v2

definition BundleFormatPEM :: string where "BundleFormatPEM = ''PEM''"
definition BundleFormatPKCS12 :: string where "BundleFormatPKCS12 = ''PKCS12''"
definition ConfigMapKind :: string where "ConfigMapKind = ''ConfigMap''"
definition SecretKind :: string where "SecretKind = ''Secret''"
definition DefaultCAsProviderDisabled :: string where "DefaultCAsProviderDisabled = ''Disabled''"
definition DefaultCAsProviderSystem :: string where "DefaultCAsProviderSystem = ''System''"
definition BundleMigratedAnnotation :: string where
  "BundleMigratedAnnotation = ''trust-manager.io/migrated''"

record KeyValueTarget =
  kvt_Data :: "TargetKeyValue list"
  kvt_Metadata :: TargetMetadata

record BundleTarget_v2 =
  bt2_ConfigMap :: "KeyValueTarget option"
  bt2_Secret :: "KeyValueTarget option"
  bt2_NamespaceSelector :: "LabelSelector option"

record BundleSpec_v2 =
  spec2_SourceRefs :: "BundleSourceRef list"
  spec2_DefaultCAs :: DefaultCAsSource
  spec2_InLineCAs :: string
  spec2_Target :: BundleTarget_v2

record ClusterBundle =
  cb_Meta :: ObjectMeta
  cb_Spec :: BundleSpec_v2
  cb_Status :: BundleStatus

text \<open>Getters and names of the newer version.\<close>

definition GetAnnotations_v2 :: "KeyValueTarget option \<Rightarrow> string gomap" where
  "GetAnnotations_v2 t = (case t of None \<Rightarrow> [] | Some t' \<Rightarrow> tm_Annotations (kvt_Metadata t'))"

definition GetLabels_v2 :: "KeyValueTarget option \<Rightarrow> string gomap" where
  "GetLabels_v2 t = (case t of None \<Rightarrow> [] | Some t' \<Rightarrow> tm_Labels (kvt_Metadata t'))"

definition ClusterBundleKind :: string where "ClusterBundleKind = ''ClusterBundle''"

end
