(* ===== verification/CertPool.thy ===== *)
theory CertPool
  imports GoCrypto GoPem ApiTypes
begin

text \<open>
  The certificate pool: \<open>pkg/util/cert_pool.go\<close>, and the certificate parsing with its one
  compatibility exception, \<open>pkg/compat/parse_cert.go\<close>. A pool is a Go map from the SHA-256
  digest of the DER bytes to the certificate; the association list that models it is one
  iteration order of that map. The X.509 parser of the standard library is the parameter
  \<open>parse\<close> with the signature of \<open>x509.ParseCertificate\<close> (a certificate pointer and an
  error), and \<open>now\<close> is the clock reading of the expiry filter.
\<close>

section \<open>Certificates and their parsing\<close>

record Certificate =
  crt_Raw :: string
  crt_Subject :: string
  crt_NotBefore :: int
  crt_NotAfter :: int
  crt_IsCA :: bool

type_synonym x509_parser = "string \<Rightarrow> Certificate option \<times> gerr option"

definition negativeSerialNumberCAFingerprint :: string where
  "negativeSerialNumberCAFingerprint =
     ''88497f01602f3154246ae28c4d5aef10f1d87ebb76626f4ae0b7f95ba7968799''"

definition negativeSerialNumberErr :: string where
  "negativeSerialNumberErr = ''x509: negative serial number''"

definition IsSkipError :: "gerr \<Rightarrow> bool" where
  "IsSkipError = errors_As (\<lambda>e. case e of CompatError _ _ \<Rightarrow> True | _ \<Rightarrow> False)"

definition handleNegativeSerialNumberSpecialCase ::
  "Certificate option \<Rightarrow> gerr \<Rightarrow> Certificate option \<times> gerr option" where
  "handleNegativeSerialNumberSpecialCase cert err =
     (if \<not> has_suffix (error_text err) negativeSerialNumberErr then (cert, Some err)
      else (None, Some (CompatError err
              (''cert in bundle with CN=EC-ACC and fingerprint '' @ [CHR 0x27]
               @ negativeSerialNumberCAFingerprint @ [CHR 0x27]
               @ '' has negative serial number and will be skipped''))))"

definition ParseCertificate :: "x509_parser \<Rightarrow> string \<Rightarrow> Certificate option \<times> gerr option" where
  "ParseCertificate parse der =
     (case parse der of
        (cert, None) \<Rightarrow> (cert, None)
      | (cert, Some err) \<Rightarrow>
          (if hex_EncodeToString (Sum256 der) = negativeSerialNumberCAFingerprint
           then handleNegativeSerialNumberSpecialCase cert err
           else (cert, Some err)))"

section \<open>The pool\<close>

type_synonym CertPoolFilterFunc = "Certificate \<Rightarrow> bool"

record CertPool =
  certificates :: "(string \<times> Certificate) list"
  filters :: "CertPoolFilterFunc list"

definition AppendFilter :: "CertPool \<Rightarrow> CertPoolFilterFunc option \<Rightarrow> CertPool" where
  "AppendFilter cp fn =
     (case fn of None \<Rightarrow> cp | Some f \<Rightarrow> cp\<lparr>filters := filters cp @ [f]\<rparr>)"

definition WithFilteredExpiredCerts :: "int \<Rightarrow> bool \<Rightarrow> CertPool \<Rightarrow> CertPool" where
  "WithFilteredExpiredCerts now filterExpired cp =
     (if filterExpired then AppendFilter cp (Some (\<lambda>cert. \<not> now > crt_NotAfter cert)) else cp)"

definition WithFilteredNonCaCerts :: "bool \<Rightarrow> CertPool \<Rightarrow> CertPool" where
  "WithFilteredNonCaCerts filterNonCACerts cp =
     (if filterNonCACerts then AppendFilter cp (Some crt_IsCA) else cp)"

definition NewCertPool :: "(CertPool \<Rightarrow> CertPool) list \<Rightarrow> CertPool" where
  "NewCertPool options =
     fold (\<lambda>option certPool. option certPool) options \<lparr>certificates = [], filters = []\<rparr>"

definition AddCert :: "CertPool \<Rightarrow> Certificate \<Rightarrow> CertPool \<times> bool" where
  "AddCert cp certificate =
     (if \<forall>filter \<in> set (filters cp). filter certificate
      then (cp\<lparr>certificates :=
                AList.update (Sum256 (crt_Raw certificate)) certificate (certificates cp)\<rparr>, True)
      else (cp, False))"

function AddCertsFromPEM_loop :: "x509_parser \<Rightarrow> CertPool \<Rightarrow> string \<Rightarrow> CertPool \<times> gerr option" where
  "AddCertsFromPEM_loop parse cp pemData =
     (case pem_Decode pemData of
        (None, _) \<Rightarrow> (cp, None)
      | (Some block, rest) \<Rightarrow>
          (if blk_Type block \<noteq> ''CERTIFICATE''
           then (cp, Some (Errorf (''invalid PEM block in bundle: only CERTIFICATE blocks are permitted but found ''
                  @ [CHR 0x27] @ blk_Type block @ [CHR 0x27])))
           else if length (blk_Headers block) \<noteq> 0
           then (cp, Some (Errorf ''invalid PEM block in bundle; blocks are not permitted to have PEM headers''))
           else (case ParseCertificate parse (blk_Bytes block) of
               (_, Some err) \<Rightarrow>
                 (if IsSkipError err then AddCertsFromPEM_loop parse cp rest
                  else (cp, Some (Wrapf ''invalid PEM block in bundle; invalid PEM certificate: '' err)))
             | (None, None) \<Rightarrow>
                 (cp, Some (Errorf ''failed appending a certificate: certificate is nil''))
             | (Some certificate, None) \<Rightarrow>
                 AddCertsFromPEM_loop parse (fst (AddCert cp certificate)) rest)))"
  by pat_completeness auto
termination
  by (relation "measure (\<lambda>(parse, cp, pemData). length pemData)") (auto dest: sym [THEN pem_Decode_shorter])

declare AddCertsFromPEM_loop.simps [simp del]

definition AddCertsFromPEM ::
  "x509_parser \<Rightarrow> CertPool \<Rightarrow> string option \<Rightarrow> CertPool \<times> gerr option" where
  "AddCertsFromPEM parse cp pemData =
     (case pemData of
        None \<Rightarrow> (cp, Some (Errorf ''certificate data can't be nil''))
      | Some data \<Rightarrow> AddCertsFromPEM_loop parse cp data)"

definition Size :: "CertPool \<Rightarrow> nat" where
  "Size cp = length (certificates cp)"

definition Certificates :: "CertPool \<Rightarrow> Certificate list" where
  "Certificates certPool =
     (let hashes = sort (map fst (certificates certPool))
      in map (\<lambda>hash. the (map_of (certificates certPool) hash)) hashes)"

definition PEM :: "CertPool option \<Rightarrow> string" where
  "PEM certPool =
     (case certPool of
        None \<Rightarrow> []
      | Some cp \<Rightarrow>
          (if length (certificates cp) = 0 then []
           else trim_space (concat (map (\<lambda>cert. pem_Encode ''CERTIFICATE'' (crt_Raw cert)) (Certificates cp)))))"

definition PEMSplit :: "CertPool option \<Rightarrow> string list" where
  "PEMSplit certPool =
     (case certPool of
        None \<Rightarrow> []
      | Some cp \<Rightarrow>
          (if length (certificates cp) = 0 then []
           else map (\<lambda>cert. trim_space (pem_Encode ''CERTIFICATE'' (crt_Raw cert))) (Certificates cp)))"

section \<open>Reference definitions\<close>

text \<open>All the PEM blocks of an input, and what one of them contributes.\<close>

function pem_blocks :: "string \<Rightarrow> pem_Block list" where
  "pem_blocks data =
     (case pem_Decode data of (None, _) \<Rightarrow> [] | (Some b, rest) \<Rightarrow> b # pem_blocks rest)"
  by pat_completeness auto
termination by (relation "measure length") (auto dest: sym [THEN pem_Decode_shorter])

declare pem_blocks.simps [simp del]

datatype block_result = Rejected | Skipped | Accepted Certificate

definition block_result :: "x509_parser \<Rightarrow> pem_Block \<Rightarrow> block_result" where
  "block_result parse b =
     (if blk_Type b \<noteq> ''CERTIFICATE'' \<or> blk_Headers b \<noteq> [] then Rejected
      else (case ParseCertificate parse (blk_Bytes b) of
          (_, Some err) \<Rightarrow> if IsSkipError err then Skipped else Rejected
        | (None, None) \<Rightarrow> Rejected
        | (Some c, None) \<Rightarrow> Accepted c))"

definition pem_certs :: "x509_parser \<Rightarrow> string \<Rightarrow> Certificate list" where
  "pem_certs parse data =
     concat (map (\<lambda>b. case block_result parse b of Accepted c \<Rightarrow> [c] | _ \<Rightarrow> []) (pem_blocks data))"

definition add_all :: "CertPool \<Rightarrow> Certificate list \<Rightarrow> CertPool" where
  "add_all cp cs = fold (\<lambda>c p. fst (AddCert p c)) cs cp"

lemma add_all_simps [simp]:
  "add_all cp [] = cp" "add_all cp (c # cs) = add_all (fst (AddCert cp c)) cs"
  by (simp_all add: add_all_def)

lemma add_all_append [simp]: "add_all cp (xs @ ys) = add_all (add_all cp xs) ys"
  by (simp add: add_all_def)

text \<open>One turn of the loop, by what the next block contributes.\<close>

lemma loop_end [pool_simps]:
  "pem_Decode data = (None, r) \<Longrightarrow> AddCertsFromPEM_loop parse cp data = (cp, None)"
  by (subst AddCertsFromPEM_loop.simps) simp

lemma loop_Skipped [pool_simps]:
  "pem_Decode data = (Some b, r) \<Longrightarrow> block_result parse b = Skipped \<Longrightarrow>
   AddCertsFromPEM_loop parse cp data = AddCertsFromPEM_loop parse cp r"
  by (subst AddCertsFromPEM_loop.simps)
    (auto simp: block_result_def split: prod.splits option.splits if_splits)

lemma loop_Accepted [pool_simps]:
  "pem_Decode data = (Some b, r) \<Longrightarrow> block_result parse b = Accepted c \<Longrightarrow>
   AddCertsFromPEM_loop parse cp data = AddCertsFromPEM_loop parse (fst (AddCert cp c)) r"
  by (subst AddCertsFromPEM_loop.simps)
    (auto simp: block_result_def split: prod.splits option.splits if_splits)

lemma loop_Rejected:
  "pem_Decode data = (Some b, r) \<Longrightarrow> block_result parse b = Rejected \<Longrightarrow>
   \<exists>e. AddCertsFromPEM_loop parse cp data = (cp, Some e)"
  by (subst AddCertsFromPEM_loop.simps)
    (auto simp: block_result_def split: prod.splits option.splits if_splits)

lemma pem_blocks_end [pool_simps]: "pem_Decode data = (None, r) \<Longrightarrow> pem_blocks data = []"
  by (subst pem_blocks.simps) simp

lemma pem_blocks_next [pool_simps]:
  "pem_Decode data = (Some b, r) \<Longrightarrow> pem_blocks data = b # pem_blocks r"
  by (subst pem_blocks.simps) simp

lemma pem_blocks_cases [case_names End Next]:
  assumes "\<And>data r. pem_Decode data = (None, r) \<Longrightarrow> P data"
    and "\<And>data b r. pem_Decode data = (Some b, r) \<Longrightarrow> P r \<Longrightarrow> P data"
  shows "P data"
proof (induction data rule: pem_blocks.induct)
  case (1 data)
  obtain o' r where d: "pem_Decode data = (o', r)" by force
  show ?case
  proof (cases o')
    case None
    with d assms(1) show ?thesis by simp
  next
    case (Some b)
    with d have "P r" by (intro 1) auto
    with d Some assms(2) show ?thesis by simp
  qed
qed

text \<open>The loop succeeds exactly when no block is rejected, and then adds the accepted ones.\<close>

lemma AddCertsFromPEM_loop_ok:
  "snd (AddCertsFromPEM_loop parse cp data) = None \<longleftrightarrow>
     (\<forall>b \<in> set (pem_blocks data). block_result parse b \<noteq> Rejected)"
proof (induction data arbitrary: cp rule: pem_blocks_cases)
  case (End data r)
  then show ?case by (simp add: pool_simps)
next
  case (Next data b r)
  show ?case
  proof (cases "block_result parse b")
    case Rejected
    with loop_Rejected [OF Next(1), of parse cp] obtain e where
      "AddCertsFromPEM_loop parse cp data = (cp, Some e)" by auto
    with Rejected Next(1) show ?thesis by (simp add: pem_blocks_next)
  qed (use Next in \<open>simp_all add: pool_simps\<close>)
qed

lemma AddCertsFromPEM_loop_result:
  "snd (AddCertsFromPEM_loop parse cp data) = None \<Longrightarrow>
   fst (AddCertsFromPEM_loop parse cp data) = add_all cp (pem_certs parse data)"
proof (induction data arbitrary: cp rule: pem_blocks_cases)
  case (End data r)
  then show ?case by (simp add: pool_simps pem_certs_def)
next
  case (Next data b r)
  show ?case
  proof (cases "block_result parse b")
    case Rejected
    with loop_Rejected [OF Next(1), of parse cp] Next.prems show ?thesis by auto
  qed (use Next in \<open>simp_all add: pool_simps pem_certs_def\<close>)
qed

section \<open>The pool as a set of certificates\<close>

text \<open>
  What the code that fills a pool relies on: adding a certificate stores it under its key if the
  pool accepts it, and never changes what the pool accepts.
\<close>

locale cert_store =
  fixes inv :: "'p \<Rightarrow> bool"
    and add :: "'p \<Rightarrow> 'c \<Rightarrow> 'p"
    and find :: "'p \<Rightarrow> string \<Rightarrow> 'c option"
    and key :: "'c \<Rightarrow> string"
    and accepts :: "'p \<Rightarrow> 'c \<Rightarrow> bool"
  assumes inv_add: "inv p \<Longrightarrow> inv (add p c)"
    and find_add: "inv p \<Longrightarrow>
      find (add p c) = (if accepts p c then (find p)(key c \<mapsto> c) else find p)"
    and accepts_add: "accepts (add p c) d = accepts p d"
begin

lemma inv_fold: "inv p \<Longrightarrow> inv (fold (\<lambda>c p. add p c) cs p)"
  by (induction cs arbitrary: p) (auto intro: inv_add)

lemma accepts_fold: "accepts (fold (\<lambda>c p. add p c) cs p) d = accepts p d"
  by (induction cs arbitrary: p) (auto simp: accepts_add)

lemma find_fold_other:
  "inv p \<Longrightarrow> \<forall>c \<in> set cs. accepts p c \<longrightarrow> key c \<noteq> h \<Longrightarrow>
   find (fold (\<lambda>c p. add p c) cs p) h = find p h"
  by (induction cs arbitrary: p) (auto simp: find_add accepts_add inv_add)

lemma find_fold_member:
  assumes "inv p" and "c \<in> set cs" and "accepts p c"
    and "inj_on key {c \<in> set cs. accepts p c}"
  shows "find (fold (\<lambda>c p. add p c) cs p) (key c) = Some c"
  using assms
proof (induction cs rule: rev_induct)
  case Nil
  then show ?case by simp
next
  case (snoc d ds)
  let ?q = "fold (\<lambda>c p. add p c) ds p"
  have q: "inv ?q" "accepts ?q d = accepts p d" using snoc.prems(1) by (auto simp: inv_fold accepts_fold)
  show ?case
  proof (cases "key d = key c \<and> accepts p d")
    case True
    with snoc.prems have "d = c" by (auto simp: inj_on_def)
    with True q show ?thesis by (simp add: find_add)
  next
    case False
    with snoc.prems have "c \<in> set ds" by auto
    moreover have "inj_on key {c \<in> set ds. accepts p c}"
      by (rule inj_on_subset [OF snoc.prems(4)]) auto
    ultimately have "find ?q (key c) = Some c" using snoc by simp
    with False q show ?thesis by (auto simp: find_add)
  qed
qed

text \<open>The order and the multiplicity in which certificates arrive do not matter.\<close>

lemma find_fold_set:
  assumes "inv p" and "set cs = set ds" and "inj_on key {c \<in> set cs. accepts p c}"
  shows "find (fold (\<lambda>c p. add p c) cs p) = find (fold (\<lambda>c p. add p c) ds p)"
proof
  fix h
  show "find (fold (\<lambda>c p. add p c) cs p) h = find (fold (\<lambda>c p. add p c) ds p) h"
  proof (cases "\<exists>c \<in> set cs. accepts p c \<and> key c = h")
    case True
    then show ?thesis using assms find_fold_member [of p _ cs] find_fold_member [of p _ ds] by auto
  next
    case False
    then show ?thesis using assms by (simp add: find_fold_other)
  qed
qed

lemma find_fold_accepted:
  assumes "inv p" and "find (fold (\<lambda>c p. add p c) cs p) h = Some d" and "find p h = None"
  shows "d \<in> set cs \<and> accepts p d \<and> key d = h"
  using assms
proof (induction cs rule: rev_induct)
  case (snoc c cs)
  have "inv (fold (\<lambda>c p. add p c) cs p)" using snoc.prems(1) by (rule inv_fold)
  with snoc show ?case by (auto simp: find_add accepts_fold split: if_splits)
qed simp

end

definition accepts_cert :: "CertPool \<Rightarrow> Certificate \<Rightarrow> bool" where
  "accepts_cert cp c \<longleftrightarrow> (\<forall>f \<in> set (filters cp). f c)"

definition pool_inv :: "CertPool \<Rightarrow> bool" where
  "pool_inv cp \<longleftrightarrow> wf_map (certificates cp) \<and>
     (\<forall>(h, c) \<in> set (certificates cp). h = Sum256 (crt_Raw c) \<and> accepts_cert cp c)"

definition pool_find :: "CertPool \<Rightarrow> string \<Rightarrow> Certificate option" where
  "pool_find cp h = map_of (certificates cp) h"

definition fingerprint :: "Certificate \<Rightarrow> string" where
  "fingerprint c = Sum256 (crt_Raw c)"

lemma filters_AddCert [frame_simps]: "filters (fst (AddCert cp c)) = filters cp"
  by (simp add: AddCert_def)

lemma set_update_cases: "(k, v) \<in> set (AList.update k' v' m) \<Longrightarrow> (k, v) \<in> set m \<or> k = k' \<and> v = v'"
  by (induction m) (auto split: if_splits)

lemma pool_inv_AddCert: "pool_inv cp \<Longrightarrow> pool_inv (fst (AddCert cp c))"
  unfolding pool_inv_def
  by (auto simp: AddCert_def wf_map_def distinct_update accepts_cert_def dest!: set_update_cases)

interpretation pool: cert_store pool_inv "\<lambda>cp c. fst (AddCert cp c)" pool_find fingerprint accepts_cert
proof unfold_locales
  fix p c d
  show "pool_inv p \<Longrightarrow> pool_inv (fst (AddCert p c))" by (rule pool_inv_AddCert)
  show "accepts_cert (fst (AddCert p c)) d = accepts_cert p d"
    by (simp add: accepts_cert_def frame_simps)
  show "pool_find (fst (AddCert p c)) =
      (if accepts_cert p c then (pool_find p)(fingerprint c \<mapsto> c) else pool_find p)"
    by (auto simp: fun_eq_iff pool_find_def AddCert_def accepts_cert_def fingerprint_def update_conv')
qed

lemma NewCertPool_inv:
  "pool_inv (NewCertPool [WithFilteredExpiredCerts now e, WithFilteredNonCaCerts ca])"
  by (simp add: NewCertPool_def pool_inv_def WithFilteredExpiredCerts_def WithFilteredNonCaCerts_def
      AppendFilter_def)

lemma NewCertPool_empty:
  "certificates (NewCertPool [WithFilteredExpiredCerts now e, WithFilteredNonCaCerts ca]) = []"
  by (simp add: NewCertPool_def WithFilteredExpiredCerts_def WithFilteredNonCaCerts_def AppendFilter_def)

lemma NewCertPool_accepts:
  "accepts_cert (NewCertPool [WithFilteredExpiredCerts now e, WithFilteredNonCaCerts ca]) c \<longleftrightarrow>
     (e \<longrightarrow> now \<le> crt_NotAfter c) \<and> (ca \<longrightarrow> crt_IsCA c)"
  by (auto simp: NewCertPool_def accepts_cert_def WithFilteredExpiredCerts_def
      WithFilteredNonCaCerts_def AppendFilter_def)

lemma add_all_inv: "pool_inv cp \<Longrightarrow> pool_inv (add_all cp cs)"
  unfolding add_all_def by (rule pool.inv_fold)

text \<open>The list of certificates is a function of the finite map alone.\<close>

lemma pool_find_sorted_keys:
  assumes "pool_inv p" and "pool_inv q" and "pool_find p = pool_find q"
  shows "sort (map fst (certificates p)) = sort (map fst (certificates q))"
proof -
  have "dom (map_of (certificates p)) = dom (map_of (certificates q))"
    using assms(3) by (metis ext pool_find_def)
  then have "set (map fst (certificates p)) = set (map fst (certificates q))"
    by (simp add: dom_map_of_conv_image_fst)
  moreover have "distinct (map fst (certificates p))" "distinct (map fst (certificates q))"
    using assms(1,2) by (auto simp: pool_inv_def wf_map_def)
  ultimately show ?thesis by (metis set_sort sorted_distinct_set_unique distinct_sort sorted_sort)
qed

lemma Certificates_cong:
  assumes "pool_inv p" and "pool_inv q" and "pool_find p = pool_find q"
  shows "Certificates p = Certificates q"
  using pool_find_sorted_keys [OF assms] assms(3)
  by (simp add: Certificates_def pool_find_def fun_eq_iff)

lemma Size_cong:
  assumes "pool_inv p" and "pool_inv q" and "pool_find p = pool_find q"
  shows "Size p = Size q"
  using pool_find_sorted_keys [OF assms] unfolding Size_def by (metis length_map length_sort)

lemma PEM_cong:
  assumes "pool_inv p" and "pool_inv q" and "pool_find p = pool_find q"
  shows "PEM (Some p) = PEM (Some q)"
  using Certificates_cong [OF assms] Size_cong [OF assms] by (simp add: PEM_def Size_def)

lemma set_Certificates:
  assumes "pool_inv cp"
  shows "set (Certificates cp) = ran (pool_find cp)"
proof -
  have "pool_find cp = map_of (certificates cp)" by (simp add: fun_eq_iff pool_find_def)
  then have "set (Certificates cp) = (\<lambda>h. the (pool_find cp h)) ` dom (pool_find cp)"
    by (simp add: Certificates_def dom_map_of_conv_image_fst image_image)
  also have "\<dots> = ran (pool_find cp)" by (force simp: ran_def image_def dom_def)
  finally show ?thesis .
qed

end
