(* ===== verification/Fspkg.thy ===== *)
theory Fspkg
  imports CertPool
begin

text \<open>
  Default CA packages: \<open>pkg/fspkg/package.go\<close>, and the program that checks one,
  \<open>cmd/validate-trust-package/main.go\<close>. The JSON decoder and the file system are
  parameters (\<open>decode\<close>, \<open>os_Open\<close>: the bytes of the file or an error).
\<close>

record Package =
  pkg_Name :: string
  pkg_Bundle :: string
  pkg_Version :: string

definition StringID :: "Package \<Rightarrow> string" where
  "StringID p =
     (let bundleHash = Sum256 (pkg_Bundle p)
      in pkg_Name p @ ''-'' @ pkg_Version p @ ''-'' @ hex_EncodeToString (take 8 bundleHash))"

definition Clone :: "Package \<Rightarrow> Package" where
  "Clone p = \<lparr>pkg_Name = pkg_Name p, pkg_Bundle = pkg_Bundle p, pkg_Version = pkg_Version p\<rparr>"

definition Validate :: "x509_parser \<Rightarrow> int \<Rightarrow> Package \<Rightarrow> gerr option" where
  "Validate parse now p =
     (let certPool = NewCertPool [WithFilteredExpiredCerts now False]
      in case AddCertsFromPEM parse certPool (Some (pkg_Bundle p)) of
           (_, Some err) \<Rightarrow> Some (Wrapf ''package bundle failed validation: '' err)
         | (_, None) \<Rightarrow>
             (if length (pkg_Name p) = 0 then Some (Errorf (''package may not have an empty '' @ [CHR 0x27] @ ''name'' @ [CHR 0x27]))
              else if length (pkg_Version p) = 0
              then Some (Errorf (''package may not have an empty '' @ [CHR 0x27] @ ''version'' @ [CHR 0x27]))
              else None))"

definition LoadPackage :: "(string \<Rightarrow> gerr + Package) \<Rightarrow> x509_parser \<Rightarrow> int \<Rightarrow> string \<Rightarrow> Package res" where
  "LoadPackage decode parse now reader =
     (case decode reader of
        Inl err \<Rightarrow> Err (Wrapf ''failed to parse package JSON: '' err)
      | Inr pkg \<Rightarrow>
          (case Validate parse now pkg of
             Some err \<Rightarrow> Err err
           | None \<Rightarrow> Ok pkg))"

definition requiredExt :: string where "requiredExt = ''.json''"

text \<open>\<open>filepath.Ext\<close>: from the last dot of the last path element.\<close>

definition filepath_Ext :: "string \<Rightarrow> string" where
  "filepath_Ext path =
     (let tail = takeWhile (\<lambda>c. c \<noteq> CHR ''/'' \<and> c \<noteq> CHR ''.'') (rev path);
          before = drop (length tail) (rev path)
      in if before \<noteq> [] \<and> hd before = CHR ''.'' then CHR ''.'' # rev tail else [])"

definition LoadPackageFromFile ::
  "(string \<Rightarrow> gerr + string) \<Rightarrow> (string \<Rightarrow> gerr + Package) \<Rightarrow> x509_parser \<Rightarrow> int \<Rightarrow> string \<Rightarrow> Package res" where
  "LoadPackageFromFile os_Open decode parse now path =
     (if filepath_Ext path \<noteq> requiredExt
      then Err (Errorf (''can't load package at path '' @ go_quote path
             @ '' since it doesn't have the required '' @ go_quote requiredExt @ '' extension''))
      else (case os_Open path of
          Inl err \<Rightarrow> Err (Wrapf (''failed to open package on filesystem '' @ go_quote path @ '': '') err)
        | Inr f \<Rightarrow>
            map_err (Wrapf (''failed to load package '' @ go_quote path @ '': ''))
              (LoadPackage decode parse now f)))"

text \<open>The exit status of \<open>validate-trust-package\<close> on a standard input.\<close>

definition validate_trust_package_main ::
  "(string \<Rightarrow> gerr + Package) \<Rightarrow> x509_parser \<Rightarrow> int \<Rightarrow> string \<Rightarrow> int" where
  "validate_trust_package_main decode parse now stdin =
     (case LoadPackage decode parse now stdin of Ok _ \<Rightarrow> 0 | _ \<Rightarrow> 1)"

lemma Clone_eq [simp]: "Clone p = p"
  by (simp add: Clone_def)

lemma Validate_None_iff:
  "Validate parse now p = None \<longleftrightarrow>
     (\<forall>b \<in> set (pem_blocks (pkg_Bundle p)). block_result parse b \<noteq> Rejected) \<and>
     pkg_Name p \<noteq> [] \<and> pkg_Version p \<noteq> []"
proof -
  let ?r = "AddCertsFromPEM_loop parse (NewCertPool [WithFilteredExpiredCerts now False]) (pkg_Bundle p)"
  have "snd ?r = None \<longleftrightarrow> (\<forall>b \<in> set (pem_blocks (pkg_Bundle p)). block_result parse b \<noteq> Rejected)"
    by (rule AddCertsFromPEM_loop_ok)
  then show ?thesis
    by (auto simp: Validate_def AddCertsFromPEM_def Let_def split: prod.split option.split)
qed

lemma LoadPackage_Ok_iff:
  "LoadPackage decode parse now r = Ok p \<longleftrightarrow> decode r = Inr p \<and> Validate parse now p = None"
  by (auto simp: LoadPackage_def split: sum.split option.split)

lemma LoadPackage_not_Panic: "LoadPackage decode parse now r \<noteq> Panic s"
  by (auto simp: LoadPackage_def split: sum.split option.split)

end
