(* ===== verification/Source.thy ===== *)
theory Source
  imports Fspkg
begin

text \<open>
  Resolving the sources of a Bundle: \<open>pkg/bundle/internal/source/source.go\<close>, with the controller
  options of \<open>pkg/bundle/controller/options.go\<close>. The Kubernetes client is the parameter
  \<open>reader\<close> (its answers at the time of the build), the label selector library is the parameter
  \<open>labels_lib\<close> with its own selector type \<open>'sel\<close>.
\<close>

section \<open>The interfaces the builder calls\<close>

record 'sel labels_lib =
  lib_AsSelector :: "LabelSelector option \<Rightarrow> gerr + 'sel"
  lib_Everything :: 'sel
  lib_Matches :: "'sel \<Rightarrow> string gomap \<Rightarrow> bool"
  lib_Empty :: "'sel \<Rightarrow> bool"
  lib_String :: "'sel \<Rightarrow> string"

record 'sel reader =
  rd_GetConfigMap :: "string \<Rightarrow> string \<Rightarrow> gerr + ConfigMap"
  rd_ListConfigMaps :: "'sel \<Rightarrow> gerr + ConfigMap list"
  rd_GetSecret :: "string \<Rightarrow> string \<Rightarrow> gerr + Secret"
  rd_ListSecrets :: "'sel \<Rightarrow> gerr + Secret list"

record Options =
  opt_Namespace :: string
  opt_DefaultPackageLocation :: string
  opt_SecretTargetsEnabled :: bool
  opt_FilterExpiredCerts :: bool
  opt_FilterNonCACerts :: bool
  opt_TargetNamespaces :: "string list"

record BundleData =
  bdl_CertPool :: CertPool
  bdl_DefaultCAPackageStringID :: string

record BundleBuilder =
  bb_DefaultPackage :: "Package option"
  bb_Options :: Options

section \<open>The kinds of source\<close>

definition inlineBundleSource_addToCertPool ::
  "x509_parser \<Rightarrow> string \<Rightarrow> CertPool \<Rightarrow> CertPool \<times> gerr option" where
  "inlineBundleSource_addToCertPool parse pemData pool =
     (case AddCertsFromPEM parse pool (Some pemData) of
        (pool', Some err) \<Rightarrow> (pool', Some (InvalidPEMError (Wrapf ''inline source contains invalid PEM data: '' err)))
      | (pool', None) \<Rightarrow> (pool', None))"

definition defaultCAsBundleSource_addToCertPool ::
  "x509_parser \<Rightarrow> string \<Rightarrow> CertPool \<Rightarrow> CertPool \<times> gerr option" where
  "defaultCAsBundleSource_addToCertPool parse pemData pool =
     (case AddCertsFromPEM parse pool (Some pemData) of
        (pool', Some err) \<Rightarrow> (pool', Some (InvalidPEMError (Wrapf ''default package contains invalid PEM data: '' err)))
      | (pool', None) \<Rightarrow> (pool', None))"

text \<open>One value of an object, and the loops over all values and over all objects.\<close>

definition invalid_PEM_at :: "string \<Rightarrow> string \<Rightarrow> string \<Rightarrow> string \<Rightarrow> gerr \<Rightarrow> gerr" where
  "invalid_PEM_at kind ns name key err =
     InvalidPEMError (Wrapf (''invalid PEM data in '' @ kind @ '' '' @ ns @ ''/'' @ name
       @ '' at key '' @ go_quote key @ '': '') err)"

definition no_data_at :: "string \<Rightarrow> string \<Rightarrow> string \<Rightarrow> string \<Rightarrow> gerr" where
  "no_data_at kind ns name key =
     NotFoundError (Errorf (''no data found in '' @ kind @ '' '' @ ns @ ''/'' @ name @ '' at key '' @ go_quote key))"

definition add_value ::
  "x509_parser \<Rightarrow> (gerr \<Rightarrow> gerr) \<Rightarrow> string option \<Rightarrow> CertPool \<Rightarrow> CertPool \<times> gerr option" where
  "add_value parse mk data pool =
     (case AddCertsFromPEM parse pool data of
        (pool', Some err) \<Rightarrow> (pool', Some (mk err))
      | (pool', None) \<Rightarrow> (pool', None))"

fun seq_pool :: "(CertPool \<Rightarrow> CertPool \<times> gerr option) list \<Rightarrow> CertPool \<Rightarrow> CertPool \<times> gerr option" where
  "seq_pool [] pool = (pool, None)"
| "seq_pool (f # fs) pool =
     (case f pool of
        (pool', Some err) \<Rightarrow> (pool', Some err)
      | (pool', None) \<Rightarrow> seq_pool fs pool')"

definition configMap_add ::
  "x509_parser \<Rightarrow> SourceObjectKeySelector \<Rightarrow> ConfigMap \<Rightarrow> CertPool \<Rightarrow> CertPool \<times> gerr option" where
  "configMap_add parse ref cm pool =
     (let ns = om_Namespace (cm_Meta cm); name = om_Name (cm_Meta cm); key = sok_Key ref;
          bad = invalid_PEM_at ''ConfigMap'' ns name
      in if length key > 0
         then (case (map_of (cm_Data cm) key, map_of (cm_BinaryData cm) key) of
                 (Some data, _) \<Rightarrow> add_value parse (bad key) (Some data) pool
               | (None, Some binaryData) \<Rightarrow> add_value parse (bad key) binaryData pool
               | (None, None) \<Rightarrow> (pool, Some (no_data_at ''ConfigMap'' ns name key)))
         else if ptr_Deref (sok_IncludeAllKeys ref) False
         then seq_pool (map (\<lambda>(k, data). add_value parse (bad k) (Some data)) (cm_Data cm)
                        @ map (\<lambda>(k, data). add_value parse (bad k) data) (cm_BinaryData cm)) pool
         else (pool, None))"

definition secret_add ::
  "x509_parser \<Rightarrow> SourceObjectKeySelector \<Rightarrow> Secret \<Rightarrow> CertPool \<Rightarrow> CertPool \<times> gerr option" where
  "secret_add parse ref secret pool =
     (let ns = om_Namespace (sec_Meta secret); name = om_Name (sec_Meta secret); key = sok_Key ref;
          bad = invalid_PEM_at ''Secret'' ns name
      in if length key > 0
         then (case map_of (sec_Data secret) key of
                 None \<Rightarrow> (pool, Some (no_data_at ''Secret'' ns name key))
               | Some data \<Rightarrow> add_value parse (bad key) data pool)
         else if ptr_Deref (sok_IncludeAllKeys ref) False
         then (if sec_Type secret = SecretTypeTLS
               then (pool, Some (InvalidSecretError (Errorf
                       (''includeAllKeys is not supported for TLS Secrets such as '' @ ns @ ''/'' @ name))))
               else seq_pool (map (\<lambda>(k, data). add_value parse (bad k) data) (sec_Data secret)) pool)
         else (pool, None))"

text \<open>The objects a reference selects: one by name, or those that match its selector.\<close>

definition select_objects ::
  "string \<Rightarrow> (string \<Rightarrow> string \<Rightarrow> gerr + 'o) \<Rightarrow> ('sel \<Rightarrow> gerr + 'o list) \<Rightarrow> 'sel labels_lib
     \<Rightarrow> string \<Rightarrow> SourceObjectKeySelector \<Rightarrow> gerr + 'o list" where
  "select_objects kind get list lib ns ref =
     (if sok_Name ref \<noteq> []
      then (case get ns (sok_Name ref) of
              Inl e \<Rightarrow>
                (let err = Wrapf (''failed to get '' @ kind @ '' '' @ ns @ ''/'' @ sok_Name ref @ '': '') e
                 in Inl (if apierrors_IsNotFound err then NotFoundError err else err))
            | Inr obj \<Rightarrow> Inr [obj])
      else (case lib_AsSelector lib (sok_Selector ref) of
              Inl selectorErr \<Rightarrow>
                Inl (Wrapf (''failed to parse label selector as Selector for '' @ kind
                  @ '' in namespace '' @ ns @ '': '') selectorErr)
            | Inr selector \<Rightarrow>
                (case list selector of
                   Inl err \<Rightarrow> Inl (Wrapf (''failed to get '' @ kind @ ''List: '') err)
                 | Inr objs \<Rightarrow> Inr objs)))"

definition configMapBundleSource_addToCertPool ::
  "x509_parser \<Rightarrow> 'sel labels_lib \<Rightarrow> 'sel reader \<Rightarrow> string \<Rightarrow> SourceObjectKeySelector
     \<Rightarrow> CertPool \<Rightarrow> CertPool \<times> gerr option" where
  "configMapBundleSource_addToCertPool parse lib rd ns ref pool =
     (case select_objects ''ConfigMap'' (rd_GetConfigMap rd) (rd_ListConfigMaps rd) lib ns ref of
        Inl err \<Rightarrow> (pool, Some err)
      | Inr configMaps \<Rightarrow> seq_pool (map (configMap_add parse ref) configMaps) pool)"

definition secretBundleSource_addToCertPool ::
  "x509_parser \<Rightarrow> 'sel labels_lib \<Rightarrow> 'sel reader \<Rightarrow> string \<Rightarrow> SourceObjectKeySelector
     \<Rightarrow> CertPool \<Rightarrow> CertPool \<times> gerr option" where
  "secretBundleSource_addToCertPool parse lib rd ns ref pool =
     (case select_objects ''Secret'' (rd_GetSecret rd) (rd_ListSecrets rd) lib ns ref of
        Inl err \<Rightarrow> (pool, Some err)
      | Inr secrets \<Rightarrow> seq_pool (map (secret_add parse ref) secrets) pool)"

section \<open>Building a bundle\<close>

text \<open>One source: the new pool and the package ID when the source is the default package.\<close>

definition add_source ::
  "x509_parser \<Rightarrow> 'sel labels_lib \<Rightarrow> 'sel reader \<Rightarrow> BundleBuilder \<Rightarrow> BundleSource \<Rightarrow> BundleData \<Rightarrow> BundleData res" where
  "add_source parse lib rd b src acc =
     (let ns = opt_Namespace (bb_Options b);
          run = (\<lambda>add acc'. (case add (bdl_CertPool acc') of
                    (pool, None) \<Rightarrow> Ok (acc'\<lparr>bdl_CertPool := pool\<rparr>)
                  | (_, Some err) \<Rightarrow> Err err))
      in case bs_ConfigMap src of
           Some ref \<Rightarrow> run (configMapBundleSource_addToCertPool parse lib rd ns ref) acc
         | None \<Rightarrow>
        (case bs_Secret src of
           Some ref \<Rightarrow> run (secretBundleSource_addToCertPool parse lib rd ns ref) acc
         | None \<Rightarrow>
        (if bs_InLine src \<noteq> [] then run (inlineBundleSource_addToCertPool parse (bs_InLine src)) acc
         else
        (case bs_UseDefaultCAs src of
           Some use \<Rightarrow>
             (if \<not> use then Ok acc
              else (case bb_DefaultPackage b of
                  None \<Rightarrow> Err (NotFoundError (Errorf ''no default package was specified when trust-manager was started; default CAs not available''))
                | Some pkg \<Rightarrow>
                    run (defaultCAsBundleSource_addToCertPool parse (pkg_Bundle pkg))
                      (acc\<lparr>bdl_DefaultCAPackageStringID := StringID pkg\<rparr>)))
         | None \<Rightarrow> Panic ''don't know how to process source: {ConfigMap:<nil> Secret:<nil> InLine: UseDefaultCAs:<nil>}''))))"

fun add_sources ::
  "x509_parser \<Rightarrow> 'sel labels_lib \<Rightarrow> 'sel reader \<Rightarrow> BundleBuilder \<Rightarrow> BundleSource list \<Rightarrow> BundleData \<Rightarrow> BundleData res" where
  "add_sources parse lib rd b [] acc = Ok acc"
| "add_sources parse lib rd b (src # srcs) acc =
     bind_res (add_source parse lib rd b src acc) (add_sources parse lib rd b srcs)"

definition BuildBundle ::
  "x509_parser \<Rightarrow> int \<Rightarrow> 'sel labels_lib \<Rightarrow> 'sel reader \<Rightarrow> BundleBuilder \<Rightarrow> BundleSource list \<Rightarrow> BundleData res" where
  "BuildBundle parse now lib rd b sources =
     (let pool = NewCertPool [WithFilteredExpiredCerts now (opt_FilterExpiredCerts (bb_Options b)),
                              WithFilteredNonCaCerts (opt_FilterNonCACerts (bb_Options b))]
      in bind_res
           (add_sources parse lib rd b sources \<lparr>bdl_CertPool = pool, bdl_DefaultCAPackageStringID = []\<rparr>)
           (\<lambda>resolvedBundle.
              if Size (bdl_CertPool resolvedBundle) = 0
              then Err (NotFoundError (Errorf ''couldn't find any valid certificates in bundle''))
              else Ok resolvedBundle))"

end
