(* ===== verification/GoPemRoundtrip.thy ===== *)
theory GoPemRoundtrip
  imports GoPem
begin

text \<open>
  \<open>pem.Decode\<close> reads back the CERTIFICATE blocks that \<open>pem.Encode\<close> writes: the base64
  round trip, the shape of the encoded lines, and the block around them.
\<close>

section \<open>Base64\<close>

lemma of_char_lt [simp]: "(of_char c :: nat) < 256"
  using nat_of_char_less_256 by simp

lemma b64_char_val:
  assumes "n < 64"
  shows "b64_val (b64_char n) = Some n"
  using assms by (auto simp: b64_char_def b64_val_def Let_def take_bit_eq_mod)

definition b64_alphabet :: "char set" where
  "b64_alphabet = insert pad_char (b64_char ` {..<64})"

lemma b64_char_in [intro]: "n < 64 \<Longrightarrow> b64_char n \<in> b64_alphabet"
  by (auto simp: b64_alphabet_def)

lemma b64_val_pad [simp]: "b64_val pad_char = None"
  by (simp add: b64_val_def pad_char_def)

lemma b64_char_not_pad [simp]: "n < 64 \<Longrightarrow> b64_char n \<noteq> pad_char"
  using b64_char_val [of n] by auto

lemma b64_alphabet_val: "c \<in> b64_alphabet \<Longrightarrow> b64_val c \<noteq> None \<or> c = pad_char"
  by (auto simp: b64_alphabet_def b64_char_val)

lemma b64_alphabet_not [simp]:
  "nl \<notin> b64_alphabet" "CHR 0x0D \<notin> b64_alphabet" "CHR 0x20 \<notin> b64_alphabet"
  "CHR 0x09 \<notin> b64_alphabet" "CHR ''-'' \<notin> b64_alphabet" "CHR '':'' \<notin> b64_alphabet"
  by (auto dest!: b64_alphabet_val simp: b64_val_def pad_char_def nl_def)

lemma set_b64_encode: "set (b64_encode bs) \<subseteq> b64_alphabet"
proof (induction bs rule: b64_encode.induct)
  case (4 a b c r)
  have "(of_char b :: nat) mod 16 * 4 + of_char c div 64 < 64"
    "(of_char a :: nat) mod 4 * 16 + of_char b div 16 < 64" "(of_char a :: nat) div 4 < 64"
    using of_char_lt [of a] of_char_lt [of b] of_char_lt [of c] by linarith+
  with 4 show ?case by (auto simp: Let_def)
next
  case (3 a b)
  have "(of_char b :: nat) mod 16 * 4 < 64"
    "(of_char a :: nat) mod 4 * 16 + of_char b div 16 < 64" "(of_char a :: nat) div 4 < 64"
    using of_char_lt [of a] of_char_lt [of b] by linarith+
  then show ?case by (auto simp: Let_def b64_alphabet_def)
next
  case (2 a)
  have "(of_char a :: nat) mod 4 * 16 < 64" "(of_char a :: nat) div 4 < 64"
    using of_char_lt [of a] by linarith+
  then show ?case by (auto simp: Let_def b64_alphabet_def)
qed simp

lemma char_of_char_eq: "n = of_char c \<Longrightarrow> char_of (n :: nat) = c"
  by simp

lemma b64_first: "(y::nat) < 16 \<Longrightarrow> x div 4 * 4 + (x mod 4 * 16 + y) div 16 = x"
  by simp

lemma b64_second:
  "(z::nat) < 4 \<Longrightarrow> y < 256 \<Longrightarrow> (x * 16 + y div 16) mod 16 * 16 + (y mod 16 * 4 + z) div 4 = y"
  by (simp add: mod_less)

lemma b64_third: "(z::nat) < 256 \<Longrightarrow> (y * 4 + z div 64) mod 4 * 64 + z mod 64 = z"
  by simp

lemma b64_quanta_roundtrip: "b64_decode_quanta (b64_encode bs) = Some bs"
proof (induction bs rule: b64_encode.induct)
  case (4 a b c r)
  let ?x = "of_char a :: nat" and ?y = "of_char b :: nat" and ?z = "of_char c :: nat"
  have b: "?y mod 16 * 4 + ?z div 64 < 64" "?x mod 4 * 16 + ?y div 16 < 64" "?x div 4 < 64"
    "?y div 16 < 16" "?z div 64 < 4"
    using of_char_lt [of a] of_char_lt [of b] of_char_lt [of c] by linarith+
  have "char_of (?x div 4 * 4 + (?x mod 4 * 16 + ?y div 16) div 16) = a"
    "char_of ((?x mod 4 * 16 + ?y div 16) mod 16 * 16 + (?y mod 16 * 4 + ?z div 64) div 4) = b"
    "char_of ((?y mod 16 * 4 + ?z div 64) mod 4 * 64 + ?z mod 64) = c"
    using b by (simp_all only: b64_first b64_second b64_third of_char_lt char_of_char)
  with b 4 show ?case
    by (simp add: Let_def b64_char_val del: char_of_eq_iff div_mult_self1 div_mult_self2)
next
  case (3 a b)
  let ?x = "of_char a :: nat" and ?y = "of_char b :: nat"
  have b: "?y mod 16 * 4 < 64" "?x mod 4 * 16 + ?y div 16 < 64" "?x div 4 < 64" "?y div 16 < 16"
    using of_char_lt [of a] of_char_lt [of b] by linarith+
  have "char_of (?x div 4 * 4 + (?x mod 4 * 16 + ?y div 16) div 16) = a"
    "char_of ((?x mod 4 * 16 + ?y div 16) mod 16 * 16 + (?y mod 16 * 4) div 4) = b"
    using b b64_second [of 0 ?y "?x mod 4"]
    by (simp_all only: b64_first of_char_lt char_of_char add_0_right zero_less_numeral simp_thms)
  with b show ?case by (simp add: Let_def b64_char_val)
next
  case (2 a)
  let ?x = "of_char a :: nat"
  have b: "?x mod 4 * 16 < 64" "?x div 4 < 64" using of_char_lt [of a] by linarith+
  have "char_of (?x div 4 * 4 + (?x mod 4 * 16) div 16) = a"
    using b64_first [of 0 ?x] by simp
  with b show ?case by (simp add: Let_def b64_char_val)
qed simp

lemma b64_encode_eq_Nil [simp]: "b64_encode bs = [] \<longleftrightarrow> bs = []"
  by (cases bs rule: b64_encode.cases) (auto simp: Let_def)

section \<open>Lines\<close>

lemma set_wrap_lines: "set (wrap_lines s) \<subseteq> insert nl (set s)"
proof (induction s rule: wrap_lines.induct)
  case (1 s)
  then show ?case
    by (subst wrap_lines.simps) (auto dest: in_set_takeD in_set_dropD)
qed

lemma filter_wrap_lines:
  assumes "\<forall>c \<in> set s. P c" and "\<not> P nl"
  shows "filter P (wrap_lines s) = s"
  using assms
proof (induction s rule: wrap_lines.induct)
  case (1 s)
  show ?case
  proof (cases "s = []")
    case True
    then show ?thesis by (simp add: wrap_lines.simps)
  next
    case False
    with 1 have "filter P (wrap_lines (drop 64 s)) = drop 64 s" by (auto dest: in_set_dropD)
    moreover have "filter P (take 64 s) = take 64 s" using 1 by (auto simp: filter_id_conv dest: in_set_takeD)
    ultimately show ?thesis using False \<open>\<not> P nl\<close> by (subst wrap_lines.simps) simp
  qed
qed

lemma wrap_lines_snoc: "s \<noteq> [] \<Longrightarrow> \<exists>t. wrap_lines s = t @ [nl]"
proof (induction s rule: wrap_lines.induct)
  case (1 s)
  show ?case
  proof (cases "drop 64 s = []")
    case True
    with 1 show ?thesis by (subst wrap_lines.simps) (simp add: wrap_lines.simps [of "[]"])
  next
    case False
    with 1 obtain t where "wrap_lines (drop 64 s) = t @ [nl]" by blast
    with 1 show ?thesis by (subst wrap_lines.simps) simp
  qed
qed

section \<open>Searching\<close>

lemma index_of_skip:
  "sub \<noteq> [] \<Longrightarrow> hd sub \<notin> set u \<Longrightarrow>
   index_of sub (u @ s) = map_option (\<lambda>i. length u + i) (index_of sub s)"
proof (induction u)
  case Nil
  then show ?case by (simp add: option.map_ident)
next
  case (Cons c u)
  then have "\<not> has_prefix (c # u @ s) sub" by (cases sub) auto
  with Cons show ?case by (simp add: option.map_comp comp_def)
qed

lemma index_of_pemEnd:
  "CHR ''-'' \<notin> set q \<Longrightarrow> index_of pemEnd (q @ pemEnd @ r) = Some (length q)"
proof (induction q)
  case Nil
  then show ?case by (simp add: pemEnd_def)
next
  case (Cons c q)
  have "\<not> has_prefix ((c # q) @ pemEnd @ r) pemEnd"
    using Cons.prems by (cases q) (auto simp: pemEnd_def nl_def)
  with Cons show ?case by simp
qed

lemma last_index_of_None: "sub \<noteq> [] \<Longrightarrow> hd sub \<notin> set s \<Longrightarrow> last_index_of sub s = None"
proof (induction s)
  case (Cons c s)
  then show ?case by (cases sub) auto
qed simp

section \<open>One certificate block\<close>

definition begin_line :: string where "begin_line = pemBegin @ ''CERTIFICATE-----''"

text \<open>The text of a certificate block up to its last newline, as a body between the markers.\<close>

definition body_of :: "string \<Rightarrow> string" where
  "body_of bs = (if bs = [] then [] else nl # butlast (wrap_lines (b64_encode bs)))"

lemma body_of_lines: "body_of bs @ [nl] = nl # wrap_lines (b64_encode bs)"
proof (cases "bs = []")
  case True
  then show ?thesis by (simp add: body_of_def wrap_lines.simps)
next
  case False
  with wrap_lines_snoc [of "b64_encode bs"] obtain t where "wrap_lines (b64_encode bs) = t @ [nl]" by auto
  with False show ?thesis by (simp add: body_of_def)
qed

lemma pem_Encode_shape:
  "pem_Encode ''CERTIFICATE'' bs = begin_line @ body_of bs @ pemEnd @ ''CERTIFICATE-----'' @ [nl]"
proof -
  have "begin_line @ body_of bs @ pemEnd @ ''CERTIFICATE-----'' @ [nl]
      = begin_line @ (body_of bs @ [nl]) @ tl pemEnd @ ''CERTIFICATE-----'' @ [nl]"
    by (simp add: pemEnd_def)
  also have "\<dots> = pem_Encode ''CERTIFICATE'' bs"
    by (simp only: body_of_lines) (simp add: begin_line_def pem_Encode_def pemEndOfLine_def)
  finally show ?thesis by simp
qed

lemma set_body_of: "set (body_of bs) \<subseteq> insert nl b64_alphabet"
proof (cases "bs = []")
  case False
  then show ?thesis
    using set_wrap_lines [of "b64_encode bs"] set_b64_encode [of bs]
    by (fastforce simp: body_of_def dest: in_set_butlastD)
qed (simp add: body_of_def)

lemma body_of_no_dash: "CHR ''-'' \<notin> set (body_of bs)"
  using set_body_of [of bs] by (auto simp: nl_def)

lemma index_of_end:
  "index_of pemEnd (begin_line @ body_of bs @ pemEnd @ r) = Some (length begin_line + length (body_of bs))"
proof -
  have "pemEnd \<noteq> []" "hd pemEnd \<notin> set begin_line"
    by (auto simp: pemEnd_def begin_line_def pemBegin_def nl_def)
  then show ?thesis by (simp add: index_of_skip index_of_pemEnd body_of_no_dash)
qed

lemma last_index_of_begin: "last_index_of pemBegin (begin_line @ body_of bs) = Some 0"
proof -
  have n: "last_index_of pemBegin (body_of bs) = None"
    by (rule last_index_of_None) (auto simp: pemBegin_def body_of_no_dash)
  consider "body_of bs = []" | t where "body_of bs = nl # t"
    by (cases "bs = []") (auto simp: body_of_def)
  then show ?thesis
    by cases (use n in \<open>simp_all add: begin_line_def pemBegin_def nl_def del: last_index_of.simps(1)\<close>)
qed

lemma decode_body:
  "b64_decode (filter (\<lambda>c. c \<noteq> CHR 0x20 \<and> c \<noteq> CHR 0x09) (tl (body_of bs))) = Some bs"
proof -
  let ?P = "\<lambda>c. (c \<noteq> nl \<and> c \<noteq> CHR 0x0D) \<and> c \<noteq> CHR 0x20 \<and> c \<noteq> CHR 0x09"
  have "filter ?P (body_of bs @ [nl]) = filter ?P (nl # wrap_lines (b64_encode bs))"
    by (simp only: body_of_lines)
  also have "\<dots> = b64_encode bs"
    using set_b64_encode [of bs] by (simp, intro filter_wrap_lines) auto
  finally have "filter ?P (body_of bs) = b64_encode bs" by simp
  moreover have "filter ?P (tl (body_of bs)) = filter ?P (body_of bs)"
    by (simp add: body_of_def)
  ultimately show ?thesis
    by (simp add: b64_decode_def b64_quanta_roundtrip conj_ac)
qed

lemma get_line_nl [simp]: "get_line (nl # s) = ([], s)"
  by (simp add: get_line_def trim_right_def drop_cr_def)

lemma get_line_Nil [simp]: "get_line [] = ([], [])"
  by (simp add: get_line_def trim_right_def)

lemma pem_headers_none:
  "r \<noteq> [] \<Longrightarrow> CHR '':'' \<notin> set (fst (get_line r)) \<Longrightarrow> pem_headers r = Some ([], r)"
  by (subst pem_headers.simps) simp

lemma set_fst_get_line: "set (fst (get_line s)) \<subseteq> set (takeWhile (\<lambda>c. c \<noteq> nl) s)"
  by (auto simp: get_line_def Let_def trim_right_def drop_cr_def
      dest!: set_dropWhileD in_set_butlastD split: if_splits)

definition cert_rest :: "string \<Rightarrow> string \<Rightarrow> string" where
  \<comment> \<open>what follows the BEGIN line\<close>
  "cert_rest bs t = tl (body_of bs @ pemEnd @ ''CERTIFICATE-----'' @ t)"

lemma cert_rest_nl: "body_of bs @ pemEnd @ ''CERTIFICATE-----'' @ t = nl # cert_rest bs t"
  by (cases "bs = []") (simp_all add: cert_rest_def body_of_def pemEnd_def)

lemma cert_rest_Nil [simp]: "cert_rest bs t \<noteq> []"
  by (cases "bs = []") (simp_all add: cert_rest_def body_of_def pemEnd_def)

lemma cert_rest_headers:
  assumes "t = [] \<or> t = nl # tail"
  shows "pem_headers (cert_rest bs t) = Some ([], cert_rest bs t)"
proof (rule pem_headers_none)
  have "CHR '':'' \<notin> set (takeWhile (\<lambda>c. c \<noteq> nl) (cert_rest bs t))"
  proof (cases "bs = []")
    case True
    with assms show ?thesis by (auto simp: cert_rest_def body_of_def pemEnd_def nl_def)
  next
    case False
    then have "cert_rest bs t = tl (body_of bs) @ nl # tl (pemEnd @ ''CERTIFICATE-----'' @ t)"
      by (simp add: cert_rest_def body_of_def pemEnd_def)
    then have "set (takeWhile (\<lambda>c. c \<noteq> nl) (cert_rest bs t)) \<subseteq> set (body_of bs)"
      using False by (auto simp: body_of_def takeWhile_append dest!: set_takeWhileD split: if_splits)
    then show ?thesis using set_body_of [of bs] by (auto simp: nl_def)
  qed
  then show "CHR '':'' \<notin> set (fst (get_line (cert_rest bs t)))"
    using set_fst_get_line [of "cert_rest bs t"] by blast
qed simp

lemma pem_try_cert:
  assumes "t = [] \<or> t = nl # tail"
  shows "pem_try (begin_line @ body_of bs @ pemEnd @ ''CERTIFICATE-----'' @ t) =
     Found \<lparr>blk_Type = ''CERTIFICATE'', blk_Headers = [], blk_Bytes = bs\<rparr> (if t = [] then [] else tail)"
proof -
  let ?after = "''CERTIFICATE-----'' @ t"
  let ?s = "begin_line @ body_of bs @ pemEnd @ ?after"
  let ?data = "cert_rest bs t"
  have e: "index_of pemEnd ?s = Some (length begin_line + length (body_of bs))"
    by (rule index_of_end)
  have after: "drop (length begin_line + length (body_of bs) + length pemEnd) ?s = ?after"
    by simp
  have b: "last_index_of pemBegin (take (length begin_line + length (body_of bs)) ?s) = Some 0"
    using last_index_of_begin by simp
  have "drop (0 + length pemBegin) ?s = ''CERTIFICATE-----'' @ nl # ?data"
    by (simp add: begin_line_def flip: cert_rest_nl)
  then have line: "get_line (drop (0 + length pemBegin) ?s) = (''CERTIFICATE-----'', ?data)"
    by (simp add: get_line_def trim_right_def drop_cr_def nl_def)
  have "length (nl # ?data) = length (body_of bs) + length pemEnd + length ?after"
    by (simp flip: cert_rest_nl)
  then have idx: "int (length begin_line + length (body_of bs)) - (int (length ?s) - int (length ?data))
      = int (length (body_of bs)) - 1"
    by simp
  have "take (length (body_of bs) - 1) ?data = tl (body_of bs)"
    by (cases "bs = []") (simp_all add: cert_rest_def body_of_def)
  then have dec: "b64_decode (filter (\<lambda>c. c \<noteq> CHR 0x20 \<and> c \<noteq> CHR 0x09)
      (take (nat (int (length (body_of bs)) - 1)) ?data)) = Some bs"
    using decode_body [of bs] by (simp add: nat_diff_distrib')
  have final: "snd (get_line (CHR 0x20 # ?after)) = (if t = [] then [] else tail)"
    "fst (get_line t) = []"
    using assms by (auto simp: get_line_def nl_def trim_right_def drop_cr_def)
  have ty: "has_suffix ''CERTIFICATE-----'' pemEndOfLine"
    "take (length ''CERTIFICATE-----'' - length pemEndOfLine) ''CERTIFICATE-----'' = ''CERTIFICATE''"
    "length ''CERTIFICATE'' + length pemEndOfLine = 16"
    by (simp_all add: pemEndOfLine_def has_suffix_def)
  show ?thesis
    unfolding pem_try_def e option.case after b Let_def line prod.case
      cert_rest_headers [OF assms] idx dec ty(2)
    using final ty by simp
qed

lemma pem_Decode_cert:
  assumes "t = [] \<or> t = nl # tail"
  shows "pem_Decode (begin_line @ body_of bs @ pemEnd @ ''CERTIFICATE-----'' @ t) =
     (Some \<lparr>blk_Type = ''CERTIFICATE'', blk_Headers = [], blk_Bytes = bs\<rparr>, if t = [] then [] else tail)"
  by (simp only: pem_Decode_def pem_loop.simps [of "begin_line @ _"] pem_try_cert [OF assms]
      pem_attempt.case option.case prod.case)

end
