(* ===== verification/PoolTheorems.thy ===== *)
theory PoolTheorems
  imports CertPool GoPemRoundtrip
begin

text \<open>
  What the certificate pool (\<open>CertPool\<close>) promises: which inputs it accepts, which certificates
  it then holds, that its PEM output does not depend on the order in which they arrived, and that
  the output reads back as the same certificates.
\<close>

section \<open>Adding PEM data\<close>

lemma AddCertsFromPEM_inv: "pool_inv cp \<Longrightarrow> pool_inv (fst (AddCertsFromPEM parse cp d))"
proof -
  assume "pool_inv cp"
  have "pool_inv cp \<Longrightarrow> pool_inv (fst (AddCertsFromPEM_loop parse cp data))" for data
  proof (induction data arbitrary: cp rule: pem_blocks_cases)
    case (Next data b r)
    show ?case
    proof (cases "block_result parse b")
      case Rejected
      with loop_Rejected [OF Next(1), of parse cp] Next.prems show ?thesis by auto
    next
      case (Accepted c)
      with Next pool_inv_AddCert show ?thesis by (simp add: loop_Accepted)
    next
      case Skipped
      with Next show ?thesis by (simp add: loop_Skipped)
    qed
  qed (simp add: loop_end)
  with \<open>pool_inv cp\<close> show ?thesis by (simp add: AddCertsFromPEM_def split: option.split)
qed

lemma AddCertsFromPEM_filters [frame_simps]: "filters (fst (AddCertsFromPEM parse cp d)) = filters cp"
proof -
  have "filters (fst (AddCertsFromPEM_loop parse cp data)) = filters cp" for data
  proof (induction data arbitrary: cp rule: pem_blocks_cases)
    case (Next data b r)
    show ?case
    proof (cases "block_result parse b")
      case Rejected
      with loop_Rejected [OF Next(1), of parse cp] show ?thesis by auto
    qed (use Next in \<open>simp_all add: pool_simps frame_simps\<close>)
  qed (simp add: loop_end)
  then show ?thesis by (simp add: AddCertsFromPEM_def split: option.split)
qed

lemma AddCertsFromPEM_accepts [frame_simps]:
  "accepts_cert (fst (AddCertsFromPEM parse cp d)) c = accepts_cert cp c"
  by (simp add: accepts_cert_def frame_simps)

lemma AddCertsFromPEM_ok:
  "AddCertsFromPEM parse cp (Some data) = (cp', None) \<Longrightarrow> cp' = add_all cp (pem_certs parse data)"
  using AddCertsFromPEM_loop_result [of parse cp data] by (simp add: AddCertsFromPEM_def)

lemma block_result_not_Rejected:
  "block_result parse b \<noteq> Rejected \<longleftrightarrow>
     blk_Type b = ''CERTIFICATE'' \<and> blk_Headers b = [] \<and>
     ((\<exists>c. ParseCertificate parse (blk_Bytes b) = (Some c, None)) \<or>
      (\<exists>c err. ParseCertificate parse (blk_Bytes b) = (c, Some err) \<and> IsSkipError err))"
  by (auto simp: block_result_def split: prod.splits option.splits)

text \<open>
  The pool accepts PEM data only if every PEM block in it is a header-less CERTIFICATE block
  that parses as a certificate or is the one certificate skipped for compatibility; a private
  key, a block with headers or an unparseable certificate anywhere makes the whole input fail.
  Data without any block is accepted.
\<close>

lemma AddCertsFromPEM_strict:
  "snd (AddCertsFromPEM parse cp (Some data)) = None \<longleftrightarrow>
     list_all (\<lambda>b. blk_Type b = ''CERTIFICATE'' \<and> blk_Headers b = [] \<and>
       ((\<exists>c. ParseCertificate parse (blk_Bytes b) = (Some c, None)) \<or>
        (\<exists>c err. ParseCertificate parse (blk_Bytes b) = (c, Some err) \<and> IsSkipError err)))
     (pem_blocks data)"
  by (simp only: AddCertsFromPEM_def option.case AddCertsFromPEM_loop_ok block_result_not_Rejected
      list_all_iff)

section \<open>Contents after a success\<close>

definition new_pool :: "int \<Rightarrow> bool \<Rightarrow> bool \<Rightarrow> CertPool" where
  "new_pool now filterExpired filterNonCA =
     NewCertPool [WithFilteredExpiredCerts now filterExpired, WithFilteredNonCaCerts filterNonCA]"

lemma new_pool_simps [simp]:
  "pool_inv (new_pool now e ca)" "certificates (new_pool now e ca) = []"
  "accepts_cert (new_pool now e ca) c \<longleftrightarrow> (e \<longrightarrow> now \<le> crt_NotAfter c) \<and> (ca \<longrightarrow> crt_IsCA c)"
  by (simp_all add: new_pool_def NewCertPool_inv NewCertPool_empty NewCertPool_accepts)

lemma new_pool_find [simp]: "pool_find (new_pool now e ca) h = None"
  by (simp add: pool_find_def)

lemma set_Certificates_add_all:
  assumes "inj_on fingerprint {c \<in> set cs. accepts_cert (new_pool now e ca) c}"
  shows "set (Certificates (add_all (new_pool now e ca) cs)) =
     {c \<in> set cs. accepts_cert (new_pool now e ca) c}" (is "_ = ?S")
proof -
  let ?p = "new_pool now e ca"
  have "ran (pool_find (add_all ?p cs)) = ?S"
  proof
    show "ran (pool_find (add_all ?p cs)) \<subseteq> ?S"
      using pool.find_fold_accepted [of ?p cs] by (auto simp: add_all_def ran_def)
    show "?S \<subseteq> ran (pool_find (add_all ?p cs))"
      using pool.find_fold_member [OF new_pool_simps(1) _ _ assms]
      by (auto simp: add_all_def ran_def)
  qed
  then show ?thesis by (simp add: set_Certificates add_all_inv)
qed

text \<open>
  C9: After PEM data has been accepted into a new pool, the pool holds exactly the certificates of
  its blocks that the filters let through: unexpired ones when expired certificates are filtered,
  CA certificates when the others are (no two of them colliding on their digest).
\<close>

theorem AddCertsFromPEM_contents:
  assumes "AddCertsFromPEM parse (new_pool now filterExpired filterNonCA) (Some data) = (cp, None)"
    and "inj_on fingerprint (set (pem_certs parse data))"
  shows "set (Certificates cp) =
    {c \<in> set (pem_certs parse data).
       (filterExpired \<longrightarrow> now \<le> crt_NotAfter c) \<and> (filterNonCA \<longrightarrow> crt_IsCA c)}"
proof -
  have "inj_on fingerprint {c \<in> set (pem_certs parse data). accepts_cert (new_pool now filterExpired filterNonCA) c}"
    by (rule inj_on_subset [OF assms(2)]) auto
  from set_Certificates_add_all [OF this] show ?thesis
    using AddCertsFromPEM_ok [OF assms(1)] by simp
qed

definition example_cert :: "string \<Rightarrow> int \<Rightarrow> Certificate" where
  "example_cert der t =
     \<lparr>crt_Raw = der, crt_Subject = ''CN=ca'', crt_NotBefore = 0, crt_NotAfter = t, crt_IsCA = True\<rparr>"

definition example_parse :: x509_parser where
  "example_parse der =
     (if der = [] then (None, Some (Errorf ''x509: malformed certificate''))
      else (Some (example_cert der 100), None))"

definition example_pem :: string where
  "example_pem = pem_Encode ''CERTIFICATE'' ''ab''"

lemma example_blocks:
  "pem_blocks example_pem = [\<lparr>blk_Type = ''CERTIFICATE'', blk_Headers = [], blk_Bytes = ''ab''\<rparr>]"
  by code_simp

lemma example_ParseCertificate [simp]:
  "d \<noteq> [] \<Longrightarrow> ParseCertificate example_parse d = (Some (example_cert d 100), None)"
  by (simp add: ParseCertificate_def example_parse_def)

lemma example_certs: "pem_certs example_parse example_pem = [example_cert ''ab'' 100]"
  by (simp add: pem_certs_def example_blocks block_result_def)

lemma example_add: "AddCertsFromPEM example_parse cp (Some example_pem) = (fst (AddCert cp (example_cert ''ab'' 100)), None)"
proof -
  have ok: "snd (AddCertsFromPEM example_parse cp (Some example_pem)) = None"
    by (simp add: AddCertsFromPEM_def AddCertsFromPEM_loop_ok example_blocks block_result_def)
  then show ?thesis
    using AddCertsFromPEM_ok [of example_parse cp example_pem]
    by (simp add: example_certs prod_eq_iff)
qed

theorem AddCertsFromPEM_contents_witness:
  "\<exists>cp. AddCertsFromPEM example_parse (new_pool 50 True True) (Some example_pem) = (cp, None) \<and>
     set (Certificates cp) = {example_cert ''ab'' 100}"
proof -
  have "set (Certificates (fst (AddCert (new_pool 50 True True) (example_cert ''ab'' 100)))) =
      {c \<in> set (pem_certs example_parse example_pem). (True \<longrightarrow> 50 \<le> crt_NotAfter c) \<and> (True \<longrightarrow> crt_IsCA c)}"
    by (rule AddCertsFromPEM_contents [OF example_add]) (simp add: example_certs)
  also have "\<dots> = {example_cert ''ab'' 100}" by (auto simp: example_certs example_cert_def)
  finally show ?thesis using example_add by blast
qed

section \<open>Determinism of the output\<close>

text \<open>
  The PEM bundle of a pool does not depend on the order in which certificates were added nor
  on how often each of them was: two lists with the same set of certificates give byte-identical
  output (the accepted ones not colliding on their digest).
\<close>

theorem PEM_order_independent:
  assumes "set cs = set ds"
    and "inj_on fingerprint {c \<in> set cs. accepts_cert (new_pool now filterExpired filterNonCA) c}"
  shows "PEM (Some (add_all (new_pool now filterExpired filterNonCA) cs)) =
     PEM (Some (add_all (new_pool now filterExpired filterNonCA) ds))"
proof (rule PEM_cong)
  show "pool_find (add_all (new_pool now filterExpired filterNonCA) cs) =
     pool_find (add_all (new_pool now filterExpired filterNonCA) ds)"
    unfolding add_all_def by (rule pool.find_fold_set [OF _ assms]) simp
qed (simp_all add: add_all_inv)

theorem PEM_order_independent_witness:
  "PEM (Some (add_all (new_pool 50 True False) [example_cert ''ab'' 100, example_cert ''old'' 10])) =
   PEM (Some (add_all (new_pool 50 True False)
     [example_cert ''old'' 10, example_cert ''ab'' 100, example_cert ''ab'' 100]))"
proof (rule PEM_order_independent)
  show "inj_on fingerprint {c \<in> set [example_cert ''ab'' 100, example_cert ''old'' 10].
      accepts_cert (new_pool 50 True False) c}"
    by (auto simp: example_cert_def inj_on_def)
qed auto

section \<open>Shape of the certificate list\<close>

lemma length_Certificates: "length (Certificates cp) = Size cp"
  by (simp add: Certificates_def Size_def)

lemma map_fingerprint_Certificates:
  assumes "pool_inv cp"
  shows "map fingerprint (Certificates cp) = sort (map fst (certificates cp))"
proof -
  have "fingerprint (the (map_of (certificates cp) h)) = h" if h: "h \<in> fst ` set (certificates cp)" for h
  proof -
    from h obtain c where "map_of (certificates cp) h = Some c"
      by (metis map_of_eq_None_iff not_None_eq)
    with assms show ?thesis by (auto simp: pool_inv_def fingerprint_def dest!: map_of_SomeD)
  qed
  then show ?thesis by (auto simp: Certificates_def o_def intro!: map_idI)
qed

lemma sorted_Certificates:
  "pool_inv cp \<Longrightarrow> sorted_wrt (<) (map fingerprint (Certificates cp))"
  by (simp add: map_fingerprint_Certificates strict_sorted_iff pool_inv_def wf_map_def)

text \<open>
  C33: Whatever PEM data is offered to a new pool, and whether or not it is accepted as a whole, the
  certificates in the pool are listed in strictly ascending order of their SHA-256 digests (so
  without duplicates) and every one of them passed the filters.
\<close>

theorem Certificates_sorted_and_filtered:
  "sorted_wrt (<) (map fingerprint (Certificates (fst (AddCertsFromPEM parse (new_pool now e ca) d)))) \<and>
   list_all (accepts_cert (new_pool now e ca))
     (Certificates (fst (AddCertsFromPEM parse (new_pool now e ca) d)))"
proof
  let ?cp = "fst (AddCertsFromPEM parse (new_pool now e ca) d)"
  have inv: "pool_inv ?cp" by (simp add: AddCertsFromPEM_inv)
  show "sorted_wrt (<) (map fingerprint (Certificates ?cp))" by (rule sorted_Certificates [OF inv])
  have "accepts_cert ?cp c" if "c \<in> set (Certificates ?cp)" for c
    using that inv by (auto simp: set_Certificates ran_def pool_find_def pool_inv_def dest!: map_of_SomeD)
  then show "list_all (accepts_cert (new_pool now e ca)) (Certificates ?cp)"
    by (simp add: list_all_iff AddCertsFromPEM_accepts del: new_pool_simps)
qed

section \<open>Round trip\<close>

definition enc :: "Certificate \<Rightarrow> string" where
  "enc c = pem_Encode ''CERTIFICATE'' (crt_Raw c)"

lemma enc_shape: "enc c = begin_line @ body_of (crt_Raw c) @ pemEnd @ ''CERTIFICATE-----'' @ [nl]"
  by (simp add: enc_def pem_Encode_shape)

lemma butlast_concat_enc:
  "butlast (concat (map enc (c # cs))) =
     begin_line @ body_of (crt_Raw c) @ pemEnd @ ''CERTIFICATE-----''
     @ (if cs = [] then [] else nl # butlast (concat (map enc cs)))"
proof (cases "cs = []")
  case False
  then have "concat (map enc cs) \<noteq> []" by (cases cs) (simp_all add: enc_shape begin_line_def)
  with False show ?thesis by (simp add: enc_shape butlast_append)
qed (simp add: enc_shape butlast_append pemEnd_def)

lemma trim_space_concat_enc:
  assumes "cs \<noteq> []"
  shows "trim_space (concat (map enc cs)) = butlast (concat (map enc cs))"
proof -
  from assms obtain ds d where "cs = ds @ [d]" by (metis rev_exhaust)
  then obtain t where t: "concat (map enc cs) = t @ [CHR ''-'', nl]"
    by (simp add: enc_shape)
  from assms obtain u where "concat (map enc cs) = CHR ''-'' # u"
    by (cases cs) (simp_all add: enc_shape begin_line_def pemBegin_def)
  then have "dropWhile is_space (concat (map enc cs)) = concat (map enc cs)"
    by (simp add: is_space_def nl_def)
  then show ?thesis by (simp add: trim_space_def t is_space_def nl_def butlast_append)
qed

lemma pem_Decode_Nil: "pem_Decode [] = (None, [])"
  by (simp add: pem_Decode_def pem_loop.simps [of "[]"] pem_try_def pemEnd_def)

lemma pem_blocks_enc:
  "cs \<noteq> [] \<Longrightarrow> pem_blocks (butlast (concat (map enc cs))) =
     map (\<lambda>c. \<lparr>blk_Type = ''CERTIFICATE'', blk_Headers = [], blk_Bytes = crt_Raw c\<rparr>) cs"
proof (induction cs)
  case (Cons c cs)
  let ?t = "if cs = [] then [] else nl # butlast (concat (map enc cs))"
  have "pem_Decode (butlast (concat (map enc (c # cs)))) =
      (Some \<lparr>blk_Type = ''CERTIFICATE'', blk_Headers = [], blk_Bytes = crt_Raw c\<rparr>,
       if ?t = [] then [] else butlast (concat (map enc cs)))"
    unfolding butlast_concat_enc by (rule pem_Decode_cert) auto
  from pem_blocks_next [OF this] show ?case
    using Cons by (cases "cs = []") (simp_all add: pem_blocks_end [OF pem_Decode_Nil])
qed simp

lemma PEM_eq: "PEM (Some cp) = (if Size cp = 0 then [] else trim_space (concat (map enc (Certificates cp))))"
  by (simp add: PEM_def Size_def enc_def [abs_def])

lemma pem_blocks_PEM:
  "pem_blocks (PEM (Some cp)) =
     map (\<lambda>c. \<lparr>blk_Type = ''CERTIFICATE'', blk_Headers = [], blk_Bytes = crt_Raw c\<rparr>) (Certificates cp)"
proof (cases "Size cp = 0")
  case True
  then show ?thesis using length_Certificates [of cp] by (simp add: PEM_eq pem_blocks_end [OF pem_Decode_Nil])
next
  case False
  then have "Certificates cp \<noteq> []" using length_Certificates [of cp] by auto
  with False show ?thesis by (simp add: PEM_eq trim_space_concat_enc pem_blocks_enc)
qed

text \<open>
  C25: The bundle a pool writes is accepted by an unfiltered pool and gives back the same
  certificates in the same order, provided the X.509 parser accepts their DER bytes (which it
  did when they entered the pool).
\<close>

theorem PEM_roundtrip:
  assumes "pool_inv cp"
    and "\<forall>c \<in> set (Certificates cp). parse (crt_Raw c) = (Some c, None)"
  shows "\<exists>cp'. AddCertsFromPEM parse (NewCertPool []) (Some (PEM (Some cp))) = (cp', None) \<and>
    Certificates cp' = Certificates cp"
proof -
  let ?new = "NewCertPool [] :: CertPool"
  have new: "?new = new_pool 0 False False"
    by (simp add: NewCertPool_def new_pool_def WithFilteredExpiredCerts_def WithFilteredNonCaCerts_def)
  have acc: "block_result parse \<lparr>blk_Type = ''CERTIFICATE'', blk_Headers = [], blk_Bytes = crt_Raw c\<rparr> = Accepted c"
    if "c \<in> set (Certificates cp)" for c
    using assms(2) that by (simp add: block_result_def ParseCertificate_def)
  have ok: "snd (AddCertsFromPEM parse ?new (Some (PEM (Some cp)))) = None"
    by (auto simp: AddCertsFromPEM_def AddCertsFromPEM_loop_ok pem_blocks_PEM acc)
  have certs: "pem_certs parse (PEM (Some cp)) = Certificates cp"
    using acc by (simp add: pem_certs_def pem_blocks_PEM o_def cong: map_cong)
  define cp' where "cp' = add_all ?new (Certificates cp)"
  have res: "AddCertsFromPEM parse ?new (Some (PEM (Some cp))) = (cp', None)"
    using ok AddCertsFromPEM_ok [of parse ?new "PEM (Some cp)"] certs
    by (metis cp'_def prod.collapse)
  have inj: "inj_on fingerprint (set (Certificates cp))"
    using sorted_Certificates [OF assms(1)] by (simp add: distinct_map strict_sorted_iff)
  have "set (Certificates cp') = set (Certificates cp)"
    using set_Certificates_add_all [of "Certificates cp" 0 False False] inj by (simp add: cp'_def new)
  moreover have "pool_inv cp'" by (simp add: cp'_def new add_all_inv)
  ultimately have "map fingerprint (Certificates cp') = map fingerprint (Certificates cp)"
    using sorted_Certificates [OF assms(1)] sorted_Certificates [of cp']
    by (intro strict_sorted_equal) auto
  with \<open>set (Certificates cp') = _\<close> inj have "Certificates cp' = Certificates cp"
    by (metis Un_absorb map_inj_on)
  with res show ?thesis by blast
qed

definition example_pool :: CertPool where
  "example_pool = fst (AddCert (NewCertPool []) (example_cert ''ab'' 100))"

lemma example_pool_Certificates: "Certificates example_pool = [example_cert ''ab'' 100]"
  by (simp add: example_pool_def AddCert_def NewCertPool_def Certificates_def)

theorem PEM_roundtrip_witness:
  "\<exists>cp'. AddCertsFromPEM example_parse (NewCertPool []) (Some (PEM (Some example_pool))) = (cp', None) \<and>
    Certificates cp' = Certificates example_pool"
proof (rule PEM_roundtrip)
  show "pool_inv example_pool"
    unfolding example_pool_def by (rule pool_inv_AddCert) (simp add: NewCertPool_def pool_inv_def)
  show "\<forall>c\<in>set (Certificates example_pool). example_parse (crt_Raw c) = (Some c, None)"
    by (simp add: example_pool_Certificates example_parse_def example_cert_def)
qed

end
