(* ===== verification/Truststore.thy ===== *)
theory Truststore
  imports PoolTheorems
begin

text \<open>
  Binary trust stores: \<open>pkg/bundle/internal/truststore/types.go\<close>. The two third-party
  libraries are the parameter \<open>truststore_lib\<close>: the JKS key store (\<open>keystore-go\<close>), a state
  of type \<open>'ks\<close> that entries are put into and that is then serialised under a password, and
  the PKCS#12 encoder (\<open>go-pkcs12\<close>).
\<close>

record TrustedCertificateEntry =
  tce_CreationTime :: int
  tce_CertificateType :: string
  tce_CertificateContent :: string

record TrustStoreEntry =
  tse_Cert :: Certificate
  tse_FriendlyName :: string

datatype pkcs12_Encoder = P12_LegacyRC2 | P12_LegacyDES | P12_Modern2023 | P12_Passwordless

record 'ks truststore_lib =
  ks_New :: 'ks
  ks_SetTrustedCertificateEntry :: "'ks \<Rightarrow> string \<Rightarrow> TrustedCertificateEntry \<Rightarrow> gerr + 'ks"
  ks_Store :: "'ks \<Rightarrow> string \<Rightarrow> gerr + string"
  p12_EncodeTrustStoreEntries :: "pkcs12_Encoder \<Rightarrow> TrustStoreEntry list \<Rightarrow> string \<Rightarrow> gerr + string"

definition certAlias :: "string \<Rightarrow> string \<Rightarrow> string" where
  "certAlias derData friendlyName =
     (let certHash = hex_EncodeToString (Sum256 derData)
      in take 8 certHash @ ''|'' @ friendlyName)"

fun jks_fill :: "'ks truststore_lib \<Rightarrow> Certificate list \<Rightarrow> 'ks \<Rightarrow> 'ks res" where
  "jks_fill lib [] ks = Ok ks"
| "jks_fill lib (c # cs) ks =
     (let alias = certAlias (crt_Raw c) (crt_Subject c)
      in case ks_SetTrustedCertificateEntry lib ks alias
                \<lparr>tce_CreationTime = crt_NotBefore c, tce_CertificateType = ''X509'',
                 tce_CertificateContent = crt_Raw c\<rparr> of
           Inl err \<Rightarrow> Err (Wrapf (''failed to add cert with alias '' @ go_quote alias @ '' to trust store: '') err)
         | Inr ks' \<Rightarrow> jks_fill lib cs ks')"

definition jksEncoder_Encode :: "'ks truststore_lib \<Rightarrow> string \<Rightarrow> CertPool \<Rightarrow> string res" where
  "jksEncoder_Encode lib password trustBundle =
     bind_res (jks_fill lib (Certificates trustBundle) (ks_New lib))
       (\<lambda>ks. case ks_Store lib ks password of
               Inl err \<Rightarrow> Err (Wrapf ''failed to create JKS file: '' err)
             | Inr buf \<Rightarrow> Ok buf)"

definition pkcs12_select_encoder :: "string \<Rightarrow> PKCS12Profile \<Rightarrow> pkcs12_Encoder" where
  "pkcs12_select_encoder password profile =
     (if password = [] then P12_Passwordless
      else if profile = LegacyRC2PKCS12Profile then P12_LegacyRC2
      else if profile = LegacyDESPKCS12Profile then P12_LegacyDES
      else if profile = Modern2023PKCS12Profile then P12_Modern2023
      else P12_LegacyRC2)"

definition pkcs12Encoder_Encode ::
  "'ks truststore_lib \<Rightarrow> string \<Rightarrow> PKCS12Profile \<Rightarrow> CertPool \<Rightarrow> string res" where
  "pkcs12Encoder_Encode lib password profile trustBundle =
     (let entries = map (\<lambda>c. \<lparr>tse_Cert = c, tse_FriendlyName = certAlias (crt_Raw c) (crt_Subject c)\<rparr>)
                      (Certificates trustBundle)
      in case p12_EncodeTrustStoreEntries lib (pkcs12_select_encoder password profile) entries password of
           Inl err \<Rightarrow> Err err
         | Inr buf \<Rightarrow> Ok buf)"

datatype Encoder = jksEncoder string | pkcs12Encoder string PKCS12Profile

definition NewJKSEncoder :: "string \<Rightarrow> Encoder" where
  "NewJKSEncoder password = jksEncoder password"

definition NewPKCS12Encoder :: "string \<Rightarrow> PKCS12Profile \<Rightarrow> Encoder" where
  "NewPKCS12Encoder password profile = pkcs12Encoder password profile"

fun Encode :: "'ks truststore_lib \<Rightarrow> Encoder \<Rightarrow> CertPool \<Rightarrow> string res" where
  "Encode lib (jksEncoder password) trustBundle = jksEncoder_Encode lib password trustBundle"
| "Encode lib (pkcs12Encoder password profile) trustBundle = pkcs12Encoder_Encode lib password profile trustBundle"

lemma Encode_New [simp]:
  "Encode lib (NewJKSEncoder password) trustBundle = jksEncoder_Encode lib password trustBundle"
  "Encode lib (NewPKCS12Encoder password profile) trustBundle = pkcs12Encoder_Encode lib password profile trustBundle"
  by (simp_all add: NewJKSEncoder_def NewPKCS12Encoder_def)

section \<open>The interface of an encoder\<close>

text \<open>An encoder sees a pool only through the list of its certificates.\<close>

locale encoder =
  fixes encode :: "CertPool \<Rightarrow> string res"
  assumes encode_cong: "Certificates p = Certificates q \<Longrightarrow> encode p = encode q"
begin

lemma encode_order:
  assumes "set cs = set ds"
    and "inj_on fingerprint {c \<in> set cs. accepts_cert (new_pool now e ca) c}"
  shows "encode (add_all (new_pool now e ca) cs) = encode (add_all (new_pool now e ca) ds)"
proof (rule encode_cong, rule Certificates_cong)
  show "pool_find (add_all (new_pool now e ca) cs) = pool_find (add_all (new_pool now e ca) ds)"
    unfolding add_all_def by (rule pool.find_fold_set [OF _ assms]) simp
qed (simp_all add: add_all_inv)

end

interpretation jks: encoder "jksEncoder_Encode lib password" for lib password
  by unfold_locales (simp add: jksEncoder_Encode_def)

interpretation pkcs12: encoder "pkcs12Encoder_Encode lib password profile" for lib password profile
  by unfold_locales (simp add: pkcs12Encoder_Encode_def)

section \<open>Aliases\<close>

lemma take_hex: "take (2 * n) (hex_EncodeToString s) = hex_EncodeToString (take n s)"
proof (induction s arbitrary: n)
  case (Cons c s)
  then show ?case by (cases n) (simp_all add: hex_EncodeToString_def)
qed (simp add: hex_EncodeToString_def)

lemma certAlias_eq:
  "certAlias der name = hex_EncodeToString (take 4 (Sum256 der)) @ ''|'' @ name"
  using take_hex [of 4 "Sum256 der"] by (simp add: certAlias_def)

text \<open>
  The alias of a certificate in a trust store is not unique: it keeps four bytes of the
  digest only, so for every subject there are two different DER encodings with the same alias.
\<close>

theorem certAlias_collision: "\<exists>d d'. d \<noteq> d' \<and> certAlias d name = certAlias d' name"
proof -
  let ?f = "\<lambda>n. take 4 (Sum256 (replicate n nl))"
  have "finite {s :: string. set s \<subseteq> UNIV \<and> length s = 4}"
    by (rule finite_lists_length_eq) simp
  moreover have "range ?f \<subseteq> {s. set s \<subseteq> UNIV \<and> length s = 4}" by auto
  ultimately have "finite (range ?f)" by (rule finite_subset [rotated])
  then have "\<not> inj ?f" using finite_imageD infinite_UNIV_nat by blast
  then obtain m n where "m \<noteq> n" and "?f m = ?f n" by (auto simp: inj_on_def)
  moreover from \<open>m \<noteq> n\<close> have "replicate m nl \<noteq> replicate n nl" by (metis length_replicate)
  ultimately show ?thesis by (metis certAlias_eq)
qed

end
