(* ===== verification/Target.thy ===== *)
theory Target
  imports Source Truststore
begin

text \<open>
  Writing targets: \<open>pkg/bundle/internal/target/target.go\<close> and the patch type of
  \<open>pkg/bundle/internal/ssa_client\<close>. The cluster is a parameter: a world of type \<open>'w\<close> with the
  operations of the client, the cache and the libraries, collected with the receiver's fields in
  the record \<open>Reconciler\<close>. A function that talks to the cluster takes and returns the state
  \<open>sys\<close>, which holds the world and the log of the requests made so far.
\<close>

section \<open>State and requests\<close>

type_synonym Kind = string

definition KindConfigMap :: Kind where "KindConfigMap = ''ConfigMap''"
definition KindSecret :: Kind where "KindSecret = ''Secret''"

record Resource =
  res_Kind :: Kind
  res_NamespacedName :: NamespacedName

definition FieldManager :: string where "FieldManager = ''trust-manager''"
definition SchemeGroupVersion_String :: string where
  "SchemeGroupVersion_String = ''trust.cert-manager.io/v1alpha1''"

text \<open>The declarative configuration of a ConfigMap or Secret, as the patch sends it.\<close>

record ApplyConfiguration =
  ac_Name :: "string option"
  ac_Namespace :: "string option"
  ac_Labels :: "string gomap"
  ac_Annotations :: "string gomap"
  ac_OwnerReferences :: "OwnerReference list"
  ac_Data :: "string gomap"
  ac_BinaryData :: "string gomap"

definition new_ApplyConfiguration :: "string \<Rightarrow> string \<Rightarrow> ApplyConfiguration" where
  "new_ApplyConfiguration name namespace =
     \<lparr>ac_Name = Some name, ac_Namespace = Some namespace, ac_Labels = [], ac_Annotations = [],
      ac_OwnerReferences = [], ac_Data = [], ac_BinaryData = []\<rparr>"

datatype event_type = EventNormal | EventWarning

datatype action =
    PatchRequest Kind ApplyConfiguration
  | DeleteRequest Kind NamespacedName
  | StatusPatchRequest string BundleStatus
  | Event event_type string string string "string list"
      \<comment> \<open>type, reason, action, and the note: its format and arguments\<close>

record 'w sys =
  sys_world :: 'w
  sys_log :: "action list"

record 'w Reconciler =
  rec_CacheGet :: "'w \<Rightarrow> Kind \<Rightarrow> NamespacedName \<Rightarrow> gerr + ObjectMeta"
  rec_Marshal :: "ApplyConfiguration \<Rightarrow> gerr + string"
  rec_PatchConfigMap :: "'w \<Rightarrow> NamespacedName \<Rightarrow> string \<Rightarrow> (ConfigMap \<times> gerr option) \<times> 'w"
  rec_PatchSecret :: "'w \<Rightarrow> NamespacedName \<Rightarrow> string \<Rightarrow> (Secret \<times> gerr option) \<times> 'w"
  rec_Delete :: "'w \<Rightarrow> Kind \<Rightarrow> NamespacedName \<Rightarrow> gerr option \<times> 'w"
  rec_PatchResourceOverwrite :: "('w \<Rightarrow> Kind \<Rightarrow> ApplyConfiguration option \<Rightarrow> gerr option \<times> 'w) option"
  rec_IsControlledBy :: "ObjectMeta \<Rightarrow> ObjectMeta \<Rightarrow> bool"
  rec_Fieldset :: "string \<Rightarrow> gerr + (string \<Rightarrow> string list)"
    \<comment> \<open>decodes a managed fields set: for a field name, the paths below that field\<close>

definition log_action :: "action \<Rightarrow> 'w sys \<Rightarrow> 'w sys" where
  "log_action a s = s\<lparr>sys_log := sys_log s @ [a]\<rparr>"

section \<open>Patching\<close>

definition prepareTargetPatch :: "ApplyConfiguration \<Rightarrow> Bundle \<Rightarrow> ApplyConfiguration" where
  "prepareTargetPatch target bundle =
     target\<lparr>ac_Labels := map_copy (ac_Labels target) [(BundleLabelKey, om_Name (bd_Meta bundle))],
       ac_OwnerReferences := ac_OwnerReferences target @
         [\<lparr>or_APIVersion = SchemeGroupVersion_String, or_Kind = BundleKind,
           or_Name = om_Name (bd_Meta bundle), or_UID = om_UID (bd_Meta bundle),
           or_Controller = Some True, or_BlockOwnerDeletion = Some True\<rparr>]\<rparr>"

definition nil_patch :: string where
  "nil_patch = ''target patch must be non-nil and have a name and namespace''"

definition log_patch :: "Kind \<Rightarrow> ApplyConfiguration option \<Rightarrow> 'w sys \<Rightarrow> 'w sys" where
  "log_patch kind applyConfig s =
     (case applyConfig of None \<Rightarrow> s | Some cfg \<Rightarrow> log_action (PatchRequest kind cfg) s)"

definition patchConfigMap ::
  "'w Reconciler \<Rightarrow> ApplyConfiguration option \<Rightarrow> 'w sys \<Rightarrow> (ConfigMap option \<times> gerr option) res \<times> 'w sys" where
  "patchConfigMap r applyConfig s =
     (case rec_PatchResourceOverwrite r of
        Some overwrite \<Rightarrow>
          (case overwrite (sys_world s) KindConfigMap applyConfig of
             (err, w) \<Rightarrow> (Ok (None, err), (log_patch KindConfigMap applyConfig s)\<lparr>sys_world := w\<rparr>))
      | None \<Rightarrow>
          (case applyConfig of
             None \<Rightarrow> (Panic nil_patch, s)
           | Some cfg \<Rightarrow>
               (case (ac_Name cfg, ac_Namespace cfg) of
                  (Some name, Some ns) \<Rightarrow>
                    (case rec_Marshal r cfg of
                       Inl err \<Rightarrow> (Ok (None, Some err), s)
                     | Inr encodedPatch \<Rightarrow>
                         (case rec_PatchConfigMap r (sys_world s) \<lparr>nn_Namespace = ns, nn_Name = name\<rparr> encodedPatch of
                            ((obj, err), w) \<Rightarrow>
                              (Ok (Some obj, err), (log_patch KindConfigMap applyConfig s)\<lparr>sys_world := w\<rparr>)))
                | _ \<Rightarrow> (Panic nil_patch, s))))"

definition patchSecret ::
  "'w Reconciler \<Rightarrow> ApplyConfiguration option \<Rightarrow> 'w sys \<Rightarrow> (Secret option \<times> gerr option) res \<times> 'w sys" where
  "patchSecret r applyConfig s =
     (case rec_PatchResourceOverwrite r of
        Some overwrite \<Rightarrow>
          (case overwrite (sys_world s) KindSecret applyConfig of
             (err, w) \<Rightarrow> (Ok (None, err), (log_patch KindSecret applyConfig s)\<lparr>sys_world := w\<rparr>))
      | None \<Rightarrow>
          (case applyConfig of
             None \<Rightarrow> (Panic nil_patch, s)
           | Some cfg \<Rightarrow>
               (case (ac_Name cfg, ac_Namespace cfg) of
                  (Some name, Some ns) \<Rightarrow>
                    (case rec_Marshal r cfg of
                       Inl err \<Rightarrow> (Ok (None, Some err), s)
                     | Inr encodedPatch \<Rightarrow>
                         (case rec_PatchSecret r (sys_world s) \<lparr>nn_Namespace = ns, nn_Name = name\<rparr> encodedPatch of
                            ((obj, err), w) \<Rightarrow>
                              (Ok (Some obj, err), (log_patch KindSecret applyConfig s)\<lparr>sys_world := w\<rparr>)))
                | _ \<Rightarrow> (Panic nil_patch, s))))"

definition failed_to_patch :: "Resource \<Rightarrow> gerr \<Rightarrow> gerr" where
  "failed_to_patch target err =
     Wrapf (''failed to patch '' @ res_Kind target @ '' '' @ nn_String (res_NamespacedName target) @ '': '') err"

section \<open>Cleaning up\<close>

definition target_patch :: "Resource \<Rightarrow> Bundle \<Rightarrow> ApplyConfiguration" where
  "target_patch target bundle =
     prepareTargetPatch (new_ApplyConfiguration (nn_Name (res_NamespacedName target))
       (nn_Namespace (res_NamespacedName target))) bundle"

definition delete_target ::
  "'w Reconciler \<Rightarrow> Kind \<Rightarrow> ObjectMeta \<Rightarrow> 'w sys \<Rightarrow> gerr option \<times> 'w sys" where
  "delete_target r kind meta s =
     (let nn = \<lparr>nn_Namespace = om_Namespace meta, nn_Name = om_Name meta\<rparr>
      in case rec_Delete r (sys_world s) kind nn of
           (err, w) \<Rightarrow> (client_IgnoreNotFound err, (log_action (DeleteRequest kind nn) s)\<lparr>sys_world := w\<rparr>))"

definition CleanupTarget ::
  "'w Reconciler \<Rightarrow> Resource \<Rightarrow> Bundle \<Rightarrow> 'w sys \<Rightarrow> (bool \<times> gerr option) res \<times> 'w sys" where
  "CleanupTarget r target bundle s =
     (if res_Kind target = KindConfigMap
      then (case patchConfigMap r (Some (target_patch target bundle)) s of
              (Ok (_, Some err), s') \<Rightarrow> (Ok (False, Some (failed_to_patch target err)), s')
            | (Ok (Some configMap, None), s') \<Rightarrow>
                (if length (cm_Data configMap) = 0 \<and> length (cm_BinaryData configMap) = 0
                 then (case delete_target r KindConfigMap (cm_Meta configMap) s' of
                         (err, s'') \<Rightarrow> (Ok (False, err), s''))
                 else (Ok (False, None), s'))
            | (Ok (None, None), s') \<Rightarrow> (Ok (False, None), s')
            | (Err e, s') \<Rightarrow> (Err e, s')
            | (Panic p, s') \<Rightarrow> (Panic p, s'))
      else if res_Kind target = KindSecret
      then (case patchSecret r (Some (target_patch target bundle)) s of
              (Ok (_, Some err), s') \<Rightarrow> (Ok (False, Some (failed_to_patch target err)), s')
            | (Ok (Some secret, None), s') \<Rightarrow>
                (if length (sec_Data secret) = 0
                 then (case delete_target r KindSecret (sec_Meta secret) s' of
                         (err, s'') \<Rightarrow> (Ok (True, err), s''))
                 else (Ok (False, None), s'))
            | (Ok (None, None), s') \<Rightarrow> (Ok (False, None), s')
            | (Err e, s') \<Rightarrow> (Err e, s')
            | (Panic p, s') \<Rightarrow> (Panic p, s'))
      else (Ok (False, Some (Errorf (''don't know how to clean target of kind: '' @ res_Kind target))), s))"

section \<open>Is an update needed\<close>

definition TrustBundleHash :: "string \<Rightarrow> AdditionalFormats option \<Rightarrow> TargetTemplate option \<Rightarrow> string" where
  "TrustBundleHash data additionalFormats target =
     (let jks = (case additionalFormats of
                   Some af \<Rightarrow> (case af_JKS af of
                                 Some j \<Rightarrow> if jks_Password j \<noteq> [] then jks_Password j else []
                               | None \<Rightarrow> [])
                 | None \<Rightarrow> []);
          pkcs12 = (case additionalFormats of
                      Some af \<Rightarrow> (case af_PKCS12 af of
                                    Some p \<Rightarrow> (case p12_Password p of Some pw \<Rightarrow> pw | None \<Rightarrow> [])
                                  | None \<Rightarrow> [])
                    | None \<Rightarrow> []);
          annotations = concat (map (\<lambda>(k, v). k @ v) (sorted_entries (GetAnnotations target)));
          labels = concat (map (\<lambda>(k, v). k @ v) (sorted_entries (GetLabels target)))
      in hex_EncodeToString (Sum256 (data @ jks @ pkcs12 @ annotations @ labels)))"

definition trim_dot :: "string \<Rightarrow> string" where
  "trim_dot p = (if has_prefix p ''.'' then tl p else p)"

fun listManagedProperties ::
  "'w Reconciler \<Rightarrow> ManagedFieldsEntry list \<Rightarrow> string \<Rightarrow> string list \<Rightarrow> gerr + string list" where
  "listManagedProperties r [] fieldManager fieldNames = Inr []"
| "listManagedProperties r (m # ms) fieldManager fieldNames =
     (case mf_FieldsV1 m of
        None \<Rightarrow> listManagedProperties r ms fieldManager fieldNames
      | Some raw \<Rightarrow>
          (if mf_Manager m \<noteq> fieldManager then listManagedProperties r ms fieldManager fieldNames
           else (case rec_Fieldset r raw of
               Inl err \<Rightarrow> Inl err
             | Inr fieldset \<Rightarrow>
                 (case listManagedProperties r ms fieldManager fieldNames of
                    Inl err \<Rightarrow> Inl err
                  | Inr rest \<Rightarrow> Inr (map trim_dot (concat (map fieldset fieldNames)) @ rest)))))"

definition expected_properties :: "string \<Rightarrow> AdditionalFormats option \<Rightarrow> string list" where
  "expected_properties key formats =
     [key] @ (case formats of None \<Rightarrow> [] | Some af \<Rightarrow>
       (case af_JKS af of None \<Rightarrow> [] | Some j \<Rightarrow> [jks_Key j]) @
       (case af_PKCS12 af of None \<Rightarrow> [] | Some p \<Rightarrow> [p12_Key p]))"

definition nil_deref :: string where
  "nil_deref = ''runtime error: invalid memory address or nil pointer dereference''"

text \<open>A lookup in a Go map of strings gives the empty string for a missing key.\<close>

definition get_or_empty :: "string gomap \<Rightarrow> string \<Rightarrow> string" where
  "get_or_empty m k = (case map_of m k of None \<Rightarrow> [] | Some v \<Rightarrow> v)"

definition needsUpdate ::
  "'w Reconciler \<Rightarrow> Kind \<Rightarrow> ObjectMeta \<Rightarrow> Bundle \<Rightarrow> string \<Rightarrow> (bool \<times> gerr option) res" where
  "needsUpdate r kind obj bundle bundleHash =
     (let stale = (\<not> rec_IsControlledBy r obj (bd_Meta bundle) \<or>
                   get_or_empty (om_Labels obj) BundleLabelKey \<noteq> om_Name (bd_Meta bundle) \<or>
                   get_or_empty (entries (om_Annotations obj)) BundleHashAnnotationKey \<noteq> bundleHash);
          target = spec_Target (bd_Spec bundle);
          check = (\<lambda>key fieldNames.
            case listManagedProperties r (om_ManagedFields obj) FieldManager fieldNames of
              Inl err \<Rightarrow> Ok (False, Some (Wrapf ''failed to list managed properties: '' err))
            | Inr properties \<Rightarrow>
                Ok (stale \<or> set properties \<noteq> set (expected_properties key (bt_AdditionalFormats target)), None))
      in if kind = KindConfigMap
         then (case bt_ConfigMap target of None \<Rightarrow> Panic nil_deref | Some t \<Rightarrow> check (tt_Key t) [''data'', ''binaryData''])
         else if kind = KindSecret
         then (case bt_Secret target of None \<Rightarrow> Panic nil_deref | Some t \<Rightarrow> check (tt_Key t) [''data''])
         else Ok (False, Some (Errorf (''unknown targetType: '' @ kind))))"

section \<open>Applying\<close>

definition binaryData :: "'ks truststore_lib \<Rightarrow> CertPool \<Rightarrow> AdditionalFormats option \<Rightarrow> string gomap res" where
  "binaryData lib pool formats =
     (case formats of
        None \<Rightarrow> Ok []
      | Some af \<Rightarrow>
          bind_res
            (case af_JKS af of
               None \<Rightarrow> Ok []
             | Some j \<Rightarrow>
                 bind_res (map_err (Wrapf ''failed to encode JKS: '') (Encode lib (NewJKSEncoder (jks_Password j)) pool))
                   (\<lambda>encoded. Ok (map_put (jks_Key j) encoded [])))
            (\<lambda>binData.
               case af_PKCS12 af of
                 None \<Rightarrow> Ok binData
               | Some p \<Rightarrow>
                   (case p12_Password p of
                      None \<Rightarrow> Panic nil_deref
                    | Some pw \<Rightarrow>
                        bind_res (map_err (Wrapf ''failed to encode PKCS12: '')
                                    (Encode lib (NewPKCS12Encoder pw (p12_Profile p)) pool))
                          (\<lambda>encoded. Ok (map_put (p12_Key p) encoded binData)))))"

text \<open>The configurations that \<open>applyConfigMap\<close> and \<open>applySecret\<close> build for a target.\<close>

definition with_metadata :: "TargetTemplate \<Rightarrow> string \<Rightarrow> ApplyConfiguration \<Rightarrow> ApplyConfiguration" where
  "with_metadata t bundleHash cfg =
     cfg\<lparr>ac_Annotations := map_copy (map_copy (ac_Annotations cfg) (GetAnnotations (Some t)))
                               [(BundleHashAnnotationKey, bundleHash)],
         ac_Labels := map_copy (ac_Labels cfg) (GetLabels (Some t))\<rparr>"

definition configMap_patch ::
  "Resource \<Rightarrow> Bundle \<Rightarrow> TargetTemplate \<Rightarrow> string \<Rightarrow> string \<Rightarrow> string gomap \<Rightarrow> ApplyConfiguration" where
  "configMap_patch target bundle t bundleHash bundlePEM binData =
     (let cfg = with_metadata t bundleHash (target_patch target bundle);
          data = [(tt_Key t, bundlePEM)]
      in cfg\<lparr>ac_Data := map_copy (ac_Data cfg) data, ac_BinaryData := map_copy (ac_BinaryData cfg) binData\<rparr>)"

definition secret_patch ::
  "Resource \<Rightarrow> Bundle \<Rightarrow> TargetTemplate \<Rightarrow> string \<Rightarrow> string \<Rightarrow> string gomap \<Rightarrow> ApplyConfiguration" where
  "secret_patch target bundle t bundleHash bundlePEM binData =
     (let cfg = with_metadata t bundleHash (target_patch target bundle);
          data = map_copy [(tt_Key t, bundlePEM)] binData
      in cfg\<lparr>ac_Data := map_copy (ac_Data cfg) data\<rparr>)"

definition failed_to_get :: "Resource \<Rightarrow> gerr \<Rightarrow> gerr" where
  "failed_to_get target err =
     Wrapf (''failed to get '' @ res_Kind target @ '' '' @ nn_String (res_NamespacedName target) @ '': '') err"

text \<open>None: no update is needed, or the check failed; the result is then given.\<close>

definition exit_early ::
  "'w Reconciler \<Rightarrow> Resource \<Rightarrow> gerr + ObjectMeta \<Rightarrow> Bundle \<Rightarrow> string \<Rightarrow> (bool \<times> gerr option) res option" where
  "exit_early r target got bundle bundleHash =
     (case got of
        Inl _ \<Rightarrow> None
      | Inr targetObj \<Rightarrow>
          (case needsUpdate r (res_Kind target) targetObj bundle bundleHash of
             Ok (_, Some err) \<Rightarrow> Some (Ok (False, Some err))
           | Ok (True, None) \<Rightarrow> None
           | Ok (False, None) \<Rightarrow> Some (Ok (False, None))
           | Err e \<Rightarrow> Some (Err e)
           | Panic p \<Rightarrow> Some (Panic p)))"

definition get_failed :: "Resource \<Rightarrow> gerr + ObjectMeta \<Rightarrow> gerr option" where
  "get_failed target got =
     (case got of
        Inl err \<Rightarrow> if apierrors_IsNotFound err then None else Some (failed_to_get target err)
      | Inr _ \<Rightarrow> None)"

definition applyConfigMap ::
  "'ks truststore_lib \<Rightarrow> 'w Reconciler \<Rightarrow> Resource \<Rightarrow> Bundle \<Rightarrow> BundleData \<Rightarrow> 'w sys
     \<Rightarrow> (bool \<times> gerr option) res \<times> 'w sys" where
  "applyConfigMap lib r target bundle resolvedBundle s =
     (let got = rec_CacheGet r (sys_world s) (res_Kind target) (res_NamespacedName target);
          bundleTarget = spec_Target (bd_Spec bundle)
      in case get_failed target got of
           Some err \<Rightarrow> (Ok (False, Some err), s)
         | None \<Rightarrow>
      (case bt_ConfigMap bundleTarget of
         None \<Rightarrow> (Ok (False, Some (Errorf ''target not defined'')), s)
       | Some t \<Rightarrow>
           (let bundlePEM = PEM (Some (bdl_CertPool resolvedBundle));
                bundleHash = TrustBundleHash bundlePEM (bt_AdditionalFormats bundleTarget) (Some t)
            in case exit_early r target got bundle bundleHash of
                 Some result \<Rightarrow> (result, s)
               | None \<Rightarrow>
                   (case binaryData lib (bdl_CertPool resolvedBundle) (bt_AdditionalFormats bundleTarget) of
                      Panic p \<Rightarrow> (Panic p, s)
                    | Err err \<Rightarrow> (Ok (False, Some err), s)
                    | Ok binData \<Rightarrow>
                        (case patchConfigMap r (Some (configMap_patch target bundle t bundleHash bundlePEM binData)) s of
                           (Ok (_, Some err), s') \<Rightarrow> (Ok (False, Some (failed_to_patch target err)), s')
                         | (Ok (_, None), s') \<Rightarrow> (Ok (True, None), s')
                         | (Err e, s') \<Rightarrow> (Err e, s')
                         | (Panic p, s') \<Rightarrow> (Panic p, s'))))))"

definition applySecret ::
  "'ks truststore_lib \<Rightarrow> 'w Reconciler \<Rightarrow> Resource \<Rightarrow> Bundle \<Rightarrow> BundleData \<Rightarrow> 'w sys
     \<Rightarrow> (bool \<times> gerr option) res \<times> 'w sys" where
  "applySecret lib r target bundle resolvedBundle s =
     (let got = rec_CacheGet r (sys_world s) (res_Kind target) (res_NamespacedName target);
          bundleTarget = spec_Target (bd_Spec bundle)
      in case get_failed target got of
           Some err \<Rightarrow> (Ok (False, Some err), s)
         | None \<Rightarrow>
      (case bt_Secret bundleTarget of
         None \<Rightarrow> (Ok (False, Some (Errorf ''target not defined'')), s)
       | Some t \<Rightarrow>
           (let bundlePEM = PEM (Some (bdl_CertPool resolvedBundle));
                bundleHash = TrustBundleHash bundlePEM (bt_AdditionalFormats bundleTarget) (Some t)
            in case exit_early r target got bundle bundleHash of
                 Some result \<Rightarrow> (result, s)
               | None \<Rightarrow>
                   (case binaryData lib (bdl_CertPool resolvedBundle) (bt_AdditionalFormats bundleTarget) of
                      Panic p \<Rightarrow> (Panic p, s)
                    | Err err \<Rightarrow> (Ok (False, Some err), s)
                    | Ok binData \<Rightarrow>
                        (case patchSecret r (Some (secret_patch target bundle t bundleHash bundlePEM binData)) s of
                           (Ok (_, Some err), s') \<Rightarrow> (Ok (False, Some (failed_to_patch target err)), s')
                         | (Ok (_, None), s') \<Rightarrow> (Ok (True, None), s')
                         | (Err e, s') \<Rightarrow> (Err e, s')
                         | (Panic p, s') \<Rightarrow> (Panic p, s'))))))"

definition ApplyTarget ::
  "'ks truststore_lib \<Rightarrow> 'w Reconciler \<Rightarrow> Resource \<Rightarrow> Bundle \<Rightarrow> BundleData \<Rightarrow> 'w sys
     \<Rightarrow> (bool \<times> gerr option) res \<times> 'w sys" where
  "ApplyTarget lib r target bundle resolvedBundle s =
     (if res_Kind target = KindConfigMap then applyConfigMap lib r target bundle resolvedBundle s
      else if res_Kind target = KindSecret then applySecret lib r target bundle resolvedBundle s
      else (Ok (False, Some (Errorf (''don't know how to apply target of kind: '' @ res_Kind target))), s))"

end
