(* ===== verification/Status.thy ===== *)
theory Status
  imports ApiTypes
begin

text \<open>
  The status of a Bundle: \<open>pkg/bundle/util.go\<close>. A condition is found by its type; the
  transition time of a condition is kept as long as its status does not change.
\<close>

section \<open>The code\<close>

fun bundleHasCondition :: "Condition list \<Rightarrow> Condition \<Rightarrow> bool" where
  "bundleHasCondition [] searchCondition = False"
| "bundleHasCondition (existingCondition # cs) searchCondition =
     (if cond_Type existingCondition = cond_Type searchCondition
      then cond_Status existingCondition = cond_Status searchCondition \<and>
           cond_Reason existingCondition = cond_Reason searchCondition \<and>
           cond_Message existingCondition = cond_Message searchCondition \<and>
           cond_ObservedGeneration existingCondition = cond_ObservedGeneration searchCondition
      else bundleHasCondition cs searchCondition)"

fun keep_transition_time :: "Condition list \<Rightarrow> Condition \<Rightarrow> Condition" where
  "keep_transition_time [] newCondition = newCondition"
| "keep_transition_time (cond # cs) newCondition =
     keep_transition_time cs
       (if cond_Type cond \<noteq> cond_Type newCondition then newCondition
        else if cond_Status cond = cond_Status newCondition
        then newCondition\<lparr>cond_LastTransitionTime := cond_LastTransitionTime cond\<rparr>
        else newCondition)"

fun overwrite_condition :: "Condition list \<Rightarrow> Condition \<Rightarrow> Condition list" where
  "overwrite_condition [] newCondition = [newCondition]"
| "overwrite_condition (cond # cs) newCondition =
     (if cond_Type cond \<noteq> cond_Type newCondition then cond # overwrite_condition cs newCondition
      else newCondition # cs)"

text \<open>The new conditions of the patch, and the condition that was set.\<close>

definition setBundleCondition ::
  "int \<Rightarrow> Condition list \<Rightarrow> Condition list \<Rightarrow> Condition \<Rightarrow> Condition list \<times> Condition" where
  "setBundleCondition now existingConditions patchConditions newCondition =
     (let new = keep_transition_time existingConditions (newCondition\<lparr>cond_LastTransitionTime := now\<rparr>)
      in (overwrite_condition patchConditions new, new))"

definition setBundleStatusDefaultCAVersion :: "BundleStatus \<Rightarrow> string \<Rightarrow> bool \<times> BundleStatus" where
  "setBundleStatusDefaultCAVersion bundleStatus requiredID =
     (let currentVersion = st_DefaultCAPackageVersion bundleStatus
      in if length requiredID = 0 \<and> currentVersion = [] then (False, bundleStatus)
         else if length requiredID = 0 \<and> currentVersion \<noteq> []
         then (True, bundleStatus\<lparr>st_DefaultCAPackageVersion := []\<rparr>)
         else if currentVersion = [] \<or> currentVersion \<noteq> requiredID
         then (True, bundleStatus\<lparr>st_DefaultCAPackageVersion := requiredID\<rparr>)
         else (False, bundleStatus))"

section \<open>Conditions\<close>

definition condition_of :: "Condition list \<Rightarrow> string \<Rightarrow> Condition option" where
  "condition_of cs type = List.find (\<lambda>c. cond_Type c = type) cs"

definition same_condition :: "Condition \<Rightarrow> Condition \<Rightarrow> bool" where
  \<comment> \<open>equal up to the transition time\<close>
  "same_condition c d \<longleftrightarrow> c\<lparr>cond_LastTransitionTime := 0\<rparr> = d\<lparr>cond_LastTransitionTime := 0\<rparr>"

lemma same_condition_iff:
  "same_condition c d \<longleftrightarrow> cond_Type c = cond_Type d \<and> cond_Status c = cond_Status d \<and> cond_Reason c = cond_Reason d \<and>
     cond_Message c = cond_Message d \<and> cond_ObservedGeneration c = cond_ObservedGeneration d"
  by (cases c; cases d) (auto simp: same_condition_def)

lemma bundleHasCondition_iff:
  "bundleHasCondition cs c \<longleftrightarrow> (\<exists>d. condition_of cs (cond_Type c) = Some d \<and> same_condition d c)"
  by (induction cs) (auto simp: condition_of_def same_condition_iff)

lemma keep_transition_time_same: "same_condition (keep_transition_time cs c) c"
  by (induction cs arbitrary: c) (force simp: same_condition_iff)+

lemma keep_transition_time_none:
  assumes "\<And>d. d \<in> set cs \<Longrightarrow> cond_Type d = cond_Type c \<Longrightarrow> cond_Status d \<noteq> cond_Status c"
  shows "keep_transition_time cs c = c"
  using assms by (induction cs) auto

lemma keep_transition_time_unique:
  assumes "distinct (map cond_Type cs)"
  shows "keep_transition_time cs c =
    (case condition_of cs (cond_Type c) of
       Some d \<Rightarrow> if cond_Status d = cond_Status c then c\<lparr>cond_LastTransitionTime := cond_LastTransitionTime d\<rparr> else c
     | None \<Rightarrow> c)"
  using assms
proof (induction cs)
  case (Cons d cs)
  show ?case
  proof (cases "cond_Type d = cond_Type c")
    case True
    with Cons.prems have none: "cond_Type e \<noteq> cond_Type c" if "e \<in> set cs" for e using that by (auto simp: image_iff)
    have "keep_transition_time cs (c\<lparr>cond_LastTransitionTime := x\<rparr>) = c\<lparr>cond_LastTransitionTime := x\<rparr>" for x
      by (rule keep_transition_time_none) (use none in auto)
    moreover have "keep_transition_time cs c = c" by (rule keep_transition_time_none) (use none in auto)
    ultimately show ?thesis using True by (simp add: condition_of_def)
  next
    case False
    then show ?thesis using Cons by (simp add: condition_of_def)
  qed
qed (simp add: condition_of_def)

lemma condition_of_overwrite:
  "condition_of (overwrite_condition cs c) type = (if type = cond_Type c then Some c else condition_of cs type)"
  by (induction cs) (auto simp: condition_of_def)

lemma types_overwrite: "set (map cond_Type (overwrite_condition cs c)) = insert (cond_Type c) (set (map cond_Type cs))"
  by (induction cs) auto

lemma distinct_overwrite: "distinct (map cond_Type cs) \<Longrightarrow> distinct (map cond_Type (overwrite_condition cs c))"
proof (induction cs)
  case (Cons d cs)
  moreover have "cond_Type d \<notin> set (map cond_Type (overwrite_condition cs c))"
    if "cond_Type d \<noteq> cond_Type c" "cond_Type d \<notin> set (map cond_Type cs)"
    using that types_overwrite [of cs c] by blast
  ultimately show ?case by auto
qed simp

lemma setBundleCondition_time [simp]:
  "setBundleCondition now ex ps (c\<lparr>cond_LastTransitionTime := t\<rparr>) = setBundleCondition now ex ps c"
  by (simp add: setBundleCondition_def)

text \<open>
  Setting a condition puts it into the patch, up to its transition time, in place of a
  condition of the same type and beside all others; a later look-up for exactly this condition
  finds it, so the condition check and the setter agree.
\<close>

lemma setBundleCondition_found:
  "bundleHasCondition (fst (setBundleCondition now existing patch c)) c \<and>
   same_condition (snd (setBundleCondition now existing patch c)) c \<and>
   condition_of (fst (setBundleCondition now existing patch c)) (cond_Type c) = Some (snd (setBundleCondition now existing patch c)) \<and>
   (cond_Type c = type \<or>
    condition_of (fst (setBundleCondition now existing patch c)) type = condition_of patch type)"
proof -
  have "same_condition (keep_transition_time existing (c\<lparr>cond_LastTransitionTime := now\<rparr>)) c"
    using keep_transition_time_same [of existing "c\<lparr>cond_LastTransitionTime := now\<rparr>"] by (simp add: same_condition_iff)
  moreover from this have "cond_Type (keep_transition_time existing (c\<lparr>cond_LastTransitionTime := now\<rparr>)) = cond_Type c"
    by (simp add: same_condition_iff)
  ultimately show ?thesis
    by (auto simp: setBundleCondition_def Let_def bundleHasCondition_iff condition_of_overwrite)
qed

text \<open>
  The transition time of a condition says when its status last changed: when the Bundle has
  a condition of this type with the same status, its time is kept, and otherwise the time is now.
\<close>

theorem setBundleCondition_transition_time:
  assumes "distinct (map cond_Type existing)"
  shows "cond_LastTransitionTime (snd (setBundleCondition now existing patch c)) =
    (case condition_of existing (cond_Type c) of
       Some d \<Rightarrow> if cond_Status d = cond_Status c then cond_LastTransitionTime d else now
     | None \<Rightarrow> now)"
  by (simp add: setBundleCondition_def Let_def keep_transition_time_unique [OF assms] split: option.split)

definition example_condition :: "string \<Rightarrow> int \<Rightarrow> Condition" where
  "example_condition status t =
     \<lparr>cond_Type = BundleConditionSynced, cond_Status = status, cond_ObservedGeneration = 1,
      cond_LastTransitionTime = t, cond_Reason = ''Synced'', cond_Message = ''m''\<rparr>"

lemma setBundleCondition_transition_time_witness:
  "cond_LastTransitionTime (snd (setBundleCondition 9 [example_condition ConditionTrue 5] [] (example_condition ConditionTrue 0))) = 5 \<and>
   cond_LastTransitionTime (snd (setBundleCondition 9 [example_condition ConditionFalse 5] [] (example_condition ConditionTrue 0))) = 9"
  using setBundleCondition_transition_time [of "[example_condition ConditionTrue 5]" 9 "[]" "example_condition ConditionTrue 0"]
    setBundleCondition_transition_time [of "[example_condition ConditionFalse 5]" 9 "[]" "example_condition ConditionTrue 0"]
  by (simp add: example_condition_def condition_of_def ConditionTrue_def ConditionFalse_def)

lemma setBundleStatusDefaultCAVersion_eq:
  "setBundleStatusDefaultCAVersion st required =
     (st_DefaultCAPackageVersion st \<noteq> required, st\<lparr>st_DefaultCAPackageVersion := required\<rparr>)"
  by (cases st) (auto simp: setBundleStatusDefaultCAVersion_def Let_def)

end
