(* ===== verification/Reconcile.thy ===== *)
theory Reconcile
  imports Target Status
begin

text \<open>
  The reconcile loop of a Bundle: \<open>pkg/bundle/bundle.go\<close>, with \<open>GenerateBundleStatusPatch\<close> of
  \<open>pkg/bundle/internal/ssa_client/bundle_status.go\<close>. The receiver is the record \<open>bundle_ctl\<close>: the
  parts of the program it holds (builder, options, target reconciler), the client's and the
  caches' answers as functions of the world, and the order in which Go ranges over a map of
  resources. Logging is left out; events and requests go to the log of \<open>sys\<close>.
\<close>

record bundleStatusApplyConfiguration =
  bsac_Name :: string
  bsac_Kind :: string
  bsac_APIVersion :: string
  bsac_Status :: "BundleStatus option"

record ('w, 'sel, 'ks) bundle_ctl =
  ctl_Get :: "'w \<Rightarrow> NamespacedName \<Rightarrow> gerr + Bundle"
  ctl_Reader :: "'w \<Rightarrow> 'sel reader"
  ctl_ListNamespaces :: "'w \<Rightarrow> 'sel \<Rightarrow> gerr + Namespace list"
  ctl_ListTargets :: "'w \<Rightarrow> Kind \<Rightarrow> string gomap \<Rightarrow> gerr + ObjectMeta list"
  ctl_Marshal :: "bundleStatusApplyConfiguration \<Rightarrow> gerr + string"
  ctl_StatusPatch :: "'w \<Rightarrow> string \<Rightarrow> string \<Rightarrow> gerr option \<times> 'w"
  ctl_clock :: int \<comment> \<open>\<open>b.clock.Now()\<close>\<close>
  ctl_time :: int \<comment> \<open>\<open>time.Now()\<close>, which the certificate filter reads\<close>
  ctl_parse :: x509_parser
  ctl_labels :: "'sel labels_lib"
  ctl_tstore :: "'ks truststore_lib"
  ctl_range :: "Resource list \<Rightarrow> Resource list"
  ctl_Options :: Options
  ctl_bundleBuilder :: BundleBuilder
  ctl_targetReconciler :: "'w Reconciler"

definition IsSourceNotFound :: "gerr \<Rightarrow> bool" where
  "IsSourceNotFound = errors_As (\<lambda>e. case e of NotFoundError _ \<Rightarrow> True | _ \<Rightarrow> False)"

definition Eventf :: "event_type \<Rightarrow> string \<Rightarrow> string \<Rightarrow> string \<Rightarrow> string list \<Rightarrow> 'w sys \<Rightarrow> 'w sys" where
  "Eventf type reason action format args = log_action (Event type reason action format args)"

section \<open>The desired and the obsolete targets\<close>

definition insert_key :: "'a \<Rightarrow> 'a list \<Rightarrow> 'a list" where
  \<comment> \<open>\<open>m[k] = struct{}{}\<close> on the keys of a map\<close>
  "insert_key k m = (if k \<in> set m then m else m @ [k])"

fun desired_targets :: "Options \<Rightarrow> Bundle \<Rightarrow> Namespace list \<Rightarrow> Resource list \<Rightarrow> Resource list" where
  "desired_targets opts bundle [] targetResources = targetResources"
| "desired_targets opts bundle (namespace # rest) targetResources =
     (if ns_Phase namespace = NamespaceTerminating then desired_targets opts bundle rest targetResources
      else if length (opt_TargetNamespaces opts) > 0 \<and> om_Name (ns_Meta namespace) \<notin> set (opt_TargetNamespaces opts)
      then desired_targets opts bundle rest targetResources
      else
        (let namespacedName = \<lparr>nn_Namespace = om_Name (ns_Meta namespace), nn_Name = om_Name (bd_Meta bundle)\<rparr>;
             target = spec_Target (bd_Spec bundle);
             m1 = (if bt_Secret target \<noteq> None
                   then insert_key \<lparr>res_Kind = KindSecret, res_NamespacedName = namespacedName\<rparr> targetResources
                   else targetResources);
             m2 = (if bt_ConfigMap target \<noteq> None
                   then insert_key \<lparr>res_Kind = KindConfigMap, res_NamespacedName = namespacedName\<rparr> m1
                   else m1)
         in desired_targets opts bundle rest m2))"

definition target_key :: "Kind \<Rightarrow> ObjectMeta \<Rightarrow> Resource" where
  "target_key kind t = \<lparr>res_Kind = kind, res_NamespacedName = \<lparr>nn_Namespace = om_Namespace t, nn_Name = om_Name t\<rparr>\<rparr>"

fun cleanup_targets ::
  "'w Reconciler \<Rightarrow> Bundle \<Rightarrow> Resource list \<Rightarrow> Kind \<Rightarrow> ObjectMeta list \<Rightarrow> 'w sys \<Rightarrow> unit res \<times> 'w sys" where
  "cleanup_targets r bundle targetResources kind [] s = (Ok (), s)"
| "cleanup_targets r bundle targetResources kind (t # ts) s =
     (let key = target_key kind t
      in if key \<in> set targetResources then cleanup_targets r bundle targetResources kind ts s
         else if om_DeletionTimestamp t \<noteq> None then cleanup_targets r bundle targetResources kind ts s
         else if \<not> rec_IsControlledBy r t (bd_Meta bundle) then cleanup_targets r bundle targetResources kind ts s
         else (case CleanupTarget r key bundle s of
                 (Panic p, s') \<Rightarrow> (Panic p, s')
               | (_, s') \<Rightarrow> cleanup_targets r bundle targetResources kind ts s'))"

text \<open>An error is the result of listing the targets of a kind; it ends the reconcile.\<close>

fun cleanup_kinds ::
  "('w, 'sel, 'ks) bundle_ctl \<Rightarrow> Bundle \<Rightarrow> Resource list \<Rightarrow> Kind list \<Rightarrow> 'w sys \<Rightarrow> unit res \<times> 'w sys" where
  "cleanup_kinds b bundle targetResources [] s = (Ok (), s)"
| "cleanup_kinds b bundle targetResources (kind # kinds) s =
     (case ctl_ListTargets b (sys_world s) kind [(BundleLabelKey, om_Name (bd_Meta bundle))] of
        Inl err \<Rightarrow>
          (Err (Wrapf (''failed to list '' @ kind @ ''s: '') err),
           Eventf EventWarning (kind @ ''ListError'') ''SyncFailed''
             ''Failed to list %ss: %s'' [map to_lower_char kind, error_text err] s)
      | Inr targetList \<Rightarrow>
          (case cleanup_targets (ctl_targetReconciler b) bundle targetResources kind targetList s of
             (Ok _, s') \<Rightarrow> cleanup_kinds b bundle targetResources kinds s'
           | (Err e, s') \<Rightarrow> (Err e, s')
           | (Panic p, s') \<Rightarrow> (Panic p, s')))"

definition target_kinds :: "Options \<Rightarrow> Kind list" where
  "target_kinds opts = [KindConfigMap] @ (if opt_SecretTargetsEnabled opts then [KindSecret] else [])"

section \<open>Applying the targets\<close>

text \<open>The first failing target with its error, or whether any target was written.\<close>

fun apply_targets ::
  "('w, 'sel, 'ks) bundle_ctl \<Rightarrow> Bundle \<Rightarrow> BundleData \<Rightarrow> Resource list \<Rightarrow> bool \<Rightarrow> 'w sys
     \<Rightarrow> ((Resource \<times> gerr) + bool) res \<times> 'w sys" where
  "apply_targets b bundle resolvedBundle [] changed s = (Ok (Inr changed), s)"
| "apply_targets b bundle resolvedBundle (t # ts) changed s =
     (case ApplyTarget (ctl_tstore b) (ctl_targetReconciler b) t bundle resolvedBundle s of
        (Panic p, s') \<Rightarrow> (Panic p, s')
      | (Err e, s') \<Rightarrow> (Err e, s')
      | (Ok (synced, Some err), s') \<Rightarrow> (Ok (Inl (t, err)), s')
      | (Ok (synced, None), s') \<Rightarrow>
          apply_targets b bundle resolvedBundle ts (if synced then True else changed) s')"

section \<open>The messages of the conditions\<close>

definition capitalise :: "string \<Rightarrow> string" where
  "capitalise message = map to_upper_char (take 1 message) @ drop 1 message"

definition synced_condition :: "string \<Rightarrow> string \<Rightarrow> string \<Rightarrow> Bundle \<Rightarrow> Condition" where
  "synced_condition status reason message bundle =
     \<lparr>cond_Type = BundleConditionSynced, cond_Status = status,
      cond_ObservedGeneration = om_Generation (bd_Meta bundle), cond_LastTransitionTime = 0,
      cond_Reason = reason, cond_Message = message\<rparr>"

definition success_message :: "Options \<Rightarrow> 'sel labels_lib \<Rightarrow> 'sel \<Rightarrow> string" where
  "success_message opts lib namespaceSelector =
     (if length (opt_TargetNamespaces opts) > 0
      then (if \<not> lib_Empty lib namespaceSelector
            then ''Successfully synced Bundle to allowed namespaces that match this label selector: '' @ lib_String lib namespaceSelector
            else ''Successfully synced Bundle to all allowed namespaces'')
      else (if \<not> lib_Empty lib namespaceSelector
            then ''Successfully synced Bundle to namespaces that match this label selector: '' @ lib_String lib namespaceSelector
            else ''Successfully synced Bundle to all namespaces''))"

definition secret_targets_disabled :: string where
  "secret_targets_disabled = ''Bundle has Secret targets but the feature is disabled''"

definition bundleTargetNamespaceSelector :: "'sel labels_lib \<Rightarrow> BundleTarget \<Rightarrow> gerr + 'sel" where
  "bundleTargetNamespaceSelector lib bundleTarget =
     (case bt_NamespaceSelector bundleTarget of
        None \<Rightarrow> Inr (lib_Everything lib)
      | Some nsSelector \<Rightarrow> lib_AsSelector lib (Some nsSelector))"

definition set_patch_condition ::
  "('w, 'sel, 'ks) bundle_ctl \<Rightarrow> Bundle \<Rightarrow> Condition \<Rightarrow> BundleStatus \<Rightarrow> BundleStatus" where
  "set_patch_condition b bundle c statusPatch =
     statusPatch\<lparr>st_Conditions := fst (setBundleCondition (ctl_clock b) (st_Conditions (bd_Status bundle))
                                        (st_Conditions statusPatch) c)\<rparr>"

section \<open>Reconciling\<close>

text \<open>After the sources are resolved: the desired targets, the clean-up and the writes.\<close>

text \<open>The end of a reconcile that synced every target: the version of the default package, the condition and the event.\<close>

definition report_synced ::
  "('w, 'sel, 'ks) bundle_ctl \<Rightarrow> Bundle \<Rightarrow> BundleData \<Rightarrow> 'sel \<Rightarrow> bool \<Rightarrow> BundleStatus \<Rightarrow> 'w sys
     \<Rightarrow> (BundleStatus option \<times> gerr option) res \<times> 'w sys" where
  "report_synced b bundle resolvedBundle namespaceSelector changed statusPatch s =
     (case setBundleStatusDefaultCAVersion statusPatch (bdl_DefaultCAPackageStringID resolvedBundle) of
        (versionChanged, statusPatch') \<Rightarrow>
          (let message = success_message (ctl_Options b) (ctl_labels b) namespaceSelector;
               syncedCondition = synced_condition ConditionTrue ''Synced'' message bundle
           in if \<not> (changed \<or> versionChanged) \<and> bundleHasCondition (st_Conditions (bd_Status bundle)) syncedCondition
              then (Ok (None, None), s)
              else (Ok (Some (set_patch_condition b bundle syncedCondition statusPatch'), None),
                    Eventf EventNormal ''Synced'' ''Synced'' message [] s)))"

definition sync_targets ::
  "('w, 'sel, 'ks) bundle_ctl \<Rightarrow> Bundle \<Rightarrow> BundleData \<Rightarrow> 'sel \<Rightarrow> Namespace list \<Rightarrow> BundleStatus \<Rightarrow> 'w sys
     \<Rightarrow> (BundleStatus option \<times> gerr option) res \<times> 'w sys" where
  "sync_targets b bundle resolvedBundle namespaceSelector namespaceList statusPatch s =
     (let opts = ctl_Options b;
          targetResources = desired_targets opts bundle namespaceList [];
          targetKinds = target_kinds opts
      in case cleanup_kinds b bundle targetResources targetKinds s of
           (Panic p, s1) \<Rightarrow> (Panic p, s1)
         | (Err err, s1) \<Rightarrow> (Ok (None, Some err), s1)
         | (Ok _, s1) \<Rightarrow>
      (case apply_targets b bundle resolvedBundle (ctl_range b targetResources) False s1 of
         (Panic p, s2) \<Rightarrow> (Panic p, s2)
       | (Err e, s2) \<Rightarrow> (Err e, s2)
       | (Ok (Inl (t, err)), s2) \<Rightarrow>
           (let reason = ''Sync'' @ res_Kind t @ ''TargetFailed'';
                ns = nn_Namespace (res_NamespacedName t)
            in (Ok (Some (set_patch_condition b bundle
                      (synced_condition ConditionFalse reason
                         (''Failed to sync bundle '' @ res_Kind t @ '' to namespace '' @ go_quote ns @ '': '' @ error_text err) bundle)
                      statusPatch), Some err),
                Eventf EventWarning reason ''SyncFailed''
                  ''Failed to sync target %s in Namespace %q: %s'' [res_Kind t, ns, error_text err] s2))
       | (Ok (Inr changed), s2) \<Rightarrow>
           report_synced b bundle resolvedBundle namespaceSelector changed statusPatch s2))"

definition source_failure :: "gerr \<Rightarrow> string \<times> string" where
  "source_failure err =
     (if IsSourceNotFound err then (''SourceNotFound'', ''bundle source was not found'')
      else (''SourceBuildError'', ''failed to build bundle sources''))"

definition reconcileBundle ::
  "('w, 'sel, 'ks) bundle_ctl \<Rightarrow> NamespacedName \<Rightarrow> 'w sys \<Rightarrow> (BundleStatus option \<times> gerr option) res \<times> 'w sys" where
  "reconcileBundle b req s =
     (case ctl_Get b (sys_world s) req of
        Inl err \<Rightarrow>
          (if apierrors_IsNotFound err then (Ok (None, None), s)
           else (Ok (None, Some (Errorf (''failed to get '' @ go_quote (nn_String req) @ '': '' @ error_text err))), s))
      | Inr bundle \<Rightarrow>
          (let statusPatch = \<lparr>st_Conditions = [], st_DefaultCAPackageVersion = st_DefaultCAPackageVersion (bd_Status bundle)\<rparr>;
               target = spec_Target (bd_Spec bundle)
           in case BuildBundle (ctl_parse b) (ctl_time b) (ctl_labels b) (ctl_Reader b (sys_world s))
                     (ctl_bundleBuilder b) (spec_Sources (bd_Spec bundle)) of
                Panic p \<Rightarrow> (Panic p, s)
              | Err err \<Rightarrow>
                  (case source_failure err of
                     (reason, message) \<Rightarrow>
                       (let errMsg = capitalise message @ '': '' @ error_text err
                        in (Ok (Some (set_patch_condition b bundle (synced_condition ConditionFalse reason errMsg bundle) statusPatch),
                                if IsSourceNotFound err then None else Some (Wrapf (message @ '': '') err)),
                            Eventf EventWarning reason ''SyncFailed'' errMsg [] s)))
              | Ok resolvedBundle \<Rightarrow>
                  (if \<not> opt_SecretTargetsEnabled (ctl_Options b) \<and> bt_Secret target \<noteq> None
                   then (Ok (Some (set_patch_condition b bundle
                               (synced_condition ConditionFalse ''SecretTargetsDisabled'' secret_targets_disabled bundle) statusPatch), None),
                         Eventf EventWarning ''SecretTargetsDisabled'' ''SyncFailed'' secret_targets_disabled [] s)
                   else
                   (case bundleTargetNamespaceSelector (ctl_labels b) target of
                      Inl err \<Rightarrow>
                        (Ok (None, Some (Wrapf ''failed to build NamespaceSelector: '' err)),
                         Eventf EventWarning ''NamespaceSelectorError'' ''SyncFailed''
                           ''Failed to build namespace match labels selector: %s'' [error_text err] s)
                    | Inr namespaceSelector \<Rightarrow>
                        (case ctl_ListNamespaces b (sys_world s) namespaceSelector of
                           Inl err \<Rightarrow>
                             (Ok (None, Some (Wrapf ''failed to list Namespaces: '' err)),
                              Eventf EventWarning ''NamespaceListError'' ''SyncFailed''
                                ''Failed to list namespaces: %s'' [error_text err] s)
                         | Inr namespaceList \<Rightarrow>
                             sync_targets b bundle resolvedBundle namespaceSelector namespaceList statusPatch s)))))"

text \<open>The status patch: a server-side apply of the Bundle's status alone.\<close>

definition GenerateBundleStatusPatch ::
  "(bundleStatusApplyConfiguration \<Rightarrow> gerr + string) \<Rightarrow> string \<Rightarrow> BundleStatus option \<Rightarrow> gerr + string" where
  "GenerateBundleStatusPatch json_Marshal name status =
     json_Marshal \<lparr>bsac_Name = name, bsac_Kind = BundleKind, bsac_APIVersion = SchemeGroupVersion_String,
       bsac_Status = status\<rparr>"

text \<open>The errors of a reconcile; \<open>NewAggregate\<close> drops the nil ones.\<close>

definition Reconcile_result :: "gerr option list \<Rightarrow> gerr list" where
  "Reconcile_result errs = concat (map (\<lambda>e. case e of None \<Rightarrow> [] | Some x \<Rightarrow> [x]) errs)"

definition Reconcile_Bundle ::
  "('w, 'sel, 'ks) bundle_ctl \<Rightarrow> NamespacedName \<Rightarrow> 'w sys \<Rightarrow> gerr list res \<times> 'w sys" where
  "Reconcile_Bundle b req s =
     (case reconcileBundle b req s of
        (Panic p, s1) \<Rightarrow> (Panic p, s1)
      | (Err e, s1) \<Rightarrow> (Err e, s1)
      | (Ok (None, resultErr), s1) \<Rightarrow> (Ok (Reconcile_result [resultErr]), s1)
      | (Ok (Some statusPatch, resultErr), s1) \<Rightarrow>
          (case GenerateBundleStatusPatch (ctl_Marshal b) (nn_Name req) (Some statusPatch) of
             Inl err \<Rightarrow> (Ok (Reconcile_result [resultErr, Some (Wrapf ''failed to generate bundle status patch: '' err)]), s1)
           | Inr patch \<Rightarrow>
               (let s2 = log_action (StatusPatchRequest (nn_Name req) statusPatch) s1
                in case ctl_StatusPatch b (sys_world s1) (nn_Name req) patch of
                     (Some err, w) \<Rightarrow>
                       (Ok (Reconcile_result [resultErr, Some (Wrapf ''failed to apply bundle status patch: '' err)]), s2\<lparr>sys_world := w\<rparr>)
                   | (None, w) \<Rightarrow> (Ok (Reconcile_result [resultErr]), s2\<lparr>sys_world := w\<rparr>))))"

end
