(* ===== verification/TargetTheorems.thy ===== *)
theory TargetTheorems
  imports Target
begin

text \<open>
  What applying and cleaning up a target does. The two kinds of target share their control flow:
  the locale \<open>target_kind\<close> holds it, with one interpretation per kind, and its lemmas give
  the properties of \<open>ApplyTarget\<close>.
\<close>

section \<open>The two kinds of target\<close>

definition named_config :: "Resource \<Rightarrow> ApplyConfiguration \<Rightarrow> bool" where
  "named_config target cfg \<longleftrightarrow>
     ac_Name cfg = Some (nn_Name (res_NamespacedName target)) \<and>
     ac_Namespace cfg = Some (nn_Namespace (res_NamespacedName target))"

text \<open>The control flow of an apply, over the kind's template, patch builder and patch call.\<close>

definition apply_with ::
  "(BundleTarget \<Rightarrow> TargetTemplate option) \<Rightarrow> (TargetTemplate \<Rightarrow> string \<Rightarrow> string \<Rightarrow> string gomap \<Rightarrow> ApplyConfiguration)
     \<Rightarrow> (ApplyConfiguration option \<Rightarrow> 'w sys \<Rightarrow> ('o option \<times> gerr option) res \<times> 'w sys)
     \<Rightarrow> 'ks truststore_lib \<Rightarrow> 'w Reconciler \<Rightarrow> Resource \<Rightarrow> Bundle \<Rightarrow> BundleData \<Rightarrow> 'w sys
     \<Rightarrow> (bool \<times> gerr option) res \<times> 'w sys" where
  "apply_with tmpl mk patch lib r target bundle d s =
     (let got = rec_CacheGet r (sys_world s) (res_Kind target) (res_NamespacedName target);
          bt = spec_Target (bd_Spec bundle)
      in case (get_failed target got, tmpl bt) of
           (Some err, _) \<Rightarrow> (Ok (False, Some err), s)
         | (None, None) \<Rightarrow> (Ok (False, Some (Errorf ''target not defined'')), s)
         | (None, Some t) \<Rightarrow>
             (let pem = PEM (Some (bdl_CertPool d));
                  h = TrustBundleHash pem (bt_AdditionalFormats bt) (Some t)
              in case exit_early r target got bundle h of
                   Some result \<Rightarrow> (result, s)
                 | None \<Rightarrow>
                     (case binaryData lib (bdl_CertPool d) (bt_AdditionalFormats bt) of
                        Panic p \<Rightarrow> (Panic p, s)
                      | Err err \<Rightarrow> (Ok (False, Some err), s)
                      | Ok bin \<Rightarrow>
                          (case patch (Some (mk t h pem bin)) s of
                             (Ok (_, Some err), s') \<Rightarrow> (Ok (False, Some (failed_to_patch target err)), s')
                           | (Ok (_, None), s') \<Rightarrow> (Ok (True, None), s')
                           | (Err e, s') \<Rightarrow> (Err e, s')
                           | (Panic p, s') \<Rightarrow> (Panic p, s')))))"

definition cache_of :: "'w Reconciler \<Rightarrow> 'w sys \<Rightarrow> Resource \<Rightarrow> gerr + ObjectMeta" where
  "cache_of r s target = rec_CacheGet r (sys_world s) (res_Kind target) (res_NamespacedName target)"

locale target_kind =
  fixes kind :: Kind
    and tmpl :: "BundleTarget \<Rightarrow> TargetTemplate option"
    and fields :: "string list"
    and mk :: "Resource \<Rightarrow> Bundle \<Rightarrow> TargetTemplate \<Rightarrow> string \<Rightarrow> string \<Rightarrow> string gomap \<Rightarrow> ApplyConfiguration"
    and patch :: "'w Reconciler \<Rightarrow> ApplyConfiguration option \<Rightarrow> 'w sys \<Rightarrow> ('o option \<times> gerr option) res \<times> 'w sys"
    and run :: "'ks truststore_lib \<Rightarrow> 'w Reconciler \<Rightarrow> Resource \<Rightarrow> Bundle \<Rightarrow> BundleData \<Rightarrow> 'w sys
                  \<Rightarrow> (bool \<times> gerr option) res \<times> 'w sys"
  assumes run_eq: "run lib r target b d s = apply_with tmpl (mk target b) (patch r) lib r target b d s"
    and mk_named: "named_config target (mk target b t h pem bin)"
    and patch_outcome: "named_config target cfg \<Longrightarrow> patch r (Some cfg) s = (x, s') \<Longrightarrow>
          (\<exists>err. x = Ok (None, Some err) \<and> s' = s) \<or>
          (\<exists>obj err w. x = Ok (obj, err) \<and> s' = (log_action (PatchRequest kind cfg) s)\<lparr>sys_world := w\<rparr>)"
    and needsUpdate_eq: "needsUpdate r kind obj b h =
          (case tmpl (spec_Target (bd_Spec b)) of
             None \<Rightarrow> Panic nil_deref
           | Some t \<Rightarrow>
               (case listManagedProperties r (om_ManagedFields obj) FieldManager fields of
                  Inl err \<Rightarrow> Ok (False, Some (Wrapf ''failed to list managed properties: '' err))
                | Inr ps \<Rightarrow>
                    Ok (\<not> rec_IsControlledBy r obj (bd_Meta b) \<or>
                        get_or_empty (om_Labels obj) BundleLabelKey \<noteq> om_Name (bd_Meta b) \<or>
                        get_or_empty (entries (om_Annotations obj)) BundleHashAnnotationKey \<noteq> h \<or>
                        set ps \<noteq> set (expected_properties (tt_Key t)
                                        (bt_AdditionalFormats (spec_Target (bd_Spec b)))), None)))"
begin

definition hash_for :: "Bundle \<Rightarrow> BundleData \<Rightarrow> TargetTemplate \<Rightarrow> string" where
  "hash_for b d t = TrustBundleHash (PEM (Some (bdl_CertPool d))) (bt_AdditionalFormats (spec_Target (bd_Spec b))) (Some t)"

text \<open>An object that already is what the apply would make of it.\<close>

definition in_sync :: "'w Reconciler \<Rightarrow> ObjectMeta \<Rightarrow> Bundle \<Rightarrow> BundleData \<Rightarrow> TargetTemplate \<Rightarrow> bool" where
  "in_sync r obj b d t \<longleftrightarrow>
     rec_IsControlledBy r obj (bd_Meta b) \<and>
     get_or_empty (om_Labels obj) BundleLabelKey = om_Name (bd_Meta b) \<and>
     get_or_empty (entries (om_Annotations obj)) BundleHashAnnotationKey = hash_for b d t \<and>
     (\<exists>ps. listManagedProperties r (om_ManagedFields obj) FieldManager fields = Inr ps \<and>
           set ps = set (expected_properties (tt_Key t) (bt_AdditionalFormats (spec_Target (bd_Spec b)))))"

lemma needsUpdate_in_sync:
  assumes "tmpl (spec_Target (bd_Spec b)) = Some t"
  shows "needsUpdate r kind obj b (hash_for b d t) = Ok (False, None) \<longleftrightarrow> in_sync r obj b d t"
  using assms by (auto simp: needsUpdate_eq in_sync_def split: sum.splits)

lemma idle_iff:
  assumes "res_Kind target = kind"
  shows "run lib r target b d s = (Ok (False, None), s) \<longleftrightarrow>
     (\<exists>t obj. tmpl (spec_Target (bd_Spec b)) = Some t \<and> cache_of r s target = Inr obj \<and> in_sync r obj b d t)"
    (is "?L \<longleftrightarrow> ?R")
proof
  assume ?R
  then obtain t obj where t: "tmpl (spec_Target (bd_Spec b)) = Some t"
    and obj: "cache_of r s target = Inr obj" and "in_sync r obj b d t" by blast
  then have "needsUpdate r kind obj b (hash_for b d t) = Ok (False, None)"
    using needsUpdate_in_sync [OF t] by blast
  then show ?L using t obj assms
    by (simp add: run_eq apply_with_def cache_of_def get_failed_def exit_early_def hash_for_def)
next
  assume ?L
  then show ?R using assms needsUpdate_in_sync
    by (auto simp: run_eq apply_with_def cache_of_def get_failed_def exit_early_def hash_for_def Let_def
        split: sum.splits option.splits prod.splits res.splits bool.splits if_splits)
qed

lemma synced_outcome:
  assumes "run lib r target b d s = (Ok (True, e), s')"
  obtains t bin obj w cfg where
    "e = None" "tmpl (spec_Target (bd_Spec b)) = Some t"
    "cfg = mk target b t (hash_for b d t) (PEM (Some (bdl_CertPool d))) bin"
    "binaryData lib (bdl_CertPool d) (bt_AdditionalFormats (spec_Target (bd_Spec b))) = Ok bin"
    "patch r (Some cfg) s = (Ok (obj, None), s')"
    "s' = (log_action (PatchRequest kind cfg) s)\<lparr>sys_world := w\<rparr>"
proof -
  from assms obtain t bin obj cfg where *: "e = None" "tmpl (spec_Target (bd_Spec b)) = Some t"
    "cfg = mk target b t (hash_for b d t) (PEM (Some (bdl_CertPool d))) bin"
    "binaryData lib (bdl_CertPool d) (bt_AdditionalFormats (spec_Target (bd_Spec b))) = Ok bin"
    "patch r (Some cfg) s = (Ok (obj, None), s')"
    by (auto simp: run_eq apply_with_def get_failed_def exit_early_def hash_for_def Let_def
        split: sum.splits option.splits prod.splits res.splits bool.splits if_splits)
  from patch_outcome [OF mk_named, of r target b t _ _ bin s, folded *(3)]
  show ?thesis using * mk_named patch_outcome that by (metis option.distinct(1) prod.inject res.inject(1))
qed

text \<open>Whatever happens, at most one request is made: the patch of this target.\<close>

lemma run_log:
  assumes "run lib r target b d s = (x, s')"
  shows "s' = s \<or> (\<exists>t h pem bin w. s' = (log_action (PatchRequest kind (mk target b t h pem bin)) s)\<lparr>sys_world := w\<rparr>)"
proof (rule ccontr)
  assume contra: "\<not> ?thesis"
  from assms contra obtain t h bin y where "patch r (Some (mk target b t h (PEM (Some (bdl_CertPool d))) bin)) s = (y, s')"
    by (auto simp: run_eq apply_with_def Let_def
        split: option.splits prod.splits res.splits)
  from patch_outcome [OF mk_named this] contra show False by blast
qed

lemma run_no_Err: "fst (run lib r target b d s) \<noteq> Err e"
proof
  assume "fst (run lib r target b d s) = Err e"
  moreover have "patch r (Some (mk target b t h pem bin)) s \<noteq> (Err e, s')" for t h pem bin s'
    using patch_outcome [OF mk_named, of r target b t h pem bin s] by fastforce
  moreover have "needsUpdate r k obj b h \<noteq> Err e" for k obj h
    by (auto simp: needsUpdate_def Let_def split: option.splits sum.splits)
  ultimately show False
    by (auto simp: run_eq apply_with_def exit_early_def Let_def
        split: option.splits prod.splits res.splits sum.splits bool.splits)
qed

lemma run_no_Panic:
  assumes "res_Kind target = kind"
    and "\<And>p. binaryData lib (bdl_CertPool d) (bt_AdditionalFormats (spec_Target (bd_Spec b))) \<noteq> Panic p"
  shows "fst (run lib r target b d s) \<noteq> Panic p"
proof
  assume "fst (run lib r target b d s) = Panic p"
  moreover have "patch r (Some (mk target b t h pem bin)) s \<noteq> (Panic p, s')" for t h pem bin p s'
    using patch_outcome [OF mk_named, of r target b t h pem bin s] by fastforce
  moreover have "needsUpdate r kind obj b h \<noteq> Panic p" if "tmpl (spec_Target (bd_Spec b)) = Some t" for obj h t p
    using that by (simp add: needsUpdate_eq split: sum.split)
  ultimately show False using assms
    by (auto simp: run_eq apply_with_def exit_early_def Let_def
        split: option.splits prod.splits res.splits sum.splits bool.splits)
qed

end

section \<open>The patches\<close>

lemma target_patch_simps [simp]:
  "ac_Name (target_patch target b) = Some (nn_Name (res_NamespacedName target))"
  "ac_Namespace (target_patch target b) = Some (nn_Namespace (res_NamespacedName target))"
  "ac_Labels (target_patch target b) = [(BundleLabelKey, om_Name (bd_Meta b))]"
  "ac_Annotations (target_patch target b) = []"
  "ac_Data (target_patch target b) = []"
  "ac_BinaryData (target_patch target b) = []"
  "ac_OwnerReferences (target_patch target b) =
     [\<lparr>or_APIVersion = SchemeGroupVersion_String, or_Kind = BundleKind, or_Name = om_Name (bd_Meta b),
       or_UID = om_UID (bd_Meta b), or_Controller = Some True, or_BlockOwnerDeletion = Some True\<rparr>]"
  by (simp_all add: target_patch_def prepareTargetPatch_def new_ApplyConfiguration_def map_put_def)

lemma named_target_patch [simp]: "named_config target (target_patch target b)"
  by (simp add: named_config_def)

lemma named_configMap_patch: "named_config target (configMap_patch target b t h pem bin)"
  by (simp add: named_config_def configMap_patch_def with_metadata_def Let_def)

lemma named_secret_patch: "named_config target (secret_patch target b t h pem bin)"
  by (simp add: named_config_def secret_patch_def with_metadata_def Let_def)

lemma patchConfigMap_outcome:
  assumes "named_config target cfg" and "patchConfigMap r (Some cfg) s = (x, s')"
  shows "(\<exists>err. x = Ok (None, Some err) \<and> s' = s) \<or>
    (\<exists>obj err w. x = Ok (obj, err) \<and> s' = (log_action (PatchRequest KindConfigMap cfg) s)\<lparr>sys_world := w\<rparr>)"
  using assms
  by (auto simp: patchConfigMap_def log_patch_def named_config_def split: option.splits prod.splits sum.splits)

lemma patchSecret_outcome:
  assumes "named_config target cfg" and "patchSecret r (Some cfg) s = (x, s')"
  shows "(\<exists>err. x = Ok (None, Some err) \<and> s' = s) \<or>
    (\<exists>obj err w. x = Ok (obj, err) \<and> s' = (log_action (PatchRequest KindSecret cfg) s)\<lparr>sys_world := w\<rparr>)"
  using assms
  by (auto simp: patchSecret_def log_patch_def named_config_def split: option.splits prod.splits sum.splits)

lemma kinds_distinct [simp]: "KindSecret \<noteq> KindConfigMap" "KindConfigMap \<noteq> KindSecret"
  by (simp_all add: KindSecret_def KindConfigMap_def)

lemma apply_cases_eq:
  "apply_with tmpl mk patch lib r target b d s =
     (let got = rec_CacheGet r (sys_world s) (res_Kind target) (res_NamespacedName target);
          bt = spec_Target (bd_Spec b)
      in case get_failed target got of
           Some err \<Rightarrow> (Ok (False, Some err), s)
         | None \<Rightarrow>
      (case tmpl bt of
         None \<Rightarrow> (Ok (False, Some (Errorf ''target not defined'')), s)
       | Some t \<Rightarrow>
           (let pem = PEM (Some (bdl_CertPool d)); h = TrustBundleHash pem (bt_AdditionalFormats bt) (Some t)
            in case exit_early r target got b h of
                 Some result \<Rightarrow> (result, s)
               | None \<Rightarrow>
                   (case binaryData lib (bdl_CertPool d) (bt_AdditionalFormats bt) of
                      Panic p \<Rightarrow> (Panic p, s)
                    | Err err \<Rightarrow> (Ok (False, Some err), s)
                    | Ok bin \<Rightarrow>
                        (case patch (Some (mk t h pem bin)) s of
                           (Ok (_, Some err), s') \<Rightarrow> (Ok (False, Some (failed_to_patch target err)), s')
                         | (Ok (_, None), s') \<Rightarrow> (Ok (True, None), s')
                         | (Err e, s') \<Rightarrow> (Err e, s')
                         | (Panic p, s') \<Rightarrow> (Panic p, s'))))))"
  by (simp add: apply_with_def Let_def split: option.split)

interpretation cm: target_kind KindConfigMap bt_ConfigMap "[''data'', ''binaryData'']" configMap_patch
  patchConfigMap applyConfigMap
proof (unfold_locales, goal_cases)
  case 1 show ?case by (simp only: applyConfigMap_def apply_cases_eq)
next
  case 2 show ?case by (rule named_configMap_patch)
next
  case 3 then show ?case by (rule patchConfigMap_outcome)
next
  case 4 show ?case by (auto simp: needsUpdate_def Let_def split: option.split sum.split)
qed

interpretation sec: target_kind KindSecret bt_Secret "[''data'']" secret_patch patchSecret applySecret
proof (unfold_locales, goal_cases)
  case 1 show ?case by (simp only: applySecret_def apply_cases_eq)
next
  case 2 show ?case by (rule named_secret_patch)
next
  case 3 then show ?case by (rule patchSecret_outcome)
next
  case 4 show ?case by (auto simp: needsUpdate_def Let_def split: option.split sum.split)
qed

section \<open>What the patches contain\<close>

definition reserved_free :: "TargetTemplate \<Rightarrow> bool" where
  \<comment> \<open>the template does not name the label and the annotation the controller sets\<close>
  "reserved_free t \<longleftrightarrow> wf_map (tm_Labels (tt_Metadata t)) \<and> wf_map (tm_Annotations (tt_Metadata t)) \<and>
     BundleLabelKey \<notin> fst ` set (tm_Labels (tt_Metadata t))"

definition all_data :: "ApplyConfiguration \<Rightarrow> string gomap" where
  "all_data cfg = ac_Data cfg @ ac_BinaryData cfg"

definition owned_by :: "Bundle \<Rightarrow> ApplyConfiguration \<Rightarrow> bool" where
  "owned_by b cfg \<longleftrightarrow> ac_OwnerReferences cfg =
     [\<lparr>or_APIVersion = SchemeGroupVersion_String, or_Kind = BundleKind, or_Name = om_Name (bd_Meta b),
       or_UID = om_UID (bd_Meta b), or_Controller = Some True, or_BlockOwnerDeletion = Some True\<rparr>]"

lemma owned_patches [simp]:
  "owned_by b (target_patch target b)"
  "owned_by b (configMap_patch target b t h pem bin)"
  "owned_by b (secret_patch target b t h pem bin)"
  by (simp_all add: owned_by_def configMap_patch_def secret_patch_def with_metadata_def Let_def)

lemma labels_patch:
  "map_of (ac_Labels (with_metadata t h (target_patch target b))) =
     [BundleLabelKey \<mapsto> om_Name (bd_Meta b)] ++ map_of (tm_Labels (tt_Metadata t))"
  if "wf_map (tm_Labels (tt_Metadata t))"
  using that by (simp add: with_metadata_def map_of_copy GetLabels_def)

lemma annotations_patch:
  "map_of (ac_Annotations (with_metadata t h (target_patch target b))) =
     (map_of (tm_Annotations (tt_Metadata t)))(BundleHashAnnotationKey \<mapsto> h)"
  if "wf_map (tm_Annotations (tt_Metadata t))"
  using that by (simp add: with_metadata_def map_of_copy GetAnnotations_def)

lemma binaryData_Ok:
  assumes "binaryData lib pool formats = Ok bin"
  shows "wf_map bin \<and> insert key (fst ` set bin) = set (expected_properties key formats)"
proof (cases formats)
  case (Some af)
  then show ?thesis using assms
    by (cases "af_JKS af"; cases "af_PKCS12 af"; cases "p12_Password (the (af_PKCS12 af))")
      (clarsimp simp: binaryData_def expected_properties_def res_simps fst_set_map_put insert_commute)+
qed (use assms in \<open>simp add: binaryData_def expected_properties_def\<close>)

definition formats_ok :: "'ks truststore_lib \<Rightarrow> CertPool \<Rightarrow> AdditionalFormats option \<Rightarrow> string gomap \<Rightarrow> bool" where
  "formats_ok lib pool formats bin \<longleftrightarrow>
     (case formats of None \<Rightarrow> True | Some af \<Rightarrow>
        (case af_JKS af of None \<Rightarrow> True
         | Some j \<Rightarrow> \<exists>out. jksEncoder_Encode lib (jks_Password j) pool = Ok out \<and> map_of bin (jks_Key j) = Some out) \<and>
        (case af_PKCS12 af of None \<Rightarrow> True
         | Some p \<Rightarrow> \<exists>pw out. p12_Password p = Some pw \<and>
              pkcs12Encoder_Encode lib pw (p12_Profile p) pool = Ok out \<and> map_of bin (p12_Key p) = Some out))"

lemma binaryData_formats:
  assumes "binaryData lib pool formats = Ok bin" and "distinct (expected_properties key formats)"
  shows "formats_ok lib pool formats bin"
proof (cases formats)
  case (Some af)
  then show ?thesis using assms
    by (cases "af_JKS af"; cases "af_PKCS12 af"; cases "p12_Password (the (af_PKCS12 af))")
      (auto simp: binaryData_def expected_properties_def formats_ok_def res_simps)
qed (simp add: formats_ok_def)

lemma configMap_data:
  "ac_Data (configMap_patch target b t h pem bin) = [(tt_Key t, pem)]"
  "wf_map bin \<Longrightarrow> map_of (ac_BinaryData (configMap_patch target b t h pem bin)) = map_of bin"
  "fst ` set (ac_BinaryData (configMap_patch target b t h pem bin)) = fst ` set bin"
  by (simp_all add: configMap_patch_def with_metadata_def Let_def map_put_def map_of_copy)

lemma secret_data:
  "wf_map bin \<Longrightarrow> map_of (ac_Data (secret_patch target b t h pem bin)) = [tt_Key t \<mapsto> pem] ++ map_of bin"
  "ac_BinaryData (secret_patch target b t h pem bin) = []"
  "fst ` set (ac_Data (secret_patch target b t h pem bin)) = insert (tt_Key t) (fst ` set bin)"
proof -
  have wf: "wf_map (map_copy [(tt_Key t, pem)] bin)" by (rule wf_map_copy) (simp add: wf_map_def)
  show "wf_map bin \<Longrightarrow> map_of (ac_Data (secret_patch target b t h pem bin)) = [tt_Key t \<mapsto> pem] ++ map_of bin"
    using wf by (simp add: secret_patch_def with_metadata_def Let_def map_of_copy)
  show "ac_BinaryData (secret_patch target b t h pem bin) = []"
    "fst ` set (ac_Data (secret_patch target b t h pem bin)) = insert (tt_Key t) (fst ` set bin)"
    by (simp_all add: secret_patch_def with_metadata_def Let_def)
qed

lemma metadata_patches [simp]:
  "ac_Labels (configMap_patch target b t h pem bin) = ac_Labels (with_metadata t h (target_patch target b))"
  "ac_Annotations (configMap_patch target b t h pem bin) = ac_Annotations (with_metadata t h (target_patch target b))"
  "ac_Labels (secret_patch target b t h pem bin) = ac_Labels (with_metadata t h (target_patch target b))"
  "ac_Annotations (secret_patch target b t h pem bin) = ac_Annotations (with_metadata t h (target_patch target b))"
  by (simp_all add: configMap_patch_def secret_patch_def Let_def)

definition formats_complete :: "AdditionalFormats option \<Rightarrow> bool" where
  \<comment> \<open>a PKCS \#12 format has a password, as the defaulting of the API fills it in\<close>
  "formats_complete formats \<longleftrightarrow>
     (case formats of None \<Rightarrow> True | Some af \<Rightarrow>
        (case af_PKCS12 af of None \<Rightarrow> True | Some p \<Rightarrow> p12_Password p \<noteq> None))"

lemma jks_fill_no_Panic: "jks_fill lib cs ks \<noteq> Panic p"
  by (induction lib cs ks rule: jks_fill.induct) (auto simp: Let_def split: sum.split)

lemma jksEncoder_no_Panic [simp]: "jksEncoder_Encode lib pw pool \<noteq> Panic p"
  using jks_fill_no_Panic [of lib "Certificates pool" "ks_New lib"]
  by (cases "jks_fill lib (Certificates pool) (ks_New lib)") (auto simp: jksEncoder_Encode_def split: sum.split)

lemma pkcs12Encoder_no_Panic [simp]: "pkcs12Encoder_Encode lib pw profile pool \<noteq> Panic p"
  by (simp add: pkcs12Encoder_Encode_def Let_def split: sum.split)

lemma binaryData_Panic_iff: "(\<exists>p. binaryData lib pool formats = Panic p) \<longleftrightarrow>
    \<not> formats_complete formats \<and>
    (\<exists>af. formats = Some af \<and> (af_JKS af = None \<or> (\<exists>j out. af_JKS af = Some j \<and> jksEncoder_Encode lib (jks_Password j) pool = Ok out)))"
proof (cases formats)
  case (Some af)
  then show ?thesis
    by (cases "af_JKS af"; cases "af_PKCS12 af"; cases "p12_Password (the (af_PKCS12 af))")
      (auto simp: binaryData_def formats_complete_def bind_res_Panic_iff res_simps)
qed (simp add: binaryData_def formats_complete_def)

lemma ApplyTarget_total:
  assumes "formats_complete (bt_AdditionalFormats (spec_Target (bd_Spec b)))"
  shows "\<exists>x. fst (ApplyTarget lib r target b d s) = Ok x"
proof -
  have bin: "binaryData lib (bdl_CertPool d) (bt_AdditionalFormats (spec_Target (bd_Spec b))) \<noteq> Panic p" for p
    using binaryData_Panic_iff assms by blast
  consider "res_Kind target = KindConfigMap" | "res_Kind target = KindSecret"
    | "res_Kind target \<noteq> KindConfigMap" "res_Kind target \<noteq> KindSecret" by blast
  then show ?thesis
  proof cases
    case 1
    then show ?thesis using cm.run_no_Panic [OF 1 bin, where r = r and s = s] cm.run_no_Err [of lib r target b d s]
      by (cases "fst (applyConfigMap lib r target b d s)") (auto simp: ApplyTarget_def)
  next
    case 2
    then show ?thesis using sec.run_no_Panic [OF 2 bin, where r = r and s = s] sec.run_no_Err [of lib r target b d s]
      by (cases "fst (applySecret lib r target b d s)") (auto simp: ApplyTarget_def)
  next
    case 3
    then show ?thesis by (auto simp: ApplyTarget_def)
  qed
qed

end
