(* ===== verification/TargetProperties.thy ===== *)
theory TargetProperties
  imports TargetTheorems
begin

text \<open>
  The properties of \<open>target.go\<close>: when an apply is a no-op, what it sends otherwise, that a second
  apply is a no-op, what a cleanup may do, and what the bundle hash does and does not capture.
\<close>

section \<open>Vocabulary\<close>

definition target_template :: "Kind \<Rightarrow> Bundle \<Rightarrow> TargetTemplate option" where
  "target_template kind b =
     (if kind = KindConfigMap then bt_ConfigMap (spec_Target (bd_Spec b))
      else if kind = KindSecret then bt_Secret (spec_Target (bd_Spec b)) else None)"

definition target_fields :: "Kind \<Rightarrow> string list" where
  "target_fields kind = (if kind = KindConfigMap then [''data'', ''binaryData''] else [''data''])"

abbreviation formats_of :: "Bundle \<Rightarrow> AdditionalFormats option" where
  "formats_of b \<equiv> bt_AdditionalFormats (spec_Target (bd_Spec b))"

definition desired_hash :: "Bundle \<Rightarrow> BundleData \<Rightarrow> TargetTemplate \<Rightarrow> string" where
  "desired_hash b d t = TrustBundleHash (PEM (Some (bdl_CertPool d))) (formats_of b) (Some t)"

definition up_to_date :: "'w Reconciler \<Rightarrow> Kind \<Rightarrow> ObjectMeta \<Rightarrow> Bundle \<Rightarrow> BundleData \<Rightarrow> TargetTemplate \<Rightarrow> bool" where
  "up_to_date r kind obj b d t \<longleftrightarrow>
     rec_IsControlledBy r obj (bd_Meta b) \<and>
     get_or_empty (om_Labels obj) BundleLabelKey = om_Name (bd_Meta b) \<and>
     get_or_empty (entries (om_Annotations obj)) BundleHashAnnotationKey = desired_hash b d t \<and>
     (case listManagedProperties r (om_ManagedFields obj) FieldManager (target_fields kind) of
        Inl _ \<Rightarrow> False
      | Inr ps \<Rightarrow> set ps = set (expected_properties (tt_Key t) (formats_of b)))"

lemma in_sync_iff:
  "cm.in_sync r obj b d t \<longleftrightarrow> up_to_date r KindConfigMap obj b d t"
  "sec.in_sync r obj b d t \<longleftrightarrow> up_to_date r KindSecret obj b d t"
  by (auto simp: cm.in_sync_def sec.in_sync_def up_to_date_def desired_hash_def cm.hash_for_def sec.hash_for_def
      target_fields_def split: sum.splits)

text \<open>The API objects a patch describes are those the Bundle's target asks for.\<close>

definition desired_patch ::
  "'ks truststore_lib \<Rightarrow> Resource \<Rightarrow> Bundle \<Rightarrow> BundleData \<Rightarrow> TargetTemplate \<Rightarrow> ApplyConfiguration \<Rightarrow> bool" where
  "desired_patch lib target b d t cfg \<longleftrightarrow>
     named_config target cfg \<and> owned_by b cfg \<and>
     map_of (ac_Labels cfg) = (map_of (tm_Labels (tt_Metadata t)))(BundleLabelKey \<mapsto> om_Name (bd_Meta b)) \<and>
     map_of (ac_Annotations cfg) = (map_of (tm_Annotations (tt_Metadata t)))(BundleHashAnnotationKey \<mapsto> desired_hash b d t) \<and>
     fst ` set (all_data cfg) = set (expected_properties (tt_Key t) (formats_of b)) \<and>
     map_of (ac_Data cfg) (tt_Key t) = Some (PEM (Some (bdl_CertPool d))) \<and>
     formats_ok lib (bdl_CertPool d) (formats_of b) (all_data cfg)"

lemma label_map:
  assumes "reserved_free t"
  shows "[BundleLabelKey \<mapsto> v] ++ map_of (tm_Labels (tt_Metadata t)) = (map_of (tm_Labels (tt_Metadata t)))(BundleLabelKey \<mapsto> v)"
proof -
  from assms have "map_of (tm_Labels (tt_Metadata t)) BundleLabelKey = None"
    by (simp add: reserved_free_def map_of_eq_None_iff)
  then show ?thesis by (auto simp: fun_eq_iff map_add_def split: option.split)
qed

lemma formats_ok_cong:
  assumes "formats_ok lib pool formats bin" and "\<And>k. k \<in> set (tl (expected_properties key formats)) \<Longrightarrow> map_of bin' k = map_of bin k"
  shows "formats_ok lib pool formats bin'"
  using assms by (auto simp: formats_ok_def expected_properties_def split: option.splits)

lemma desired_configMap_patch:
  assumes "reserved_free t" and dist: "distinct (expected_properties (tt_Key t) (formats_of b))"
    and bin: "binaryData lib (bdl_CertPool d) (formats_of b) = Ok bin"
  shows "desired_patch lib target b d t (configMap_patch target b t (desired_hash b d t) (PEM (Some (bdl_CertPool d))) bin)"
proof -
  from binaryData_Ok [OF bin] have wf: "wf_map bin"
    and keys: "insert (tt_Key t) (fst ` set bin) = set (expected_properties (tt_Key t) (formats_of b))" by blast+
  have "formats_ok lib (bdl_CertPool d) (formats_of b)
      (all_data (configMap_patch target b t (desired_hash b d t) (PEM (Some (bdl_CertPool d))) bin))"
  proof (rule formats_ok_cong [OF binaryData_formats [OF bin dist]])
    fix k assume "k \<in> set (tl (expected_properties (tt_Key t) (formats_of b)))"
    with dist have "k \<noteq> tt_Key t" by (auto simp: expected_properties_def)
    then show "map_of (all_data (configMap_patch target b t (desired_hash b d t) (PEM (Some (bdl_CertPool d))) bin)) k = map_of bin k"
      by (simp add: all_data_def configMap_data wf map_add_def split: option.split)
  qed
  then show ?thesis using assms(1) keys
    by (simp add: desired_patch_def named_configMap_patch labels_patch annotations_patch label_map
        configMap_data reserved_free_def all_data_def)
qed

lemma desired_secret_patch:
  assumes "reserved_free t" and dist: "distinct (expected_properties (tt_Key t) (formats_of b))"
    and bin: "binaryData lib (bdl_CertPool d) (formats_of b) = Ok bin"
  shows "desired_patch lib target b d t (secret_patch target b t (desired_hash b d t) (PEM (Some (bdl_CertPool d))) bin)"
proof -
  from binaryData_Ok [OF bin] have wf: "wf_map bin"
    and keys: "insert (tt_Key t) (fst ` set bin) = set (expected_properties (tt_Key t) (formats_of b))" by blast+
  have bin': "fst ` set bin = set (tl (expected_properties (tt_Key t) (formats_of b)))"
    using bin by (cases "formats_of b"; cases "af_JKS (the (formats_of b))"; cases "af_PKCS12 (the (formats_of b))";
      cases "p12_Password (the (af_PKCS12 (the (formats_of b))))")
      (clarsimp simp: binaryData_def expected_properties_def res_simps fst_set_map_put insert_commute)+
  with dist have "tt_Key t \<notin> fst ` set bin" by (auto simp: expected_properties_def)
  then have none: "([tt_Key t \<mapsto> v] ++ map_of bin) (tt_Key t) = Some v" for v
    by (simp add: map_add_dom_app_simps(3) dom_map_of_conv_image_fst)
  let ?cfg = "secret_patch target b t (desired_hash b d t) (PEM (Some (bdl_CertPool d))) bin"
  have "formats_ok lib (bdl_CertPool d) (formats_of b) (all_data ?cfg)"
  proof (rule formats_ok_cong [OF binaryData_formats [OF bin dist]])
    fix k assume "k \<in> set (tl (expected_properties (tt_Key t) (formats_of b)))"
    with dist have "k \<noteq> tt_Key t" by (auto simp: expected_properties_def)
    then show "map_of (all_data ?cfg) k = map_of bin k"
      by (simp add: all_data_def secret_data wf map_add_def split: option.split)
  qed
  then show ?thesis using assms(1) keys none
    by (simp add: desired_patch_def named_secret_patch labels_patch annotations_patch label_map
        secret_data wf reserved_free_def all_data_def)
qed

section \<open>Applying\<close>

lemma ApplyTarget_kinds:
  "res_Kind target = KindConfigMap \<Longrightarrow> ApplyTarget lib r target b d s = applyConfigMap lib r target b d s"
  "res_Kind target = KindSecret \<Longrightarrow> ApplyTarget lib r target b d s = applySecret lib r target b d s"
  by (simp_all add: ApplyTarget_def)

lemma ApplyTarget_idleI:
  assumes "target_template (res_Kind target) b = Some t" and "cache_of r s target = Inr obj"
    and "up_to_date r (res_Kind target) obj b d t"
  shows "ApplyTarget lib r target b d s = (Ok (False, None), s)"
proof -
  consider "res_Kind target = KindConfigMap" | "res_Kind target = KindSecret"
    using assms(1) by (auto simp: target_template_def split: if_splits)
  then show ?thesis
  proof cases
    case 1
    with assms cm.idle_iff [of target lib r b d s] show ?thesis
      by (auto simp: ApplyTarget_kinds in_sync_iff target_template_def)
  next
    case 2
    with assms sec.idle_iff [of target lib r b d s] show ?thesis
      by (auto simp: ApplyTarget_kinds in_sync_iff target_template_def)
  qed
qed

lemma ApplyTarget_idleD:
  assumes "ApplyTarget lib r target b d s = (Ok (False, None), s)"
  shows "\<exists>t obj. target_template (res_Kind target) b = Some t \<and> cache_of r s target = Inr obj \<and>
           up_to_date r (res_Kind target) obj b d t"
proof -
  consider "res_Kind target = KindConfigMap" | "res_Kind target = KindSecret"
    using assms by (auto simp: ApplyTarget_def split: if_splits)
  then show ?thesis
  proof cases
    case 1
    with assms cm.idle_iff [of target lib r b d s] show ?thesis
      by (auto simp: ApplyTarget_kinds in_sync_iff target_template_def)
  next
    case 2
    with assms sec.idle_iff [of target lib r b d s] show ?thesis
      by (auto simp: ApplyTarget_kinds in_sync_iff target_template_def)
  qed
qed

text \<open>
  C31: An apply reports "nothing to do" exactly when the Bundle defines a target of this kind and
  the cached object already is controlled by the Bundle, carries its label and the hash of the
  resolved certificates, formats and metadata, and has no other properties managed by the field
  manager than those the target asks for. It then makes no request.
\<close>

theorem ApplyTarget_idle_iff:
  "ApplyTarget lib r target b d s = (Ok (False, None), s) \<longleftrightarrow>
     (\<exists>t obj. target_template (res_Kind target) b = Some t \<and> cache_of r s target = Inr obj \<and>
              up_to_date r (res_Kind target) obj b d t)"
  using ApplyTarget_idleI ApplyTarget_idleD by blast

lemma synced_patch:
  assumes "ApplyTarget lib r target b d s = (Ok (True, e), s')"
    and "target_template (res_Kind target) b = Some t"
    and "reserved_free t" and "distinct (expected_properties (tt_Key t) (formats_of b))"
  obtains cfg w where "e = None"
    "s' = (log_action (PatchRequest (res_Kind target) cfg) s)\<lparr>sys_world := w\<rparr>" "desired_patch lib target b d t cfg"
proof -
  consider "res_Kind target = KindConfigMap" | "res_Kind target = KindSecret"
    using assms(1) by (auto simp: ApplyTarget_def split: if_splits)
  then show ?thesis
  proof cases
    case 1
    with assms(1) have run: "applyConfigMap lib r target b d s = (Ok (True, e), s')" by (simp add: ApplyTarget_def)
    from assms(2) 1 have t: "bt_ConfigMap (spec_Target (bd_Spec b)) = Some t" by (simp add: target_template_def)
    show ?thesis
      by (rule cm.synced_outcome [OF run])
        (use t assms(3-) 1 that desired_configMap_patch in \<open>fastforce simp: cm.hash_for_def desired_hash_def\<close>)
  next
    case 2
    with assms(1) have run: "applySecret lib r target b d s = (Ok (True, e), s')" by (simp add: ApplyTarget_def)
    from assms(2) 2 have t: "bt_Secret (spec_Target (bd_Spec b)) = Some t" by (simp add: target_template_def)
    show ?thesis
      by (rule sec.synced_outcome [OF run])
        (use t assms(3-) 2 that desired_secret_patch in \<open>fastforce simp: sec.hash_for_def desired_hash_def\<close>)
  qed
qed

text \<open>
  C8: A successful write makes one request, and the patch is the desired object: it names the
  target, is owned by the Bundle, carries the Bundle's label and the hash next to the template's
  metadata, and holds the PEM bundle and each requested trust store under its own key, and no
  other key. The template must not use the reserved label and the keys must be distinct, which
  is what the admission webhook enforces.
\<close>

theorem ApplyTarget_writes_desired:
  assumes "ApplyTarget lib r target b d s = (Ok (True, e), s')"
    and "target_template (res_Kind target) b = Some t"
    and "reserved_free t" and "distinct (expected_properties (tt_Key t) (formats_of b))"
  shows "\<exists>cfg. e = None \<and> sys_log s' = sys_log s @ [PatchRequest (res_Kind target) cfg] \<and>
               desired_patch lib target b d t cfg"
  by (rule synced_patch [OF assms]) (auto simp: log_action_def)

text \<open>Whatever the outcome of an apply, it makes at most one request, a patch of its own target.\<close>

lemma ApplyTarget_requests:
  "snd (ApplyTarget lib r target b d s) = s \<or>
   (\<exists>cfg. sys_log (snd (ApplyTarget lib r target b d s)) = sys_log s @ [PatchRequest (res_Kind target) cfg] \<and>
          named_config target cfg \<and> owned_by b cfg)"
proof -
  obtain x s' where run: "ApplyTarget lib r target b d s = (x, s')" by force
  consider "res_Kind target = KindConfigMap" | "res_Kind target = KindSecret"
    | "res_Kind target \<noteq> KindConfigMap" "res_Kind target \<noteq> KindSecret" by blast
  then show ?thesis
  proof cases
    case 1
    with run have "applyConfigMap lib r target b d s = (x, s')" by (simp add: ApplyTarget_kinds)
    from cm.run_log [OF this] show ?thesis
      using run 1 by (auto simp: log_action_def intro: named_configMap_patch)
  next
    case 2
    with run have "applySecret lib r target b d s = (x, s')" by (simp add: ApplyTarget_kinds)
    from sec.run_log [OF this] show ?thesis
      using run 2 by (auto simp: log_action_def intro: named_secret_patch)
  next
    case 3
    then show ?thesis by (simp add: ApplyTarget_def)
  qed
qed

text \<open>
  What the cluster shows after a server-side apply: the object has the labels and annotations that
  were sent, is controlled by an owner that was sent as the controller, and the managed fields of
  the field manager list the data keys that were sent.
\<close>

definition shows_patch :: "'w Reconciler \<Rightarrow> Kind \<Rightarrow> ApplyConfiguration \<Rightarrow> ObjectMeta \<Rightarrow> ObjectMeta \<Rightarrow> bool" where
  "shows_patch r kind cfg owner obj \<longleftrightarrow>
     map_of (ac_Labels cfg) \<subseteq>\<^sub>m map_of (om_Labels obj) \<and>
     map_of (ac_Annotations cfg) \<subseteq>\<^sub>m map_of (entries (om_Annotations obj)) \<and>
     ((\<exists>ref \<in> set (ac_OwnerReferences cfg). or_UID ref = om_UID owner \<and> or_Controller ref = Some True)
        \<longrightarrow> rec_IsControlledBy r obj owner) \<and>
     (case listManagedProperties r (om_ManagedFields obj) FieldManager (target_fields kind) of
        Inl _ \<Rightarrow> False | Inr ps \<Rightarrow> set ps = fst ` set (all_data cfg))"

lemma map_le_Some: "m \<subseteq>\<^sub>m m' \<Longrightarrow> m k = Some v \<Longrightarrow> m' k = Some v"
  by (metis domI map_le_def)

lemma shows_patch_up_to_date:
  assumes "desired_patch lib target b d t cfg" and "shows_patch r kind cfg (bd_Meta b) obj"
  shows "up_to_date r kind obj b d t"
proof -
  have "map_of (om_Labels obj) BundleLabelKey = Some (om_Name (bd_Meta b))"
    by (rule map_le_Some [of "map_of (ac_Labels cfg)"])
      (use assms in \<open>simp_all add: desired_patch_def shows_patch_def\<close>)
  moreover have "map_of (entries (om_Annotations obj)) BundleHashAnnotationKey = Some (desired_hash b d t)"
    by (rule map_le_Some [of "map_of (ac_Annotations cfg)"])
      (use assms in \<open>simp_all add: desired_patch_def shows_patch_def\<close>)
  moreover have "rec_IsControlledBy r obj (bd_Meta b)"
    using assms by (simp add: desired_patch_def shows_patch_def owned_by_def)
  moreover have "case listManagedProperties r (om_ManagedFields obj) FieldManager (target_fields kind) of
      Inl _ \<Rightarrow> False | Inr ps \<Rightarrow> set ps = set (expected_properties (tt_Key t) (formats_of b))"
  proof -
    from assms have "fst ` set (all_data cfg) = set (expected_properties (tt_Key t) (formats_of b))"
      and "case listManagedProperties r (om_ManagedFields obj) FieldManager (target_fields kind) of
        Inl _ \<Rightarrow> False | Inr ps \<Rightarrow> set ps = fst ` set (all_data cfg)"
      by (simp_all add: desired_patch_def shows_patch_def)
    then show ?thesis
      by (cases "listManagedProperties r (om_ManagedFields obj) FieldManager (target_fields kind)") simp_all
  qed
  ultimately show ?thesis by (simp add: up_to_date_def get_or_empty_def)
qed

text \<open>
  C16: Applying a target is idempotent. When the cluster shows the patch that a successful apply
  sent, a second apply with the same Bundle and the same resolved certificates finds the target
  up to date and makes no request.
\<close>

theorem ApplyTarget_idempotent:
  assumes "ApplyTarget lib r target b d s = (Ok (True, e), s')"
    and "target_template (res_Kind target) b = Some t"
    and "reserved_free t" and "distinct (expected_properties (tt_Key t) (formats_of b))"
    and "sys_log s' = sys_log s @ [PatchRequest (res_Kind target) cfg]"
    and "cache_of r s' target = Inr obj" and "shows_patch r (res_Kind target) cfg (bd_Meta b) obj"
  shows "ApplyTarget lib r target b d s' = (Ok (False, None), s')"
proof -
  obtain cfg' w where "s' = (log_action (PatchRequest (res_Kind target) cfg') s)\<lparr>sys_world := w\<rparr>"
    and "desired_patch lib target b d t cfg'"
    by (rule synced_patch [OF assms(1-4)])
  with assms(5) have "desired_patch lib target b d t cfg" by (simp add: log_action_def)
  from shows_patch_up_to_date [OF this assms(7)] have upd: "up_to_date r (res_Kind target) obj b d t" .
  from ApplyTarget_idleI [OF assms(2,6) upd] show ?thesis .
qed

section \<open>Cleaning up\<close>

text \<open>The object in the response to the empty patch: its name, and whether it has no data left.\<close>

definition cleanup_response :: "'w Reconciler \<Rightarrow> Resource \<Rightarrow> Bundle \<Rightarrow> 'w sys \<Rightarrow> (NamespacedName \<times> bool) option" where
  "cleanup_response r target b s =
     (if res_Kind target = KindConfigMap
      then (case fst (patchConfigMap r (Some (target_patch target b)) s) of
              Ok (Some obj, None) \<Rightarrow> Some (\<lparr>nn_Namespace = om_Namespace (cm_Meta obj), nn_Name = om_Name (cm_Meta obj)\<rparr>,
                                          cm_Data obj = [] \<and> cm_BinaryData obj = [])
            | _ \<Rightarrow> None)
      else if res_Kind target = KindSecret
      then (case fst (patchSecret r (Some (target_patch target b)) s) of
              Ok (Some obj, None) \<Rightarrow> Some (\<lparr>nn_Namespace = om_Namespace (sec_Meta obj), nn_Name = om_Name (sec_Meta obj)\<rparr>,
                                          sec_Data obj = [])
            | _ \<Rightarrow> None)
      else None)"

definition cleanup_log :: "'w Reconciler \<Rightarrow> Resource \<Rightarrow> Bundle \<Rightarrow> 'w sys \<Rightarrow> action list" where
  "cleanup_log r target b s = drop (length (sys_log s)) (sys_log (snd (CleanupTarget r target b s)))"

lemma delete_target_log: "sys_log (snd (delete_target r kind meta s)) =
    sys_log s @ [DeleteRequest kind \<lparr>nn_Namespace = om_Namespace meta, nn_Name = om_Name meta\<rparr>]"
  by (simp add: delete_target_def log_action_def Let_def split: prod.split)

lemma CleanupTarget_log_cases:
  "case cleanup_response r target b s of
     Some (nn, True) \<Rightarrow> sys_log (snd (CleanupTarget r target b s)) = sys_log s @
         [PatchRequest (res_Kind target) (target_patch target b), DeleteRequest (res_Kind target) nn]
   | Some (nn, False) \<Rightarrow> sys_log (snd (CleanupTarget r target b s)) = sys_log s @
         [PatchRequest (res_Kind target) (target_patch target b)]
   | None \<Rightarrow> sys_log (snd (CleanupTarget r target b s)) = sys_log s \<or>
         sys_log (snd (CleanupTarget r target b s)) = sys_log s @ [PatchRequest (res_Kind target) (target_patch target b)]"
proof -
  consider "res_Kind target = KindConfigMap" | "res_Kind target = KindSecret"
    | "res_Kind target \<noteq> KindConfigMap" "res_Kind target \<noteq> KindSecret" by blast
  then show ?thesis
  proof cases
    case 1
    obtain x s1 where p: "patchConfigMap r (Some (target_patch target b)) s = (x, s1)" by force
    from patchConfigMap_outcome [OF named_target_patch p] consider
        err where "x = Ok (None, Some err)" "s1 = s"
      | obj err w where "x = Ok (obj, err)"
          "s1 = (log_action (PatchRequest KindConfigMap (target_patch target b)) s)\<lparr>sys_world := w\<rparr>" by blast
    then show ?thesis
    proof cases
      case (2 obj err w)
      then show ?thesis using 1 p
        by (cases obj; cases err)
          (simp_all add: CleanupTarget_def cleanup_response_def log_action_def case_prod_beta delete_target_log
            split: bool.split)
    qed (use 1 p in \<open>simp add: CleanupTarget_def cleanup_response_def\<close>)
  next
    case 2
    obtain x s1 where p: "patchSecret r (Some (target_patch target b)) s = (x, s1)" by force
    from patchSecret_outcome [OF named_target_patch p] consider
        err where "x = Ok (None, Some err)" "s1 = s"
      | obj err w where "x = Ok (obj, err)"
          "s1 = (log_action (PatchRequest KindSecret (target_patch target b)) s)\<lparr>sys_world := w\<rparr>" by blast
    then show ?thesis
    proof cases
      case (2 obj err w)
      then show ?thesis using \<open>res_Kind target = KindSecret\<close> p
        by (cases obj; cases err)
          (simp_all add: CleanupTarget_def cleanup_response_def log_action_def case_prod_beta delete_target_log
            split: bool.split)
    qed (use 2 p in \<open>simp add: CleanupTarget_def cleanup_response_def\<close>)
  next
    case 3
    then show ?thesis by (simp add: CleanupTarget_def cleanup_response_def)
  qed
qed

text \<open>
  C32: A cleanup sends one empty patch of the target (it keeps the label and the owner reference,
  so the API server drops exactly the data this field manager owns) and then deletes the object
  precisely when the response shows that no data of anyone is left in it. It makes no other
  request, and it makes no request at all for a kind it does not know.
\<close>

theorem CleanupTarget_requests:
  "ac_Data (target_patch target b) = [] \<and> ac_BinaryData (target_patch target b) = [] \<and>
   named_config target (target_patch target b) \<and> owned_by b (target_patch target b) \<and>
   (case cleanup_response r target b s of
     Some (nn, True) \<Rightarrow> sys_log (snd (CleanupTarget r target b s)) = sys_log s @
         [PatchRequest (res_Kind target) (target_patch target b), DeleteRequest (res_Kind target) nn]
   | Some (nn, False) \<Rightarrow> sys_log (snd (CleanupTarget r target b s)) = sys_log s @
         [PatchRequest (res_Kind target) (target_patch target b)]
   | None \<Rightarrow> sys_log (snd (CleanupTarget r target b s)) = sys_log s \<or>
         sys_log (snd (CleanupTarget r target b s)) = sys_log s @ [PatchRequest (res_Kind target) (target_patch target b)])"
  using CleanupTarget_log_cases by simp

text \<open>
  The result of a cleanup says that the target was deleted only for a Secret: the deletion of
  an empty ConfigMap is reported as if nothing had been deleted, although the comment on
  \<open>CleanupTarget\<close> promises true for every deleted resource.
\<close>

theorem CleanupTarget_reports_deletion:
  "(\<exists>e. fst (CleanupTarget r target b s) = Ok (True, e)) \<longleftrightarrow>
   res_Kind target = KindSecret \<and> (\<exists>nn. cleanup_response r target b s = Some (nn, True))"
  by (auto simp: CleanupTarget_def cleanup_response_def case_prod_beta
      split: res.split option.split prod.split bool.split)

section \<open>The bundle hash\<close>

text \<open>
  The hash of a bundle does not depend on the order in which Go iterates over the template's
  labels and annotations: two templates with the same entries have the same hash.
\<close>

lemma TrustBundleHash_order_independent:
  assumes "wf_map (tm_Labels (tt_Metadata t))" and "wf_map (tm_Annotations (tt_Metadata t))"
    and "mset (tm_Labels (tt_Metadata t')) = mset (tm_Labels (tt_Metadata t))"
    and "mset (tm_Annotations (tt_Metadata t')) = mset (tm_Annotations (tt_Metadata t))"
  shows "TrustBundleHash pem formats (Some t') = TrustBundleHash pem formats (Some t)"
  using sorted_entries_mset [OF assms(1,3)] sorted_entries_mset [OF assms(2,4)]
  by (simp add: TrustBundleHash_def GetLabels_def GetAnnotations_def)

lemma idle_cong:
  assumes "ApplyTarget lib r target b d s = (Ok (False, None), s)"
    and "bd_Meta b' = bd_Meta b"
    and "\<And>t. target_template (res_Kind target) b = Some t \<Longrightarrow>
      (\<exists>t'. target_template (res_Kind target) b' = Some t' \<and> desired_hash b' d t' = desired_hash b d t \<and>
       expected_properties (tt_Key t') (formats_of b') = expected_properties (tt_Key t) (formats_of b))"
  shows "ApplyTarget lib r target b' d s = (Ok (False, None), s)"
proof -
  have upd: "up_to_date r (res_Kind target) obj b' d t'"
    if "up_to_date r (res_Kind target) obj b d t" "desired_hash b' d t' = desired_hash b d t"
      "expected_properties (tt_Key t') (formats_of b') = expected_properties (tt_Key t) (formats_of b)" for t t' obj
    using that(1) unfolding up_to_date_def that(2,3) assms(2) .
  from ApplyTarget_idleD [OF assms(1)] obtain t obj where t: "target_template (res_Kind target) b = Some t"
    and obj: "cache_of r s target = Inr obj" and u: "up_to_date r (res_Kind target) obj b d t" by blast
  from assms(3) [OF t] obtain t' where t': "target_template (res_Kind target) b' = Some t'"
    and eqs: "desired_hash b' d t' = desired_hash b d t"
      "expected_properties (tt_Key t') (formats_of b') = expected_properties (tt_Key t) (formats_of b)" by blast
  show ?thesis by (rule ApplyTarget_idleI [OF t' obj upd [OF u eqs]])
qed

definition with_profile :: "PKCS12Profile \<Rightarrow> Bundle \<Rightarrow> Bundle" where
  "with_profile profile b =
     b\<lparr>bd_Spec := (bd_Spec b)\<lparr>spec_Target := (spec_Target (bd_Spec b))\<lparr>bt_AdditionalFormats :=
       map_option (\<lambda>af. af\<lparr>af_PKCS12 := map_option (\<lambda>p. p\<lparr>p12_Profile := profile\<rparr>) (af_PKCS12 af)\<rparr>)
         (formats_of b)\<rparr>\<rparr>\<rparr>"

text \<open>
  A change of the PKCS #12 profile is not synced: a target that is up to date stays "up to
  date" when the Bundle asks for another profile, so the old trust store remains in the cluster
  although \<open>binaryData\<close> would now build it with another encoder.
\<close>

lemma profile_change_not_synced:
  assumes "ApplyTarget lib r target b d s = (Ok (False, None), s)"
  shows "ApplyTarget lib r target (with_profile profile b) d s = (Ok (False, None), s)"
  by (rule idle_cong [OF assms])
    (auto simp: with_profile_def target_template_def desired_hash_def TrustBundleHash_def expected_properties_def
      split: option.split if_splits)

text \<open>
  The hash input has no separators, so different metadata can have the same hash: an entry
  moved from the annotations of a template to its labels, and a boundary moved between the name
  and the value of an annotation, are not noticed.
\<close>

theorem TrustBundleHash_ambiguous:
  "TrustBundleHash pem formats (Some \<lparr>tt_Key = key, tt_Metadata = \<lparr>tm_Annotations = [(k, v)], tm_Labels = []\<rparr>\<rparr>) =
   TrustBundleHash pem formats (Some \<lparr>tt_Key = key, tt_Metadata = \<lparr>tm_Annotations = [], tm_Labels = [(k, v)]\<rparr>\<rparr>) \<and>
   TrustBundleHash pem formats (Some \<lparr>tt_Key = key, tt_Metadata = \<lparr>tm_Annotations = [(k @ x, v)], tm_Labels = []\<rparr>\<rparr>) =
   TrustBundleHash pem formats (Some \<lparr>tt_Key = key, tt_Metadata = \<lparr>tm_Annotations = [(k, x @ v)], tm_Labels = []\<rparr>\<rparr>)"
  by (simp add: TrustBundleHash_def GetLabels_def GetAnnotations_def sorted_entries_def)

section \<open>A small cluster\<close>

text \<open>
  One namespace with room for one object; the encoded patch is its hash annotation, and the
  object shown after a patch has the metadata of the example Bundle's ConfigMap target.
\<close>

definition example_target :: Resource where
  "example_target = \<lparr>res_Kind = KindConfigMap, res_NamespacedName = \<lparr>nn_Namespace = ''ns'', nn_Name = ''b''\<rparr>\<rparr>"

definition example_template :: TargetTemplate where
  "example_template = \<lparr>tt_Key = ''ca.crt'', tt_Metadata = \<lparr>tm_Annotations = [(''a'', ''x'')], tm_Labels = [(''l'', ''y'')]\<rparr>\<rparr>"

definition example_formats :: AdditionalFormats where
  "example_formats = \<lparr>af_JKS = None,
     af_PKCS12 = Some \<lparr>p12_Key = ''ca.p12'', p12_Password = Some ''pw'', p12_Profile = LegacyRC2PKCS12Profile\<rparr>\<rparr>"

definition example_bundle :: Bundle where
  "example_bundle =
     \<lparr>bd_Meta = \<lparr>om_Name = ''b'', om_Namespace = [], om_UID = ''u1'', om_Generation = 1, om_Labels = [],
        om_Annotations = None, om_OwnerReferences = [], om_DeletionTimestamp = None, om_ManagedFields = []\<rparr>,
      bd_Spec = \<lparr>spec_Sources = [\<lparr>bs_ConfigMap = None, bs_Secret = None, bs_InLine = example_pem, bs_UseDefaultCAs = None\<rparr>],
        spec_Target = \<lparr>bt_ConfigMap = Some example_template, bt_Secret = None,
          bt_AdditionalFormats = Some example_formats, bt_NamespaceSelector = None\<rparr>\<rparr>,
      bd_Status = \<lparr>st_Conditions = [], st_DefaultCAPackageVersion = []\<rparr>\<rparr>"

definition example_data :: BundleData where
  "example_data = \<lparr>bdl_CertPool = fst (AddCert (new_pool 50 True True) (example_cert ''ab'' 100)), bdl_DefaultCAPackageStringID = []\<rparr>"

definition example_tstore :: "unit truststore_lib" where
  "example_tstore = \<lparr>ks_New = (), ks_SetTrustedCertificateEntry = \<lambda>_ _ _. Inr (), ks_Store = \<lambda>_ pw. Inr (''JKS'' @ pw),
     p12_EncodeTrustStoreEntries = \<lambda>_ _ pw. Inr (''P12'' @ pw)\<rparr>"

definition example_object :: "string \<Rightarrow> ObjectMeta" where
  "example_object h =
     \<lparr>om_Name = ''b'', om_Namespace = ''ns'', om_UID = ''u2'', om_Generation = 0,
      om_Labels = [(''l'', ''y''), (BundleLabelKey, ''b'')],
      om_Annotations = Some [(''a'', ''x''), (BundleHashAnnotationKey, h)],
      om_OwnerReferences = [\<lparr>or_APIVersion = SchemeGroupVersion_String, or_Kind = BundleKind, or_Name = ''b'',
        or_UID = ''u1'', or_Controller = Some True, or_BlockOwnerDeletion = Some True\<rparr>],
      om_DeletionTimestamp = None,
      om_ManagedFields = [\<lparr>mf_Manager = FieldManager, mf_FieldsV1 = Some ''fields''\<rparr>]\<rparr>"

definition example_reconciler :: "ObjectMeta option Reconciler" where
  "example_reconciler =
     \<lparr>rec_CacheGet = \<lambda>w kind nn. (case w of None \<Rightarrow> Inl (ApiNotFound ''not found'') | Some obj \<Rightarrow> Inr obj),
      rec_Marshal = \<lambda>cfg. Inr (get_or_empty (ac_Annotations cfg) BundleHashAnnotationKey),
      rec_PatchConfigMap = \<lambda>w nn enc. ((\<lparr>cm_Meta = example_object enc, cm_Data = [], cm_BinaryData = []\<rparr>, None), Some (example_object enc)),
      rec_PatchSecret = \<lambda>w nn enc. ((\<lparr>sec_Meta = example_object enc, sec_Type = [], sec_Data = []\<rparr>, None), Some (example_object enc)),
      rec_Delete = \<lambda>w kind nn. (None, None),
      rec_PatchResourceOverwrite = None,
      rec_IsControlledBy = \<lambda>obj owner. list_ex (\<lambda>ref. or_Controller ref = Some True \<and> or_UID ref = om_UID owner) (om_OwnerReferences obj),
      rec_Fieldset = \<lambda>raw. Inr (\<lambda>f. if f = ''data'' then [''.ca.crt''] else if f = ''binaryData'' then [''.ca.p12''] else [])\<rparr>"

definition example_hash :: string where
  "example_hash = desired_hash example_bundle example_data example_template"

definition example_patch :: ApplyConfiguration where
  "example_patch = configMap_patch example_target example_bundle example_template example_hash
     (PEM (Some (bdl_CertPool example_data))) [(''ca.p12'', ''P12pw'')]"

definition empty_cluster :: "ObjectMeta option sys" where
  "empty_cluster = \<lparr>sys_world = None, sys_log = []\<rparr>"

definition synced_cluster :: "ObjectMeta option sys" where
  "synced_cluster = \<lparr>sys_world = Some (example_object example_hash), sys_log = [PatchRequest KindConfigMap example_patch]\<rparr>"

lemma example_binaryData:
  "binaryData example_tstore (bdl_CertPool example_data) (Some example_formats) = Ok [(''ca.p12'', ''P12pw'')]"
  by (simp add: binaryData_def example_formats_def pkcs12Encoder_Encode_def example_tstore_def map_put_def Let_def)

lemma keys_distinct [simp]: "BundleHashAnnotationKey \<noteq> ''a''" "BundleLabelKey \<noteq> ''l''"
    "''a'' \<noteq> BundleHashAnnotationKey" "''l'' \<noteq> BundleLabelKey"
  by (simp_all add: BundleHashAnnotationKey_def BundleLabelKey_def)

lemma example_marshal: "rec_Marshal example_reconciler example_patch = Inr example_hash"
  by (simp add: example_reconciler_def example_patch_def with_metadata_def get_or_empty_def GetAnnotations_def
      example_template_def map_put_def)

lemma example_first_apply:
  "ApplyTarget example_tstore example_reconciler example_target example_bundle example_data empty_cluster =
     (Ok (True, None), synced_cluster)"
proof -
  have patch: "patchConfigMap example_reconciler (Some example_patch) empty_cluster =
      (Ok (Some \<lparr>cm_Meta = example_object example_hash, cm_Data = [], cm_BinaryData = []\<rparr>, None), synced_cluster)"
  proof -
    have "named_config example_target example_patch" unfolding example_patch_def by (rule named_configMap_patch)
    moreover have "rec_PatchResourceOverwrite example_reconciler = None"
      "rec_PatchConfigMap example_reconciler w nn enc =
        ((\<lparr>cm_Meta = example_object enc, cm_Data = [], cm_BinaryData = []\<rparr>, None), Some (example_object enc))" for w nn enc
      by (simp_all add: example_reconciler_def)
    ultimately show ?thesis
      by (simp add: patchConfigMap_def example_marshal named_config_def log_patch_def log_action_def
          empty_cluster_def synced_cluster_def)
  qed
  have fields: "res_Kind example_target = KindConfigMap" "formats_of example_bundle = Some example_formats"
    "bt_ConfigMap (spec_Target (bd_Spec example_bundle)) = Some example_template"
    "rec_CacheGet example_reconciler (sys_world empty_cluster) k n = Inl (ApiNotFound ''not found'')" for k n
    by (simp_all add: example_target_def example_bundle_def example_reconciler_def empty_cluster_def)
  have hash: "TrustBundleHash (PEM (Some (bdl_CertPool example_data))) (Some example_formats) (Some example_template) = example_hash"
    by (simp add: example_hash_def desired_hash_def fields)
  show ?thesis
    by (simp add: ApplyTarget_def applyConfigMap_def fields get_failed_def exit_early_def apierrors_IsNotFound_def
        example_binaryData hash patch Let_def flip: example_patch_def)
qed

lemma example_template_ok:
  "target_template (res_Kind example_target) example_bundle = Some example_template"
  "reserved_free example_template"
  "distinct (expected_properties (tt_Key example_template) (formats_of example_bundle))"
  by (simp_all add: target_template_def example_target_def example_bundle_def reserved_free_def example_template_def
      wf_map_def expected_properties_def example_formats_def)

lemma example_controlled: "rec_IsControlledBy example_reconciler (example_object h) (bd_Meta example_bundle)"
  by (simp add: example_reconciler_def example_object_def example_bundle_def)

lemma example_managed:
  "listManagedProperties example_reconciler (om_ManagedFields (example_object h)) FieldManager
     (target_fields KindConfigMap) = Inr [''ca.crt'', ''ca.p12'']"
  by (simp add: example_reconciler_def example_object_def target_fields_def trim_dot_def)

lemma example_up_to_date:
  "up_to_date example_reconciler KindConfigMap (example_object example_hash) example_bundle example_data example_template"
proof -
  have "expected_properties (tt_Key example_template) (formats_of example_bundle) = [''ca.crt'', ''ca.p12'']"
    by (simp add: expected_properties_def example_template_def example_bundle_def example_formats_def)
  moreover have "get_or_empty (om_Labels (example_object h)) BundleLabelKey = om_Name (bd_Meta example_bundle)" for h
    by (simp add: get_or_empty_def example_object_def example_bundle_def)
  moreover have "get_or_empty (entries (om_Annotations (example_object h))) BundleHashAnnotationKey = h" for h
    by (simp add: get_or_empty_def example_object_def)
  ultimately show ?thesis
    by (simp add: up_to_date_def example_controlled example_managed example_hash_def)
qed

lemma example_second_apply:
  "ApplyTarget example_tstore example_reconciler example_target example_bundle example_data synced_cluster =
     (Ok (False, None), synced_cluster)"
proof (rule ApplyTarget_idleI [OF example_template_ok(1)])
  show "cache_of example_reconciler synced_cluster example_target = Inr (example_object example_hash)"
    by (simp add: cache_of_def example_reconciler_def synced_cluster_def)
  show "up_to_date example_reconciler (res_Kind example_target) (example_object example_hash) example_bundle example_data example_template"
    using example_up_to_date by (simp add: example_target_def)
qed

lemma ApplyTarget_writes_desired_witness:
  "\<exists>cfg. sys_log synced_cluster = sys_log empty_cluster @ [PatchRequest (res_Kind example_target) cfg] \<and>
     desired_patch example_tstore example_target example_bundle example_data example_template cfg"
  using ApplyTarget_writes_desired [OF example_first_apply example_template_ok] by blast

lemma example_shows_patch:
  "shows_patch example_reconciler (res_Kind example_target) example_patch (bd_Meta example_bundle) (example_object example_hash)"
proof -
  have kind: "res_Kind example_target = KindConfigMap" by (simp add: example_target_def)
  have "map_of (ac_Labels example_patch) \<subseteq>\<^sub>m map_of (om_Labels (example_object example_hash))"
    by (simp add: example_patch_def with_metadata_def GetLabels_def example_template_def map_put_def map_le_def
        example_object_def example_bundle_def)
  moreover have "map_of (ac_Annotations example_patch) \<subseteq>\<^sub>m map_of (entries (om_Annotations (example_object example_hash)))"
    by (simp add: example_patch_def with_metadata_def GetAnnotations_def example_template_def map_put_def map_le_def
        example_object_def)
  moreover have "fst ` set (all_data example_patch) = {''ca.crt'', ''ca.p12''}"
    by (auto simp: example_patch_def all_data_def configMap_data example_template_def)
  ultimately show ?thesis
    by (simp add: shows_patch_def kind example_controlled example_managed)
qed

lemma ApplyTarget_idempotent_witness:
  "ApplyTarget example_tstore example_reconciler example_target example_bundle example_data synced_cluster =
     (Ok (False, None), synced_cluster)"
proof (rule ApplyTarget_idempotent [OF example_first_apply example_template_ok])
  show "sys_log synced_cluster = sys_log empty_cluster @ [PatchRequest (res_Kind example_target) example_patch]"
    by (simp add: synced_cluster_def empty_cluster_def example_target_def)
  show "cache_of example_reconciler synced_cluster example_target = Inr (example_object example_hash)"
    by (simp add: cache_of_def example_reconciler_def synced_cluster_def)
qed (rule example_shows_patch)

lemma TrustBundleHash_order_independent_witness:
  "TrustBundleHash ''pem'' None (Some (\<lparr>tt_Key = ''k'', tt_Metadata = \<lparr>tm_Annotations = [(''b'', ''1''), (''a'', ''2'')], tm_Labels = []\<rparr>\<rparr>)) =
   TrustBundleHash ''pem'' None (Some (\<lparr>tt_Key = ''k'', tt_Metadata = \<lparr>tm_Annotations = [(''a'', ''2''), (''b'', ''1'')], tm_Labels = []\<rparr>\<rparr>))"
  by (rule TrustBundleHash_order_independent) (simp_all add: wf_map_def)

lemma profile_change_not_synced_witness:
  "ApplyTarget example_tstore example_reconciler example_target
     (with_profile Modern2023PKCS12Profile example_bundle) example_data synced_cluster = (Ok (False, None), synced_cluster)
   \<and> with_profile Modern2023PKCS12Profile example_bundle \<noteq> example_bundle"
  using profile_change_not_synced [OF example_second_apply]
  by (simp add: with_profile_def example_bundle_def example_formats_def Modern2023PKCS12Profile_def LegacyRC2PKCS12Profile_def)

end
