(* ===== verification/SourceTheorems.thy ===== *)
theory SourceTheorems
  imports Source PoolTheorems
begin

text \<open>
  What building a bundle promises (\<open>Source\<close>). Every kind of source implements one interface,
  the locale \<open>cert_source\<close>: it only adds certificates, and on success it has added exactly the
  certificates of the PEM data it contributes. The theorems about \<open>BuildBundle\<close> follow from it.
\<close>

section \<open>The interface of a source\<close>

definition texts_certs :: "x509_parser \<Rightarrow> string option list \<Rightarrow> Certificate list" where
  "texts_certs parse ts = concat (map (\<lambda>t. pem_certs parse (ptr_Deref t [])) ts)"

lemma filters_add_all [frame_simps]: "filters (add_all cp cs) = filters cp"
  by (induction cs arbitrary: cp) (simp_all add: frame_simps)

locale cert_source =
  fixes parse :: x509_parser
    and add_to :: "CertPool \<Rightarrow> CertPool \<times> gerr option"
    and texts :: "string option list"
  assumes add_ok: "add_to cp = (cp', None) \<Longrightarrow> cp' = add_all cp (texts_certs parse texts)"
begin

lemma add_inv: "pool_inv cp \<Longrightarrow> add_to cp = (cp', None) \<Longrightarrow> pool_inv cp'"
  by (drule add_ok) (simp add: add_all_inv)

lemma add_filters: "add_to cp = (cp', None) \<Longrightarrow> filters cp' = filters cp"
  by (drule add_ok) (simp add: filters_add_all)

lemma add_then:
  assumes "add_to cp = (cp', None)" and "cp = add_all p cs"
  shows "cp' = add_all p (cs @ texts_certs parse texts)"
  using add_ok [OF assms(1)] assms(2) by simp

end

lemma texts_certs_simps [simp]:
  "texts_certs parse [] = []"
  "texts_certs parse (t # ts) = pem_certs parse (ptr_Deref t []) @ texts_certs parse ts"
  "texts_certs parse (ts @ us) = texts_certs parse ts @ texts_certs parse us"
  by (simp_all add: texts_certs_def)

lemma add_value_ok:
  "add_value parse mk d cp = (cp', None) \<Longrightarrow> cp' = add_all cp (texts_certs parse [d])"
  by (auto simp: add_value_def AddCertsFromPEM_def split: prod.splits option.splits)
    (metis AddCertsFromPEM_loop_result fst_conv snd_conv)

interpretation inline_source: cert_source parse "inlineBundleSource_addToCertPool parse pem" "[Some pem]"
  for parse pem
  by unfold_locales (auto simp: inlineBundleSource_addToCertPool_def split: prod.splits option.splits
      dest: AddCertsFromPEM_ok)

interpretation default_source: cert_source parse "defaultCAsBundleSource_addToCertPool parse pem" "[Some pem]"
  for parse pem
  by unfold_locales (auto simp: defaultCAsBundleSource_addToCertPool_def split: prod.splits option.splits
      dest: AddCertsFromPEM_ok)

lemma seq_pool_append:
  "seq_pool (fs @ gs) cp = (case seq_pool fs cp of (cp', None) \<Rightarrow> seq_pool gs cp' | r \<Rightarrow> r)"
  by (induction fs arbitrary: cp) (auto split: prod.split option.split)

lemma seq_pool_values:
  "seq_pool (map (\<lambda>(k, d). add_value parse (mk k) (w d)) xs) cp = (cp', None) \<Longrightarrow>
   cp' = add_all cp (texts_certs parse (map (\<lambda>x. w (snd x)) xs))"
proof (induction xs arbitrary: cp)
  case (Cons x xs)
  then show ?case
    by (auto split: prod.splits option.splits dest!: add_value_ok)
qed simp

text \<open>What one object contributes.\<close>

definition configMap_texts :: "SourceObjectKeySelector \<Rightarrow> ConfigMap \<Rightarrow> string option list" where
  "configMap_texts ref cm =
     (if sok_Key ref \<noteq> []
      then (case map_of (cm_Data cm) (sok_Key ref) of
              Some d \<Rightarrow> [Some d]
            | None \<Rightarrow> (case map_of (cm_BinaryData cm) (sok_Key ref) of Some d \<Rightarrow> [d] | None \<Rightarrow> []))
      else if ptr_Deref (sok_IncludeAllKeys ref) False
      then map (Some \<circ> snd) (cm_Data cm) @ map snd (cm_BinaryData cm) else [])"

definition secret_texts :: "SourceObjectKeySelector \<Rightarrow> Secret \<Rightarrow> string option list" where
  "secret_texts ref sec =
     (if sok_Key ref \<noteq> []
      then (case map_of (sec_Data sec) (sok_Key ref) of Some d \<Rightarrow> [d] | None \<Rightarrow> [])
      else if ptr_Deref (sok_IncludeAllKeys ref) False then map snd (sec_Data sec) else [])"

interpretation configMap_object: cert_source parse "configMap_add parse ref cm" "configMap_texts ref cm"
  for parse ref cm
proof unfold_locales
  fix cp cp'
  assume a: "configMap_add parse ref cm cp = (cp', None)"
  let ?bad = "invalid_PEM_at ''ConfigMap'' (om_Namespace (cm_Meta cm)) (om_Name (cm_Meta cm))"
  show "cp' = add_all cp (texts_certs parse (configMap_texts ref cm))"
  proof (cases "sok_Key ref = [] \<and> ptr_Deref (sok_IncludeAllKeys ref) False")
    case True
    with a obtain q where
      "seq_pool (map (\<lambda>(k, d). add_value parse (?bad k) (Some d)) (cm_Data cm)) cp = (q, None)"
      "seq_pool (map (\<lambda>(k, d). add_value parse (?bad k) d) (cm_BinaryData cm)) q = (cp', None)"
      by (auto simp: configMap_add_def seq_pool_append Let_def split: prod.splits option.splits)
    then show ?thesis using True
      by (auto dest!: seq_pool_values [where w = Some] seq_pool_values [where w = "\<lambda>d. d"]
          simp: configMap_texts_def comp_def)
  next
    case False
    with a show ?thesis
      by (auto simp: configMap_add_def configMap_texts_def Let_def dest!: add_value_ok
          split: option.splits if_splits)
  qed
qed

interpretation secret_object: cert_source parse "secret_add parse ref sec" "secret_texts ref sec"
  for parse ref sec
proof unfold_locales
  fix cp cp'
  assume a: "secret_add parse ref sec cp = (cp', None)"
  show "cp' = add_all cp (texts_certs parse (secret_texts ref sec))"
    using a by (auto simp: secret_add_def secret_texts_def Let_def
        dest!: add_value_ok seq_pool_values [where w = "\<lambda>d. d"]
        split: option.splits if_splits)
qed

lemma seq_pool_objects:
  assumes "\<And>x cp cp'. f x cp = (cp', None) \<Longrightarrow> cp' = add_all cp (texts_certs parse (g x))"
  shows "seq_pool (map f xs) cp = (cp', None) \<Longrightarrow> cp' = add_all cp (texts_certs parse (concat (map g xs)))"
proof (induction xs arbitrary: cp)
  case (Cons x xs)
  then show ?case by (auto split: prod.splits option.splits dest!: assms)
qed simp

lemma configMap_objects:
  "seq_pool (map (configMap_add parse ref) xs) cp = (cp', None) \<Longrightarrow>
   cp' = add_all cp (texts_certs parse (concat (map (configMap_texts ref) xs)))"
  by (rule seq_pool_objects) (rule configMap_object.add_ok)

lemma secret_objects:
  "seq_pool (map (secret_add parse ref) xs) cp = (cp', None) \<Longrightarrow>
   cp' = add_all cp (texts_certs parse (concat (map (secret_texts ref) xs)))"
  by (rule seq_pool_objects) (rule secret_object.add_ok)

text \<open>What a reference contributes: nothing when the objects cannot be read.\<close>

definition objects_texts :: "gerr + 'o list \<Rightarrow> ('o \<Rightarrow> string option list) \<Rightarrow> string option list" where
  "objects_texts objs g = (case objs of Inl _ \<Rightarrow> [] | Inr os \<Rightarrow> concat (map g os))"

interpretation configMap_source: cert_source parse
  "configMapBundleSource_addToCertPool parse lib rd ns ref"
  "objects_texts (select_objects ''ConfigMap'' (rd_GetConfigMap rd) (rd_ListConfigMaps rd) lib ns ref)
     (configMap_texts ref)"
  for parse lib rd ns ref
  by unfold_locales
    (auto simp: configMapBundleSource_addToCertPool_def objects_texts_def split: sum.splits
      dest: configMap_objects)

interpretation secret_source: cert_source parse
  "secretBundleSource_addToCertPool parse lib rd ns ref"
  "objects_texts (select_objects ''Secret'' (rd_GetSecret rd) (rd_ListSecrets rd) lib ns ref)
     (secret_texts ref)"
  for parse lib rd ns ref
  by unfold_locales
    (auto simp: secretBundleSource_addToCertPool_def objects_texts_def split: sum.splits
      dest: secret_objects)

section \<open>BuildBundle\<close>

text \<open>The specification: the PEM data that a source stands for.\<close>

definition source_texts :: "'sel labels_lib \<Rightarrow> 'sel reader \<Rightarrow> BundleBuilder \<Rightarrow> BundleSource \<Rightarrow> string option list" where
  "source_texts lib rd b src =
     (let ns = opt_Namespace (bb_Options b)
      in case bs_ConfigMap src of
           Some ref \<Rightarrow> objects_texts (select_objects ''ConfigMap'' (rd_GetConfigMap rd) (rd_ListConfigMaps rd) lib ns ref)
                        (configMap_texts ref)
         | None \<Rightarrow>
        (case bs_Secret src of
           Some ref \<Rightarrow> objects_texts (select_objects ''Secret'' (rd_GetSecret rd) (rd_ListSecrets rd) lib ns ref)
                        (secret_texts ref)
         | None \<Rightarrow>
        (if bs_InLine src \<noteq> [] then [Some (bs_InLine src)]
         else if bs_UseDefaultCAs src = Some True
         then (case bb_DefaultPackage b of None \<Rightarrow> [] | Some p \<Rightarrow> [Some (pkg_Bundle p)])
         else [])))"

definition source_certs ::
  "x509_parser \<Rightarrow> 'sel labels_lib \<Rightarrow> 'sel reader \<Rightarrow> BundleBuilder \<Rightarrow> BundleSource \<Rightarrow> Certificate list" where
  "source_certs parse lib rd b src = texts_certs parse (source_texts lib rd b src)"

definition uses_default :: "BundleSource \<Rightarrow> bool" where
  "uses_default src \<longleftrightarrow> bs_ConfigMap src = None \<and> bs_Secret src = None \<and> bs_InLine src = [] \<and>
     bs_UseDefaultCAs src = Some True"

lemma add_source_Ok:
  "add_source parse lib rd b src acc = Ok acc' \<Longrightarrow>
     bdl_CertPool acc' = add_all (bdl_CertPool acc) (source_certs parse lib rd b src) \<and>
     bdl_DefaultCAPackageStringID acc' =
       (if uses_default src then StringID (the (bb_DefaultPackage b))
        else bdl_DefaultCAPackageStringID acc) \<and>
     (uses_default src \<longrightarrow> bb_DefaultPackage b \<noteq> None)"
  by (auto simp: add_source_def source_certs_def source_texts_def uses_default_def Let_def
      split: option.splits if_splits prod.splits
      dest: configMap_source.add_ok secret_source.add_ok inline_source.add_ok default_source.add_ok)

lemma add_sources_Ok:
  "add_sources parse lib rd b srcs acc = Ok acc' \<Longrightarrow>
     bdl_CertPool acc' = add_all (bdl_CertPool acc) (concat (map (source_certs parse lib rd b) srcs)) \<and>
     bdl_DefaultCAPackageStringID acc' =
       (if list_ex uses_default srcs then StringID (the (bb_DefaultPackage b))
        else bdl_DefaultCAPackageStringID acc) \<and>
     (list_ex uses_default srcs \<longrightarrow> bb_DefaultPackage b \<noteq> None)"
proof (induction srcs arbitrary: acc)
  case (Cons s srcs)
  from Cons.prems obtain a where a: "add_source parse lib rd b s acc = Ok a"
    and r: "add_sources parse lib rd b srcs a = Ok acc'" by (auto simp: res_simps)
  from add_source_Ok [OF a] Cons.IH [OF r] show ?case by auto
qed simp

definition build_pool :: "int \<Rightarrow> BundleBuilder \<Rightarrow> CertPool" where
  "build_pool now b =
     new_pool now (opt_FilterExpiredCerts (bb_Options b)) (opt_FilterNonCACerts (bb_Options b))"

definition all_certs ::
  "x509_parser \<Rightarrow> 'sel labels_lib \<Rightarrow> 'sel reader \<Rightarrow> BundleBuilder \<Rightarrow> BundleSource list \<Rightarrow> Certificate list" where
  "all_certs parse lib rd b srcs = concat (map (source_certs parse lib rd b) srcs)"

lemma BuildBundle_Ok:
  assumes "BuildBundle parse now lib rd b srcs = Ok bd"
  shows "bdl_CertPool bd = add_all (build_pool now b) (all_certs parse lib rd b srcs)"
    and "Size (bdl_CertPool bd) \<noteq> 0"
    and "bdl_DefaultCAPackageStringID bd =
      (if list_ex uses_default srcs then StringID (the (bb_DefaultPackage b)) else [])"
    and "list_ex uses_default srcs \<Longrightarrow> bb_DefaultPackage b \<noteq> None"
proof -
  let ?acc = "\<lparr>bdl_CertPool = build_pool now b, bdl_DefaultCAPackageStringID = []\<rparr>"
  from assms have r: "add_sources parse lib rd b srcs ?acc = Ok bd"
    and "Size (bdl_CertPool bd) \<noteq> 0"
    by (auto simp: BuildBundle_def res_simps Let_def build_pool_def new_pool_def split: if_splits)
  with add_sources_Ok [OF r] show
    "bdl_CertPool bd = add_all (build_pool now b) (all_certs parse lib rd b srcs)"
    "Size (bdl_CertPool bd) \<noteq> 0"
    "bdl_DefaultCAPackageStringID bd =
      (if list_ex uses_default srcs then StringID (the (bb_DefaultPackage b)) else [])"
    "list_ex uses_default srcs \<Longrightarrow> bb_DefaultPackage b \<noteq> None"
    by (simp_all add: all_certs_def)
qed

text \<open>
  C26: A bundle that builds holds exactly the certificates that the PEM data of its sources contain
  (ConfigMaps, Secrets, inline data and the default package, as each source selects them) and that
  the configured filters let through, and it is not empty.
\<close>

theorem BuildBundle_contents:
  assumes "BuildBundle parse now lib rd b srcs = Ok bd"
    and "inj_on fingerprint (set (all_certs parse lib rd b srcs))"
  shows "set (Certificates (bdl_CertPool bd)) =
      {c \<in> set (all_certs parse lib rd b srcs). accepts_cert (build_pool now b) c}
    \<and> Certificates (bdl_CertPool bd) \<noteq> []"
proof
  note ok = BuildBundle_Ok [OF assms(1)]
  have "inj_on fingerprint {c \<in> set (all_certs parse lib rd b srcs). accepts_cert (build_pool now b) c}"
    by (rule inj_on_subset [OF assms(2)]) auto
  then show "set (Certificates (bdl_CertPool bd)) =
      {c \<in> set (all_certs parse lib rd b srcs). accepts_cert (build_pool now b) c}"
    using set_Certificates_add_all [of "all_certs parse lib rd b srcs" now] ok(1)
    by (simp add: build_pool_def del: new_pool_simps)
  show "Certificates (bdl_CertPool bd) \<noteq> []"
    using ok(2) length_Certificates [of "bdl_CertPool bd"] by auto
qed

definition example_lib :: "LabelSelector option labels_lib" where
  "example_lib = \<lparr>lib_AsSelector = Inr, lib_Everything = Some \<lparr>ls_MatchLabels = [], ls_MatchExpressions = []\<rparr>,
     lib_Matches = (\<lambda>s ls. case s of None \<Rightarrow> False | Some s' \<Rightarrow> set (ls_MatchLabels s') \<subseteq> set ls),
     lib_Empty = (\<lambda>s. case s of None \<Rightarrow> False | Some s' \<Rightarrow> ls_MatchLabels s' = []),
     lib_String = (\<lambda>s. [])\<rparr>"

definition example_meta :: "string \<Rightarrow> string \<Rightarrow> ObjectMeta" where
  "example_meta ns n = \<lparr>om_Name = n, om_Namespace = ns, om_UID = ''uid-'' @ n, om_Generation = 1, om_Labels = [],
     om_Annotations = None, om_OwnerReferences = [], om_DeletionTimestamp = None, om_ManagedFields = []\<rparr>"

definition example_reader :: "LabelSelector option reader" where
  "example_reader = \<lparr>
     rd_GetConfigMap = (\<lambda>ns n. if n = ''cas''
        then Inr \<lparr>cm_Meta = example_meta ns n, cm_Data = [(''ca.crt'', example_pem)], cm_BinaryData = []\<rparr>
        else Inl (ApiNotFound ''not found'')),
     rd_ListConfigMaps = (\<lambda>s. Inr []),
     rd_GetSecret = (\<lambda>ns n. if n = ''ca''
        then Inr \<lparr>sec_Meta = example_meta ns n, sec_Type = ''Opaque'', sec_Data = [(''ca.crt'', Some example_pem)]\<rparr>
        else Inl (ApiNotFound ''not found'')),
     rd_ListSecrets = (\<lambda>s. Inr [])\<rparr>"

definition example_builder :: BundleBuilder where
  "example_builder = \<lparr>bb_DefaultPackage = None,
     bb_Options = \<lparr>opt_Namespace = ''cert-manager'', opt_DefaultPackageLocation = [],
       opt_SecretTargetsEnabled = False, opt_FilterExpiredCerts = True, opt_FilterNonCACerts = True,
       opt_TargetNamespaces = []\<rparr>\<rparr>"

definition example_ref :: "string \<Rightarrow> SourceObjectKeySelector" where
  "example_ref n = \<lparr>sok_Name = n, sok_Selector = None, sok_Key = ''ca.crt'', sok_IncludeAllKeys = None\<rparr>"

definition example_source :: "string \<Rightarrow> BundleSource" where
  "example_source n = \<lparr>bs_ConfigMap = Some (example_ref n), bs_Secret = None, bs_InLine = [], bs_UseDefaultCAs = None\<rparr>"

definition example_inline :: BundleSource where
  "example_inline = \<lparr>bs_ConfigMap = None, bs_Secret = None, bs_InLine = example_pem, bs_UseDefaultCAs = None\<rparr>"

lemmas example_defs = example_lib_def example_meta_def example_reader_def example_builder_def
  example_ref_def example_source_def example_inline_def

lemma example_builder_simps [simp]:
  "opt_FilterExpiredCerts (bb_Options example_builder) = True"
  "opt_FilterNonCACerts (bb_Options example_builder) = True"
  "opt_Namespace (bb_Options example_builder) = ''cert-manager''"
  by (simp_all add: example_builder_def)

lemma example_accepts: "accepts_cert (build_pool 50 example_builder) (example_cert ''ab'' 100)"
  by (simp add: build_pool_def example_cert_def)

lemma example_source_certs:
  "source_certs example_parse example_lib example_reader example_builder (example_source ''cas'')
     = [example_cert ''ab'' 100]"
  "source_certs example_parse example_lib example_reader example_builder example_inline
     = [example_cert ''ab'' 100]"
proof -
  have "example_pem \<noteq> []" by (simp add: example_pem_def pem_Encode_def pemBegin_def)
  then show
    "source_certs example_parse example_lib example_reader example_builder (example_source ''cas'')
     = [example_cert ''ab'' 100]"
    "source_certs example_parse example_lib example_reader example_builder example_inline
     = [example_cert ''ab'' 100]"
    by (simp_all add: source_certs_def source_texts_def example_defs objects_texts_def select_objects_def
        configMap_texts_def example_certs)
qed

lemma example_build:
  "\<exists>bd. BuildBundle example_parse 50 example_lib example_reader example_builder
       [example_source ''cas'', example_inline] = Ok bd"
  "\<exists>bd. BuildBundle example_parse 50 example_lib example_reader example_builder
       [example_inline, example_source ''cas'', example_inline] = Ok bd"
proof -
  have ne: "example_pem \<noteq> []" by (simp add: example_pem_def pem_Encode_def pemBegin_def)
  have cm: "configMapBundleSource_addToCertPool example_parse example_lib example_reader ''cert-manager'' (example_ref ''cas'') cp
      = (fst (AddCert cp (example_cert ''ab'' 100)), None)" for cp
    by (simp add: configMapBundleSource_addToCertPool_def select_objects_def example_defs configMap_add_def
        add_value_def example_add Let_def)
  have inl: "inlineBundleSource_addToCertPool example_parse example_pem cp
      = (fst (AddCert cp (example_cert ''ab'' 100)), None)" for cp
    by (simp add: inlineBundleSource_addToCertPool_def example_add)
  have acc: "\<forall>f \<in> set (filters (NewCertPool [WithFilteredExpiredCerts 50 True, WithFilteredNonCaCerts True])).
      f (example_cert ''ab'' 100)"
    using example_accepts by (simp add: accepts_cert_def build_pool_def new_pool_def)
  have src: "add_source example_parse example_lib example_reader example_builder (example_source ''cas'') acc
      = Ok (acc\<lparr>bdl_CertPool := fst (AddCert (bdl_CertPool acc) (example_cert ''ab'' 100))\<rparr>)"
    "add_source example_parse example_lib example_reader example_builder example_inline acc
      = Ok (acc\<lparr>bdl_CertPool := fst (AddCert (bdl_CertPool acc) (example_cert ''ab'' 100))\<rparr>)" for acc
    using cm [of "bdl_CertPool acc"] inl [of "bdl_CertPool acc"] ne
    by (simp_all add: add_source_def example_source_def example_inline_def Let_def)
  show "\<exists>bd. BuildBundle example_parse 50 example_lib example_reader example_builder
       [example_source ''cas'', example_inline] = Ok bd"
    "\<exists>bd. BuildBundle example_parse 50 example_lib example_reader example_builder
       [example_inline, example_source ''cas'', example_inline] = Ok bd"
    using acc by (auto simp: BuildBundle_def src Let_def Size_def AddCert_def)
qed

theorem BuildBundle_contents_witness:
  "\<exists>bd. BuildBundle example_parse 50 example_lib example_reader example_builder
       [example_source ''cas'', example_inline] = Ok bd \<and>
     set (Certificates (bdl_CertPool bd)) = {example_cert ''ab'' 100}"
proof -
  from example_build(1) obtain bd where bd: "BuildBundle example_parse 50 example_lib example_reader example_builder
       [example_source ''cas'', example_inline] = Ok bd" by blast
  have "inj_on fingerprint (set (all_certs example_parse example_lib example_reader example_builder
       [example_source ''cas'', example_inline]))"
    by (simp add: all_certs_def example_source_certs)
  from BuildBundle_contents [OF bd this]
  have "set (Certificates (bdl_CertPool bd)) = {example_cert ''ab'' 100}"
    using example_accepts by (auto simp: all_certs_def example_source_certs)
  with bd show ?thesis by blast
qed

text \<open>
  C29: Two Bundles whose sources are the same up to order and repetition, each of which builds,
  produce byte-identical PEM output and report the same default CA version.
\<close>

theorem BuildBundle_source_order:
  assumes "BuildBundle parse now lib rd b srcs = Ok bd" and "BuildBundle parse now lib rd b srcs' = Ok bd'"
    and "set srcs = set srcs'"
    and "inj_on fingerprint (set (all_certs parse lib rd b srcs))"
  shows "PEM (Some (bdl_CertPool bd)) = PEM (Some (bdl_CertPool bd')) \<and>
    bdl_DefaultCAPackageStringID bd = bdl_DefaultCAPackageStringID bd'"
proof
  note ok = BuildBundle_Ok [OF assms(1)] and ok' = BuildBundle_Ok [OF assms(2)]
  have same: "set (all_certs parse lib rd b srcs) = set (all_certs parse lib rd b srcs')"
    using assms(3) by (simp add: all_certs_def)
  have "pool_find (bdl_CertPool bd) = pool_find (bdl_CertPool bd')"
    unfolding ok(1) ok'(1) add_all_def
    by (rule pool.find_fold_set [OF _ same])
      (auto simp: build_pool_def intro: inj_on_subset [OF assms(4)])
  then show "PEM (Some (bdl_CertPool bd)) = PEM (Some (bdl_CertPool bd'))"
    by (rule PEM_cong [rotated 2]) (simp_all add: ok(1) ok'(1) build_pool_def add_all_inv)
  show "bdl_DefaultCAPackageStringID bd = bdl_DefaultCAPackageStringID bd'"
    using ok(3) ok'(3) assms(3) by (simp add: list_ex_iff)
qed

theorem BuildBundle_source_order_witness:
  "\<exists>bd bd'. BuildBundle example_parse 50 example_lib example_reader example_builder
       [example_source ''cas'', example_inline] = Ok bd \<and>
     BuildBundle example_parse 50 example_lib example_reader example_builder
       [example_inline, example_source ''cas'', example_inline] = Ok bd' \<and>
     PEM (Some (bdl_CertPool bd)) = PEM (Some (bdl_CertPool bd'))"
proof -
  from example_build obtain bd bd' where
    b: "BuildBundle example_parse 50 example_lib example_reader example_builder
       [example_source ''cas'', example_inline] = Ok bd"
    and b': "BuildBundle example_parse 50 example_lib example_reader example_builder
       [example_inline, example_source ''cas'', example_inline] = Ok bd'" by blast
  have "inj_on fingerprint (set (all_certs example_parse example_lib example_reader example_builder
       [example_source ''cas'', example_inline]))"
    by (simp add: all_certs_def example_source_certs)
  with BuildBundle_source_order [OF b b'] have "PEM (Some (bdl_CertPool bd)) = PEM (Some (bdl_CertPool bd'))"
    by auto
  with b b' show ?thesis by blast
qed

section \<open>Guards\<close>

lemma seq_pool_all_ok:
  "seq_pool fs cp = (cp', None) \<Longrightarrow> f \<in> set fs \<Longrightarrow> \<exists>p p'. f p = (p', None)"
  by (induction fs arbitrary: cp) (auto split: prod.splits option.splits)

text \<open>
  C34: A Secret source with includeAllKeys never succeeds on a TLS Secret, whose data holds the
  private key: if it succeeds, none of the selected Secrets is of the TLS type.
\<close>

theorem includeAllKeys_never_TLS:
  assumes "secretBundleSource_addToCertPool parse lib rd ns ref pool = (pool', None)"
    and "sok_Key ref = []" and "sok_IncludeAllKeys ref = Some True"
    and "select_objects ''Secret'' (rd_GetSecret rd) (rd_ListSecrets rd) lib ns ref = Inr secrets"
  shows "list_all (\<lambda>s. sec_Type s \<noteq> SecretTypeTLS) secrets"
  unfolding list_all_iff
proof
  fix s assume "s \<in> set secrets"
  moreover have "seq_pool (map (secret_add parse ref) secrets) pool = (pool', None)"
    using assms(1,4) by (simp add: secretBundleSource_addToCertPool_def)
  ultimately have "\<exists>p p'. secret_add parse ref s p = (p', None)"
    by (intro seq_pool_all_ok [of "map (secret_add parse ref) secrets" pool pool']) auto
  then obtain p p' where "secret_add parse ref s p = (p', None)" by blast
  then show "sec_Type s \<noteq> SecretTypeTLS"
    using assms(2,3) by (auto simp: secret_add_def Let_def)
qed

theorem includeAllKeys_never_TLS_witness:
  "\<exists>pool'. secretBundleSource_addToCertPool example_parse example_lib example_reader ''cert-manager''
       ((example_ref ''ca'')\<lparr>sok_Key := [], sok_IncludeAllKeys := Some True\<rparr>) (NewCertPool []) = (pool', None) \<and>
     list_all (\<lambda>s. sec_Type s \<noteq> SecretTypeTLS)
       [\<lparr>sec_Meta = example_meta ''cert-manager'' ''ca'', sec_Type = ''Opaque'', sec_Data = [(''ca.crt'', Some example_pem)]\<rparr>]"
proof -
  let ?ref = "(example_ref ''ca'')\<lparr>sok_Key := [], sok_IncludeAllKeys := Some True\<rparr>"
  have sel: "select_objects ''Secret'' (rd_GetSecret example_reader) (rd_ListSecrets example_reader) example_lib
      ''cert-manager'' ?ref = Inr [\<lparr>sec_Meta = example_meta ''cert-manager'' ''ca'', sec_Type = ''Opaque'',
        sec_Data = [(''ca.crt'', Some example_pem)]\<rparr>]"
    by (simp add: select_objects_def example_ref_def example_reader_def)
  have ok: "secretBundleSource_addToCertPool example_parse example_lib example_reader ''cert-manager'' ?ref (NewCertPool [])
      = (fst (AddCert (NewCertPool []) (example_cert ''ab'' 100)), None)"
    unfolding secretBundleSource_addToCertPool_def sel
    by (simp add: secret_add_def add_value_def example_add example_ref_def SecretTypeTLS_def)
  from includeAllKeys_never_TLS [OF ok _ _ sel] ok show ?thesis by (simp add: example_ref_def)
qed

text \<open>A source has a type when one of its four fields is set; the others make the builder panic.\<close>

definition source_typed :: "BundleSource \<Rightarrow> bool" where
  "source_typed src \<longleftrightarrow> bs_ConfigMap src \<noteq> None \<or> bs_Secret src \<noteq> None \<or> bs_InLine src \<noteq> [] \<or>
     bs_UseDefaultCAs src \<noteq> None"

lemma add_source_Panic:
  "add_source parse lib rd b src acc = Panic s \<Longrightarrow> \<not> source_typed src"
  by (auto simp: add_source_def source_typed_def Let_def split: option.splits if_splits prod.splits)

lemma add_sources_Panic:
  "add_sources parse lib rd b srcs acc = Panic s \<Longrightarrow> \<not> list_all source_typed srcs"
proof (induction srcs arbitrary: acc)
  case (Cons src srcs)
  then show ?case
    by (cases "add_source parse lib rd b src acc") (auto dest: add_source_Panic)
qed simp

lemma BuildBundle_Panic:
  "list_all source_typed srcs \<Longrightarrow> BuildBundle parse now lib rd b srcs \<noteq> Panic s"
proof
  assume t: "list_all source_typed srcs" and p: "BuildBundle parse now lib rd b srcs = Panic s"
  let ?acc = "\<lparr>bdl_CertPool = build_pool now b, bdl_DefaultCAPackageStringID = []\<rparr>"
  from p have "add_sources parse lib rd b srcs ?acc = Panic s"
    by (cases "add_sources parse lib rd b srcs ?acc")
      (auto simp: BuildBundle_def Let_def build_pool_def new_pool_def split: if_splits)
  with t show False by (blast dest: add_sources_Panic)
qed

end
