(* ===== verification/ReconcileTheorems.thy ===== *)
theory ReconcileTheorems
  imports Reconcile TargetProperties SourceTheorems
begin

text \<open>
  Lemmas about the reconcile loop: the set of desired targets, the clean-up as a walk over the
  obsolete targets, the writes as a run of \<open>ApplyTarget\<close>, and the footprint of each step: which
  actions it can add to the log.
\<close>

section \<open>Log extensions\<close>

definition extends :: "(action \<Rightarrow> bool) \<Rightarrow> 'w sys \<Rightarrow> 'w sys \<Rightarrow> bool" where
  "extends P s s' \<longleftrightarrow> (\<exists>as. sys_log s' = sys_log s @ as \<and> list_all P as)"

lemma extends_refl [simp]: "extends P s s"
  by (simp add: extends_def)

lemma extends_trans [trans]: "extends P s s' \<Longrightarrow> extends P s' s'' \<Longrightarrow> extends P s s''"
  by (auto simp: extends_def)

lemma extends_mono: "extends P s s' \<Longrightarrow> (\<And>a. P a \<Longrightarrow> Q a) \<Longrightarrow> extends Q s s'"
  by (auto simp: extends_def list_all_iff)

lemma extends_log [simp]: "extends P s (log_action a s') \<longleftrightarrow> (\<exists>as. sys_log s' @ [a] = sys_log s @ as \<and> list_all P as)"
  by (simp add: extends_def log_action_def)

lemma extends_Eventf: "extends P s s' \<Longrightarrow> P (Event ty reason act fmt args) \<Longrightarrow> extends P s (Eventf ty reason act fmt args s')"
  by (auto simp: extends_def Eventf_def log_action_def)

section \<open>Desired targets\<close>

definition namespace_selected :: "Options \<Rightarrow> Namespace \<Rightarrow> bool" where
  "namespace_selected opts n \<longleftrightarrow> ns_Phase n \<noteq> NamespaceTerminating \<and>
     (opt_TargetNamespaces opts = [] \<or> om_Name (ns_Meta n) \<in> set (opt_TargetNamespaces opts))"

definition resource_for :: "Kind \<Rightarrow> Bundle \<Rightarrow> Namespace \<Rightarrow> Resource" where
  "resource_for kind bundle n =
     \<lparr>res_Kind = kind, res_NamespacedName = \<lparr>nn_Namespace = om_Name (ns_Meta n), nn_Name = om_Name (bd_Meta bundle)\<rparr>\<rparr>"

lemma set_insert_key [simp]: "set (insert_key k m) = insert k (set m)"
  by (auto simp: insert_key_def)

lemma distinct_insert_key [simp]: "distinct m \<Longrightarrow> distinct (insert_key k m)"
  by (auto simp: insert_key_def)

lemma distinct_desired: "distinct acc \<Longrightarrow> distinct (desired_targets opts bundle nss acc)"
  by (induction opts "bundle" nss acc rule: desired_targets.induct) (simp_all add: Let_def)

lemma set_desired:
  "set (desired_targets opts bundle nss acc) = set acc \<union>
     {resource_for kind bundle n |kind n. n \<in> set nss \<and> namespace_selected opts n \<and> target_template kind bundle \<noteq> None}"
proof (induction opts "bundle" nss acc rule: desired_targets.induct)
  case (2 opts bd n rest acc)
  show ?case
  proof (cases "namespace_selected opts n")
    case True
    then have cond: "ns_Phase n \<noteq> NamespaceTerminating"
      "\<not> (length (opt_TargetNamespaces opts) > 0 \<and> om_Name (ns_Meta n) \<notin> set (opt_TargetNamespaces opts))"
      by (auto simp: namespace_selected_def)
    have kinds: "target_template kind bd \<noteq> None \<longleftrightarrow>
        kind = KindSecret \<and> bt_Secret (spec_Target (bd_Spec bd)) \<noteq> None \<or>
        kind = KindConfigMap \<and> bt_ConfigMap (spec_Target (bd_Spec bd)) \<noteq> None" for kind
      by (simp add: target_template_def)
    have new: "{resource_for kind bd m |kind m. m \<in> set (n # rest) \<and> namespace_selected opts m \<and> target_template kind bd \<noteq> None} =
        {resource_for kind bd n |kind. target_template kind bd \<noteq> None} \<union>
        {resource_for kind bd m |kind m. m \<in> set rest \<and> namespace_selected opts m \<and> target_template kind bd \<noteq> None}"
      using True by auto
    have here: "{resource_for kind bd n |kind. target_template kind bd \<noteq> None} =
        (if bt_Secret (spec_Target (bd_Spec bd)) \<noteq> None then {resource_for KindSecret bd n} else {}) \<union>
        (if bt_ConfigMap (spec_Target (bd_Spec bd)) \<noteq> None then {resource_for KindConfigMap bd n} else {})"
      unfolding kinds by auto
    show ?thesis
      unfolding desired_targets.simps if_not_P [OF cond(1)] if_not_P [OF cond(2)] Let_def 2(3) [OF cond refl refl refl refl]
        new here
      by (auto simp: resource_for_def)
  next
    case False
    then have "set (desired_targets opts bd (n # rest) acc) = set (desired_targets opts bd rest acc)"
      by (auto simp: namespace_selected_def)
    moreover have "set (desired_targets opts bd rest acc) = set acc \<union>
     {resource_for kind bd n |kind n. n \<in> set rest \<and> namespace_selected opts n \<and> target_template kind bd \<noteq> None}"
    proof (cases "ns_Phase n = NamespaceTerminating")
      case T: False
      with False have "length (opt_TargetNamespaces opts) > 0 \<and> om_Name (ns_Meta n) \<notin> set (opt_TargetNamespaces opts)"
        by (auto simp: namespace_selected_def)
      then show ?thesis by (rule 2(2) [OF T])
    qed (rule 2(1))
    ultimately show ?thesis using False by auto
  qed
qed simp

section \<open>Cleaning up\<close>

definition is_obsolete :: "'w Reconciler \<Rightarrow> Bundle \<Rightarrow> Resource list \<Rightarrow> Kind \<Rightarrow> ObjectMeta \<Rightarrow> bool" where
  "is_obsolete r bundle desired kind t \<longleftrightarrow>
     target_key kind t \<notin> set desired \<and> om_DeletionTimestamp t = None \<and> rec_IsControlledBy r t (bd_Meta bundle)"

definition obsolete_listed :: "('w, 'sel, 'ks) bundle_ctl \<Rightarrow> Bundle \<Rightarrow> Kind list \<Rightarrow> Resource list \<Rightarrow> Resource \<Rightarrow> bool" where
  "obsolete_listed b bundle kinds desired res \<longleftrightarrow> res_Kind res \<in> set kinds \<and>
     (\<exists>w ts t. ctl_ListTargets b w (res_Kind res) [(BundleLabelKey, om_Name (bd_Meta bundle))] = Inr ts \<and> t \<in> set ts \<and>
        res = target_key (res_Kind res) t \<and> is_obsolete (ctl_targetReconciler b) bundle desired (res_Kind res) t)"

text \<open>What a reconcile of this Bundle may do to the cluster, given its desired targets.\<close>

fun action_allowed :: "('w, 'sel, 'ks) bundle_ctl \<Rightarrow> Bundle \<Rightarrow> Kind list \<Rightarrow> Resource list \<Rightarrow> action \<Rightarrow> bool" where
  "action_allowed b bundle kinds desired (PatchRequest k cfg) \<longleftrightarrow> owned_by bundle cfg \<and>
     (\<exists>res. res_Kind res = k \<and> named_config res cfg \<and> (res \<in> set desired \<or> obsolete_listed b bundle kinds desired res))"
| "action_allowed b bundle kinds desired (DeleteRequest k nn) \<longleftrightarrow>
     (\<exists>res s. res_Kind res = k \<and> obsolete_listed b bundle kinds desired res \<and>
              cleanup_response (ctl_targetReconciler b) res bundle s = Some (nn, True))"
| "action_allowed b bundle kinds desired (StatusPatchRequest name st) \<longleftrightarrow> False"
| "action_allowed b bundle kinds desired (Event ty reason act fmt args) \<longleftrightarrow> True"

lemma CleanupTarget_footprint:
  assumes "obsolete_listed b bundle kinds desired key"
  shows "extends (action_allowed b bundle kinds desired) s (snd (CleanupTarget (ctl_targetReconciler b) key bundle s))"
proof -
  have "named_config key (target_patch key bundle)" "owned_by bundle (target_patch key bundle)" by simp_all
  with assms have "action_allowed b bundle kinds desired (PatchRequest (res_Kind key) (target_patch key bundle))" by auto
  with assms CleanupTarget_log_cases [of "ctl_targetReconciler b" key "bundle" s] show ?thesis
    by (auto simp: extends_def split: option.splits prod.splits bool.splits)
qed

lemma CleanupTarget_no_panic: "fst (CleanupTarget r key bundle s) \<noteq> Panic p"
proof -
  have cm: "patchConfigMap r (Some (target_patch key bundle)) s \<noteq> (Panic p, s')"
    and sec: "patchSecret r (Some (target_patch key bundle)) s \<noteq> (Panic p, s')" for p s'
    using patchConfigMap_outcome [OF named_target_patch] patchSecret_outcome [OF named_target_patch] by fastforce+
  show ?thesis
    by (auto simp: CleanupTarget_def case_prod_beta cm sec prod_eq_iff [symmetric]
        split: res.split option.split) (metis cm sec prod.collapse)+
qed

lemma cleanup_targets_footprint:
  assumes "\<And>t. t \<in> set ts \<Longrightarrow> is_obsolete (ctl_targetReconciler b) bundle desired kind t \<Longrightarrow>
             obsolete_listed b bundle kinds desired (target_key kind t)"
  shows "extends (action_allowed b bundle kinds desired) s (snd (cleanup_targets (ctl_targetReconciler b) bundle desired kind ts s))"
  using assms
proof (induction ts arbitrary: s)
  case (Cons t ts)
  show ?case
  proof (cases "is_obsolete (ctl_targetReconciler b) bundle desired kind t")
    case True
    with Cons.prems have "obsolete_listed b bundle kinds desired (target_key kind t)" by simp
    from CleanupTarget_footprint [OF this, of s] show ?thesis
      using True Cons by (auto simp: is_obsolete_def Let_def split: prod.split res.split intro: extends_trans)
  next
    case False
    then show ?thesis using Cons by (auto simp: is_obsolete_def Let_def)
  qed
qed simp

lemma cleanup_targets_no_panic: "fst (cleanup_targets r bundle desired kind ts s) = Ok ()"
proof (induction ts arbitrary: s)
  case (Cons t ts)
  moreover have "CleanupTarget r (target_key kind t) bundle s \<noteq> (Panic p, s')" for p s'
    using CleanupTarget_no_panic by (metis fst_conv)
  ultimately show ?case
    by (auto simp: Let_def split: prod.split res.split)
qed simp

lemma cleanup_kinds_footprint:
  assumes "set ks \<subseteq> set kinds"
  shows "extends (action_allowed b bundle kinds desired) s (snd (cleanup_kinds b bundle desired ks s))"
  using assms
proof (induction ks arbitrary: s)
  case (Cons kind ks)
  show ?case
  proof (cases "ctl_ListTargets b (sys_world s) kind [(BundleLabelKey, om_Name (bd_Meta bundle))]")
    case (Inl err)
    then show ?thesis by (auto intro!: extends_Eventf)
  next
    case (Inr ts)
    have "obsolete_listed b bundle kinds desired (target_key kind t)"
      if "t \<in> set ts" "is_obsolete (ctl_targetReconciler b) bundle desired kind t" for t
      using that Inr Cons.prems by (auto simp: obsolete_listed_def target_key_def)
    then have "extends (action_allowed b bundle kinds desired) s
        (snd (cleanup_targets (ctl_targetReconciler b) bundle desired kind ts s))"
      by (rule cleanup_targets_footprint)
    with Cons Inr show ?thesis
      by (auto split: prod.split res.split intro: extends_trans)
  qed
qed simp

end
