(* ===== verification/ReconcileProperties.thy ===== *)
theory ReconcileProperties
  imports ReconcileTheorems
begin

text \<open>
  The properties of the reconcile loop: which targets it wants, what it may touch, what each
  outcome says about the cluster, that it is total on complete Bundles, and that a synced Bundle
  is a fixed point.
\<close>

section \<open>Runs of writes\<close>

inductive apply_run :: "('w, 'sel, 'ks) bundle_ctl \<Rightarrow> Bundle \<Rightarrow> BundleData \<Rightarrow> Resource list \<Rightarrow> 'w sys \<Rightarrow> 'w sys \<Rightarrow> bool"
  for b bd d where
  apply_nil: "apply_run b bd d [] s s"
| apply_step: "ApplyTarget (ctl_tstore b) (ctl_targetReconciler b) t bd d s = (Ok (w, None), s1) \<Longrightarrow>
     apply_run b bd d ts s1 s2 \<Longrightarrow> apply_run b bd d (t # ts) s s2"

inductive_cases apply_run_NilE: "apply_run b bd d [] s s'"
inductive_cases apply_run_ConsE: "apply_run b bd d (t # ts) s s'"

lemma apply_targets_run:
  "apply_targets b bd d ts ch s = (Ok (Inr ch'), s') \<Longrightarrow> apply_run b bd d ts s s'"
  by (induction ts arbitrary: ch s)
    (auto split: prod.splits res.splits option.splits intro: apply_run.intros)

lemma apply_targets_idle:
  assumes "\<And>t. t \<in> set ts \<Longrightarrow> ApplyTarget (ctl_tstore b) (ctl_targetReconciler b) t bd d s = (Ok (False, None), s)"
  shows "apply_targets b bd d ts ch s = (Ok (Inr ch), s)"
  using assms by (induction ts) simp_all

lemma apply_targets_footprint:
  assumes "set ts \<subseteq> set desired"
  shows "extends (action_allowed b bd kinds desired) s (snd (apply_targets b bd d ts ch s))"
  using assms
proof (induction ts arbitrary: ch s)
  case (Cons t ts)
  let ?r = "ApplyTarget (ctl_tstore b) (ctl_targetReconciler b) t bd d s"
  have step: "extends (action_allowed b bd kinds desired) s (snd ?r)"
    using ApplyTarget_requests [of "ctl_tstore b" "ctl_targetReconciler b" t bd d s] Cons.prems
    by (auto simp: extends_def)
  obtain x s1 where r: "?r = (x, s1)" by force
  have rest: "extends (action_allowed b bd kinds desired) s (snd (apply_targets b bd d ts c s1))" for c
    using extends_trans [of _ s s1] step r Cons by auto
  show ?case using r step rest by (auto split: res.split option.split prod.split)
qed simp

lemma apply_targets_total:
  assumes "formats_complete (formats_of bd)"
  shows "\<exists>x. fst (apply_targets b bd d ts ch s) = Ok x"
proof (induction ts arbitrary: ch s)
  case (Cons t ts)
  obtain x s1 where "ApplyTarget (ctl_tstore b) (ctl_targetReconciler b) t bd d s = (x, s1)" by force
  with ApplyTarget_total [OF assms, of "ctl_tstore b" "ctl_targetReconciler b" t d s] Cons show ?case
    by (auto split: option.split prod.split)
qed simp

lemma cleanup_kinds_total: "\<forall>p. fst (cleanup_kinds b bd desired kinds s) \<noteq> Panic p"
proof (induction kinds arbitrary: s)
  case (Cons kind kinds)
  have "cleanup_targets r bd desired kind ts s \<noteq> (Panic p, s')"
    "cleanup_targets r bd desired kind ts s \<noteq> (Err e, s')" for r ts p e s'
    using cleanup_targets_no_panic [of r bd desired kind ts s] by auto
  then show ?case using Cons by (auto split: sum.split prod.split res.split unit.split)
qed simp

lemma cleanup_kinds_idle:
  assumes "\<And>kind. kind \<in> set kinds \<Longrightarrow>
      (\<exists>ts. ctl_ListTargets b (sys_world s) kind [(BundleLabelKey, om_Name (bd_Meta bd))] = Inr ts \<and>
            list_all (\<lambda>t. \<not> is_obsolete (ctl_targetReconciler b) bd desired kind t) ts)"
  shows "cleanup_kinds b bd desired kinds s = (Ok (), s)"
proof -
  have idle: "cleanup_targets r bd desired kind ts s = (Ok (), s)"
    if "list_all (\<lambda>t. \<not> is_obsolete r bd desired kind t) ts" for r kind ts
    using that by (induction ts) (auto simp: is_obsolete_def Let_def)
  show ?thesis using assms
  proof (induction kinds)
    case (Cons kind kinds)
    then obtain ts where "ctl_ListTargets b (sys_world s) kind [(BundleLabelKey, om_Name (bd_Meta bd))] = Inr ts"
      "list_all (\<lambda>t. \<not> is_obsolete (ctl_targetReconciler b) bd desired kind t) ts" by (meson list.set_intros(1))
    moreover from this have "cleanup_targets (ctl_targetReconciler b) bd desired kind ts s = (Ok (), s)"
      by (intro idle)
    ultimately show ?case using Cons by simp
  qed simp
qed

section \<open>Desired targets\<close>

text \<open>
  The desired targets of a Bundle are exactly its name in every listed namespace that is not
  terminating and is allowed by the controller's options (any namespace when none is configured),
  once per kind the Bundle's target defines, and each is processed once.
\<close>

lemma desired_targets_exact:
  "set (desired_targets opts bd nss []) =
     {resource_for kind bd n |kind n. n \<in> set nss \<and> ns_Phase n \<noteq> NamespaceTerminating \<and>
        (opt_TargetNamespaces opts = [] \<or> om_Name (ns_Meta n) \<in> set (opt_TargetNamespaces opts)) \<and>
        target_template kind bd \<noteq> None} \<and>
   distinct (desired_targets opts bd nss [])"
  using set_desired [of opts bd nss "[]"] by (auto simp: distinct_desired namespace_selected_def)

section \<open>Footprint\<close>

text \<open>The targets a reconcile wants: those of the Bundle it reads, in the namespaces it lists.\<close>

definition wanted :: "('w, 'sel, 'ks) bundle_ctl \<Rightarrow> Bundle \<Rightarrow> 'w \<Rightarrow> Resource list" where
  "wanted b bd w =
     (if \<not> opt_SecretTargetsEnabled (ctl_Options b) \<and> bt_Secret (spec_Target (bd_Spec bd)) \<noteq> None then [] else
      case bundleTargetNamespaceSelector (ctl_labels b) (spec_Target (bd_Spec bd)) of
        Inl _ \<Rightarrow> []
      | Inr sel \<Rightarrow>
          (case ctl_ListNamespaces b w sel of
             Inl _ \<Rightarrow> []
           | Inr nss \<Rightarrow> desired_targets (ctl_Options b) bd nss []))"

definition reconcile_allowed :: "('w, 'sel, 'ks) bundle_ctl \<Rightarrow> NamespacedName \<Rightarrow> 'w \<Rightarrow> action \<Rightarrow> bool" where
  "reconcile_allowed b req w a =
     (case ctl_Get b w req of
        Inl _ \<Rightarrow> False
      | Inr bd \<Rightarrow> action_allowed b bd (target_kinds (ctl_Options b)) (wanted b bd w) a)"

definition kind_enabled :: "Options \<Rightarrow> action \<Rightarrow> bool" where
  "kind_enabled opts a =
     (case a of
        PatchRequest k _ \<Rightarrow> k = KindConfigMap \<or> k = KindSecret \<and> opt_SecretTargetsEnabled opts
      | DeleteRequest k _ \<Rightarrow> k = KindConfigMap \<or> k = KindSecret \<and> opt_SecretTargetsEnabled opts
      | _ \<Rightarrow> True)"

lemma wanted_kinds:
  assumes "res \<in> set (wanted b bd w)"
  shows "res_Kind res = KindConfigMap \<or> res_Kind res = KindSecret \<and> opt_SecretTargetsEnabled (ctl_Options b)"
proof -
  from assms obtain nss where w: "res \<in> set (desired_targets (ctl_Options b) bd nss [])"
    and e: "opt_SecretTargetsEnabled (ctl_Options b) \<or> bt_Secret (spec_Target (bd_Spec bd)) = None"
    by (auto simp: wanted_def split: if_splits sum.splits)
  from w obtain kind n where "res = resource_for kind bd n" and "target_template kind bd \<noteq> None"
    unfolding set_desired by auto
  with e show ?thesis by (auto simp: resource_for_def target_template_def split: if_splits)
qed

lemma allowed_kind_enabled:
  assumes "action_allowed b bd (target_kinds (ctl_Options b)) (wanted b bd w) a"
  shows "kind_enabled (ctl_Options b) a"
proof -
  have "res_Kind res = KindConfigMap \<or> res_Kind res = KindSecret \<and> opt_SecretTargetsEnabled (ctl_Options b)"
    if "res \<in> set (wanted b bd w) \<or> obsolete_listed b bd (target_kinds (ctl_Options b)) (wanted b bd w) res" for res
    using that wanted_kinds [of res b bd w] by (auto simp: obsolete_listed_def target_kinds_def split: if_splits)
  with assms show ?thesis by (cases a) (fastforce simp: kind_enabled_def)+
qed

lemma sync_targets_footprint:
  assumes "set (ctl_range b (desired_targets (ctl_Options b) bd nss [])) = set (desired_targets (ctl_Options b) bd nss [])"
  shows "extends (action_allowed b bd (target_kinds (ctl_Options b)) (desired_targets (ctl_Options b) bd nss [])) s
           (snd (sync_targets b bd d sel nss st s))"
proof -
  let ?D = "desired_targets (ctl_Options b) bd nss []"
  let ?K = "target_kinds (ctl_Options b)"
  obtain x s1 where c: "cleanup_kinds b bd ?D ?K s = (x, s1)" by force
  then have 1: "extends (action_allowed b bd (target_kinds (ctl_Options b)) ?D) s s1"
    using cleanup_kinds_footprint [of ?K ?K b bd ?D s] by simp
  obtain y s2 where a: "apply_targets b bd d (ctl_range b ?D) False s1 = (y, s2)" by force
  then have 2: "extends (action_allowed b bd (target_kinds (ctl_Options b)) ?D) s s2"
    using 1 apply_targets_footprint [of "ctl_range b ?D" ?D b bd ?K s1 d False] assms by (auto intro: extends_trans)
  have 3: "extends (action_allowed b bd (target_kinds (ctl_Options b)) ?D) s (Eventf ty reason act fmt args s2)" for ty reason act fmt args
    using extends_Eventf [OF 2] by simp
  show ?thesis
    unfolding sync_targets_def report_synced_def Let_def c a setBundleStatusDefaultCAVersion_eq
    using a 1 2 3 by (simp split: res.split sum.split prod.split)
qed

text \<open>
  C6: A reconcile only touches what is its Bundle's: every request is a patch that names the
  Bundle as the controlling owner, of a desired target or of an obsolete one, or the deletion of
  an obsolete target whose response showed no data. A target is obsolete only when it carries the
  Bundle's label, is controlled by the Bundle, is not already being deleted and is not desired.
  Everything else in the log is an event. Without a Bundle there is no action at all, and Secrets
  are touched only when Secret targets are enabled.
\<close>

theorem reconcileBundle_footprint:
  assumes "\<And>xs. set (ctl_range b xs) = set xs"
  shows "extends (\<lambda>a. reconcile_allowed b req (sys_world s) a \<and> kind_enabled (ctl_Options b) a) s (snd (reconcileBundle b req s))"
proof (cases "ctl_Get b (sys_world s) req")
  case (Inl err)
  then show ?thesis by (simp add: reconcileBundle_def)
next
  case get: (Inr bd)
  then have allowed: "reconcile_allowed b req (sys_world s) = action_allowed b bd (target_kinds (ctl_Options b)) (wanted b bd (sys_world s))"
    by (simp add: reconcile_allowed_def fun_eq_iff)
  have sync: "extends (action_allowed b bd (target_kinds (ctl_Options b)) (wanted b bd (sys_world s))) s (snd (sync_targets b bd d sel nss st s))"
    if "bundleTargetNamespaceSelector (ctl_labels b) (spec_Target (bd_Spec bd)) = Inr sel"
      "ctl_ListNamespaces b (sys_world s) sel = Inr nss"
      "opt_SecretTargetsEnabled (ctl_Options b) \<or> bt_Secret (spec_Target (bd_Spec bd)) = None" for d sel nss st
    using that sync_targets_footprint [OF assms, of bd nss s d sel st] by (auto simp: wanted_def)
  have "extends (action_allowed b bd (target_kinds (ctl_Options b)) (wanted b bd (sys_world s))) s (snd (reconcileBundle b req s))"
    using get sync
    by (auto simp: reconcileBundle_def Let_def source_failure_def intro!: extends_Eventf
        split: res.split sum.split prod.split)
  then show ?thesis unfolding allowed by (rule extends_mono) (auto dest: allowed_kind_enabled)
qed

section \<open>Outcomes\<close>

abbreviation build :: "('w, 'sel, 'ks) bundle_ctl \<Rightarrow> 'w \<Rightarrow> Bundle \<Rightarrow> BundleData res" where
  "build b w bd \<equiv> BuildBundle (ctl_parse b) (ctl_time b) (ctl_labels b) (ctl_Reader b w) (ctl_bundleBuilder b)
     (spec_Sources (bd_Spec bd))"

lemma set_patch_eq:
  "set_patch_condition b bd c \<lparr>st_Conditions = [], st_DefaultCAPackageVersion = v\<rparr> =
     \<lparr>st_Conditions = [snd (setBundleCondition (ctl_clock b) (st_Conditions (bd_Status bd)) [] c)], st_DefaultCAPackageVersion = v\<rparr>"
  by (simp add: set_patch_condition_def setBundleCondition_def Let_def)

lemma set_patch_single:
  "st_Conditions (set_patch_condition b bd c \<lparr>st_Conditions = [], st_DefaultCAPackageVersion = v\<rparr>) =
     [snd (setBundleCondition (ctl_clock b) (st_Conditions (bd_Status bd)) [] c)]"
  "st_DefaultCAPackageVersion (set_patch_condition b bd c st) = st_DefaultCAPackageVersion st"
  by (simp_all add: set_patch_condition_def setBundleCondition_def Let_def)

lemma setBundleCondition_keeps:
  "cond_Type (snd (setBundleCondition now ex ps c)) = cond_Type c"
  "cond_Status (snd (setBundleCondition now ex ps c)) = cond_Status c"
  "cond_Reason (snd (setBundleCondition now ex ps c)) = cond_Reason c"
  "cond_ObservedGeneration (snd (setBundleCondition now ex ps c)) = cond_ObservedGeneration c"
  using keep_transition_time_same [of ex "c\<lparr>cond_LastTransitionTime := now\<rparr>"]
  by (simp_all add: setBundleCondition_def Let_def same_condition_iff)

text \<open>
  C30: When the sources cannot be resolved, no target is touched: the world is unchanged and the
  only action is one warning event. The status patch has the single condition Synced=False for
  the observed generation, with the reason SourceNotFound or SourceBuildError, and keeps the
  recorded version of the default package. The reconcile fails (and is retried) exactly when
  the error is not a missing source.
\<close>

theorem reconcile_source_failure:
  assumes "ctl_Get b (sys_world s) req = Inr bd" and "build b (sys_world s) bd = Err err"
  shows "\<exists>c e msg. reconcileBundle b req s =
      (Ok (Some \<lparr>st_Conditions = [c], st_DefaultCAPackageVersion = st_DefaultCAPackageVersion (bd_Status bd)\<rparr>, e),
       log_action (Event EventWarning (cond_Reason c) ''SyncFailed'' msg []) s) \<and>
    cond_Type c = BundleConditionSynced \<and> cond_Status c = ConditionFalse \<and>
    cond_ObservedGeneration c = om_Generation (bd_Meta bd) \<and>
    cond_Reason c = (if IsSourceNotFound err then ''SourceNotFound'' else ''SourceBuildError'') \<and>
    (e = None \<longleftrightarrow> IsSourceNotFound err)"
proof -
  let ?new = "synced_condition ConditionFalse (fst (source_failure err)) (capitalise (snd (source_failure err)) @ '': '' @ error_text err) bd"
  let ?c = "snd (setBundleCondition (ctl_clock b) (st_Conditions (bd_Status bd)) [] ?new)"
  have run: "reconcileBundle b req s =
      (Ok (Some \<lparr>st_Conditions = [?c], st_DefaultCAPackageVersion = st_DefaultCAPackageVersion (bd_Status bd)\<rparr>,
           if IsSourceNotFound err then None else Some (Wrapf (snd (source_failure err) @ '': '') err)),
       log_action (Event EventWarning (fst (source_failure err)) ''SyncFailed''
         (capitalise (snd (source_failure err)) @ '': '' @ error_text err) []) s)"
    using assms by (simp add: reconcileBundle_def Let_def Eventf_def case_prod_beta set_patch_eq)
  have keeps: "cond_Reason ?c = fst (source_failure err)"
    "cond_Type ?c = BundleConditionSynced" "cond_Status ?c = ConditionFalse"
    "cond_ObservedGeneration ?c = om_Generation (bd_Meta bd)"
    by (simp_all add: setBundleCondition_keeps synced_condition_def)
  have run': "reconcileBundle b req s =
      (Ok (Some \<lparr>st_Conditions = [?c], st_DefaultCAPackageVersion = st_DefaultCAPackageVersion (bd_Status bd)\<rparr>,
           if IsSourceNotFound err then None else Some (Wrapf (snd (source_failure err) @ '': '') err)),
       log_action (Event EventWarning (cond_Reason ?c) ''SyncFailed''
         (capitalise (snd (source_failure err)) @ '': '' @ error_text err) []) s)"
    unfolding keeps(1) by (rule run)
  obtain c e msg where out: "reconcileBundle b req s =
      (Ok (Some \<lparr>st_Conditions = [c], st_DefaultCAPackageVersion = st_DefaultCAPackageVersion (bd_Status bd)\<rparr>, e),
       log_action (Event EventWarning (cond_Reason c) ''SyncFailed'' msg []) s)"
    and c: "cond_Type c = BundleConditionSynced" "cond_Status c = ConditionFalse"
      "cond_ObservedGeneration c = om_Generation (bd_Meta bd)" "cond_Reason c = fst (source_failure err)"
    and e: "e = (if IsSourceNotFound err then None else Some (Wrapf (snd (source_failure err) @ '': '') err))"
    by (rule that [OF run' keeps(2-4,1) refl])
  have "fst (source_failure err) = (if IsSourceNotFound err then ''SourceNotFound'' else ''SourceBuildError'')"
    by (simp add: source_failure_def)
  with out c e show ?thesis by (intro exI [of _ c] exI [of _ e] exI [of _ msg]) simp
qed

lemma sync_targets_True:
  assumes "sync_targets b bd d sel nss \<lparr>st_Conditions = [], st_DefaultCAPackageVersion = v\<rparr> s = (Ok (Some st, err), s')"
    and "list_ex (\<lambda>c. cond_Status c = ConditionTrue) (st_Conditions st)"
  obtains s1 s2 c where "err = None" "apply_run b bd d (ctl_range b (desired_targets (ctl_Options b) bd nss [])) s1 s2"
    "cleanup_kinds b bd (desired_targets (ctl_Options b) bd nss []) (target_kinds (ctl_Options b)) s = (Ok (), s1)"
    "st = \<lparr>st_Conditions = [c], st_DefaultCAPackageVersion = bdl_DefaultCAPackageStringID d\<rparr>"
    "cond_ObservedGeneration c = om_Generation (bd_Meta bd)" "sys_world s' = sys_world s2"
proof -
  let ?D = "desired_targets (ctl_Options b) bd nss []"
  have F: "ConditionFalse \<noteq> ConditionTrue" by (simp add: ConditionFalse_def ConditionTrue_def)
  let ?new = "synced_condition ConditionTrue ''Synced'' (success_message (ctl_Options b) (ctl_labels b) sel) bd"
  let ?c = "snd (setBundleCondition (ctl_clock b) (st_Conditions (bd_Status bd)) [] ?new)"
  from assms F obtain s1 s2 ch where c: "cleanup_kinds b bd ?D (target_kinds (ctl_Options b)) s = (Ok (), s1)"
    and a: "apply_targets b bd d (ctl_range b ?D) False s1 = (Ok (Inr ch), s2)"
    by (auto simp: sync_targets_def report_synced_def Let_def set_patch_single setBundleCondition_keeps synced_condition_def
        split: prod.splits res.splits sum.splits)
  with assms(1) have "err = None" "sys_world s' = sys_world s2"
    "st = \<lparr>st_Conditions = [?c], st_DefaultCAPackageVersion = bdl_DefaultCAPackageStringID d\<rparr>"
    by (auto simp: sync_targets_def report_synced_def Let_def setBundleStatusDefaultCAVersion_eq Eventf_def log_action_def
        set_patch_condition_def setBundleCondition_def split: if_splits)
  moreover have "cond_ObservedGeneration ?c = om_Generation (bd_Meta bd)"
    by (simp add: setBundleCondition_keeps synced_condition_def)
  ultimately show ?thesis using that apply_targets_run [OF a] c by blast
qed

text \<open>
  C7: A status patch with Synced=True is truthful: the reconcile returned no error, its sources
  resolved, the namespaces were listed, and then every desired target, in the order of the map
  iteration and after the clean-up, was written or found up to date without an error. The patch
  has this one condition, for the generation that was read, and the version of the default
  package that was used.
\<close>

theorem synced_status_means_all_applied:
  assumes "reconcileBundle b req s = (Ok (Some st, err), s')"
    and "list_ex (\<lambda>c. cond_Status c = ConditionTrue) (st_Conditions st)"
  shows "\<exists>bd d sel nss s1 s2 c. err = None \<and> ctl_Get b (sys_world s) req = Inr bd \<and>
     build b (sys_world s) bd = Ok d \<and>
     bundleTargetNamespaceSelector (ctl_labels b) (spec_Target (bd_Spec bd)) = Inr sel \<and>
     ctl_ListNamespaces b (sys_world s) sel = Inr nss \<and>
     cleanup_kinds b bd (desired_targets (ctl_Options b) bd nss []) (target_kinds (ctl_Options b)) s = (Ok (), s1) \<and>
     apply_run b bd d (ctl_range b (desired_targets (ctl_Options b) bd nss [])) s1 s2 \<and> sys_world s' = sys_world s2 \<and>
     st = \<lparr>st_Conditions = [c], st_DefaultCAPackageVersion = bdl_DefaultCAPackageStringID d\<rparr> \<and>
     cond_ObservedGeneration c = om_Generation (bd_Meta bd)"
proof -
  have F: "ConditionFalse \<noteq> ConditionTrue" by (simp add: ConditionFalse_def ConditionTrue_def)
  from assms F obtain bd d sel nss where get: "ctl_Get b (sys_world s) req = Inr bd"
    and build: "build b (sys_world s) bd = Ok d"
    and sel: "bundleTargetNamespaceSelector (ctl_labels b) (spec_Target (bd_Spec bd)) = Inr sel"
    and nss: "ctl_ListNamespaces b (sys_world s) sel = Inr nss"
    and sync: "sync_targets b bd d sel nss
       \<lparr>st_Conditions = [], st_DefaultCAPackageVersion = st_DefaultCAPackageVersion (bd_Status bd)\<rparr> s = (Ok (Some st, err), s')"
    by (auto simp: reconcileBundle_def Let_def set_patch_single setBundleCondition_keeps synced_condition_def
        split: sum.splits res.splits prod.splits if_splits)
  show ?thesis
    by (rule sync_targets_True [OF sync assms(2)]) (use get build sel nss in blast)
qed

text \<open>Reconciling never panics when the sources are typed and a PKCS \#12 format has a password.\<close>

lemma Reconcile_total:
  assumes "\<And>bd. ctl_Get b (sys_world s) req = Inr bd \<Longrightarrow>
             list_all source_typed (spec_Sources (bd_Spec bd)) \<and> formats_complete (formats_of bd)"
  shows "\<exists>errs. fst (Reconcile_Bundle b req s) = Ok errs"
proof -
  have "\<exists>x. fst (reconcileBundle b req s) = Ok x"
  proof (cases "ctl_Get b (sys_world s) req")
    case (Inr bd)
    then have t: "list_all source_typed (spec_Sources (bd_Spec bd))" and f: "formats_complete (formats_of bd)"
      using assms by blast+
    from f have a: "apply_targets b bd d ts ch s1 \<noteq> (Panic p, s2)" "apply_targets b bd d ts ch s1 \<noteq> (Err e, s2)"
      for d ts ch s1 p e s2
      using apply_targets_total [of bd b d ts ch s1] by auto
    have c: "cleanup_kinds b bd D ks s1 \<noteq> (Panic p, s2)" for D ks s1 p s2
      using cleanup_kinds_total by (metis fst_conv)
    have "\<exists>x. fst (sync_targets b bd d sel nss st s) = Ok x" for d sel nss st
      by (auto simp: sync_targets_def report_synced_def Let_def a c setBundleStatusDefaultCAVersion_eq
          split: prod.split res.split sum.split)
    moreover have "build b (sys_world s) bd \<noteq> Panic p" for p
      by (rule BuildBundle_Panic [OF t])
    ultimately show ?thesis using Inr
      by (auto simp: reconcileBundle_def Let_def split: res.split sum.split prod.split)
  qed (simp add: reconcileBundle_def)
  then obtain st e s1 where "reconcileBundle b req s = (Ok (st, e), s1)" by (metis surj_pair prod.collapse)
  then show ?thesis
    by (auto simp: Reconcile_Bundle_def Let_def split: option.split sum.split prod.split)
qed

text \<open>
  C5: A synced Bundle is a fixed point of the reconcile loop: when every desired target is up to
  date, no listed target is obsolete, the recorded default package version is the one in use and
  the Bundle already has the success condition for its current generation, a reconcile makes no
  request, emits no event and leaves the world as it is.
\<close>

theorem Reconcile_fixed_point:
  assumes "ctl_Get b (sys_world s) req = Inr bd" and "build b (sys_world s) bd = Ok d"
    and "opt_SecretTargetsEnabled (ctl_Options b) \<or> bt_Secret (spec_Target (bd_Spec bd)) = None"
    and "bundleTargetNamespaceSelector (ctl_labels b) (spec_Target (bd_Spec bd)) = Inr sel"
    and "ctl_ListNamespaces b (sys_world s) sel = Inr nss"
    and range: "\<And>xs. set (ctl_range b xs) = set xs"
    and targets: "\<And>t. t \<in> set (desired_targets (ctl_Options b) bd nss []) \<Longrightarrow>
        (\<exists>tm obj. target_template (res_Kind t) bd = Some tm \<and> cache_of (ctl_targetReconciler b) s t = Inr obj \<and>
           up_to_date (ctl_targetReconciler b) (res_Kind t) obj bd d tm)"
    and listed: "\<And>kind. kind \<in> set (target_kinds (ctl_Options b)) \<Longrightarrow>
        (\<exists>ts. ctl_ListTargets b (sys_world s) kind [(BundleLabelKey, om_Name (bd_Meta bd))] = Inr ts \<and>
           list_all (\<lambda>t. \<not> is_obsolete (ctl_targetReconciler b) bd (desired_targets (ctl_Options b) bd nss []) kind t) ts)"
    and "st_DefaultCAPackageVersion (bd_Status bd) = bdl_DefaultCAPackageStringID d"
    and "bundleHasCondition (st_Conditions (bd_Status bd))
           (synced_condition ConditionTrue ''Synced'' (success_message (ctl_Options b) (ctl_labels b) sel) bd)"
  shows "Reconcile_Bundle b req s = (Ok [], s)"
proof -
  have "cleanup_kinds b bd (desired_targets (ctl_Options b) bd nss []) (target_kinds (ctl_Options b)) s = (Ok (), s)"
    by (rule cleanup_kinds_idle) (rule listed)
  moreover have "apply_targets b bd d (ctl_range b (desired_targets (ctl_Options b) bd nss [])) False s = (Ok (Inr False), s)"
    by (rule apply_targets_idle) (use range targets ApplyTarget_idleI in metis)
  ultimately have "sync_targets b bd d sel nss
      \<lparr>st_Conditions = [], st_DefaultCAPackageVersion = st_DefaultCAPackageVersion (bd_Status bd)\<rparr> s = (Ok (None, None), s)"
    using assms(9,10) by (simp add: sync_targets_def report_synced_def Let_def setBundleStatusDefaultCAVersion_eq)
  with assms(1-5) have "reconcileBundle b req s = (Ok (None, None), s)"
    by (auto simp: reconcileBundle_def Let_def)
  then show ?thesis by (simp add: Reconcile_Bundle_def Reconcile_result_def)
qed

section \<open>A small cluster\<close>

text \<open>
  The cluster of \<open>TargetProperties\<close> with one namespace, a Bundle of the given status, and a
  cache that lists the object when it exists.
\<close>

definition example_ctl :: "BundleStatus \<Rightarrow> (ObjectMeta option, LabelSelector option, unit) bundle_ctl" where
  "example_ctl st =
     \<lparr>ctl_Get = \<lambda>w req. if nn_Name req = ''b'' then Inr (example_bundle\<lparr>bd_Status := st\<rparr>) else Inl (ApiNotFound ''not found''),
      ctl_Reader = \<lambda>w. example_reader,
      ctl_ListNamespaces = \<lambda>w sel. Inr [\<lparr>ns_Meta = example_meta [] ''ns'', ns_Phase = ''Active''\<rparr>,
                                         \<lparr>ns_Meta = example_meta [] ''gone'', ns_Phase = NamespaceTerminating\<rparr>],
      ctl_ListTargets = \<lambda>w kind sel. Inr (case w of None \<Rightarrow> [] | Some obj \<Rightarrow> if kind = KindConfigMap then [obj] else []),
      ctl_Marshal = \<lambda>cfg. Inr (bsac_Name cfg),
      ctl_StatusPatch = \<lambda>w name patch. (None, w),
      ctl_clock = 7, ctl_time = 50, ctl_parse = example_parse, ctl_labels = example_lib,
      ctl_tstore = example_tstore, ctl_range = rev,
      ctl_Options = bb_Options example_builder, ctl_bundleBuilder = example_builder,
      ctl_targetReconciler = example_reconciler\<rparr>"

lemma example_ctl_simps [simp]:
  "ctl_Get (example_ctl st) w \<lparr>nn_Namespace = [], nn_Name = ''b''\<rparr> = Inr (example_bundle\<lparr>bd_Status := st\<rparr>)"
  "ctl_Marshal (example_ctl st) cfg = Inr (bsac_Name cfg)"
  "ctl_StatusPatch (example_ctl st) w name patch = (None, w)"
  "ctl_clock (example_ctl st) = 7" "ctl_range (example_ctl st) = rev"
  "ctl_Options (example_ctl st) = bb_Options example_builder"
  "ctl_labels (example_ctl st) = example_lib"
  "ctl_tstore (example_ctl st) = example_tstore"
  "ctl_targetReconciler (example_ctl st) = example_reconciler"
  "ctl_ListTargets (example_ctl st) w kind ls = Inr (case w of None \<Rightarrow> [] | Some obj \<Rightarrow> if kind = KindConfigMap then [obj] else [])"
  by (simp_all add: example_ctl_def)

lemma example_bundle_simps [simp]:
  "bd_Meta (example_bundle\<lparr>bd_Status := st\<rparr>) = bd_Meta example_bundle"
  "bd_Spec (example_bundle\<lparr>bd_Status := st\<rparr>) = bd_Spec example_bundle"
  "bd_Status (example_bundle\<lparr>bd_Status := st\<rparr>) = st"
  by simp_all

lemma example_spec:
  "bt_Secret (spec_Target (bd_Spec example_bundle)) = None"
  "bt_NamespaceSelector (spec_Target (bd_Spec example_bundle)) = None"
  "spec_Sources (bd_Spec example_bundle) = [example_inline]"
  "formats_of example_bundle = Some example_formats"
  "om_Name (bd_Meta example_bundle) = ''b''" "om_Generation (bd_Meta example_bundle) = 1"
  by (simp_all add: example_bundle_def example_inline_def)

lemma example_ctl_build: "build (example_ctl st) w (example_bundle\<lparr>bd_Status := st'\<rparr>) = Ok example_data"
proof -
  have "AddCertsFromPEM example_parse (new_pool 50 True True) (Some example_pem) =
      (bdl_CertPool example_data, None)"
    by (simp add: example_add example_data_def)
  moreover have "Size (bdl_CertPool example_data) \<noteq> 0"
    by (simp add: example_data_def example_cert_def AddCert_def new_pool_def NewCertPool_def Size_def
        WithFilteredExpiredCerts_def WithFilteredNonCaCerts_def AppendFilter_def)
  moreover have "example_pem \<noteq> []" by (simp add: example_pem_def pem_Encode_def)
  ultimately have "add_source example_parse example_lib rd example_builder example_inline
      \<lparr>bdl_CertPool = new_pool 50 True True, bdl_DefaultCAPackageStringID = []\<rparr> = Ok example_data"
    and size: "Size (bdl_CertPool example_data) \<noteq> 0" for rd
    by (simp_all add: add_source_def example_inline_def inlineBundleSource_addToCertPool_def example_data_def)
  then show ?thesis
    by (simp add: BuildBundle_def example_spec example_ctl_def flip: new_pool_def)
qed

lemma example_ctl_build_simp:
  "BuildBundle (ctl_parse (example_ctl st)) (ctl_time (example_ctl st)) example_lib (ctl_Reader (example_ctl st) w)
     (ctl_bundleBuilder (example_ctl st)) [example_inline] = Ok example_data"
  using example_ctl_build [of st w st] by (simp add: example_spec)

lemma example_selected:
  "bundleTargetNamespaceSelector example_lib (spec_Target (bd_Spec example_bundle)) = Inr (lib_Everything example_lib)"
  by (simp add: bundleTargetNamespaceSelector_def example_spec)

definition example_namespaces :: "Namespace list" where
  "example_namespaces = [\<lparr>ns_Meta = example_meta [] ''ns'', ns_Phase = ''Active''\<rparr>,
     \<lparr>ns_Meta = example_meta [] ''gone'', ns_Phase = NamespaceTerminating\<rparr>]"

lemma example_list: "ctl_ListNamespaces (example_ctl st) w sel = Inr example_namespaces"
  by (simp add: example_ctl_def example_namespaces_def)

lemma example_options: "opt_TargetNamespaces (bb_Options example_builder) = []"
    "opt_SecretTargetsEnabled (bb_Options example_builder) = False"
  by (simp_all add: example_builder_def)

lemma example_desired:
  "desired_targets (bb_Options example_builder) (example_bundle\<lparr>bd_Status := st\<rparr>) example_namespaces [] = [example_target]"
  by (simp add: example_namespaces_def example_options example_spec NamespaceTerminating_def Let_def insert_key_def
      example_target_def example_meta_def)
    (simp add: example_bundle_def)

lemma status_irrelevant:
  "ApplyTarget lib r t (bd\<lparr>bd_Status := st\<rparr>) d s = ApplyTarget lib r t bd d s"
proof -
  have n: "needsUpdate r k obj (bd\<lparr>bd_Status := st\<rparr>) h = needsUpdate r k obj bd h" for k obj h
    by (simp add: needsUpdate_def Let_def)
  have early: "exit_early r t got (bd\<lparr>bd_Status := st\<rparr>) = exit_early r t got bd" for got
    by (rule ext) (cases got; simp add: exit_early_def n)
  have patches: "configMap_patch t (bd\<lparr>bd_Status := st\<rparr>) = configMap_patch t bd"
    "secret_patch t (bd\<lparr>bd_Status := st\<rparr>) = secret_patch t bd"
    by (intro ext; simp add: configMap_patch_def secret_patch_def target_patch_def prepareTargetPatch_def)+
  have spec: "bd_Spec (bd\<lparr>bd_Status := st\<rparr>) = bd_Spec bd" by simp
  show ?thesis unfolding ApplyTarget_def applyConfigMap_def applySecret_def early patches spec ..
qed

lemma up_to_date_status: "up_to_date r k obj (bd\<lparr>bd_Status := st\<rparr>) d t = up_to_date r k obj bd d t"
  by (simp add: up_to_date_def desired_hash_def split: sum.split)

definition example_success :: Condition where
  "example_success = synced_condition ConditionTrue ''Synced''
     (success_message (bb_Options example_builder) example_lib (lib_Everything example_lib)) example_bundle"

definition example_status :: BundleStatus where
  "example_status = \<lparr>st_Conditions = [example_success], st_DefaultCAPackageVersion = []\<rparr>"

abbreviation example_req :: NamespacedName where
  "example_req \<equiv> \<lparr>nn_Namespace = [], nn_Name = ''b''\<rparr>"

lemma Reconcile_fixed_point_witness:
  "Reconcile_Bundle (example_ctl example_status) example_req synced_cluster = (Ok [], synced_cluster)"
proof (rule Reconcile_fixed_point [OF example_ctl_simps(1) example_ctl_build])
  show "ctl_ListNamespaces (example_ctl example_status) (sys_world synced_cluster) (lib_Everything example_lib) = Inr example_namespaces"
    by (rule example_list)
  show "bundleTargetNamespaceSelector (ctl_labels (example_ctl example_status))
      (spec_Target (bd_Spec (example_bundle\<lparr>bd_Status := example_status\<rparr>))) = Inr (lib_Everything example_lib)"
    by (simp add: example_selected)
next
  fix t assume "t \<in> set (desired_targets (ctl_Options (example_ctl example_status))
      (example_bundle\<lparr>bd_Status := example_status\<rparr>) example_namespaces [])"
  then have t: "t = example_target" by (simp add: example_desired)
  have "target_template (res_Kind t) (example_bundle\<lparr>bd_Status := example_status\<rparr>) = Some example_template"
    by (simp add: t target_template_def example_target_def) (simp add: example_bundle_def)
  moreover have "cache_of (ctl_targetReconciler (example_ctl example_status)) synced_cluster t = Inr (example_object example_hash)"
    by (simp add: cache_of_def example_reconciler_def synced_cluster_def)
  moreover have "res_Kind t = KindConfigMap" by (simp add: t example_target_def)
  ultimately show "\<exists>tm obj. target_template (res_Kind t) (example_bundle\<lparr>bd_Status := example_status\<rparr>) = Some tm \<and>
      cache_of (ctl_targetReconciler (example_ctl example_status)) synced_cluster t = Inr obj \<and>
      up_to_date (ctl_targetReconciler (example_ctl example_status)) (res_Kind t) obj
        (example_bundle\<lparr>bd_Status := example_status\<rparr>) example_data tm"
    using example_up_to_date by (auto simp: up_to_date_status)
next
  fix kind assume "kind \<in> set (target_kinds (ctl_Options (example_ctl example_status)))"
  then have k: "kind = KindConfigMap" by (simp add: target_kinds_def example_options)
  have "target_key KindConfigMap (example_object example_hash) = example_target"
    by (simp add: target_key_def example_object_def example_target_def)
  then show "\<exists>ts. ctl_ListTargets (example_ctl example_status) (sys_world synced_cluster) kind
       [(BundleLabelKey, om_Name (bd_Meta (example_bundle\<lparr>bd_Status := example_status\<rparr>)))] = Inr ts \<and>
      list_all (\<lambda>t. \<not> is_obsolete (ctl_targetReconciler (example_ctl example_status)) (example_bundle\<lparr>bd_Status := example_status\<rparr>)
         (desired_targets (ctl_Options (example_ctl example_status)) (example_bundle\<lparr>bd_Status := example_status\<rparr>) example_namespaces []) kind t) ts"
    by (simp add: k example_desired is_obsolete_def synced_cluster_def)
next
  show "bundleHasCondition (st_Conditions (bd_Status (example_bundle\<lparr>bd_Status := example_status\<rparr>)))
     (synced_condition ConditionTrue ''Synced'' (success_message (ctl_Options (example_ctl example_status))
        (ctl_labels (example_ctl example_status)) (lib_Everything example_lib)) (example_bundle\<lparr>bd_Status := example_status\<rparr>))"
    by (simp add: example_status_def example_success_def synced_condition_def)
qed (simp_all add: example_spec example_options example_status_def example_data_def)

lemma reconcileBundle_footprint_witness:
  "extends (\<lambda>a. reconcile_allowed (example_ctl example_status) example_req None a \<and>
       kind_enabled (bb_Options example_builder) a) empty_cluster
     (snd (reconcileBundle (example_ctl example_status) example_req empty_cluster))"
  using reconcileBundle_footprint [of "example_ctl example_status" example_req empty_cluster]
  by (simp add: empty_cluster_def)

definition empty_status :: BundleStatus where
  "empty_status = \<lparr>st_Conditions = [], st_DefaultCAPackageVersion = []\<rparr>"

lemma example_reconcile:
  "reconcileBundle (example_ctl empty_status) example_req empty_cluster =
     (Ok (Some \<lparr>st_Conditions = [example_success\<lparr>cond_LastTransitionTime := 7\<rparr>], st_DefaultCAPackageVersion = []\<rparr>, None),
      Eventf EventNormal ''Synced'' ''Synced''
        (success_message (bb_Options example_builder) example_lib (lib_Everything example_lib)) [] synced_cluster)"
proof -
  have "cleanup_kinds (example_ctl empty_status) (example_bundle\<lparr>bd_Status := empty_status\<rparr>) [example_target]
      (target_kinds (bb_Options example_builder)) empty_cluster = (Ok (), empty_cluster)"
    by (simp add: target_kinds_def example_options empty_cluster_def)
  moreover have "apply_targets (example_ctl empty_status) (example_bundle\<lparr>bd_Status := empty_status\<rparr>) example_data
      (rev [example_target]) False empty_cluster = (Ok (Inr True), synced_cluster)"
    by (simp add: status_irrelevant example_first_apply)
  ultimately have "sync_targets (example_ctl empty_status) (example_bundle\<lparr>bd_Status := empty_status\<rparr>) example_data
      (lib_Everything example_lib) example_namespaces empty_status empty_cluster =
     (Ok (Some \<lparr>st_Conditions = [example_success\<lparr>cond_LastTransitionTime := 7\<rparr>], st_DefaultCAPackageVersion = []\<rparr>, None),
      Eventf EventNormal ''Synced'' ''Synced''
        (success_message (bb_Options example_builder) example_lib (lib_Everything example_lib)) [] synced_cluster)"
    by (simp add: sync_targets_def report_synced_def example_desired Let_def setBundleStatusDefaultCAVersion_eq empty_status_def
        set_patch_condition_def setBundleCondition_def example_success_def synced_condition_def example_data_def)
  then show ?thesis
    by (simp add: reconcileBundle_def example_ctl_build_simp Let_def example_spec example_options example_selected example_list
        empty_status_def)
qed

lemma synced_status_means_all_applied_witness:
  "\<exists>d s1 s2. build (example_ctl empty_status) None (example_bundle\<lparr>bd_Status := empty_status\<rparr>) = Ok d \<and>
     apply_run (example_ctl empty_status) (example_bundle\<lparr>bd_Status := empty_status\<rparr>) d [example_target] s1 s2 \<and>
     sys_world s2 = sys_world synced_cluster"
proof -
  have "list_ex (\<lambda>c. cond_Status c = ConditionTrue) [example_success\<lparr>cond_LastTransitionTime := 7\<rparr>]"
    by (simp add: example_success_def synced_condition_def)
  from synced_status_means_all_applied [OF example_reconcile] this show ?thesis
    by (auto simp: example_desired example_list example_selected Eventf_def log_action_def empty_cluster_def) metis
qed

lemma reconcile_source_failure_witness:
  "\<exists>c msg. reconcileBundle (example_ctl empty_status\<lparr>ctl_bundleBuilder := example_builder,
       ctl_Get := \<lambda>w req. Inr (example_bundle\<lparr>bd_Spec := (bd_Spec example_bundle)\<lparr>spec_Sources := [example_source ''none'']\<rparr>\<rparr>)\<rparr>)
       example_req empty_cluster =
      (Ok (Some \<lparr>st_Conditions = [c], st_DefaultCAPackageVersion = []\<rparr>, None),
       log_action (Event EventWarning ''SourceNotFound'' ''SyncFailed'' msg []) empty_cluster)"
proof -
  let ?b = "example_ctl empty_status\<lparr>ctl_bundleBuilder := example_builder,
       ctl_Get := \<lambda>w req. Inr (example_bundle\<lparr>bd_Spec := (bd_Spec example_bundle)\<lparr>spec_Sources := [example_source ''none'']\<rparr>\<rparr>)\<rparr>"
  let ?bd = "example_bundle\<lparr>bd_Spec := (bd_Spec example_bundle)\<lparr>spec_Sources := [example_source ''none'']\<rparr>\<rparr>"
  have "\<exists>e. build ?b None ?bd = Err (NotFoundError e)"
    by (simp add: BuildBundle_def example_ctl_def add_source_def example_source_def example_ref_def
        configMapBundleSource_addToCertPool_def select_objects_def example_reader_def Let_def
        apierrors_IsNotFound_def)
  then obtain e where "build ?b (sys_world empty_cluster) ?bd = Err (NotFoundError e)"
    by (auto simp: empty_cluster_def)
  from reconcile_source_failure [of ?b empty_cluster example_req ?bd, OF _ this] show ?thesis
    by (auto simp: IsSourceNotFound_def example_bundle_def)
qed

end
