(* ===== verification/Webhook.thy ===== *)
theory Webhook
  imports Target SourceTheorems
begin

text \<open>
  Admission: \<open>pkg/webhook/validation.go\<close> (Bundle) and \<open>pkg/webhook/cluster_bundle.go\<close>
  (ClusterBundle). The validation functions of apimachinery are the parameter \<open>validation_lib\<close>.
  A field path is the list of its elements; rejecting a request means returning a non-empty list
  of field errors.
\<close>

section \<open>Errors and the library\<close>

datatype path_element = Child string | Index nat

type_synonym field_path = "path_element list"

datatype field_error =
    field_Invalid field_path string string \<comment> \<open>path, value, detail\<close>
  | field_Forbidden field_path string

record validation_lib =
  val_LabelSelector :: "LabelSelector option \<Rightarrow> field_path \<Rightarrow> field_error list"
  val_Annotations :: "string gomap \<Rightarrow> field_path \<Rightarrow> field_error list"
  val_Labels :: "string gomap \<Rightarrow> field_path \<Rightarrow> field_error list"

definition show_bool :: "bool \<Rightarrow> string" where
  "show_bool b = (if b then ''true'' else ''false'')"

section \<open>Bundles\<close>

definition reserved_prefixes :: "string list" where
  "reserved_prefixes = [''trust.cert-manager.io/'', ''trust-manager.io/'']"

definition reserved_errors :: "string \<Rightarrow> field_path \<Rightarrow> string \<Rightarrow> field_error list" where
  "reserved_errors what path key =
     concat (map (\<lambda>p. if has_prefix key p
                       then [field_Invalid path key (p @ ''* '' @ what @ '' are not allowed'')] else [])
       reserved_prefixes)"

definition validateTargetMetadata :: "validation_lib \<Rightarrow> TargetMetadata \<Rightarrow> field_path \<Rightarrow> field_error list" where
  "validateTargetMetadata lib targetMetadata fldPath =
     (let templateAnnotationsPath = fldPath @ [Child ''annotations''];
          templateLabelsPath = fldPath @ [Child ''labels'']
      in concat (map (reserved_errors ''annotations'' templateAnnotationsPath) (map fst (tm_Annotations targetMetadata)))
         @ val_Annotations lib (tm_Annotations targetMetadata) templateAnnotationsPath
         @ concat (map (reserved_errors ''labels'' templateLabelsPath) (map fst (tm_Labels targetMetadata)))
         @ val_Labels lib (tm_Labels targetMetadata) templateLabelsPath)"

definition quoted_blank :: string where
  "quoted_blank = [CHR 0x27, CHR '' '', CHR 0x27]"

definition validate_selector :: "validation_lib \<Rightarrow> string \<Rightarrow> SourceObjectKeySelector \<Rightarrow> field_path \<Rightarrow> field_error list" where
  "validate_selector lib kind ref path =
     (let includeAllKeys = ptr_Deref (sok_IncludeAllKeys ref) False
      in (if length (sok_Name ref) = 0 \<and> sok_Selector ref = None
          then [field_Invalid path (''name: '' @ quoted_blank @ '', selector: nil'')
                  ''must validate one and only one schema (oneOf): [name, selector]. Found none valid''] else [])
         @ (if length (sok_Name ref) > 0 \<and> sok_Selector ref \<noteq> None
            then [field_Invalid path (''name: '' @ sok_Name ref @ '', selector: {}'')
                    ''must validate one and only one schema (oneOf): [name, selector]. Found both set''] else [])
         @ (if length (sok_Key ref) = 0 \<and> \<not> includeAllKeys
            then [field_Invalid path (''key: '' @ quoted_blank @ '', includeAllKeys: '' @ show_bool includeAllKeys)
                    (''source '' @ kind @ '' key must be defined when includeAllKeys is false'')] else [])
         @ (if length (sok_Key ref) > 0 \<and> includeAllKeys
            then [field_Invalid path (''key: '' @ sok_Key ref @ '', includeAllKeys: '' @ show_bool includeAllKeys)
                    (''source '' @ kind @ '' key cannot be defined when includeAllKeys is true'')] else [])
         @ val_LabelSelector lib (sok_Selector ref) (path @ [Child ''selector'']))"

text \<open>The loop over the sources: the errors, \<open>sourceCount\<close> and \<open>defaultCAsCount\<close>.\<close>

definition count_if :: "bool \<Rightarrow> nat" where
  "count_if b = (if b then 1 else 0)"

definition unionCount :: "BundleSource \<Rightarrow> nat" where
  "unionCount source = count_if (bs_ConfigMap source \<noteq> None) + count_if (bs_Secret source \<noteq> None)
     + count_if (bs_InLine source \<noteq> []) + count_if (bs_UseDefaultCAs source \<noteq> None)"

definition validate_source :: "validation_lib \<Rightarrow> field_path \<Rightarrow> BundleSource \<Rightarrow> field_error list" where
  "validate_source lib path source =
     (case bs_ConfigMap source of None \<Rightarrow> [] | Some ref \<Rightarrow> validate_selector lib ''configMap'' ref (path @ [Child ''configMap'']))
     @ (case bs_Secret source of None \<Rightarrow> [] | Some ref \<Rightarrow> validate_selector lib ''secret'' ref (path @ [Child ''secret'']))
     @ (if unionCount source \<noteq> 1
        then [field_Forbidden path (''must define exactly one source type for each item but found ''
                @ itoa (unionCount source) @ '' defined types'')] else [])"

fun validate_sources ::
  "validation_lib \<Rightarrow> field_path \<Rightarrow> nat \<Rightarrow> BundleSource list \<Rightarrow> field_error list \<Rightarrow> nat \<Rightarrow> nat
     \<Rightarrow> field_error list \<times> nat \<times> nat" where
  "validate_sources lib path i [] el sourceCount defaultCAsCount = (el, sourceCount, defaultCAsCount)"
| "validate_sources lib path i (source # rest) el sourceCount defaultCAsCount =
     validate_sources lib path (Suc i) rest
       (el @ validate_source lib (path @ [Child ''sources'', Index i]) source)
       (sourceCount + count_if (bs_ConfigMap source \<noteq> None) + count_if (bs_Secret source \<noteq> None)
          + count_if (bs_InLine source \<noteq> []) + count_if (bs_UseDefaultCAs source = Some True))
       (defaultCAsCount + count_if (bs_UseDefaultCAs source \<noteq> None))"

text \<open>A source may not be the target itself.\<close>

fun self_sources ::
  "(BundleSource \<Rightarrow> SourceObjectKeySelector option) \<Rightarrow> string \<Rightarrow> string \<Rightarrow> TargetTemplate \<Rightarrow> field_path \<Rightarrow> nat
     \<Rightarrow> BundleSource list \<Rightarrow> field_error list" where
  "self_sources get kind name target path i [] = []"
| "self_sources get kind name target path i (source # rest) =
     (case get source of
        None \<Rightarrow> []
      | Some ref \<Rightarrow>
          if sok_Name ref = name \<and> sok_Key ref = tt_Key target
          then [field_Forbidden (path @ [Index i, Child kind, Child (sok_Name ref), Child (sok_Key ref)])
                  ''cannot define the same source as target''] else [])
     @ self_sources get kind name target path (Suc i) rest"

fun validate_formats :: "field_path \<Rightarrow> (string \<times> string) list \<Rightarrow> string list \<Rightarrow> field_error list" where
  "validate_formats path [] targetKeys = []"
| "validate_formats path ((name, key) # formats) targetKeys =
     (if key \<in> set targetKeys
      then [field_Invalid (path @ [Child ''target'', Child ''additionalFormats'', Child name, Child ''key'']) key
              ''key must be unique across all target output keys''] else [])
     @ validate_formats path formats (key # targetKeys)"

definition format_specs :: "AdditionalFormats \<Rightarrow> (string \<times> string) list" where
  "format_specs af =
     (case af_JKS af of None \<Rightarrow> [] | Some j \<Rightarrow> [(''jks'', jks_Key j)])
     @ (case af_PKCS12 af of None \<Rightarrow> [] | Some p \<Rightarrow> [(''pkcs12'', p12_Key p)])"

definition template_keys :: "BundleTarget \<Rightarrow> string list" where
  "template_keys target =
     (case bt_ConfigMap target of None \<Rightarrow> [] | Some t \<Rightarrow> [tt_Key t])
     @ (case bt_Secret target of None \<Rightarrow> [] | Some t \<Rightarrow> [tt_Key t])"

text \<open>The metadata of the templates and the namespace selector.\<close>

definition validate_templates :: "validation_lib \<Rightarrow> field_path \<Rightarrow> BundleTarget \<Rightarrow> field_error list" where
  "validate_templates lib path target =
     (case bt_ConfigMap target of None \<Rightarrow> []
      | Some t \<Rightarrow> validateTargetMetadata lib (tt_Metadata t) (path @ [Child ''target'', Child ''configMap'', Child ''metadata'']))
     @ (case bt_Secret target of None \<Rightarrow> []
        | Some t \<Rightarrow> validateTargetMetadata lib (tt_Metadata t) (path @ [Child ''target'', Child ''secret'', Child ''metadata'']))
     @ val_LabelSelector lib (bt_NamespaceSelector target) (path @ [Child ''target'', Child ''namespaceSelector''])"

definition validate :: "validation_lib \<Rightarrow> Bundle \<Rightarrow> field_error list" where
  "validate lib bd =
     (let path = [Child ''spec'']; target = spec_Target (bd_Spec bd); sources = spec_Sources (bd_Spec bd);
          sourcesPath = path @ [Child ''sources'']; name = om_Name (bd_Meta bd)
      in case validate_sources lib path 0 sources [] 0 0 of
           (el, sourceCount, defaultCAsCount) \<Rightarrow>
             el
             @ (if sourceCount = 0 then [field_Forbidden sourcesPath ''must define at least one source''] else [])
             @ (if defaultCAsCount > 1
                then [field_Forbidden sourcesPath (''must request default CAs either once or not at all but got ''
                        @ itoa defaultCAsCount @ '' requests'')] else [])
             @ (case bt_ConfigMap target of None \<Rightarrow> []
                | Some t \<Rightarrow> self_sources bs_ConfigMap ''configMap'' name t sourcesPath 0 sources)
             @ (case bt_Secret target of None \<Rightarrow> []
                | Some t \<Rightarrow> self_sources bs_Secret ''secret'' name t sourcesPath 0 sources)
             @ (case bt_AdditionalFormats target of None \<Rightarrow> []
                | Some af \<Rightarrow> validate_formats path (format_specs af) (template_keys target))
             @ validate_templates lib path target)"

text \<open>The admission operations: the errors of a request, none for a request that is admitted.\<close>

definition ValidateCreate :: "validation_lib \<Rightarrow> Bundle \<Rightarrow> field_error list" where
  "ValidateCreate lib obj = validate lib obj"

definition ValidateUpdate :: "validation_lib \<Rightarrow> Bundle \<Rightarrow> Bundle \<Rightarrow> field_error list" where
  "ValidateUpdate lib oldObj newObj = validate lib newObj"

definition ValidateDelete :: "validation_lib \<Rightarrow> Bundle \<Rightarrow> field_error list" where
  "ValidateDelete lib obj = []"

section \<open>ClusterBundles\<close>

definition cb_validateSourceRef :: "validation_lib \<Rightarrow> BundleSourceRef \<Rightarrow> field_path \<Rightarrow> field_error list" where
  "cb_validateSourceRef lib sourceRef fldPath = val_LabelSelector lib (sr_Selector sourceRef) (fldPath @ [Child ''selector''])"

definition cb_validateTargetMetadata :: "validation_lib \<Rightarrow> TargetMetadata \<Rightarrow> field_path \<Rightarrow> field_error list" where
  "cb_validateTargetMetadata lib targetMetadata fldPath =
     val_Annotations lib (tm_Annotations targetMetadata) (fldPath @ [Child ''annotations''])
     @ val_Labels lib (tm_Labels targetMetadata) (fldPath @ [Child ''labels''])"

definition cb_validateTarget :: "validation_lib \<Rightarrow> BundleTarget_v2 \<Rightarrow> field_path \<Rightarrow> field_error list" where
  "cb_validateTarget lib target fldPath =
     (case bt2_ConfigMap target of None \<Rightarrow> []
      | Some t \<Rightarrow> cb_validateTargetMetadata lib (kvt_Metadata t) (fldPath @ [Child ''configMap'', Child ''metadata'']))
     @ (case bt2_Secret target of None \<Rightarrow> []
        | Some t \<Rightarrow> cb_validateTargetMetadata lib (kvt_Metadata t) (fldPath @ [Child ''secret'', Child ''metadata'']))
     @ val_LabelSelector lib (bt2_NamespaceSelector target) (fldPath @ [Child ''namespaceSelector''])"

fun cb_validateSourceRefs :: "validation_lib \<Rightarrow> field_path \<Rightarrow> nat \<Rightarrow> BundleSourceRef list \<Rightarrow> field_error list" where
  "cb_validateSourceRefs lib fldPath i [] = []"
| "cb_validateSourceRefs lib fldPath i (sourceRef # rest) =
     cb_validateSourceRef lib sourceRef (fldPath @ [Child ''sourceRefs'', Index i])
     @ cb_validateSourceRefs lib fldPath (Suc i) rest"

definition cb_validate :: "validation_lib \<Rightarrow> ClusterBundle \<Rightarrow> field_error list" where
  "cb_validate lib cb =
     (let fldPath = [Child ''spec'']
      in cb_validateSourceRefs lib fldPath 0 (spec2_SourceRefs (cb_Spec cb))
         @ cb_validateTarget lib (spec2_Target (cb_Spec cb)) (fldPath @ [Child ''target'']))"

definition cb_ValidateCreate :: "validation_lib \<Rightarrow> ClusterBundle \<Rightarrow> field_error list" where
  "cb_ValidateCreate lib obj = cb_validate lib obj"

definition cb_ValidateUpdate :: "validation_lib \<Rightarrow> ClusterBundle \<Rightarrow> ClusterBundle \<Rightarrow> field_error list" where
  "cb_ValidateUpdate lib oldObj newObj = cb_validate lib newObj"

definition cb_ValidateDelete :: "validation_lib \<Rightarrow> ClusterBundle \<Rightarrow> field_error list" where
  "cb_ValidateDelete lib obj = []"

end
