(* ===== verification/WebhookTheorems.thy ===== *)
theory WebhookTheorems
  imports Webhook ReconcileProperties
begin

text \<open>
  What admission guarantees: the validation of a Bundle is equivalent to a declarative
  specification, an admitted Bundle meets the conditions under which the reconcile loop is total
  and writes the desired objects, and the check against self-sources is incomplete.
\<close>

section \<open>The interface of a validator\<close>

text \<open>Both webhooks check what is written, never what was there, and never refuse a deletion.\<close>

locale admission_validator =
  fixes check :: "'a \<Rightarrow> field_error list"
    and create :: "'a \<Rightarrow> field_error list"
    and update :: "'a \<Rightarrow> 'a \<Rightarrow> field_error list"
    and delete :: "'a \<Rightarrow> field_error list"
  assumes create_check: "create x = check x"
    and update_check: "update old x = check x"
    and delete_none: "delete x = []"
begin

lemma update_of_admitted: "update old x = create x"
  by (simp add: create_check update_check)

text \<open>A sequence of writes that the webhook admits keeps the stored object valid.\<close>

lemma admitted_invariant:
  assumes "\<And>x. check x = [] \<longleftrightarrow> P x" and "create x = []"
  shows "P (fold (\<lambda>y stored. if update stored y = [] then y else stored) ys x)"
  using assms(2)
proof (induction ys arbitrary: x)
  case Nil
  then show ?case using assms(1) create_check by simp
next
  case (Cons y ys)
  then show ?case using update_of_admitted by simp
qed

end

interpretation bundle_webhook: admission_validator "validate lib" "ValidateCreate lib" "ValidateUpdate lib" "ValidateDelete lib"
  for lib
  by unfold_locales (simp_all add: ValidateCreate_def ValidateUpdate_def ValidateDelete_def)

interpretation cluster_bundle_webhook: admission_validator "cb_validate lib" "cb_ValidateCreate lib" "cb_ValidateUpdate lib"
    "cb_ValidateDelete lib" for lib
  by unfold_locales (simp_all add: cb_ValidateCreate_def cb_ValidateUpdate_def cb_ValidateDelete_def)

section \<open>The specification\<close>

definition selector_ok :: "validation_lib \<Rightarrow> SourceObjectKeySelector \<Rightarrow> field_path \<Rightarrow> bool" where
  "selector_ok lib ref path \<longleftrightarrow> (sok_Name ref \<noteq> [] \<longleftrightarrow> sok_Selector ref = None) \<and>
     (sok_Key ref \<noteq> [] \<longleftrightarrow> sok_IncludeAllKeys ref \<noteq> Some True) \<and>
     val_LabelSelector lib (sok_Selector ref) (path @ [Child ''selector'']) = []"

definition source_ok :: "validation_lib \<Rightarrow> nat \<Rightarrow> BundleSource \<Rightarrow> bool" where
  "source_ok lib i source \<longleftrightarrow> unionCount source = 1 \<and>
     (\<forall>ref. bs_ConfigMap source = Some ref \<longrightarrow> selector_ok lib ref [Child ''spec'', Child ''sources'', Index i, Child ''configMap'']) \<and>
     (\<forall>ref. bs_Secret source = Some ref \<longrightarrow> selector_ok lib ref [Child ''spec'', Child ''sources'', Index i, Child ''secret''])"

definition active_source :: "BundleSource \<Rightarrow> bool" where
  "active_source source \<longleftrightarrow> bs_ConfigMap source \<noteq> None \<or> bs_Secret source \<noteq> None \<or> bs_InLine source \<noteq> [] \<or>
     bs_UseDefaultCAs source = Some True"

definition self_source :: "(BundleSource \<Rightarrow> SourceObjectKeySelector option) \<Rightarrow> string \<Rightarrow> TargetTemplate \<Rightarrow> BundleSource \<Rightarrow> bool" where
  "self_source get name t source \<longleftrightarrow> (\<exists>ref. get source = Some ref \<and> sok_Name ref = name \<and> sok_Key ref = tt_Key t)"

definition metadata_ok :: "validation_lib \<Rightarrow> TargetMetadata \<Rightarrow> field_path \<Rightarrow> bool" where
  "metadata_ok lib m path \<longleftrightarrow>
     list_all (\<lambda>k. \<not> has_prefix k ''trust.cert-manager.io/'' \<and> \<not> has_prefix k ''trust-manager.io/'')
       (map fst (tm_Annotations m) @ map fst (tm_Labels m)) \<and>
     val_Annotations lib (tm_Annotations m) (path @ [Child ''annotations'']) = [] \<and>
     val_Labels lib (tm_Labels m) (path @ [Child ''labels'']) = []"

definition keys_ok :: "BundleTarget \<Rightarrow> bool" where
  "keys_ok target \<longleftrightarrow> (case bt_AdditionalFormats target of None \<Rightarrow> True
     | Some af \<Rightarrow> distinct (map snd (format_specs af)) \<and> set (map snd (format_specs af)) \<inter> set (template_keys target) = {})"

definition admissible :: "validation_lib \<Rightarrow> Bundle \<Rightarrow> bool" where
  "admissible lib bd \<longleftrightarrow>
     (let target = spec_Target (bd_Spec bd); sources = spec_Sources (bd_Spec bd); name = om_Name (bd_Meta bd)
      in (\<forall>i < length sources. source_ok lib i (sources ! i)) \<and>
         list_ex active_source sources \<and>
         length (filter (\<lambda>s. bs_UseDefaultCAs s \<noteq> None) sources) \<le> 1 \<and>
         (\<forall>t. bt_ConfigMap target = Some t \<longrightarrow> \<not> list_ex (self_source bs_ConfigMap name t) sources \<and>
            metadata_ok lib (tt_Metadata t) [Child ''spec'', Child ''target'', Child ''configMap'', Child ''metadata'']) \<and>
         (\<forall>t. bt_Secret target = Some t \<longrightarrow> \<not> list_ex (self_source bs_Secret name t) sources \<and>
            metadata_ok lib (tt_Metadata t) [Child ''spec'', Child ''target'', Child ''secret'', Child ''metadata'']) \<and>
         keys_ok target \<and>
         val_LabelSelector lib (bt_NamespaceSelector target) [Child ''spec'', Child ''target'', Child ''namespaceSelector''] = [])"

section \<open>The parts of the validation\<close>

lemma validate_selector_iff: "validate_selector lib kind ref path = [] \<longleftrightarrow> selector_ok lib ref path"
  by (cases "sok_IncludeAllKeys ref") (auto simp: validate_selector_def selector_ok_def Let_def)

lemma validate_source_iff:
  "validate_source lib [Child ''spec'', Child ''sources'', Index i] source = [] \<longleftrightarrow> source_ok lib i source"
  by (auto simp: validate_source_def source_ok_def validate_selector_iff split: option.split)

lemma count_if_simps [simp]: "count_if True = 1" "count_if False = 0"
  by (simp_all add: count_if_def)

lemma validate_sources_result:
  "validate_sources lib [Child ''spec''] n sources el c d =
     (el @ concat (map (\<lambda>i. validate_source lib [Child ''spec'', Child ''sources'', Index (n + i)] (sources ! i)) [0..<length sources]),
      snd (validate_sources lib [Child ''spec''] n sources el c d))"
proof (induction sources arbitrary: n el c d)
  case (Cons s sources)
  have "map (\<lambda>i. validate_source lib [Child ''spec'', Child ''sources'', Index (n + i)] ((s # sources) ! i)) [0..<length (s # sources)] =
      validate_source lib [Child ''spec'', Child ''sources'', Index n] s #
      map (\<lambda>i. validate_source lib [Child ''spec'', Child ''sources'', Index (Suc n + i)] (sources ! i)) [0..<length sources]"
    by (simp add: upt_conv_Cons map_Suc_upt [symmetric] del: upt_Suc)
  then show ?case using Cons [of "Suc n"] by (simp add: prod_eq_iff)
qed simp

lemma validate_sources_counts:
  "fst (snd (validate_sources lib path n sources el c d)) = 0 \<longleftrightarrow> c = 0 \<and> \<not> list_ex active_source sources"
  "snd (snd (validate_sources lib path n sources el c d)) = d + length (filter (\<lambda>s. bs_UseDefaultCAs s \<noteq> None) sources)"
  by (induction sources arbitrary: n el c d) (auto simp: active_source_def count_if_def)

lemma self_sources_iff: "self_sources get kind name t path n sources = [] \<longleftrightarrow> \<not> list_ex (self_source get name t) sources"
  by (induction sources arbitrary: n) (auto simp: self_source_def split: option.split)

lemma validate_formats_iff:
  "validate_formats path formats keys = [] \<longleftrightarrow> distinct (map snd formats) \<and> set (map snd formats) \<inter> set keys = {}"
  by (induction path formats keys rule: validate_formats.induct) auto

lemma reserved_errors_iff:
  "concat (map (reserved_errors what path) keys) = [] \<longleftrightarrow>
     list_all (\<lambda>k. \<not> has_prefix k ''trust.cert-manager.io/'' \<and> \<not> has_prefix k ''trust-manager.io/'') keys"
  by (induction keys) (auto simp: reserved_errors_def reserved_prefixes_def)

lemma validateTargetMetadata_iff: "validateTargetMetadata lib m path = [] \<longleftrightarrow> metadata_ok lib m path"
  unfolding validateTargetMetadata_def metadata_ok_def Let_def append_is_Nil_conv reserved_errors_iff list_all_append by blast

lemma validate_admissible: "validate lib bd = [] \<longleftrightarrow> admissible lib bd"
proof -
  let ?S = "spec_Sources (bd_Spec bd)"
  obtain el c d where v: "validate_sources lib [Child ''spec''] 0 ?S [] 0 0 = (el, c, d)" by (metis prod_cases3)
  have "el = [] \<longleftrightarrow> (\<forall>i < length ?S. source_ok lib i (?S ! i))"
    using validate_sources_result [of lib 0 ?S "[]" 0 0] v by (auto simp: validate_source_iff)
  moreover have "c = 0 \<longleftrightarrow> \<not> list_ex active_source ?S" "d = length (filter (\<lambda>s. bs_UseDefaultCAs s \<noteq> None) ?S)"
    using validate_sources_counts [of lib "[Child ''spec'']" 0 ?S "[]" 0 0] v by simp_all
  ultimately show ?thesis
    by (auto simp: validate_def validate_templates_def admissible_def Let_def v self_sources_iff validateTargetMetadata_iff keys_ok_def
        validate_formats_iff split: option.split)
qed

text \<open>
  C14: The webhook admits a Bundle exactly when: every source names one type, a selecting source
  has one of name and selector and one of key and includeAllKeys, some source is active, default
  CAs are requested at most once, no source names the target by name and key, no target metadata
  uses a reserved prefix, the trust store keys are distinct from each other and from the target
  keys, and the library accepts all selectors, labels and annotations.
\<close>

theorem ValidateCreate_iff_admissible: "ValidateCreate lib bd = [] \<longleftrightarrow> admissible lib bd"
  by (simp add: ValidateCreate_def validate_admissible)

section \<open>What an admitted Bundle guarantees\<close>

lemma unionCount_typed: "unionCount src = 1 \<Longrightarrow> source_typed src"
  by (auto simp: unionCount_def source_typed_def count_if_def split: if_splits)

lemma admissible_typed: "admissible lib bd \<Longrightarrow> list_all source_typed (spec_Sources (bd_Spec bd))"
  by (auto simp: admissible_def Let_def source_ok_def list_all_length intro: unionCount_typed)

lemma has_prefix_label: "has_prefix BundleLabelKey ''trust.cert-manager.io/''"
  by (simp add: BundleLabelKey_def)

lemma admissible_template:
  assumes "admissible lib bd" and "target_template kind bd = Some t"
  shows "BundleLabelKey \<notin> fst ` set (tm_Labels (tt_Metadata t))"
    and "distinct (expected_properties (tt_Key t) (formats_of bd))"
proof -
  obtain path where "metadata_ok lib (tt_Metadata t) path" and key: "tt_Key t \<in> set (template_keys (spec_Target (bd_Spec bd)))"
    using assms by (fastforce simp: admissible_def target_template_def template_keys_def Let_def split: if_splits)
  then show "BundleLabelKey \<notin> fst ` set (tm_Labels (tt_Metadata t))"
    using has_prefix_label by (auto simp: metadata_ok_def list_all_iff)
  have "keys_ok (spec_Target (bd_Spec bd))" using assms(1) by (simp add: admissible_def Let_def)
  with key show "distinct (expected_properties (tt_Key t) (formats_of bd))"
    by (auto simp: keys_ok_def expected_properties_def format_specs_def split: option.splits)
qed

text \<open>
  C23: Admission and the reconcile loop fit together: when the webhook admits the Bundle (at an
  update, from whatever it was before), a successful write of one of its targets sends exactly
  the desired object, where no user label shadows the Bundle's label and no trust store
  overwrites the PEM data or another trust store.
\<close>

theorem admitted_Bundle_written_as_desired:
  assumes "ValidateUpdate val old b = []"
    and "wf_map (tm_Labels (tt_Metadata t))" and "wf_map (tm_Annotations (tt_Metadata t))"
    and "target_template (res_Kind target) b = Some t"
    and "ApplyTarget lib r target b d s = (Ok (True, e), s')"
  shows "\<exists>cfg. sys_log s' = sys_log s @ [PatchRequest (res_Kind target) cfg] \<and> desired_patch lib target b d t cfg"
proof -
  have adm: "admissible val b" using assms(1) by (simp add: ValidateUpdate_def validate_admissible)
  have "reserved_free t" using admissible_template(1) [OF adm assms(4)] assms(2,3) by (simp add: reserved_free_def)
  then show ?thesis
    by (rule synced_patch [OF assms(5,4) _ admissible_template(2) [OF adm assms(4)]]) (auto simp: log_action_def)
qed

text \<open>
  C22: A reconcile of admitted Bundles never panics and never aborts: if every Bundle the cluster
  returns passed the webhook and its PKCS #12 format has a password, the reconcile returns with
  its errors as values, whatever the cluster answers.
\<close>

theorem admitted_Bundles_never_panic:
  assumes "\<And>bd. ctl_Get b (sys_world s) req = Inr bd \<Longrightarrow> ValidateCreate val bd = [] \<and> formats_complete (formats_of bd)"
  shows "\<exists>errs. fst (Reconcile_Bundle b req s) = Ok errs"
  by (rule Reconcile_total) (use assms admissible_typed in \<open>auto simp: ValidateCreate_def validate_admissible\<close>)

section \<open>Examples\<close>

definition accept_all :: validation_lib where
  "accept_all = \<lparr>val_LabelSelector = \<lambda>_ _. [], val_Annotations = \<lambda>_ _. [], val_Labels = \<lambda>_ _. []\<rparr>"

lemma example_pem_nonempty: "example_pem \<noteq> []"
  by (simp add: example_pem_def pem_Encode_def)

lemma example_bundle_admitted: "validate accept_all (example_bundle\<lparr>bd_Status := st\<rparr>) = []"
proof -
  have "admissible accept_all (example_bundle\<lparr>bd_Status := st\<rparr>)"
    by (simp add: admissible_def example_bundle_def source_ok_def unionCount_def count_if_def active_source_def
        self_source_def metadata_ok_def keys_ok_def format_specs_def template_keys_def example_formats_def
        example_template_def accept_all_def example_pem_nonempty Let_def)
  then show ?thesis by (simp add: validate_admissible)
qed

lemma admitted_Bundle_written_as_desired_witness:
  "\<exists>cfg. sys_log synced_cluster = sys_log empty_cluster @ [PatchRequest (res_Kind example_target) cfg] \<and>
     desired_patch example_tstore example_target example_bundle example_data example_template cfg"
proof (rule admitted_Bundle_written_as_desired [OF _ _ _ example_template_ok(1) example_first_apply])
  show "ValidateUpdate accept_all example_bundle example_bundle = []"
    using example_bundle_admitted [of "bd_Status example_bundle"] by (simp add: ValidateUpdate_def)
qed (simp_all add: example_template_def wf_map_def)

lemma admitted_Bundles_never_panic_witness:
  "\<exists>errs. fst (Reconcile_Bundle (example_ctl example_status) example_req empty_cluster) = Ok errs"
  by (rule admitted_Bundles_never_panic [where val = accept_all])
    (auto simp: ValidateCreate_def example_bundle_admitted example_spec formats_complete_def example_formats_def)

definition self_ref :: SourceObjectKeySelector where
  "self_ref = \<lparr>sok_Name = ''b'', sok_Selector = None, sok_Key = [], sok_IncludeAllKeys = Some True\<rparr>"

definition self_bundle :: Bundle where
  "self_bundle = example_bundle\<lparr>bd_Spec := (bd_Spec example_bundle)\<lparr>spec_Sources :=
     [\<lparr>bs_ConfigMap = Some self_ref, bs_Secret = None, bs_InLine = [], bs_UseDefaultCAs = None\<rparr>]\<rparr>\<rparr>"

text \<open>
  The check against self-sources is incomplete: with includeAllKeys the webhook admits a
  Bundle whose source is the ConfigMap of its own target, and resolving it reads back the PEM
  data that the Bundle wrote, so a removed certificate would never leave the bundle.
\<close>

lemma self_source_admitted:
  "ValidateCreate accept_all self_bundle = [] \<and>
   spec_Sources (bd_Spec self_bundle) = [\<lparr>bs_ConfigMap = Some self_ref, bs_Secret = None, bs_InLine = [], bs_UseDefaultCAs = None\<rparr>] \<and>
   sok_Name self_ref = om_Name (bd_Meta self_bundle) \<and>
   map_option tt_Key (bt_ConfigMap (spec_Target (bd_Spec self_bundle))) = Some ''ca.crt'' \<and>
   configMap_add parse self_ref \<lparr>cm_Meta = m, cm_Data = [(''ca.crt'', pem)], cm_BinaryData = []\<rparr> pool =
     add_value parse (invalid_PEM_at ''ConfigMap'' (om_Namespace m) (om_Name m) ''ca.crt'') (Some pem) pool"
proof -
  have "admissible accept_all self_bundle"
    by (simp add: admissible_def self_bundle_def self_ref_def example_bundle_def source_ok_def unionCount_def count_if_def
        active_source_def self_source_def selector_ok_def metadata_ok_def keys_ok_def format_specs_def template_keys_def
        example_formats_def example_template_def accept_all_def Let_def)
  then show ?thesis
    by (simp add: ValidateCreate_def validate_admissible configMap_add_def Let_def split: prod.split option.split)
      (simp add: self_bundle_def self_ref_def example_bundle_def example_template_def)
qed

end
