(* ===== verification/Conversion.thy ===== *)
theory Conversion
  imports ApiTypes
begin

text \<open>
  Conversion between Bundle (v1alpha1) and ClusterBundle (v1alpha2): the hand-written functions of
  \<open>pkg/apis/trust/v1alpha1/conversion.go\<close> and the generated ones they call
  (\<open>zz_generated.conversion.go\<close>). A conversion writes into its context object, so the functions
  take and return it. The object metadata is copied shallowly: the annotation map of source and
  destination is one Go map, so a write to it also shows in the source, and \<open>ConvertTo\<close> and
  \<open>ConvertFrom\<close> return the source as they leave it.
\<close>

definition AnnotationKeyJKSKey :: string where
  "AnnotationKeyJKSKey = ''internal.trust-manager.io/jks-key''"

definition map_delete :: "string \<Rightarrow> 'v gomap \<Rightarrow> 'v gomap" where
  "map_delete k m = filter (\<lambda>(k', _). k' \<noteq> k) m"

section \<open>Generated conversions\<close>

definition autoConvert_v1alpha1_BundleStatus_To_v1alpha2_BundleStatus :: "BundleStatus \<Rightarrow> BundleStatus" where
  "autoConvert_v1alpha1_BundleStatus_To_v1alpha2_BundleStatus st =
     \<lparr>st_Conditions = st_Conditions st, st_DefaultCAPackageVersion = st_DefaultCAPackageVersion st\<rparr>"

definition autoConvert_v1alpha2_BundleStatus_To_v1alpha1_BundleStatus :: "BundleStatus \<Rightarrow> BundleStatus" where
  "autoConvert_v1alpha2_BundleStatus_To_v1alpha1_BundleStatus st =
     \<lparr>st_Conditions = st_Conditions st, st_DefaultCAPackageVersion = st_DefaultCAPackageVersion st\<rparr>"

definition autoConvert_v1alpha1_TargetMetadata_To_v1alpha2_TargetMetadata :: "TargetMetadata \<Rightarrow> TargetMetadata" where
  "autoConvert_v1alpha1_TargetMetadata_To_v1alpha2_TargetMetadata m =
     \<lparr>tm_Annotations = tm_Annotations m, tm_Labels = tm_Labels m\<rparr>"

definition autoConvert_v1alpha2_TargetMetadata_To_v1alpha1_TargetMetadata :: "TargetMetadata \<Rightarrow> TargetMetadata" where
  "autoConvert_v1alpha2_TargetMetadata_To_v1alpha1_TargetMetadata m =
     \<lparr>tm_Annotations = tm_Annotations m, tm_Labels = tm_Labels m\<rparr>"

section \<open>Bundle to ClusterBundle\<close>

definition no_PKCS12 :: PKCS12_v2 where
  "no_PKCS12 = \<lparr>p2_Password = None, p2_Profile = []\<rparr>"

definition Convert_v1alpha1_TargetTemplate_To_v1alpha2_KeyValueTarget :: "TargetTemplate \<Rightarrow> KeyValueTarget" where
  "Convert_v1alpha1_TargetTemplate_To_v1alpha2_KeyValueTarget t =
     \<lparr>kvt_Data = [\<lparr>tkv_Key = tt_Key t, tkv_Format = [], tkv_PKCS12 = no_PKCS12\<rparr>],
      kvt_Metadata = autoConvert_v1alpha1_TargetMetadata_To_v1alpha2_TargetMetadata (tt_Metadata t)\<rparr>"

definition autoConvert_v1alpha1_BundleTarget_To_v1alpha2_BundleTarget :: "BundleTarget \<Rightarrow> BundleTarget_v2" where
  "autoConvert_v1alpha1_BundleTarget_To_v1alpha2_BundleTarget t =
     \<lparr>bt2_ConfigMap = map_option Convert_v1alpha1_TargetTemplate_To_v1alpha2_KeyValueTarget (bt_ConfigMap t),
      bt2_Secret = map_option Convert_v1alpha1_TargetTemplate_To_v1alpha2_KeyValueTarget (bt_Secret t),
      bt2_NamespaceSelector = bt_NamespaceSelector t\<rparr>"

definition Convert_v1alpha1_PKCS12_To_v1alpha2_PKCS12 :: "PKCS12 \<Rightarrow> PKCS12_v2" where
  "Convert_v1alpha1_PKCS12_To_v1alpha2_PKCS12 p =
     \<lparr>p2_Password = p12_Password p,
      p2_Profile = (if p12_Profile p = [] then LegacyRC2PKCS12Profile else p12_Profile p)\<rparr>"

definition append_kv :: "TargetKeyValue \<Rightarrow> KeyValueTarget \<Rightarrow> KeyValueTarget" where
  "append_kv tkv t = t\<lparr>kvt_Data := kvt_Data t @ [tkv]\<rparr>"

definition appendTargetKV :: "BundleTarget \<Rightarrow> TargetKeyValue \<Rightarrow> BundleTarget_v2 \<Rightarrow> BundleTarget_v2" where
  "appendTargetKV t tkv out1 =
     (let out2 = (if bt_ConfigMap t \<noteq> None then out1\<lparr>bt2_ConfigMap := map_option (append_kv tkv) (bt2_ConfigMap out1)\<rparr> else out1)
      in if bt_Secret t \<noteq> None then out2\<lparr>bt2_Secret := map_option (append_kv tkv) (bt2_Secret out2)\<rparr> else out2)"

definition jks_kv :: "JKS \<Rightarrow> TargetKeyValue" where
  "jks_kv j = \<lparr>tkv_Key = jks_Key j, tkv_Format = BundleFormatPKCS12,
     tkv_PKCS12 = \<lparr>p2_Password = Some (jks_Password j), p2_Profile = []\<rparr>\<rparr>"

definition pkcs12_kv :: "PKCS12 \<Rightarrow> TargetKeyValue" where
  "pkcs12_kv p = \<lparr>tkv_Key = p12_Key p, tkv_Format = BundleFormatPKCS12,
     tkv_PKCS12 = Convert_v1alpha1_PKCS12_To_v1alpha2_PKCS12 p\<rparr>"

definition set_annotation :: "string \<Rightarrow> string \<Rightarrow> ObjectMeta \<Rightarrow> ObjectMeta" where
  \<comment> \<open>a nil map is replaced by an empty one first\<close>
  "set_annotation k v m = m\<lparr>om_Annotations := Some (map_put k v (entries (om_Annotations m)))\<rparr>"

text \<open>The new target and the metadata of the context object.\<close>

definition Convert_v1alpha1_BundleTarget_To_v1alpha2_BundleTarget ::
  "BundleTarget \<Rightarrow> ObjectMeta \<Rightarrow> BundleTarget_v2 \<times> ObjectMeta" where
  "Convert_v1alpha1_BundleTarget_To_v1alpha2_BundleTarget t meta =
     (let out0 = autoConvert_v1alpha1_BundleTarget_To_v1alpha2_BundleTarget t
      in if bt2_ConfigMap out0 = None \<and> bt2_Secret out0 = None \<and> bt2_NamespaceSelector out0 = None then (out0, meta)
         else
           (let (out1, meta1) =
              (case bt_AdditionalFormats t of
                 None \<Rightarrow> (out0, meta)
               | Some af \<Rightarrow>
                   (let (out2, meta2) =
                      (case af_JKS af of
                         None \<Rightarrow> (out0, meta)
                       | Some j \<Rightarrow> (appendTargetKV t (jks_kv j) out0, set_annotation AnnotationKeyJKSKey (jks_Key j) meta))
                    in case af_PKCS12 af of
                         None \<Rightarrow> (out2, meta2)
                       | Some p \<Rightarrow> (appendTargetKV t (pkcs12_kv p) out2, meta2)))
            in (if bt_NamespaceSelector t = None
                then out1\<lparr>bt2_NamespaceSelector := Some \<lparr>ls_MatchLabels = [], ls_MatchExpressions = []\<rparr>\<rparr> else out1,
                meta1)))"

definition empty_sourceRef :: BundleSourceRef where
  "empty_sourceRef = \<lparr>sr_Kind = [], sr_Name = [], sr_Selector = None, bsr_Key = []\<rparr>"

text \<open>One source: its reference, and the fields of the spec it is promoted to.\<close>

definition selector_of_source :: "BundleSource \<Rightarrow> (string \<times> SourceObjectKeySelector) option" where
  "selector_of_source src =
     (case bs_Secret src of
        Some ref \<Rightarrow> Some (SecretKind, ref)
      | None \<Rightarrow> (case bs_ConfigMap src of Some ref \<Rightarrow> Some (ConfigMapKind, ref) | None \<Rightarrow> None))"

definition Convert_v1alpha1_BundleSource_To_v1alpha2_BundleSourceRef ::
  "BundleSource \<Rightarrow> BundleSpec_v2 \<Rightarrow> BundleSourceRef \<times> BundleSpec_v2" where
  "Convert_v1alpha1_BundleSource_To_v1alpha2_BundleSourceRef src spec =
     (let ref = (case selector_of_source src of
                   None \<Rightarrow> empty_sourceRef
                 | Some (kind, sel) \<Rightarrow>
                     \<lparr>sr_Kind = kind, sr_Name = sok_Name sel, sr_Selector = sok_Selector sel,
                      bsr_Key = (if ptr_Deref (sok_IncludeAllKeys sel) False then ''*'' else sok_Key sel)\<rparr>);
          spec1 = (if bs_InLine src \<noteq> []
                   then spec\<lparr>spec2_InLineCAs :=
                          (if spec2_InLineCAs spec = [] then bs_InLine src
                           else trim_suffix (spec2_InLineCAs spec) [nl] @ [nl] @ bs_InLine src)\<rparr>
                   else spec);
          spec2 = (case bs_UseDefaultCAs src of
                     None \<Rightarrow> spec1
                   | Some use \<Rightarrow> spec1\<lparr>spec2_DefaultCAs :=
                       \<lparr>dca_Provider = (if use then DefaultCAsProviderSystem else DefaultCAsProviderDisabled)\<rparr>\<rparr>)
      in (ref, spec2))"

fun convert_sources :: "BundleSource list \<Rightarrow> BundleSpec_v2 \<Rightarrow> BundleSourceRef list \<times> BundleSpec_v2" where
  "convert_sources [] spec = ([], spec)"
| "convert_sources (src # srcs) spec =
     (let (ref, spec1) = Convert_v1alpha1_BundleSource_To_v1alpha2_BundleSourceRef src spec;
          (refs, spec2) = convert_sources srcs spec1
      in (ref # refs, spec2))"

definition autoConvert_v1alpha1_BundleSpec_To_v1alpha2_BundleSpec ::
  "BundleSpec \<Rightarrow> ObjectMeta \<Rightarrow> BundleSpec_v2 \<times> ObjectMeta" where
  "autoConvert_v1alpha1_BundleSpec_To_v1alpha2_BundleSpec spec meta =
     (let (target, meta1) = Convert_v1alpha1_BundleTarget_To_v1alpha2_BundleTarget (spec_Target spec) meta
      in (\<lparr>spec2_SourceRefs = [], spec2_DefaultCAs = \<lparr>dca_Provider = []\<rparr>, spec2_InLineCAs = [], spec2_Target = target\<rparr>, meta1))"

definition Convert_v1alpha1_BundleSpec_To_v1alpha2_BundleSpec ::
  "BundleSpec \<Rightarrow> ObjectMeta \<Rightarrow> BundleSpec_v2 \<times> ObjectMeta" where
  "Convert_v1alpha1_BundleSpec_To_v1alpha2_BundleSpec spec meta =
     (let (out1, meta1) = autoConvert_v1alpha1_BundleSpec_To_v1alpha2_BundleSpec spec meta;
          (refs, out2) = convert_sources (spec_Sources spec) out1
      in (out2\<lparr>spec2_SourceRefs := refs\<rparr>, meta1))"

definition share_annotations :: "ObjectMeta \<Rightarrow> ObjectMeta \<Rightarrow> ObjectMeta" where
  \<comment> \<open>what a write through a copied struct leaves in the original: nothing when its map was nil\<close>
  "share_annotations written original =
     (case om_Annotations original of
        None \<Rightarrow> original
      | Some _ \<Rightarrow> original\<lparr>om_Annotations := om_Annotations written\<rparr>)"

definition ConvertTo :: "Bundle \<Rightarrow> ClusterBundle \<times> Bundle" where
  "ConvertTo src =
     (let (spec, meta) = Convert_v1alpha1_BundleSpec_To_v1alpha2_BundleSpec (bd_Spec src) (bd_Meta src);
          refs = filter (\<lambda>bs. bs \<noteq> empty_sourceRef) (spec2_SourceRefs spec)
      in (\<lparr>cb_Meta = meta, cb_Spec = spec\<lparr>spec2_SourceRefs := refs\<rparr>,
           cb_Status = autoConvert_v1alpha1_BundleStatus_To_v1alpha2_BundleStatus (bd_Status src)\<rparr>,
          src\<lparr>bd_Meta := share_annotations meta (bd_Meta src)\<rparr>))"

section \<open>ClusterBundle to Bundle\<close>

definition Convert_v1alpha2_BundleSourceRef_To_v1alpha1_BundleSource :: "BundleSourceRef \<Rightarrow> BundleSource" where
  "Convert_v1alpha2_BundleSourceRef_To_v1alpha1_BundleSource ref =
     (let sel = \<lparr>sok_Name = sr_Name ref, sok_Selector = sr_Selector ref,
                 sok_Key = (if bsr_Key ref = ''*'' then [] else bsr_Key ref),
                 sok_IncludeAllKeys = (if bsr_Key ref = ''*'' then Some True else None)\<rparr>
      in \<lparr>bs_ConfigMap = (if sr_Kind ref = ConfigMapKind then Some sel else None),
          bs_Secret = (if sr_Kind ref = ConfigMapKind then None else if sr_Kind ref = SecretKind then Some sel else None),
          bs_InLine = [], bs_UseDefaultCAs = None\<rparr>)"

definition Convert_v1alpha2_KeyValueTarget_To_v1alpha1_TargetTemplate :: "KeyValueTarget \<Rightarrow> TargetTemplate" where
  "Convert_v1alpha2_KeyValueTarget_To_v1alpha1_TargetTemplate t =
     \<lparr>tt_Key = (case List.find (\<lambda>tkv. tkv_Format tkv = [] \<or> tkv_Format tkv = BundleFormatPEM) (kvt_Data t) of
                  None \<Rightarrow> [] | Some tkv \<Rightarrow> tkv_Key tkv),
      tt_Metadata = autoConvert_v1alpha2_TargetMetadata_To_v1alpha1_TargetMetadata (kvt_Metadata t)\<rparr>"

definition autoConvert_v1alpha2_BundleTarget_To_v1alpha1_BundleTarget :: "BundleTarget_v2 \<Rightarrow> BundleTarget" where
  "autoConvert_v1alpha2_BundleTarget_To_v1alpha1_BundleTarget t =
     \<lparr>bt_ConfigMap = map_option Convert_v1alpha2_KeyValueTarget_To_v1alpha1_TargetTemplate (bt2_ConfigMap t),
      bt_Secret = map_option Convert_v1alpha2_KeyValueTarget_To_v1alpha1_TargetTemplate (bt2_Secret t),
      bt_AdditionalFormats = None, bt_NamespaceSelector = bt2_NamespaceSelector t\<rparr>"

text \<open>The loop over the key-value pairs; a JKS trust store without a password is a nil dereference.\<close>

definition p12_of_kv :: "TargetKeyValue \<Rightarrow> PKCS12" where
  "p12_of_kv tkv = \<lparr>p12_Key = tkv_Key tkv, p12_Password = p2_Password (tkv_PKCS12 tkv),
     p12_Profile = (if p2_Profile (tkv_PKCS12 tkv) = [] then LegacyDESPKCS12Profile else p2_Profile (tkv_PKCS12 tkv))\<rparr>"

fun formats_of_kvs ::
  "string gomap \<Rightarrow> TargetKeyValue list \<Rightarrow> JKS option \<Rightarrow> PKCS12 option \<Rightarrow> (JKS option \<times> PKCS12 option) res" where
  "formats_of_kvs annotations [] jks pkcs12 = Ok (jks, pkcs12)"
| "formats_of_kvs annotations (tkv # tkvs) jks pkcs12 =
     bind_res
       (if tkv_Format tkv = BundleFormatPKCS12
        then (if map_of annotations AnnotationKeyJKSKey = Some (tkv_Key tkv)
              then (case p2_Password (tkv_PKCS12 tkv) of
                      None \<Rightarrow> Panic ''runtime error: invalid memory address or nil pointer dereference''
                    | Some pw \<Rightarrow> Ok (Some \<lparr>jks_Key = tkv_Key tkv, jks_Password = pw\<rparr>, pkcs12))
              else Ok (jks, Some (p12_of_kv tkv)))
        else Ok (jks, pkcs12))
       (\<lambda>(jks', pkcs12'). if jks' \<noteq> None \<and> pkcs12' \<noteq> None then Ok (jks', pkcs12')
                          else formats_of_kvs annotations tkvs jks' pkcs12')"

definition kvs_of_target :: "BundleTarget_v2 \<Rightarrow> TargetKeyValue list" where
  "kvs_of_target t =
     (case bt2_Secret t of None \<Rightarrow> [] | Some s \<Rightarrow> kvt_Data s)
     @ (case bt2_ConfigMap t of None \<Rightarrow> [] | Some c \<Rightarrow> kvt_Data c)"

definition Convert_v1alpha2_BundleTarget_To_v1alpha1_BundleTarget ::
  "BundleTarget_v2 \<Rightarrow> ObjectMeta \<Rightarrow> (BundleTarget \<times> ObjectMeta) res" where
  "Convert_v1alpha2_BundleTarget_To_v1alpha1_BundleTarget t meta =
     bind_res (formats_of_kvs (entries (om_Annotations meta)) (kvs_of_target t) None None)
       (\<lambda>(jks, pkcs12).
          (let out1 = autoConvert_v1alpha2_BundleTarget_To_v1alpha1_BundleTarget t;
               out2 = (if jks \<noteq> None \<or> pkcs12 \<noteq> None
                       then out1\<lparr>bt_AdditionalFormats := Some \<lparr>af_JKS = jks, af_PKCS12 = pkcs12\<rparr>\<rparr> else out1);
               annotations = map_delete AnnotationKeyJKSKey (entries (om_Annotations meta))
           in Ok (out2, meta\<lparr>om_Annotations := (if annotations = [] then None else Some annotations)\<rparr>)))"

definition autoConvert_v1alpha2_BundleSpec_To_v1alpha1_BundleSpec ::
  "BundleSpec_v2 \<Rightarrow> ObjectMeta \<Rightarrow> (BundleSpec \<times> ObjectMeta) res" where
  "autoConvert_v1alpha2_BundleSpec_To_v1alpha1_BundleSpec spec meta =
     bind_res (Convert_v1alpha2_BundleTarget_To_v1alpha1_BundleTarget (spec2_Target spec) meta)
       (\<lambda>(target, meta1). Ok (\<lparr>spec_Sources = [], spec_Target = target\<rparr>, meta1))"

definition Convert_v1alpha2_BundleSpec_To_v1alpha1_BundleSpec ::
  "BundleSpec_v2 \<Rightarrow> ObjectMeta \<Rightarrow> (BundleSpec \<times> ObjectMeta) res" where
  "Convert_v1alpha2_BundleSpec_To_v1alpha1_BundleSpec spec meta =
     bind_res (autoConvert_v1alpha2_BundleSpec_To_v1alpha1_BundleSpec spec meta)
       (\<lambda>(out, meta1).
          Ok (out\<lparr>spec_Sources :=
                 map Convert_v1alpha2_BundleSourceRef_To_v1alpha1_BundleSource (spec2_SourceRefs spec)
                 @ (if spec2_InLineCAs spec \<noteq> []
                    then [\<lparr>bs_ConfigMap = None, bs_Secret = None, bs_InLine = spec2_InLineCAs spec, bs_UseDefaultCAs = None\<rparr>]
                    else [])
                 @ (if spec2_DefaultCAs spec \<noteq> \<lparr>dca_Provider = []\<rparr>
                    then [\<lparr>bs_ConfigMap = None, bs_Secret = None, bs_InLine = [],
                           bs_UseDefaultCAs = Some (dca_Provider (spec2_DefaultCAs spec) = DefaultCAsProviderSystem)\<rparr>]
                    else [])\<rparr>, meta1))"

text \<open>The Bundle, and the ClusterBundle with the annotation removed from the shared map.\<close>

definition ConvertFrom :: "ClusterBundle \<Rightarrow> (Bundle \<times> ClusterBundle) res" where
  "ConvertFrom src =
     bind_res (Convert_v1alpha2_BundleSpec_To_v1alpha1_BundleSpec (cb_Spec src) (cb_Meta src))
       (\<lambda>(spec, meta).
          Ok (\<lparr>bd_Meta = meta, bd_Spec = spec,
               bd_Status = autoConvert_v1alpha2_BundleStatus_To_v1alpha1_BundleStatus (cb_Status src)\<rparr>,
              src\<lparr>cb_Meta := (cb_Meta src)\<lparr>om_Annotations :=
                map_option (map_delete AnnotationKeyJKSKey) (om_Annotations (cb_Meta src))\<rparr>\<rparr>))"

end
