(* ===== verification/ConversionTheorems.thy ===== *)
theory ConversionTheorems
  imports Conversion WebhookTheorems
begin

text \<open>
  The conversion round trip: an admitted Bundle that is converted to a ClusterBundle and back is
  its normal form, in which the object sources come first, the inline sources are one source, the
  default CA request comes last, and defaults are filled in.
\<close>

section \<open>The normal form\<close>

definition normal_selector :: "SourceObjectKeySelector \<Rightarrow> SourceObjectKeySelector" where
  "normal_selector sel =
     (if sok_IncludeAllKeys sel = Some True then sel\<lparr>sok_Key := []\<rparr> else sel\<lparr>sok_IncludeAllKeys := None\<rparr>)"

definition is_object :: "BundleSource \<Rightarrow> bool" where
  "is_object src \<longleftrightarrow> bs_ConfigMap src \<noteq> None \<or> bs_Secret src \<noteq> None"

definition normal_source :: "BundleSource \<Rightarrow> BundleSource" where
  "normal_source src =
     src\<lparr>bs_ConfigMap := map_option normal_selector (bs_ConfigMap src), bs_Secret := map_option normal_selector (bs_Secret src)\<rparr>"

definition merge_inline :: "string \<Rightarrow> BundleSource \<Rightarrow> string" where
  "merge_inline cas src =
     (if bs_InLine src = [] then cas else if cas = [] then bs_InLine src
      else trim_suffix cas [nl] @ [nl] @ bs_InLine src)"

definition last_default :: "bool option \<Rightarrow> BundleSource \<Rightarrow> bool option" where
  "last_default d src = (case bs_UseDefaultCAs src of None \<Rightarrow> d | Some use \<Rightarrow> Some use)"

definition inline_only :: "string \<Rightarrow> BundleSource" where
  "inline_only cas = \<lparr>bs_ConfigMap = None, bs_Secret = None, bs_InLine = cas, bs_UseDefaultCAs = None\<rparr>"

definition default_only :: "bool \<Rightarrow> BundleSource" where
  "default_only use = \<lparr>bs_ConfigMap = None, bs_Secret = None, bs_InLine = [], bs_UseDefaultCAs = Some use\<rparr>"

definition normal_sources :: "BundleSource list \<Rightarrow> BundleSource list" where
  "normal_sources srcs =
     map normal_source (filter is_object srcs)
     @ (if foldl merge_inline [] srcs = [] then [] else [inline_only (foldl merge_inline [] srcs)])
     @ (case foldl last_default None srcs of None \<Rightarrow> [] | Some use \<Rightarrow> [default_only use])"

definition normal_formats :: "AdditionalFormats \<Rightarrow> AdditionalFormats option" where
  "normal_formats af =
     (if af_JKS af = None \<and> af_PKCS12 af = None then None
      else Some (af\<lparr>af_PKCS12 := map_option (\<lambda>p. if p12_Profile p = [] then p\<lparr>p12_Profile := LegacyRC2PKCS12Profile\<rparr> else p) (af_PKCS12 af)\<rparr>))"

definition normal_target :: "BundleTarget \<Rightarrow> BundleTarget" where
  "normal_target t =
     t\<lparr>bt_AdditionalFormats := Option.bind (bt_AdditionalFormats t) normal_formats,
       bt_NamespaceSelector := (case bt_NamespaceSelector t of
          None \<Rightarrow> Some \<lparr>ls_MatchLabels = [], ls_MatchExpressions = []\<rparr> | Some sel \<Rightarrow> Some sel)\<rparr>"

definition normal_Bundle :: "Bundle \<Rightarrow> Bundle" where
  "normal_Bundle bd =
     bd\<lparr>bd_Spec := \<lparr>spec_Sources = normal_sources (spec_Sources (bd_Spec bd)), spec_Target = normal_target (spec_Target (bd_Spec bd))\<rparr>\<rparr>"

section \<open>Sources\<close>

lemma kinds_not_empty [simp]: "ConfigMapKind \<noteq> []" "SecretKind \<noteq> []" "SecretKind \<noteq> ConfigMapKind" "ConfigMapKind \<noteq> SecretKind"
  by (simp_all add: ConfigMapKind_def SecretKind_def)

lemma unionCount_cases:
  assumes "unionCount src = 1"
  obtains ref where "src = \<lparr>bs_ConfigMap = Some ref, bs_Secret = None, bs_InLine = [], bs_UseDefaultCAs = None\<rparr>"
  | ref where "src = \<lparr>bs_ConfigMap = None, bs_Secret = Some ref, bs_InLine = [], bs_UseDefaultCAs = None\<rparr>"
  | cas where "cas \<noteq> []" "src = inline_only cas"
  | use where "src = default_only use"
  using assms
  by (cases src; cases "bs_ConfigMap src"; cases "bs_Secret src"; cases "bs_UseDefaultCAs src"; cases "bs_InLine src")
    (auto simp: unionCount_def count_if_def inline_only_def default_only_def split: if_splits)

definition convertible :: "BundleSource \<Rightarrow> bool" where
  "convertible src \<longleftrightarrow> unionCount src = 1 \<and>
     (\<forall>ref. bs_ConfigMap src = Some ref \<or> bs_Secret src = Some ref \<longrightarrow> sok_Key ref \<noteq> ''*'')"

lemma convert_object_sources:
  assumes "list_all convertible srcs"
  shows "map Convert_v1alpha2_BundleSourceRef_To_v1alpha1_BundleSource
      (filter (\<lambda>bs. bs \<noteq> empty_sourceRef) (fst (convert_sources srcs spec))) = map normal_source (filter is_object srcs)"
  using assms
proof (induction srcs arbitrary: spec)
  case (Cons src srcs)
  obtain r spec1 where c: "Convert_v1alpha1_BundleSource_To_v1alpha2_BundleSourceRef src spec = (r, spec1)" by force
  from Cons have IH: "map Convert_v1alpha2_BundleSourceRef_To_v1alpha1_BundleSource
      (filter (\<lambda>bs. bs \<noteq> empty_sourceRef) (fst (convert_sources srcs spec1))) = map normal_source (filter is_object srcs)" by simp
  from Cons.prems have one: "unionCount src = 1" and key: "\<And>ref. bs_ConfigMap src = Some ref \<or> bs_Secret src = Some ref \<Longrightarrow> sok_Key ref \<noteq> ''*''"
    by (auto simp: convertible_def)
  have "(if r \<noteq> empty_sourceRef then [Convert_v1alpha2_BundleSourceRef_To_v1alpha1_BundleSource r] else []) =
      (if is_object src then [normal_source src] else [])"
    using one
  proof (cases rule: unionCount_cases)
    case (1 ref)
    then show ?thesis using c key [of ref]
      by (cases ref; cases "sok_IncludeAllKeys ref")
        (auto simp: Convert_v1alpha1_BundleSource_To_v1alpha2_BundleSourceRef_def selector_of_source_def empty_sourceRef_def
          Convert_v1alpha2_BundleSourceRef_To_v1alpha1_BundleSource_def is_object_def normal_source_def normal_selector_def Let_def split: if_splits)
  next
    case (2 ref)
    then show ?thesis using c key [of ref]
      by (cases ref; cases "sok_IncludeAllKeys ref")
        (auto simp: Convert_v1alpha1_BundleSource_To_v1alpha2_BundleSourceRef_def selector_of_source_def empty_sourceRef_def
          Convert_v1alpha2_BundleSourceRef_To_v1alpha1_BundleSource_def is_object_def normal_source_def normal_selector_def Let_def split: if_splits)
  qed (use c in \<open>auto simp: Convert_v1alpha1_BundleSource_To_v1alpha2_BundleSourceRef_def selector_of_source_def Let_def
      is_object_def inline_only_def default_only_def\<close>)
  with IH c show ?case by (auto simp: case_prod_beta split: if_splits)
qed simp

lemma convert_spec_fields:
  "spec2_InLineCAs (snd (convert_sources srcs spec)) = foldl merge_inline (spec2_InLineCAs spec) srcs"
  "spec2_Target (snd (convert_sources srcs spec)) = spec2_Target spec"
  by (induction srcs arbitrary: spec)
    (auto simp: Convert_v1alpha1_BundleSource_To_v1alpha2_BundleSourceRef_def merge_inline_def Let_def case_prod_beta
      split: option.split)

definition provider_of :: "bool option \<Rightarrow> DefaultCAsSource" where
  "provider_of d = \<lparr>dca_Provider = (case d of None \<Rightarrow> [] | Some use \<Rightarrow> if use then DefaultCAsProviderSystem else DefaultCAsProviderDisabled)\<rparr>"

lemma convert_spec_default:
  "spec2_DefaultCAs spec = provider_of d \<Longrightarrow> spec2_DefaultCAs (snd (convert_sources srcs spec)) = provider_of (foldl last_default d srcs)"
proof (induction srcs arbitrary: spec d)
  case (Cons src srcs)
  obtain r spec1 where c: "Convert_v1alpha1_BundleSource_To_v1alpha2_BundleSourceRef src spec = (r, spec1)" by force
  with Cons.prems have "spec2_DefaultCAs spec1 = provider_of (last_default d src)"
    by (auto simp: Convert_v1alpha1_BundleSource_To_v1alpha2_BundleSourceRef_def last_default_def provider_of_def Let_def
        split: option.splits)
  from Cons.IH [OF this] c show ?case by (simp add: case_prod_beta)
qed simp

lemma provider_simps [simp]:
  "DefaultCAsProviderSystem \<noteq> []" "DefaultCAsProviderDisabled \<noteq> []" "DefaultCAsProviderDisabled \<noteq> DefaultCAsProviderSystem"
  by (simp_all add: DefaultCAsProviderSystem_def DefaultCAsProviderDisabled_def)

section \<open>Targets\<close>

lemma formats_kv_simps [simp]:
  "BundleFormatPKCS12 \<noteq> []" "[] \<noteq> BundleFormatPKCS12" "BundleFormatPKCS12 \<noteq> BundleFormatPEM" "LegacyRC2PKCS12Profile \<noteq> []"
  "p2_Password no_PKCS12 = None"
  by (simp_all add: BundleFormatPKCS12_def BundleFormatPEM_def LegacyRC2PKCS12Profile_def no_PKCS12_def)

definition kvs_for :: "BundleTarget \<Rightarrow> TargetTemplate \<Rightarrow> TargetKeyValue list" where
  "kvs_for t tm =
     [\<lparr>tkv_Key = tt_Key tm, tkv_Format = [], tkv_PKCS12 = no_PKCS12\<rparr>]
     @ (case bt_AdditionalFormats t of None \<Rightarrow> [] | Some af \<Rightarrow>
          (case af_JKS af of None \<Rightarrow> [] | Some j \<Rightarrow> [jks_kv j]) @
          (case af_PKCS12 af of None \<Rightarrow> [] | Some p \<Rightarrow> [pkcs12_kv p]))"

definition kv_target :: "BundleTarget \<Rightarrow> TargetTemplate \<Rightarrow> KeyValueTarget" where
  "kv_target t tm = \<lparr>kvt_Data = kvs_for t tm, kvt_Metadata = tt_Metadata tm\<rparr>"

definition has_target :: "BundleTarget \<Rightarrow> bool" where
  "has_target t \<longleftrightarrow> bt_ConfigMap t \<noteq> None \<or> bt_Secret t \<noteq> None"

definition annotated :: "BundleTarget \<Rightarrow> ObjectMeta \<Rightarrow> ObjectMeta" where
  "annotated t meta =
     (case Option.bind (bt_AdditionalFormats t) af_JKS of
        None \<Rightarrow> meta | Some j \<Rightarrow> set_annotation AnnotationKeyJKSKey (jks_Key j) meta)"

lemma convert_target:
  assumes "has_target t"
  shows "Convert_v1alpha1_BundleTarget_To_v1alpha2_BundleTarget t meta =
    (\<lparr>bt2_ConfigMap = map_option (kv_target t) (bt_ConfigMap t), bt2_Secret = map_option (kv_target t) (bt_Secret t),
      bt2_NamespaceSelector = bt_NamespaceSelector (normal_target t)\<rparr>, annotated t meta)"
proof -
  have template: "Convert_v1alpha1_TargetTemplate_To_v1alpha2_KeyValueTarget tm =
      \<lparr>kvt_Data = [\<lparr>tkv_Key = tt_Key tm, tkv_Format = [], tkv_PKCS12 = no_PKCS12\<rparr>], kvt_Metadata = tt_Metadata tm\<rparr>" for tm
    by (cases "tt_Metadata tm")
      (simp add: Convert_v1alpha1_TargetTemplate_To_v1alpha2_KeyValueTarget_def
        autoConvert_v1alpha1_TargetMetadata_To_v1alpha2_TargetMetadata_def)
  show ?thesis using assms
    by (cases "bt_ConfigMap t"; cases "bt_Secret t"; cases "bt_AdditionalFormats t";
        cases "af_JKS (the (bt_AdditionalFormats t))"; cases "af_PKCS12 (the (bt_AdditionalFormats t))")
      (simp_all add: Convert_v1alpha1_BundleTarget_To_v1alpha2_BundleTarget_def
        autoConvert_v1alpha1_BundleTarget_To_v1alpha2_BundleTarget_def template kv_target_def kvs_for_def annotated_def
        normal_target_def appendTargetKV_def append_kv_def has_target_def split: option.split)
qed

lemma p12_of_kv_normal:
  "p12_of_kv (pkcs12_kv p) = (if p12_Profile p = [] then p\<lparr>p12_Profile := LegacyRC2PKCS12Profile\<rparr> else p)"
  by (cases p) (simp add: p12_of_kv_def pkcs12_kv_def Convert_v1alpha1_PKCS12_To_v1alpha2_PKCS12_def)

lemma kv_fields [simp]:
  "tkv_Key (jks_kv j) = jks_Key j" "tkv_Format (jks_kv j) = BundleFormatPKCS12"
  "p2_Password (tkv_PKCS12 (jks_kv j)) = Some (jks_Password j)"
  "tkv_Key (pkcs12_kv p) = p12_Key p" "tkv_Format (pkcs12_kv p) = BundleFormatPKCS12"
  by (simp_all add: jks_kv_def pkcs12_kv_def)

lemma jks_eta [simp]: "\<lparr>jks_Key = jks_Key j, jks_Password = jks_Password j\<rparr> = j"
  by (cases j) simp

text \<open>Walking over one or two copies of the key-value pairs finds the formats again.\<close>

lemma formats_of_kvs_twice:
  assumes "map_of an AnnotationKeyJKSKey = map_option jks_Key (af_JKS af)"
    and "distinct (map snd (format_specs af))"
    and "bt_AdditionalFormats t = Some af"
    and "kvs = kvs_for t tm \<or> kvs = kvs_for t tm @ kvs_for t tm'"
  shows "formats_of_kvs an kvs None None =
    Ok (af_JKS af, map_option (\<lambda>p. if p12_Profile p = [] then p\<lparr>p12_Profile := LegacyRC2PKCS12Profile\<rparr> else p) (af_PKCS12 af))"
  using assms
  by (cases "af_JKS af"; cases "af_PKCS12 af")
    (auto simp: kvs_for_def format_specs_def p12_of_kv_normal)

lemma template_roundtrip: "Convert_v1alpha2_KeyValueTarget_To_v1alpha1_TargetTemplate (kv_target t tm) = tm"
  by (cases tm; cases "tt_Metadata tm")
    (simp add: Convert_v1alpha2_KeyValueTarget_To_v1alpha1_TargetTemplate_def kv_target_def kvs_for_def
      autoConvert_v1alpha2_TargetMetadata_To_v1alpha1_TargetMetadata_def)

lemma map_delete_put: "k \<notin> fst ` set m \<Longrightarrow> map_delete k (map_put k v m) = m"
proof (induction m)
  case (Cons a m)
  then show ?case by (cases a) (auto simp: map_delete_def map_put_def)
qed (simp add: map_delete_def map_put_def)

lemma map_delete_absent: "k \<notin> fst ` set m \<Longrightarrow> map_delete k m = m"
  by (induction m) (auto simp: map_delete_def)

definition plain_annotations :: "ObjectMeta \<Rightarrow> bool" where
  \<comment> \<open>no JKS annotation of its own, and nil rather than empty\<close>
  "plain_annotations meta \<longleftrightarrow> AnnotationKeyJKSKey \<notin> fst ` set (entries (om_Annotations meta)) \<and> om_Annotations meta \<noteq> Some []"

lemma annotated_deleted:
  assumes "plain_annotations meta"
  shows "(annotated t meta)\<lparr>om_Annotations :=
      (if map_delete AnnotationKeyJKSKey (entries (om_Annotations (annotated t meta))) = [] then None
       else Some (map_delete AnnotationKeyJKSKey (entries (om_Annotations (annotated t meta)))))\<rparr> = meta"
proof -
  have "map_delete AnnotationKeyJKSKey (entries (om_Annotations (annotated t meta))) = entries (om_Annotations meta)"
    using assms by (auto simp: annotated_def set_annotation_def plain_annotations_def map_delete_put map_delete_absent
        split: option.split)
  moreover have "(annotated t meta)\<lparr>om_Annotations :=
      (if entries (om_Annotations meta) = [] then None else Some (entries (om_Annotations meta)))\<rparr> = meta"
    using assms by (cases meta; cases "om_Annotations meta")
      (auto simp: annotated_def set_annotation_def plain_annotations_def split: option.split)
  ultimately show ?thesis by (simp only:)
qed

definition normal_pair :: "BundleTarget \<Rightarrow> JKS option \<times> PKCS12 option" where
  "normal_pair t = (case bt_AdditionalFormats t of None \<Rightarrow> (None, None) | Some af \<Rightarrow>
     (af_JKS af, map_option (\<lambda>p. if p12_Profile p = [] then p\<lparr>p12_Profile := LegacyRC2PKCS12Profile\<rparr> else p) (af_PKCS12 af)))"

lemma formats_written:
  "(case normal_pair t of (jks, pkcs12) \<Rightarrow>
      (if jks \<noteq> None \<or> pkcs12 \<noteq> None
       then (normal_target t)\<lparr>bt_AdditionalFormats := Some \<lparr>af_JKS = jks, af_PKCS12 = pkcs12\<rparr>\<rparr>
       else (normal_target t)\<lparr>bt_AdditionalFormats := None\<rparr>)) = normal_target t"
proof (cases "bt_AdditionalFormats t")
  case None
  then show ?thesis by (simp add: normal_pair_def normal_target_def)
next
  case (Some af)
  then show ?thesis
    by (cases af; cases "af_JKS af"; cases "af_PKCS12 af") (simp_all add: normal_pair_def normal_target_def normal_formats_def)
qed

lemma target_roundtrip:
  assumes "has_target t" and "plain_annotations meta"
    and "\<And>af. bt_AdditionalFormats t = Some af \<Longrightarrow> distinct (map snd (format_specs af))"
  shows "Convert_v1alpha2_BundleTarget_To_v1alpha1_BundleTarget
      (fst (Convert_v1alpha1_BundleTarget_To_v1alpha2_BundleTarget t meta)) (annotated t meta) = Ok (normal_target t, meta)"
proof -
  let ?t2 = "fst (Convert_v1alpha1_BundleTarget_To_v1alpha2_BundleTarget t meta)"
  have "auto": "autoConvert_v1alpha2_BundleTarget_To_v1alpha1_BundleTarget ?t2 = (normal_target t)\<lparr>bt_AdditionalFormats := None\<rparr>"
    by (cases "bt_ConfigMap t"; cases "bt_Secret t")
      (simp_all add: convert_target [OF assms(1)] autoConvert_v1alpha2_BundleTarget_To_v1alpha1_BundleTarget_def
        template_roundtrip normal_target_def)
  have kvs: "\<exists>tm tm'. kvs_of_target ?t2 = kvs_for t tm \<or> kvs_of_target ?t2 = kvs_for t tm @ kvs_for t tm'"
    using assms(1) by (cases "bt_ConfigMap t"; cases "bt_Secret t")
      (auto simp: convert_target [OF assms(1)] kvs_of_target_def kv_target_def has_target_def)
  have formats: "formats_of_kvs (entries (om_Annotations (annotated t meta))) (kvs_of_target ?t2) None None =
      Ok (normal_pair t)"
  proof (cases "bt_AdditionalFormats t")
    case None
    with kvs show ?thesis by (auto simp: kvs_for_def normal_pair_def)
  next
    case (Some af)
    from assms(2) have none: "map_of (entries (om_Annotations meta)) AnnotationKeyJKSKey = None"
      by (simp add: plain_annotations_def map_of_eq_None_iff)
    have annotation: "map_of (entries (om_Annotations (annotated t meta))) AnnotationKeyJKSKey = map_option jks_Key (af_JKS af)"
      using none Some by (cases "af_JKS af") (simp_all add: annotated_def set_annotation_def)
    from kvs obtain tm tm' where "kvs_of_target ?t2 = kvs_for t tm \<or> kvs_of_target ?t2 = kvs_for t tm @ kvs_for t tm'" by blast
    from formats_of_kvs_twice [OF annotation assms(3) [OF Some] Some this] Some show ?thesis by (simp add: normal_pair_def)
  qed
  show ?thesis
    unfolding Convert_v1alpha2_BundleTarget_To_v1alpha1_BundleTarget_def formats "auto" Let_def annotated_deleted [OF assms(2)]
    using formats_written [of t] by (cases "normal_pair t") auto
qed

end
