(* ===== verification/ConversionProperties.thy ===== *)
theory ConversionProperties
  imports ConversionTheorems
begin

text \<open>
  The properties of the conversions: the round trip of admitted Bundles, what a ClusterBundle keeps
  on its way through Bundle and back, the writes that show in the source, and the panic of
  \<open>ConvertFrom\<close> on a JKS trust store without a password.
\<close>

section \<open>Bundle to ClusterBundle and back\<close>

definition no_star_keys :: "Bundle \<Rightarrow> bool" where
  "no_star_keys bd \<longleftrightarrow>
     list_all (\<lambda>src. \<forall>ref \<in> set_option (bs_ConfigMap src) \<union> set_option (bs_Secret src). sok_Key ref \<noteq> ''*'') (spec_Sources (bd_Spec bd))"

lemma admissible_convertible:
  "admissible lib bd \<Longrightarrow> no_star_keys bd \<Longrightarrow> list_all convertible (spec_Sources (bd_Spec bd))"
  by (auto simp: admissible_def Let_def source_ok_def no_star_keys_def convertible_def list_all_length)

lemma admissible_formats_distinct:
  "admissible lib bd \<Longrightarrow> bt_AdditionalFormats (spec_Target (bd_Spec bd)) = Some af \<Longrightarrow> distinct (map snd (format_specs af))"
  by (simp add: admissible_def keys_ok_def Let_def)

lemma convert_spec:
  "Convert_v1alpha1_BundleSpec_To_v1alpha2_BundleSpec spec meta =
    (\<lparr>spec2_SourceRefs = fst (convert_sources (spec_Sources spec) \<lparr>spec2_SourceRefs = [], spec2_DefaultCAs = \<lparr>dca_Provider = []\<rparr>,
          spec2_InLineCAs = [], spec2_Target = fst (Convert_v1alpha1_BundleTarget_To_v1alpha2_BundleTarget (spec_Target spec) meta)\<rparr>),
      spec2_DefaultCAs = provider_of (foldl last_default None (spec_Sources spec)),
      spec2_InLineCAs = foldl merge_inline [] (spec_Sources spec),
      spec2_Target = fst (Convert_v1alpha1_BundleTarget_To_v1alpha2_BundleTarget (spec_Target spec) meta)\<rparr>,
     snd (Convert_v1alpha1_BundleTarget_To_v1alpha2_BundleTarget (spec_Target spec) meta))"
proof -
  define out1 where "out1 = \<lparr>spec2_SourceRefs = [], spec2_DefaultCAs = \<lparr>dca_Provider = []\<rparr>,
          spec2_InLineCAs = [], spec2_Target = fst (Convert_v1alpha1_BundleTarget_To_v1alpha2_BundleTarget (spec_Target spec) meta)\<rparr>"
  have "spec2_DefaultCAs out1 = provider_of None" by (simp add: out1_def provider_of_def)
  then have "(snd (convert_sources (spec_Sources spec) out1))\<lparr>spec2_SourceRefs := refs\<rparr> =
      \<lparr>spec2_SourceRefs = refs, spec2_DefaultCAs = provider_of (foldl last_default None (spec_Sources spec)),
       spec2_InLineCAs = foldl merge_inline [] (spec_Sources spec), spec2_Target = spec2_Target out1\<rparr>" for refs
    by (intro BundleSpec_v2.equality) (simp_all add: convert_spec_default convert_spec_fields, simp_all add: out1_def)
  then show ?thesis
    unfolding Convert_v1alpha1_BundleSpec_To_v1alpha2_BundleSpec_def autoConvert_v1alpha1_BundleSpec_To_v1alpha2_BundleSpec_def
    by (simp add: case_prod_beta flip: out1_def) (simp add: out1_def)
qed

lemma default_source_of_provider:
  "(case d of None \<Rightarrow> [] | Some use \<Rightarrow> [default_only use]) =
   (if provider_of d \<noteq> \<lparr>dca_Provider = []\<rparr>
    then [\<lparr>bs_ConfigMap = None, bs_Secret = None, bs_InLine = [],
           bs_UseDefaultCAs = Some (dca_Provider (provider_of d) = DefaultCAsProviderSystem)\<rparr>] else [])"
  by (cases d) (auto simp: provider_of_def default_only_def)

lemma status_roundtrip:
  "autoConvert_v1alpha2_BundleStatus_To_v1alpha1_BundleStatus (autoConvert_v1alpha1_BundleStatus_To_v1alpha2_BundleStatus st) = st"
  by (simp add: autoConvert_v1alpha2_BundleStatus_To_v1alpha1_BundleStatus_def autoConvert_v1alpha1_BundleStatus_To_v1alpha2_BundleStatus_def)

lemma convert_roundtrip:
  assumes "list_all convertible (spec_Sources (bd_Spec bd))"
    and "has_target (spec_Target (bd_Spec bd))" and "plain_annotations (bd_Meta bd)"
    and "\<And>af. bt_AdditionalFormats (spec_Target (bd_Spec bd)) = Some af \<Longrightarrow> distinct (map snd (format_specs af))"
  shows "\<exists>cb. ConvertFrom (fst (ConvertTo bd)) = Ok (normal_Bundle bd, cb)"
proof -
  let ?t = "spec_Target (bd_Spec bd)"
  have meta: "snd (Convert_v1alpha1_BundleTarget_To_v1alpha2_BundleTarget ?t (bd_Meta bd)) = annotated ?t (bd_Meta bd)"
    by (simp add: convert_target [OF assms(2)])
  show ?thesis
    using target_roundtrip [OF assms(2-4)] convert_object_sources [OF assms(1)] meta
    by (simp add: ConvertTo_def ConvertFrom_def convert_spec Convert_v1alpha2_BundleSpec_To_v1alpha1_BundleSpec_def autoConvert_v1alpha2_BundleSpec_To_v1alpha1_BundleSpec_def
        default_source_of_provider status_roundtrip normal_sources_def inline_only_def normal_Bundle_def
        Bundle.equality)
qed

text \<open>
  C11: An admitted Bundle with a target survives the conversion to ClusterBundle and back: the
  result is its normal form, with the object sources in their order, the inline sources joined
  into one, at most one request for the default CAs (the last one), the trust store formats with
  the LegacyRC2 profile written out, and every other field of metadata, target and status as it
  was. The sources must not use the reserved key \<open>*\<close>, and the annotations must not use the
  conversion's own.
\<close>

theorem ConvertTo_ConvertFrom_roundtrip:
  assumes "ValidateCreate lib bd = []" and "has_target (spec_Target (bd_Spec bd))"
    and "no_star_keys bd" and "plain_annotations (bd_Meta bd)"
  shows "\<exists>cb. ConvertFrom (fst (ConvertTo bd)) = Ok (normal_Bundle bd, cb)"
proof -
  have adm: "admissible lib bd" using assms(1) by (simp add: ValidateCreate_def validate_admissible)
  show ?thesis
    by (rule convert_roundtrip [OF admissible_convertible [OF adm assms(3)] assms(2,4)])
      (rule admissible_formats_distinct [OF adm])
qed

lemma ConvertTo_ConvertFrom_roundtrip_witness:
  "\<exists>cb. ConvertFrom (fst (ConvertTo example_bundle)) = Ok (normal_Bundle example_bundle, cb)"
proof (rule ConvertTo_ConvertFrom_roundtrip [where lib = accept_all])
  show "ValidateCreate accept_all example_bundle = []"
    using example_bundle_admitted [of "bd_Status example_bundle"] by (simp add: ValidateCreate_def)
qed (simp_all add: example_bundle_def has_target_def no_star_keys_def plain_annotations_def AnnotationKeyJKSKey_def)

text \<open>
  The conversion to ClusterBundle writes into its source: when the Bundle asks for a JKS trust
  store and has annotations, its own annotation map gains the conversion's internal annotation,
  because the metadata is copied with a shared map.
\<close>

lemma ConvertTo_writes_source_annotations:
  assumes "has_target (spec_Target (bd_Spec bd))"
    and "bt_AdditionalFormats (spec_Target (bd_Spec bd)) = Some af" and "af_JKS af = Some j"
    and "om_Annotations (bd_Meta bd) = Some annotations"
  shows "om_Annotations (bd_Meta (snd (ConvertTo bd))) = Some (map_put AnnotationKeyJKSKey (jks_Key j) annotations) \<and>
    om_Annotations (cb_Meta (fst (ConvertTo bd))) = Some (map_put AnnotationKeyJKSKey (jks_Key j) annotations)"
  by (simp_all add: ConvertTo_def convert_spec convert_target [OF assms(1)] annotated_def assms set_annotation_def share_annotations_def)


definition annotated_bundle :: Bundle where
  "annotated_bundle = example_bundle\<lparr>bd_Meta := (bd_Meta example_bundle)\<lparr>om_Annotations := Some [(''team'', ''a'')]\<rparr>,
     bd_Spec := (bd_Spec example_bundle)\<lparr>spec_Target := (spec_Target (bd_Spec example_bundle))\<lparr>bt_AdditionalFormats :=
       Some \<lparr>af_JKS = Some \<lparr>jks_Key = ''ca.jks'', jks_Password = ''changeit''\<rparr>, af_PKCS12 = None\<rparr>\<rparr>\<rparr>\<rparr>"

lemma ConvertTo_writes_source_annotations_witness:
  "om_Annotations (bd_Meta (snd (ConvertTo annotated_bundle))) = Some (map_put AnnotationKeyJKSKey ''ca.jks'' [(''team'', ''a'')]) \<and>
   om_Annotations (cb_Meta (fst (ConvertTo annotated_bundle))) = Some (map_put AnnotationKeyJKSKey ''ca.jks'' [(''team'', ''a'')])"
  using ConvertTo_writes_source_annotations [of annotated_bundle _ "\<lparr>jks_Key = ''ca.jks'', jks_Password = ''changeit''\<rparr>"]
  by (simp add: annotated_bundle_def example_bundle_def has_target_def)

section \<open>ClusterBundle to Bundle\<close>

definition jks_entry :: "string gomap \<Rightarrow> TargetKeyValue \<Rightarrow> bool" where
  "jks_entry annotations tkv \<longleftrightarrow>
     tkv_Format tkv = BundleFormatPKCS12 \<and> map_of annotations AnnotationKeyJKSKey = Some (tkv_Key tkv)"

definition p12_entry :: "string gomap \<Rightarrow> TargetKeyValue \<Rightarrow> bool" where
  "p12_entry annotations tkv \<longleftrightarrow>
     tkv_Format tkv = BundleFormatPKCS12 \<and> map_of annotations AnnotationKeyJKSKey \<noteq> Some (tkv_Key tkv)"

text \<open>A key-value pair at which the loop dereferences a nil password, and that it reaches.\<close>

fun nil_password_reached :: "string gomap \<Rightarrow> bool \<Rightarrow> bool \<Rightarrow> TargetKeyValue list \<Rightarrow> bool" where
  "nil_password_reached annotations jks p12 [] \<longleftrightarrow> False"
| "nil_password_reached annotations jks p12 (tkv # tkvs) \<longleftrightarrow>
     (jks_entry annotations tkv \<and> p2_Password (tkv_PKCS12 tkv) = None) \<or>
     (\<not> ((jks \<or> jks_entry annotations tkv) \<and> (p12 \<or> p12_entry annotations tkv)) \<and>
      nil_password_reached annotations (jks \<or> jks_entry annotations tkv) (p12 \<or> p12_entry annotations tkv) tkvs)"

lemma formats_of_kvs_panic:
  "(\<exists>msg. formats_of_kvs an kvs jks p12 = Panic msg) \<longleftrightarrow> nil_password_reached an (jks \<noteq> None) (p12 \<noteq> None) kvs"
  by (induction an kvs jks p12 rule: formats_of_kvs.induct)
    (auto simp: jks_entry_def p12_entry_def split: option.split)

lemma formats_of_kvs_no_Err: "formats_of_kvs an kvs jks p12 \<noteq> Err e"
  by (induction an kvs jks p12 rule: formats_of_kvs.induct) (auto split: option.split)


definition reaches_nil_password :: "string gomap \<Rightarrow> TargetKeyValue list \<Rightarrow> bool" where
  "reaches_nil_password an kvs \<longleftrightarrow>
     (\<exists>before tkv after. kvs = before @ tkv # after \<and> jks_entry an tkv \<and> p2_Password (tkv_PKCS12 tkv) = None \<and>
        \<not> (list_ex (jks_entry an) before \<and> list_ex (p12_entry an) before))"

lemma nil_password_reached_iff:
  "\<not> (jks \<and> p12) \<Longrightarrow> nil_password_reached an jks p12 kvs \<longleftrightarrow>
     (\<exists>before tkv after. kvs = before @ tkv # after \<and> jks_entry an tkv \<and> p2_Password (tkv_PKCS12 tkv) = None \<and>
        \<not> ((jks \<or> list_ex (jks_entry an) before) \<and> (p12 \<or> list_ex (p12_entry an) before)))"
proof (induction kvs arbitrary: jks p12)
  case (Cons kv kvs)
  let ?P = "\<lambda>jks p12 kvs before tkv after. kvs = before @ tkv # after \<and> jks_entry an tkv \<and> p2_Password (tkv_PKCS12 tkv) = None \<and>
        \<not> ((jks \<or> list_ex (jks_entry an) before) \<and> (p12 \<or> list_ex (p12_entry an) before))"
  have split: "(\<exists>before tkv after. ?P jks p12 (kv # kvs) before tkv after) \<longleftrightarrow>
      ?P jks p12 (kv # kvs) [] kv kvs \<or> (\<exists>before tkv after. ?P jks p12 (kv # kvs) (kv # before) tkv after)" (is "?l \<longleftrightarrow> ?r")
  proof
    assume ?l
    then obtain before tkv after where P: "?P jks p12 (kv # kvs) before tkv after" by blast
    then show ?r by (cases before) auto
  qed blast
  show ?case
  proof (cases "(jks \<or> jks_entry an kv) \<and> (p12 \<or> p12_entry an kv)")
    case True
    then show ?thesis unfolding split using Cons.prems by (auto simp: jks_entry_def p12_entry_def)
  next
    case False
    then show ?thesis unfolding split using Cons.prems Cons.IH [OF False] by auto
  qed
qed simp

text \<open>
  C35: The conversion of a ClusterBundle to a Bundle never returns an error, and panics exactly when
  its loop reaches a PKCS #12 entry without password under the key that the internal annotation
  names, before it has found both formats.
\<close>

theorem ConvertFrom_panics_iff:
  "if reaches_nil_password (entries (om_Annotations (cb_Meta src))) (kvs_of_target (spec2_Target (cb_Spec src)))
   then \<exists>msg. ConvertFrom src = Panic msg
   else \<exists>bd cb. ConvertFrom src = Ok (bd, cb) \<and> AnnotationKeyJKSKey \<notin> fst ` set (entries (om_Annotations (bd_Meta bd)))"
proof -
  let ?an = "entries (om_Annotations (cb_Meta src))" and ?kvs = "kvs_of_target (spec2_Target (cb_Spec src))"
  have panic: "(\<exists>msg. formats_of_kvs ?an ?kvs None None = Panic msg) \<longleftrightarrow> reaches_nil_password ?an ?kvs"
    by (simp add: formats_of_kvs_panic nil_password_reached_iff reaches_nil_password_def)
  show ?thesis
  proof (cases "formats_of_kvs ?an ?kvs None None")
    case (Ok fmts)
    obtain jks p12 where [simp]: "fmts = (jks, p12)" by force
    from Ok panic show ?thesis
      by (auto simp: ConvertFrom_def Convert_v1alpha2_BundleSpec_To_v1alpha1_BundleSpec_def autoConvert_v1alpha2_BundleSpec_To_v1alpha1_BundleSpec_def
          Convert_v1alpha2_BundleTarget_To_v1alpha1_BundleTarget_def map_delete_def Let_def split: if_splits)
  next
    case (Panic msg)
    then show ?thesis using panic
      by (auto simp: ConvertFrom_def Convert_v1alpha2_BundleSpec_To_v1alpha1_BundleSpec_def autoConvert_v1alpha2_BundleSpec_To_v1alpha1_BundleSpec_def
          Convert_v1alpha2_BundleTarget_To_v1alpha1_BundleTarget_def)
  qed (use formats_of_kvs_no_Err in blast)
qed

end
