(* ===== verification/Watch.thy ===== *)
theory Watch
  imports Reconcile
begin

text \<open>
  What wakes the Bundle controller: \<open>pkg/bundle/controller.go\<close>. The map functions of the watches, the
  namespaces of the two caches, and the controller's set-up. The controller-runtime library is
  the parameter \<open>manager\<close>: it creates caches, runs them and completes the controller. A watch is a
  value that names the kind, the predicate on events and the test that selects the Bundles.
\<close>

section \<open>Which Bundles an object concerns\<close>

type_synonym request = NamespacedName

definition labelsMatchSelector :: "'sel labels_lib \<Rightarrow> string gomap \<Rightarrow> LabelSelector option \<Rightarrow> bool" where
  "labelsMatchSelector lib objLabels labelSelector =
     (case lib_AsSelector lib labelSelector of
        Inl err \<Rightarrow> False
      | Inr selector \<Rightarrow> lib_Matches lib selector objLabels)"

definition sourceSelectsObject :: "'sel labels_lib \<Rightarrow> SourceObjectKeySelector option \<Rightarrow> ObjectMeta \<Rightarrow> bool" where
  "sourceSelectsObject lib selector obj =
     (case selector of
        None \<Rightarrow> False
      | Some sel \<Rightarrow>
          (if labelsMatchSelector lib (om_Labels obj) (sok_Selector sel) then True
           else if sok_Name sel = om_Name obj then True
           else False))"

definition inNamespacePredicate :: "string \<Rightarrow> ObjectMeta \<Rightarrow> bool" where
  "inNamespacePredicate namespace object \<longleftrightarrow> om_Namespace object = namespace"

text \<open>The answer of the client, or the status with which the program exits.\<close>

definition mustBundleList :: "gerr + Bundle list \<Rightarrow> int + Bundle list" where
  "mustBundleList answer = (case answer of Inl err \<Rightarrow> Inl (- 1) | Inr bundleList \<Rightarrow> Inr bundleList)"

fun requests_for :: "(ObjectMeta \<Rightarrow> Bundle \<Rightarrow> bool) \<Rightarrow> ObjectMeta \<Rightarrow> Bundle list \<Rightarrow> request list" where
  "requests_for fn obj [] = []"
| "requests_for fn obj (bd # items) =
     (if fn obj bd then \<lparr>nn_Namespace = [], nn_Name = om_Name (bd_Meta bd)\<rparr> # requests_for fn obj items
      else requests_for fn obj items)"

definition enqueueRequestsFromBundleFunc ::
  "gerr + Bundle list \<Rightarrow> (ObjectMeta \<Rightarrow> Bundle \<Rightarrow> bool) \<Rightarrow> ObjectMeta \<Rightarrow> int + request list" where
  "enqueueRequestsFromBundleFunc answer fn obj =
     (case mustBundleList answer of
        Inl status \<Rightarrow> Inl status
      | Inr bundleList \<Rightarrow> Inr (requests_for fn obj bundleList))"

text \<open>The tests of the three watches.\<close>

definition namespace_fn :: "'sel labels_lib \<Rightarrow> ObjectMeta \<Rightarrow> Bundle \<Rightarrow> bool" where
  "namespace_fn lib obj bd =
     (case bundleTargetNamespaceSelector lib (spec_Target (bd_Spec bd)) of
        Inl err \<Rightarrow> False
      | Inr namespaceSelector \<Rightarrow> lib_Matches lib namespaceSelector (om_Labels obj))"

definition configMap_fn :: "'sel labels_lib \<Rightarrow> ObjectMeta \<Rightarrow> Bundle \<Rightarrow> bool" where
  "configMap_fn lib obj bd = list_ex (\<lambda>s. sourceSelectsObject lib (bs_ConfigMap s) obj) (spec_Sources (bd_Spec bd))"

definition secret_fn :: "'sel labels_lib \<Rightarrow> ObjectMeta \<Rightarrow> Bundle \<Rightarrow> bool" where
  "secret_fn lib obj bd = list_ex (\<lambda>s. sourceSelectsObject lib (bs_Secret s) obj) (spec_Sources (bd_Spec bd))"

section \<open>The caches\<close>

record cache_options =
  co_ReaderFailOnMissingInformer :: bool
  co_DefaultLabelSelector :: "string option" \<comment> \<open>the label key that must exist\<close>
  co_DefaultNamespaces :: "string list option" \<comment> \<open>the keys of the map, None for a nil map\<close>
  co_ByObject :: "(string \<times> string list option) list" \<comment> \<open>kind and its \<open>Namespaces\<close>\<close>

fun cache_namespaces :: "string list \<Rightarrow> string list \<Rightarrow> string list" where
  "cache_namespaces [] defaultNamespaces = defaultNamespaces"
| "cache_namespaces (ns # namespaces) defaultNamespaces =
     (if ns = [] then cache_namespaces namespaces defaultNamespaces
      else cache_namespaces namespaces (insert_key ns defaultNamespaces))"

definition setupCacheNamespaces :: "string list \<Rightarrow> string list option" where
  "setupCacheNamespaces namespaces =
     (if length namespaces = 0 then None else Some (cache_namespaces namespaces []))"

definition CacheOpts :: "Options \<Rightarrow> cache_options" where
  "CacheOpts opts =
     (let ctrCacheNamespaces = setupCacheNamespaces (opt_TargetNamespaces opts @ [opt_Namespace opts])
      in \<lparr>co_ReaderFailOnMissingInformer = True, co_DefaultLabelSelector = None,
          co_DefaultNamespaces = ctrCacheNamespaces,
          co_ByObject = [(BundleKind, None), (''Namespace'', None),
            (KindConfigMap, Some [opt_Namespace opts]), (KindSecret, Some [opt_Namespace opts])]\<rparr>)"

definition target_cache_options :: "Options \<Rightarrow> cache_options" where
  "target_cache_options opts =
     \<lparr>co_ReaderFailOnMissingInformer = True, co_DefaultLabelSelector = Some BundleLabelKey,
      co_DefaultNamespaces = setupCacheNamespaces (opt_TargetNamespaces opts), co_ByObject = []\<rparr>"

section \<open>Setting up the controller\<close>

datatype watch =
    WatchesOwned Kind \<comment> \<open>metadata in the target cache, enqueues the controlling Bundle\<close>
  | WatchesBundles \<comment> \<open>enqueues the Bundle itself\<close>
  | WatchesMapped string "ObjectMeta \<Rightarrow> bool" "ObjectMeta \<Rightarrow> Bundle \<Rightarrow> bool" \<comment> \<open>kind, predicate, test\<close>

definition bundle_watches :: "'sel labels_lib \<Rightarrow> Options \<Rightarrow> watch list" where
  "bundle_watches lib opts =
     [WatchesOwned KindConfigMap]
     @ (if opt_SecretTargetsEnabled opts then [WatchesOwned KindSecret] else [])
     @ [WatchesBundles,
        WatchesMapped ''Namespace'' (\<lambda>obj. True) (namespace_fn lib),
        WatchesMapped KindConfigMap (inNamespacePredicate (opt_Namespace opts)) (configMap_fn lib),
        WatchesMapped KindSecret (inNamespacePredicate (opt_Namespace opts)) (secret_fn lib)]"

record ('sel, 'cache) manager =
  mgr_NewRequirement :: "string \<Rightarrow> gerr option"
  mgr_NewCache :: "cache_options \<Rightarrow> gerr + 'cache"
  mgr_Add :: "'cache \<Rightarrow> gerr option"
  mgr_Complete :: "'cache \<Rightarrow> watch list \<Rightarrow> gerr option"
  mgr_labels :: "'sel labels_lib"

text \<open>The builder and the watches of the registered controller.\<close>

definition addBundleController ::
  "(string \<Rightarrow> Package res) \<Rightarrow> ('sel, 'cache) manager \<Rightarrow> Options \<Rightarrow> 'cache \<Rightarrow> (BundleBuilder \<times> watch list) res" where
  "addBundleController LoadFromFile mgr opts targetCache =
     bind_res
       (if opt_DefaultPackageLocation opts \<noteq> []
        then map_err (Wrapf ''must load default package successfully when default package location is set: '')
               (bind_res (LoadFromFile (opt_DefaultPackageLocation opts))
                  (\<lambda>pkg. Ok \<lparr>bb_DefaultPackage = Some pkg, bb_Options = opts\<rparr>))
        else Ok \<lparr>bb_DefaultPackage = None, bb_Options = opts\<rparr>)
       (\<lambda>builder.
          (let watches = bundle_watches (mgr_labels mgr) opts
           in case mgr_Complete mgr targetCache watches of
                Some err \<Rightarrow> Err (Errorf (''failed to create Bundle controller: '' @ error_text err))
              | None \<Rightarrow> Ok (builder, watches)))"

definition SetupWithManager ::
  "(string \<Rightarrow> Package res) \<Rightarrow> ('sel, 'cache) manager \<Rightarrow> Options \<Rightarrow> (BundleBuilder \<times> watch list) res" where
  "SetupWithManager LoadFromFile mgr opts =
     (case mgr_NewRequirement mgr BundleLabelKey of
        Some err \<Rightarrow> Err (Wrapf ''failed to create target label requirement: '' err)
      | None \<Rightarrow>
     (case mgr_NewCache mgr (target_cache_options opts) of
        Inl err \<Rightarrow> Err (Wrapf ''failed to create target cache: '' err)
      | Inr targetCache \<Rightarrow>
     (case mgr_Add mgr targetCache of
        Some err \<Rightarrow> Err (Wrapf ''failed to add target cache to manager: '' err)
      | None \<Rightarrow>
          map_err (Wrapf ''failed to register Bundle controller: '')
            (addBundleController LoadFromFile mgr opts targetCache))))"

end
