(* ===== verification/WatchTheorems.thy ===== *)
theory WatchTheorems
  imports Watch WebhookTheorems
begin

text \<open>
  The watches are complete: whatever changes the inputs of a Bundle's reconcile enqueues the Bundle.
  The interface between the reader of the builder and the objects of the cluster is the locale
  \<open>object_store\<close>; its laws are the documented behaviour of the client's \<open>Get\<close> and \<open>List\<close>. Changes
  of the cluster are the step relation \<open>cluster_step\<close>.
\<close>

section \<open>Reading from a store of objects\<close>

definition relevant :: "'sel labels_lib \<Rightarrow> string \<Rightarrow> SourceObjectKeySelector \<Rightarrow> ObjectMeta \<Rightarrow> bool" where
  "relevant lib ns ref m \<longleftrightarrow> om_Namespace m = ns \<and> sourceSelectsObject lib (Some ref) m"

lemma find_filter:
  assumes "\<And>x. P x \<Longrightarrow> Q x"
  shows "List.find P (filter Q xs) = List.find P xs"
  using assms by (induction xs) auto

locale object_store =
  fixes lib :: "'sel labels_lib" and ns :: string and meta :: "'o \<Rightarrow> ObjectMeta"
    and get :: "string \<Rightarrow> string \<Rightarrow> gerr + 'o" and "list" :: "'sel \<Rightarrow> gerr + 'o list"
    and missing :: "string \<Rightarrow> gerr" and objs :: "'o list"
  assumes get: "get ns name =
      (case List.find (\<lambda>o'. om_Namespace (meta o') = ns \<and> om_Name (meta o') = name) objs of
         None \<Rightarrow> Inl (missing name) | Some o' \<Rightarrow> Inr o')"
    and "list": "list sel = Inr (filter (\<lambda>o'. om_Namespace (meta o') = ns \<and> lib_Matches lib sel (om_Labels (meta o'))) objs)"
begin

lemma get_relevant:
  "sok_Name ref \<noteq> [] \<Longrightarrow> get ns (sok_Name ref) =
    (case List.find (\<lambda>o'. om_Namespace (meta o') = ns \<and> om_Name (meta o') = sok_Name ref) (filter (relevant lib ns ref \<circ> meta) objs) of
       None \<Rightarrow> Inl (missing (sok_Name ref)) | Some o' \<Rightarrow> Inr o')"
  unfolding get by (subst find_filter) (auto simp: relevant_def sourceSelectsObject_def)

lemma list_relevant:
  "lib_AsSelector lib (sok_Selector ref) = Inr sel \<Longrightarrow>
     list sel = Inr (filter (\<lambda>o'. om_Namespace (meta o') = ns \<and> lib_Matches lib sel (om_Labels (meta o'))) (filter (relevant lib ns ref \<circ> meta) objs))"
  by (auto simp: "list" relevant_def sourceSelectsObject_def labelsMatchSelector_def intro!: filter_cong)

end

text \<open>What a reference selects depends only on the objects that its watch selects.\<close>

lemma select_objects_cong:
  assumes "object_store lib ns meta get list missing objs" and "object_store lib ns meta get' list' missing objs'"
    and "filter (relevant lib ns ref \<circ> meta) objs = filter (relevant lib ns ref \<circ> meta) objs'"
  shows "select_objects kind get list lib ns ref = select_objects kind get' list' lib ns ref"
proof (cases "sok_Name ref = []")
  case True
  then show ?thesis
    using object_store.list_relevant [OF assms(1), of ref] object_store.list_relevant [OF assms(2), of ref] assms(3)
    by (auto simp: select_objects_def split: sum.split)
next
  case False
  then show ?thesis
    using object_store.get_relevant [OF assms(1), of ref] object_store.get_relevant [OF assms(2), of ref] assms(3)
    by (simp add: select_objects_def)
qed


section \<open>Changes of the cluster\<close>

record cluster =
  cl_ConfigMaps :: "ConfigMap list"
  cl_Secrets :: "Secret list"
  cl_Namespaces :: "Namespace list"

datatype 'o change = Created 'o | Updated 'o 'o | Deleted 'o

fun change_objects :: "'o change \<Rightarrow> 'o list" where
  "change_objects (Created x) = [x]"
| "change_objects (Updated x y) = [x, y]"
| "change_objects (Deleted x) = [x]"

fun apply_change :: "'o change \<Rightarrow> 'o list \<Rightarrow> 'o list" where
  "apply_change (Created x) xs = xs @ [x]"
| "apply_change (Updated x y) xs = map (\<lambda>z. if z = x then y else z) xs"
| "apply_change (Deleted x) xs = filter (\<lambda>z. z \<noteq> x) xs"

datatype event = ConfigMapEvent "ConfigMap change" | SecretEvent "Secret change" | NamespaceEvent "Namespace change"

text \<open>An update keeps the namespace and the name of its object.\<close>

fun change_ok :: "('o \<Rightarrow> ObjectMeta) \<Rightarrow> 'o change \<Rightarrow> bool" where
  "change_ok meta (Updated x y) \<longleftrightarrow> om_Namespace (meta x) = om_Namespace (meta y) \<and> om_Name (meta x) = om_Name (meta y)"
| "change_ok meta c \<longleftrightarrow> True"

inductive cluster_step :: "cluster \<Rightarrow> event \<Rightarrow> cluster \<Rightarrow> bool" where
  configMap: "change_ok cm_Meta c \<Longrightarrow> cluster_step cl (ConfigMapEvent c) (cl\<lparr>cl_ConfigMaps := apply_change c (cl_ConfigMaps cl)\<rparr>)"
| secret: "change_ok sec_Meta c \<Longrightarrow> cluster_step cl (SecretEvent c) (cl\<lparr>cl_Secrets := apply_change c (cl_Secrets cl)\<rparr>)"
| namespace_change: "change_ok ns_Meta c \<Longrightarrow> cluster_step cl (NamespaceEvent c) (cl\<lparr>cl_Namespaces := apply_change c (cl_Namespaces cl)\<rparr>)"

inductive cluster_run :: "cluster \<Rightarrow> event list \<Rightarrow> cluster \<Rightarrow> bool" where
  stop: "cluster_run cl [] cl"
| step: "cluster_step cl ev cl1 \<Longrightarrow> cluster_run cl1 evs cl2 \<Longrightarrow> cluster_run cl (ev # evs) cl2"

lemma filter_change:
  "\<forall>x \<in> set (change_objects c). \<not> P x \<Longrightarrow> filter P (apply_change c xs) = filter P xs"
  by (cases c; induction xs) auto

text \<open>
  The library's event handler: \<open>handle pred f objects\<close> are the requests it puts on the queue for an
  event on \<open>objects\<close>. The handler of \<open>EnqueueRequestsFromMapFunc\<close> runs the map function on every
  object of the event when the predicate lets the event through.
\<close>

definition delivers :: "((ObjectMeta \<Rightarrow> bool) \<Rightarrow> (ObjectMeta \<Rightarrow> int + request list) \<Rightarrow> ObjectMeta list \<Rightarrow> request list) \<Rightarrow> bool" where
  "delivers handle \<longleftrightarrow> (\<forall>pred f ms m rs. list_all pred ms \<longrightarrow> m \<in> set ms \<longrightarrow> f m = Inr rs \<longrightarrow> set rs \<subseteq> set (handle pred f ms))"

fun event_kind :: "event \<Rightarrow> string" where
  "event_kind (ConfigMapEvent c) = KindConfigMap"
| "event_kind (SecretEvent c) = KindSecret"
| "event_kind (NamespaceEvent c) = ''Namespace''"

fun event_metas :: "event \<Rightarrow> ObjectMeta list" where
  "event_metas (ConfigMapEvent c) = map cm_Meta (change_objects c)"
| "event_metas (SecretEvent c) = map sec_Meta (change_objects c)"
| "event_metas (NamespaceEvent c) = map ns_Meta (change_objects c)"

text \<open>The requests that an event puts on the queue through the mapped watches.\<close>

fun watch_requests ::
  "((ObjectMeta \<Rightarrow> bool) \<Rightarrow> (ObjectMeta \<Rightarrow> int + request list) \<Rightarrow> ObjectMeta list \<Rightarrow> request list) \<Rightarrow>
     Bundle list \<Rightarrow> event \<Rightarrow> watch list \<Rightarrow> request list" where
  "watch_requests handle bundles ev [] = []"
| "watch_requests handle bundles ev (WatchesMapped kind pred fn # ws) =
     (if kind = event_kind ev then handle pred (enqueueRequestsFromBundleFunc (Inr bundles) fn) (event_metas ev) else [])
     @ watch_requests handle bundles ev ws"
| "watch_requests handle bundles ev (w # ws) = watch_requests handle bundles ev ws"

definition enqueues ::
  "((ObjectMeta \<Rightarrow> bool) \<Rightarrow> (ObjectMeta \<Rightarrow> int + request list) \<Rightarrow> ObjectMeta list \<Rightarrow> request list) \<Rightarrow>
     'sel labels_lib \<Rightarrow> Options \<Rightarrow> Bundle list \<Rightarrow> Bundle \<Rightarrow> event \<Rightarrow> bool" where
  "enqueues handle lib opts bundles bd ev \<longleftrightarrow>
     \<lparr>nn_Namespace = [], nn_Name = om_Name (bd_Meta bd)\<rparr> \<in> set (watch_requests handle bundles ev (bundle_watches lib opts))"

lemma requests_for_in:
  "bd \<in> set bundles \<Longrightarrow> fn m bd \<Longrightarrow> \<lparr>nn_Namespace = [], nn_Name = om_Name (bd_Meta bd)\<rparr> \<in> set (requests_for fn m bundles)"
  by (induction bundles) auto

lemma watch_requests_in:
  assumes "WatchesMapped (event_kind ev) pred fn \<in> set ws" and "delivers handle"
    and "list_all pred (event_metas ev)" and "m \<in> set (event_metas ev)" and "bd \<in> set bundles" and "fn m bd"
  shows "\<lparr>nn_Namespace = [], nn_Name = om_Name (bd_Meta bd)\<rparr> \<in> set (watch_requests handle bundles ev ws)"
  using assms
proof (induction ws)
  case (Cons w ws)
  have "enqueueRequestsFromBundleFunc (Inr bundles) fn m = Inr (requests_for fn m bundles)"
    by (simp add: enqueueRequestsFromBundleFunc_def mustBundleList_def)
  then have "set (requests_for fn m bundles) \<subseteq> set (handle pred (enqueueRequestsFromBundleFunc (Inr bundles) fn) (event_metas ev))"
    using Cons.prems(2,3,4) by (auto simp: delivers_def)
  with requests_for_in [OF Cons.prems(5), of fn m] Cons.prems(6)
  have "\<lparr>nn_Namespace = [], nn_Name = om_Name (bd_Meta bd)\<rparr> \<in> set (handle pred (enqueueRequestsFromBundleFunc (Inr bundles) fn) (event_metas ev))" by blast
  with Cons show ?case by (cases w) auto
qed simp


section \<open>Events that concern no source of a Bundle\<close>

lemma change_ok_namespace:
  "change_ok meta c \<Longrightarrow> x \<in> set (change_objects c) \<Longrightarrow> om_Namespace (meta x) = ns \<Longrightarrow>
     list_all (inNamespacePredicate ns) (map meta (change_objects c))"
  by (cases c) (auto simp: inNamespacePredicate_def)

lemma watched_kinds:
  "WatchesMapped KindConfigMap (inNamespacePredicate (opt_Namespace opts)) (configMap_fn lib) \<in> set (bundle_watches lib opts)"
  "WatchesMapped KindSecret (inNamespacePredicate (opt_Namespace opts)) (secret_fn lib) \<in> set (bundle_watches lib opts)"
  "WatchesMapped ''Namespace'' (\<lambda>obj. True) (namespace_fn lib) \<in> set (bundle_watches lib opts)"
  by (simp_all add: bundle_watches_def)

lemma quiet_change:
  assumes "\<not> enqueues handle lib opts bundles bd ev" and "delivers handle" and "bd \<in> set bundles"
    and "WatchesMapped (event_kind ev) (inNamespacePredicate (opt_Namespace opts)) fn \<in> set (bundle_watches lib opts)"
    and "event_metas ev = map meta (change_objects c)" and "change_ok meta c"
    and "\<And>m. relevant lib (opt_Namespace opts) ref m \<Longrightarrow> fn m bd"
  shows "filter (relevant lib (opt_Namespace opts) ref \<circ> meta) (apply_change c xs) = filter (relevant lib (opt_Namespace opts) ref \<circ> meta) xs"
proof (rule filter_change, intro ballI notI)
  fix x assume x: "x \<in> set (change_objects c)" and rel: "(relevant lib (opt_Namespace opts) ref \<circ> meta) x"
  then have "list_all (inNamespacePredicate (opt_Namespace opts)) (event_metas ev)" and "meta x \<in> set (event_metas ev)"
    using assms(5,6) by (auto simp: relevant_def intro: change_ok_namespace)
  from watch_requests_in [OF assms(4,2) this assms(3)] assms(7) rel have "enqueues handle lib opts bundles bd ev"
    by (simp add: enqueues_def)
  with assms(1) show False by simp
qed

definition same_sources :: "'sel labels_lib \<Rightarrow> string \<Rightarrow> BundleSource list \<Rightarrow> cluster \<Rightarrow> cluster \<Rightarrow> bool" where
  "same_sources lib ns sources cl cl' \<longleftrightarrow>
     (\<forall>src \<in> set sources.
        (\<forall>ref. bs_ConfigMap src = Some ref \<longrightarrow>
           filter (relevant lib ns ref \<circ> cm_Meta) (cl_ConfigMaps cl') = filter (relevant lib ns ref \<circ> cm_Meta) (cl_ConfigMaps cl)) \<and>
        (\<forall>ref. bs_Secret src = Some ref \<longrightarrow>
           filter (relevant lib ns ref \<circ> sec_Meta) (cl_Secrets cl') = filter (relevant lib ns ref \<circ> sec_Meta) (cl_Secrets cl)))"

lemma relevant_fn:
  "src \<in> set (spec_Sources (bd_Spec bd)) \<Longrightarrow> bs_ConfigMap src = Some ref \<Longrightarrow> relevant lib ns ref m \<Longrightarrow> configMap_fn lib m bd"
  "src \<in> set (spec_Sources (bd_Spec bd)) \<Longrightarrow> bs_Secret src = Some ref \<Longrightarrow> relevant lib ns ref m \<Longrightarrow> secret_fn lib m bd"
  by (auto simp: configMap_fn_def secret_fn_def list_ex_iff relevant_def intro!: bexI [of _ src])

lemma quiet_step:
  assumes "cluster_step cl ev cl'" and "\<not> enqueues handle lib opts bundles bd ev" and "delivers handle" and "bd \<in> set bundles"
  shows "same_sources lib (opt_Namespace opts) (spec_Sources (bd_Spec bd)) cl cl'"
  using assms(1)
proof cases
  case (configMap c)
  have "filter (relevant lib (opt_Namespace opts) ref \<circ> cm_Meta) (apply_change c (cl_ConfigMaps cl)) =
      filter (relevant lib (opt_Namespace opts) ref \<circ> cm_Meta) (cl_ConfigMaps cl)"
    if "src \<in> set (spec_Sources (bd_Spec bd))" "bs_ConfigMap src = Some ref" for src ref
    by (rule quiet_change [OF assms(2-4), where fn = "configMap_fn lib"]) (simp_all add: configMap watched_kinds relevant_fn(1) [OF that])
  then show ?thesis by (simp add: same_sources_def configMap)
next
  case (secret c)
  have "filter (relevant lib (opt_Namespace opts) ref \<circ> sec_Meta) (apply_change c (cl_Secrets cl)) =
      filter (relevant lib (opt_Namespace opts) ref \<circ> sec_Meta) (cl_Secrets cl)"
    if "src \<in> set (spec_Sources (bd_Spec bd))" "bs_Secret src = Some ref" for src ref
    by (rule quiet_change [OF assms(2-4), where fn = "secret_fn lib"]) (simp_all add: secret watched_kinds relevant_fn(2) [OF that])
  then show ?thesis by (simp add: same_sources_def secret)
qed (simp add: same_sources_def)

lemma same_sources_trans: "same_sources lib ns srcs cl cl1 \<Longrightarrow> same_sources lib ns srcs cl1 cl2 \<Longrightarrow> same_sources lib ns srcs cl cl2"
  by (auto simp: same_sources_def)

lemma quiet_run:
  assumes "cluster_run cl evs cl'" and "\<And>ev. ev \<in> set evs \<Longrightarrow> \<not> enqueues handle lib opts bundles bd ev"
    and "delivers handle" and "bd \<in> set bundles"
  shows "same_sources lib (opt_Namespace opts) (spec_Sources (bd_Spec bd)) cl cl'"
  using assms(1,2)
proof induction
  case (step cl ev cl1 evs cl2)
  have "same_sources lib (opt_Namespace opts) (spec_Sources (bd_Spec bd)) cl cl1"
    by (rule quiet_step [OF step.hyps(1) _ assms(3,4)]) (simp add: step.prems)
  with step show ?case by (auto intro: same_sources_trans)
qed (simp add: same_sources_def)

section \<open>The resolved bundle\<close>

definition reads :: "'sel labels_lib \<Rightarrow> string \<Rightarrow> (string \<Rightarrow> string \<Rightarrow> gerr) \<Rightarrow> 'sel reader \<Rightarrow> cluster \<Rightarrow> bool" where
  "reads lib ns missing rd cl \<longleftrightarrow>
     object_store lib ns cm_Meta (rd_GetConfigMap rd) (rd_ListConfigMaps rd) (missing KindConfigMap) (cl_ConfigMaps cl) \<and>
     object_store lib ns sec_Meta (rd_GetSecret rd) (rd_ListSecrets rd) (missing KindSecret) (cl_Secrets cl)"

lemma add_sources_cong:
  assumes "reads lib ns missing rd cl" and "reads lib ns missing rd' cl'" and "opt_Namespace (bb_Options b) = ns"
    and "same_sources lib ns srcs cl cl'"
  shows "add_sources parse lib rd' b srcs acc = add_sources parse lib rd b srcs acc"
  using assms(4)
proof (induction srcs arbitrary: acc)
  case (Cons src srcs)
  have "select_objects kind (rd_GetConfigMap rd') (rd_ListConfigMaps rd') lib ns ref =
      select_objects kind (rd_GetConfigMap rd) (rd_ListConfigMaps rd) lib ns ref" if "bs_ConfigMap src = Some ref" for kind ref
    by (rule select_objects_cong [where objs = "cl_ConfigMaps cl'" and objs' = "cl_ConfigMaps cl"])
      (use assms(1,2) Cons.prems that in \<open>auto simp: reads_def same_sources_def\<close>)
  moreover have "select_objects kind (rd_GetSecret rd') (rd_ListSecrets rd') lib ns ref =
      select_objects kind (rd_GetSecret rd) (rd_ListSecrets rd) lib ns ref" if "bs_Secret src = Some ref" for kind ref
    by (rule select_objects_cong [where objs = "cl_Secrets cl'" and objs' = "cl_Secrets cl"])
      (use assms(1,2) Cons.prems that in \<open>auto simp: reads_def same_sources_def\<close>)
  ultimately have "add_source parse lib rd' b src acc = add_source parse lib rd b src acc" for acc
    by (auto simp: add_source_def assms(3) configMapBundleSource_addToCertPool_def secretBundleSource_addToCertPool_def
        split: option.split)
  moreover have "same_sources lib ns srcs cl cl'" using Cons.prems by (simp add: same_sources_def)
  ultimately show ?case by (cases "add_source parse lib rd b src acc") (simp_all add: Cons.IH)
qed simp


text \<open>
  C10: No change of a source goes unnoticed: if the data that a Bundle's sources resolve to differs
  between two states of the cluster (in the certificates or in the error), then one of the
  events between the states put the Bundle on the queue of the controller.
\<close>

theorem changed_sources_enqueue_Bundle:
  assumes "cluster_run cl evs cl'" and "delivers handle" and "bd \<in> set bundles"
    and "reads lib (opt_Namespace (bb_Options builder)) missing rd cl"
    and "reads lib (opt_Namespace (bb_Options builder)) missing rd' cl'"
    and "BuildBundle parse now lib rd builder (spec_Sources (bd_Spec bd)) \<noteq> BuildBundle parse now lib rd' builder (spec_Sources (bd_Spec bd))"
  shows "\<exists>ev \<in> set evs. enqueues handle lib (bb_Options builder) bundles bd ev"
proof (rule ccontr)
  assume "\<not> ?thesis"
  then have "same_sources lib (opt_Namespace (bb_Options builder)) (spec_Sources (bd_Spec bd)) cl cl'"
    by (intro quiet_run [OF assms(1) _ assms(2,3)]) blast
  from add_sources_cong [OF assms(4,5) refl this] assms(6) show False by (simp add: BuildBundle_def)
qed

section \<open>The namespaces\<close>

lemma quiet_namespaces:
  assumes "cluster_run cl evs cl'" and "\<And>ev. ev \<in> set evs \<Longrightarrow> \<not> enqueues handle lib opts bundles bd ev"
    and "delivers handle" and "bd \<in> set bundles"
    and "bundleTargetNamespaceSelector lib (spec_Target (bd_Spec bd)) = Inr sel"
  shows "filter (lib_Matches lib sel \<circ> om_Labels \<circ> ns_Meta) (cl_Namespaces cl') = filter (lib_Matches lib sel \<circ> om_Labels \<circ> ns_Meta) (cl_Namespaces cl)"
  using assms(1,2)
proof induction
  case (step cl ev cl1 evs cl2)
  have "filter (lib_Matches lib sel \<circ> om_Labels \<circ> ns_Meta) (cl_Namespaces cl1) = filter (lib_Matches lib sel \<circ> om_Labels \<circ> ns_Meta) (cl_Namespaces cl)"
    using step.hyps(1)
  proof cases
    case (namespace_change c)
    have "\<not> (lib_Matches lib sel \<circ> om_Labels \<circ> ns_Meta) x" if "x \<in> set (change_objects c)" for x
      using watch_requests_in [OF _ assms(3) _ _ assms(4), of ev "\<lambda>obj. True" "namespace_fn lib" "bundle_watches lib opts" "ns_Meta x"]
        step.prems [of ev] that namespace_change assms(5) by (auto simp: watched_kinds enqueues_def namespace_fn_def list_all_iff)
    then show ?thesis by (simp add: namespace_change filter_change)
  qed simp_all
  with step show ?case by (simp add: comp_def)
qed simp

text \<open>
  C36: No change of a namespace goes unnoticed: if the set of targets that a Bundle wants differs
  between two states of the cluster, then one of the events between them put the Bundle on
  the queue of the controller.
\<close>

theorem changed_namespaces_enqueue_Bundle:
  assumes "cluster_run cl evs cl'" and "delivers handle" and "bd \<in> set bundles"
    and "bundleTargetNamespaceSelector lib (spec_Target (bd_Spec bd)) = Inr sel"
    and "desired_targets opts bd (filter (lib_Matches lib sel \<circ> om_Labels \<circ> ns_Meta) (cl_Namespaces cl)) [] \<noteq>
         desired_targets opts bd (filter (lib_Matches lib sel \<circ> om_Labels \<circ> ns_Meta) (cl_Namespaces cl')) []"
  shows "\<exists>ev \<in> set evs. enqueues handle lib opts bundles bd ev"
  using quiet_namespaces [OF assms(1) _ assms(2,3,4), of opts] assms(5) by metis

section \<open>The target cache\<close>

lemma set_cache_namespaces: "set (cache_namespaces namespaces acc) = (set namespaces - {[]}) \<union> set acc"
  by (induction namespaces acc rule: cache_namespaces.induct) auto

text \<open>
  C37: The target cache holds every target that a Bundle wants: it watches all namespaces when no
  target namespaces are configured, and else the namespace of each desired target (namespaces
  have names).
\<close>

theorem caches_cover_targets:
  assumes "\<And>n. n \<in> set nss \<Longrightarrow> om_Name (ns_Meta n) \<noteq> []" and "res \<in> set (desired_targets opts bd nss [])"
  shows "(case co_DefaultNamespaces (target_cache_options opts) of
            None \<Rightarrow> opt_TargetNamespaces opts = []
          | Some namespaces \<Rightarrow> nn_Namespace (res_NamespacedName res) \<in> set namespaces)"
  using assms
  by (auto simp: set_desired namespace_selected_def resource_for_def target_cache_options_def setupCacheNamespaces_def
      set_cache_namespaces CacheOpts_def KindConfigMap_def KindSecret_def BundleKind_def)


section \<open>A cluster that changes\<close>

text \<open>A reader that answers from the objects of the cluster, and a handler that delivers at once.\<close>

definition find_object :: "(string \<Rightarrow> gerr) \<Rightarrow> ('o \<Rightarrow> ObjectMeta) \<Rightarrow> 'o list \<Rightarrow> string \<Rightarrow> string \<Rightarrow> gerr + 'o" where
  "find_object missing meta objs ns name =
     (case List.find (\<lambda>x. om_Namespace (meta x) = ns \<and> om_Name (meta x) = name) objs of
        None \<Rightarrow> Inl (missing name) | Some x \<Rightarrow> Inr x)"

definition list_objects :: "'sel labels_lib \<Rightarrow> string \<Rightarrow> ('o \<Rightarrow> ObjectMeta) \<Rightarrow> 'o list \<Rightarrow> 'sel \<Rightarrow> gerr + 'o list" where
  "list_objects lib ns meta objs sel =
     Inr (filter (\<lambda>x. om_Namespace (meta x) = ns \<and> lib_Matches lib sel (om_Labels (meta x))) objs)"

definition cluster_reader :: "'sel labels_lib \<Rightarrow> string \<Rightarrow> (string \<Rightarrow> string \<Rightarrow> gerr) \<Rightarrow> cluster \<Rightarrow> 'sel reader" where
  "cluster_reader lib ns missing cl =
     \<lparr>rd_GetConfigMap = find_object (missing KindConfigMap) cm_Meta (cl_ConfigMaps cl),
      rd_ListConfigMaps = list_objects lib ns cm_Meta (cl_ConfigMaps cl),
      rd_GetSecret = find_object (missing KindSecret) sec_Meta (cl_Secrets cl),
      rd_ListSecrets = list_objects lib ns sec_Meta (cl_Secrets cl)\<rparr>"

interpretation configMaps: object_store lib ns cm_Meta "rd_GetConfigMap (cluster_reader lib ns missing cl)"
    "rd_ListConfigMaps (cluster_reader lib ns missing cl)" "missing KindConfigMap" "cl_ConfigMaps cl" for lib ns missing cl
  by unfold_locales (simp_all add: cluster_reader_def find_object_def list_objects_def)

interpretation secrets: object_store lib ns sec_Meta "rd_GetSecret (cluster_reader lib ns missing cl)"
    "rd_ListSecrets (cluster_reader lib ns missing cl)" "missing KindSecret" "cl_Secrets cl" for lib ns missing cl
  by unfold_locales (simp_all add: cluster_reader_def find_object_def list_objects_def)

lemma cluster_reader_reads: "reads lib ns missing (cluster_reader lib ns missing cl) cl"
  by (simp add: reads_def configMaps.object_store_axioms secrets.object_store_axioms)

definition example_handle ::
  "(ObjectMeta \<Rightarrow> bool) \<Rightarrow> (ObjectMeta \<Rightarrow> int + request list) \<Rightarrow> ObjectMeta list \<Rightarrow> request list" where
  "example_handle pred f ms =
     (if list_all pred ms then concat (map (\<lambda>m. case f m of Inl status \<Rightarrow> [] | Inr rs \<Rightarrow> rs) ms) else [])"

lemma example_handle_delivers: "delivers example_handle"
  by (force simp: delivers_def example_handle_def)

definition cas_map :: ConfigMap where
  "cas_map = \<lparr>cm_Meta = example_meta ''cert-manager'' ''cas'', cm_Data = [(''ca.crt'', example_pem)], cm_BinaryData = []\<rparr>"

definition other_map :: ConfigMap where
  "other_map = \<lparr>cm_Meta = example_meta ''cert-manager'' ''other'', cm_Data = [], cm_BinaryData = []\<rparr>"

definition some_namespace :: Namespace where
  "some_namespace = \<lparr>ns_Meta = example_meta [] ''ns'', ns_Phase = ''Active''\<rparr>"

definition cluster_before :: cluster where
  "cluster_before = \<lparr>cl_ConfigMaps = [], cl_Secrets = [], cl_Namespaces = []\<rparr>"

definition cluster_after :: cluster where
  "cluster_after = \<lparr>cl_ConfigMaps = [other_map, cas_map], cl_Secrets = [], cl_Namespaces = [some_namespace]\<rparr>"

definition cluster_events :: "event list" where
  "cluster_events = [ConfigMapEvent (Created other_map), ConfigMapEvent (Created cas_map), NamespaceEvent (Created some_namespace)]"

lemma example_cluster_run: "cluster_run cluster_before cluster_events cluster_after"
proof -
  have "cluster_step cluster_before (ConfigMapEvent (Created other_map)) (cluster_before\<lparr>cl_ConfigMaps := [other_map]\<rparr>)"
    using cluster_step.configMap [of "Created other_map" cluster_before] by (simp add: cluster_before_def)
  moreover have "cluster_step (cluster_before\<lparr>cl_ConfigMaps := [other_map]\<rparr>) (ConfigMapEvent (Created cas_map))
      (cluster_before\<lparr>cl_ConfigMaps := [other_map, cas_map]\<rparr>)"
    using cluster_step.configMap [of "Created cas_map" "cluster_before\<lparr>cl_ConfigMaps := [other_map]\<rparr>"] by (simp add: cluster_before_def)
  moreover have "cluster_step (cluster_before\<lparr>cl_ConfigMaps := [other_map, cas_map]\<rparr>) (NamespaceEvent (Created some_namespace)) cluster_after"
    using cluster_step.namespace_change [of "Created some_namespace" "cluster_before\<lparr>cl_ConfigMaps := [other_map, cas_map]\<rparr>"]
    by (simp add: cluster_before_def cluster_after_def)
  ultimately show ?thesis unfolding cluster_events_def by (blast intro: cluster_run.intros)
qed

definition watch_bundle :: Bundle where
  "watch_bundle = example_bundle\<lparr>bd_Spec := (bd_Spec example_bundle)\<lparr>spec_Sources := [example_source ''cas'']\<rparr>\<rparr>"

abbreviation not_here :: "string \<Rightarrow> string \<Rightarrow> gerr" where
  "not_here kind name \<equiv> ApiNotFound name"

abbreviation example_cluster_reader :: "cluster \<Rightarrow> LabelSelector option reader" where
  "example_cluster_reader \<equiv> cluster_reader example_lib ''cert-manager'' not_here"

lemma example_resolved:
  "BuildBundle example_parse 50 example_lib (example_cluster_reader cluster_before) example_builder [example_source ''cas''] =
     Err (NotFoundError (Wrapf (''failed to get ConfigMap '' @ ''cert-manager'' @ ''/'' @ ''cas'' @ '': '') (ApiNotFound ''cas'')))"
  "\<exists>d. BuildBundle example_parse 50 example_lib (example_cluster_reader cluster_after) example_builder [example_source ''cas''] = Ok d"
proof -
  show "BuildBundle example_parse 50 example_lib (example_cluster_reader cluster_before) example_builder [example_source ''cas''] =
     Err (NotFoundError (Wrapf (''failed to get ConfigMap '' @ ''cert-manager'' @ ''/'' @ ''cas'' @ '': '') (ApiNotFound ''cas'')))"
    by (simp add: BuildBundle_def add_source_def example_source_def example_ref_def configMapBundleSource_addToCertPool_def
        select_objects_def cluster_reader_def find_object_def cluster_before_def apierrors_IsNotFound_def Let_def)
  show "\<exists>d. BuildBundle example_parse 50 example_lib (example_cluster_reader cluster_after) example_builder [example_source ''cas''] = Ok d"
    using example_accepts
    by (auto simp: BuildBundle_def add_source_def example_source_def example_ref_def configMapBundleSource_addToCertPool_def
        select_objects_def cluster_reader_def find_object_def cluster_after_def other_map_def cas_map_def example_meta_def
        configMap_add_def add_value_def example_add Let_def Size_def AddCert_def accepts_cert_def build_pool_def new_pool_def)
qed

lemma changed_sources_enqueue_Bundle_witness:
  "\<exists>ev \<in> set cluster_events. enqueues example_handle example_lib (bb_Options example_builder) [watch_bundle] watch_bundle ev"
proof (rule changed_sources_enqueue_Bundle [OF example_cluster_run example_handle_delivers])
  show "reads example_lib (opt_Namespace (bb_Options example_builder)) not_here (example_cluster_reader cluster_before) cluster_before"
    "reads example_lib (opt_Namespace (bb_Options example_builder)) not_here (example_cluster_reader cluster_after) cluster_after"
    by (simp_all add: cluster_reader_reads)
  show "BuildBundle example_parse 50 example_lib (example_cluster_reader cluster_before) example_builder (spec_Sources (bd_Spec watch_bundle)) \<noteq>
      BuildBundle example_parse 50 example_lib (example_cluster_reader cluster_after) example_builder (spec_Sources (bd_Spec watch_bundle))"
    using example_resolved by (auto simp: watch_bundle_def)
qed simp

lemma changed_namespaces_enqueue_Bundle_witness:
  "\<exists>ev \<in> set cluster_events. enqueues example_handle example_lib (bb_Options example_builder) [watch_bundle] watch_bundle ev"
proof (rule changed_namespaces_enqueue_Bundle [OF example_cluster_run example_handle_delivers])
  show "bundleTargetNamespaceSelector example_lib (spec_Target (bd_Spec watch_bundle)) = Inr (lib_Everything example_lib)"
    by (simp add: watch_bundle_def example_bundle_def bundleTargetNamespaceSelector_def)
  show "desired_targets (bb_Options example_builder) watch_bundle
      (filter (lib_Matches example_lib (lib_Everything example_lib) \<circ> om_Labels \<circ> ns_Meta) (cl_Namespaces cluster_before)) [] \<noteq>
    desired_targets (bb_Options example_builder) watch_bundle
      (filter (lib_Matches example_lib (lib_Everything example_lib) \<circ> om_Labels \<circ> ns_Meta) (cl_Namespaces cluster_after)) []"
    by (simp add: cluster_before_def cluster_after_def some_namespace_def example_lib_def example_meta_def example_builder_def
        NamespaceTerminating_def watch_bundle_def example_bundle_def insert_key_def Let_def)
qed simp

lemma caches_cover_targets_witness:
  "nn_Namespace (res_NamespacedName \<lparr>res_Kind = KindConfigMap, res_NamespacedName = \<lparr>nn_Namespace = ''ns'', nn_Name = ''b''\<rparr>\<rparr>) \<in>
     set (the (co_DefaultNamespaces (target_cache_options ((bb_Options example_builder)\<lparr>opt_TargetNamespaces := [[], ''ns'']\<rparr>))))"
  using caches_cover_targets [of "[some_namespace]" "\<lparr>res_Kind = KindConfigMap, res_NamespacedName = \<lparr>nn_Namespace = ''ns'', nn_Name = ''b''\<rparr>\<rparr>"
      "(bb_Options example_builder)\<lparr>opt_TargetNamespaces := [[], ''ns'']\<rparr>" watch_bundle]
  by (simp add: some_namespace_def example_meta_def NamespaceTerminating_def watch_bundle_def example_bundle_def insert_key_def
      Let_def target_cache_options_def setupCacheNamespaces_def)

end
