(* ===== verification/ApplySchema.thy ===== *)
theory ApplySchema
  imports ApiTypes
begin

text \<open>
  The schema of the apply configurations: \<open>pkg/applyconfigurations/internal/internal.go\<close>, its YAML
  document as data, one definition per named type, with the function that parses it once. The
  types of a schema are those of structured-merge-diff. \<open>conforms\<close> is what a schema says of a JSON
  value; it is a specification, the library that checks it is a parameter.
\<close>

section \<open>Schemas\<close>

datatype schema_scalar = SString | SNumeric | SBoolean | SUntyped

datatype relationship = Atomic | Associative | Separable

datatype type_ref = NamedType string | Inlined atom
and atom = Atom (atom_scalar: "schema_scalar option") (atom_list: "list_type option") (atom_map: "map_type option")
and list_type = ListType type_ref relationship "string list" \<comment> \<open>elements, relationship, keys\<close>
and map_type = MapType "struct_field list" "type_ref option" "relationship option" \<comment> \<open>fields, other elements, relationship\<close>
and struct_field = Field string type_ref "string option" \<comment> \<open>name, type, default\<close>

abbreviation scalar_atom :: "schema_scalar \<Rightarrow> atom" where "scalar_atom s \<equiv> Atom (Some s) None None"
abbreviation map_atom :: "struct_field list \<Rightarrow> type_ref option \<Rightarrow> relationship option \<Rightarrow> atom" where
  "map_atom fs e r \<equiv> Atom None None (Some (MapType fs e r))"
abbreviation string_type :: type_ref where "string_type \<equiv> Inlined (scalar_atom SString)"
abbreviation numeric_type :: type_ref where "numeric_type \<equiv> Inlined (scalar_atom SNumeric)"
abbreviation boolean_type :: type_ref where "boolean_type \<equiv> Inlined (scalar_atom SBoolean)"
abbreviation string_map_type :: type_ref where "string_map_type \<equiv> Inlined (map_atom [] (Some string_type) None)"

definition v1alpha1_type :: "string \<Rightarrow> string" where
  "v1alpha1_type n = ''com.github.cert-manager.trust-manager.pkg.apis.trust.v1alpha1.'' @ n"

definition v1alpha2_type :: "string \<Rightarrow> string" where
  "v1alpha2_type n = ''com.github.cert-manager.trust-manager.pkg.apis.trustmanager.v1alpha2.'' @ n"

definition meta_type :: "string \<Rightarrow> string" where
  "meta_type n = ''io.k8s.apimachinery.pkg.apis.meta.v1.'' @ n"

definition types_type :: "string \<Rightarrow> string" where
  "types_type n = ''io.k8s.apimachinery.pkg.types.'' @ n"

section \<open>The schema of the program\<close>

definition schema_AdditionalFormats :: "string \<times> atom" where
  "schema_AdditionalFormats = (v1alpha1_type ''AdditionalFormats'',
    map_atom [Field ''jks'' (NamedType (v1alpha1_type ''JKS'')) None,
      Field ''pkcs12'' (NamedType (v1alpha1_type ''PKCS12'')) None] None None)"

definition schema_Bundle :: "string \<times> atom" where
  "schema_Bundle = (v1alpha1_type ''Bundle'',
    map_atom [Field ''apiVersion'' string_type None,
      Field ''kind'' string_type None,
      Field ''metadata'' (NamedType (meta_type ''ObjectMeta'')) None,
      Field ''spec'' (NamedType (v1alpha1_type ''BundleSpec'')) None,
      Field ''status'' (NamedType (v1alpha1_type ''BundleStatus'')) None] None None)"

definition schema_BundleSource :: "string \<times> atom" where
  "schema_BundleSource = (v1alpha1_type ''BundleSource'',
    map_atom [Field ''configMap'' (NamedType (v1alpha1_type ''SourceObjectKeySelector'')) None,
      Field ''inLine'' string_type None,
      Field ''secret'' (NamedType (v1alpha1_type ''SourceObjectKeySelector'')) None,
      Field ''useDefaultCAs'' boolean_type None] None (Some Atomic))"

definition schema_BundleSpec :: "string \<times> atom" where
  "schema_BundleSpec = (v1alpha1_type ''BundleSpec'',
    map_atom [Field ''sources'' (Inlined (Atom None (Some (ListType (NamedType (v1alpha1_type ''BundleSource'')) Atomic [])) None)) None,
      Field ''target'' (NamedType (v1alpha1_type ''BundleTarget'')) None] None None)"

definition schema_BundleStatus :: "string \<times> atom" where
  "schema_BundleStatus = (v1alpha1_type ''BundleStatus'',
    map_atom [Field ''conditions'' (Inlined (Atom None (Some (ListType (NamedType (meta_type ''Condition'')) Associative [''type''])) None)) None,
      Field ''defaultCAVersion'' string_type None] None None)"

definition schema_BundleTarget :: "string \<times> atom" where
  "schema_BundleTarget = (v1alpha1_type ''BundleTarget'',
    map_atom [Field ''additionalFormats'' (NamedType (v1alpha1_type ''AdditionalFormats'')) None,
      Field ''configMap'' (NamedType (v1alpha1_type ''TargetTemplate'')) None,
      Field ''namespaceSelector'' (NamedType (meta_type ''LabelSelector'')) None,
      Field ''secret'' (NamedType (v1alpha1_type ''TargetTemplate'')) None] None None)"

definition schema_JKS :: "string \<times> atom" where
  "schema_JKS = (v1alpha1_type ''JKS'',
    map_atom [Field ''key'' string_type None,
      Field ''password'' string_type (Some ''changeit'')] None (Some Atomic))"

definition schema_PKCS12 :: "string \<times> atom" where
  "schema_PKCS12 = (v1alpha1_type ''PKCS12'',
    map_atom [Field ''key'' string_type None,
      Field ''password'' string_type (Some []),
      Field ''profile'' (NamedType (v1alpha1_type ''PKCS12Profile'')) None] None (Some Atomic))"

definition schema_PKCS12Profile :: "string \<times> atom" where
  "schema_PKCS12Profile = (v1alpha1_type ''PKCS12Profile'',
    scalar_atom SString)"

definition schema_SourceObjectKeySelector :: "string \<times> atom" where
  "schema_SourceObjectKeySelector = (v1alpha1_type ''SourceObjectKeySelector'',
    map_atom [Field ''includeAllKeys'' boolean_type None,
      Field ''key'' string_type None,
      Field ''name'' string_type None,
      Field ''selector'' (NamedType (meta_type ''LabelSelector'')) None] None (Some Atomic))"

definition schema_TargetMetadata :: "string \<times> atom" where
  "schema_TargetMetadata = (v1alpha1_type ''TargetMetadata'',
    map_atom [Field ''annotations'' (string_map_type) None,
      Field ''labels'' (string_map_type) None] None None)"

definition schema_TargetTemplate :: "string \<times> atom" where
  "schema_TargetTemplate = (v1alpha1_type ''TargetTemplate'',
    map_atom [Field ''key'' string_type None,
      Field ''metadata'' (NamedType (v1alpha1_type ''TargetMetadata'')) None] None None)"

definition schema_Condition :: "string \<times> atom" where
  "schema_Condition = (meta_type ''Condition'',
    map_atom [Field ''lastTransitionTime'' (NamedType (meta_type ''Time'')) None,
      Field ''message'' string_type None,
      Field ''observedGeneration'' numeric_type None,
      Field ''reason'' string_type None,
      Field ''status'' (NamedType (meta_type ''ConditionStatus'')) None,
      Field ''type'' string_type None] None None)"

definition schema_ConditionStatus :: "string \<times> atom" where
  "schema_ConditionStatus = (meta_type ''ConditionStatus'',
    scalar_atom SString)"

definition schema_FieldsV1 :: "string \<times> atom" where
  "schema_FieldsV1 = (meta_type ''FieldsV1'',
    map_atom [] (Some (Inlined (Atom (Some SUntyped) (Some (ListType (NamedType ''__untyped_atomic_'') Atomic [])) (Some (MapType [] (Some (NamedType ''__untyped_deduced_'')) (Some Separable)))))) None)"

definition schema_LabelSelector :: "string \<times> atom" where
  "schema_LabelSelector = (meta_type ''LabelSelector'',
    map_atom [Field ''matchExpressions'' (Inlined (Atom None (Some (ListType (NamedType (meta_type ''LabelSelectorRequirement'')) Atomic [])) None)) None,
      Field ''matchLabels'' (string_map_type) None] None (Some Atomic))"

definition schema_LabelSelectorOperator :: "string \<times> atom" where
  "schema_LabelSelectorOperator = (meta_type ''LabelSelectorOperator'',
    scalar_atom SString)"

definition schema_LabelSelectorRequirement :: "string \<times> atom" where
  "schema_LabelSelectorRequirement = (meta_type ''LabelSelectorRequirement'',
    map_atom [Field ''key'' string_type None,
      Field ''operator'' (NamedType (meta_type ''LabelSelectorOperator'')) None,
      Field ''values'' (Inlined (Atom None (Some (ListType string_type Atomic [])) None)) None] None None)"

definition schema_ManagedFieldsEntry :: "string \<times> atom" where
  "schema_ManagedFieldsEntry = (meta_type ''ManagedFieldsEntry'',
    map_atom [Field ''apiVersion'' string_type None,
      Field ''fieldsType'' string_type None,
      Field ''fieldsV1'' (NamedType (meta_type ''FieldsV1'')) None,
      Field ''manager'' string_type None,
      Field ''operation'' (NamedType (meta_type ''ManagedFieldsOperationType'')) None,
      Field ''subresource'' string_type None,
      Field ''time'' (NamedType (meta_type ''Time'')) None] None None)"

definition schema_ManagedFieldsOperationType :: "string \<times> atom" where
  "schema_ManagedFieldsOperationType = (meta_type ''ManagedFieldsOperationType'',
    scalar_atom SString)"

definition schema_ObjectMeta :: "string \<times> atom" where
  "schema_ObjectMeta = (meta_type ''ObjectMeta'',
    map_atom [Field ''annotations'' (string_map_type) None,
      Field ''creationTimestamp'' (NamedType (meta_type ''Time'')) None,
      Field ''deletionGracePeriodSeconds'' numeric_type None,
      Field ''deletionTimestamp'' (NamedType (meta_type ''Time'')) None,
      Field ''finalizers'' (Inlined (Atom None (Some (ListType string_type Associative [])) None)) None,
      Field ''generateName'' string_type None,
      Field ''generation'' numeric_type None,
      Field ''labels'' (string_map_type) None,
      Field ''managedFields'' (Inlined (Atom None (Some (ListType (NamedType (meta_type ''ManagedFieldsEntry'')) Atomic [])) None)) None,
      Field ''name'' string_type None,
      Field ''namespace'' string_type None,
      Field ''ownerReferences'' (Inlined (Atom None (Some (ListType (NamedType (meta_type ''OwnerReference'')) Associative [''uid''])) None)) None,
      Field ''resourceVersion'' string_type None,
      Field ''selfLink'' string_type None,
      Field ''uid'' (NamedType (types_type ''UID'')) None] None None)"

definition schema_OwnerReference :: "string \<times> atom" where
  "schema_OwnerReference = (meta_type ''OwnerReference'',
    map_atom [Field ''apiVersion'' string_type None,
      Field ''blockOwnerDeletion'' boolean_type None,
      Field ''controller'' boolean_type None,
      Field ''kind'' string_type None,
      Field ''name'' string_type None,
      Field ''uid'' (NamedType (types_type ''UID'')) None] None (Some Atomic))"

definition schema_Time :: "string \<times> atom" where
  "schema_Time = (meta_type ''Time'',
    scalar_atom SUntyped)"

definition schema_UID :: "string \<times> atom" where
  "schema_UID = (types_type ''UID'',
    scalar_atom SString)"

definition schema_untyped_atomic :: "string \<times> atom" where
  "schema_untyped_atomic = (''__untyped_atomic_'',
    Atom (Some SUntyped) (Some (ListType (NamedType ''__untyped_atomic_'') Atomic [])) (Some (MapType [] (Some (NamedType ''__untyped_atomic_'')) (Some Atomic))))"

definition schema_untyped_deduced :: "string \<times> atom" where
  "schema_untyped_deduced = (''__untyped_deduced_'',
    Atom (Some SUntyped) (Some (ListType (NamedType ''__untyped_atomic_'') Atomic [])) (Some (MapType [] (Some (NamedType ''__untyped_deduced_'')) (Some Separable))))"

definition schemaYAML :: "(string \<times> atom) list" where
  "schemaYAML = [schema_AdditionalFormats, schema_Bundle, schema_BundleSource, schema_BundleSpec, schema_BundleStatus, schema_BundleTarget, schema_JKS, schema_PKCS12, schema_PKCS12Profile, schema_SourceObjectKeySelector, schema_TargetMetadata, schema_TargetTemplate, schema_Condition, schema_ConditionStatus, schema_FieldsV1, schema_LabelSelector, schema_LabelSelectorOperator, schema_LabelSelectorRequirement, schema_ManagedFieldsEntry, schema_ManagedFieldsOperationType, schema_ObjectMeta, schema_OwnerReference, schema_Time, schema_UID, schema_untyped_atomic, schema_untyped_deduced]"

section \<open>Parsing once\<close>

text \<open>
  The parser of the library, and \<open>sync.Once\<close>: the function runs at the first call only, also when
  it panics; the parser is then the nil pointer that \<open>NewParser\<close> returned with its error.
\<close>

record ('p, 'pt) typed_lib =
  tl_NewParser :: "(string \<times> atom) list \<Rightarrow> gerr + 'p"
  tl_Type :: "'p option \<Rightarrow> string \<Rightarrow> 'pt"

datatype 'p once = Not_done | Once_done "'p option"

definition Parser :: "('p, 'pt) typed_lib \<Rightarrow> 'p once \<Rightarrow> 'p option res \<times> 'p once" where
  "Parser lib parserOnce =
     (case parserOnce of
        Once_done parser \<Rightarrow> (Ok parser, parserOnce)
      | Not_done \<Rightarrow>
          (case tl_NewParser lib schemaYAML of
             Inl err \<Rightarrow> (Panic (''Failed to parse schema: '' @ error_text err), Once_done None)
           | Inr p \<Rightarrow> (Ok (Some p), Once_done (Some p))))"

section \<open>What a schema says of a value\<close>

datatype json = JNull | JBool bool | JNum int | JStr string | JList "json list" | JMap "(string \<times> json) list"

fun json_field :: "string \<Rightarrow> json \<Rightarrow> json option" where
  "json_field k (JMap es) = map_of es k"
| "json_field k _ = None"

fun field_type :: "struct_field list \<Rightarrow> string \<Rightarrow> type_ref option" where
  "field_type [] k = None"
| "field_type (Field n t d # fs) k = (if n = k then Some t else field_type fs k)"

fun element_type :: "map_type \<Rightarrow> string \<Rightarrow> type_ref option" where
  "element_type (MapType fs e r) k = (case field_type fs k of None \<Rightarrow> e | Some t \<Rightarrow> Some t)"

fun scalar_ok :: "schema_scalar option \<Rightarrow> json \<Rightarrow> bool" where
  "scalar_ok (Some SString) (JStr _) = True"
| "scalar_ok (Some SNumeric) (JNum _) = True"
| "scalar_ok (Some SBoolean) (JBool _) = True"
| "scalar_ok (Some SUntyped) _ = True"
| "scalar_ok _ _ = False"

text \<open>The elements of an associative list differ in their keys, or altogether when there are none.\<close>

definition keys_distinct_in :: "string list \<Rightarrow> json list \<Rightarrow> bool" where
  "keys_distinct_in keys vs =
     (if keys = [] then distinct vs
      else list_all (\<lambda>v. list_all (\<lambda>k. json_field k v \<noteq> None) keys) vs \<and>
           distinct (map (\<lambda>v. map (\<lambda>k. json_field k v) keys) vs))"

fun list_keys_ok :: "list_type \<Rightarrow> json list \<Rightarrow> bool" where
  "list_keys_ok (ListType t r keys) vs = (r = Associative \<longrightarrow> keys_distinct_in keys vs)"

fun list_element :: "list_type \<Rightarrow> type_ref" where
  "list_element (ListType t r keys) = t"

fun resolve :: "(string \<times> atom) list \<Rightarrow> type_ref \<Rightarrow> atom option" where
  "resolve types (NamedType n) = map_of types n"
| "resolve types (Inlined a) = Some a"

fun conforms :: "(string \<times> atom) list \<Rightarrow> type_ref \<Rightarrow> json \<Rightarrow> bool" where
  "conforms types t (JList vs) =
     (case Option.bind (resolve types t) atom_list of
        None \<Rightarrow> False
      | Some l \<Rightarrow> list_keys_ok l vs \<and> list_all (conforms types (list_element l)) vs)"
| "conforms types t (JMap es) =
     (case Option.bind (resolve types t) atom_map of
        None \<Rightarrow> False
      | Some m \<Rightarrow> distinct (map fst es) \<and>
          list_all (\<lambda>e. case element_type m (fst e) of None \<Rightarrow> False | Some t' \<Rightarrow> conforms types t' (snd e)) es)"
| "conforms types t JNull = (resolve types t \<noteq> None)"
| "conforms types t v = (case resolve types t of None \<Rightarrow> False | Some a \<Rightarrow> scalar_ok (atom_scalar a) v)"

section \<open>The named types are defined\<close>

fun refs :: "type_ref \<Rightarrow> string list"
and atom_refs :: "atom \<Rightarrow> string list"
and list_refs :: "list_type \<Rightarrow> string list"
and map_refs :: "map_type \<Rightarrow> string list"
and field_refs :: "struct_field \<Rightarrow> string list" where
  "refs (NamedType n) = [n]"
| "refs (Inlined a) = atom_refs a"
| "atom_refs (Atom s l m) = (case l of None \<Rightarrow> [] | Some l' \<Rightarrow> list_refs l') @ (case m of None \<Rightarrow> [] | Some m' \<Rightarrow> map_refs m')"
| "list_refs (ListType t r ks) = refs t"
| "map_refs (MapType fs e r) = concat (map field_refs fs) @ (case e of None \<Rightarrow> [] | Some t \<Rightarrow> refs t)"
| "field_refs (Field n t d) = refs t"

lemmas schema_defs = schema_AdditionalFormats_def schema_Bundle_def schema_BundleSource_def schema_BundleSpec_def schema_BundleStatus_def schema_BundleTarget_def schema_JKS_def schema_PKCS12_def schema_PKCS12Profile_def schema_SourceObjectKeySelector_def schema_TargetMetadata_def schema_TargetTemplate_def schema_Condition_def schema_ConditionStatus_def schema_FieldsV1_def schema_LabelSelector_def schema_LabelSelectorOperator_def schema_LabelSelectorRequirement_def schema_ManagedFieldsEntry_def schema_ManagedFieldsOperationType_def schema_ObjectMeta_def schema_OwnerReference_def schema_Time_def schema_UID_def schema_untyped_atomic_def schema_untyped_deduced_def

lemma schema_names_distinct: "distinct (map fst schemaYAML)"
  by code_simp

lemma schema_lookup: "(n, a) \<in> set schemaYAML \<Longrightarrow> map_of schemaYAML n = Some a"
  using schema_names_distinct by (rule map_of_is_SomeI)

lemma schema_closed: "list_all (\<lambda>(n, a). list_all (\<lambda>r. r \<in> set (map fst schemaYAML)) (atom_refs a)) schemaYAML"
  by code_simp

end
