(* ===== verification/ApplyConfig.thy ===== *)
theory ApplyConfig
  imports ApplySchema
begin

text \<open>
  The declarative configurations that server-side apply patches are built from: the package
  \<open>pkg/applyconfigurations/trust/v1alpha1\<close>, one record and one definition per method for every file.
  Every field is a pointer, a \<open>With\<close> method writes one field and returns its receiver; the calls on a
  Bundle's configuration are a datatype, so that chains of them are lists. The configurations of
  object metadata, of conditions and of label selectors come from client-go.
\<close>

section \<open>Configurations of client-go\<close>

record OwnerReferenceAC =
  orac_APIVersion :: "string option"
  orac_Kind :: "string option"
  orac_Name :: "string option"
  orac_UID :: "string option"

record ObjectMetaAC =
  omac_Name :: "string option"
  omac_GenerateName :: "string option"
  omac_Namespace :: "string option"
  omac_UID :: "string option"
  omac_ResourceVersion :: "string option"
  omac_Generation :: "int option"
  omac_CreationTimestamp :: "int option"
  omac_DeletionTimestamp :: "int option"
  omac_DeletionGracePeriodSeconds :: "int option"
  omac_Labels :: "string gomap option" \<comment> \<open>None is the nil map\<close>
  omac_Annotations :: "string gomap option"
  omac_OwnerReferences :: "OwnerReferenceAC list"
  omac_Finalizers :: "string list"

definition empty_ObjectMetaAC :: ObjectMetaAC where
  "empty_ObjectMetaAC =
     \<lparr>omac_Name = None, omac_GenerateName = None, omac_Namespace = None, omac_UID = None, omac_ResourceVersion = None,
      omac_Generation = None, omac_CreationTimestamp = None, omac_DeletionTimestamp = None,
      omac_DeletionGracePeriodSeconds = None, omac_Labels = None, omac_Annotations = None,
      omac_OwnerReferences = [], omac_Finalizers = []\<rparr>"

record ConditionAC =
  cac_Type :: "string option"
  cac_Status :: "string option"
  cac_ObservedGeneration :: "int option"
  cac_LastTransitionTime :: "int option"
  cac_Reason :: "string option"
  cac_Message :: "string option"

section \<open>The parts of a Bundle\<close>

record SourceObjectKeySelectorAC =
  sokac_Name :: "string option"
  sokac_Selector :: "LabelSelector option"
  sokac_Key :: "string option"
  sokac_IncludeAllKeys :: "bool option"

record BundleSourceAC =
  bsac_ConfigMap :: "SourceObjectKeySelectorAC option"
  bsac_Secret :: "SourceObjectKeySelectorAC option"
  bsac_InLine :: "string option"
  bsac_UseDefaultCAs :: "bool option"

record TargetMetadataAC =
  tmac_Annotations :: "string gomap option"
  tmac_Labels :: "string gomap option"

record TargetTemplateAC =
  ttac_Key :: "string option"
  ttac_Metadata :: "TargetMetadataAC option"

record KeySelectorAC =
  ksac_Key :: "string option"

record JKSAC = KeySelectorAC +
  jksac_Password :: "string option"

record PKCS12AC = KeySelectorAC +
  p12ac_Password :: "string option"
  p12ac_Profile :: "PKCS12Profile option"

record AdditionalFormatsAC =
  afac_JKS :: "JKSAC option"
  afac_PKCS12 :: "PKCS12AC option"

record BundleTargetAC =
  btac_ConfigMap :: "TargetTemplateAC option"
  btac_Secret :: "TargetTemplateAC option"
  btac_AdditionalFormats :: "AdditionalFormatsAC option"
  btac_NamespaceSelector :: "LabelSelector option"

record BundleSpecAC =
  specac_Sources :: "BundleSourceAC list"
  specac_Target :: "BundleTargetAC option"

record BundleStatusAC =
  stac_Conditions :: "ConditionAC list"
  stac_DefaultCAPackageVersion :: "string option"

section \<open>Constructors and setters of the parts\<close>

definition SourceObjectKeySelector_AC :: SourceObjectKeySelectorAC where
  "SourceObjectKeySelector_AC = \<lparr>sokac_Name = None, sokac_Selector = None, sokac_Key = None, sokac_IncludeAllKeys = None\<rparr>"

definition SourceObjectKeySelector_WithName :: "string \<Rightarrow> SourceObjectKeySelectorAC \<Rightarrow> SourceObjectKeySelectorAC" where
  "SourceObjectKeySelector_WithName value b = b\<lparr>sokac_Name := Some value\<rparr>"

definition SourceObjectKeySelector_WithSelector :: "LabelSelector option \<Rightarrow> SourceObjectKeySelectorAC \<Rightarrow> SourceObjectKeySelectorAC" where
  "SourceObjectKeySelector_WithSelector value b = b\<lparr>sokac_Selector := value\<rparr>"

definition SourceObjectKeySelector_WithKey :: "string \<Rightarrow> SourceObjectKeySelectorAC \<Rightarrow> SourceObjectKeySelectorAC" where
  "SourceObjectKeySelector_WithKey value b = b\<lparr>sokac_Key := Some value\<rparr>"

definition SourceObjectKeySelector_WithIncludeAllKeys :: "bool \<Rightarrow> SourceObjectKeySelectorAC \<Rightarrow> SourceObjectKeySelectorAC" where
  "SourceObjectKeySelector_WithIncludeAllKeys value b = b\<lparr>sokac_IncludeAllKeys := Some value\<rparr>"

definition BundleSource_AC :: BundleSourceAC where
  "BundleSource_AC = \<lparr>bsac_ConfigMap = None, bsac_Secret = None, bsac_InLine = None, bsac_UseDefaultCAs = None\<rparr>"

definition BundleSource_WithConfigMap :: "SourceObjectKeySelectorAC option \<Rightarrow> BundleSourceAC \<Rightarrow> BundleSourceAC" where
  "BundleSource_WithConfigMap value b = b\<lparr>bsac_ConfigMap := value\<rparr>"

definition BundleSource_WithSecret :: "SourceObjectKeySelectorAC option \<Rightarrow> BundleSourceAC \<Rightarrow> BundleSourceAC" where
  "BundleSource_WithSecret value b = b\<lparr>bsac_Secret := value\<rparr>"

definition BundleSource_WithInLine :: "string \<Rightarrow> BundleSourceAC \<Rightarrow> BundleSourceAC" where
  "BundleSource_WithInLine value b = b\<lparr>bsac_InLine := Some value\<rparr>"

definition BundleSource_WithUseDefaultCAs :: "bool \<Rightarrow> BundleSourceAC \<Rightarrow> BundleSourceAC" where
  "BundleSource_WithUseDefaultCAs value b = b\<lparr>bsac_UseDefaultCAs := Some value\<rparr>"

definition TargetTemplate_AC :: TargetTemplateAC where
  "TargetTemplate_AC = \<lparr>ttac_Key = None, ttac_Metadata = None\<rparr>"

definition TargetTemplate_WithKey :: "string \<Rightarrow> TargetTemplateAC \<Rightarrow> TargetTemplateAC" where
  "TargetTemplate_WithKey value b = b\<lparr>ttac_Key := Some value\<rparr>"

definition TargetTemplate_WithMetadata :: "TargetMetadataAC option \<Rightarrow> TargetTemplateAC \<Rightarrow> TargetTemplateAC" where
  "TargetTemplate_WithMetadata value b = b\<lparr>ttac_Metadata := value\<rparr>"

definition KeySelector_AC :: KeySelectorAC where
  "KeySelector_AC = \<lparr>ksac_Key = None\<rparr>"

definition KeySelector_WithKey :: "string \<Rightarrow> KeySelectorAC \<Rightarrow> KeySelectorAC" where
  "KeySelector_WithKey value b = b\<lparr>ksac_Key := Some value\<rparr>"

definition JKS_AC :: JKSAC where
  "JKS_AC = \<lparr>ksac_Key = None, jksac_Password = None\<rparr>"

definition JKS_WithKey :: "string \<Rightarrow> JKSAC \<Rightarrow> JKSAC" where
  "JKS_WithKey value b = b\<lparr>ksac_Key := Some value\<rparr>"

definition JKS_WithPassword :: "string \<Rightarrow> JKSAC \<Rightarrow> JKSAC" where
  "JKS_WithPassword value b = b\<lparr>jksac_Password := Some value\<rparr>"

definition PKCS12_AC :: PKCS12AC where
  "PKCS12_AC = \<lparr>ksac_Key = None, p12ac_Password = None, p12ac_Profile = None\<rparr>"

definition PKCS12_WithKey :: "string \<Rightarrow> PKCS12AC \<Rightarrow> PKCS12AC" where
  "PKCS12_WithKey value b = b\<lparr>ksac_Key := Some value\<rparr>"

definition PKCS12_WithPassword :: "string \<Rightarrow> PKCS12AC \<Rightarrow> PKCS12AC" where
  "PKCS12_WithPassword value b = b\<lparr>p12ac_Password := Some value\<rparr>"

definition PKCS12_WithProfile :: "PKCS12Profile \<Rightarrow> PKCS12AC \<Rightarrow> PKCS12AC" where
  "PKCS12_WithProfile value b = b\<lparr>p12ac_Profile := Some value\<rparr>"

definition AdditionalFormats_AC :: AdditionalFormatsAC where
  "AdditionalFormats_AC = \<lparr>afac_JKS = None, afac_PKCS12 = None\<rparr>"

definition AdditionalFormats_WithJKS :: "JKSAC option \<Rightarrow> AdditionalFormatsAC \<Rightarrow> AdditionalFormatsAC" where
  "AdditionalFormats_WithJKS value b = b\<lparr>afac_JKS := value\<rparr>"

definition AdditionalFormats_WithPKCS12 :: "PKCS12AC option \<Rightarrow> AdditionalFormatsAC \<Rightarrow> AdditionalFormatsAC" where
  "AdditionalFormats_WithPKCS12 value b = b\<lparr>afac_PKCS12 := value\<rparr>"

definition BundleTarget_AC :: BundleTargetAC where
  "BundleTarget_AC = \<lparr>btac_ConfigMap = None, btac_Secret = None, btac_AdditionalFormats = None, btac_NamespaceSelector = None\<rparr>"

definition BundleTarget_WithConfigMap :: "TargetTemplateAC option \<Rightarrow> BundleTargetAC \<Rightarrow> BundleTargetAC" where
  "BundleTarget_WithConfigMap value b = b\<lparr>btac_ConfigMap := value\<rparr>"

definition BundleTarget_WithSecret :: "TargetTemplateAC option \<Rightarrow> BundleTargetAC \<Rightarrow> BundleTargetAC" where
  "BundleTarget_WithSecret value b = b\<lparr>btac_Secret := value\<rparr>"

definition BundleTarget_WithAdditionalFormats :: "AdditionalFormatsAC option \<Rightarrow> BundleTargetAC \<Rightarrow> BundleTargetAC" where
  "BundleTarget_WithAdditionalFormats value b = b\<lparr>btac_AdditionalFormats := value\<rparr>"

definition BundleTarget_WithNamespaceSelector :: "LabelSelector option \<Rightarrow> BundleTargetAC \<Rightarrow> BundleTargetAC" where
  "BundleTarget_WithNamespaceSelector value b = b\<lparr>btac_NamespaceSelector := value\<rparr>"

text \<open>Appending pointers to a list of values panics at the first nil one.\<close>

fun append_values :: "string \<Rightarrow> 'a list \<Rightarrow> 'a option list \<Rightarrow> 'a list res" where
  "append_values func xs [] = Ok xs"
| "append_values func xs (None # vs) = Panic (''nil value passed to '' @ func)"
| "append_values func xs (Some v # vs) = append_values func (xs @ [v]) vs"

definition BundleStatus_AC :: BundleStatusAC where
  "BundleStatus_AC = \<lparr>stac_Conditions = [], stac_DefaultCAPackageVersion = None\<rparr>"

definition BundleStatus_WithConditions :: "ConditionAC option list \<Rightarrow> BundleStatusAC \<Rightarrow> BundleStatusAC res" where
  "BundleStatus_WithConditions values b =
     bind_res (append_values ''WithConditions'' (stac_Conditions b) values) (\<lambda>cs. Ok (b\<lparr>stac_Conditions := cs\<rparr>))"

definition BundleStatus_WithDefaultCAPackageVersion :: "string \<Rightarrow> BundleStatusAC \<Rightarrow> BundleStatusAC" where
  "BundleStatus_WithDefaultCAPackageVersion value b = b\<lparr>stac_DefaultCAPackageVersion := Some value\<rparr>"

definition BundleSpec_AC :: BundleSpecAC where
  "BundleSpec_AC = \<lparr>specac_Sources = [], specac_Target = None\<rparr>"

definition BundleSpec_WithSources :: "BundleSourceAC option list \<Rightarrow> BundleSpecAC \<Rightarrow> BundleSpecAC res" where
  "BundleSpec_WithSources values b =
     bind_res (append_values ''WithSources'' (specac_Sources b) values) (\<lambda>ss. Ok (b\<lparr>specac_Sources := ss\<rparr>))"

definition BundleSpec_WithTarget :: "BundleTargetAC option \<Rightarrow> BundleSpecAC \<Rightarrow> BundleSpecAC" where
  "BundleSpec_WithTarget value b = b\<lparr>specac_Target := value\<rparr>"

text \<open>Putting entries into a map that may be nil: an empty argument leaves the nil map.\<close>

definition put_entries :: "string gomap option \<Rightarrow> string gomap \<Rightarrow> string gomap option" where
  "put_entries m es =
     (let m' = (if m = None \<and> length es > 0 then Some [] else m)
      in if es = [] then m' else Some (map_copy (the m') es))"

definition TargetMetadata_AC :: TargetMetadataAC where
  "TargetMetadata_AC = \<lparr>tmac_Annotations = None, tmac_Labels = None\<rparr>"

definition TargetMetadata_WithAnnotations :: "string gomap \<Rightarrow> TargetMetadataAC \<Rightarrow> TargetMetadataAC" where
  "TargetMetadata_WithAnnotations es b = b\<lparr>tmac_Annotations := put_entries (tmac_Annotations b) es\<rparr>"

definition TargetMetadata_WithLabels :: "string gomap \<Rightarrow> TargetMetadataAC \<Rightarrow> TargetMetadataAC" where
  "TargetMetadata_WithLabels es b = b\<lparr>tmac_Labels := put_entries (tmac_Labels b) es\<rparr>"

section \<open>The Bundle\<close>

text \<open>The two kinds of object differ only in the types of their specification and status.\<close>

record ('sp, 'st) objectAC =
  bac_Kind :: "string option"
  bac_APIVersion :: "string option"
  bac_ObjectMeta :: "ObjectMetaAC option"
  bac_Spec :: "'sp option"
  bac_Status :: "'st option"

type_synonym BundleAC = "(BundleSpecAC, BundleStatusAC) objectAC"

definition ensureObjectMetaApplyConfigurationExists :: "('sp, 'st) objectAC \<Rightarrow> ('sp, 'st) objectAC" where
  "ensureObjectMetaApplyConfigurationExists b =
     (if bac_ObjectMeta b = None then b\<lparr>bac_ObjectMeta := Some empty_ObjectMetaAC\<rparr> else b)"

definition write_meta :: "(ObjectMetaAC \<Rightarrow> ObjectMetaAC) \<Rightarrow> ('sp, 'st) objectAC \<Rightarrow> ('sp, 'st) objectAC" where
  \<comment> \<open>a write through the embedded metadata pointer\<close>
  "write_meta f b =
     (let b' = ensureObjectMetaApplyConfigurationExists b
      in b'\<lparr>bac_ObjectMeta := map_option f (bac_ObjectMeta b')\<rparr>)"

datatype ('sp, 'st) bundle_call =
    WithKind string
  | WithAPIVersion string
  | WithName string
  | WithGenerateName string
  | WithNamespace string
  | WithUID string
  | WithResourceVersion string
  | WithGeneration int
  | WithCreationTimestamp int
  | WithDeletionTimestamp int
  | WithDeletionGracePeriodSeconds int
  | WithLabels "string gomap"
  | WithAnnotations "string gomap"
  | WithOwnerReferences "OwnerReferenceAC option list"
  | WithFinalizers "string list"
  | WithSpec "'sp option"
  | WithStatus "'st option"

fun call :: "('sp, 'st) bundle_call \<Rightarrow> ('sp, 'st) objectAC \<Rightarrow> ('sp, 'st) objectAC res" where
  "call (WithKind v) b = Ok (b\<lparr>bac_Kind := Some v\<rparr>)"
| "call (WithAPIVersion v) b = Ok (b\<lparr>bac_APIVersion := Some v\<rparr>)"
| "call (WithName v) b = Ok (write_meta (\<lambda>m. m\<lparr>omac_Name := Some v\<rparr>) b)"
| "call (WithGenerateName v) b = Ok (write_meta (\<lambda>m. m\<lparr>omac_GenerateName := Some v\<rparr>) b)"
| "call (WithNamespace v) b = Ok (write_meta (\<lambda>m. m\<lparr>omac_Namespace := Some v\<rparr>) b)"
| "call (WithUID v) b = Ok (write_meta (\<lambda>m. m\<lparr>omac_UID := Some v\<rparr>) b)"
| "call (WithResourceVersion v) b = Ok (write_meta (\<lambda>m. m\<lparr>omac_ResourceVersion := Some v\<rparr>) b)"
| "call (WithGeneration v) b = Ok (write_meta (\<lambda>m. m\<lparr>omac_Generation := Some v\<rparr>) b)"
| "call (WithCreationTimestamp v) b = Ok (write_meta (\<lambda>m. m\<lparr>omac_CreationTimestamp := Some v\<rparr>) b)"
| "call (WithDeletionTimestamp v) b = Ok (write_meta (\<lambda>m. m\<lparr>omac_DeletionTimestamp := Some v\<rparr>) b)"
| "call (WithDeletionGracePeriodSeconds v) b = Ok (write_meta (\<lambda>m. m\<lparr>omac_DeletionGracePeriodSeconds := Some v\<rparr>) b)"
| "call (WithLabels es) b = Ok (write_meta (\<lambda>m. m\<lparr>omac_Labels := put_entries (omac_Labels m) es\<rparr>) b)"
| "call (WithAnnotations es) b = Ok (write_meta (\<lambda>m. m\<lparr>omac_Annotations := put_entries (omac_Annotations m) es\<rparr>) b)"
| "call (WithOwnerReferences vs) b =
     (let b' = ensureObjectMetaApplyConfigurationExists b
      in bind_res (append_values ''WithOwnerReferences'' (omac_OwnerReferences (the (bac_ObjectMeta b'))) vs)
           (\<lambda>rs. Ok (write_meta (\<lambda>m. m\<lparr>omac_OwnerReferences := rs\<rparr>) b')))"
| "call (WithFinalizers vs) b = Ok (write_meta (\<lambda>m. m\<lparr>omac_Finalizers := omac_Finalizers m @ vs\<rparr>) b)"
| "call (WithSpec v) b = Ok (b\<lparr>bac_Spec := v\<rparr>)"
| "call (WithStatus v) b = Ok (b\<lparr>bac_Status := v\<rparr>)"

fun calls :: "('sp, 'st) bundle_call list \<Rightarrow> ('sp, 'st) objectAC \<Rightarrow> ('sp, 'st) objectAC res" where
  "calls [] b = Ok b"
| "calls (c # cs) b = bind_res (call c b) (calls cs)"

definition empty_BundleAC :: "('sp, 'st) objectAC" where
  "empty_BundleAC = \<lparr>bac_Kind = None, bac_APIVersion = None, bac_ObjectMeta = None, bac_Spec = None, bac_Status = None\<rparr>"

definition Bundle_AC :: "string \<Rightarrow> BundleAC res" where
  "Bundle_AC name = calls [WithName name, WithKind ''Bundle'', WithAPIVersion ''trust.cert-manager.io/v1alpha1''] empty_BundleAC"

text \<open>The library call that reads the managed fields with a type of the schema is the parameter \<open>ExtractInto\<close>.\<close>

definition ExtractBundleFrom ::
  "('p, 'pt) typed_lib \<Rightarrow> (Bundle \<Rightarrow> 'pt \<Rightarrow> string \<Rightarrow> string \<Rightarrow> gerr + BundleAC)
     \<Rightarrow> Bundle \<Rightarrow> string \<Rightarrow> string \<Rightarrow> 'p once \<Rightarrow> BundleAC res \<times> 'p once" where
  "ExtractBundleFrom lib ExtractInto bd fieldManager subresource parserOnce =
     (case Parser lib parserOnce of
        (parser, parserOnce') \<Rightarrow>
          (bind_res parser (\<lambda>p.
             case ExtractInto bd (tl_Type lib p ''com.github.cert-manager.trust-manager.pkg.apis.trust.v1alpha1.Bundle'')
                    fieldManager subresource of
               Inl err \<Rightarrow> Err err
             | Inr b \<Rightarrow> calls [WithName (om_Name (bd_Meta bd)), WithKind ''Bundle'',
                              WithAPIVersion ''trust.cert-manager.io/v1alpha1''] b), parserOnce'))"

definition ExtractBundle ::
  "('p, 'pt) typed_lib \<Rightarrow> (Bundle \<Rightarrow> 'pt \<Rightarrow> string \<Rightarrow> string \<Rightarrow> gerr + BundleAC)
     \<Rightarrow> Bundle \<Rightarrow> string \<Rightarrow> 'p once \<Rightarrow> BundleAC res \<times> 'p once" where
  "ExtractBundle lib ExtractInto bd fieldManager = ExtractBundleFrom lib ExtractInto bd fieldManager []"

definition ExtractBundleStatus ::
  "('p, 'pt) typed_lib \<Rightarrow> (Bundle \<Rightarrow> 'pt \<Rightarrow> string \<Rightarrow> string \<Rightarrow> gerr + BundleAC)
     \<Rightarrow> Bundle \<Rightarrow> string \<Rightarrow> 'p once \<Rightarrow> BundleAC res \<times> 'p once" where
  "ExtractBundleStatus lib ExtractInto bd fieldManager = ExtractBundleFrom lib ExtractInto bd fieldManager ''status''"

text \<open>The getters; those of metadata create the metadata when there is none.\<close>

definition GetKind :: "BundleAC \<Rightarrow> string option" where "GetKind b = bac_Kind b"
definition GetAPIVersion :: "BundleAC \<Rightarrow> string option" where "GetAPIVersion b = bac_APIVersion b"

definition GetName :: "BundleAC \<Rightarrow> string option \<times> BundleAC" where
  "GetName b = (let b' = ensureObjectMetaApplyConfigurationExists b in (Option.bind (bac_ObjectMeta b') omac_Name, b'))"

definition GetNamespace :: "BundleAC \<Rightarrow> string option \<times> BundleAC" where
  "GetNamespace b = (let b' = ensureObjectMetaApplyConfigurationExists b in (Option.bind (bac_ObjectMeta b') omac_Namespace, b'))"

section \<open>What a chain of calls builds\<close>

definition meta_of :: "('sp, 'st) objectAC \<Rightarrow> ObjectMetaAC" where
  "meta_of b = (case bac_ObjectMeta b of None \<Rightarrow> empty_ObjectMetaAC | Some m \<Rightarrow> m)"

lemma write_meta_simps [simp]:
  "meta_of (write_meta f b) = f (meta_of b)" "bac_Kind (write_meta f b) = bac_Kind b"
  "bac_APIVersion (write_meta f b) = bac_APIVersion b" "bac_Spec (write_meta f b) = bac_Spec b"
  "bac_Status (write_meta f b) = bac_Status b"
  by (auto simp: write_meta_def meta_of_def ensureObjectMetaApplyConfigurationExists_def Let_def)

lemma ensure_simps [simp]:
  "meta_of (ensureObjectMetaApplyConfigurationExists b) = meta_of b"
  "the (bac_ObjectMeta (ensureObjectMetaApplyConfigurationExists b)) = meta_of b"
  "bac_Kind (ensureObjectMetaApplyConfigurationExists b) = bac_Kind b"
  "bac_APIVersion (ensureObjectMetaApplyConfigurationExists b) = bac_APIVersion b"
  "bac_Spec (ensureObjectMetaApplyConfigurationExists b) = bac_Spec b"
  "bac_Status (ensureObjectMetaApplyConfigurationExists b) = bac_Status b"
  by (auto simp: meta_of_def ensureObjectMetaApplyConfigurationExists_def)

lemma meta_of_updates [simp]:
  "meta_of (b\<lparr>bac_Kind := k\<rparr>) = meta_of b" "meta_of (b\<lparr>bac_APIVersion := a\<rparr>) = meta_of b"
  "meta_of (b\<lparr>bac_Spec := sp\<rparr>) = meta_of b" "meta_of (b\<lparr>bac_Status := st\<rparr>) = meta_of b"
  by (simp_all add: meta_of_def)

lemma append_values_cases:
  "append_values func xs vs = (if None \<in> set vs then Panic (''nil value passed to '' @ func) else Ok (xs @ map the vs))"
  by (induction func xs vs rule: append_values.induct) auto

lemma put_entries_entries: "entries (put_entries m es) = map_copy (entries m) es"
  by (cases m) (auto simp: put_entries_def Let_def)

text \<open>The scalar fields by name, their values, and the field a call sets.\<close>

datatype scalar_field = TheKind | TheAPIVersion | TheName | TheGenerateName | TheNamespace | TheUID | TheResourceVersion | TheGeneration | TheCreationTimestamp | TheDeletionTimestamp | TheDeletionGracePeriodSeconds

datatype scalar_value = Str string | Num int

fun scalar :: "scalar_field \<Rightarrow> ('sp, 'st) objectAC \<Rightarrow> scalar_value option" where
  "scalar TheKind b = map_option Str (bac_Kind b)"
| "scalar TheAPIVersion b = map_option Str (bac_APIVersion b)"
| "scalar TheName b = map_option Str (omac_Name (meta_of b))"
| "scalar TheGenerateName b = map_option Str (omac_GenerateName (meta_of b))"
| "scalar TheNamespace b = map_option Str (omac_Namespace (meta_of b))"
| "scalar TheUID b = map_option Str (omac_UID (meta_of b))"
| "scalar TheResourceVersion b = map_option Str (omac_ResourceVersion (meta_of b))"
| "scalar TheGeneration b = map_option Num (omac_Generation (meta_of b))"
| "scalar TheCreationTimestamp b = map_option Num (omac_CreationTimestamp (meta_of b))"
| "scalar TheDeletionTimestamp b = map_option Num (omac_DeletionTimestamp (meta_of b))"
| "scalar TheDeletionGracePeriodSeconds b = map_option Num (omac_DeletionGracePeriodSeconds (meta_of b))"

fun scalar_call :: "('sp, 'st) bundle_call \<Rightarrow> (scalar_field \<times> scalar_value) option" where
  "scalar_call (WithKind v) = Some (TheKind, Str v)"
| "scalar_call (WithAPIVersion v) = Some (TheAPIVersion, Str v)"
| "scalar_call (WithName v) = Some (TheName, Str v)"
| "scalar_call (WithGenerateName v) = Some (TheGenerateName, Str v)"
| "scalar_call (WithNamespace v) = Some (TheNamespace, Str v)"
| "scalar_call (WithUID v) = Some (TheUID, Str v)"
| "scalar_call (WithResourceVersion v) = Some (TheResourceVersion, Str v)"
| "scalar_call (WithGeneration v) = Some (TheGeneration, Num v)"
| "scalar_call (WithCreationTimestamp v) = Some (TheCreationTimestamp, Num v)"
| "scalar_call (WithDeletionTimestamp v) = Some (TheDeletionTimestamp, Num v)"
| "scalar_call (WithDeletionGracePeriodSeconds v) = Some (TheDeletionGracePeriodSeconds, Num v)"
| "scalar_call c = None"

text \<open>The value of the last call that sets a field, or what the field held before.\<close>

definition last_set :: "('c \<Rightarrow> 'a option) \<Rightarrow> 'c list \<Rightarrow> 'a \<Rightarrow> 'a" where
  "last_set f cs v = fold (\<lambda>c v. case f c of None \<Rightarrow> v | Some v' \<Rightarrow> v') cs v"

definition set_scalar :: "scalar_field \<Rightarrow> ('sp, 'st) bundle_call \<Rightarrow> scalar_value option option" where
  "set_scalar f c = (case scalar_call c of None \<Rightarrow> None | Some (f', v) \<Rightarrow> if f' = f then Some (Some v) else None)"

definition set_spec :: "('sp, 'st) bundle_call \<Rightarrow> 'sp option option" where
  "set_spec c = (case c of WithSpec v \<Rightarrow> Some v | _ \<Rightarrow> None)"

definition set_status :: "('sp, 'st) bundle_call \<Rightarrow> 'st option option" where
  "set_status c = (case c of WithStatus v \<Rightarrow> Some v | _ \<Rightarrow> None)"

definition owner_references :: "('sp, 'st) bundle_call \<Rightarrow> OwnerReferenceAC option list" where
  "owner_references c = (case c of WithOwnerReferences vs \<Rightarrow> vs | _ \<Rightarrow> [])"

definition finalizers :: "('sp, 'st) bundle_call \<Rightarrow> string list" where
  "finalizers c = (case c of WithFinalizers vs \<Rightarrow> vs | _ \<Rightarrow> [])"

definition label_entries :: "('sp, 'st) bundle_call \<Rightarrow> string gomap" where
  "label_entries c = (case c of WithLabels es \<Rightarrow> es | _ \<Rightarrow> [])"

definition annotation_entries :: "('sp, 'st) bundle_call \<Rightarrow> string gomap" where
  "annotation_entries c = (case c of WithAnnotations es \<Rightarrow> es | _ \<Rightarrow> [])"

lemma calls_total: "(\<exists>b'. calls cs b = Ok b') \<longleftrightarrow> None \<notin> set (concat (map owner_references cs))"
proof (induction cs arbitrary: b)
  case (Cons c cs)
  then show ?case by (cases c) (auto simp: owner_references_def append_values_cases Let_def)
qed simp


lemma calls_no_Err: "calls cs b \<noteq> Err e"
proof (induction cs arbitrary: b)
  case (Cons c cs)
  then show ?case by (cases c) (auto simp: append_values_cases Let_def)
qed simp

lemma calls_fold:
  assumes "\<And>c b b1. call c b = Ok b1 \<Longrightarrow> p b1 = upd c (p b)" and "calls cs b = Ok b'"
  shows "p b' = fold upd cs (p b)"
  using assms(2)
proof (induction cs arbitrary: b)
  case (Cons c cs)
  then obtain b1 where "call c b = Ok b1" and "calls cs b1 = Ok b'" by (auto simp: bind_res_Ok_iff)
  with Cons.IH assms(1) show ?case by fastforce
qed simp

lemmas call_parts = set_scalar_def set_spec_def set_status_def label_entries_def annotation_entries_def
  owner_references_def finalizers_def put_entries_entries append_values_cases Let_def

lemma call_scalar: "call c b = Ok b1 \<Longrightarrow> scalar f b1 = (case set_scalar f c of None \<Rightarrow> scalar f b | Some v \<Rightarrow> v)"
  by (cases c) (cases f; auto simp: call_parts split: if_splits)+

lemma call_effect:
  assumes "call c b = Ok b1"
  shows "bac_Spec b1 = (case set_spec c of None \<Rightarrow> bac_Spec b | Some v \<Rightarrow> v)"
    and "bac_Status b1 = (case set_status c of None \<Rightarrow> bac_Status b | Some v \<Rightarrow> v)"
    and "entries (omac_Labels (meta_of b1)) = map_copy (entries (omac_Labels (meta_of b))) (label_entries c)"
    and "entries (omac_Annotations (meta_of b1)) = map_copy (entries (omac_Annotations (meta_of b))) (annotation_entries c)"
    and "omac_OwnerReferences (meta_of b1) = omac_OwnerReferences (meta_of b) @ map the (owner_references c)"
    and "omac_Finalizers (meta_of b1) = omac_Finalizers (meta_of b) @ finalizers c"
  using assms by (cases c; auto simp: call_parts split: if_splits)+

lemma fold_append: "fold (\<lambda>c xs. xs @ f c) cs xs = xs @ concat (map f cs)"
  by (induction cs arbitrary: xs) auto

text \<open>
  A chain of \<open>With\<close> calls on a Bundle configuration builds what the comments promise: every
  scalar field, spec and status hold the value of the last call that sets them (or their old value),
  labels and annotations are merged with later entries winning, owner references and finalizers
  are appended in order; the chain panics exactly when an owner reference is nil.
\<close>

lemma calls_build:
  "if None \<in> set (concat (map owner_references cs)) then \<exists>msg. calls cs b = Panic msg
   else \<exists>b'. calls cs b = Ok b' \<and>
     (\<forall>f. scalar f b' = last_set (set_scalar f) cs (scalar f b)) \<and>
     bac_Spec b' = last_set set_spec cs (bac_Spec b) \<and>
     bac_Status b' = last_set set_status cs (bac_Status b) \<and>
     entries (omac_Labels (meta_of b')) = fold (\<lambda>c m. map_copy m (label_entries c)) cs (entries (omac_Labels (meta_of b))) \<and>
     entries (omac_Annotations (meta_of b')) = fold (\<lambda>c m. map_copy m (annotation_entries c)) cs (entries (omac_Annotations (meta_of b))) \<and>
     omac_OwnerReferences (meta_of b') = omac_OwnerReferences (meta_of b) @ concat (map (map the \<circ> owner_references) cs) \<and>
     omac_Finalizers (meta_of b') = omac_Finalizers (meta_of b) @ concat (map finalizers cs)"
proof (cases "None \<in> set (concat (map owner_references cs))")
  case True
  then show ?thesis using calls_total [of cs b] calls_no_Err [of cs b] by (cases "calls cs b") auto
next
  case False
  then obtain b' where b': "calls cs b = Ok b'" using calls_total by blast
  note run = calls_fold [OF _ b']
  have "scalar f b' = last_set (set_scalar f) cs (scalar f b)" for f
    unfolding last_set_def by (rule run) (rule call_scalar)
  moreover have "bac_Spec b' = last_set set_spec cs (bac_Spec b)" "bac_Status b' = last_set set_status cs (bac_Status b)"
    unfolding last_set_def by (rule run, erule call_effect)+
  moreover have "entries (omac_Labels (meta_of b')) = fold (\<lambda>c m. map_copy m (label_entries c)) cs (entries (omac_Labels (meta_of b)))"
    "entries (omac_Annotations (meta_of b')) = fold (\<lambda>c m. map_copy m (annotation_entries c)) cs (entries (omac_Annotations (meta_of b)))"
    "omac_OwnerReferences (meta_of b') = fold (\<lambda>c rs. rs @ map the (owner_references c)) cs (omac_OwnerReferences (meta_of b))"
    "omac_Finalizers (meta_of b') = fold (\<lambda>c fs. fs @ finalizers c) cs (omac_Finalizers (meta_of b))"
    by (rule run [where p = "\<lambda>b. entries (omac_Labels (meta_of b))"], erule call_effect)
      (rule run [where p = "\<lambda>b. entries (omac_Annotations (meta_of b))"] run [where p = "\<lambda>b. omac_OwnerReferences (meta_of b)"]
        run [where p = "\<lambda>b. omac_Finalizers (meta_of b)"], erule call_effect)+
  ultimately show ?thesis using False b' by (simp add: fold_append comp_def)
qed

end
