(* ===== verification/ApplyConfigV2.thy ===== *)
theory ApplyConfigV2
  imports ApplyConfig
begin

text \<open>
  The declarative configurations of \<open>pkg/applyconfigurations/trustmanager/v1alpha2\<close>, one record and one
  definition per method for every file. The methods of a ClusterBundle's configuration are those
  of a Bundle's: \<open>cb_call_eq\<close> shows it, and so what a chain of calls builds.
\<close>

section \<open>The parts of a ClusterBundle\<close>

record SourceReferenceAC =
  srac_Kind :: "string option"
  srac_Name :: "string option"
  srac_Selector :: "LabelSelector option"

record BundleSourceRefAC = SourceReferenceAC +
  bsrac_Key :: "string option"

record DefaultCAsSourceAC =
  dcaac_Provider :: "string option"

record TargetMetadataAC_v2 =
  tmac2_Annotations :: "string gomap option"
  tmac2_Labels :: "string gomap option"

record PKCS12AC_v2 =
  p12ac2_Password :: "string option"
  p12ac2_Profile :: "PKCS12Profile option"

record TargetKeyValueAC =
  tkvac_Key :: "string option"
  tkvac_Format :: "string option"
  tkvac_PKCS12 :: PKCS12AC_v2

record KeyValueTargetAC =
  kvtac_Data :: "TargetKeyValueAC list"
  kvtac_Metadata :: "TargetMetadataAC_v2 option"

record BundleTargetAC_v2 =
  btac2_ConfigMap :: "KeyValueTargetAC option"
  btac2_Secret :: "KeyValueTargetAC option"
  btac2_NamespaceSelector :: "LabelSelector option"

record BundleSpecAC_v2 =
  specac2_SourceRefs :: "BundleSourceRefAC list"
  specac2_DefaultCAs :: "DefaultCAsSourceAC option"
  specac2_InLineCAs :: "string option"
  specac2_Target :: "BundleTargetAC_v2 option"

record BundleStatusAC_v2 =
  stac2_Conditions :: "ConditionAC list"
  stac2_DefaultCAPackageVersion :: "string option"

type_synonym ClusterBundleAC = "(BundleSpecAC_v2, BundleStatusAC_v2) objectAC"

section \<open>Constructors and setters of the parts\<close>

definition SourceReference_AC :: SourceReferenceAC where
  "SourceReference_AC = \<lparr>srac_Kind = None, srac_Name = None, srac_Selector = None\<rparr>"

definition SourceReference_WithKind :: "string \<Rightarrow> SourceReferenceAC \<Rightarrow> SourceReferenceAC" where
  "SourceReference_WithKind value b = b\<lparr>srac_Kind := Some value\<rparr>"

definition SourceReference_WithName :: "string \<Rightarrow> SourceReferenceAC \<Rightarrow> SourceReferenceAC" where
  "SourceReference_WithName value b = b\<lparr>srac_Name := Some value\<rparr>"

definition SourceReference_WithSelector :: "LabelSelector option \<Rightarrow> SourceReferenceAC \<Rightarrow> SourceReferenceAC" where
  "SourceReference_WithSelector value b = b\<lparr>srac_Selector := value\<rparr>"

definition BundleSourceRef_AC :: BundleSourceRefAC where
  "BundleSourceRef_AC = \<lparr>srac_Kind = None, srac_Name = None, srac_Selector = None, bsrac_Key = None\<rparr>"

definition BundleSourceRef_WithKind :: "string \<Rightarrow> BundleSourceRefAC \<Rightarrow> BundleSourceRefAC" where
  "BundleSourceRef_WithKind value b = b\<lparr>srac_Kind := Some value\<rparr>"

definition BundleSourceRef_WithName :: "string \<Rightarrow> BundleSourceRefAC \<Rightarrow> BundleSourceRefAC" where
  "BundleSourceRef_WithName value b = b\<lparr>srac_Name := Some value\<rparr>"

definition BundleSourceRef_WithSelector :: "LabelSelector option \<Rightarrow> BundleSourceRefAC \<Rightarrow> BundleSourceRefAC" where
  "BundleSourceRef_WithSelector value b = b\<lparr>srac_Selector := value\<rparr>"

definition BundleSourceRef_WithKey :: "string \<Rightarrow> BundleSourceRefAC \<Rightarrow> BundleSourceRefAC" where
  "BundleSourceRef_WithKey value b = b\<lparr>bsrac_Key := Some value\<rparr>"

definition DefaultCAsSource_AC :: DefaultCAsSourceAC where
  "DefaultCAsSource_AC = \<lparr>dcaac_Provider = None\<rparr>"

definition DefaultCAsSource_WithProvider :: "string \<Rightarrow> DefaultCAsSourceAC \<Rightarrow> DefaultCAsSourceAC" where
  "DefaultCAsSource_WithProvider value b = b\<lparr>dcaac_Provider := Some value\<rparr>"

definition TargetMetadata_v2_AC :: TargetMetadataAC_v2 where
  "TargetMetadata_v2_AC = \<lparr>tmac2_Annotations = None, tmac2_Labels = None\<rparr>"

definition TargetMetadata_v2_WithAnnotations :: "string gomap \<Rightarrow> TargetMetadataAC_v2 \<Rightarrow> TargetMetadataAC_v2" where
  "TargetMetadata_v2_WithAnnotations es b = b\<lparr>tmac2_Annotations := put_entries (tmac2_Annotations b) es\<rparr>"

definition TargetMetadata_v2_WithLabels :: "string gomap \<Rightarrow> TargetMetadataAC_v2 \<Rightarrow> TargetMetadataAC_v2" where
  "TargetMetadata_v2_WithLabels es b = b\<lparr>tmac2_Labels := put_entries (tmac2_Labels b) es\<rparr>"

definition PKCS12_v2_AC :: PKCS12AC_v2 where
  "PKCS12_v2_AC = \<lparr>p12ac2_Password = None, p12ac2_Profile = None\<rparr>"

definition PKCS12_v2_WithPassword :: "string \<Rightarrow> PKCS12AC_v2 \<Rightarrow> PKCS12AC_v2" where
  "PKCS12_v2_WithPassword value b = b\<lparr>p12ac2_Password := Some value\<rparr>"

definition PKCS12_v2_WithProfile :: "PKCS12Profile \<Rightarrow> PKCS12AC_v2 \<Rightarrow> PKCS12AC_v2" where
  "PKCS12_v2_WithProfile value b = b\<lparr>p12ac2_Profile := Some value\<rparr>"

definition TargetKeyValue_AC :: TargetKeyValueAC where
  "TargetKeyValue_AC = \<lparr>tkvac_Key = None, tkvac_Format = None, tkvac_PKCS12 = PKCS12_v2_AC\<rparr>"

definition TargetKeyValue_WithKey :: "string \<Rightarrow> TargetKeyValueAC \<Rightarrow> TargetKeyValueAC" where
  "TargetKeyValue_WithKey value b = b\<lparr>tkvac_Key := Some value\<rparr>"

definition TargetKeyValue_WithFormat :: "string \<Rightarrow> TargetKeyValueAC \<Rightarrow> TargetKeyValueAC" where
  "TargetKeyValue_WithFormat value b = b\<lparr>tkvac_Format := Some value\<rparr>"

definition TargetKeyValue_WithPassword :: "string \<Rightarrow> TargetKeyValueAC \<Rightarrow> TargetKeyValueAC" where
  "TargetKeyValue_WithPassword value b = b\<lparr>tkvac_PKCS12 := (tkvac_PKCS12 b)\<lparr>p12ac2_Password := Some value\<rparr>\<rparr>"

definition TargetKeyValue_WithProfile :: "PKCS12Profile \<Rightarrow> TargetKeyValueAC \<Rightarrow> TargetKeyValueAC" where
  "TargetKeyValue_WithProfile value b = b\<lparr>tkvac_PKCS12 := (tkvac_PKCS12 b)\<lparr>p12ac2_Profile := Some value\<rparr>\<rparr>"

definition KeyValueTarget_AC :: KeyValueTargetAC where
  "KeyValueTarget_AC = \<lparr>kvtac_Data = [], kvtac_Metadata = None\<rparr>"

definition KeyValueTarget_WithData :: "TargetKeyValueAC option list \<Rightarrow> KeyValueTargetAC \<Rightarrow> KeyValueTargetAC res" where
  "KeyValueTarget_WithData values b =
     bind_res (append_values ''WithData'' (kvtac_Data b) values) (\<lambda>xs. Ok (b\<lparr>kvtac_Data := xs\<rparr>))"

definition KeyValueTarget_WithMetadata :: "TargetMetadataAC_v2 option \<Rightarrow> KeyValueTargetAC \<Rightarrow> KeyValueTargetAC" where
  "KeyValueTarget_WithMetadata value b = b\<lparr>kvtac_Metadata := value\<rparr>"

definition BundleTarget_v2_AC :: BundleTargetAC_v2 where
  "BundleTarget_v2_AC = \<lparr>btac2_ConfigMap = None, btac2_Secret = None, btac2_NamespaceSelector = None\<rparr>"

definition BundleTarget_v2_WithConfigMap :: "KeyValueTargetAC option \<Rightarrow> BundleTargetAC_v2 \<Rightarrow> BundleTargetAC_v2" where
  "BundleTarget_v2_WithConfigMap value b = b\<lparr>btac2_ConfigMap := value\<rparr>"

definition BundleTarget_v2_WithSecret :: "KeyValueTargetAC option \<Rightarrow> BundleTargetAC_v2 \<Rightarrow> BundleTargetAC_v2" where
  "BundleTarget_v2_WithSecret value b = b\<lparr>btac2_Secret := value\<rparr>"

definition BundleTarget_v2_WithNamespaceSelector :: "LabelSelector option \<Rightarrow> BundleTargetAC_v2 \<Rightarrow> BundleTargetAC_v2" where
  "BundleTarget_v2_WithNamespaceSelector value b = b\<lparr>btac2_NamespaceSelector := value\<rparr>"

definition BundleSpec_v2_AC :: BundleSpecAC_v2 where
  "BundleSpec_v2_AC = \<lparr>specac2_SourceRefs = [], specac2_DefaultCAs = None, specac2_InLineCAs = None, specac2_Target = None\<rparr>"

definition BundleSpec_v2_WithSourceRefs :: "BundleSourceRefAC option list \<Rightarrow> BundleSpecAC_v2 \<Rightarrow> BundleSpecAC_v2 res" where
  "BundleSpec_v2_WithSourceRefs values b =
     bind_res (append_values ''WithSourceRefs'' (specac2_SourceRefs b) values) (\<lambda>xs. Ok (b\<lparr>specac2_SourceRefs := xs\<rparr>))"

definition BundleSpec_v2_WithDefaultCAs :: "DefaultCAsSourceAC option \<Rightarrow> BundleSpecAC_v2 \<Rightarrow> BundleSpecAC_v2" where
  "BundleSpec_v2_WithDefaultCAs value b = b\<lparr>specac2_DefaultCAs := value\<rparr>"

definition BundleSpec_v2_WithInLineCAs :: "string \<Rightarrow> BundleSpecAC_v2 \<Rightarrow> BundleSpecAC_v2" where
  "BundleSpec_v2_WithInLineCAs value b = b\<lparr>specac2_InLineCAs := Some value\<rparr>"

definition BundleSpec_v2_WithTarget :: "BundleTargetAC_v2 option \<Rightarrow> BundleSpecAC_v2 \<Rightarrow> BundleSpecAC_v2" where
  "BundleSpec_v2_WithTarget value b = b\<lparr>specac2_Target := value\<rparr>"

definition BundleStatus_v2_AC :: BundleStatusAC_v2 where
  "BundleStatus_v2_AC = \<lparr>stac2_Conditions = [], stac2_DefaultCAPackageVersion = None\<rparr>"

definition BundleStatus_v2_WithConditions :: "ConditionAC option list \<Rightarrow> BundleStatusAC_v2 \<Rightarrow> BundleStatusAC_v2 res" where
  "BundleStatus_v2_WithConditions values b =
     bind_res (append_values ''WithConditions'' (stac2_Conditions b) values) (\<lambda>xs. Ok (b\<lparr>stac2_Conditions := xs\<rparr>))"

definition BundleStatus_v2_WithDefaultCAPackageVersion :: "string \<Rightarrow> BundleStatusAC_v2 \<Rightarrow> BundleStatusAC_v2" where
  "BundleStatus_v2_WithDefaultCAPackageVersion value b = b\<lparr>stac2_DefaultCAPackageVersion := Some value\<rparr>"

section \<open>The ClusterBundle\<close>

definition cb_ensureObjectMetaApplyConfigurationExists :: "('sp, 'st) objectAC \<Rightarrow> ('sp, 'st) objectAC" where
  "cb_ensureObjectMetaApplyConfigurationExists b =
     (case bac_ObjectMeta b of None \<Rightarrow> b\<lparr>bac_ObjectMeta := Some empty_ObjectMetaAC\<rparr> | Some _ \<Rightarrow> b)"

definition cb_write_meta :: "(ObjectMetaAC \<Rightarrow> ObjectMetaAC) \<Rightarrow> ('sp, 'st) objectAC \<Rightarrow> ('sp, 'st) objectAC" where
  "cb_write_meta f b =
     (let b' = cb_ensureObjectMetaApplyConfigurationExists b
      in b'\<lparr>bac_ObjectMeta := map_option f (bac_ObjectMeta b')\<rparr>)"

definition cb_WithKind :: "string \<Rightarrow> ('sp, 'st) objectAC \<Rightarrow> ('sp, 'st) objectAC" where
  "cb_WithKind value b = b\<lparr>bac_Kind := Some value\<rparr>"

definition cb_WithAPIVersion :: "string \<Rightarrow> ('sp, 'st) objectAC \<Rightarrow> ('sp, 'st) objectAC" where
  "cb_WithAPIVersion value b = b\<lparr>bac_APIVersion := Some value\<rparr>"

definition cb_WithName :: "string \<Rightarrow> ('sp, 'st) objectAC \<Rightarrow> ('sp, 'st) objectAC" where
  "cb_WithName value = cb_write_meta (\<lambda>m. m\<lparr>omac_Name := Some value\<rparr>)"

definition cb_WithGenerateName :: "string \<Rightarrow> ('sp, 'st) objectAC \<Rightarrow> ('sp, 'st) objectAC" where
  "cb_WithGenerateName value = cb_write_meta (\<lambda>m. m\<lparr>omac_GenerateName := Some value\<rparr>)"

definition cb_WithNamespace :: "string \<Rightarrow> ('sp, 'st) objectAC \<Rightarrow> ('sp, 'st) objectAC" where
  "cb_WithNamespace value = cb_write_meta (\<lambda>m. m\<lparr>omac_Namespace := Some value\<rparr>)"

definition cb_WithUID :: "string \<Rightarrow> ('sp, 'st) objectAC \<Rightarrow> ('sp, 'st) objectAC" where
  "cb_WithUID value = cb_write_meta (\<lambda>m. m\<lparr>omac_UID := Some value\<rparr>)"

definition cb_WithResourceVersion :: "string \<Rightarrow> ('sp, 'st) objectAC \<Rightarrow> ('sp, 'st) objectAC" where
  "cb_WithResourceVersion value = cb_write_meta (\<lambda>m. m\<lparr>omac_ResourceVersion := Some value\<rparr>)"

definition cb_WithGeneration :: "int \<Rightarrow> ('sp, 'st) objectAC \<Rightarrow> ('sp, 'st) objectAC" where
  "cb_WithGeneration value = cb_write_meta (\<lambda>m. m\<lparr>omac_Generation := Some value\<rparr>)"

definition cb_WithCreationTimestamp :: "int \<Rightarrow> ('sp, 'st) objectAC \<Rightarrow> ('sp, 'st) objectAC" where
  "cb_WithCreationTimestamp value = cb_write_meta (\<lambda>m. m\<lparr>omac_CreationTimestamp := Some value\<rparr>)"

definition cb_WithDeletionTimestamp :: "int \<Rightarrow> ('sp, 'st) objectAC \<Rightarrow> ('sp, 'st) objectAC" where
  "cb_WithDeletionTimestamp value = cb_write_meta (\<lambda>m. m\<lparr>omac_DeletionTimestamp := Some value\<rparr>)"

definition cb_WithDeletionGracePeriodSeconds :: "int \<Rightarrow> ('sp, 'st) objectAC \<Rightarrow> ('sp, 'st) objectAC" where
  "cb_WithDeletionGracePeriodSeconds value = cb_write_meta (\<lambda>m. m\<lparr>omac_DeletionGracePeriodSeconds := Some value\<rparr>)"

definition cb_WithLabels :: "string gomap \<Rightarrow> ('sp, 'st) objectAC \<Rightarrow> ('sp, 'st) objectAC" where
  "cb_WithLabels es = cb_write_meta (\<lambda>m. m\<lparr>omac_Labels := put_entries (omac_Labels m) es\<rparr>)"

definition cb_WithAnnotations :: "string gomap \<Rightarrow> ('sp, 'st) objectAC \<Rightarrow> ('sp, 'st) objectAC" where
  "cb_WithAnnotations es = cb_write_meta (\<lambda>m. m\<lparr>omac_Annotations := put_entries (omac_Annotations m) es\<rparr>)"

definition cb_WithOwnerReferences :: "OwnerReferenceAC option list \<Rightarrow> ('sp, 'st) objectAC \<Rightarrow> ('sp, 'st) objectAC res" where
  "cb_WithOwnerReferences values b =
     (let b' = cb_ensureObjectMetaApplyConfigurationExists b
      in bind_res (append_values ''WithOwnerReferences'' (omac_OwnerReferences (the (bac_ObjectMeta b'))) values)
           (\<lambda>rs. Ok (b'\<lparr>bac_ObjectMeta := map_option (\<lambda>m. m\<lparr>omac_OwnerReferences := rs\<rparr>) (bac_ObjectMeta b')\<rparr>)))"

definition cb_WithFinalizers :: "string list \<Rightarrow> ('sp, 'st) objectAC \<Rightarrow> ('sp, 'st) objectAC" where
  "cb_WithFinalizers values = cb_write_meta (\<lambda>m. m\<lparr>omac_Finalizers := omac_Finalizers m @ values\<rparr>)"

definition cb_WithSpec :: "'sp option \<Rightarrow> ('sp, 'st) objectAC \<Rightarrow> ('sp, 'st) objectAC" where
  "cb_WithSpec value b = b\<lparr>bac_Spec := value\<rparr>"

definition cb_WithStatus :: "'st option \<Rightarrow> ('sp, 'st) objectAC \<Rightarrow> ('sp, 'st) objectAC" where
  "cb_WithStatus value b = b\<lparr>bac_Status := value\<rparr>"

definition ClusterBundle_AC :: "string \<Rightarrow> ClusterBundleAC" where
  "ClusterBundle_AC name =
     cb_WithAPIVersion ''trust-manager.io/v1alpha2'' (cb_WithKind ''ClusterBundle'' (cb_WithName name empty_BundleAC))"

definition ExtractClusterBundleFrom ::
  "('p, 'pt) typed_lib \<Rightarrow> (ClusterBundle \<Rightarrow> 'pt \<Rightarrow> string \<Rightarrow> string \<Rightarrow> gerr + ClusterBundleAC)
     \<Rightarrow> ClusterBundle \<Rightarrow> string \<Rightarrow> string \<Rightarrow> 'p once \<Rightarrow> ClusterBundleAC res \<times> 'p once" where
  "ExtractClusterBundleFrom lib ExtractInto clusterBundle fieldManager subresource parserOnce =
     (case Parser lib parserOnce of
        (parser, parserOnce') \<Rightarrow>
          (bind_res parser (\<lambda>p.
             case ExtractInto clusterBundle
                    (tl_Type lib p ''com.github.cert-manager.trust-manager.pkg.apis.trustmanager.v1alpha2.ClusterBundle'')
                    fieldManager subresource of
               Inl err \<Rightarrow> Err err
             | Inr b \<Rightarrow> Ok (cb_WithAPIVersion ''trust-manager.io/v1alpha2''
                              (cb_WithKind ''ClusterBundle'' (cb_WithName (om_Name (cb_Meta clusterBundle)) b)))), parserOnce'))"

definition ExtractClusterBundle ::
  "('p, 'pt) typed_lib \<Rightarrow> (ClusterBundle \<Rightarrow> 'pt \<Rightarrow> string \<Rightarrow> string \<Rightarrow> gerr + ClusterBundleAC)
     \<Rightarrow> ClusterBundle \<Rightarrow> string \<Rightarrow> 'p once \<Rightarrow> ClusterBundleAC res \<times> 'p once" where
  "ExtractClusterBundle lib ExtractInto clusterBundle fieldManager =
     ExtractClusterBundleFrom lib ExtractInto clusterBundle fieldManager []"

definition ExtractClusterBundleStatus ::
  "('p, 'pt) typed_lib \<Rightarrow> (ClusterBundle \<Rightarrow> 'pt \<Rightarrow> string \<Rightarrow> string \<Rightarrow> gerr + ClusterBundleAC)
     \<Rightarrow> ClusterBundle \<Rightarrow> string \<Rightarrow> 'p once \<Rightarrow> ClusterBundleAC res \<times> 'p once" where
  "ExtractClusterBundleStatus lib ExtractInto clusterBundle fieldManager =
     ExtractClusterBundleFrom lib ExtractInto clusterBundle fieldManager ''status''"

definition cb_GetKind :: "('sp, 'st) objectAC \<Rightarrow> string option" where "cb_GetKind b = bac_Kind b"
definition cb_GetAPIVersion :: "('sp, 'st) objectAC \<Rightarrow> string option" where "cb_GetAPIVersion b = bac_APIVersion b"

definition cb_GetName :: "('sp, 'st) objectAC \<Rightarrow> string option \<times> ('sp, 'st) objectAC" where
  "cb_GetName b = (let b' = cb_ensureObjectMetaApplyConfigurationExists b in (Option.bind (bac_ObjectMeta b') omac_Name, b'))"

definition cb_GetNamespace :: "('sp, 'st) objectAC \<Rightarrow> string option \<times> ('sp, 'st) objectAC" where
  "cb_GetNamespace b = (let b' = cb_ensureObjectMetaApplyConfigurationExists b in (Option.bind (bac_ObjectMeta b') omac_Namespace, b'))"

section \<open>The two builders agree\<close>

fun cb_call :: "('sp, 'st) bundle_call \<Rightarrow> ('sp, 'st) objectAC \<Rightarrow> ('sp, 'st) objectAC res" where
  "cb_call (WithKind v) b = Ok (cb_WithKind v b)"
| "cb_call (WithAPIVersion v) b = Ok (cb_WithAPIVersion v b)"
| "cb_call (WithName v) b = Ok (cb_WithName v b)"
| "cb_call (WithGenerateName v) b = Ok (cb_WithGenerateName v b)"
| "cb_call (WithNamespace v) b = Ok (cb_WithNamespace v b)"
| "cb_call (WithUID v) b = Ok (cb_WithUID v b)"
| "cb_call (WithResourceVersion v) b = Ok (cb_WithResourceVersion v b)"
| "cb_call (WithGeneration v) b = Ok (cb_WithGeneration v b)"
| "cb_call (WithCreationTimestamp v) b = Ok (cb_WithCreationTimestamp v b)"
| "cb_call (WithDeletionTimestamp v) b = Ok (cb_WithDeletionTimestamp v b)"
| "cb_call (WithDeletionGracePeriodSeconds v) b = Ok (cb_WithDeletionGracePeriodSeconds v b)"
| "cb_call (WithLabels es) b = Ok (cb_WithLabels es b)"
| "cb_call (WithAnnotations es) b = Ok (cb_WithAnnotations es b)"
| "cb_call (WithOwnerReferences vs) b = cb_WithOwnerReferences vs b"
| "cb_call (WithFinalizers vs) b = Ok (cb_WithFinalizers vs b)"
| "cb_call (WithSpec v) b = Ok (cb_WithSpec v b)"
| "cb_call (WithStatus v) b = Ok (cb_WithStatus v b)"

fun cb_calls :: "('sp, 'st) bundle_call list \<Rightarrow> ('sp, 'st) objectAC \<Rightarrow> ('sp, 'st) objectAC res" where
  "cb_calls [] b = Ok b"
| "cb_calls (c # cs) b = bind_res (cb_call c b) (cb_calls cs)"

lemma cb_ensure_eq: "cb_ensureObjectMetaApplyConfigurationExists b = ensureObjectMetaApplyConfigurationExists b"
  by (simp add: cb_ensureObjectMetaApplyConfigurationExists_def ensureObjectMetaApplyConfigurationExists_def split: option.split)

lemma cb_write_meta_eq: "cb_write_meta = write_meta"
  by (intro ext) (simp add: cb_write_meta_def write_meta_def cb_ensure_eq)

lemma cb_call_eq: "cb_call c b = call c b"
  by (cases c)
    (auto simp: cb_WithKind_def cb_WithAPIVersion_def cb_WithName_def cb_WithGenerateName_def cb_WithNamespace_def
      cb_WithUID_def cb_WithResourceVersion_def cb_WithGeneration_def cb_WithCreationTimestamp_def
      cb_WithDeletionTimestamp_def cb_WithDeletionGracePeriodSeconds_def cb_WithLabels_def cb_WithAnnotations_def
      cb_WithOwnerReferences_def cb_WithFinalizers_def cb_WithSpec_def cb_WithStatus_def cb_write_meta_eq cb_ensure_eq
      write_meta_def Let_def ensureObjectMetaApplyConfigurationExists_def)

lemma cb_calls_eq: "cb_calls cs = calls cs"
  by (induction cs) (simp_all add: fun_eq_iff cb_call_eq, metis ext)

lemma ClusterBundle_AC_eq:
  "ClusterBundle_AC name =
     \<lparr>bac_Kind = Some ''ClusterBundle'', bac_APIVersion = Some ''trust-manager.io/v1alpha2'',
      bac_ObjectMeta = Some (empty_ObjectMetaAC\<lparr>omac_Name := Some name\<rparr>), bac_Spec = None, bac_Status = None\<rparr>"
  by (simp add: ClusterBundle_AC_def cb_WithAPIVersion_def cb_WithKind_def cb_WithName_def cb_write_meta_def
      cb_ensureObjectMetaApplyConfigurationExists_def empty_BundleAC_def Let_def)

end
