(* ===== verification/BundleController.thy ===== *)
theory BundleController
  imports Conversion Reconcile ApplyConfigV2
begin

text \<open>
  The controller that migrates Bundles to ClusterBundles:
  \<open>pkg/bundle/controller/bundle_controller.go\<close>. The receiver is the record \<open>bundle_reconciler\<close>: the
  client's answers as functions of the world, the library call that sets the owner, and the
  clock. The requests it makes go to a log.
\<close>

section \<open>Requests\<close>

record TypedClusterBundle =
  tcb_APIVersion :: string
  tcb_Kind :: string
  tcb_ClusterBundle :: ClusterBundle

datatype patch_body =
    ClusterBundleBody TypedClusterBundle
  | ClusterBundleACBody ClusterBundleAC
  | BundleACBody BundleAC

datatype migration_request =
    PatchClusterBundle string patch_body string bool \<comment> \<open>name, body, field manager, forced\<close>
  | PatchBundleStatus string patch_body string bool

record 'w migration =
  mig_world :: 'w
  mig_log :: "migration_request list"

record 'w bundle_reconciler =
  br_GetBundle :: "'w \<Rightarrow> NamespacedName \<Rightarrow> gerr + Bundle"
  br_GetClusterBundle :: "'w \<Rightarrow> NamespacedName \<Rightarrow> gerr + ClusterBundle"
  br_SetControllerReference :: "ObjectMeta \<Rightarrow> ObjectMeta \<Rightarrow> gerr + OwnerReference list"
  br_Marshal :: "patch_body \<Rightarrow> gerr + string"
  br_Patch :: "'w \<Rightarrow> migration_request \<Rightarrow> string \<Rightarrow> gerr option \<times> 'w"
  br_Now :: int \<comment> \<open>\<open>time.Now()\<close>\<close>

definition send_patch ::
  "'w bundle_reconciler \<Rightarrow> migration_request \<Rightarrow> string \<Rightarrow> 'w migration \<Rightarrow> gerr option \<times> 'w migration" where
  "send_patch r req encodedPatch s =
     (case br_Patch r (mig_world s) req encodedPatch of
        (err, w) \<Rightarrow> (err, \<lparr>mig_world = w, mig_log = mig_log s @ [req]\<rparr>))"

section \<open>The ClusterBundle of a Bundle\<close>

definition empty_ObjectMeta :: ObjectMeta where
  "empty_ObjectMeta = \<lparr>om_Name = [], om_Namespace = [], om_UID = [], om_Generation = 0, om_Labels = [], om_Annotations = None,
     om_OwnerReferences = [], om_DeletionTimestamp = None, om_ManagedFields = []\<rparr>"

definition empty_ClusterBundle :: ClusterBundle where
  "empty_ClusterBundle =
     \<lparr>cb_Meta = empty_ObjectMeta,
      cb_Spec = \<lparr>spec2_SourceRefs = [], spec2_DefaultCAs = \<lparr>dca_Provider = []\<rparr>, spec2_InLineCAs = [],
        spec2_Target = \<lparr>bt2_ConfigMap = None, bt2_Secret = None, bt2_NamespaceSelector = None\<rparr>\<rparr>,
      cb_Status = \<lparr>st_Conditions = [], st_DefaultCAPackageVersion = []\<rparr>\<rparr>"

definition isClusterBundleUserManaged :: "ClusterBundle \<Rightarrow> bool" where
  "isClusterBundleUserManaged cb \<longleftrightarrow> map_of (entries (om_Annotations (cb_Meta cb))) BundleMigratedAnnotation \<noteq> None"

definition convertBundleToClusterBundle :: "Bundle \<Rightarrow> ClusterBundle" where
  "convertBundleToClusterBundle bd =
     (let cb = fst (ConvertTo bd)
      in empty_ClusterBundle\<lparr>
           cb_Meta := empty_ObjectMeta\<lparr>
             om_Name := om_Name (cb_Meta cb),
             om_Annotations :=
               (case map_of (entries (om_Annotations (cb_Meta cb))) AnnotationKeyJKSKey of
                  None \<Rightarrow> None
                | Some jksKey \<Rightarrow> Some [(AnnotationKeyJKSKey, jksKey)])\<rparr>,
           cb_Spec := cb_Spec cb\<rparr>)"

definition applyClusterBundle :: "'w bundle_reconciler \<Rightarrow> Bundle \<Rightarrow> 'w migration \<Rightarrow> gerr option \<times> 'w migration" where
  "applyClusterBundle r bd s =
     (let clusterBundle = convertBundleToClusterBundle bd
      in case br_SetControllerReference r (bd_Meta bd) (cb_Meta clusterBundle) of
           Inl err \<Rightarrow> (Some (Wrapf ''failed to set ClusterBundle controller reference: '' err), s)
         | Inr owners \<Rightarrow>
             (let owned = clusterBundle\<lparr>cb_Meta := (cb_Meta clusterBundle)\<lparr>om_OwnerReferences := owners\<rparr>\<rparr>;
                  body = ClusterBundleBody \<lparr>tcb_APIVersion = ''trust-manager.io/v1alpha2'', tcb_Kind = ''ClusterBundle'',
                           tcb_ClusterBundle = owned\<rparr>
              in case br_Marshal r body of
                   Inl err \<Rightarrow> (Some (Wrapf ''failed to marshal ClusterBundle patch: '' err), s)
                 | Inr encodedPatch \<Rightarrow>
                     send_patch r (PatchClusterBundle (om_Name (cb_Meta owned)) body FieldManager True) encodedPatch s))"

definition unmanageClusterBundle :: "'w bundle_reconciler \<Rightarrow> ClusterBundle \<Rightarrow> 'w migration \<Rightarrow> gerr option \<times> 'w migration" where
  "unmanageClusterBundle r cb s =
     (let body = ClusterBundleACBody (ClusterBundle_AC (om_Name (cb_Meta cb)))
      in case br_Marshal r body of
           Inl err \<Rightarrow> (Some (Wrapf ''failed to marshal ClusterBundle patch: '' err), s)
         | Inr encodedPatch \<Rightarrow>
             send_patch r (PatchClusterBundle (om_Name (cb_Meta cb)) body FieldManager False) encodedPatch s)"

section \<open>The condition\<close>

definition FindStatusCondition :: "Condition list \<Rightarrow> string \<Rightarrow> Condition option" where
  \<comment> \<open>\<open>meta.FindStatusCondition\<close>: the first condition of the type\<close>
  "FindStatusCondition conditions type = List.find (\<lambda>c. cond_Type c = type) conditions"

text \<open>The type and the status of the condition are set; dereferencing a nil one would panic.\<close>

definition applyBundleCondition ::
  "'w bundle_reconciler \<Rightarrow> Bundle \<Rightarrow> ConditionAC \<Rightarrow> 'w migration \<Rightarrow> gerr option res \<times> 'w migration" where
  "applyBundleCondition r bd condition s =
     (case (cac_Type condition, cac_Status condition) of
        (Some type, Some status) \<Rightarrow>
          (let existingCondition = FindStatusCondition (st_Conditions (bd_Status bd)) type;
               condition' =
                 (case existingCondition of
                    Some existing \<Rightarrow>
                      (if cond_Status existing = status
                       then condition\<lparr>cac_LastTransitionTime := Some (cond_LastTransitionTime existing)\<rparr>
                       else condition\<lparr>cac_LastTransitionTime := Some (br_Now r)\<rparr>)
                  | None \<Rightarrow> condition\<lparr>cac_LastTransitionTime := Some (br_Now r)\<rparr>)
           in case bind_res (BundleStatus_WithConditions [Some condition'] BundleStatus_AC)
                     (\<lambda>status. bind_res (Bundle_AC (om_Name (bd_Meta bd))) (call (WithStatus (Some status)))) of
                Panic p \<Rightarrow> (Panic p, s)
              | Err e \<Rightarrow> (Err e, s)
              | Ok ac \<Rightarrow>
                  (case br_Marshal r (BundleACBody ac) of
                     Inl err \<Rightarrow> (Ok (Some (Wrapf ''failed to marshal Bundle status patch: '' err)), s)
                   | Inr encodedPatch \<Rightarrow>
                       (case send_patch r (PatchBundleStatus (om_Name (bd_Meta bd)) (BundleACBody ac) FieldManager True) encodedPatch s of
                          (err, s') \<Rightarrow> (Ok err, s'))))
      | _ \<Rightarrow> (Panic nil_deref, s))"

definition migrated_condition :: "Bundle \<Rightarrow> ConditionAC" where
  "migrated_condition bd =
     \<lparr>cac_Type = Some BundleConditionMigrated, cac_Status = Some ConditionTrue,
      cac_ObservedGeneration = Some (om_Generation (bd_Meta bd)), cac_LastTransitionTime = None,
      cac_Reason = Some ''MigrationDetected'',
      cac_Message = Some ''Bundle is migrated to ClusterBundle by user; this resource can be safely deleted.''\<rparr>"

definition deprecated_condition :: "Bundle \<Rightarrow> ConditionAC" where
  "deprecated_condition bd =
     \<lparr>cac_Type = Some BundleConditionDeprecated, cac_Status = Some ConditionTrue,
      cac_ObservedGeneration = Some (om_Generation (bd_Meta bd)), cac_LastTransitionTime = None,
      cac_Reason = Some ''MigrationRequired'',
      cac_Message = Some ''Bundle is deprecated; please migrate to ClusterBundle.''\<rparr>"

section \<open>Reconciling\<close>

text \<open>When the ClusterBundle is not found, the Go variable keeps its zero value.\<close>

definition br_reconcile :: "'w bundle_reconciler \<Rightarrow> Bundle \<Rightarrow> 'w migration \<Rightarrow> gerr option res \<times> 'w migration" where
  "br_reconcile r bd s =
     (case (case br_GetClusterBundle r (mig_world s) \<lparr>nn_Namespace = om_Namespace (bd_Meta bd), nn_Name = om_Name (bd_Meta bd)\<rparr> of
              Inl err \<Rightarrow> if apierrors_IsNotFound err then Inr empty_ClusterBundle else Inl err
            | Inr cb \<Rightarrow> Inr cb) of
        Inl err \<Rightarrow> (Ok (Some (Wrapf ''failed to get ClusterBundle: '' err)), s)
      | Inr clusterBundle \<Rightarrow>
          (if isClusterBundleUserManaged clusterBundle
           then (case unmanageClusterBundle r clusterBundle s of
                   (err, s1) \<Rightarrow>
                     (case client_IgnoreNotFound err of
                        Some _ \<Rightarrow> (Ok (Some (Wrapf ''failed to unmanaged ClusterBundle: '' (the err))), s1)
                      | None \<Rightarrow> applyBundleCondition r bd (migrated_condition bd) s1))
           else (case applyClusterBundle r bd s of
                   (Some err, s1) \<Rightarrow> (Ok (Some (Wrapf ''failed to apply ClusterBundle: '' err)), s1)
                 | (None, s1) \<Rightarrow> applyBundleCondition r bd (deprecated_condition bd) s1)))"

definition br_Reconcile :: "'w bundle_reconciler \<Rightarrow> NamespacedName \<Rightarrow> 'w migration \<Rightarrow> gerr option res \<times> 'w migration" where
  "br_Reconcile r req s =
     (case br_GetBundle r (mig_world s) req of
        Inl err \<Rightarrow> (Ok (client_IgnoreNotFound (Some err)), s)
      | Inr bd \<Rightarrow> br_reconcile r bd s)"

end
