(* ===== verification/BundleControllerTheorems.thy ===== *)
theory BundleControllerTheorems
  imports BundleController ConversionProperties
begin

text \<open>
  Properties of the migration controller: its requests in both branches, the meaning of the
  ClusterBundle it applies, and that an established condition makes it independent of the clock.
\<close>

section \<open>The requests of a reconcile\<close>

definition timed :: "int \<Rightarrow> Bundle \<Rightarrow> ConditionAC \<Rightarrow> ConditionAC" where
  "timed now bd c =
     c\<lparr>cac_LastTransitionTime := Some
         (case FindStatusCondition (st_Conditions (bd_Status bd)) (the (cac_Type c)) of
            None \<Rightarrow> now
          | Some existing \<Rightarrow> if cond_Status existing = the (cac_Status c) then cond_LastTransitionTime existing else now)\<rparr>"

text \<open>The body of the status patch: the Bundle's identity and one condition.\<close>

definition condition_patch :: "Bundle \<Rightarrow> ConditionAC \<Rightarrow> BundleAC" where
  "condition_patch bd c =
     \<lparr>bac_Kind = Some ''Bundle'', bac_APIVersion = Some ''trust.cert-manager.io/v1alpha1'',
      bac_ObjectMeta = Some (empty_ObjectMetaAC\<lparr>omac_Name := Some (om_Name (bd_Meta bd))\<rparr>),
      bac_Spec = None, bac_Status = Some \<lparr>stac_Conditions = [c], stac_DefaultCAPackageVersion = None\<rparr>\<rparr>"

lemma condition_patch_built:
  "bind_res (BundleStatus_WithConditions [Some c] BundleStatus_AC)
     (\<lambda>status. bind_res (Bundle_AC (om_Name (bd_Meta bd))) (call (WithStatus (Some status)))) = Ok (condition_patch bd c)"
  by (simp add: BundleStatus_WithConditions_def BundleStatus_AC_def Bundle_AC_def empty_BundleAC_def write_meta_def
      ensureObjectMetaApplyConfigurationExists_def condition_patch_def Let_def)

lemma applyBundleCondition_eq:
  assumes "cac_Type c = Some type" and "cac_Status c = Some status"
  shows "applyBundleCondition r bd c s =
    (case br_Marshal r (BundleACBody (condition_patch bd (timed (br_Now r) bd c))) of
       Inl err \<Rightarrow> (Ok (Some (Wrapf ''failed to marshal Bundle status patch: '' err)), s)
     | Inr encodedPatch \<Rightarrow>
         (case send_patch r (PatchBundleStatus (om_Name (bd_Meta bd)) (BundleACBody (condition_patch bd (timed (br_Now r) bd c))) FieldManager True)
                 encodedPatch s of (err, s') \<Rightarrow> (Ok err, s')))"
proof -
  have "(case FindStatusCondition (st_Conditions (bd_Status bd)) type of
           None \<Rightarrow> c\<lparr>cac_LastTransitionTime := Some (br_Now r)\<rparr>
         | Some existing \<Rightarrow>
             if cond_Status existing = status then c\<lparr>cac_LastTransitionTime := Some (cond_LastTransitionTime existing)\<rparr>
             else c\<lparr>cac_LastTransitionTime := Some (br_Now r)\<rparr>) = timed (br_Now r) bd c"
    by (simp add: timed_def assms split: option.split)
  then show ?thesis
    by (simp add: applyBundleCondition_def assms condition_patch_built Let_def split: sum.split prod.split)
qed

definition sends :: "'w migration \<Rightarrow> migration_request list \<Rightarrow> 'w migration \<Rightarrow> bool" where
  "sends s reqs s' \<longleftrightarrow> mig_log s' = mig_log s @ reqs"

text \<open>The two scripts: unmanage and say so, or apply and say so; each may stop after a prefix.\<close>

definition owned_ClusterBundle :: "'w bundle_reconciler \<Rightarrow> Bundle \<Rightarrow> ClusterBundle option" where
  "owned_ClusterBundle r bd =
     (let cb = convertBundleToClusterBundle bd
      in case br_SetControllerReference r (bd_Meta bd) (cb_Meta cb) of
           Inl err \<Rightarrow> None
         | Inr owners \<Rightarrow> Some (cb\<lparr>cb_Meta := (cb_Meta cb)\<lparr>om_OwnerReferences := owners\<rparr>\<rparr>))"

definition script :: "'w bundle_reconciler \<Rightarrow> Bundle \<Rightarrow> ClusterBundle option \<Rightarrow> migration_request list" where
  "script r bd existing =
     (case existing of
        Some cb \<Rightarrow>
          [PatchClusterBundle (om_Name (cb_Meta cb)) (ClusterBundleACBody (ClusterBundle_AC (om_Name (cb_Meta cb)))) FieldManager False,
           PatchBundleStatus (om_Name (bd_Meta bd)) (BundleACBody (condition_patch bd (timed (br_Now r) bd (migrated_condition bd)))) FieldManager True]
      | None \<Rightarrow>
          (case owned_ClusterBundle r bd of
             None \<Rightarrow> []
           | Some cb \<Rightarrow>
               [PatchClusterBundle (om_Name (bd_Meta bd)) (ClusterBundleBody
                  \<lparr>tcb_APIVersion = ''trust-manager.io/v1alpha2'', tcb_Kind = ''ClusterBundle'', tcb_ClusterBundle = cb\<rparr>) FieldManager True,
                PatchBundleStatus (om_Name (bd_Meta bd)) (BundleACBody (condition_patch bd (timed (br_Now r) bd (deprecated_condition bd)))) FieldManager True]))"

definition user_managed :: "'w bundle_reconciler \<Rightarrow> Bundle \<Rightarrow> 'w \<Rightarrow> ClusterBundle option" where
  "user_managed r bd w =
     (case br_GetClusterBundle r w \<lparr>nn_Namespace = om_Namespace (bd_Meta bd), nn_Name = om_Name (bd_Meta bd)\<rparr> of
        Inl err \<Rightarrow> None
      | Inr cb \<Rightarrow> if isClusterBundleUserManaged cb then Some cb else None)"

lemma zero_not_managed: "\<not> isClusterBundleUserManaged empty_ClusterBundle"
  by (simp add: isClusterBundleUserManaged_def empty_ClusterBundle_def empty_ObjectMeta_def)

lemma converted_name: "om_Name (cb_Meta (convertBundleToClusterBundle bd)) = om_Name (bd_Meta bd)"
  by (simp add: convertBundleToClusterBundle_def ConvertTo_def Convert_v1alpha1_BundleSpec_To_v1alpha2_BundleSpec_def autoConvert_v1alpha1_BundleSpec_To_v1alpha2_BundleSpec_def
      Convert_v1alpha1_BundleTarget_To_v1alpha2_BundleTarget_def set_annotation_def empty_ObjectMeta_def Let_def
      split: prod.split option.split)

lemma applyBundleCondition_sends:
  assumes "cac_Type c = Some type" and "cac_Status c = Some status" and "applyBundleCondition r bd c s = (out, s')"
  shows "(\<exists>e. out = Ok e) \<and>
    (s' = s \<or> mig_log s' = mig_log s @ [PatchBundleStatus (om_Name (bd_Meta bd)) (BundleACBody (condition_patch bd (timed (br_Now r) bd c))) FieldManager True])"
  using assms(3) by (auto simp: applyBundleCondition_eq [OF assms(1,2)] send_patch_def split: sum.splits prod.splits)

lemma condition_fields [simp]:
  "cac_Type (migrated_condition bd) = Some BundleConditionMigrated" "cac_Status (migrated_condition bd) = Some ConditionTrue"
  "cac_Type (deprecated_condition bd) = Some BundleConditionDeprecated" "cac_Status (deprecated_condition bd) = Some ConditionTrue"
  by (simp_all add: migrated_condition_def deprecated_condition_def)

lemma prefixes_of_two: "\<exists>n \<le> 2. [a] = take n [a, b]" "\<exists>n \<le> 2. [a, b] = take n [a, b]"
  by (auto intro: exI [of _ 1] exI [of _ 2])

lemma unmanage_sends:
  assumes "unmanageClusterBundle r cb s = (err, s1)" and "\<And>body e. br_Marshal r body = Inl e \<Longrightarrow> \<not> apierrors_IsNotFound e"
  shows "(s1 = s \<and> client_IgnoreNotFound err \<noteq> None) \<or> mig_log s1 = mig_log s @
    [PatchClusterBundle (om_Name (cb_Meta cb)) (ClusterBundleACBody (ClusterBundle_AC (om_Name (cb_Meta cb)))) FieldManager False]"
  using assms by (auto simp: unmanageClusterBundle_def send_patch_def client_IgnoreNotFound_def apierrors_IsNotFound_def Let_def
      split: sum.splits prod.splits)

lemma apply_sends:
  assumes "applyClusterBundle r bd s = (err, s1)"
  shows "(s1 = s \<and> err \<noteq> None) \<or> (\<exists>cb. owned_ClusterBundle r bd = Some cb \<and> mig_log s1 = mig_log s @
    [PatchClusterBundle (om_Name (bd_Meta bd)) (ClusterBundleBody
       \<lparr>tcb_APIVersion = ''trust-manager.io/v1alpha2'', tcb_Kind = ''ClusterBundle'', tcb_ClusterBundle = cb\<rparr>) FieldManager True])"
  using assms by (auto simp: applyClusterBundle_def owned_ClusterBundle_def send_patch_def converted_name Let_def
      split: sum.splits prod.splits)

lemma br_reconcile_script:
  assumes "br_reconcile r bd s = (out, s')" and "\<And>body e. br_Marshal r body = Inl e \<Longrightarrow> \<not> apierrors_IsNotFound e"
  shows "(\<exists>e. out = Ok e) \<and> (\<exists>n \<le> 2. mig_log s' = mig_log s @ take n (script r bd (user_managed r bd (mig_world s))))"
proof -
  have none: "\<exists>n \<le> 2. mig_log s = mig_log s @ take n xs" for xs :: "migration_request list" by (rule exI [of _ 0]) simp
  consider (err) "\<exists>e. out = Ok e" "s' = s"
    | (user) cb err s1 where "user_managed r bd (mig_world s) = Some cb" "unmanageClusterBundle r cb s = (err, s1)"
        "(case client_IgnoreNotFound err of
            Some _ \<Rightarrow> (Ok (Some (Wrapf ''failed to unmanaged ClusterBundle: '' (the err))), s1)
          | None \<Rightarrow> applyBundleCondition r bd (migrated_condition bd) s1) = (out, s')"
    | (own) err s1 where "user_managed r bd (mig_world s) = None" "applyClusterBundle r bd s = (err, s1)"
        "(case err of Some e \<Rightarrow> (Ok (Some (Wrapf ''failed to apply ClusterBundle: '' e)), s1)
          | None \<Rightarrow> applyBundleCondition r bd (deprecated_condition bd) s1) = (out, s')"
    using assms(1) zero_not_managed
    by (cases "unmanageClusterBundle r (the (user_managed r bd (mig_world s))) s"; cases "applyClusterBundle r bd s")
      (auto simp: br_reconcile_def user_managed_def split: sum.splits if_splits option.splits)
  then show ?thesis
  proof cases
    case err
    then show ?thesis using none by auto
  next
    case (user cb err s1)
    then have cond: "(\<exists>e. out = Ok e) \<and> (s' = s1 \<or> client_IgnoreNotFound err = None \<and> mig_log s' = mig_log s1 @
        [PatchBundleStatus (om_Name (bd_Meta bd)) (BundleACBody (condition_patch bd (timed (br_Now r) bd (migrated_condition bd)))) FieldManager True])"
      using applyBundleCondition_sends [of "migrated_condition bd" _ _ r bd s1 out s'] by (auto split: option.splits)
    have "(s1 = s \<and> client_IgnoreNotFound err \<noteq> None) \<or> mig_log s1 = mig_log s @
      [PatchClusterBundle (om_Name (cb_Meta cb)) (ClusterBundleACBody (ClusterBundle_AC (om_Name (cb_Meta cb)))) FieldManager False]"
      by (rule unmanage_sends [OF user(2)]) (rule assms(2))
    then show ?thesis
    proof
      assume "s1 = s \<and> client_IgnoreNotFound err \<noteq> None"
      with cond none show ?thesis by auto
    qed (use cond in \<open>auto simp: script_def user(1) intro!: prefixes_of_two\<close>)
  next
    case (own err s1)
    then have cond: "(\<exists>e. out = Ok e) \<and> (s' = s1 \<or> err = None \<and> mig_log s' = mig_log s1 @
        [PatchBundleStatus (om_Name (bd_Meta bd)) (BundleACBody (condition_patch bd (timed (br_Now r) bd (deprecated_condition bd)))) FieldManager True])"
      using applyBundleCondition_sends [of "deprecated_condition bd" _ _ r bd s1 out s'] by (auto split: option.splits)
    from apply_sends [OF own(2)] show ?thesis
    proof
      assume "s1 = s \<and> err \<noteq> None"
      with cond none show ?thesis by auto
    qed (use cond in \<open>auto simp: script_def own(1) intro!: prefixes_of_two\<close>)
  qed
qed


text \<open>
  C15: The requests of the migration controller follow a script, of which it sends a prefix (it
  stops at the first request that fails) and it never panics. When the user has taken over the
  ClusterBundle, the script gives up the fields (an unforced patch of the bare object) and
  reports Migrated; otherwise it applies the converted, owned ClusterBundle and reports
  Deprecated. So a ClusterBundle of the user is never overwritten.
\<close>

theorem Reconcile_follows_script:
  assumes "br_GetBundle r (mig_world s) req = Inr bd" and "br_Reconcile r req s = (out, s')"
    and "\<And>body e. br_Marshal r body = Inl e \<Longrightarrow> \<not> apierrors_IsNotFound e"
  shows "(\<exists>e. out = Ok e) \<and> (\<exists>n \<le> 2. mig_log s' = mig_log s @ take n (script r bd (user_managed r bd (mig_world s))))"
  by (rule br_reconcile_script) (use assms in \<open>simp_all add: br_Reconcile_def\<close>)

section \<open>The meaning of the applied ClusterBundle\<close>

lemma formats_of_kvs_cong:
  "map_of an AnnotationKeyJKSKey = map_of an' AnnotationKeyJKSKey \<Longrightarrow> formats_of_kvs an kvs jks p12 = formats_of_kvs an' kvs jks p12"
  by (induction an kvs jks p12 rule: formats_of_kvs.induct) (auto intro!: arg_cong2 [where f = bind_res] ext split: option.split)

lemma ConvertFrom_spec_cong:
  assumes "ConvertFrom cb = Ok (bd, rest)" and "cb_Spec cb' = cb_Spec cb"
    and "map_of (entries (om_Annotations (cb_Meta cb'))) AnnotationKeyJKSKey = map_of (entries (om_Annotations (cb_Meta cb))) AnnotationKeyJKSKey"
  shows "\<exists>bd' rest'. ConvertFrom cb' = Ok (bd', rest') \<and> bd_Spec bd' = bd_Spec bd"
  using assms(1) formats_of_kvs_cong [OF assms(3)]
  by (cases "formats_of_kvs (entries (om_Annotations (cb_Meta cb))) (kvs_of_target (spec2_Target (cb_Spec cb))) None None")
    (auto simp: ConvertFrom_def Convert_v1alpha2_BundleSpec_To_v1alpha1_BundleSpec_def autoConvert_v1alpha2_BundleSpec_To_v1alpha1_BundleSpec_def
      Convert_v1alpha2_BundleTarget_To_v1alpha1_BundleTarget_def assms(2) Let_def)

lemma owned_ClusterBundle_meaning:
  assumes "ConvertFrom (fst (ConvertTo bd)) = Ok (bd1, rest)" and "owned_ClusterBundle r bd = Some cb"
  shows "\<exists>bd' cb'. ConvertFrom cb = Ok (bd', cb') \<and> bd_Spec bd' = bd_Spec bd1"
proof (rule ConvertFrom_spec_cong [OF assms(1)])
  show "cb_Spec cb = cb_Spec (fst (ConvertTo bd))"
    using assms(2) by (auto simp: owned_ClusterBundle_def convertBundleToClusterBundle_def Let_def split: sum.splits)
  show "map_of (entries (om_Annotations (cb_Meta cb))) AnnotationKeyJKSKey =
      map_of (entries (om_Annotations (cb_Meta (fst (ConvertTo bd))))) AnnotationKeyJKSKey"
    using assms(2) by (auto simp: owned_ClusterBundle_def convertBundleToClusterBundle_def Let_def split: sum.splits option.split)
qed

text \<open>
  C24: The ClusterBundle that the controller applies for an admitted Bundle means what the Bundle
  means: it has the Bundle's name, and converting it back yields the Bundle's specification in
  normal form, although only the name and the internal annotation of the metadata are kept.
\<close>

theorem applied_ClusterBundle_means_Bundle:
  assumes "ValidateCreate lib bd = []" and "has_target (spec_Target (bd_Spec bd))"
    and "no_star_keys bd" and "plain_annotations (bd_Meta bd)"
    and "br_GetBundle r (mig_world s) req = Inr bd" and "br_Reconcile r req s = (out, s')"
    and "\<And>body e. br_Marshal r body = Inl e \<Longrightarrow> \<not> apierrors_IsNotFound e"
    and "mig_log s' = mig_log s @ reqs" and "PatchClusterBundle name (ClusterBundleBody t) mgr force \<in> set reqs"
  shows "name = om_Name (bd_Meta bd) \<and>
    (\<exists>bd' cb'. ConvertFrom (tcb_ClusterBundle t) = Ok (bd', cb') \<and> bd_Spec bd' = bd_Spec (normal_Bundle bd))"
proof -
  have adm: "admissible lib bd" using assms(1) by (simp add: ValidateCreate_def validate_admissible)
  obtain rest where again: "ConvertFrom (fst (ConvertTo bd)) = Ok (normal_Bundle bd, rest)"
    using convert_roundtrip [OF admissible_convertible [OF adm assms(3)] assms(2,4) admissible_formats_distinct [OF adm]] by blast
  have "br_reconcile r bd s = (out, s')" using assms(5,6) by (simp add: br_Reconcile_def)
  from br_reconcile_script [OF this] assms(7) obtain n where "reqs = take n (script r bd (user_managed r bd (mig_world s)))"
    using assms(8) by auto
  then have "PatchClusterBundle name (ClusterBundleBody t) mgr force \<in> set (script r bd (user_managed r bd (mig_world s)))"
    using assms(9) by (auto dest: in_set_takeD)
  then obtain cb where "owned_ClusterBundle r bd = Some cb" "tcb_ClusterBundle t = cb" "name = om_Name (bd_Meta bd)"
    by (cases "owned_ClusterBundle r bd") (auto simp: script_def split: option.splits)
  with owned_ClusterBundle_meaning [OF again] show ?thesis by blast
qed

section \<open>The clock\<close>

text \<open>
  Once the Bundle reports the condition that its migration state calls for, the controller's
  requests no longer depend on the clock: a later reconcile repeats them exactly, so that
  server-side apply sees no change and the controller does not wake itself.
\<close>

lemma established_condition_ignores_clock:
  assumes "FindStatusCondition (st_Conditions (bd_Status bd))
      (if user_managed r bd (mig_world s) = None then BundleConditionDeprecated else BundleConditionMigrated) = Some c"
    and "cond_Status c = ConditionTrue" and "br_GetBundle r (mig_world s) req = Inr bd"
  shows "br_Reconcile (r\<lparr>br_Now := later\<rparr>) req s = br_Reconcile r req s"
proof -
  have same: "unmanageClusterBundle (r\<lparr>br_Now := later\<rparr>) cb s = unmanageClusterBundle r cb s"
    "applyClusterBundle (r\<lparr>br_Now := later\<rparr>) bd s = applyClusterBundle r bd s" for cb
    by (simp_all add: unmanageClusterBundle_def applyClusterBundle_def send_patch_def Let_def cong: sum.case_cong)
  have cond: "applyBundleCondition (r\<lparr>br_Now := later\<rparr>) bd k s1 = applyBundleCondition r bd k s1"
    if "cac_Type k = Some (if user_managed r bd (mig_world s) = None then BundleConditionDeprecated else BundleConditionMigrated)"
      and "cac_Status k = Some ConditionTrue" for k s1
    using assms(1,2) that by (simp add: applyBundleCondition_eq [OF that] timed_def send_patch_def cong: sum.case_cong)
  show ?thesis
    using assms(3) zero_not_managed
    by (auto simp: br_Reconcile_def br_reconcile_def same user_managed_def cond split: sum.split option.split prod.split)
qed

section \<open>Examples\<close>

definition example_migration :: "Condition list \<Rightarrow> ClusterBundle option bundle_reconciler" where
  "example_migration conds =
     \<lparr>br_GetBundle = \<lambda>w req. Inr (example_bundle\<lparr>bd_Status := \<lparr>st_Conditions = conds, st_DefaultCAPackageVersion = []\<rparr>\<rparr>),
      br_GetClusterBundle = \<lambda>w req. (case w of None \<Rightarrow> Inl (ApiNotFound ''no ClusterBundle'') | Some cb \<Rightarrow> Inr cb),
      br_SetControllerReference = \<lambda>owner obj. Inr [\<lparr>or_APIVersion = SchemeGroupVersion_String, or_Kind = BundleKind,
        or_Name = om_Name owner, or_UID = om_UID owner, or_Controller = Some True, or_BlockOwnerDeletion = Some True\<rparr>],
      br_Marshal = \<lambda>body. Inr ''json'', br_Patch = \<lambda>w req patch. (None, w), br_Now = 5\<rparr>"

definition example_migration_state :: "ClusterBundle option \<Rightarrow> ClusterBundle option migration" where
  "example_migration_state w = \<lparr>mig_world = w, mig_log = []\<rparr>"

definition taken_over :: ClusterBundle where
  "taken_over = empty_ClusterBundle\<lparr>cb_Meta := empty_ObjectMeta\<lparr>om_Name := ''b'', om_Annotations := Some [(BundleMigratedAnnotation, [])]\<rparr>\<rparr>"

abbreviation example_migrating :: "Condition list \<Rightarrow> Bundle" where
  "example_migrating conds \<equiv> example_bundle\<lparr>bd_Status := \<lparr>st_Conditions = conds, st_DefaultCAPackageVersion = []\<rparr>\<rparr>"

lemma example_migration_marshal: "br_Marshal (example_migration conds) body = Inl e \<Longrightarrow> \<not> apierrors_IsNotFound e"
  by (simp add: example_migration_def)

lemma Reconcile_follows_script_witness:
  "(\<exists>e. fst (br_Reconcile (example_migration []) example_req (example_migration_state (Some taken_over))) = Ok e) \<and>
   (\<exists>n \<le> 2. mig_log (snd (br_Reconcile (example_migration []) example_req (example_migration_state (Some taken_over)))) =
      take n [PatchClusterBundle ''b'' (ClusterBundleACBody (ClusterBundle_AC ''b'')) FieldManager False,
              PatchBundleStatus ''b'' (BundleACBody (condition_patch (example_migrating [])
                (timed 5 (example_migrating []) (migrated_condition (example_migrating []))))) FieldManager True])"
proof -
  have managed: "user_managed (example_migration []) (example_migrating []) (Some taken_over) = Some taken_over"
    by (simp add: user_managed_def example_migration_def isClusterBundleUserManaged_def taken_over_def)
  have name: "om_Name (cb_Meta taken_over) = ''b''" "om_Name (bd_Meta example_bundle) = ''b''" "br_Now (example_migration []) = 5"
    by (simp_all add: taken_over_def example_spec example_migration_def)
  have get: "br_GetBundle (example_migration []) w req = Inr (example_migrating [])" for w req
    by (simp add: example_migration_def)
  show ?thesis
    using Reconcile_follows_script [OF get surjective_pairing example_migration_marshal, where s = "example_migration_state (Some taken_over)" and req = example_req]
    by (simp add: example_migration_state_def script_def managed name)
qed

lemma example_bundle_migratable:
  "ValidateCreate accept_all (example_migrating conds) = []" "has_target (spec_Target (bd_Spec (example_migrating conds)))"
  "no_star_keys (example_migrating conds)" "plain_annotations (bd_Meta (example_migrating conds))"
  by (simp add: ValidateCreate_def example_bundle_admitted)
    (simp_all add: example_bundle_def has_target_def no_star_keys_def plain_annotations_def AnnotationKeyJKSKey_def)

lemma example_first_migration:
  "br_Reconcile (example_migration []) example_req (example_migration_state None) =
     (Ok None, \<lparr>mig_world = None, mig_log = script (example_migration []) (example_migrating []) None\<rparr>)"
proof -
  have own: "applyClusterBundle (example_migration []) (example_migrating []) (example_migration_state None) =
      (None, \<lparr>mig_world = None, mig_log = [hd (script (example_migration []) (example_migrating []) None)]\<rparr>)"
    by (simp add: applyClusterBundle_def send_patch_def script_def owned_ClusterBundle_def example_migration_def
        example_migration_state_def converted_name Let_def)
  have cond: "applyBundleCondition (example_migration []) (example_migrating []) (deprecated_condition (example_migrating []))
      \<lparr>mig_world = None, mig_log = [hd (script (example_migration []) (example_migrating []) None)]\<rparr> =
      (Ok None, \<lparr>mig_world = None, mig_log = script (example_migration []) (example_migrating []) None\<rparr>)"
    by (simp add: applyBundleCondition_eq send_patch_def script_def owned_ClusterBundle_def example_migration_def Let_def)
  have get: "br_GetBundle (example_migration []) w req = Inr (example_migrating [])"
    "br_GetClusterBundle (example_migration []) None key = Inl (ApiNotFound ''no ClusterBundle'')"
    "mig_world (example_migration_state None) = None" for w req key
    by (simp_all add: example_migration_def example_migration_state_def)
  show ?thesis
    by (simp add: br_Reconcile_def br_reconcile_def get zero_not_managed apierrors_IsNotFound_def own cond)
qed

lemma applied_ClusterBundle_means_Bundle_witness:
  "\<exists>t. PatchClusterBundle ''b'' (ClusterBundleBody t) FieldManager True \<in>
       set (mig_log (snd (br_Reconcile (example_migration []) example_req (example_migration_state None)))) \<and>
     (\<exists>bd' cb'. ConvertFrom (tcb_ClusterBundle t) = Ok (bd', cb') \<and> bd_Spec bd' = bd_Spec (normal_Bundle (example_migrating [])))"
proof -
  obtain cb where owned: "owned_ClusterBundle (example_migration []) (example_migrating []) = Some cb"
    by (simp add: owned_ClusterBundle_def example_migration_def Let_def)
  let ?t = "\<lparr>tcb_APIVersion = ''trust-manager.io/v1alpha2'', tcb_Kind = ''ClusterBundle'', tcb_ClusterBundle = cb\<rparr>"
  have sent: "PatchClusterBundle ''b'' (ClusterBundleBody ?t) FieldManager True \<in> set (script (example_migration []) (example_migrating []) None)"
    by (simp add: script_def owned example_spec)
  have "\<exists>bd' cb'. ConvertFrom (tcb_ClusterBundle ?t) = Ok (bd', cb') \<and> bd_Spec bd' = bd_Spec (normal_Bundle (example_migrating []))"
    by (rule conjunct2 [OF applied_ClusterBundle_means_Bundle [OF example_bundle_migratable _ example_first_migration example_migration_marshal _ sent]])
      (simp_all add: example_migration_def example_migration_state_def)
  with sent show ?thesis by (auto simp: example_first_migration)
qed

definition deprecated_since :: "int \<Rightarrow> Condition" where
  "deprecated_since time = \<lparr>cond_Type = BundleConditionDeprecated, cond_Status = ConditionTrue, cond_ObservedGeneration = 1,
     cond_LastTransitionTime = time, cond_Reason = ''MigrationRequired'',
     cond_Message = ''Bundle is deprecated; please migrate to ClusterBundle.''\<rparr>"

lemma established_condition_ignores_clock_witness:
  "br_Reconcile ((example_migration [deprecated_since 3])\<lparr>br_Now := 99\<rparr>) example_req (example_migration_state None) =
   br_Reconcile (example_migration [deprecated_since 3]) example_req (example_migration_state None)"
  by (rule established_condition_ignores_clock [where bd = "example_migrating [deprecated_since 3]" and c = "deprecated_since 3"])
    (simp_all add: example_migration_def example_migration_state_def user_managed_def FindStatusCondition_def deprecated_since_def)

end
