(* ===== verification/CrdSchema.thy ===== *)
theory CrdSchema
  imports ConversionProperties
begin

text \<open>
  The validation markers of the two API versions (\<open>types_bundle.go\<close> of v1alpha1 and
  \<open>types_cluster_bundle.go\<close> of v1alpha2) as predicates, and the type soundness of the conversion: what
  it makes of a valid, admitted Bundle is a valid ClusterBundle exactly when the joined inline
  certificates fit into the one field they move to. A field with \<open>omitempty\<close> that is empty is
  absent. Lengths are counted in bytes, which are the characters of ASCII text.
\<close>

section \<open>Markers of v1alpha1\<close>

definition object_key :: "string \<Rightarrow> bool" where
  "object_key k \<longleftrightarrow> 1 \<le> length k \<and> length k \<le> 253"

definition v1_selector :: "SourceObjectKeySelector \<Rightarrow> bool" where
  "v1_selector ref \<longleftrightarrow> (sok_Name ref \<noteq> []) \<noteq> (sok_Selector ref \<noteq> None) \<and> length (sok_Name ref) \<le> 253 \<and> length (sok_Key ref) \<le> 253"

definition v1_source :: "BundleSource \<Rightarrow> bool" where
  "v1_source src \<longleftrightarrow> unionCount src = 1 \<and> length (bs_InLine src) \<le> 1048576 \<and>
     pred_option v1_selector (bs_ConfigMap src) \<and> pred_option v1_selector (bs_Secret src)"

definition profile_enum :: "string \<Rightarrow> bool" where
  "profile_enum p \<longleftrightarrow> p \<in> {LegacyRC2PKCS12Profile, LegacyDESPKCS12Profile, Modern2023PKCS12Profile}"

definition v1_formats :: "AdditionalFormats \<Rightarrow> bool" where
  "v1_formats af \<longleftrightarrow> (af_JKS af \<noteq> None \<or> af_PKCS12 af \<noteq> None) \<and>
     pred_option (\<lambda>j. object_key (jks_Key j) \<and> 1 \<le> length (jks_Password j) \<and> length (jks_Password j) \<le> 128) (af_JKS af) \<and>
     pred_option (\<lambda>p. object_key (p12_Key p) \<and> pred_option (\<lambda>pw. length pw \<le> 128) (p12_Password p) \<and>
       (p12_Profile p = [] \<or> profile_enum (p12_Profile p))) (af_PKCS12 af)"

definition v1_target :: "BundleTarget \<Rightarrow> bool" where
  "v1_target t \<longleftrightarrow> (bt_ConfigMap t \<noteq> None \<or> bt_Secret t \<noteq> None) \<and>
     pred_option (\<lambda>tm. object_key (tt_Key tm)) (bt_ConfigMap t) \<and> pred_option (\<lambda>tm. object_key (tt_Key tm)) (bt_Secret t) \<and>
     pred_option v1_formats (bt_AdditionalFormats t)"

text \<open>A target without any field is absent from the specification, in both versions.\<close>

definition v1_absent :: "BundleTarget \<Rightarrow> bool" where
  "v1_absent t \<longleftrightarrow> bt_ConfigMap t = None \<and> bt_Secret t = None \<and> bt_AdditionalFormats t = None \<and> bt_NamespaceSelector t = None"

definition v1_spec :: "BundleSpec \<Rightarrow> bool" where
  "v1_spec spec \<longleftrightarrow> 1 \<le> length (spec_Sources spec) \<and> length (spec_Sources spec) \<le> 100 \<and>
     list_all v1_source (spec_Sources spec) \<and> (v1_absent (spec_Target spec) \<or> v1_target (spec_Target spec))"

section \<open>Markers of v1alpha2\<close>

definition key_char :: "char \<Rightarrow> bool" where
  "key_char c \<longleftrightarrow> CHR ''0'' \<le> c \<and> c \<le> CHR ''9'' \<or> CHR ''A'' \<le> c \<and> c \<le> CHR ''Z'' \<or> CHR ''a'' \<le> c \<and> c \<le> CHR ''z'' \<or>
     c = CHR ''_'' \<or> c = CHR ''.'' \<or> c = CHR ''-''"

definition v2_sourceRef :: "BundleSourceRef \<Rightarrow> bool" where
  "v2_sourceRef ref \<longleftrightarrow> sr_Kind ref \<in> {ConfigMapKind, SecretKind} \<and> (sr_Name ref \<noteq> []) \<noteq> (sr_Selector ref \<noteq> None) \<and>
     length (sr_Name ref) \<le> 253 \<and> object_key (bsr_Key ref) \<and> list_all (\<lambda>c. key_char c \<or> c = CHR ''*'') (bsr_Key ref)"

definition v2_defaultCAs :: "DefaultCAsSource \<Rightarrow> bool" where
  "v2_defaultCAs d \<longleftrightarrow> dca_Provider d \<in> {[], DefaultCAsProviderSystem, DefaultCAsProviderDisabled}"

definition v2_keyValue :: "TargetKeyValue \<Rightarrow> bool" where
  "v2_keyValue kv \<longleftrightarrow> object_key (tkv_Key kv) \<and> list_all key_char (tkv_Key kv) \<and>
     tkv_Format kv \<in> {[], BundleFormatPEM, BundleFormatPKCS12} \<and>
     pred_option (\<lambda>pw. length pw \<le> 128) (p2_Password (tkv_PKCS12 kv)) \<and>
     (p2_Profile (tkv_PKCS12 kv) = [] \<or> profile_enum (p2_Profile (tkv_PKCS12 kv))) \<and>
     (p2_Password (tkv_PKCS12 kv) = None \<or> tkv_Format kv = BundleFormatPKCS12) \<and>
     (p2_Profile (tkv_PKCS12 kv) = [] \<or> tkv_Format kv = BundleFormatPKCS12)"

definition v2_metadata :: "TargetMetadata \<Rightarrow> bool" where
  "v2_metadata m \<longleftrightarrow> list_all (\<lambda>k. \<not> has_prefix k ''trust-manager.io/'') (map fst (tm_Annotations m) @ map fst (tm_Labels m))"

definition v2_keyValueTarget :: "KeyValueTarget \<Rightarrow> bool" where
  "v2_keyValueTarget t \<longleftrightarrow> 1 \<le> length (kvt_Data t) \<and> length (kvt_Data t) \<le> 10 \<and> distinct (map tkv_Key (kvt_Data t)) \<and>
     list_all v2_keyValue (kvt_Data t) \<and> v2_metadata (kvt_Metadata t)"

definition v2_target :: "BundleTarget_v2 \<Rightarrow> bool" where
  "v2_target t \<longleftrightarrow> (bt2_ConfigMap t \<noteq> None \<or> bt2_Secret t \<noteq> None) \<and> pred_option v2_keyValueTarget (bt2_ConfigMap t) \<and>
     pred_option v2_keyValueTarget (bt2_Secret t) \<and> bt2_NamespaceSelector t \<noteq> None"

definition v2_absent :: "BundleTarget_v2 \<Rightarrow> bool" where
  "v2_absent t \<longleftrightarrow> bt2_ConfigMap t = None \<and> bt2_Secret t = None \<and> bt2_NamespaceSelector t = None"

definition v2_spec :: "BundleSpec_v2 \<Rightarrow> bool" where
  "v2_spec spec \<longleftrightarrow> length (spec2_SourceRefs spec) \<le> 100 \<and> list_all v2_sourceRef (spec2_SourceRefs spec) \<and>
     v2_defaultCAs (spec2_DefaultCAs spec) \<and> length (spec2_InLineCAs spec) \<le> 1048576 \<and>
     (v2_absent (spec2_Target spec) \<or> v2_target (spec2_Target spec))"

section \<open>Sources\<close>

text \<open>The keys are those of ConfigMaps and Secrets, which v1alpha1 does not check.\<close>

definition portable_keys :: "BundleSpec \<Rightarrow> bool" where
  "portable_keys spec \<longleftrightarrow>
     list_all (\<lambda>src. pred_option (\<lambda>ref. list_all key_char (sok_Key ref)) (bs_ConfigMap src) \<and>
       pred_option (\<lambda>ref. list_all key_char (sok_Key ref)) (bs_Secret src)) (spec_Sources spec) \<and>
     list_all (list_all key_char) (template_keys (spec_Target spec)) \<and>
     pred_option (\<lambda>af. list_all (list_all key_char) (map snd (format_specs af))) (bt_AdditionalFormats (spec_Target spec))"

lemma converted_sourceRef:
  assumes "source_ok lib i src" and "v1_source src"
    and "pred_option (\<lambda>ref. list_all key_char (sok_Key ref)) (bs_ConfigMap src)"
    and "pred_option (\<lambda>ref. list_all key_char (sok_Key ref)) (bs_Secret src)"
  shows "fst (Convert_v1alpha1_BundleSource_To_v1alpha2_BundleSourceRef src spec) = empty_sourceRef \<or>
    v2_sourceRef (fst (Convert_v1alpha1_BundleSource_To_v1alpha2_BundleSourceRef src spec))"
proof -
  have one: "unionCount src = 1" using assms(1) by (simp add: source_ok_def)
  have ref: "v2_sourceRef \<lparr>sr_Kind = kind, sr_Name = sok_Name ref, sr_Selector = sok_Selector ref,
      bsr_Key = (if ptr_Deref (sok_IncludeAllKeys ref) False then ''*'' else sok_Key ref)\<rparr>"
    if "kind = ConfigMapKind \<or> kind = SecretKind" "selector_ok lib ref path" "v1_selector ref" "list_all key_char (sok_Key ref)" for kind ref path
    using that by (cases "sok_IncludeAllKeys ref"; cases "sok_Key ref")
      (auto simp: v2_sourceRef_def selector_ok_def v1_selector_def object_key_def list_all_iff ptr_Deref_def)
  show ?thesis using one
  proof (cases rule: unionCount_cases)
    case (1 r)
    have "v2_sourceRef (fst (Convert_v1alpha1_BundleSource_To_v1alpha2_BundleSourceRef src spec))"
      using ref [of ConfigMapKind r] assms
      by (auto simp: 1 Convert_v1alpha1_BundleSource_To_v1alpha2_BundleSourceRef_def selector_of_source_def source_ok_def v1_source_def Let_def)
    then show ?thesis ..
  next
    case (2 r)
    have "v2_sourceRef (fst (Convert_v1alpha1_BundleSource_To_v1alpha2_BundleSourceRef src spec))"
      using ref [of SecretKind r] assms
      by (auto simp: 2 Convert_v1alpha1_BundleSource_To_v1alpha2_BundleSourceRef_def selector_of_source_def source_ok_def v1_source_def Let_def)
    then show ?thesis ..
  qed (simp_all add: Convert_v1alpha1_BundleSource_To_v1alpha2_BundleSourceRef_def selector_of_source_def inline_only_def default_only_def Let_def)
qed

lemma converted_sourceRefs:
  assumes "\<And>src. src \<in> set srcs \<Longrightarrow> \<exists>i. source_ok lib i src" and "list_all v1_source srcs"
    and "list_all (\<lambda>src. pred_option (\<lambda>ref. list_all key_char (sok_Key ref)) (bs_ConfigMap src) \<and>
       pred_option (\<lambda>ref. list_all key_char (sok_Key ref)) (bs_Secret src)) srcs"
  shows "list_all v2_sourceRef (filter (\<lambda>bs. bs \<noteq> empty_sourceRef) (fst (convert_sources srcs spec)))"
  using assms
proof (induction srcs arbitrary: spec)
  case (Cons src srcs)
  obtain i where "source_ok lib i src" using Cons.prems(1) [of src] by auto
  then have "fst (Convert_v1alpha1_BundleSource_To_v1alpha2_BundleSourceRef src spec) = empty_sourceRef \<or>
      v2_sourceRef (fst (Convert_v1alpha1_BundleSource_To_v1alpha2_BundleSourceRef src spec))"
    by (rule converted_sourceRef) (use Cons.prems in auto)
  with Cons show ?case by (auto simp: case_prod_beta)
qed simp

lemma length_convert_sources: "length (fst (convert_sources srcs spec)) = length srcs"
  by (induction srcs arbitrary: spec) (auto simp: case_prod_beta)

section \<open>Targets\<close>

lemma converted_keyValues:
  assumes "object_key (tt_Key tm)" and "list_all key_char (tt_Key tm)"
    and "pred_option v1_formats (bt_AdditionalFormats t)"
    and "pred_option (\<lambda>af. list_all (list_all key_char) (map snd (format_specs af))) (bt_AdditionalFormats t)"
    and "keys_ok t" and "tt_Key tm \<in> set (template_keys t)"
  shows "1 \<le> length (kvs_for t tm) \<and> length (kvs_for t tm) \<le> 3 \<and> distinct (map tkv_Key (kvs_for t tm)) \<and> list_all v2_keyValue (kvs_for t tm)"
  using assms
  by (cases "bt_AdditionalFormats t"; cases "af_JKS (the (bt_AdditionalFormats t))"; cases "af_PKCS12 (the (bt_AdditionalFormats t))")
    (auto simp: kvs_for_def v2_keyValue_def jks_kv_def pkcs12_kv_def no_PKCS12_def profile_enum_def v1_formats_def format_specs_def
      keys_ok_def Convert_v1alpha1_PKCS12_To_v1alpha2_PKCS12_def)

lemma converted_target:
  assumes "v1_target t" and "keys_ok t" and "list_all (list_all key_char) (template_keys t)"
    and "pred_option (\<lambda>af. list_all (list_all key_char) (map snd (format_specs af))) (bt_AdditionalFormats t)"
    and "\<And>tm. bt_ConfigMap t = Some tm \<or> bt_Secret t = Some tm \<Longrightarrow> \<exists>path. metadata_ok lib (tt_Metadata tm) path"
  shows "v2_target (fst (Convert_v1alpha1_BundleTarget_To_v1alpha2_BundleTarget t meta))"
proof -
  have kv: "v2_keyValueTarget (kv_target t tm)" if "bt_ConfigMap t = Some tm \<or> bt_Secret t = Some tm" for tm
  proof -
    have "object_key (tt_Key tm)" "list_all key_char (tt_Key tm)" "tt_Key tm \<in> set (template_keys t)"
      using that assms(1,3) by (auto simp: v1_target_def template_keys_def)
    from converted_keyValues [OF this(1,2) _ assms(4,2) this(3)] assms(1)
    have "1 \<le> length (kvs_for t tm) \<and> length (kvs_for t tm) \<le> 3 \<and> distinct (map tkv_Key (kvs_for t tm)) \<and> list_all v2_keyValue (kvs_for t tm)"
      by (simp add: v1_target_def)
    moreover from assms(5) [OF that] have "v2_metadata (tt_Metadata tm)"
      by (auto simp: metadata_ok_def v2_metadata_def list_all_iff)
    ultimately show ?thesis by (simp add: v2_keyValueTarget_def kv_target_def)
  qed
  have has: "has_target t" using assms(1) by (simp add: has_target_def v1_target_def)
  show ?thesis using kv has
    by (auto simp: convert_target [OF has] v2_target_def normal_target_def has_target_def option.pred_map
        split: option.split) (auto simp: option.pred_set)
qed

lemma converted_absent:
  "v1_absent t \<Longrightarrow> v2_absent (fst (Convert_v1alpha1_BundleTarget_To_v1alpha2_BundleTarget t meta))"
  by (simp add: v1_absent_def v2_absent_def Convert_v1alpha1_BundleTarget_To_v1alpha2_BundleTarget_def
      autoConvert_v1alpha1_BundleTarget_To_v1alpha2_BundleTarget_def)

section \<open>The converted specification\<close>

lemma ConvertTo_spec:
  "cb_Spec (fst (ConvertTo bd)) =
    (fst (Convert_v1alpha1_BundleSpec_To_v1alpha2_BundleSpec (bd_Spec bd) (bd_Meta bd)))\<lparr>spec2_SourceRefs :=
       filter (\<lambda>bs. bs \<noteq> empty_sourceRef) (spec2_SourceRefs (fst (Convert_v1alpha1_BundleSpec_To_v1alpha2_BundleSpec (bd_Spec bd) (bd_Meta bd))))\<rparr>"
  by (simp add: ConvertTo_def case_prod_beta Let_def)

text \<open>
  C17: The conversion respects the API types: of a Bundle that satisfies the schema of v1alpha1
  and the webhook, with keys that a ConfigMap or Secret can have, it makes a ClusterBundle that
  satisfies the schema of v1alpha2, exactly when the joined inline certificates have at most
  1048576 bytes.
\<close>

theorem ConvertTo_schema:
  assumes "ValidateCreate lib bd = []" and "v1_spec (bd_Spec bd)" and "portable_keys (bd_Spec bd)"
  shows "v2_spec (cb_Spec (fst (ConvertTo bd))) \<longleftrightarrow> length (spec2_InLineCAs (cb_Spec (fst (ConvertTo bd)))) \<le> 1048576"
proof -
  have adm: "admissible lib bd" using assms(1) by (simp add: ValidateCreate_def validate_admissible)
  let ?srcs = "spec_Sources (bd_Spec bd)" and ?t = "spec_Target (bd_Spec bd)"
  have "\<exists>i. source_ok lib i src" if "src \<in> set ?srcs" for src
    using adm that by (auto simp: admissible_def Let_def in_set_conv_nth)
  then have refs: "list_all v2_sourceRef (filter (\<lambda>bs. bs \<noteq> empty_sourceRef) (fst (convert_sources ?srcs spec)))" for spec
    by (rule converted_sourceRefs) (use assms(2,3) in \<open>simp_all add: v1_spec_def portable_keys_def\<close>)
  have few: "length (filter (\<lambda>bs. bs \<noteq> empty_sourceRef) (fst (convert_sources ?srcs spec))) \<le> 100" for spec
    using length_filter_le [of "\<lambda>bs. bs \<noteq> empty_sourceRef" "fst (convert_sources ?srcs spec)"] assms(2)
    by (simp add: length_convert_sources v1_spec_def)
  have "v2_target (fst (Convert_v1alpha1_BundleTarget_To_v1alpha2_BundleTarget ?t (bd_Meta bd)))" if "v1_target ?t"
  proof (rule converted_target [where lib = lib, OF that])
    show "\<exists>path. metadata_ok lib (tt_Metadata tm) path" if "bt_ConfigMap ?t = Some tm \<or> bt_Secret ?t = Some tm" for tm
      using adm that by (auto simp: admissible_def Let_def)
  qed (use adm assms(2,3) in \<open>simp_all add: admissible_def v1_spec_def portable_keys_def Let_def\<close>)
  with converted_absent assms(2)
  have "v2_absent (fst (Convert_v1alpha1_BundleTarget_To_v1alpha2_BundleTarget ?t (bd_Meta bd))) \<or>
      v2_target (fst (Convert_v1alpha1_BundleTarget_To_v1alpha2_BundleTarget ?t (bd_Meta bd)))"
    unfolding v1_spec_def by blast
  moreover have "v2_defaultCAs (provider_of d)" for d
    by (simp add: v2_defaultCAs_def provider_of_def split: option.split)
  ultimately show ?thesis using refs few by (auto simp: ConvertTo_spec convert_spec v2_spec_def)
qed

lemma length_trim_suffix: "length (trim_suffix s t) \<le> length s"
  by (simp add: trim_suffix_def)

lemma length_merge_inline: "length (merge_inline cas src) \<le> length cas + length (bs_InLine src) + 1"
  using length_trim_suffix [of cas "[nl]"] by (simp add: merge_inline_def)

lemma length_merged: "length (foldl merge_inline cas srcs) \<le> length cas + sum_list (map (\<lambda>src. length (bs_InLine src) + 1) srcs)"
proof (induction srcs arbitrary: cas)
  case (Cons src srcs)
  from Cons.IH [of "merge_inline cas src"] length_merge_inline [of cas src] show ?case by simp
qed simp

definition big_inline :: "nat \<Rightarrow> BundleSource" where
  "big_inline n = inline_only (replicate n CHR ''x'')"

definition big_bundle :: Bundle where
  "big_bundle = example_bundle\<lparr>bd_Spec := \<lparr>spec_Sources = [big_inline 600000, big_inline 600000],
     spec_Target = (spec_Target (bd_Spec example_bundle))\<lparr>bt_AdditionalFormats := None\<rparr>\<rparr>\<rparr>"

lemma merge_big: "m > 0 \<Longrightarrow> n > 0 \<Longrightarrow> length (foldl merge_inline [] [big_inline m, big_inline n]) = m + 1 + n"
proof -
  assume "m > 0" "n > 0"
  have "\<not> has_suffix (replicate m CHR ''x'') [nl]"
  proof
    assume "has_suffix (replicate m CHR ''x'') [nl]"
    then obtain r where "replicate m CHR ''x'' = r @ [nl]" by (auto simp: has_suffix_iff)
    then have "nl \<in> set (replicate m CHR ''x'')" by simp
    then show False by (simp add: nl_def)
  qed
  with \<open>m > 0\<close> \<open>n > 0\<close> show ?thesis by (simp add: merge_inline_def big_inline_def inline_only_def trim_suffix_def)
qed

text \<open>
  C38: The inline certificates of the converted Bundle are at most as long as those of all its
  sources with one separator each, so they fit whenever the sources fit together; but each
  source may take the whole limit by itself, and then a valid, admitted Bundle becomes a
  ClusterBundle that the API server refuses.
\<close>

theorem InLineCAs_bound:
  "length (spec2_InLineCAs (cb_Spec (fst (ConvertTo bd)))) \<le> sum_list (map (\<lambda>src. length (bs_InLine src) + 1) (spec_Sources (bd_Spec bd))) \<and>
   v1_spec (bd_Spec big_bundle) \<and> ValidateCreate accept_all big_bundle = [] \<and> \<not> v2_spec (cb_Spec (fst (ConvertTo big_bundle)))"
proof -
  have "length (spec2_InLineCAs (cb_Spec (fst (ConvertTo bd)))) \<le> sum_list (map (\<lambda>src. length (bs_InLine src) + 1) (spec_Sources (bd_Spec bd)))" for bd
    using length_merged [of "[]" "spec_Sources (bd_Spec bd)"] by (simp add: ConvertTo_spec convert_spec)
  moreover have "v1_spec (bd_Spec big_bundle)"
    by (simp add: v1_spec_def v1_source_def v1_target_def big_bundle_def big_inline_def inline_only_def unionCount_def count_if_def
        example_bundle_def example_template_def object_key_def)
  moreover have "admissible accept_all big_bundle"
    by (simp add: admissible_def big_bundle_def big_inline_def inline_only_def example_bundle_def source_ok_def unionCount_def count_if_def
        active_source_def self_source_def metadata_ok_def keys_ok_def example_template_def accept_all_def Let_def less_Suc_eq)
  then have "ValidateCreate accept_all big_bundle = []" by (simp add: ValidateCreate_def validate_admissible)
  moreover have "\<not> v2_spec (cb_Spec (fst (ConvertTo big_bundle)))"
    using merge_big [of 600000 600000] by (simp add: v2_spec_def ConvertTo_spec convert_spec big_bundle_def)
  ultimately show ?thesis by blast
qed

lemma example_pem_short: "length example_pem \<le> 1048576"
proof -
  have "length example_pem \<le> 100" by code_simp
  then show ?thesis by simp
qed

lemma ConvertTo_schema_witness:
  "v2_spec (cb_Spec (fst (ConvertTo annotated_bundle)))"
proof -
  have "admissible accept_all annotated_bundle"
    by (simp add: admissible_def annotated_bundle_def example_bundle_def source_ok_def unionCount_def count_if_def active_source_def
        self_source_def metadata_ok_def keys_ok_def format_specs_def template_keys_def example_template_def accept_all_def
        example_pem_nonempty Let_def)
  then have "ValidateCreate accept_all annotated_bundle = []" by (simp add: ValidateCreate_def validate_admissible)
  moreover have "v1_spec (bd_Spec annotated_bundle)"
    by (simp add: v1_spec_def v1_source_def v1_target_def v1_formats_def annotated_bundle_def example_bundle_def unionCount_def count_if_def
        example_template_def object_key_def example_pem_nonempty example_pem_short)
  moreover have "portable_keys (bd_Spec annotated_bundle)"
    by (simp add: portable_keys_def template_keys_def format_specs_def annotated_bundle_def example_bundle_def example_template_def key_char_def)
  moreover have "spec2_InLineCAs (cb_Spec (fst (ConvertTo annotated_bundle))) = example_pem"
    by (simp add: ConvertTo_spec convert_spec annotated_bundle_def example_bundle_def merge_inline_def example_pem_nonempty)
  ultimately show ?thesis using ConvertTo_schema example_pem_short by metis
qed

end
