(* ===== verification/TrustPackage.thy ===== *)
theory TrustPackage
  imports Fspkg
begin

text \<open>
  The container that provides the default CA package: \<open>trust-packages/debian/main.go\<close>. It copies
  every JSON file below a folder into one flat folder. The folder that is read is a tree whose
  directories hold what \<open>fs.ReadDir\<close> returns for them, in its order; the folder that is written is a
  record of the directories and files in it. The parameter \<open>disk\<close> says which operation fails and
  how, as a function of its path.
\<close>

section \<open>Folders\<close>

datatype node =
    RegularFile string
  | Directory "(string \<times> node) list"
  | OtherFile \<comment> \<open>a symlink, a device\<close>

record disk =
  dk_OpenInput :: "string \<Rightarrow> gerr option"
  dk_OpenOutput :: "string \<Rightarrow> gerr option"
  dk_ReadDir :: "string \<Rightarrow> gerr option"
  dk_MkdirAll :: "string \<Rightarrow> gerr option"
  dk_Open :: "string \<Rightarrow> gerr option"
  dk_OpenFile :: "string \<Rightarrow> gerr option"
  dk_Copy :: "string \<Rightarrow> (nat \<times> gerr) option" \<comment> \<open>an error after some bytes\<close>

record folder =
  fo_Dirs :: "string list"
  fo_Files :: "string gomap"

text \<open>\<open>filepath.Base\<close> and \<open>filepath.Join\<close> on clean, slash-separated paths.\<close>

definition filepath_Base :: "string \<Rightarrow> string" where
  "filepath_Base path = rev (takeWhile (\<lambda>c. c \<noteq> CHR ''/'') (rev path))"

definition path_Join :: "string \<Rightarrow> string \<Rightarrow> string" where
  "path_Join dir name = (if dir = ''.'' then name else dir @ ''/'' @ name)"

section \<open>Copying\<close>

text \<open>The callback on a regular file.\<close>

definition copy_file :: "disk \<Rightarrow> string \<Rightarrow> string \<Rightarrow> string \<Rightarrow> string \<Rightarrow> folder \<Rightarrow> gerr option \<times> folder" where
  "copy_file dk srcPath dstPath path content dst =
     (let realSrcPath = path_Join srcPath path; realDstPath = path_Join dstPath path
      in if filepath_Ext path \<noteq> ''.json'' then (None, dst)
         else (case dk_Open dk path of
             Some err \<Rightarrow> (Some (Wrapf (''failed to open file '' @ go_quote realSrcPath @ '' for reading: '') err), dst)
           | None \<Rightarrow>
               (let flatPath = filepath_Base path
                in case dk_OpenFile dk flatPath of
                     Some err \<Rightarrow> (Some (Wrapf (''failed to open file '' @ go_quote realDstPath @ '' for writing: '') err), dst)
                   | None \<Rightarrow>
                       (case dk_Copy dk path of
                          Some (n, err) \<Rightarrow>
                            (Some (Wrapf (''failed to copy source '' @ go_quote realSrcPath @ '' to destination '' @ go_quote realDstPath @ '': '') err),
                             dst\<lparr>fo_Files := map_put flatPath (take n content) (fo_Files dst)\<rparr>)
                        | None \<Rightarrow> (None, dst\<lparr>fo_Files := map_put flatPath content (fo_Files dst)\<rparr>)))))"

text \<open>\<open>fs.WalkDir\<close> with that callback: the first error ends the walk.\<close>

fun walk :: "disk \<Rightarrow> string \<Rightarrow> string \<Rightarrow> string \<Rightarrow> node \<Rightarrow> folder \<Rightarrow> gerr option \<times> folder"
and walk_entries :: "disk \<Rightarrow> string \<Rightarrow> string \<Rightarrow> string \<Rightarrow> (string \<times> node) list \<Rightarrow> folder \<Rightarrow> gerr option \<times> folder" where
  "walk dk srcPath dstPath path (RegularFile content) dst = copy_file dk srcPath dstPath path content dst"
| "walk dk srcPath dstPath path OtherFile dst = (None, dst)"
| "walk dk srcPath dstPath path (Directory es) dst =
     (case dk_MkdirAll dk path of
        Some err \<Rightarrow> (Some err, dst)
      | None \<Rightarrow>
          (let dst1 = dst\<lparr>fo_Dirs := fo_Dirs dst @ [path]\<rparr>
           in case dk_ReadDir dk path of
                Some err \<Rightarrow> (Some err, dst1)
              | None \<Rightarrow> walk_entries dk srcPath dstPath path es dst1))"
| "walk_entries dk srcPath dstPath path [] dst = (None, dst)"
| "walk_entries dk srcPath dstPath path ((name, n) # es) dst =
     (case walk dk srcPath dstPath (path_Join path name) n dst of
        (Some err, dst1) \<Rightarrow> (Some err, dst1)
      | (None, dst1) \<Rightarrow> walk_entries dk srcPath dstPath path es dst1)"

definition copyInputToOutput :: "disk \<Rightarrow> string \<Rightarrow> string \<Rightarrow> node \<Rightarrow> folder \<Rightarrow> gerr option \<times> folder" where
  "copyInputToOutput dk srcPath dstPath src dst =
     (case dk_OpenInput dk srcPath of
        Some err \<Rightarrow> (Some (Wrapf ''couldn't confirm that input path is a directory that exists: '' err), dst)
      | None \<Rightarrow>
          (case dk_OpenOutput dk dstPath of
             Some err \<Rightarrow> (Some (Wrapf ''couldn't confirm that output path is a directory that exists: '' err), dst)
           | None \<Rightarrow> walk dk srcPath dstPath ''.'' src dst))"

section \<open>The program\<close>

text \<open>The folders of the command line, or usage.\<close>

definition folders_of_args :: "string list \<Rightarrow> (string \<times> string) option" where
  "folders_of_args args =
     (case args of
        [a, b, c] \<Rightarrow> if a = ''/copyandmaybepause'' then Some (b, c) else None
      | [a, b] \<Rightarrow> Some (a, b)
      | _ \<Rightarrow> None)"

text \<open>How the program ends: with a status, or when a signal arrives.\<close>

datatype ending = Exit int | ExitOnSignal

definition package_main :: "disk \<Rightarrow> bool \<Rightarrow> string list \<Rightarrow> (string \<Rightarrow> node) \<Rightarrow> (string \<Rightarrow> folder) \<Rightarrow> ending \<times> (string \<Rightarrow> folder)" where
  "package_main dk waitFlag args inputs outputs =
     (case folders_of_args args of
        None \<Rightarrow> (Exit 1, outputs)
      | Some (inputDir, destinationDir) \<Rightarrow>
          (case copyInputToOutput dk inputDir destinationDir (inputs inputDir) (outputs destinationDir) of
             (Some err, dst) \<Rightarrow> (Exit 1, outputs(destinationDir := dst))
           | (None, dst) \<Rightarrow> (if waitFlag then ExitOnSignal else Exit 0, outputs(destinationDir := dst))))"

section \<open>What is copied\<close>

text \<open>The JSON files of a tree with their paths, in the order of the walk.\<close>

fun json_files :: "string \<Rightarrow> node \<Rightarrow> (string \<times> string) list"
and json_entries :: "string \<Rightarrow> (string \<times> node) list \<Rightarrow> (string \<times> string) list" where
  "json_files path (RegularFile content) = (if filepath_Ext path = ''.json'' then [(path, content)] else [])"
| "json_files path OtherFile = []"
| "json_files path (Directory es) = json_entries path es"
| "json_entries path [] = []"
| "json_entries path ((name, n) # es) = json_files (path_Join path name) n @ json_entries path es"

definition flat :: "(string \<times> string) list \<Rightarrow> string gomap" where
  "flat fs = map (\<lambda>(path, content). (filepath_Base path, content)) fs"

text \<open>
  A walk writes the files of a prefix of the list, and when it fails perhaps a part of the next.
\<close>

lemma copy_file_outcome:
  assumes "copy_file dk srcPath dstPath path content dst = (err, dst')"
  shows "(err = None \<and> fo_Files dst' = map_copy (fo_Files dst) (flat (json_files path (RegularFile content)))) \<or>
    (err \<noteq> None \<and> json_files path (RegularFile content) = [(path, content)] \<and>
      (fo_Files dst' = fo_Files dst \<or> (\<exists>n. fo_Files dst' = map_put (filepath_Base path) (take n content) (fo_Files dst))))"
  using assms by (auto simp: copy_file_def flat_def Let_def split: if_splits option.splits)

lemma flat_append [simp]: "flat (fs @ fs') = flat fs @ flat fs'"
  by (simp add: flat_def)

lemma flat_Nil [simp]: "flat [] = []"
  by (simp add: flat_def)

lemma map_copy_append: "map_copy m (xs @ ys) = map_copy (map_copy m xs) ys"
  by (simp add: map_copy_def)

definition partly_copied :: "string gomap \<Rightarrow> (string \<times> string) list \<Rightarrow> string gomap \<Rightarrow> bool" where
  "partly_copied files fs files' \<longleftrightarrow>
     (\<exists>done rest. fs = done @ rest \<and>
        (files' = map_copy files (flat done) \<or>
         (\<exists>path content rest' n. rest = (path, content) # rest' \<and>
            files' = map_put (filepath_Base path) (take n content) (map_copy files (flat done)))))"

lemma partly_copied_none: "partly_copied files fs files"
  unfolding partly_copied_def by (rule exI [of _ "[]"]) simp

lemma partly_copied_part: "partly_copied files [(path, content)] (map_put (filepath_Base path) (take n content) files)"
  unfolding partly_copied_def by (rule exI [of _ "[]"]) auto

lemma partly_copied_append1: "partly_copied files fs files' \<Longrightarrow> partly_copied files (fs @ fs') files'"
  unfolding partly_copied_def by fastforce

lemma partly_copied_append2:
  "partly_copied (map_copy files (flat fs)) fs' files' \<Longrightarrow> partly_copied files (fs @ fs') files'"
  unfolding partly_copied_def by (metis append_assoc flat_append map_copy_append)

lemma walk_outcome:
  "walk dk srcPath dstPath path n dst = (err, dst') \<Longrightarrow>
     (if err = None then fo_Files dst' = map_copy (fo_Files dst) (flat (json_files path n))
      else partly_copied (fo_Files dst) (json_files path n) (fo_Files dst'))"
  "walk_entries dk srcPath dstPath path es dst = (err, dst') \<Longrightarrow>
     (if err = None then fo_Files dst' = map_copy (fo_Files dst) (flat (json_entries path es))
      else partly_copied (fo_Files dst) (json_entries path es) (fo_Files dst'))"
proof (induction dk srcPath dstPath path n dst and dk srcPath dstPath path es dst arbitrary: err dst' and err dst' rule: walk_walk_entries.induct)
  case (1 dk srcPath dstPath path content dst)
  from copy_file_outcome [of dk srcPath dstPath path content dst err dst'] 1 show ?case
    by (auto simp: partly_copied_none intro: partly_copied_part)
next
  case (3 dk srcPath dstPath path es dst)
  show ?case
  proof (cases "dk_MkdirAll dk path = None \<and> dk_ReadDir dk path = None")
    case True
    with "3.prems" have "walk_entries dk srcPath dstPath path es (dst\<lparr>fo_Dirs := fo_Dirs dst @ [path]\<rparr>) = (err, dst')" by simp
    from "3.IH" [OF _ refl _ this] True show ?thesis by (cases err) auto
  next
    case False
    with "3.prems" show ?thesis by (auto simp: partly_copied_none Let_def split: option.splits)
  qed
next
  case (5 dk srcPath dstPath path name n es dst)
  obtain err1 dst1 where w: "walk dk srcPath dstPath (path_Join path name) n dst = (err1, dst1)" by force
  show ?case
  proof (cases err1)
    case None
    with w "5.IH"(1) [OF w] have files: "fo_Files dst1 = map_copy (fo_Files dst) (flat (json_files (path_Join path name) n))" by simp
    have entries: "walk_entries dk srcPath dstPath path es dst1 = (err, dst')" using "5.prems" w None by simp
    have "if err = None then fo_Files dst' = map_copy (fo_Files dst1) (flat (json_entries path es))
      else partly_copied (fo_Files dst1) (json_entries path es) (fo_Files dst')"
      by (rule "5.IH"(2) [OF _ _ entries]) (simp_all add: w None)
    then show ?thesis
      using partly_copied_append2 [of "fo_Files dst" "json_files (path_Join path name) n" "json_entries path es" "fo_Files dst'"]
      by (cases err) (simp_all add: files map_copy_append)
  next
    case (Some e)
    with "5.IH"(1) [OF w] "5.prems" w show ?thesis by (auto simp: partly_copied_append1)
  qed
qed auto

section \<open>Properties\<close>

definition last_file :: "string \<Rightarrow> (string \<times> string) list \<Rightarrow> string option" where
  \<comment> \<open>the content of the last file with a base name\<close>
  "last_file name fs = map_of (rev (flat fs)) name"

lemma map_of_copy_rev: "map_of (map_copy m xs) = map_of m ++ map_of (rev xs)"
proof (induction xs arbitrary: m)
  case (Cons x xs)
  show ?case by (cases x) (simp add: Cons.IH map_add_assoc [symmetric] fun_eq_iff map_add_def split: option.split)
qed simp

text \<open>
  After a successful copy the output folder holds, under each base name, the content of the
  last JSON file with that name in the order of the walk, and keeps every other file. When the
  copy fails, the files of a prefix of the walk are there, and at most one more is incomplete.
\<close>

lemma copyInputToOutput_files:
  "case copyInputToOutput dk srcPath dstPath src dst of
     (None, dst') \<Rightarrow> \<forall>name. map_of (fo_Files dst') name =
        (case last_file name (json_files ''.'' src) of None \<Rightarrow> map_of (fo_Files dst) name | Some content \<Rightarrow> Some content)
   | (Some err, dst') \<Rightarrow> partly_copied (fo_Files dst) (json_files ''.'' src) (fo_Files dst')"
proof -
  obtain err dst' where w: "walk dk srcPath dstPath ''.'' src dst = (err, dst')" by force
  from walk_outcome(1) [OF w] show ?thesis
    by (auto simp: copyInputToOutput_def w partly_copied_none last_file_def map_of_copy_rev map_add_def split: option.split)
qed

lemma map_of_flat_distinct:
  assumes "distinct (map (filepath_Base \<circ> fst) fs)" and "(path, content) \<in> set fs"
  shows "last_file (filepath_Base path) fs = Some content"
proof -
  have keys: "map fst (flat fs) = map (filepath_Base \<circ> fst) fs" by (simp add: flat_def case_prod_beta)
  then have "distinct (map fst (rev (flat fs)))" using assms(1) by (simp add: rev_map [symmetric])
  moreover have "(filepath_Base path, content) \<in> set (rev (flat fs))" using assms(2) by (force simp: flat_def)
  ultimately show ?thesis by (simp add: last_file_def)
qed

text \<open>
  C39: The package reaches the controller: when the JSON files have distinct base names and the copy
  succeeds, loading the default package from any of the copied files gives exactly the package
  (or the error) that the original has.
\<close>

theorem copied_package_loads:
  assumes "copyInputToOutput dk srcPath dstPath src dst = (None, dst')"
    and "distinct (map (filepath_Base \<circ> fst) (json_files ''.'' src))" and "(path, content) \<in> set (json_files ''.'' src)"
    and "\<And>name. os_Open (path_Join dstPath name) = (case map_of (fo_Files dst') name of None \<Rightarrow> Inl (missing name) | Some c \<Rightarrow> Inr c)"
    and "filepath_Ext (path_Join dstPath (filepath_Base path)) = ''.json''"
  shows "LoadPackageFromFile os_Open decode parse now (path_Join dstPath (filepath_Base path)) =
    map_err (Wrapf (''failed to load package '' @ go_quote (path_Join dstPath (filepath_Base path)) @ '': '')) (LoadPackage decode parse now content)"
proof -
  obtain err dst'' where w: "walk dk srcPath dstPath ''.'' src dst = (err, dst'')" by force
  with assms(1) have "err = None" "dst'' = dst'" by (auto simp: copyInputToOutput_def split: option.splits)
  with walk_outcome(1) [OF w] have "map_of (fo_Files dst') (filepath_Base path) = Some content"
    using map_of_flat_distinct [OF assms(2,3)] by (simp add: map_of_copy_rev map_add_def last_file_def)
  with assms(4) [of "filepath_Base path"] assms(5) show ?thesis by (simp add: LoadPackageFromFile_def requiredExt_def)
qed

section \<open>An example\<close>

definition fine_disk :: disk where
  "fine_disk = \<lparr>dk_OpenInput = \<lambda>p. None, dk_OpenOutput = \<lambda>p. None, dk_ReadDir = \<lambda>p. None, dk_MkdirAll = \<lambda>p. None,
     dk_Open = \<lambda>p. None, dk_OpenFile = \<lambda>p. None, dk_Copy = \<lambda>p. None\<rparr>"

definition package_tree :: node where
  "package_tree = Directory [(''README'', RegularFile ''text''), (''debian'', Directory [(''cas.json'', RegularFile ''A'')]),
     (''other.json'', RegularFile ''B'')]"

definition package_folder :: folder where
  "package_folder = \<lparr>fo_Dirs = [''.'', ''debian''], fo_Files = [(''cas.json'', ''A''), (''other.json'', ''B'')]\<rparr>"

lemma package_copied:
  "copyInputToOutput fine_disk ''/packages'' ''/out'' package_tree \<lparr>fo_Dirs = [], fo_Files = []\<rparr> = (None, package_folder)"
  by code_simp

lemma copied_package_loads_witness:
  "\<forall>decode parse now. LoadPackageFromFile (\<lambda>p. if p = ''/out/cas.json'' then Inr ''A'' else if p = ''/out/other.json'' then Inr ''B'' else Inl (Errorf p))
     decode parse now (path_Join ''/out'' ''cas.json'') =
   map_err (Wrapf (''failed to load package '' @ go_quote (path_Join ''/out'' ''cas.json'') @ '': '')) (LoadPackage decode parse now ''A'')"
proof (intro allI)
  fix decode :: "string \<Rightarrow> gerr + Package" and parse :: x509_parser and now :: int
  have files: "json_files ''.'' package_tree = [(''debian/cas.json'', ''A''), (''other.json'', ''B'')]" by code_simp
  have base: "filepath_Base ''debian/cas.json'' = ''cas.json''" "filepath_Base ''other.json'' = ''other.json''" by code_simp+
  let ?open = "\<lambda>p. if p = ''/out/cas.json'' then Inr ''A'' else if p = ''/out/other.json'' then Inr ''B'' else Inl (Errorf p)"
  have "LoadPackageFromFile ?open decode parse now (path_Join ''/out'' (filepath_Base ''debian/cas.json'')) =
      map_err (Wrapf (''failed to load package '' @ go_quote (path_Join ''/out'' (filepath_Base ''debian/cas.json'')) @ '': ''))
        (LoadPackage decode parse now ''A'')"
  proof (rule copied_package_loads [OF package_copied])
    show "?open (path_Join ''/out'' name) =
        (case map_of (fo_Files package_folder) name of None \<Rightarrow> Inl (Errorf (''/out/'' @ name)) | Some c \<Rightarrow> Inr c)" for name
      by (simp add: path_Join_def package_folder_def)
    show "filepath_Ext (path_Join ''/out'' (filepath_Base ''debian/cas.json'')) = ''.json''" by code_simp
  qed (simp_all add: files base)
  then show "LoadPackageFromFile ?open decode parse now (path_Join ''/out'' ''cas.json'') =
      map_err (Wrapf (''failed to load package '' @ go_quote (path_Join ''/out'' ''cas.json'') @ '': ''))
        (LoadPackage decode parse now ''A'')"
    by (simp only: base)
qed

end
