(* ===== verification/WebhookSetup.thy ===== *)
theory WebhookSetup
  imports Webhook
begin

text \<open>
  Registration of the admission webhooks: \<open>SetupWebhookWithManager\<close> of \<open>pkg/webhook/webhook.go\<close> and of
  \<open>pkg/webhook/cluster_bundle.go\<close>. The builder of controller-runtime is the parameter \<open>complete\<close>: it gets
  the kind and the validator, and fails or serves the kind with that validator.
\<close>

section \<open>Validators\<close>

record 'obj validator_ops =
  vo_Create :: "'obj \<Rightarrow> field_error list"
  vo_Update :: "'obj \<Rightarrow> 'obj \<Rightarrow> field_error list"
  vo_Delete :: "'obj \<Rightarrow> field_error list"

definition validator :: "validation_lib \<Rightarrow> Bundle validator_ops" where
  "validator lib = \<lparr>vo_Create = ValidateCreate lib, vo_Update = ValidateUpdate lib, vo_Delete = ValidateDelete lib\<rparr>"

definition cb_validator :: "validation_lib \<Rightarrow> ClusterBundle validator_ops" where
  "cb_validator lib =
     \<lparr>vo_Create = cb_ValidateCreate lib, vo_Update = cb_ValidateUpdate lib, vo_Delete = cb_ValidateDelete lib\<rparr>"

section \<open>Registration\<close>

text \<open>\<open>WebhookManagedBy(mgr, kind).WithValidator(ops).Complete()\<close>: the error, or the registration that was made.\<close>

definition WebhookManagedBy ::
  "(string \<Rightarrow> 'obj validator_ops \<Rightarrow> gerr option) \<Rightarrow> string \<Rightarrow> 'obj validator_ops \<Rightarrow> gerr + string \<times> 'obj validator_ops" where
  "WebhookManagedBy complete kind ops = (case complete kind ops of None \<Rightarrow> Inr (kind, ops) | Some err \<Rightarrow> Inl err)"

definition SetupWebhookWithManager ::
  "(string \<Rightarrow> Bundle validator_ops \<Rightarrow> gerr option) \<Rightarrow> validation_lib \<Rightarrow> gerr + string \<times> Bundle validator_ops" where
  "SetupWebhookWithManager complete lib = WebhookManagedBy complete BundleKind (validator lib)"

definition cb_SetupWebhookWithManager ::
  "(string \<Rightarrow> ClusterBundle validator_ops \<Rightarrow> gerr option) \<Rightarrow> validation_lib \<Rightarrow> gerr + string \<times> ClusterBundle validator_ops" where
  "cb_SetupWebhookWithManager complete lib = WebhookManagedBy complete ClusterBundleKind (cb_validator lib)"

lemma SetupWebhookWithManager_Inr:
  "SetupWebhookWithManager complete lib = Inr reg \<longleftrightarrow> complete BundleKind (validator lib) = None \<and> reg = (BundleKind, validator lib)"
  "cb_SetupWebhookWithManager complete' lib = Inr reg' \<longleftrightarrow>
     complete' ClusterBundleKind (cb_validator lib) = None \<and> reg' = (ClusterBundleKind, cb_validator lib)"
  by (auto simp: SetupWebhookWithManager_def cb_SetupWebhookWithManager_def WebhookManagedBy_def split: option.splits)

section \<open>What a registered validator admits\<close>

text \<open>The requests of an API server for one kind, and the requests that a validator lets through.\<close>

datatype 'obj admission_request = Create 'obj | Update 'obj 'obj | Delete 'obj

fun admitted :: "'obj validator_ops \<Rightarrow> 'obj admission_request \<Rightarrow> bool" where
  "admitted ops (Create obj) = (vo_Create ops obj = [])"
| "admitted ops (Update old new) = (vo_Update ops old new = [])"
| "admitted ops (Delete obj) = (vo_Delete ops obj = [])"

declare admitted.simps [simp del]

lemma admitted_validator [simp]:
  "admitted (validator lib) (Create obj) = (validate lib obj = [])"
  "admitted (validator lib) (Update old obj) = (validate lib obj = [])"
  "admitted (validator lib) (Delete obj)"
  by (simp_all add: admitted.simps validator_def ValidateCreate_def ValidateUpdate_def ValidateDelete_def)

lemma admitted_cb_validator [simp]:
  "admitted (cb_validator lib) (Create cb) = (cb_validate lib cb = [])"
  "admitted (cb_validator lib) (Update cb' cb) = (cb_validate lib cb = [])"
  "admitted (cb_validator lib) (Delete cb)"
  by (simp_all add: admitted.simps cb_validator_def cb_ValidateCreate_def cb_ValidateUpdate_def cb_ValidateDelete_def)

text \<open>Every stored object of a served kind is one that the validation accepts.\<close>

fun stored :: "'obj validator_ops \<Rightarrow> 'obj option \<Rightarrow> 'obj admission_request list \<Rightarrow> 'obj option" where
  "stored ops obj [] = obj"
| "stored ops obj (req # reqs) =
     stored ops (if admitted ops req then (case req of Create o' \<Rightarrow> Some o' | Update _ o' \<Rightarrow> Some o' | Delete _ \<Rightarrow> None) else obj) reqs"

lemma stored_valid:
  assumes "\<And>old obj. admitted ops (Create obj) \<or> admitted ops (Update old obj) \<Longrightarrow> P obj" and "pred_option P obj"
  shows "pred_option P (stored ops obj reqs)"
  using assms(2)
proof (induction reqs arbitrary: obj)
  case (Cons req reqs)
  show ?case unfolding stored.simps
    by (rule Cons.IH) (use Cons.prems assms(1) in \<open>auto split: admission_request.splits\<close>)
qed simp

end
