(* ===== verification/Startup.thy ===== *)
theory Startup
  imports Watch WebhookSetup
begin

text \<open>
  How trust-manager starts: the command line options of \<open>cmd/trust-manager/app/options/options.go\<close> and
  the command of \<open>cmd/trust-manager/app/app.go\<close>. The flag library (pflag) that turns the text of a
  flag into a value is the parameter \<open>flag_parser\<close>, the TLS tables of component-base are the
  parameter \<open>tls_lib\<close>, and the manager that the command creates is the parameter \<open>runtime\<close>.
  Durations are counted in seconds. The logger and the \<open>utilruntime.Must\<close> calls that fill the scheme are left out.
\<close>

section \<open>Options\<close>

record LeaderElectionConfig =
  le_Enabled :: bool
  le_LeaseDuration :: int
  le_RenewDeadline :: int

record TLSConfig =
  tls_MinVersion :: string
  tls_CipherSuites :: "string list"

record logOptions =
  log_format :: string
  log_level :: int

record WebhookOptions =
  wh_Host :: string
  wh_Port :: int
  wh_CertDir :: string

record AppOptions =
  app_ReadyzPort :: int
  app_ReadyzPath :: string
  app_MetricsPort :: int
  app_Webhook :: WebhookOptions
  app_Bundle :: Options
  app_log :: logOptions
  app_LeaderElection :: LeaderElectionConfig
  app_TLSConfig :: TLSConfig

text \<open>\<open>new(Options)\<close>: every field has its zero value.\<close>

definition New :: AppOptions where
  "New = \<lparr>app_ReadyzPort = 0, app_ReadyzPath = [], app_MetricsPort = 0,
     app_Webhook = \<lparr>wh_Host = [], wh_Port = 0, wh_CertDir = []\<rparr>,
     app_Bundle = \<lparr>opt_Namespace = [], opt_DefaultPackageLocation = [], opt_SecretTargetsEnabled = False,
       opt_FilterExpiredCerts = False, opt_FilterNonCACerts = False, opt_TargetNamespaces = []\<rparr>,
     app_log = \<lparr>log_format = [], log_level = 0\<rparr>,
     app_LeaderElection = \<lparr>le_Enabled = False, le_LeaseDuration = 0, le_RenewDeadline = 0\<rparr>,
     app_TLSConfig = \<lparr>tls_MinVersion = [], tls_CipherSuites = []\<rparr>\<rparr>"

section \<open>The log format\<close>

definition logFormat_String :: "string \<Rightarrow> string" where
  "logFormat_String e = (if length e = 0 then ''text'' else e)"

definition logFormat_Set :: "string \<Rightarrow> string \<Rightarrow> gerr option \<times> string" where
  \<comment> \<open>the error and the new value of the receiver\<close>
  "logFormat_Set e v =
     (if v = ''text'' \<or> v = ''json'' then (None, v)
      else (Some (Errorf (''must be one of '' @ go_quote ''text'' @ '' or '' @ go_quote ''json'')), e))"

text \<open>The root logger: the handler and its level.\<close>

datatype log_handler = TextHandler int | JSONHandler int

definition NewLogger :: "logOptions \<Rightarrow> log_handler" where
  "NewLogger l = (if log_format l = ''json'' then JSONHandler (- log_level l) else TextHandler (- log_level l))"

section \<open>Flags\<close>

record flag_parser =
  fp_Int :: "string \<Rightarrow> gerr + int"
  fp_Bool :: "string \<Rightarrow> gerr + bool"
  fp_Duration :: "string \<Rightarrow> gerr + int"
  fp_StringSlice :: "string \<Rightarrow> gerr + string list"

text \<open>A flag: its name, its default, and what setting it to a text does.\<close>

record flag =
  fl_Name :: string
  fl_Default :: "AppOptions \<Rightarrow> AppOptions"
  fl_Set :: "flag_parser \<Rightarrow> string \<Rightarrow> AppOptions \<Rightarrow> gerr + AppOptions"

definition IntVar :: "(int \<Rightarrow> AppOptions \<Rightarrow> AppOptions) \<Rightarrow> string \<Rightarrow> int \<Rightarrow> flag" where
  "IntVar write name d =
     \<lparr>fl_Name = name, fl_Default = write d, fl_Set = \<lambda>p v opts. map_sum id (\<lambda>x. write x opts) (fp_Int p v)\<rparr>"

definition StringVar :: "(string \<Rightarrow> AppOptions \<Rightarrow> AppOptions) \<Rightarrow> string \<Rightarrow> string \<Rightarrow> flag" where
  "StringVar write name d = \<lparr>fl_Name = name, fl_Default = write d, fl_Set = \<lambda>p v opts. Inr (write v opts)\<rparr>"

definition BoolVar :: "(bool \<Rightarrow> AppOptions \<Rightarrow> AppOptions) \<Rightarrow> string \<Rightarrow> bool \<Rightarrow> flag" where
  "BoolVar write name d =
     \<lparr>fl_Name = name, fl_Default = write d, fl_Set = \<lambda>p v opts. map_sum id (\<lambda>x. write x opts) (fp_Bool p v)\<rparr>"

definition DurationVar :: "(int \<Rightarrow> AppOptions \<Rightarrow> AppOptions) \<Rightarrow> string \<Rightarrow> int \<Rightarrow> flag" where
  "DurationVar write name d =
     \<lparr>fl_Name = name, fl_Default = write d, fl_Set = \<lambda>p v opts. map_sum id (\<lambda>x. write x opts) (fp_Duration p v)\<rparr>"

definition StringSliceVar :: "(string list \<Rightarrow> AppOptions \<Rightarrow> AppOptions) \<Rightarrow> string \<Rightarrow> string list \<Rightarrow> flag" where
  "StringSliceVar write name d =
     \<lparr>fl_Name = name, fl_Default = write d, fl_Set = \<lambda>p v opts. map_sum id (\<lambda>x. write x opts) (fp_StringSlice p v)\<rparr>"

text \<open>\<open>fs.Var\<close> keeps the value that the variable has.\<close>

definition LogFormatVar :: "string \<Rightarrow> flag" where
  "LogFormatVar name =
     \<lparr>fl_Name = name, fl_Default = id,
      fl_Set = \<lambda>p v opts. (case logFormat_Set (log_format (app_log opts)) v of
          (Some err, _) \<Rightarrow> Inl err
        | (None, e) \<Rightarrow> Inr (opts\<lparr>app_log := (app_log opts)\<lparr>log_format := e\<rparr>\<rparr>))\<rparr>"

abbreviation leader_write :: "(LeaderElectionConfig \<Rightarrow> LeaderElectionConfig) \<Rightarrow> AppOptions \<Rightarrow> AppOptions" where
  "leader_write f o' \<equiv> o'\<lparr>app_LeaderElection := f (app_LeaderElection o')\<rparr>"
abbreviation bundle_write :: "(Options \<Rightarrow> Options) \<Rightarrow> AppOptions \<Rightarrow> AppOptions" where
  "bundle_write f o' \<equiv> o'\<lparr>app_Bundle := f (app_Bundle o')\<rparr>"
abbreviation webhook_write :: "(WebhookOptions \<Rightarrow> WebhookOptions) \<Rightarrow> AppOptions \<Rightarrow> AppOptions" where
  "webhook_write f o' \<equiv> o'\<lparr>app_Webhook := f (app_Webhook o')\<rparr>"
abbreviation tls_write :: "(TLSConfig \<Rightarrow> TLSConfig) \<Rightarrow> AppOptions \<Rightarrow> AppOptions" where
  "tls_write f o' \<equiv> o'\<lparr>app_TLSConfig := f (app_TLSConfig o')\<rparr>"

definition addAppFlags :: "flag list" where
  "addAppFlags =
     [IntVar (\<lambda>v o'. o'\<lparr>app_ReadyzPort := v\<rparr>) ''readiness-probe-port'' 6060,
      StringVar (\<lambda>v o'. o'\<lparr>app_ReadyzPath := v\<rparr>) ''readiness-probe-path'' ''/readyz'',
      BoolVar (\<lambda>v. leader_write (\<lambda>c. c\<lparr>le_Enabled := v\<rparr>)) ''leader-elect'' True,
      DurationVar (\<lambda>v. leader_write (\<lambda>c. c\<lparr>le_LeaseDuration := v\<rparr>)) ''leader-election-lease-duration'' 15,
      DurationVar (\<lambda>v. leader_write (\<lambda>c. c\<lparr>le_RenewDeadline := v\<rparr>)) ''leader-election-renew-deadline'' 10,
      IntVar (\<lambda>v o'. o'\<lparr>app_MetricsPort := v\<rparr>) ''metrics-port'' 9402]"

definition addBundleFlags :: "flag list" where
  "addBundleFlags =
     [StringVar (\<lambda>v. bundle_write (\<lambda>c. c\<lparr>opt_Namespace := v\<rparr>)) ''trust-namespace'' ''cert-manager'',
      StringVar (\<lambda>v. bundle_write (\<lambda>c. c\<lparr>opt_DefaultPackageLocation := v\<rparr>)) ''default-package-location'' [],
      BoolVar (\<lambda>v. bundle_write (\<lambda>c. c\<lparr>opt_SecretTargetsEnabled := v\<rparr>)) ''secret-targets-enabled'' False,
      BoolVar (\<lambda>v. bundle_write (\<lambda>c. c\<lparr>opt_FilterExpiredCerts := v\<rparr>)) ''filter-expired-certificates'' False,
      BoolVar (\<lambda>v. bundle_write (\<lambda>c. c\<lparr>opt_FilterNonCACerts := v\<rparr>)) ''filter-non-ca-certs'' False,
      StringSliceVar (\<lambda>v. bundle_write (\<lambda>c. c\<lparr>opt_TargetNamespaces := v\<rparr>)) ''target-namespaces'' []]"

definition addLoggingFlags :: "flag list" where
  "addLoggingFlags =
     [LogFormatVar ''log-format'',
      IntVar (\<lambda>v o'. o'\<lparr>app_log := (app_log o')\<lparr>log_level := v\<rparr>\<rparr>) ''log-level'' 1]"

definition addWebhookFlags :: "flag list" where
  "addWebhookFlags =
     [StringVar (\<lambda>v. webhook_write (\<lambda>c. c\<lparr>wh_Host := v\<rparr>)) ''webhook-host'' ''0.0.0.0'',
      IntVar (\<lambda>v. webhook_write (\<lambda>c. c\<lparr>wh_Port := v\<rparr>)) ''webhook-port'' 6443,
      StringVar (\<lambda>v. webhook_write (\<lambda>c. c\<lparr>wh_CertDir := v\<rparr>)) ''webhook-certificate-dir'' ''/tls'']"

definition addTLSConfigFlags :: "flag list" where
  "addTLSConfigFlags =
     [StringVar (\<lambda>v. tls_write (\<lambda>c. c\<lparr>tls_MinVersion := v\<rparr>)) ''tls-min-version'' [],
      StringSliceVar (\<lambda>v. tls_write (\<lambda>c. c\<lparr>tls_CipherSuites := v\<rparr>)) ''tls-cipher-suites'' []]"

definition addFlags :: "flag list" where
  \<comment> \<open>without the flags of kubectl\<close>
  "addFlags = addAppFlags @ addBundleFlags @ addLoggingFlags @ addWebhookFlags @ addTLSConfigFlags"

definition Prepare :: "AppOptions \<Rightarrow> AppOptions" where
  \<comment> \<open>registering a flag writes its default\<close>
  "Prepare opts = fold fl_Default addFlags opts"

text \<open>Setting the flags of a command line, in order; an unknown name is an error.\<close>

fun set_flags :: "flag_parser \<Rightarrow> (string \<times> string) list \<Rightarrow> AppOptions \<Rightarrow> gerr + AppOptions" where
  "set_flags p [] opts = Inr opts"
| "set_flags p ((name, v) # args) opts =
     (case List.find (\<lambda>f. fl_Name f = name) addFlags of
        None \<Rightarrow> Inl (Errorf (''unknown flag: --'' @ name))
      | Some f \<Rightarrow>
          (case fl_Set f p v opts of
             Inl err \<Rightarrow> Inl err
           | Inr opts' \<Rightarrow> set_flags p args opts'))"

section \<open>TLS\<close>

record tls_lib =
  tl_Version :: "string \<Rightarrow> gerr + int"
  tl_CipherSuites :: "string list \<Rightarrow> gerr + int list"

record tls_server =
  ts_MinVersion :: int
  ts_CipherSuites :: "int list"

definition GetTLSOptions :: "tls_lib \<Rightarrow> TLSConfig \<Rightarrow> gerr + (tls_server \<Rightarrow> tls_server) list" where
  "GetTLSOptions lib config =
     (case (if tls_MinVersion config \<noteq> []
            then (case tl_Version lib (tls_MinVersion config) of
                    Inl err \<Rightarrow> Inl err
                  | Inr tlsVersion \<Rightarrow> Inr [\<lambda>cfg. cfg\<lparr>ts_MinVersion := tlsVersion\<rparr>])
            else Inr []) of
        Inl err \<Rightarrow> Inl err
      | Inr tlsOptions \<Rightarrow>
          (if length (tls_CipherSuites config) > 0
           then (case tl_CipherSuites lib (tls_CipherSuites config) of
                   Inl err \<Rightarrow> Inl err
                 | Inr suites \<Rightarrow> Inr (tlsOptions @ [\<lambda>cfg. cfg\<lparr>ts_CipherSuites := suites\<rparr>]))
           else Inr tlsOptions))"

section \<open>The command\<close>

record manager_options =
  mo_LeaderElection :: bool
  mo_LeaderElectionID :: string
  mo_LeaderElectionReleaseOnCancel :: bool
  mo_LeaseDuration :: int
  mo_RenewDeadline :: int
  mo_ReadinessEndpointName :: string
  mo_HealthProbeBindAddress :: string
  mo_WebhookPort :: int
  mo_WebhookHost :: string
  mo_WebhookCertDir :: string
  mo_TLSOpts :: "(tls_server \<Rightarrow> tls_server) list"
  mo_MetricsBindAddress :: string
  mo_Cache :: cache_options

definition show_int :: "int \<Rightarrow> string" where
  "show_int n = (if n < 0 then ''-'' @ itoa (nat (- n)) else itoa (nat n))"

definition manager_options_of :: "AppOptions \<Rightarrow> (tls_server \<Rightarrow> tls_server) list \<Rightarrow> manager_options" where
  "manager_options_of opts tlsOptions =
     \<lparr>mo_LeaderElection = le_Enabled (app_LeaderElection opts), mo_LeaderElectionID = ''trust-manager-leader-election'',
      mo_LeaderElectionReleaseOnCancel = True,
      mo_LeaseDuration = le_LeaseDuration (app_LeaderElection opts), mo_RenewDeadline = le_RenewDeadline (app_LeaderElection opts),
      mo_ReadinessEndpointName = app_ReadyzPath opts, mo_HealthProbeBindAddress = ''0.0.0.0:'' @ show_int (app_ReadyzPort opts),
      mo_WebhookPort = wh_Port (app_Webhook opts), mo_WebhookHost = wh_Host (app_Webhook opts), mo_WebhookCertDir = wh_CertDir (app_Webhook opts),
      mo_TLSOpts = tlsOptions, mo_MetricsBindAddress = ''0.0.0.0:'' @ show_int (app_MetricsPort opts),
      mo_Cache = CacheOpts (app_Bundle opts)\<rparr>"

record ('sel, 'cache) "runtime" =
  rt_ToRESTConfig :: "gerr option"
  rt_tls :: tls_lib
  rt_NewManager :: "manager_options \<Rightarrow> gerr + ('sel, 'cache) manager"
  rt_AddReadyzCheck :: "gerr option"
  rt_AddHealthzCheck :: "gerr option"
  rt_LoadPackage :: "string \<Rightarrow> Package res"
  rt_CompleteWebhook :: "string \<Rightarrow> Bundle validator_ops \<Rightarrow> gerr option"
  rt_validation :: validation_lib
  rt_Start :: "gerr option"

definition Complete :: "('sel, 'cache) runtime \<Rightarrow> gerr option" where
  "Complete rt = (case rt_ToRESTConfig rt of
     None \<Rightarrow> None | Some err \<Rightarrow> Some (Errorf (''failed to build kubernetes rest config: '' @ error_text err)))"

text \<open>What happens on the way, and the error that the command returns.\<close>

datatype step = ManagerCreated manager_options | ControllerRegistered BundleBuilder "watch list" 
  | WebhookRegistered string "Bundle validator_ops" | Started

definition RunE :: "('sel, 'cache) runtime \<Rightarrow> AppOptions \<Rightarrow> gerr option res \<times> step list" where
  "RunE rt opts =
     (case Complete rt of
        Some err \<Rightarrow> (Ok (Some err), [])
      | None \<Rightarrow>
     (case GetTLSOptions (rt_tls rt) (app_TLSConfig opts) of
        Inl err \<Rightarrow> (Ok (Some (Errorf (''invalid flags: '' @ error_text err))), [])
      | Inr tlsOptions \<Rightarrow>
     (let mo = manager_options_of opts tlsOptions
      in case rt_NewManager rt mo of
        Inl err \<Rightarrow> (Ok (Some (Wrapf ''failed to create manager: '' err)), [])
      | Inr mgr \<Rightarrow>
     (case rt_AddReadyzCheck rt of
        Some err \<Rightarrow> (Ok (Some (Errorf (''failed to add webhook ready check: '' @ error_text err))), [ManagerCreated mo])
      | None \<Rightarrow>
     (case rt_AddHealthzCheck rt of
        Some err \<Rightarrow> (Ok (Some (Errorf (''failed to add webhook health check: '' @ error_text err))), [ManagerCreated mo])
      | None \<Rightarrow>
     (case SetupWithManager (rt_LoadPackage rt) mgr (app_Bundle opts) of
        Panic p \<Rightarrow> (Panic p, [ManagerCreated mo])
      | Err err \<Rightarrow> (Ok (Some (Wrapf ''failed to register Bundle controller: '' err)), [ManagerCreated mo])
      | Ok (builder, watches) \<Rightarrow>
     (case SetupWebhookWithManager (rt_CompleteWebhook rt) (rt_validation rt) of
        Inl err \<Rightarrow> (Ok (Some (Wrapf ''failed to register webhook: '' err)), [ManagerCreated mo, ControllerRegistered builder watches])
      | Inr (kind, ops) \<Rightarrow>
          (Ok (rt_Start rt),
           [ManagerCreated mo, ControllerRegistered builder watches, WebhookRegistered kind ops, Started]))))))))"

text \<open>
  \<open>NewCommand\<close> prepares the options, cobra sets the flags and runs the command, and \<open>main\<close>
  (\<open>cmd/trust-manager/main.go\<close>) turns an error into the exit status 1. A panic ends the process with status 2.
\<close>

definition NewCommand :: "flag_parser \<Rightarrow> ('sel, 'cache) runtime \<Rightarrow> (string \<times> string) list \<Rightarrow> gerr option res \<times> step list" where
  \<comment> \<open>the command, executed on a command line without \<open>--help\<close>\<close>
  "NewCommand p rt args =
     (case set_flags p args (Prepare New) of
        Inl err \<Rightarrow> (Ok (Some err), [])
      | Inr opts \<Rightarrow> RunE rt opts)"

definition main :: "flag_parser \<Rightarrow> ('sel, 'cache) runtime \<Rightarrow> (string \<times> string) list \<Rightarrow> nat \<times> step list" where
  \<comment> \<open>the exit status and what happened before\<close>
  "main p rt args =
     (case NewCommand p rt args of
        (Ok None, steps) \<Rightarrow> (0, steps)
      | (Panic s, steps) \<Rightarrow> (2, steps)
      | (_, steps) \<Rightarrow> (1, steps))"

end
