(* ===== verification/StartupTheorems.thy ===== *)
theory StartupTheorems
  imports Startup Fspkg "HOL-Library.Multiset"
begin

text \<open>
  What the start of trust-manager guarantees: the meaning of a command line does not depend on the
  order of its flags, and the manager runs only after every part is set up.
\<close>

section \<open>Flags\<close>

lemma addFlags_names: "distinct (map fl_Name addFlags)"
  by (simp add: addFlags_def addAppFlags_def addBundleFlags_def addLoggingFlags_def addWebhookFlags_def addTLSConfigFlags_def
      IntVar_def StringVar_def BoolVar_def DurationVar_def StringSliceVar_def LogFormatVar_def)

definition flags_commute :: "flag \<Rightarrow> flag \<Rightarrow> bool" where
  "flags_commute f g \<longleftrightarrow>
     (\<forall>p v w opts opts1 opts2. fl_Set f p v opts = Inr opts1 \<longrightarrow> fl_Set g p w opts1 = Inr opts2 \<longrightarrow>
        (\<exists>opts1'. fl_Set g p w opts = Inr opts1' \<and> fl_Set f p v opts1' = Inr opts2))"

named_theorems flag_defs

lemmas flag_constructors [flag_defs] = IntVar_def StringVar_def BoolVar_def DurationVar_def StringSliceVar_def LogFormatVar_def

text \<open>A flag parses its text without looking at the options, and then writes to one slot of them.\<close>

definition slot_flag :: "(flag_parser \<Rightarrow> string \<Rightarrow> gerr + 'a) \<Rightarrow> ('a \<Rightarrow> AppOptions \<Rightarrow> AppOptions) \<Rightarrow> flag \<Rightarrow> bool" where
  "slot_flag parse write f \<longleftrightarrow> (\<forall>p v opts. fl_Set f p v opts = map_sum id (\<lambda>x. write x opts) (parse p v))"

lemma slot_flags:
  "slot_flag fp_Int write (IntVar write n d)"
  "slot_flag (\<lambda>p v. Inr v) write' (StringVar write' n d')"
  "slot_flag fp_Bool write'' (BoolVar write'' n d'')"
  "slot_flag fp_Duration write (DurationVar write n d)"
  "slot_flag fp_StringSlice ws (StringSliceVar ws n ds)"
  "slot_flag (\<lambda>p v. if v = ''text'' \<or> v = ''json'' then Inr v else Inl (the (fst (logFormat_Set [] v))))
     (\<lambda>e o'. o'\<lparr>app_log := (app_log o')\<lparr>log_format := e\<rparr>\<rparr>) (LogFormatVar n)"
  by (auto simp: slot_flag_def flag_defs logFormat_Set_def)

lemma slots_commute:
  assumes "slot_flag parse write f" and "slot_flag parse' write' g"
    and "\<And>x y opts. write' y (write x opts) = write x (write' y opts)"
  shows "flags_commute f g"
  unfolding flags_commute_def
proof (intro allI impI)
  fix p v w opts opts1 opts2
  assume f: "fl_Set f p v opts = Inr opts1" and g: "fl_Set g p w opts1 = Inr opts2"
  from f assms(1) obtain x where x: "parse p v = Inr x" "opts1 = write x opts"
    by (cases "parse p v") (auto simp: slot_flag_def)
  from g assms(2) obtain y where y: "parse' p w = Inr y" "opts2 = write' y opts1"
    by (cases "parse' p w") (auto simp: slot_flag_def)
  show "\<exists>opts1'. fl_Set g p w opts = Inr opts1' \<and> fl_Set f p v opts1' = Inr opts2"
    using assms x y by (auto simp: slot_flag_def)
qed

lemma flags_commute_pairs: "sorted_wrt (\<lambda>f g. flags_commute f g \<and> flags_commute g f) addFlags"
  unfolding addFlags_def addAppFlags_def addBundleFlags_def addLoggingFlags_def addWebhookFlags_def addTLSConfigFlags_def
    append.simps sorted_wrt.simps list.set ball_simps
  by (intro conjI TrueI; rule slots_commute, rule slot_flags, rule slot_flags, simp)

lemma flags_commute:
  assumes "f \<in> set addFlags" and "g \<in> set addFlags" and "f \<noteq> g"
  shows "flags_commute f g"
proof -
  obtain i j where ij: "i < length addFlags" "j < length addFlags" "f = addFlags ! i" "g = addFlags ! j"
    using assms(1,2) by (auto simp: in_set_conv_nth)
  with assms(3) consider "i < j" | "j < i" by (metis linorder_neqE_nat)
  then show ?thesis using flags_commute_pairs ij by cases (auto simp: sorted_wrt_iff_nth_less)
qed

section \<open>Command lines\<close>

lemma set_flags_Cons_Inr:
  "set_flags p ((name, v) # args) opts = Inr opts' \<longleftrightarrow>
     (\<exists>f opts1. List.find (\<lambda>f. fl_Name f = name) addFlags = Some f \<and> fl_Set f p v opts = Inr opts1 \<and> set_flags p args opts1 = Inr opts')"
  by (auto split: option.splits sum.splits)

lemma find_flag: "List.find (\<lambda>f. fl_Name f = name) addFlags = Some f \<Longrightarrow> f \<in> set addFlags \<and> fl_Name f = name"
  by (auto simp: find_Some_iff)

lemma set_flags_swap:
  assumes "set_flags p (a # b # args) opts = Inr opts'" and "fst a \<noteq> fst b"
  shows "set_flags p (b # a # args) opts = Inr opts'"
proof -
  obtain n v where a: "a = (n, v)" by force
  obtain m w where b: "b = (m, w)" by force
  from assms(1) obtain f g opts1 opts2
    where f: "List.find (\<lambda>f. fl_Name f = n) addFlags = Some f" "fl_Set f p v opts = Inr opts1"
      and g: "List.find (\<lambda>f. fl_Name f = m) addFlags = Some g" "fl_Set g p w opts1 = Inr opts2"
      and rest: "set_flags p args opts2 = Inr opts'"
    unfolding a b set_flags_Cons_Inr by blast
  have "f \<noteq> g" using find_flag [OF f(1)] find_flag [OF g(1)] assms(2) a b by auto
  with flags_commute find_flag [OF f(1)] find_flag [OF g(1)] have "flags_commute f g" by blast
  with f(2) g(2) obtain opts1' where "fl_Set g p w opts = Inr opts1'" "fl_Set f p v opts1' = Inr opts2"
    unfolding flags_commute_def by blast
  with f(1) g(1) rest show ?thesis unfolding a b set_flags_Cons_Inr by blast
qed

lemma set_flags_Cons_cong:
  "(\<And>opts. set_flags p args opts = Inr opts' \<Longrightarrow> set_flags p args' opts = Inr opts') \<Longrightarrow>
     set_flags p (a # args) opts = Inr opts' \<Longrightarrow> set_flags p (a # args') opts = Inr opts'"
  by (cases a) (auto simp only: set_flags_Cons_Inr)

lemma set_flags_move:
  assumes "set_flags p (xs @ a # ys) opts = Inr opts'" and "fst a \<notin> fst ` set xs"
  shows "set_flags p (a # xs @ ys) opts = Inr opts'"
  using assms
proof (induction xs arbitrary: opts)
  case (Cons x xs)
  have "set_flags p (x # a # xs @ ys) opts = Inr opts'"
    by (rule set_flags_Cons_cong [OF Cons.IH]) (use Cons.prems in simp_all)
  then show ?case using set_flags_swap [of p x a "xs @ ys" opts opts'] Cons.prems(2) by auto
qed simp

lemma set_flags_mset:
  assumes "set_flags p args opts = Inr opts'" and "mset args' = mset args" and "distinct (map fst args)"
  shows "set_flags p args' opts = Inr opts'"
  using assms
proof (induction args' arbitrary: args opts)
  case (Cons a args')
  obtain xs ys where args: "args = xs @ a # ys"
    using Cons.prems(2) by (metis list.set_intros(1) set_mset_mset split_list)
  then have rest: "mset args' = mset (xs @ ys)" "fst a \<notin> fst ` set xs" "distinct (map fst (xs @ ys))"
    using Cons.prems(2,3) by auto
  have "set_flags p (a # xs @ ys) opts = Inr opts'"
    by (rule set_flags_move) (use Cons.prems(1) args rest(2) in simp_all)
  then show ?case by (rule set_flags_Cons_cong [rotated]) (rule Cons.IH [OF _ rest(1,3)])
qed simp

definition log_format_ok :: "AppOptions \<Rightarrow> bool" where
  "log_format_ok opts \<longleftrightarrow> log_format (app_log opts) \<in> {[], ''text'', ''json''}"

lemma slot_keeps_log_format:
  assumes "slot_flag parse write f"
    and "\<And>p v x opts. parse p v = Inr x \<Longrightarrow> log_format_ok opts \<Longrightarrow> log_format_ok (write x opts)"
  shows "fl_Set f p v opts = Inr opts' \<longrightarrow> log_format_ok opts \<longrightarrow> log_format_ok opts'"
  using assms by (cases "parse p v") (auto simp: slot_flag_def)

lemma flags_keep_log_format: "list_all (\<lambda>f. fl_Set f p v opts = Inr opts' \<longrightarrow> log_format_ok opts \<longrightarrow> log_format_ok opts') addFlags"
  unfolding addFlags_def addAppFlags_def addBundleFlags_def addLoggingFlags_def addWebhookFlags_def addTLSConfigFlags_def
    append.simps list.pred_inject
  by (intro conjI TrueI; (rule slot_keeps_log_format, rule slot_flags, force simp: log_format_ok_def split: if_splits)?) simp


lemma set_flags_log_format:
  "set_flags p args opts = Inr opts' \<Longrightarrow> log_format_ok opts \<Longrightarrow> log_format_ok opts'"
proof (induction args arbitrary: opts)
  case (Cons a args)
  obtain f opts1 where "List.find (\<lambda>f. fl_Name f = fst a) addFlags = Some f" "fl_Set f p (snd a) opts = Inr opts1" "set_flags p args opts1 = Inr opts'"
    using Cons.prems(1) by (cases a) (auto simp only: set_flags_Cons_Inr fst_conv snd_conv)
  moreover from this(1) have "f \<in> set addFlags" using find_flag by blast
  ultimately have "log_format_ok opts1" "set_flags p args opts1 = Inr opts'"
    using flags_keep_log_format [of p "snd a" opts opts1] Cons.prems(2) unfolding list_all_iff by blast+
  then show ?case by (intro Cons.IH)
qed simp

lemma Prepare_New: "log_format (app_log (Prepare New)) = []"
  by (simp add: Prepare_def New_def flag_defs addFlags_def addAppFlags_def addBundleFlags_def addLoggingFlags_def addWebhookFlags_def
      addTLSConfigFlags_def)

text \<open>
  A command line means the same in every order of its flags: no two flags write to the same
  option, so when every flag is given at most once and all of them parse, each permutation gives
  the same options, and the log format is one of the two that the logger knows, or unset.
\<close>

lemma command_line_order:
  assumes "set_flags p args (Prepare New) = Inr opts" and "distinct (map fst args)" and "mset args' = mset args"
  shows "set_flags p args' (Prepare New) = Inr opts \<and> logFormat_String (log_format (app_log opts)) \<in> {''text'', ''json''}"
proof -
  have "log_format_ok opts" by (rule set_flags_log_format [OF assms(1)]) (simp add: log_format_ok_def Prepare_New)
  then show ?thesis using set_flags_mset [OF assms(1,3,2)] by (auto simp: log_format_ok_def logFormat_String_def)
qed

definition lenient_parser :: flag_parser where
  "lenient_parser = \<lparr>fp_Int = \<lambda>v. Inr (int (length v)), fp_Bool = \<lambda>v. Inr (v = ''true''), fp_Duration = \<lambda>v. Inr 30,
     fp_StringSlice = \<lambda>v. Inr [v]\<rparr>"

definition example_options :: AppOptions where
  "example_options = (Prepare New)\<lparr>app_log := \<lparr>log_format = ''json'', log_level = 2\<rparr>\<rparr>"

lemma example_command_line:
  "set_flags lenient_parser [(''log-format'', ''json''), (''log-level'', ''11'')] (Prepare New) = Inr example_options"
  by code_simp

lemma command_line_order_witness:
  "set_flags lenient_parser [(''log-level'', ''11''), (''log-format'', ''json'')] (Prepare New) = Inr example_options"
  by (rule command_line_order [OF example_command_line, THEN conjunct1]) simp_all

section \<open>TLS\<close>

lemma GetTLSOptions_effect:
  assumes "GetTLSOptions lib config = Inr tlsOptions"
  shows "fold id tlsOptions cfg = cfg\<lparr>
    ts_MinVersion := (if tls_MinVersion config = [] then ts_MinVersion cfg else projr (tl_Version lib (tls_MinVersion config))),
    ts_CipherSuites := (if tls_CipherSuites config = [] then ts_CipherSuites cfg else projr (tl_CipherSuites lib (tls_CipherSuites config)))\<rparr>"
  using assms by (auto simp: GetTLSOptions_def split: if_splits sum.splits)

section \<open>The command\<close>

lemma LoadPackageFromFile_Ok_iff:
  "LoadPackageFromFile os_Open decode parse now path = Ok pkg \<longleftrightarrow>
     filepath_Ext path = requiredExt \<and> (\<exists>c. os_Open path = Inr c \<and> decode c = Inr pkg \<and> Validate parse now pkg = None)"
  by (cases "os_Open path") (auto simp: LoadPackageFromFile_def map_err_Ok_iff LoadPackage_Ok_iff)

lemma LoadPackageFromFile_not_Panic: "LoadPackageFromFile os_Open decode parse now path \<noteq> Panic s"
  by (cases "os_Open path") (auto simp: LoadPackageFromFile_def map_err_Panic_iff LoadPackage_not_Panic)

lemma SetupWithManager_Ok:
  assumes "SetupWithManager load mgr opts = Ok (builder, watches)"
  shows "watches = bundle_watches (mgr_labels mgr) opts \<and> bb_Options builder = opts \<and>
    (case bb_DefaultPackage builder of
       None \<Rightarrow> opt_DefaultPackageLocation opts = []
     | Some pkg \<Rightarrow> opt_DefaultPackageLocation opts \<noteq> [] \<and> load (opt_DefaultPackageLocation opts) = Ok pkg)"
  using assms
  by (auto simp: SetupWithManager_def addBundleController_def map_err_Ok_iff bind_res_Ok_iff Let_def split: option.splits sum.splits if_splits)

lemma SetupWithManager_Panic:
  "SetupWithManager load mgr opts = Panic s \<Longrightarrow> \<exists>path. load path = Panic s"
  by (auto simp: SetupWithManager_def addBundleController_def map_err_Panic_iff Let_def bind_res_Panic_iff
      split: option.splits sum.splits if_splits)

definition set_up :: "('sel, 'cache) runtime \<Rightarrow> AppOptions \<Rightarrow> (string \<Rightarrow> Package res) \<Rightarrow> step list \<Rightarrow> bool" where
  "set_up rt opts load steps \<longleftrightarrow>
     (\<exists>tlsOptions mgr builder. Complete rt = None \<and> GetTLSOptions (rt_tls rt) (app_TLSConfig opts) = Inr tlsOptions \<and>
        rt_NewManager rt (manager_options_of opts tlsOptions) = Inr mgr \<and>
        rt_AddReadyzCheck rt = None \<and> rt_AddHealthzCheck rt = None \<and>
        rt_CompleteWebhook rt BundleKind (validator (rt_validation rt)) = None \<and>
        steps = [ManagerCreated (manager_options_of opts tlsOptions),
          ControllerRegistered builder (bundle_watches (mgr_labels mgr) (app_Bundle opts)),
          WebhookRegistered BundleKind (validator (rt_validation rt)), Started] \<and>
        bb_Options builder = app_Bundle opts \<and>
        (case bb_DefaultPackage builder of
           None \<Rightarrow> opt_DefaultPackageLocation (app_Bundle opts) = []
         | Some pkg \<Rightarrow> opt_DefaultPackageLocation (app_Bundle opts) \<noteq> [] \<and> load (opt_DefaultPackageLocation (app_Bundle opts)) = Ok pkg))"

lemma RunE_cases:
  assumes "RunE rt opts = (result, steps)"
  shows "(Started \<notin> set steps \<and> ((\<exists>err. result = Ok (Some err)) \<or> (\<exists>s path. result = Panic s \<and> rt_LoadPackage rt path = Panic s))) \<or>
    (set_up rt opts (rt_LoadPackage rt) steps \<and> result = Ok (rt_Start rt))"
proof -
  consider (none) err where "Complete rt = Some err" | (tls) err where "GetTLSOptions (rt_tls rt) (app_TLSConfig opts) = Inl err"
    | (go) ts where "Complete rt = None" "GetTLSOptions (rt_tls rt) (app_TLSConfig opts) = Inr ts"
    by (cases "Complete rt"; cases "GetTLSOptions (rt_tls rt) (app_TLSConfig opts)") auto
  then show ?thesis
  proof cases
    case none
    with assms show ?thesis by (auto simp: RunE_def)
  next
    case tls
    with assms show ?thesis by (auto simp: RunE_def split: option.splits)
  next
    case go
    show ?thesis
    proof (cases "rt_NewManager rt (manager_options_of opts ts)")
      case (Inl err)
      with assms go show ?thesis by (auto simp: RunE_def Let_def)
    next
      case (Inr mgr)
      show ?thesis
      proof (cases "SetupWithManager (rt_LoadPackage rt) mgr (app_Bundle opts)")
        case (Ok b)
        obtain builder watches where b: "b = (builder, watches)" by force
        from SetupWithManager_Ok [OF Ok [unfolded b]] assms go Inr Ok b show ?thesis
          by (auto simp: RunE_def Let_def set_up_def SetupWebhookWithManager_Inr split: option.splits sum.splits)
      next
        case (Err err)
        with assms go Inr show ?thesis by (auto simp: RunE_def Let_def split: option.splits)
      next
        case (Panic s)
        with SetupWithManager_Panic [OF Panic] assms go Inr show ?thesis by (auto simp: RunE_def Let_def split: option.splits)
      qed
    qed
  qed
qed

text \<open>
  C21: The command either starts the manager or returns an error, and it starts only when everything
  is set up: with the options of the command line, in the order manager, controller, webhook, and
  with a default package exactly when a location is configured, which was then read from that file
  and passed the validation. The webhook that a running manager serves lets a Bundle be created or
  updated exactly when the validation has no error for it, and lets every Bundle be deleted.
\<close>

theorem started_means_set_up:
  assumes "rt_LoadPackage rt = LoadPackageFromFile os_Open decode parse now" and "RunE rt opts = (result, steps)"
  shows "if Started \<in> set steps
    then result = Ok (rt_Start rt) \<and> set_up rt opts (rt_LoadPackage rt) steps \<and>
      (\<forall>builder watches pkg. ControllerRegistered builder watches \<in> set steps \<longrightarrow> bb_DefaultPackage builder = Some pkg \<longrightarrow>
        (\<exists>c. os_Open (opt_DefaultPackageLocation (app_Bundle opts)) = Inr c \<and> decode c = Inr pkg \<and> Validate parse now pkg = None)) \<and>
      (\<exists>ops. WebhookRegistered BundleKind ops \<in> set steps \<and> (\<forall>old bd. admitted ops (Create bd) = (validate (rt_validation rt) bd = []) \<and>
        admitted ops (Update old bd) = (validate (rt_validation rt) bd = []) \<and> admitted ops (Delete bd)))
    else \<exists>err. result = Ok (Some err)"
proof (cases "Started \<in> set steps")
  case True
  with RunE_cases [OF assms(2)] have "result = Ok (rt_Start rt)" "set_up rt opts (rt_LoadPackage rt) steps" by auto
  with True show ?thesis by (auto simp: set_up_def assms(1) LoadPackageFromFile_Ok_iff)
next
  case False
  with RunE_cases [OF assms(2)] have "\<exists>err. result = Ok (Some err)"
    by (auto simp: assms(1) LoadPackageFromFile_not_Panic set_up_def)
  with False show ?thesis by simp
qed

text \<open>A Bundle that the API server stores behind the webhook of a running manager is one that the validation accepts.\<close>

lemma served_Bundles_valid:
  assumes "set_up rt opts load steps" and "WebhookRegistered kind ops \<in> set steps"
    and "pred_option (\<lambda>bd. validate (rt_validation rt) bd = []) bd"
  shows "pred_option (\<lambda>bd. validate (rt_validation rt) bd = []) (stored ops bd reqs)"
proof -
  from assms(1,2) have "ops = validator (rt_validation rt)" by (auto simp: set_up_def)
  then show ?thesis using assms(3) by (intro stored_valid) auto
qed

text \<open>The exit status: 0 exactly for a manager that was set up, ran and stopped without an error.\<close>

lemma main_status:
  assumes "main p rt args = (status, steps)"
  shows "(status = 0) = (rt_Start rt = None \<and>
    (\<exists>opts. set_flags p args (Prepare New) = Inr opts \<and> set_up rt opts (rt_LoadPackage rt) steps))"
proof (cases "set_flags p args (Prepare New)")
  case (Inl err)
  with assms show ?thesis by (auto simp: main_def NewCommand_def)
next
  case (Inr opts)
  obtain result where run: "RunE rt opts = (result, steps)"
    using assms Inr by (cases "RunE rt opts") (auto simp: main_def NewCommand_def split: res.splits option.splits)
  have "set_up rt opts (rt_LoadPackage rt) steps \<Longrightarrow> Started \<in> set steps" by (auto simp: set_up_def)
  with RunE_cases [OF run] assms Inr run show ?thesis
    by (auto simp: main_def NewCommand_def split: option.splits)
qed

definition fine_manager :: "(bool, unit) manager" where
  "fine_manager = \<lparr>mgr_NewRequirement = \<lambda>k. None, mgr_NewCache = \<lambda>o'. Inr (), mgr_Add = \<lambda>c. None, mgr_Complete = \<lambda>c ws. None,
     mgr_labels = \<lparr>lib_AsSelector = \<lambda>s. Inr True, lib_Everything = True, lib_Matches = \<lambda>s l. s, lib_Empty = \<lambda>s. False,
       lib_String = \<lambda>s. []\<rparr>\<rparr>"

definition fine_runtime :: "(string \<Rightarrow> Package res) \<Rightarrow> (bool, unit) runtime" where
  "fine_runtime load = \<lparr>rt_ToRESTConfig = None, rt_tls = \<lparr>tl_Version = \<lambda>v. Inr 771, tl_CipherSuites = \<lambda>s. Inr [1]\<rparr>,
     rt_NewManager = \<lambda>o'. Inr fine_manager, rt_AddReadyzCheck = None, rt_AddHealthzCheck = None, rt_LoadPackage = load,
     rt_CompleteWebhook = \<lambda>kind ops. None,
     rt_validation = \<lparr>val_LabelSelector = \<lambda>s path. [], val_Annotations = \<lambda>m path. [], val_Labels = \<lambda>m path. []\<rparr>, rt_Start = None\<rparr>"

definition located_options :: AppOptions where
  "located_options = bundle_write (\<lambda>c. c\<lparr>opt_DefaultPackageLocation := ''/packages/cas.json''\<rparr>) (Prepare New)"

definition example_package :: Package where
  "example_package = \<lparr>pkg_Name = ''cas'', pkg_Bundle = [], pkg_Version = ''1''\<rparr>"

definition example_load :: "string \<Rightarrow> Package res" where
  "example_load = LoadPackageFromFile (\<lambda>path. Inr ''{}'') (\<lambda>c. Inr example_package) (\<lambda>der. (None, None)) 0"

lemma example_load: "example_load ''/packages/cas.json'' = Ok example_package"
proof -
  have "filepath_Ext ''/packages/cas.json'' = requiredExt" by code_simp
  moreover have "pem_Decode [] = (None, [])" by code_simp
  then have "Validate (\<lambda>der. (None, None)) 0 example_package = None"
    by (simp add: Validate_None_iff example_package_def pem_blocks_end)
  ultimately show ?thesis by (simp add: example_load_def LoadPackageFromFile_Ok_iff)
qed

lemma located_options_simps:
  "app_TLSConfig located_options = \<lparr>tls_MinVersion = [], tls_CipherSuites = []\<rparr>"
  "opt_DefaultPackageLocation (app_Bundle located_options) = ''/packages/cas.json''"
  by (simp_all add: located_options_def Prepare_def New_def flag_defs addFlags_def addAppFlags_def addBundleFlags_def addLoggingFlags_def
      addWebhookFlags_def addTLSConfigFlags_def)

lemma started_means_set_up_witness:
  "fst (RunE (fine_runtime example_load) located_options) = Ok None \<and>
   set_up (fine_runtime example_load) located_options example_load (snd (RunE (fine_runtime example_load) located_options))"
proof -
  obtain result steps where run: "RunE (fine_runtime example_load) located_options = (result, steps)" by force
  then have "Started \<in> set steps"
    by (auto simp: RunE_def fine_runtime_def Complete_def GetTLSOptions_def located_options_simps SetupWithManager_def fine_manager_def
        addBundleController_def example_load SetupWebhookWithManager_def WebhookManagedBy_def Let_def)
  moreover have "rt_LoadPackage (fine_runtime example_load) = example_load" by (simp add: fine_runtime_def)
  moreover have "rt_Start (fine_runtime example_load) = None" by (simp add: fine_runtime_def)
  ultimately show ?thesis
    using started_means_set_up [of "fine_runtime example_load" "\<lambda>path. Inr ''{}''" "\<lambda>c. Inr example_package" "\<lambda>der. (None, None)" 0,
        OF _ run] run
    by (simp add: example_load_def)
qed

end
