(* ===== verification/GoHeap.thy ===== *)
theory GoHeap
  imports Prelude
begin

text \<open>
  Go values in memory, for the functions whose meaning is in the sharing of memory: the generated
  deep copies. A struct holds its fields by name; a pointer, slice or map is a reference, nil or the
  address of a cell. The heap is the list of its cells, so a new cell gets the length of the heap as
  its address. A slice refers to an array that it covers from the first to the last element.
\<close>

section \<open>Values and their types\<close>

datatype gval =
    VScalar string \<comment> \<open>a string, boolean or number\<close>
  | VStruct "(string \<times> gval) list"
  | VRef "nat option"
  | VArray "gval list" \<comment> \<open>the cell behind a slice\<close>
  | VMap "string gomap" \<comment> \<open>the cell behind a map\<close>

type_synonym heap = "gval list"

datatype gtype =
    TScalar
  | TStruct "(string \<times> gtype) list"
  | TPtr gtype
  | TSlice gtype
  | TMap

text \<open>
  What a program can observe of a value of a type: the tree of its scalars, with the addresses of the
  cells that hold it; None when the value does not have the type.
\<close>

datatype gtree =
    LScalar string
  | LNil
  | LStruct "(string \<times> gtree) list"
  | LPtr gtree
  | LSlice "gtree list"
  | LMap "string gomap"

fun view :: "gtype \<Rightarrow> heap \<Rightarrow> gval \<Rightarrow> (gtree \<times> nat list) option"
and view_fields :: "(string \<times> gtype) list \<Rightarrow> heap \<Rightarrow> (string \<times> gval) list \<Rightarrow> ((string \<times> gtree) list \<times> nat list) option"
and view_items :: "gtype \<Rightarrow> heap \<Rightarrow> gval list \<Rightarrow> (gtree list \<times> nat list) option" where
  "view TScalar h v = (case v of VScalar s \<Rightarrow> Some (LScalar s, []) | _ \<Rightarrow> None)"
| "view (TStruct ts) h v = (case v of VStruct fs \<Rightarrow> map_option (map_prod LStruct id) (view_fields ts h fs) | _ \<Rightarrow> None)"
| "view (TPtr t) h v = (case v of
      VRef None \<Rightarrow> Some (LNil, [])
    | VRef (Some a) \<Rightarrow> if a < length h then map_option (map_prod LPtr ((#) a)) (view t h (h ! a)) else None
    | _ \<Rightarrow> None)"
| "view (TSlice t) h v = (case v of
      VRef None \<Rightarrow> Some (LNil, [])
    | VRef (Some a) \<Rightarrow> if a < length h
        then (case h ! a of VArray vs \<Rightarrow> map_option (map_prod LSlice ((#) a)) (view_items t h vs) | _ \<Rightarrow> None) else None
    | _ \<Rightarrow> None)"
| "view TMap h v = (case v of
      VRef None \<Rightarrow> Some (LNil, [])
    | VRef (Some a) \<Rightarrow> if a < length h
        then (case h ! a of VMap m \<Rightarrow> if wf_map m then Some (LMap m, [a]) else None | _ \<Rightarrow> None) else None
    | _ \<Rightarrow> None)"
| "view_fields [] h fs = (case fs of [] \<Rightarrow> Some ([], []) | _ \<Rightarrow> None)"
| "view_fields ((n, t) # ts) h fs = (case fs of
      (m, v) # fs' \<Rightarrow>
        if m = n then (case (view t h v, view_fields ts h fs') of
            (Some (x, as), Some (xs, bs)) \<Rightarrow> Some ((n, x) # xs, as @ bs) | _ \<Rightarrow> None)
        else None
    | [] \<Rightarrow> None)"
| "view_items t h [] = Some ([], [])"
| "view_items t h (v # vs) = (case (view t h v, view_items t h vs) of
      (Some (x, as), Some (xs, bs)) \<Rightarrow> Some (x # xs, as @ bs) | _ \<Rightarrow> None)"

section \<open>Copying\<close>

text \<open>A copier computes the value for its destination and may allocate cells.\<close>

type_synonym copier = "gval \<Rightarrow> heap \<Rightarrow> gval \<times> heap"

definition zero :: gval where "zero = VScalar []" \<comment> \<open>what a new cell holds; it is written before it is read\<close>

definition assign :: copier where
  \<comment> \<open>\<open>*out = *in\<close>, also \<open>out.f = in.f\<close>\<close>
  "assign v h = (v, h)"

text \<open>\<open>out := new(T); in.DeepCopyInto(out)\<close>, for a nil or non-nil \<open>in\<close>.\<close>

definition DeepCopy :: "copier \<Rightarrow> nat option \<Rightarrow> heap \<Rightarrow> nat option \<times> heap" where
  "DeepCopy c inn h =
     (case inn of
        None \<Rightarrow> (None, h)
      | Some a \<Rightarrow> (let q = length h; (v, h') = c (h ! a) (h @ [zero]) in (Some q, h'[q := v])))"

definition copy_ptr :: "copier \<Rightarrow> copier" where
  "copy_ptr c v h = (case v of VRef a \<Rightarrow> (let (q, h') = DeepCopy c a h in (VRef q, h')) | _ \<Rightarrow> (v, h))"

definition set_item :: "nat \<Rightarrow> gval \<Rightarrow> gval \<Rightarrow> gval" where
  "set_item i v cell = (case cell of VArray vs \<Rightarrow> VArray (vs[i := v]) | _ \<Rightarrow> cell)"

fun copy_items :: "copier \<Rightarrow> nat \<Rightarrow> nat \<Rightarrow> gval list \<Rightarrow> heap \<Rightarrow> heap" where
  "copy_items c q i [] h = h"
| "copy_items c q i (v # vs) h = (let (v', h') = c v h in copy_items c q (Suc i) vs (h'[q := set_item i v' (h' ! q)]))"

definition copy_slice :: "copier \<Rightarrow> copier" where
  "copy_slice c v h =
     (case v of
        VRef (Some a) \<Rightarrow>
          (case h ! a of
             VArray vs \<Rightarrow> (let q = length h in (VRef (Some q), copy_items c q 0 vs (h @ [VArray (replicate (length vs) zero)])))
           | _ \<Rightarrow> (v, h))
      | _ \<Rightarrow> (v, h))"

definition copy_map :: copier where
  "copy_map v h =
     (case v of
        VRef (Some a) \<Rightarrow> (case h ! a of VMap m \<Rightarrow> (VRef (Some (length h)), h @ [VMap (map_copy [] m)]) | _ \<Rightarrow> (v, h))
      | _ \<Rightarrow> (v, h))"

text \<open>
  The body of a \<open>DeepCopyInto\<close> on a struct: after \<open>*out = *in\<close> some fields of \<open>in\<close> are copied into
  \<open>out\<close>, one after the other.
\<close>

definition set_field :: "string \<Rightarrow> gval \<Rightarrow> (string \<times> gval) list \<Rightarrow> (string \<times> gval) list" where
  "set_field n v fs = map (\<lambda>(m, w). (m, if m = n then v else w)) fs"

fun copy_fields :: "(string \<times> copier) list \<Rightarrow> (string \<times> gval) list \<Rightarrow> (string \<times> gval) list \<Rightarrow> heap \<Rightarrow> (string \<times> gval) list \<times> heap" where
  "copy_fields [] inn out h = (out, h)"
| "copy_fields ((n, c) # steps) inn out h =
     (case map_of inn n of
        None \<Rightarrow> copy_fields steps inn out h
      | Some v \<Rightarrow> (let (v', h') = c v h in copy_fields steps inn (set_field n v' out) h'))"

definition copy_struct :: "(string \<times> copier) list \<Rightarrow> copier" where
  "copy_struct steps v h =
     (case v of VStruct fs \<Rightarrow> (let (fs', h') = copy_fields steps fs fs h in (VStruct fs', h')) | _ \<Rightarrow> (v, h))"

section \<open>What a copier promises\<close>

definition heap_le :: "heap \<Rightarrow> heap \<Rightarrow> bool" where
  \<comment> \<open>only new cells were written\<close>
  "heap_le h h' \<longleftrightarrow> length h \<le> length h' \<and> (\<forall>a < length h. h' ! a = h ! a)"

named_theorems heap_intros

lemma heap_le_refl [heap_intros]: "heap_le h h"
  by (simp add: heap_le_def)

lemma heap_le_append [heap_intros]: "heap_le h (h @ e)"
  by (simp add: heap_le_def nth_append)

lemma heap_le_trans: "heap_le h h' \<Longrightarrow> heap_le h' h'' \<Longrightarrow> heap_le h h''"
  by (auto simp: heap_le_def)

lemma heap_le_new: "heap_le (h @ [z]) h' \<Longrightarrow> heap_le h (h'[length h := v])"
  by (auto simp: heap_le_def nth_append nth_list_update)

text \<open>A view depends on the cells it lists only.\<close>

lemma view_bound:
  "view t h v = Some (x, as) \<Longrightarrow> \<forall>a \<in> set as. a < length h"
  "view_fields ts h fs = Some (xs, as) \<Longrightarrow> \<forall>a \<in> set as. a < length h"
  "view_items t h vs = Some (ys, as) \<Longrightarrow> \<forall>a \<in> set as. a < length h"
  by (induction t h v and ts h fs and t h vs arbitrary: x as and xs as and ys as rule: view_view_fields_view_items.induct)
    (fastforce split: gval.splits option.splits if_splits list.splits prod.splits)+

definition same_cells :: "nat list \<Rightarrow> heap \<Rightarrow> heap \<Rightarrow> bool" where
  "same_cells as h h' \<longleftrightarrow> (\<forall>a \<in> set as. a < length h' \<and> h' ! a = h ! a)"

lemma same_cells_simps [simp]:
  "same_cells [] h h'" "same_cells (a # as) h h' \<longleftrightarrow> a < length h' \<and> h' ! a = h ! a \<and> same_cells as h h'"
  "same_cells (as @ bs) h h' \<longleftrightarrow> same_cells as h h' \<and> same_cells bs h h'"
  by (auto simp: same_cells_def)

lemma view_cong:
  "view t h v = Some (x, as) \<Longrightarrow> same_cells as h h' \<Longrightarrow> view t h' v = Some (x, as)"
  "view_fields ts h fs = Some (xs, as) \<Longrightarrow> same_cells as h h' \<Longrightarrow> view_fields ts h' fs = Some (xs, as)"
  "view_items t h vs = Some (ys, as) \<Longrightarrow> same_cells as h h' \<Longrightarrow> view_items t h' vs = Some (ys, as)"
  by (induction t h v and ts h fs and t h vs arbitrary: x as and xs as and ys as rule: view_view_fields_view_items.induct)
    (fastforce split: gval.splits option.splits if_splits list.splits prod.splits)+

lemma view_le:
  "view t h v = Some (x, as) \<Longrightarrow> heap_le h h' \<Longrightarrow> view t h' v = Some (x, as)"
  "view_items t h vs = Some (ys, as) \<Longrightarrow> heap_le h h' \<Longrightarrow> view_items t h' vs = Some (ys, as)"
proof -
  assume v: "view t h v = Some (x, as)" and le: "heap_le h h'"
  from view_bound(1) [OF v] le have "same_cells as h h'" by (auto simp: same_cells_def heap_le_def)
  with view_cong(1) [OF v] show "view t h' v = Some (x, as)" .
next
  assume v: "view_items t h vs = Some (ys, as)" and le: "heap_le h h'"
  from view_bound(3) [OF v] le have "same_cells as h h'" by (auto simp: same_cells_def heap_le_def)
  with view_cong(3) [OF v] show "view_items t h' vs = Some (ys, as)" .
qed

text \<open>A copy looks like the original, in cells that did not exist before.\<close>

definition fresh_view :: "gtype \<Rightarrow> gtree \<Rightarrow> nat \<Rightarrow> heap \<Rightarrow> gval \<Rightarrow> bool" where
  "fresh_view t x n h v \<longleftrightarrow> (\<exists>bs. view t h v = Some (x, bs) \<and> (\<forall>b \<in> set bs. n \<le> b))"

definition copies :: "gtype \<Rightarrow> copier \<Rightarrow> bool" where
  "copies t c \<longleftrightarrow> (\<forall>h v x as. view t h v = Some (x, as) \<longrightarrow>
     heap_le h (snd (c v h)) \<and> fresh_view t x (length h) (snd (c v h)) (fst (c v h)))"

lemma copiesD:
  assumes "copies t c" and "view t h v = Some (x, as)" and "c v h = (v', h')"
  shows "heap_le h h'" and "fresh_view t x (length h) h' v'"
  using assms by (force simp: copies_def)+

lemma fresh_view_le: "fresh_view t x n h v \<Longrightarrow> heap_le h h' \<Longrightarrow> fresh_view t x n h' v"
  unfolding fresh_view_def using view_le(1) by blast

lemma fresh_view_mono: "fresh_view t x n h v \<Longrightarrow> m \<le> n \<Longrightarrow> fresh_view t x m h v"
  unfolding fresh_view_def using order_trans by blast

text \<open>Values without references.\<close>

fun no_refs :: "gtype \<Rightarrow> bool" where
  "no_refs TScalar = True"
| "no_refs (TStruct ts) = list_all (\<lambda>(n, t). no_refs t) ts"
| "no_refs _ = False"

lemma no_refs_set:
  "no_refs t \<Longrightarrow> pred_option (\<lambda>r. snd r = []) (view t h v)"
  "list_all (\<lambda>(n, t). no_refs t) ts \<Longrightarrow> pred_option (\<lambda>r. snd r = []) (view_fields ts h fs)"
  "no_refs t \<Longrightarrow> pred_option (\<lambda>r. snd r = []) (view_items t h vs)"
  by (induction t h v and ts h fs and t h vs rule: view_view_fields_view_items.induct)
    (simp_all split: gval.splits option.splits list.splits add: option.pred_map comp_def prod.case_eq_if,
      fastforce+)

lemma no_refs_view: "view t h v = Some (x, as) \<Longrightarrow> no_refs t \<Longrightarrow> as = []"
  using no_refs_set(1) [of t h v] by simp

lemma fresh_no_refs: "view t h v = Some (x, as) \<Longrightarrow> no_refs t \<Longrightarrow> heap_le h h' \<Longrightarrow> fresh_view t x n h' v"
  using no_refs_view [of t h v x as] view_le(1) [of t h v x as h'] by (auto simp: fresh_view_def)

lemma copies_assign: "no_refs t \<Longrightarrow> copies t assign"
  by (auto simp: copies_def assign_def heap_le_refl intro: fresh_no_refs)

section \<open>Pointers\<close>

lemma DeepCopy_Some:
  assumes "copies t c" and "view (TPtr t) h (VRef (Some a)) = Some (x, as)"
  obtains h' where "DeepCopy c (Some a) h = (Some (length h), h')" "heap_le h h'"
    "fresh_view (TPtr t) x (length h) h' (VRef (Some (length h)))"
proof -
  from assms(2) obtain y bs where y: "view t h (h ! a) = Some (y, bs)" "x = LPtr y" by (auto split: if_splits)
  obtain v h1 where c: "c (h ! a) (h @ [zero]) = (v, h1)" by force
  from view_le(1) [OF y(1) heap_le_append] have y': "view t (h @ [zero]) (h ! a) = Some (y, bs)" .
  note le = copiesD(1) [OF assms(1) y' c] and fresh = copiesD(2) [OF assms(1) y' c]
  let ?h' = "h1[length h := v]"
  have len: "length h < length h1" using le by (simp add: heap_le_def)
  from fresh obtain cs where cs: "view t h1 v = Some (y, cs)" "\<forall>b \<in> set cs. Suc (length h) \<le> b" by (auto simp: fresh_view_def)
  have "same_cells cs h1 ?h'" using view_bound(1) [OF cs(1)] cs(2) by (fastforce simp: same_cells_def nth_list_update)
  from view_cong(1) [OF cs(1) this] cs(2) len y(2) have "fresh_view (TPtr t) x (length h) ?h' (VRef (Some (length h)))"
    by (fastforce simp: fresh_view_def)
  moreover have "DeepCopy c (Some a) h = (Some (length h), ?h')" by (simp add: DeepCopy_def c Let_def)
  ultimately show thesis using that heap_le_new [OF le] by blast
qed

lemma copies_ptr:
  assumes "copies t c"
  shows "copies (TPtr t) (copy_ptr c)"
proof -
  have "heap_le h (snd (copy_ptr c v h)) \<and> fresh_view (TPtr t) x (length h) (snd (copy_ptr c v h)) (fst (copy_ptr c v h))"
    if v: "view (TPtr t) h v = Some (x, as)" for h v x as
  proof (cases "v = VRef None")
    case True
    with v show ?thesis by (simp add: copy_ptr_def DeepCopy_def heap_le_refl fresh_view_def)
  next
    case False
    with v obtain a where a: "v = VRef (Some a)" by (auto split: gval.splits option.splits)
    with v have "view (TPtr t) h (VRef (Some a)) = Some (x, as)" by simp
    then obtain h' where "DeepCopy c (Some a) h = (Some (length h), h')" "heap_le h h'"
      "fresh_view (TPtr t) x (length h) h' (VRef (Some (length h)))" using DeepCopy_Some [OF assms] by metis
    then show ?thesis by (simp add: copy_ptr_def a)
  qed
  then show ?thesis unfolding copies_def by blast
qed

section \<open>Maps\<close>

lemma map_copy_fresh: "wf_map (m @ m') \<Longrightarrow> map_copy m m' = m @ m'"
proof (induction m' arbitrary: m)
  case (Cons e m')
  obtain k v where e: "e = (k, v)" by force
  with Cons.prems have "k \<notin> fst ` set m" by (auto simp: wf_map_def)
  then have "map_put k v m = m @ [(k, v)]" by (induction m) (auto simp: map_put_def)
  with Cons.IH [of "m @ [(k, v)]"] Cons.prems e show ?case by (simp add: map_copy_Cons)
qed simp

lemma copies_map: "copies TMap copy_map"
  by (auto simp: copies_def copy_map_def fresh_view_def heap_le_refl heap_le_append map_copy_fresh [of "[]", simplified] nth_append
      split: gval.splits option.splits if_splits)

section \<open>Slices\<close>

lemma view_items_append:
  "view_items t h vs = Some (xs, as) \<Longrightarrow> view_items t h ws = Some (ys, bs) \<Longrightarrow> view_items t h (vs @ ws) = Some (xs @ ys, as @ bs)"
  by (induction vs arbitrary: xs as) (auto split: option.splits)

lemma copy_items_view:
  assumes "copies t c"
  shows "view_items t h vs = Some (xs, as) \<Longrightarrow> \<forall>a \<in> set as. a \<noteq> q \<Longrightarrow> q < length h \<Longrightarrow>
    h ! q = VArray (ds @ replicate (length vs) zero) \<Longrightarrow>
    view_items t h ds = Some (ys, bs) \<Longrightarrow> \<forall>b \<in> set bs. q < b \<Longrightarrow>
    \<exists>ws cs. length h \<le> length (copy_items c q (length ds) vs h) \<and>
      (\<forall>a < length h. a \<noteq> q \<longrightarrow> copy_items c q (length ds) vs h ! a = h ! a) \<and>
      copy_items c q (length ds) vs h ! q = VArray ws \<and>
      view_items t (copy_items c q (length ds) vs h) ws = Some (ys @ xs, cs) \<and> (\<forall>b \<in> set cs. q < b)"
proof (induction vs arbitrary: h xs as ds ys bs)
  case Nil
  then show ?case by auto
next
  case (Cons v vs)
  obtain x us zs es where x: "view t h v = Some (x, us)" and zs: "view_items t h vs = Some (zs, es)" and xs: "xs = x # zs" "as = us @ es"
    using Cons.prems(1) by (auto split: option.splits)
  obtain v' h1 where c: "c v h = (v', h1)" by force
  note le = copiesD(1) [OF assms x c] and fresh = copiesD(2) [OF assms x c]
  let ?h2 = "h1[q := set_item (length ds) v' (h1 ! q)]"
  have q1: "q < length h1" "h1 ! q = h ! q" using le Cons.prems(3) by (auto simp: heap_le_def)
  have cell: "?h2 ! q = VArray ((ds @ [v']) @ replicate (length vs) zero)"
    using q1 Cons.prems(4) by (simp add: set_item_def list_update_append)
  have off: "same_cells rs h1 ?h2" if "\<forall>a \<in> set rs. a < length h1 \<and> a \<noteq> q" for rs
    using that by (auto simp: same_cells_def)
  obtain cs where cs: "view t h1 v' = Some (x, cs)" "\<forall>b \<in> set cs. length h \<le> b" using fresh by (auto simp: fresh_view_def)
  have v': "view t ?h2 v' = Some (x, cs)"
    by (rule view_cong(1) [OF cs(1) off]) (use view_bound(1) [OF cs(1)] cs(2) Cons.prems(3) in auto)
  have ds: "view_items t ?h2 ds = Some (ys, bs)"
    by (rule view_cong(3) [OF view_le(2) [OF Cons.prems(5) le] off])
      (use view_bound(3) [OF view_le(2) [OF Cons.prems(5) le]] Cons.prems(6) in auto)
  have rest: "view_items t ?h2 vs = Some (zs, es)"
    by (rule view_cong(3) [OF view_le(2) [OF zs le] off])
      (use view_bound(3) [OF view_le(2) [OF zs le]] Cons.prems(2) xs(2) in auto)
  have copied: "view_items t ?h2 (ds @ [v']) = Some (ys @ [x], bs @ cs)"
    using view_items_append [OF ds, of "[v']" "[x]" cs] v' by simp
  have "\<forall>b \<in> set (bs @ cs). q < b" using Cons.prems(3,6) cs(2) by fastforce
  from Cons.IH [OF rest _ _ cell copied this] Cons.prems(2) xs(2) q1
  obtain ws cs' where ih: "length ?h2 \<le> length (copy_items c q (length (ds @ [v'])) vs ?h2)"
      "\<forall>a < length ?h2. a \<noteq> q \<longrightarrow> copy_items c q (length (ds @ [v'])) vs ?h2 ! a = ?h2 ! a"
      "copy_items c q (length (ds @ [v'])) vs ?h2 ! q = VArray ws"
      "view_items t (copy_items c q (length (ds @ [v'])) vs ?h2) ws = Some ((ys @ [x]) @ zs, cs')" "\<forall>b \<in> set cs'. q < b"
    by auto
  have eq: "copy_items c q (length ds) (v # vs) h = copy_items c q (length (ds @ [v'])) vs ?h2" by (simp add: c)
  show ?case unfolding eq using ih le xs(1) by (auto simp: heap_le_def intro!: exI [of _ ws] exI [of _ cs'])
qed

lemma copies_slice:
  assumes "copies t c"
  shows "copies (TSlice t) (copy_slice c)"
proof -
  have "heap_le h (snd (copy_slice c v h)) \<and> fresh_view (TSlice t) x (length h) (snd (copy_slice c v h)) (fst (copy_slice c v h))"
    if v: "view (TSlice t) h v = Some (x, as)" for h v x as
  proof (cases "v = VRef None")
    case True
    with v show ?thesis by (simp add: copy_slice_def heap_le_refl fresh_view_def)
  next
    case False
    with v obtain a vs xs bs where a: "v = VRef (Some a)" "h ! a = VArray vs" "view_items t h vs = Some (xs, bs)" "x = LSlice xs"
      by (auto split: gval.splits option.splits if_splits)
    let ?q = "length h" and ?h1 = "h @ [VArray (replicate (length vs) zero)]"
    have "view_items t ?h1 vs = Some (xs, bs)" using view_le(2) [OF a(3) heap_le_append] .
    from copy_items_view [OF assms this, of ?q "[]" "[]" "[]"] view_bound(3) [OF a(3)]
    obtain ws cs where r: "length ?h1 \<le> length (copy_items c ?q 0 vs ?h1)"
      "\<forall>b < length ?h1. b \<noteq> ?q \<longrightarrow> copy_items c ?q 0 vs ?h1 ! b = ?h1 ! b" "copy_items c ?q 0 vs ?h1 ! ?q = VArray ws"
      "view_items t (copy_items c ?q 0 vs ?h1) ws = Some (xs, cs)" "\<forall>b \<in> set cs. ?q < b" by auto
    have "heap_le h (copy_items c ?q 0 vs ?h1)" using r(1,2) by (auto simp: heap_le_def nth_append)
    moreover have "fresh_view (TSlice t) x ?q (copy_items c ?q 0 vs ?h1) (VRef (Some ?q))"
      using r a(4) by (auto simp: fresh_view_def)
    ultimately show ?thesis by (simp add: copy_slice_def a Let_def)
  qed
  then show ?thesis unfolding copies_def by blast
qed

section \<open>Structs\<close>

text \<open>The fields of the destination while some names are done: copied, or still those of the source.\<close>

fun copied :: "string set \<Rightarrow> nat \<Rightarrow> heap \<Rightarrow> (string \<times> gtype) list \<Rightarrow> (string \<times> gval) list \<Rightarrow> (string \<times> gtree) list \<Rightarrow> (string \<times> gval) list \<Rightarrow> bool" where
  "copied D n h [] [] [] [] = True"
| "copied D n h ((m, t) # ts) ((m1, v) # fs) ((m2, x) # xs) ((m3, w) # out) \<longleftrightarrow>
     m1 = m \<and> m2 = m \<and> m3 = m \<and> (if m \<in> D then fresh_view t x n h w else w = v) \<and> copied D n h ts fs xs out"
| "copied _ _ _ _ _ _ _ = False"

lemma copied_start: "view_fields ts h fs = Some (xs, as) \<Longrightarrow> copied {} n h ts fs xs fs"
  by (induction ts arbitrary: fs xs as) (auto split: list.splits option.splits if_splits)

lemma view_field:
  "view_fields ts h fs = Some (xs, as) \<Longrightarrow> map_of ts m = Some t \<Longrightarrow>
     \<exists>v x bs. map_of fs m = Some v \<and> map_of xs m = Some x \<and> view t h v = Some (x, bs)"
  by (induction ts arbitrary: fs xs as) (auto split: list.splits option.splits if_splits)

lemma copied_names: "copied D n h ts fs xs out \<Longrightarrow> map fst xs = map fst ts \<and> map fst out = map fst ts"
  by (induction D n h ts fs xs out rule: copied.induct) auto

lemma copied_other:
  "copied D n h ts fs xs out \<Longrightarrow> heap_le h h' \<Longrightarrow> m \<notin> set (map fst ts) \<Longrightarrow> copied (insert m D) n h' ts fs xs (set_field m w out)"
  by (induction D n h ts fs xs out rule: copied.induct) (auto simp: set_field_def fresh_view_le)

lemma copied_step:
  "copied D n h ts fs xs out \<Longrightarrow> heap_le h h' \<Longrightarrow> distinct (map fst ts) \<Longrightarrow>
     (\<And>t x. map_of ts m = Some t \<Longrightarrow> map_of xs m = Some x \<Longrightarrow> fresh_view t x n h' w) \<Longrightarrow>
     copied (insert m D) n h' ts fs xs (set_field m w out)"
proof (induction D n h ts fs xs out rule: copied.induct)
  case (2 D n h k t ts k1 v fs k2 x xs k3 u out)
  show ?case
  proof (cases "k = m")
    case True
    with 2 copied_other [of D n h ts fs xs out h' m w] show ?thesis by (auto simp: set_field_def)
  next
    case False
    with 2 show ?thesis by (auto simp: set_field_def fresh_view_le)
  qed
qed (auto simp: set_field_def)

lemma copied_end:
  assumes "copied D n h' ts fs xs out" and "view_fields ts h fs = Some (xs, as)" and "heap_le h h'"
    and "\<forall>(m, t) \<in> set ts. m \<notin> D \<longrightarrow> no_refs t"
  shows "\<exists>bs. view_fields ts h' out = Some (xs, bs) \<and> (\<forall>b \<in> set bs. n \<le> b)"
  using assms
proof (induction D n h' ts fs xs out arbitrary: as rule: copied.induct)
  case (2 D n h' k t ts k1 v fs k2 x xs k3 u out)
  obtain us es where v: "view t h v = Some (x, us)" and fs: "view_fields ts h fs = Some (xs, es)"
    using "2.prems"(2) by (auto split: option.splits if_splits)
  obtain bs where bs: "view_fields ts h' out = Some (xs, bs)" "\<forall>b \<in> set bs. n \<le> b"
    using "2.IH" [OF _ fs] "2.prems" by auto
  have "fresh_view t x n h' u"
    using fresh_no_refs [OF v _ "2.prems"(3)] "2.prems"(1,4) by (auto split: if_splits)
  with bs "2.prems"(1) show ?case by (auto simp: fresh_view_def)
qed simp_all

lemma copy_fields_copied:
  assumes "view_fields ts h0 fs = Some (xs, as)" and "distinct (map fst ts)"
  shows "heap_le h0 h \<Longrightarrow> copied D (length h0) h ts fs xs out \<Longrightarrow> \<forall>(m, c) \<in> set steps. \<exists>t. map_of ts m = Some t \<and> copies t c \<Longrightarrow>
    copy_fields steps fs out h = (out', h') \<Longrightarrow> heap_le h h' \<and> copied (D \<union> fst ` set steps) (length h0) h' ts fs xs out'"
proof (induction steps arbitrary: D out h)
  case Nil
  then show ?case by (simp add: heap_le_refl)
next
  case (Cons s steps)
  obtain m c where s: "s = (m, c)" by force
  with Cons.prems(3) obtain t where t: "map_of ts m = Some t" "copies t c" by auto
  from view_field [OF assms(1) t(1)] obtain v x bs where v: "map_of fs m = Some v" "map_of xs m = Some x" "view t h0 v = Some (x, bs)"
    by auto
  obtain w h1 where c: "c v h = (w, h1)" by force
  note le = copiesD(1) [OF t(2) view_le(1) [OF v(3) Cons.prems(1)] c]
    and fresh = copiesD(2) [OF t(2) view_le(1) [OF v(3) Cons.prems(1)] c]
  have "fresh_view t x (length h0) h1 w"
    by (rule fresh_view_mono [OF fresh]) (use Cons.prems(1) in \<open>simp add: heap_le_def\<close>)
  then have "copied (insert m D) (length h0) h1 ts fs xs (set_field m w out)"
    by (intro copied_step [OF Cons.prems(2) le assms(2)]) (use t v in simp)
  from Cons.IH [OF heap_le_trans [OF Cons.prems(1) le] this] Cons.prems(3,4) s c v le
  show ?case by (auto intro: heap_le_trans)
qed

lemma copies_struct:
  assumes "distinct (map fst ts)" and "list_all (\<lambda>(m, c). \<exists>t. map_of ts m = Some t \<and> copies t c) steps"
    and "list_all (\<lambda>(m, t). m \<in> fst ` set steps \<or> no_refs t) ts"
  shows "copies (TStruct ts) (copy_struct steps)"
proof -
  have "heap_le h (snd (copy_struct steps v h)) \<and> fresh_view (TStruct ts) x (length h) (snd (copy_struct steps v h)) (fst (copy_struct steps v h))"
    if v: "view (TStruct ts) h v = Some (x, as)" for h v x as
  proof -
    from v obtain fs xs where fs: "v = VStruct fs" "x = LStruct xs" "view_fields ts h fs = Some (xs, as)"
      by (auto split: gval.splits)
    obtain out h' where out: "copy_fields steps fs fs h = (out, h')" by force
    from assms(2) have "\<forall>(m, c) \<in> set steps. \<exists>t. map_of ts m = Some t \<and> copies t c" by (auto simp: list_all_iff)
    from copy_fields_copied [OF fs(3) assms(1) heap_le_refl copied_start [OF fs(3)] this out]
    have le: "heap_le h h'" and all: "copied ({} \<union> fst ` set steps) (length h) h' ts fs xs out" by auto
    have "\<forall>(m, t) \<in> set ts. m \<notin> {} \<union> fst ` set steps \<longrightarrow> no_refs t" using assms(3) by (auto simp: list_all_iff)
    from copied_end [OF all fs(3) le this] obtain bs where "view_fields ts h' out = Some (xs, bs)" "\<forall>b \<in> set bs. length h \<le> b" by blast
    with le show ?thesis by (auto simp: copy_struct_def fs out fresh_view_def)
  qed
  then show ?thesis unfolding copies_def by blast
qed

section \<open>Independence\<close>

text \<open>
  A deep copy of a type: a copy that looks like the original, and no write to a cell of one of the
  two shows in the other.
\<close>

definition independent_copy :: "gtype \<Rightarrow> (nat option \<Rightarrow> heap \<Rightarrow> nat option \<times> heap) \<Rightarrow> bool" where
  "independent_copy t f \<longleftrightarrow>
     (\<forall>h p x as. view (TPtr t) h (VRef p) = Some (x, as) \<longrightarrow>
        (\<exists>q h' bs. f p h = (q, h') \<and> view (TPtr t) h' (VRef p) = Some (x, as) \<and> view (TPtr t) h' (VRef q) = Some (x, bs) \<and>
           (\<forall>b \<in> set bs. \<forall>w. view (TPtr t) (h'[b := w]) (VRef p) = Some (x, as)) \<and>
           (\<forall>a \<in> set as. \<forall>w. view (TPtr t) (h'[a := w]) (VRef q) = Some (x, bs))))"

locale deep_copier =
  fixes t :: gtype and into :: copier
  assumes into_copies: "copies t into"
begin

lemma ptr: "copies (TPtr t) (copy_ptr into)"
  by (rule copies_ptr [OF into_copies])

lemma slice: "copies (TSlice t) (copy_slice into)"
  by (rule copies_slice [OF into_copies])

lemma independent: "independent_copy t (DeepCopy into)"
  unfolding independent_copy_def
proof (intro allI impI)
  fix h p x as
  assume v: "view (TPtr t) h (VRef p) = Some (x, as)"
  obtain q h' where r: "copy_ptr into (VRef p) h = (VRef q, h')" "DeepCopy into p h = (q, h')"
    by (cases "DeepCopy into p h") (simp add: copy_ptr_def)
  from copiesD [OF ptr v r(1)] obtain bs where le: "heap_le h h'" and bs: "view (TPtr t) h' (VRef q) = Some (x, bs)" "\<forall>b \<in> set bs. length h \<le> b"
    by (auto simp: fresh_view_def)
  have p: "view (TPtr t) h' (VRef p) = Some (x, as)" by (rule view_le(1) [OF v le])
  have apart: "a \<noteq> b" if "a \<in> set as" "b \<in> set bs" for a b using view_bound(1) [OF v] bs(2) that by fastforce
  have "view (TPtr t) (h'[b := w]) (VRef p) = Some (x, as)" if "b \<in> set bs" for b w
  proof -
    have "same_cells as h' (h'[b := w])" using view_bound(1) [OF p] apart that
      by (simp add: same_cells_def) (metis nth_list_update_neq)
    from view_cong(1) [OF p this] show ?thesis .
  qed
  moreover have "view (TPtr t) (h'[a := w]) (VRef q) = Some (x, bs)" if "a \<in> set as" for a w
  proof -
    have "same_cells bs h' (h'[a := w])" using view_bound(1) [OF bs(1)] apart that by (auto simp: same_cells_def)
    from view_cong(1) [OF bs(1) this] show ?thesis .
  qed
  ultimately show "\<exists>q h' bs. DeepCopy into p h = (q, h') \<and> view (TPtr t) h' (VRef p) = Some (x, as) \<and> view (TPtr t) h' (VRef q) = Some (x, bs) \<and>
           (\<forall>b \<in> set bs. \<forall>w. view (TPtr t) (h'[b := w]) (VRef p) = Some (x, as)) \<and>
           (\<forall>a \<in> set as. \<forall>w. view (TPtr t) (h'[a := w]) (VRef q) = Some (x, bs))"
    using r(2) p bs(1) by blast
qed

end

end
