(* ===== verification/DeepCopy.thy ===== *)
theory DeepCopy
  imports GoHeap
begin

text \<open>
  The generated deep copies of both API versions: \<open>pkg/apis/trust/v1alpha1/zz_generated.deepcopy.go\<close>
  and \<open>pkg/apis/trustmanager/v1alpha2/zz_generated.deepcopy.go\<close>. Each struct has its layout in memory
  (the fields with their types, embedded structs under the name of their type), its
  \<open>DeepCopyInto\<close>, and its \<open>DeepCopy\<close>. The copies of the Kubernetes types and their layouts are
  the parameter \<open>meta_lib\<close>. The suffix \<open>_v2\<close> marks the functions of v1alpha2.
\<close>

record meta_lib =
  ml_ObjectMeta :: gtype
  ml_ListMeta :: gtype
  ml_LabelSelector :: gtype
  ml_Condition :: gtype
  ml_ObjectMeta_DeepCopyInto :: copier
  ml_ListMeta_DeepCopyInto :: copier
  ml_LabelSelector_DeepCopyInto :: copier
  ml_Condition_DeepCopyInto :: copier

definition TypeMeta_type :: gtype where
  "TypeMeta_type = TStruct [(''Kind'', TScalar), (''APIVersion'', TScalar)]"

section \<open>v1alpha1\<close>

definition KeySelector_type :: "gtype" where
  "KeySelector_type = TStruct [(''Key'', TScalar)]"

definition KeySelector_DeepCopyInto :: "copier" where
  "KeySelector_DeepCopyInto = assign"

definition KeySelector_DeepCopy :: "nat option \<Rightarrow> heap \<Rightarrow> nat option \<times> heap" where
  "KeySelector_DeepCopy inn h = DeepCopy KeySelector_DeepCopyInto inn h"

definition JKS_type :: "gtype" where
  "JKS_type = TStruct [(''KeySelector'', KeySelector_type), (''Password'', TScalar)]"

definition JKS_DeepCopyInto :: "copier" where
  "JKS_DeepCopyInto = copy_struct
     [(''KeySelector'', assign)]"

definition JKS_DeepCopy :: "nat option \<Rightarrow> heap \<Rightarrow> nat option \<times> heap" where
  "JKS_DeepCopy inn h = DeepCopy JKS_DeepCopyInto inn h"

definition PKCS12_type :: "gtype" where
  "PKCS12_type = TStruct [(''KeySelector'', KeySelector_type), (''Password'', TPtr TScalar), (''Profile'', TScalar)]"

definition PKCS12_DeepCopyInto :: "copier" where
  "PKCS12_DeepCopyInto = copy_struct
     [(''KeySelector'', assign), (''Password'', copy_ptr assign)]"

definition PKCS12_DeepCopy :: "nat option \<Rightarrow> heap \<Rightarrow> nat option \<times> heap" where
  "PKCS12_DeepCopy inn h = DeepCopy PKCS12_DeepCopyInto inn h"

definition AdditionalFormats_type :: "gtype" where
  "AdditionalFormats_type = TStruct [(''JKS'', TPtr JKS_type), (''PKCS12'', TPtr PKCS12_type)]"

definition AdditionalFormats_DeepCopyInto :: "copier" where
  "AdditionalFormats_DeepCopyInto = copy_struct
     [(''JKS'', copy_ptr assign), (''PKCS12'', copy_ptr PKCS12_DeepCopyInto)]"

definition AdditionalFormats_DeepCopy :: "nat option \<Rightarrow> heap \<Rightarrow> nat option \<times> heap" where
  "AdditionalFormats_DeepCopy inn h = DeepCopy AdditionalFormats_DeepCopyInto inn h"

definition SourceObjectKeySelector_type :: "meta_lib \<Rightarrow> gtype" where
  "SourceObjectKeySelector_type lib = TStruct [(''Name'', TScalar), (''Selector'', TPtr (ml_LabelSelector lib)), (''Key'', TScalar), (''IncludeAllKeys'', TPtr TScalar)]"

definition SourceObjectKeySelector_DeepCopyInto :: "meta_lib \<Rightarrow> copier" where
  "SourceObjectKeySelector_DeepCopyInto lib = copy_struct
     [(''Selector'', copy_ptr (ml_LabelSelector_DeepCopyInto lib)), (''IncludeAllKeys'', copy_ptr assign)]"

definition SourceObjectKeySelector_DeepCopy :: "meta_lib \<Rightarrow> nat option \<Rightarrow> heap \<Rightarrow> nat option \<times> heap" where
  "SourceObjectKeySelector_DeepCopy lib inn h = DeepCopy (SourceObjectKeySelector_DeepCopyInto lib) inn h"

definition BundleSource_type :: "meta_lib \<Rightarrow> gtype" where
  "BundleSource_type lib = TStruct [(''ConfigMap'', TPtr (SourceObjectKeySelector_type lib)), (''Secret'', TPtr (SourceObjectKeySelector_type lib)), (''InLine'', TScalar), (''UseDefaultCAs'', TPtr TScalar)]"

definition BundleSource_DeepCopyInto :: "meta_lib \<Rightarrow> copier" where
  "BundleSource_DeepCopyInto lib = copy_struct
     [(''ConfigMap'', copy_ptr (SourceObjectKeySelector_DeepCopyInto lib)), (''Secret'', copy_ptr (SourceObjectKeySelector_DeepCopyInto lib)), (''UseDefaultCAs'', copy_ptr assign)]"

definition BundleSource_DeepCopy :: "meta_lib \<Rightarrow> nat option \<Rightarrow> heap \<Rightarrow> nat option \<times> heap" where
  "BundleSource_DeepCopy lib inn h = DeepCopy (BundleSource_DeepCopyInto lib) inn h"

definition TargetMetadata_type :: "gtype" where
  "TargetMetadata_type = TStruct [(''Annotations'', TMap), (''Labels'', TMap)]"

definition TargetMetadata_DeepCopyInto :: "copier" where
  "TargetMetadata_DeepCopyInto = copy_struct
     [(''Annotations'', copy_map), (''Labels'', copy_map)]"

definition TargetMetadata_DeepCopy :: "nat option \<Rightarrow> heap \<Rightarrow> nat option \<times> heap" where
  "TargetMetadata_DeepCopy inn h = DeepCopy TargetMetadata_DeepCopyInto inn h"

definition TargetTemplate_type :: "gtype" where
  "TargetTemplate_type = TStruct [(''Key'', TScalar), (''Metadata'', TargetMetadata_type)]"

definition TargetTemplate_DeepCopyInto :: "copier" where
  "TargetTemplate_DeepCopyInto = copy_struct
     [(''Metadata'', TargetMetadata_DeepCopyInto)]"

definition TargetTemplate_DeepCopy :: "nat option \<Rightarrow> heap \<Rightarrow> nat option \<times> heap" where
  "TargetTemplate_DeepCopy inn h = DeepCopy TargetTemplate_DeepCopyInto inn h"

definition BundleTarget_type :: "meta_lib \<Rightarrow> gtype" where
  "BundleTarget_type lib = TStruct [(''ConfigMap'', TPtr TargetTemplate_type), (''Secret'', TPtr TargetTemplate_type), (''AdditionalFormats'', TPtr AdditionalFormats_type), (''NamespaceSelector'', TPtr (ml_LabelSelector lib))]"

definition BundleTarget_DeepCopyInto :: "meta_lib \<Rightarrow> copier" where
  "BundleTarget_DeepCopyInto lib = copy_struct
     [(''ConfigMap'', copy_ptr TargetTemplate_DeepCopyInto), (''Secret'', copy_ptr TargetTemplate_DeepCopyInto), (''AdditionalFormats'', copy_ptr AdditionalFormats_DeepCopyInto), (''NamespaceSelector'', copy_ptr (ml_LabelSelector_DeepCopyInto lib))]"

definition BundleTarget_DeepCopy :: "meta_lib \<Rightarrow> nat option \<Rightarrow> heap \<Rightarrow> nat option \<times> heap" where
  "BundleTarget_DeepCopy lib inn h = DeepCopy (BundleTarget_DeepCopyInto lib) inn h"

definition BundleSpec_type :: "meta_lib \<Rightarrow> gtype" where
  "BundleSpec_type lib = TStruct [(''Sources'', TSlice (BundleSource_type lib)), (''Target'', BundleTarget_type lib)]"

definition BundleSpec_DeepCopyInto :: "meta_lib \<Rightarrow> copier" where
  "BundleSpec_DeepCopyInto lib = copy_struct
     [(''Sources'', copy_slice (BundleSource_DeepCopyInto lib)), (''Target'', BundleTarget_DeepCopyInto lib)]"

definition BundleSpec_DeepCopy :: "meta_lib \<Rightarrow> nat option \<Rightarrow> heap \<Rightarrow> nat option \<times> heap" where
  "BundleSpec_DeepCopy lib inn h = DeepCopy (BundleSpec_DeepCopyInto lib) inn h"

definition BundleStatus_type :: "meta_lib \<Rightarrow> gtype" where
  "BundleStatus_type lib = TStruct [(''Conditions'', TSlice (ml_Condition lib)), (''DefaultCAPackageVersion'', TScalar)]"

definition BundleStatus_DeepCopyInto :: "meta_lib \<Rightarrow> copier" where
  "BundleStatus_DeepCopyInto lib = copy_struct
     [(''Conditions'', copy_slice (ml_Condition_DeepCopyInto lib))]"

definition BundleStatus_DeepCopy :: "meta_lib \<Rightarrow> nat option \<Rightarrow> heap \<Rightarrow> nat option \<times> heap" where
  "BundleStatus_DeepCopy lib inn h = DeepCopy (BundleStatus_DeepCopyInto lib) inn h"

definition Bundle_type :: "meta_lib \<Rightarrow> gtype" where
  "Bundle_type lib = TStruct [(''TypeMeta'', TypeMeta_type), (''ObjectMeta'', ml_ObjectMeta lib), (''Spec'', BundleSpec_type lib), (''Status'', BundleStatus_type lib)]"

definition Bundle_DeepCopyInto :: "meta_lib \<Rightarrow> copier" where
  "Bundle_DeepCopyInto lib = copy_struct
     [(''TypeMeta'', assign), (''ObjectMeta'', ml_ObjectMeta_DeepCopyInto lib), (''Spec'', BundleSpec_DeepCopyInto lib), (''Status'', BundleStatus_DeepCopyInto lib)]"

definition Bundle_DeepCopy :: "meta_lib \<Rightarrow> nat option \<Rightarrow> heap \<Rightarrow> nat option \<times> heap" where
  "Bundle_DeepCopy lib inn h = DeepCopy (Bundle_DeepCopyInto lib) inn h"

definition Bundle_DeepCopyObject :: "meta_lib \<Rightarrow> nat option \<Rightarrow> heap \<Rightarrow> (string \<times> nat) option \<times> heap" where
  \<comment> \<open>the interface value: the type and the pointer, or nil\<close>
  "Bundle_DeepCopyObject lib inn h =
     (case Bundle_DeepCopy lib inn h of (Some c, h') \<Rightarrow> (Some (''Bundle'', c), h') | (None, h') \<Rightarrow> (None, h'))"

definition BundleList_type :: "meta_lib \<Rightarrow> gtype" where
  "BundleList_type lib = TStruct [(''TypeMeta'', TypeMeta_type), (''ListMeta'', ml_ListMeta lib), (''Items'', TSlice (Bundle_type lib))]"

definition BundleList_DeepCopyInto :: "meta_lib \<Rightarrow> copier" where
  "BundleList_DeepCopyInto lib = copy_struct
     [(''TypeMeta'', assign), (''ListMeta'', ml_ListMeta_DeepCopyInto lib), (''Items'', copy_slice (Bundle_DeepCopyInto lib))]"

definition BundleList_DeepCopy :: "meta_lib \<Rightarrow> nat option \<Rightarrow> heap \<Rightarrow> nat option \<times> heap" where
  "BundleList_DeepCopy lib inn h = DeepCopy (BundleList_DeepCopyInto lib) inn h"

definition BundleList_DeepCopyObject :: "meta_lib \<Rightarrow> nat option \<Rightarrow> heap \<Rightarrow> (string \<times> nat) option \<times> heap" where
  \<comment> \<open>the interface value: the type and the pointer, or nil\<close>
  "BundleList_DeepCopyObject lib inn h =
     (case BundleList_DeepCopy lib inn h of (Some c, h') \<Rightarrow> (Some (''BundleList'', c), h') | (None, h') \<Rightarrow> (None, h'))"

section \<open>v1alpha2\<close>

definition SourceReference_type :: "meta_lib \<Rightarrow> gtype" where
  "SourceReference_type lib = TStruct [(''Kind'', TScalar), (''Name'', TScalar), (''Selector'', TPtr (ml_LabelSelector lib))]"

definition SourceReference_DeepCopyInto :: "meta_lib \<Rightarrow> copier" where
  "SourceReference_DeepCopyInto lib = copy_struct
     [(''Selector'', copy_ptr (ml_LabelSelector_DeepCopyInto lib))]"

definition SourceReference_DeepCopy :: "meta_lib \<Rightarrow> nat option \<Rightarrow> heap \<Rightarrow> nat option \<times> heap" where
  "SourceReference_DeepCopy lib inn h = DeepCopy (SourceReference_DeepCopyInto lib) inn h"

definition BundleSourceRef_type :: "meta_lib \<Rightarrow> gtype" where
  "BundleSourceRef_type lib = TStruct [(''SourceReference'', SourceReference_type lib), (''Key'', TScalar)]"

definition BundleSourceRef_DeepCopyInto :: "meta_lib \<Rightarrow> copier" where
  "BundleSourceRef_DeepCopyInto lib = copy_struct
     [(''SourceReference'', SourceReference_DeepCopyInto lib)]"

definition BundleSourceRef_DeepCopy :: "meta_lib \<Rightarrow> nat option \<Rightarrow> heap \<Rightarrow> nat option \<times> heap" where
  "BundleSourceRef_DeepCopy lib inn h = DeepCopy (BundleSourceRef_DeepCopyInto lib) inn h"

definition DefaultCAsSource_type :: "gtype" where
  "DefaultCAsSource_type = TStruct [(''Provider'', TScalar)]"

definition DefaultCAsSource_DeepCopyInto :: "copier" where
  "DefaultCAsSource_DeepCopyInto = assign"

definition DefaultCAsSource_DeepCopy :: "nat option \<Rightarrow> heap \<Rightarrow> nat option \<times> heap" where
  "DefaultCAsSource_DeepCopy inn h = DeepCopy DefaultCAsSource_DeepCopyInto inn h"

definition PKCS12_v2_type :: "gtype" where
  "PKCS12_v2_type = TStruct [(''Password'', TPtr TScalar), (''Profile'', TScalar)]"

definition PKCS12_v2_DeepCopyInto :: "copier" where
  "PKCS12_v2_DeepCopyInto = copy_struct
     [(''Password'', copy_ptr assign)]"

definition PKCS12_v2_DeepCopy :: "nat option \<Rightarrow> heap \<Rightarrow> nat option \<times> heap" where
  "PKCS12_v2_DeepCopy inn h = DeepCopy PKCS12_v2_DeepCopyInto inn h"

definition TargetKeyValue_type :: "gtype" where
  "TargetKeyValue_type = TStruct [(''Key'', TScalar), (''Format'', TScalar), (''PKCS12'', PKCS12_v2_type)]"

definition TargetKeyValue_DeepCopyInto :: "copier" where
  "TargetKeyValue_DeepCopyInto = copy_struct
     [(''PKCS12'', PKCS12_v2_DeepCopyInto)]"

definition TargetKeyValue_DeepCopy :: "nat option \<Rightarrow> heap \<Rightarrow> nat option \<times> heap" where
  "TargetKeyValue_DeepCopy inn h = DeepCopy TargetKeyValue_DeepCopyInto inn h"

definition TargetMetadata_v2_type :: "gtype" where
  "TargetMetadata_v2_type = TStruct [(''Annotations'', TMap), (''Labels'', TMap)]"

definition TargetMetadata_v2_DeepCopyInto :: "copier" where
  "TargetMetadata_v2_DeepCopyInto = copy_struct
     [(''Annotations'', copy_map), (''Labels'', copy_map)]"

definition TargetMetadata_v2_DeepCopy :: "nat option \<Rightarrow> heap \<Rightarrow> nat option \<times> heap" where
  "TargetMetadata_v2_DeepCopy inn h = DeepCopy TargetMetadata_v2_DeepCopyInto inn h"

definition KeyValueTarget_type :: "gtype" where
  "KeyValueTarget_type = TStruct [(''Data'', TSlice TargetKeyValue_type), (''Metadata'', TargetMetadata_v2_type)]"

definition KeyValueTarget_DeepCopyInto :: "copier" where
  "KeyValueTarget_DeepCopyInto = copy_struct
     [(''Data'', copy_slice TargetKeyValue_DeepCopyInto), (''Metadata'', TargetMetadata_v2_DeepCopyInto)]"

definition KeyValueTarget_DeepCopy :: "nat option \<Rightarrow> heap \<Rightarrow> nat option \<times> heap" where
  "KeyValueTarget_DeepCopy inn h = DeepCopy KeyValueTarget_DeepCopyInto inn h"

definition BundleTarget_v2_type :: "meta_lib \<Rightarrow> gtype" where
  "BundleTarget_v2_type lib = TStruct [(''ConfigMap'', TPtr KeyValueTarget_type), (''Secret'', TPtr KeyValueTarget_type), (''NamespaceSelector'', TPtr (ml_LabelSelector lib))]"

definition BundleTarget_v2_DeepCopyInto :: "meta_lib \<Rightarrow> copier" where
  "BundleTarget_v2_DeepCopyInto lib = copy_struct
     [(''ConfigMap'', copy_ptr KeyValueTarget_DeepCopyInto), (''Secret'', copy_ptr KeyValueTarget_DeepCopyInto), (''NamespaceSelector'', copy_ptr (ml_LabelSelector_DeepCopyInto lib))]"

definition BundleTarget_v2_DeepCopy :: "meta_lib \<Rightarrow> nat option \<Rightarrow> heap \<Rightarrow> nat option \<times> heap" where
  "BundleTarget_v2_DeepCopy lib inn h = DeepCopy (BundleTarget_v2_DeepCopyInto lib) inn h"

definition BundleSpec_v2_type :: "meta_lib \<Rightarrow> gtype" where
  "BundleSpec_v2_type lib = TStruct [(''SourceRefs'', TSlice (BundleSourceRef_type lib)), (''DefaultCAs'', DefaultCAsSource_type), (''InLineCAs'', TScalar), (''Target'', BundleTarget_v2_type lib)]"

definition BundleSpec_v2_DeepCopyInto :: "meta_lib \<Rightarrow> copier" where
  "BundleSpec_v2_DeepCopyInto lib = copy_struct
     [(''SourceRefs'', copy_slice (BundleSourceRef_DeepCopyInto lib)), (''DefaultCAs'', assign), (''Target'', BundleTarget_v2_DeepCopyInto lib)]"

definition BundleSpec_v2_DeepCopy :: "meta_lib \<Rightarrow> nat option \<Rightarrow> heap \<Rightarrow> nat option \<times> heap" where
  "BundleSpec_v2_DeepCopy lib inn h = DeepCopy (BundleSpec_v2_DeepCopyInto lib) inn h"

definition BundleStatus_v2_type :: "meta_lib \<Rightarrow> gtype" where
  "BundleStatus_v2_type lib = TStruct [(''Conditions'', TSlice (ml_Condition lib)), (''DefaultCAPackageVersion'', TScalar)]"

definition BundleStatus_v2_DeepCopyInto :: "meta_lib \<Rightarrow> copier" where
  "BundleStatus_v2_DeepCopyInto lib = copy_struct
     [(''Conditions'', copy_slice (ml_Condition_DeepCopyInto lib))]"

definition BundleStatus_v2_DeepCopy :: "meta_lib \<Rightarrow> nat option \<Rightarrow> heap \<Rightarrow> nat option \<times> heap" where
  "BundleStatus_v2_DeepCopy lib inn h = DeepCopy (BundleStatus_v2_DeepCopyInto lib) inn h"

definition ClusterBundle_type :: "meta_lib \<Rightarrow> gtype" where
  "ClusterBundle_type lib = TStruct [(''TypeMeta'', TypeMeta_type), (''ObjectMeta'', ml_ObjectMeta lib), (''Spec'', BundleSpec_v2_type lib), (''Status'', BundleStatus_v2_type lib)]"

definition ClusterBundle_DeepCopyInto :: "meta_lib \<Rightarrow> copier" where
  "ClusterBundle_DeepCopyInto lib = copy_struct
     [(''TypeMeta'', assign), (''ObjectMeta'', ml_ObjectMeta_DeepCopyInto lib), (''Spec'', BundleSpec_v2_DeepCopyInto lib), (''Status'', BundleStatus_v2_DeepCopyInto lib)]"

definition ClusterBundle_DeepCopy :: "meta_lib \<Rightarrow> nat option \<Rightarrow> heap \<Rightarrow> nat option \<times> heap" where
  "ClusterBundle_DeepCopy lib inn h = DeepCopy (ClusterBundle_DeepCopyInto lib) inn h"

definition ClusterBundle_DeepCopyObject :: "meta_lib \<Rightarrow> nat option \<Rightarrow> heap \<Rightarrow> (string \<times> nat) option \<times> heap" where
  \<comment> \<open>the interface value: the type and the pointer, or nil\<close>
  "ClusterBundle_DeepCopyObject lib inn h =
     (case ClusterBundle_DeepCopy lib inn h of (Some c, h') \<Rightarrow> (Some (''ClusterBundle'', c), h') | (None, h') \<Rightarrow> (None, h'))"

definition ClusterBundleList_type :: "meta_lib \<Rightarrow> gtype" where
  "ClusterBundleList_type lib = TStruct [(''TypeMeta'', TypeMeta_type), (''ListMeta'', ml_ListMeta lib), (''Items'', TSlice (ClusterBundle_type lib))]"

definition ClusterBundleList_DeepCopyInto :: "meta_lib \<Rightarrow> copier" where
  "ClusterBundleList_DeepCopyInto lib = copy_struct
     [(''TypeMeta'', assign), (''ListMeta'', ml_ListMeta_DeepCopyInto lib), (''Items'', copy_slice (ClusterBundle_DeepCopyInto lib))]"

definition ClusterBundleList_DeepCopy :: "meta_lib \<Rightarrow> nat option \<Rightarrow> heap \<Rightarrow> nat option \<times> heap" where
  "ClusterBundleList_DeepCopy lib inn h = DeepCopy (ClusterBundleList_DeepCopyInto lib) inn h"

definition ClusterBundleList_DeepCopyObject :: "meta_lib \<Rightarrow> nat option \<Rightarrow> heap \<Rightarrow> (string \<times> nat) option \<times> heap" where
  \<comment> \<open>the interface value: the type and the pointer, or nil\<close>
  "ClusterBundleList_DeepCopyObject lib inn h =
     (case ClusterBundleList_DeepCopy lib inn h of (Some c, h') \<Rightarrow> (Some (''ClusterBundleList'', c), h') | (None, h') \<Rightarrow> (None, h'))"

end
