(* ===== verification/DeepCopyTheorems.thy ===== *)
theory DeepCopyTheorems
  imports DeepCopy
begin

text \<open>
  Every generated copy is deep: it covers each field of its struct that refers to memory. The copies
  of the Kubernetes types have the contract \<open>meta_library\<close>; from it follows that Bundles,
  ClusterBundles and their lists are copied without sharing.
\<close>

named_theorems copier_facts

lemma copies_scalar [copier_facts]: "copies TScalar assign"
  by (simp add: copies_assign)

lemma no_refs_types [copier_facts]:
  "no_refs TScalar" "no_refs TypeMeta_type" "no_refs KeySelector_type" "no_refs JKS_type" "no_refs DefaultCAsSource_type"
  by (simp_all add: TypeMeta_type_def KeySelector_type_def JKS_type_def DefaultCAsSource_type_def)

lemmas copier_rules = copies_struct copies_ptr copies_slice copies_map copies_assign

section \<open>Types without Kubernetes fields\<close>

lemma copies_KeySelector [copier_facts]: "copies KeySelector_type KeySelector_DeepCopyInto"
  unfolding KeySelector_type_def KeySelector_DeepCopyInto_def by (rule copier_rules; simp add: copier_rules copier_facts)

lemma copies_JKS [copier_facts]: "copies JKS_type JKS_DeepCopyInto"
  unfolding JKS_type_def JKS_DeepCopyInto_def by (rule copier_rules; simp add: copier_rules copier_facts)

lemma copies_PKCS12 [copier_facts]: "copies PKCS12_type PKCS12_DeepCopyInto"
  unfolding PKCS12_type_def PKCS12_DeepCopyInto_def by (rule copier_rules; simp add: copier_rules copier_facts)

lemma copies_AdditionalFormats [copier_facts]: "copies AdditionalFormats_type AdditionalFormats_DeepCopyInto"
  unfolding AdditionalFormats_type_def AdditionalFormats_DeepCopyInto_def by (rule copier_rules; simp add: copier_rules copier_facts)

lemma copies_TargetMetadata [copier_facts]: "copies TargetMetadata_type TargetMetadata_DeepCopyInto"
  unfolding TargetMetadata_type_def TargetMetadata_DeepCopyInto_def by (rule copier_rules; simp add: copier_rules copier_facts)

lemma copies_TargetTemplate [copier_facts]: "copies TargetTemplate_type TargetTemplate_DeepCopyInto"
  unfolding TargetTemplate_type_def TargetTemplate_DeepCopyInto_def by (rule copier_rules; simp add: copier_rules copier_facts)

lemma copies_DefaultCAsSource [copier_facts]: "copies DefaultCAsSource_type DefaultCAsSource_DeepCopyInto"
  unfolding DefaultCAsSource_type_def DefaultCAsSource_DeepCopyInto_def by (rule copier_rules; simp add: copier_rules copier_facts)

lemma copies_PKCS12_v2 [copier_facts]: "copies PKCS12_v2_type PKCS12_v2_DeepCopyInto"
  unfolding PKCS12_v2_type_def PKCS12_v2_DeepCopyInto_def by (rule copier_rules; simp add: copier_rules copier_facts)

lemma copies_TargetKeyValue [copier_facts]: "copies TargetKeyValue_type TargetKeyValue_DeepCopyInto"
  unfolding TargetKeyValue_type_def TargetKeyValue_DeepCopyInto_def by (rule copier_rules; simp add: copier_rules copier_facts)

lemma copies_TargetMetadata_v2 [copier_facts]: "copies TargetMetadata_v2_type TargetMetadata_v2_DeepCopyInto"
  unfolding TargetMetadata_v2_type_def TargetMetadata_v2_DeepCopyInto_def by (rule copier_rules; simp add: copier_rules copier_facts)

lemma copies_KeyValueTarget [copier_facts]: "copies KeyValueTarget_type KeyValueTarget_DeepCopyInto"
  unfolding KeyValueTarget_type_def KeyValueTarget_DeepCopyInto_def by (rule copier_rules; simp add: copier_rules copier_facts)

interpretation targetTemplate: deep_copier TargetTemplate_type TargetTemplate_DeepCopyInto
  by unfold_locales (rule copies_TargetTemplate)

interpretation keyValueTarget: deep_copier KeyValueTarget_type KeyValueTarget_DeepCopyInto
  by unfold_locales (rule copies_KeyValueTarget)

section \<open>Types with Kubernetes fields\<close>

text \<open>What apimachinery documents of its own \<open>DeepCopyInto\<close> functions.\<close>

locale meta_library =
  fixes lib :: meta_lib
  assumes lib_copies:
    "copies (ml_ObjectMeta lib) (ml_ObjectMeta_DeepCopyInto lib)" "copies (ml_ListMeta lib) (ml_ListMeta_DeepCopyInto lib)"
    "copies (ml_LabelSelector lib) (ml_LabelSelector_DeepCopyInto lib)" "copies (ml_Condition lib) (ml_Condition_DeepCopyInto lib)"
begin

lemma copies_SourceObjectKeySelector [copier_facts]: "copies (SourceObjectKeySelector_type lib) (SourceObjectKeySelector_DeepCopyInto lib)"
  unfolding SourceObjectKeySelector_type_def SourceObjectKeySelector_DeepCopyInto_def by (rule copies_struct; simp add: copier_rules copier_facts lib_copies)

lemma copies_BundleSource [copier_facts]: "copies (BundleSource_type lib) (BundleSource_DeepCopyInto lib)"
  unfolding BundleSource_type_def BundleSource_DeepCopyInto_def by (rule copies_struct; simp add: copier_rules copier_facts lib_copies)

lemma copies_BundleTarget [copier_facts]: "copies (BundleTarget_type lib) (BundleTarget_DeepCopyInto lib)"
  unfolding BundleTarget_type_def BundleTarget_DeepCopyInto_def by (rule copies_struct; simp add: copier_rules copier_facts lib_copies)

lemma copies_BundleSpec [copier_facts]: "copies (BundleSpec_type lib) (BundleSpec_DeepCopyInto lib)"
  unfolding BundleSpec_type_def BundleSpec_DeepCopyInto_def by (rule copies_struct; simp add: copier_rules copier_facts lib_copies)

lemma copies_BundleStatus [copier_facts]: "copies (BundleStatus_type lib) (BundleStatus_DeepCopyInto lib)"
  unfolding BundleStatus_type_def BundleStatus_DeepCopyInto_def by (rule copies_struct; simp add: copier_rules copier_facts lib_copies)

lemma copies_Bundle [copier_facts]: "copies (Bundle_type lib) (Bundle_DeepCopyInto lib)"
  unfolding Bundle_type_def Bundle_DeepCopyInto_def by (rule copies_struct; simp add: copier_rules copier_facts lib_copies)

lemma copies_BundleList [copier_facts]: "copies (BundleList_type lib) (BundleList_DeepCopyInto lib)"
  unfolding BundleList_type_def BundleList_DeepCopyInto_def by (rule copies_struct; simp add: copier_rules copier_facts lib_copies)

lemma copies_SourceReference [copier_facts]: "copies (SourceReference_type lib) (SourceReference_DeepCopyInto lib)"
  unfolding SourceReference_type_def SourceReference_DeepCopyInto_def by (rule copies_struct; simp add: copier_rules copier_facts lib_copies)

lemma copies_BundleSourceRef [copier_facts]: "copies (BundleSourceRef_type lib) (BundleSourceRef_DeepCopyInto lib)"
  unfolding BundleSourceRef_type_def BundleSourceRef_DeepCopyInto_def by (rule copies_struct; simp add: copier_rules copier_facts lib_copies)

lemma copies_BundleTarget_v2 [copier_facts]: "copies (BundleTarget_v2_type lib) (BundleTarget_v2_DeepCopyInto lib)"
  unfolding BundleTarget_v2_type_def BundleTarget_v2_DeepCopyInto_def by (rule copies_struct; simp add: copier_rules copier_facts lib_copies)

lemma copies_BundleSpec_v2 [copier_facts]: "copies (BundleSpec_v2_type lib) (BundleSpec_v2_DeepCopyInto lib)"
  unfolding BundleSpec_v2_type_def BundleSpec_v2_DeepCopyInto_def by (rule copies_struct; simp add: copier_rules copier_facts lib_copies)

lemma copies_BundleStatus_v2 [copier_facts]: "copies (BundleStatus_v2_type lib) (BundleStatus_v2_DeepCopyInto lib)"
  unfolding BundleStatus_v2_type_def BundleStatus_v2_DeepCopyInto_def by (rule copies_struct; simp add: copier_rules copier_facts lib_copies)

lemma copies_ClusterBundle [copier_facts]: "copies (ClusterBundle_type lib) (ClusterBundle_DeepCopyInto lib)"
  unfolding ClusterBundle_type_def ClusterBundle_DeepCopyInto_def by (rule copies_struct; simp add: copier_rules copier_facts lib_copies)

lemma copies_ClusterBundleList [copier_facts]: "copies (ClusterBundleList_type lib) (ClusterBundleList_DeepCopyInto lib)"
  unfolding ClusterBundleList_type_def ClusterBundleList_DeepCopyInto_def by (rule copies_struct; simp add: copier_rules copier_facts lib_copies)

lemma copiers:
  "deep_copier (Bundle_type lib) (Bundle_DeepCopyInto lib)" "deep_copier (BundleList_type lib) (BundleList_DeepCopyInto lib)"
  "deep_copier (ClusterBundle_type lib) (ClusterBundle_DeepCopyInto lib)"
  "deep_copier (ClusterBundleList_type lib) (ClusterBundleList_DeepCopyInto lib)"
  by (simp_all add: deep_copier_def copies_Bundle copies_BundleList copies_ClusterBundle copies_ClusterBundleList)

end

text \<open>
  The fields of the Kubernetes types that the program reads, with their copies.
\<close>

definition kube_lib :: meta_lib where
  "kube_lib =
     \<lparr>ml_ObjectMeta = TStruct [(''Name'', TScalar), (''Labels'', TMap), (''Annotations'', TMap),
        (''OwnerReferences'', TSlice (TStruct [(''Name'', TScalar), (''Controller'', TPtr TScalar)]))],
      ml_ListMeta = TStruct [(''ResourceVersion'', TScalar), (''RemainingItemCount'', TPtr TScalar)],
      ml_LabelSelector = TStruct [(''MatchLabels'', TMap),
        (''MatchExpressions'', TSlice (TStruct [(''Key'', TScalar), (''Operator'', TScalar), (''Values'', TSlice TScalar)]))],
      ml_Condition = TStruct [(''Type'', TScalar), (''Status'', TScalar), (''Reason'', TScalar), (''Message'', TScalar)],
      ml_ObjectMeta_DeepCopyInto = copy_struct [(''Labels'', copy_map), (''Annotations'', copy_map),
        (''OwnerReferences'', copy_slice (copy_struct [(''Controller'', copy_ptr assign)]))],
      ml_ListMeta_DeepCopyInto = copy_struct [(''RemainingItemCount'', copy_ptr assign)],
      ml_LabelSelector_DeepCopyInto = copy_struct [(''MatchLabels'', copy_map),
        (''MatchExpressions'', copy_slice (copy_struct [(''Values'', copy_slice assign)]))],
      ml_Condition_DeepCopyInto = assign\<rparr>"

interpretation kube: meta_library kube_lib
  by unfold_locales (simp_all add: kube_lib_def copier_rules)

section \<open>Properties\<close>

text \<open>
  C18: The generated copies are deep. Whatever Bundle or ClusterBundle, or list of them, a pointer
  refers to, \<open>DeepCopy\<close> returns an object that looks the same, leaves the original as it is, and
  shares no memory with it: after any write to a cell of one of the two the other looks as
  before. This holds when the copies of the Kubernetes types do what they document.
\<close>

theorem DeepCopy_independent:
  assumes "meta_library lib"
  shows "independent_copy (Bundle_type lib) (Bundle_DeepCopy lib) \<and> independent_copy (BundleList_type lib) (BundleList_DeepCopy lib) \<and>
    independent_copy (ClusterBundle_type lib) (ClusterBundle_DeepCopy lib) \<and>
    independent_copy (ClusterBundleList_type lib) (ClusterBundleList_DeepCopy lib)"
  using meta_library.copiers [OF assms, THEN deep_copier.independent]
  by (simp add: Bundle_DeepCopy_def [abs_def] BundleList_DeepCopy_def [abs_def] ClusterBundle_DeepCopy_def [abs_def]
      ClusterBundleList_DeepCopy_def [abs_def])

text \<open>A Bundle with one ConfigMap source and one target, in memory.\<close>

definition bundle_heap :: heap where
  "bundle_heap =
     [VStruct [(''TypeMeta'', VStruct [(''Kind'', VScalar ''Bundle''), (''APIVersion'', VScalar ''v1'')]),
        (''ObjectMeta'', VStruct [(''Name'', VScalar ''b''), (''Labels'', VRef (Some 5)), (''Annotations'', VRef None), (''OwnerReferences'', VRef None)]),
        (''Spec'', VStruct [(''Sources'', VRef (Some 1)),
           (''Target'', VStruct [(''ConfigMap'', VRef (Some 4)), (''Secret'', VRef None), (''AdditionalFormats'', VRef None),
              (''NamespaceSelector'', VRef None)])]),
        (''Status'', VStruct [(''Conditions'', VRef None), (''DefaultCAPackageVersion'', VScalar [])])],
      VArray [VStruct [(''ConfigMap'', VRef (Some 2)), (''Secret'', VRef None), (''InLine'', VScalar []), (''UseDefaultCAs'', VRef None)]],
      VStruct [(''Name'', VScalar ''cm''), (''Selector'', VRef None), (''Key'', VScalar []), (''IncludeAllKeys'', VRef (Some 3))],
      VScalar ''true'',
      VStruct [(''Key'', VScalar ''ca.crt''), (''Metadata'', VStruct [(''Annotations'', VRef None), (''Labels'', VRef (Some 5))])],
      VMap [(''l'', ''v'')]]"

lemma bundle_heap_view: "\<exists>x as. view (TPtr (Bundle_type kube_lib)) bundle_heap (VRef (Some 0)) = Some (x, as) \<and> set as = {0, 1, 2, 3, 4, 5}"
proof -
  have "map_option snd (view (TPtr (Bundle_type kube_lib)) bundle_heap (VRef (Some 0))) = Some [0, 5, 1, 2, 3, 4, 5]"
    by code_simp
  then show ?thesis by auto
qed

lemma DeepCopy_independent_witness:
  "\<exists>q h' x as bs. Bundle_DeepCopy kube_lib (Some 0) bundle_heap = (q, h') \<and>
     view (TPtr (Bundle_type kube_lib)) h' (VRef (Some 0)) = Some (x, as) \<and>
     view (TPtr (Bundle_type kube_lib)) h' (VRef q) = Some (x, bs) \<and>
     (\<forall>m. view (TPtr (Bundle_type kube_lib)) (h'[5 := VMap m]) (VRef q) = Some (x, bs))"
proof -
  obtain x as where v: "view (TPtr (Bundle_type kube_lib)) bundle_heap (VRef (Some 0)) = Some (x, as)" "set as = {0, 1, 2, 3, 4, 5}"
    using bundle_heap_view by blast
  from DeepCopy_independent [OF kube.meta_library_axioms] have "independent_copy (Bundle_type kube_lib) (Bundle_DeepCopy kube_lib)" ..
  from this [unfolded independent_copy_def, rule_format, OF v(1)] v(2) show ?thesis by fastforce
qed

end
