(* ===== verification/Convergence.thy ===== *)
theory Convergence
  imports WebhookTheorems
begin

text \<open>
  The reconcile loop converges: in a cluster that shows what was written and that nobody else
  changes, one reconcile without an error is followed by reconciles that do nothing. The contract
  between the loop and the cluster is the locale \<open>steady_cluster\<close>; its laws are what server-side
  apply and a synchronised cache document, stated for the writes of one Bundle.
\<close>

lemma ApplyTarget_quiet:
  assumes "ApplyTarget lib r t bd d s = (Ok (False, None), s')"
  shows "s' = s"
  using assms
  by (auto simp: ApplyTarget_def applyConfigMap_def applySecret_def exit_early_def Let_def
      split: if_splits option.splits sum.splits res.splits prod.splits bool.splits)

text \<open>Templates that can be written faithfully: what the webhook checks, on maps as Go has them.\<close>

definition well_templated :: "Bundle \<Rightarrow> bool" where
  "well_templated bd \<longleftrightarrow> (\<forall>kind tm. target_template kind bd = Some tm \<longrightarrow>
     reserved_free tm \<and> distinct (expected_properties (tt_Key tm) (formats_of bd)))"

definition go_templates :: "Bundle \<Rightarrow> bool" where
  "go_templates bd \<longleftrightarrow> (\<forall>kind tm. target_template kind bd = Some tm \<longrightarrow>
     wf_map (tm_Labels (tt_Metadata tm)) \<and> wf_map (tm_Annotations (tt_Metadata tm)))"

lemma admitted_well_templated: "ValidateCreate val bd = [] \<Longrightarrow> go_templates bd \<Longrightarrow> well_templated bd"
  using admissible_template [of val bd]
  by (auto simp: well_templated_def go_templates_def reserved_free_def ValidateCreate_def validate_admissible)

section \<open>The contract of the cluster\<close>

locale steady_cluster =
  fixes b :: "('w, 'sel, 'ks) bundle_ctl" and bd :: Bundle and d :: BundleData
  assumes write_shown: "target_template (res_Kind t) bd = Some tm \<Longrightarrow>
      ApplyTarget (ctl_tstore b) (ctl_targetReconciler b) t bd d s = (Ok (True, None), s') \<Longrightarrow>
      sys_log s' = sys_log s @ [PatchRequest (res_Kind t) cfg] \<Longrightarrow>
      \<exists>obj. cache_of (ctl_targetReconciler b) s' t = Inr obj \<and>
        shows_patch (ctl_targetReconciler b) (res_Kind t) cfg (bd_Meta bd) obj"
    and write_apart: "ApplyTarget (ctl_tstore b) (ctl_targetReconciler b) t bd d s = (x, s') \<Longrightarrow> t' \<noteq> t \<Longrightarrow>
      cache_of (ctl_targetReconciler b) s' t' = cache_of (ctl_targetReconciler b) s t'"
    and status_apart: "rec_CacheGet (ctl_targetReconciler b) (snd (ctl_StatusPatch b w name patch)) =
      rec_CacheGet (ctl_targetReconciler b) w"
begin

definition settled :: "'w sys \<Rightarrow> Resource \<Rightarrow> bool" where
  "settled s t \<longleftrightarrow> (\<exists>tm obj. target_template (res_Kind t) bd = Some tm \<and> cache_of (ctl_targetReconciler b) s t = Inr obj \<and>
     up_to_date (ctl_targetReconciler b) (res_Kind t) obj bd d tm)"

lemma apply_settles:
  assumes "ApplyTarget (ctl_tstore b) (ctl_targetReconciler b) t bd d s = (Ok (w, None), s')"
    and "well_templated bd" and "target_template (res_Kind t) bd \<noteq> None"
  shows "settled s' t"
proof (cases w)
  case True
  from assms(3) obtain tm where tm: "target_template (res_Kind t) bd = Some tm" by blast
  from assms(1) True have run: "ApplyTarget (ctl_tstore b) (ctl_targetReconciler b) t bd d s = (Ok (True, None), s')" by simp
  from synced_patch [OF run tm] assms(2) tm
  obtain cfg w where s': "s' = (log_action (PatchRequest (res_Kind t) cfg) s)\<lparr>sys_world := w\<rparr>"
    and des: "desired_patch (ctl_tstore b) t bd d tm cfg"
    unfolding well_templated_def by metis
  then have "sys_log s' = sys_log s @ [PatchRequest (res_Kind t) cfg]" by (simp add: log_action_def)
  from write_shown [OF tm run this] shows_patch_up_to_date [OF des] tm show ?thesis unfolding settled_def by blast
next
  case False
  have "s' = s" using assms(1) False by (auto dest: ApplyTarget_quiet)
  with assms(1) False have "ApplyTarget (ctl_tstore b) (ctl_targetReconciler b) t bd d s = (Ok (False, None), s)" by simp
  then show ?thesis using ApplyTarget_idleD \<open>s' = s\<close> unfolding settled_def by blast
qed

lemma apply_keeps_settled:
  assumes "ApplyTarget (ctl_tstore b) (ctl_targetReconciler b) t bd d s = (x, s')" and "settled s t'" and "t' \<noteq> t"
  shows "settled s' t'"
  using assms write_apart [OF assms(1,3)] by (simp add: settled_def)

lemma run_keeps_settled: "apply_run b bd d ts s s' \<Longrightarrow> settled s t \<Longrightarrow> t \<notin> set ts \<Longrightarrow> settled s' t"
  by (induction rule: apply_run.induct) (auto dest: apply_keeps_settled)

lemma run_settles:
  "apply_run b bd d ts s s' \<Longrightarrow> distinct ts \<Longrightarrow> well_templated bd \<Longrightarrow>
     \<forall>t \<in> set ts. target_template (res_Kind t) bd \<noteq> None \<Longrightarrow> t \<in> set ts \<Longrightarrow> settled s' t"
proof (induction rule: apply_run.induct)
  case (apply_step t0 s w s1 ts s2)
  show ?case
  proof (cases "t = t0")
    case True
    have "settled s1 t0" by (rule apply_settles [OF apply_step.hyps(1)]) (use apply_step.prems in auto)
    with run_keeps_settled [OF apply_step.hyps(2)] True apply_step.prems(1) show ?thesis by simp
  next
    case False
    with apply_step show ?thesis by simp
  qed
qed simp

end

section \<open>A successful reconcile\<close>

fun status_requests :: "action list \<Rightarrow> BundleStatus list" where
  "status_requests [] = []"
| "status_requests (StatusPatchRequest name st # as) = st # status_requests as"
| "status_requests (_ # as) = status_requests as"

definition new_status :: "'w sys \<Rightarrow> 'w sys \<Rightarrow> BundleStatus list" where
  "new_status s s' = status_requests (drop (length (sys_log s)) (sys_log s'))"

text \<open>The status after a server-side apply: what the last request said, or as it was.\<close>

definition shows_status :: "BundleStatus \<Rightarrow> BundleStatus list \<Rightarrow> BundleStatus \<Rightarrow> bool" where
  "shows_status old requests st' \<longleftrightarrow> (if requests = [] then st' = old
     else st_DefaultCAPackageVersion st' = st_DefaultCAPackageVersion (last requests) \<and>
       list_all (bundleHasCondition (st_Conditions st')) (st_Conditions (last requests)))"

lemma status_requests_append [simp]: "status_requests (as @ bs) = status_requests as @ status_requests bs"
  by (induction as rule: status_requests.induct) simp_all

lemma status_requests_allowed: "list_all (action_allowed b bd kinds desired) as \<Longrightarrow> status_requests as = []"
  by (induction as rule: status_requests.induct) simp_all

lemma new_status_extends: "extends (action_allowed b bd kinds desired) s s' \<Longrightarrow> new_status s s' = []"
  using status_requests_allowed by (fastforce simp: extends_def new_status_def)

definition success_condition :: "('w, 'sel, 'ks) bundle_ctl \<Rightarrow> Bundle \<Rightarrow> 'sel \<Rightarrow> Condition" where
  "success_condition b bd sel =
     synced_condition ConditionTrue ''Synced'' (success_message (ctl_Options b) (ctl_labels b) sel) bd"

lemma sync_targets_success:
  assumes "sync_targets b bd d sel nss \<lparr>st_Conditions = [], st_DefaultCAPackageVersion = st_DefaultCAPackageVersion (bd_Status bd)\<rparr> s = (Ok (st, None), s')"
    and "\<And>xs. set (ctl_range b xs) = set xs"
  obtains s1 s2 where "apply_run b bd d (ctl_range b (desired_targets (ctl_Options b) bd nss [])) s1 s2"
    "sys_world s' = sys_world s2" "length (sys_log s) \<le> length (sys_log s')" "new_status s s' = []"
    "case st of
       None \<Rightarrow> st_DefaultCAPackageVersion (bd_Status bd) = bdl_DefaultCAPackageStringID d \<and>
         bundleHasCondition (st_Conditions (bd_Status bd)) (success_condition b bd sel)
     | Some p \<Rightarrow> st_DefaultCAPackageVersion p = bdl_DefaultCAPackageStringID d \<and>
         (\<exists>c. st_Conditions p = [c] \<and> same_condition c (success_condition b bd sel))"
proof -
  let ?D = "desired_targets (ctl_Options b) bd nss []" and ?K = "target_kinds (ctl_Options b)"
  let ?new = "success_condition b bd sel"
  obtain s1 s2 ch where c: "cleanup_kinds b bd ?D ?K s = (Ok (), s1)"
    and a: "apply_targets b bd d (ctl_range b ?D) False s1 = (Ok (Inr ch), s2)"
    using assms(1) by (auto simp: sync_targets_def report_synced_def Let_def split: prod.splits res.splits sum.splits)
  have "extends (action_allowed b bd ?K ?D) s s1" using cleanup_kinds_footprint [of ?K ?K b bd ?D s] c by simp
  moreover have "extends (action_allowed b bd ?K ?D) s1 s2"
    using apply_targets_footprint [of "ctl_range b ?D" ?D b bd ?K s1 d False] a assms(2) by simp
  ultimately have ext: "extends (action_allowed b bd ?K ?D) s s2" by (rule extends_trans)
  then have new: "new_status s s2 = []" and len: "length (sys_log s) \<le> length (sys_log s2)"
    by (auto simp: new_status_extends extends_def)
  have same: "same_condition (snd (setBundleCondition (ctl_clock b) (st_Conditions (bd_Status bd)) [] ?new)) ?new"
    using setBundleCondition_found by blast
  from assms(1) c a show ?thesis
    using that [OF apply_targets_run [OF a]] new len same
    by (auto simp: sync_targets_def report_synced_def Let_def setBundleStatusDefaultCAVersion_eq Eventf_def log_action_def new_status_def
        set_patch_eq success_condition_def split: if_splits)
qed

lemma shows_status_success:
  assumes "shows_status old requests st'"
    and "if requests = [] then st_DefaultCAPackageVersion old = v \<and> bundleHasCondition (st_Conditions old) c
         else st_DefaultCAPackageVersion (last requests) = v \<and> (\<exists>c'. st_Conditions (last requests) = [c'] \<and> same_condition c' c)"
  shows "st_DefaultCAPackageVersion st' = v" and "bundleHasCondition (st_Conditions st') c"
  using assms by (auto simp: shows_status_def bundleHasCondition_iff same_condition_iff split: if_splits)

text \<open>What a reconcile that found its sources and namespaces and returned no error has done.\<close>

lemma Reconcile_written:
  assumes "Reconcile_Bundle b req s = (Ok [], s')"
    and "ctl_Get b (sys_world s) req = Inr bd" and "build b (sys_world s) bd = Ok d"
    and "opt_SecretTargetsEnabled (ctl_Options b) \<or> bt_Secret (spec_Target (bd_Spec bd)) = None"
    and "bundleTargetNamespaceSelector (ctl_labels b) (spec_Target (bd_Spec bd)) = Inr sel"
    and "ctl_ListNamespaces b (sys_world s) sel = Inr nss"
    and range: "\<And>xs. set (ctl_range b xs) = set xs"
  obtains s1 s2 where "apply_run b bd d (ctl_range b (desired_targets (ctl_Options b) bd nss [])) s1 s2"
    "sys_world s' = sys_world s2 \<or> (\<exists>name patch. sys_world s' = snd (ctl_StatusPatch b (sys_world s2) name patch))"
    "if new_status s s' = []
     then st_DefaultCAPackageVersion (bd_Status bd) = bdl_DefaultCAPackageStringID d \<and>
       bundleHasCondition (st_Conditions (bd_Status bd)) (success_condition b bd sel)
     else st_DefaultCAPackageVersion (last (new_status s s')) = bdl_DefaultCAPackageStringID d \<and>
       (\<exists>c. st_Conditions (last (new_status s s')) = [c] \<and> same_condition c (success_condition b bd sel))"
proof -
  let ?st0 = "\<lparr>st_Conditions = [], st_DefaultCAPackageVersion = st_DefaultCAPackageVersion (bd_Status bd)\<rparr>"
  obtain y s3 where y: "sync_targets b bd d sel nss ?st0 s = (y, s3)" by force
  then have rec: "reconcileBundle b req s = (y, s3)"
    using assms(2-6) by (auto simp: reconcileBundle_def Let_def)
  with assms(1) obtain st where st: "y = Ok (st, None)"
    by (auto simp: Reconcile_Bundle_def Reconcile_result_def Let_def split: res.splits prod.splits option.splits sum.splits)
  obtain s1 s2 where run: "apply_run b bd d (ctl_range b (desired_targets (ctl_Options b) bd nss [])) s1 s2"
    and world: "sys_world s3 = sys_world s2" and len: "length (sys_log s) \<le> length (sys_log s3)"
    and new: "new_status s s3 = []"
    and out: "case st of
       None \<Rightarrow> st_DefaultCAPackageVersion (bd_Status bd) = bdl_DefaultCAPackageStringID d \<and>
         bundleHasCondition (st_Conditions (bd_Status bd)) (success_condition b bd sel)
     | Some p \<Rightarrow> st_DefaultCAPackageVersion p = bdl_DefaultCAPackageStringID d \<and>
         (\<exists>c. st_Conditions p = [c] \<and> same_condition c (success_condition b bd sel))"
    by (rule sync_targets_success [OF y [unfolded st] range])
  show ?thesis
  proof (cases st)
    case None
    with assms(1) rec st have "s' = s3" by (simp add: Reconcile_Bundle_def)
    with None world new out show ?thesis using that [OF run] by simp
  next
    case (Some p)
    with assms(1) rec st obtain patch where
      log: "sys_log s' = sys_log s3 @ [StatusPatchRequest (nn_Name req) p]" and
      w: "sys_world s' = snd (ctl_StatusPatch b (sys_world s3) (nn_Name req) patch)"
      by (auto simp: Reconcile_Bundle_def Reconcile_result_def Let_def log_action_def
          split: prod.splits option.splits sum.splits) (metis snd_conv)
    from log len new have "new_status s s' = [p]" by (simp add: new_status_def)
    with Some w world out show ?thesis using that [OF run] by auto
  qed
qed

lemma Reconcile_success:
  assumes "Reconcile_Bundle b req s = (Ok [], s')"
    and "ctl_Get b (sys_world s) req = Inr bd" and "build b (sys_world s) bd = Ok d"
    and "opt_SecretTargetsEnabled (ctl_Options b) \<or> bt_Secret (spec_Target (bd_Spec bd)) = None"
    and "bundleTargetNamespaceSelector (ctl_labels b) (spec_Target (bd_Spec bd)) = Inr sel"
    and "ctl_ListNamespaces b (sys_world s) sel = Inr nss"
    and "\<And>xs. set (ctl_range b xs) = set xs"
    and "shows_status (bd_Status bd) (new_status s s') st'"
  obtains s1 s2 where "apply_run b bd d (ctl_range b (desired_targets (ctl_Options b) bd nss [])) s1 s2"
    "sys_world s' = sys_world s2 \<or> (\<exists>name patch. sys_world s' = snd (ctl_StatusPatch b (sys_world s2) name patch))"
    "st_DefaultCAPackageVersion st' = bdl_DefaultCAPackageStringID d"
    "bundleHasCondition (st_Conditions st') (success_condition b bd sel)"
  using Reconcile_written [OF assms(1-7)] shows_status_success [OF assms(8)] by metis

text \<open>The targets and the clean-up do not depend on the Bundle's status.\<close>

lemma desired_targets_status: "desired_targets opts (bd\<lparr>bd_Status := st\<rparr>) nss acc = desired_targets opts bd nss acc"
  by (induction nss arbitrary: acc) simp_all

lemma is_obsolete_status: "is_obsolete r (bd\<lparr>bd_Status := st\<rparr>) D kind t = is_obsolete r bd D kind t"
  by (simp add: is_obsolete_def)

lemma target_template_status: "target_template kind (bd\<lparr>bd_Status := st\<rparr>) = target_template kind bd"
  by (simp add: target_template_def)

lemma success_condition_status: "success_condition b (bd\<lparr>bd_Status := st\<rparr>) sel = success_condition b bd sel"
  by (simp add: success_condition_def synced_condition_def)

lemma desired_have_template:
  "t \<in> set (desired_targets opts bd nss []) \<Longrightarrow> target_template (res_Kind t) bd \<noteq> None"
  unfolding set_desired by (auto simp: resource_for_def)

text \<open>
  C3: The reconcile loop converges. In a cluster that shows what was written and that nobody else
  changes, take a Bundle that the webhook admits and a reconcile that finds its sources and its
  namespaces and returns no error: whatever the targets and the status were before, the next
  reconcile, which sees the status that the first one left, makes no request, emits no event and
  returns no error, provided the sources and namespaces still read the same and no obsolete
  target is left.
\<close>

theorem Reconcile_converges:
  assumes "steady_cluster b bd d" and "ValidateCreate val bd = []" and "go_templates bd"
    and range: "\<And>xs. mset (ctl_range b xs) = mset xs"
    and "opt_SecretTargetsEnabled (ctl_Options b) \<or> bt_Secret (spec_Target (bd_Spec bd)) = None"
    and "bundleTargetNamespaceSelector (ctl_labels b) (spec_Target (bd_Spec bd)) = Inr sel"
    and "ctl_Get b (sys_world s) req = Inr bd" and "build b (sys_world s) bd = Ok d"
    and "ctl_ListNamespaces b (sys_world s) sel = Inr nss"
    and "Reconcile_Bundle b req s = (Ok [], s')"
    and "ctl_Get b (sys_world s') req = Inr (bd\<lparr>bd_Status := st'\<rparr>)"
    and "shows_status (bd_Status bd) (new_status s s') st'"
    and "build b (sys_world s') bd = Ok d" and "ctl_ListNamespaces b (sys_world s') sel = Inr nss"
    and listed: "\<And>kind. kind \<in> set (target_kinds (ctl_Options b)) \<Longrightarrow>
        (\<exists>ts. ctl_ListTargets b (sys_world s') kind [(BundleLabelKey, om_Name (bd_Meta bd))] = Inr ts \<and>
           list_all (\<lambda>t. \<not> is_obsolete (ctl_targetReconciler b) bd (desired_targets (ctl_Options b) bd nss []) kind t) ts)"
  shows "Reconcile_Bundle b req s' = (Ok [], s')"
proof -
  have set: "set (ctl_range b xs) = set xs" for xs using range [of xs] by (rule mset_eq_setD)
  let ?D = "desired_targets (ctl_Options b) bd nss []"
  obtain s1 s2 where run: "apply_run b bd d (ctl_range b ?D) s1 s2"
    and world: "sys_world s' = sys_world s2 \<or> (\<exists>name patch. sys_world s' = snd (ctl_StatusPatch b (sys_world s2) name patch))"
    and status: "st_DefaultCAPackageVersion st' = bdl_DefaultCAPackageStringID d"
      "bundleHasCondition (st_Conditions st') (success_condition b bd sel)"
    by (rule Reconcile_success [OF assms(10,7,8,5,6,9) set assms(12)])
  have cache: "cache_of (ctl_targetReconciler b) s' t = cache_of (ctl_targetReconciler b) s2 t" for t
    using world steady_cluster.status_apart [OF assms(1)] by (auto simp: cache_of_def)
  have "distinct (ctl_range b ?D)" using mset_eq_imp_distinct_iff [OF range [of ?D]] by (simp add: distinct_desired)
  then have settled: "steady_cluster.settled b bd d s2 t" if "t \<in> set ?D" for t
    using steady_cluster.run_settles [OF assms(1) run] admitted_well_templated [OF assms(2,3)] that set desired_have_template by metis
  show ?thesis
  proof (rule Reconcile_fixed_point [OF assms(11), where d = d and sel = sel and nss = nss])
    fix t assume "t \<in> set (desired_targets (ctl_Options b) (bd\<lparr>bd_Status := st'\<rparr>) nss [])"
    then have "steady_cluster.settled b bd d s2 t" using settled by (simp add: desired_targets_status)
    then show "\<exists>tm obj. target_template (res_Kind t) (bd\<lparr>bd_Status := st'\<rparr>) = Some tm \<and>
        cache_of (ctl_targetReconciler b) s' t = Inr obj \<and>
        up_to_date (ctl_targetReconciler b) (res_Kind t) obj (bd\<lparr>bd_Status := st'\<rparr>) d tm"
      by (simp add: steady_cluster.settled_def [OF assms(1)] cache up_to_date_status target_template_status)
  qed (use assms(5,6,13,14) set listed status in
      \<open>simp_all add: desired_targets_status is_obsolete_status flip: success_condition_def\<close>,
      simp add: success_condition_status)
qed

section \<open>A cluster that keeps what is written\<close>

text \<open>
  A small API server: the objects by kind and name, and the status of the one Bundle. An encoded
  target is its hash annotation, an encoded status its messages.
\<close>

record api_server =
  api_objects :: "Resource \<Rightarrow> ObjectMeta option"
  api_status :: BundleStatus

definition api_object :: "NamespacedName \<Rightarrow> string \<Rightarrow> ObjectMeta" where
  "api_object nn h = (example_object h)\<lparr>om_Namespace := nn_Namespace nn, om_Name := nn_Name nn\<rparr>"

definition api_put :: "Kind \<Rightarrow> NamespacedName \<Rightarrow> string \<Rightarrow> 'a api_server_scheme \<Rightarrow> 'a api_server_scheme" where
  "api_put kind nn h w = w\<lparr>api_objects := (api_objects w)(\<lparr>res_Kind = kind, res_NamespacedName = nn\<rparr> \<mapsto> api_object nn h)\<rparr>"

definition api_reconciler :: "'a api_server_scheme Reconciler" where
  "api_reconciler =
     \<lparr>rec_CacheGet = \<lambda>w kind nn.
        (case api_objects w \<lparr>res_Kind = kind, res_NamespacedName = nn\<rparr> of
           None \<Rightarrow> Inl (ApiNotFound ''not found'') | Some obj \<Rightarrow> Inr obj),
      rec_Marshal = \<lambda>cfg. Inr (get_or_empty (ac_Annotations cfg) BundleHashAnnotationKey),
      rec_PatchConfigMap = \<lambda>w nn enc. ((\<lparr>cm_Meta = api_object nn enc, cm_Data = [], cm_BinaryData = []\<rparr>, None), api_put KindConfigMap nn enc w),
      rec_PatchSecret = \<lambda>w nn enc. ((\<lparr>sec_Meta = api_object nn enc, sec_Type = [], sec_Data = []\<rparr>, None), api_put KindSecret nn enc w),
      rec_Delete = \<lambda>w kind nn. (None, w\<lparr>api_objects := (api_objects w)(\<lparr>res_Kind = kind, res_NamespacedName = nn\<rparr> := None)\<rparr>),
      rec_PatchResourceOverwrite = None,
      rec_IsControlledBy = rec_IsControlledBy example_reconciler,
      rec_Fieldset = rec_Fieldset example_reconciler\<rparr>"

definition api_status_of :: "string \<Rightarrow> BundleStatus" where
  "api_status_of message = \<lparr>st_Conditions = [synced_condition ConditionTrue ''Synced'' message example_bundle],
     st_DefaultCAPackageVersion = []\<rparr>"

definition api_ctl :: "('a api_server_scheme, LabelSelector option, unit) bundle_ctl" where
  "api_ctl =
     \<lparr>ctl_Get = \<lambda>w req. Inr (example_bundle\<lparr>bd_Status := api_status w\<rparr>),
      ctl_Reader = \<lambda>w. example_reader,
      ctl_ListNamespaces = \<lambda>w sel. Inr example_namespaces,
      ctl_ListTargets = \<lambda>w kind sel. Inr (case api_objects w example_target of
         None \<Rightarrow> [] | Some obj \<Rightarrow> if kind = KindConfigMap then [obj] else []),
      ctl_Marshal = \<lambda>cfg. Inr (case bsac_Status cfg of None \<Rightarrow> [] | Some st \<Rightarrow> concat (map cond_Message (st_Conditions st))),
      ctl_StatusPatch = \<lambda>w name patch. (None, w\<lparr>api_status := api_status_of patch\<rparr>),
      ctl_clock = 7, ctl_time = 50, ctl_parse = example_parse, ctl_labels = example_lib,
      ctl_tstore = example_tstore, ctl_range = rev,
      ctl_Options = bb_Options example_builder, ctl_bundleBuilder = example_builder,
      ctl_targetReconciler = api_reconciler\<rparr>"

lemma api_ctl_simps [simp]:
  "ctl_Get api_ctl w req = Inr (example_bundle\<lparr>bd_Status := api_status w\<rparr>)"
  "ctl_ListNamespaces api_ctl w sel = Inr example_namespaces"
  "ctl_StatusPatch api_ctl w name patch = (None, w\<lparr>api_status := api_status_of patch\<rparr>)"
  "ctl_clock api_ctl = 7" "ctl_range api_ctl = rev"
  "ctl_Options api_ctl = bb_Options example_builder"
  "ctl_labels api_ctl = example_lib"
  "ctl_tstore api_ctl = example_tstore"
  "ctl_targetReconciler api_ctl = api_reconciler"
  "ctl_ListTargets api_ctl w kind ls = Inr (case api_objects w example_target of
     None \<Rightarrow> [] | Some obj \<Rightarrow> if kind = KindConfigMap then [obj] else [])"
  by (simp_all add: api_ctl_def)

text \<open>A write is the patch of its own target, or nothing.\<close>

definition api_written :: "Resource \<Rightarrow> ApplyConfiguration \<Rightarrow> 'a api_server_scheme sys \<Rightarrow> 'a api_server_scheme sys" where
  "api_written t cfg s = (log_action (PatchRequest KindConfigMap cfg) s)\<lparr>sys_world :=
     api_put KindConfigMap (res_NamespacedName t) (get_or_empty (ac_Annotations cfg) BundleHashAnnotationKey) (sys_world s)\<rparr>"

abbreviation api_patch :: "Resource \<Rightarrow> ApplyConfiguration" where
  "api_patch t \<equiv> configMap_patch t example_bundle example_template example_hash
     (PEM (Some (bdl_CertPool example_data))) [(''ca.p12'', ''P12pw'')]"

lemma named_key: "\<lparr>nn_Namespace = nn_Namespace nn, nn_Name = nn_Name nn\<rparr> = (nn :: NamespacedName)"
  by simp

lemma api_patchConfigMap:
  assumes "named_config t cfg"
  shows "\<exists>obj. patchConfigMap api_reconciler (Some cfg) s = (Ok (Some obj, None), api_written t cfg s)"
  using assms by (simp add: patchConfigMap_def api_reconciler_def named_config_def log_patch_def log_action_def
      api_written_def named_key)

lemma api_apply:
  assumes "ApplyTarget example_tstore api_reconciler t example_bundle example_data s = (x, s')"
  shows "s' = s \<and> x \<noteq> Ok (True, None) \<or>
    res_Kind t = KindConfigMap \<and> x = Ok (True, None) \<and> s' = api_written t (api_patch t) s"
proof -
  obtain obj where "patchConfigMap api_reconciler (Some (api_patch t)) s = (Ok (Some obj, None), api_written t (api_patch t) s)"
    using api_patchConfigMap [OF named_configMap_patch] by blast
  moreover have "TrustBundleHash (PEM (Some (bdl_CertPool example_data))) (Some example_formats) (Some example_template) = example_hash"
    by (simp add: example_hash_def desired_hash_def example_spec)
  moreover have "bt_ConfigMap (spec_Target (bd_Spec example_bundle)) = Some example_template"
    by (simp add: example_bundle_def)
  ultimately show ?thesis using assms
    by (auto simp: ApplyTarget_def applyConfigMap_def applySecret_def example_spec Let_def
        example_binaryData exit_early_def get_failed_def split: if_splits option.splits sum.splits res.splits prod.splits bool.splits)
qed

lemma api_patch_hash: "get_or_empty (ac_Annotations (api_patch t)) BundleHashAnnotationKey = example_hash"
  by (simp add: with_metadata_def get_or_empty_def GetAnnotations_def example_template_def map_put_def)

lemma api_get: "rec_CacheGet api_reconciler w kind nn =
    (case api_objects w \<lparr>res_Kind = kind, res_NamespacedName = nn\<rparr> of
       None \<Rightarrow> Inl (ApiNotFound ''not found'') | Some obj \<Rightarrow> Inr obj)"
  by (simp add: api_reconciler_def)

lemma api_written_shown:
  "api_objects (sys_world (api_written t (api_patch t) s)) =
     (api_objects (sys_world s))(\<lparr>res_Kind = KindConfigMap, res_NamespacedName = res_NamespacedName t\<rparr> \<mapsto>
        api_object (res_NamespacedName t) example_hash)"
  unfolding api_written_def api_patch_hash by (simp add: api_put_def)

lemma api_object_fields [simp]:
  "om_Labels (api_object nn h) = om_Labels (example_object h)"
  "om_Annotations (api_object nn h) = om_Annotations (example_object h)"
  "om_OwnerReferences (api_object nn h) = om_OwnerReferences (example_object h)"
  "om_ManagedFields (api_object nn h) = om_ManagedFields (example_object h)"
  "om_DeletionTimestamp (api_object nn h) = None"
  by (simp_all add: api_object_def example_object_def)

lemma api_fieldset: "rec_Fieldset api_reconciler = rec_Fieldset example_reconciler"
  by (simp add: api_reconciler_def)

lemma api_controlled: "rec_IsControlledBy api_reconciler (api_object nn h) o' = rec_IsControlledBy example_reconciler (example_object h) o'"
  by (simp add: api_reconciler_def example_reconciler_def)

lemma api_managed: "listManagedProperties api_reconciler ms m fs = listManagedProperties example_reconciler ms m fs"
  by (induction ms) (simp_all add: api_fieldset split: option.split sum.split)

lemma api_shows_patch: "shows_patch api_reconciler KindConfigMap (api_patch t) (bd_Meta example_bundle) (api_object nn example_hash)"
proof -
  have "ac_Labels (api_patch t) = ac_Labels example_patch" "ac_Annotations (api_patch t) = ac_Annotations example_patch"
    "ac_OwnerReferences (api_patch t) = ac_OwnerReferences example_patch"
    "all_data (api_patch t) = all_data example_patch"
    by (simp_all add: example_patch_def with_metadata_def all_data_def configMap_data configMap_patch_def
        target_patch_def prepareTargetPatch_def new_ApplyConfiguration_def)
  then show ?thesis
    using example_shows_patch
    by (simp only: shows_patch_def api_object_fields api_controlled api_managed) (simp add: example_target_def)
qed

interpretation api: steady_cluster api_ctl example_bundle example_data
proof
  fix t tm cfg and s s' :: "'a api_server_scheme sys"
  assume "ApplyTarget (ctl_tstore api_ctl) (ctl_targetReconciler api_ctl) t example_bundle example_data s = (Ok (True, None), s')"
    and log: "sys_log s' = sys_log s @ [PatchRequest (res_Kind t) cfg]"
  with api_apply [of t s "Ok (True, None)" s'] have t: "res_Kind t = KindConfigMap" "s' = api_written t (api_patch t) s" by simp_all
  with log have "cfg = api_patch t" by (simp add: api_written_def log_action_def)
  moreover have "t = \<lparr>res_Kind = KindConfigMap, res_NamespacedName = res_NamespacedName t\<rparr>" using t(1) by (cases t) simp
  ultimately show "\<exists>obj. cache_of (ctl_targetReconciler api_ctl) s' t = Inr obj \<and>
      shows_patch (ctl_targetReconciler api_ctl) (res_Kind t) cfg (bd_Meta example_bundle) obj"
    using api_shows_patch [of t "res_NamespacedName t"] t
    by (simp add: cache_of_def api_get api_written_shown)
next
  fix t t' x and s s' :: "'a api_server_scheme sys"
  assume "ApplyTarget (ctl_tstore api_ctl) (ctl_targetReconciler api_ctl) t example_bundle example_data s = (x, s')" and "t' \<noteq> t"
  with api_apply [of t s x s'] show "cache_of (ctl_targetReconciler api_ctl) s' t' = cache_of (ctl_targetReconciler api_ctl) s t'"
    by (cases t; cases t') (auto simp: cache_of_def api_get api_written_shown)
next
  fix w name patch
  show "rec_CacheGet (ctl_targetReconciler api_ctl) (snd (ctl_StatusPatch api_ctl w name patch)) = rec_CacheGet (ctl_targetReconciler api_ctl) w"
    by (intro ext) (simp add: api_get)
qed

definition api_empty :: "api_server sys" where
  "api_empty = \<lparr>sys_world = \<lparr>api_objects = \<lambda>_. None, api_status = bd_Status example_bundle\<rparr>, sys_log = []\<rparr>"

abbreviation api_message :: string where
  "api_message \<equiv> success_message (bb_Options example_builder) example_lib (lib_Everything example_lib)"

text \<open>After the first write, and after the status patch that follows it.\<close>

definition api_first :: "'a api_server_scheme sys \<Rightarrow> 'a api_server_scheme sys" where
  "api_first s = api_written example_target (api_patch example_target) s"

definition api_request :: BundleStatus where
  "api_request = \<lparr>st_Conditions = [(synced_condition ConditionTrue ''Synced'' api_message example_bundle)\<lparr>cond_LastTransitionTime := 7\<rparr>],
     st_DefaultCAPackageVersion = []\<rparr>"

definition api_synced :: "'a api_server_scheme sys \<Rightarrow> 'a api_server_scheme sys" where
  "api_synced s = \<lparr>sys_world = (sys_world (api_first s))\<lparr>api_status := api_status_of api_message\<rparr>,
     sys_log = sys_log (api_first s) @ [Event EventNormal ''Synced'' ''Synced'' api_message [], StatusPatchRequest ''b'' api_request]\<rparr>"

lemma example_bundle_same: "example_bundle\<lparr>bd_Status := bd_Status example_bundle\<rparr> = example_bundle"
  by simp

lemma example_status_empty: "bd_Status example_bundle = \<lparr>st_Conditions = [], st_DefaultCAPackageVersion = []\<rparr>"
  by (simp add: example_bundle_def)

lemma api_build: "build api_ctl w example_bundle = Ok example_data"
  using example_ctl_build [of empty_status None "bd_Status example_bundle"]
  by (simp add: example_ctl_def api_ctl_def)

lemma api_first_apply:
  assumes "api_objects (sys_world s) example_target = None"
  shows "ApplyTarget example_tstore api_reconciler example_target example_bundle example_data s = (Ok (True, None), api_first s)"
proof -
  obtain obj where "patchConfigMap api_reconciler (Some (api_patch example_target)) s = (Ok (Some obj, None), api_first s)"
    using api_patchConfigMap [OF named_configMap_patch] unfolding api_first_def by blast
  moreover have "TrustBundleHash (PEM (Some (bdl_CertPool example_data))) (Some example_formats) (Some example_template) = example_hash"
    by (simp add: example_hash_def desired_hash_def example_spec)
  moreover have "bt_ConfigMap (spec_Target (bd_Spec example_bundle)) = Some example_template"
    by (simp add: example_bundle_def)
  moreover have "res_Kind example_target = KindConfigMap" by (simp add: example_target_def)
  moreover have "api_objects (sys_world s) \<lparr>res_Kind = KindConfigMap, res_NamespacedName = res_NamespacedName example_target\<rparr> = None"
    using assms by (simp add: example_target_def)
  ultimately show ?thesis
    by (simp add: ApplyTarget_def applyConfigMap_def example_spec Let_def example_binaryData exit_early_def get_failed_def
        apierrors_IsNotFound_def api_get)
qed

lemma api_desired: "desired_targets (bb_Options example_builder) example_bundle example_namespaces [] = [example_target]"
  using example_desired [of "bd_Status example_bundle"] by simp

text \<open>The first reconcile of any controller that works on this server.\<close>

lemma api_first_reconcile:
  assumes get: "ctl_Get c (sys_world s) example_req = Inr example_bundle"
    and data: "build c (sys_world s) example_bundle = Ok example_data"
    and namespaces: "ctl_ListNamespaces c (sys_world s) (lib_Everything example_lib) = Inr example_namespaces"
    and targets: "ctl_ListTargets c (sys_world s) KindConfigMap [(BundleLabelKey, om_Name (bd_Meta example_bundle))] = Inr []"
    and none: "api_objects (sys_world s) example_target = None"
    and like: "ctl_tstore c = example_tstore" "ctl_targetReconciler c = api_reconciler" "ctl_Options c = bb_Options example_builder"
      "ctl_labels c = example_lib" "ctl_clock c = 7" "ctl_range c = rev" "ctl_Marshal c = ctl_Marshal (api_ctl :: (api_server, _, _) bundle_ctl)"
      "\<And>w name patch. ctl_StatusPatch c w name patch = (None, w\<lparr>api_status := api_status_of patch\<rparr>)"
  shows "Reconcile_Bundle c example_req s = (Ok [], api_synced s)"
proof -
  have cleanup: "cleanup_kinds c example_bundle [example_target] (target_kinds (bb_Options example_builder)) s = (Ok (), s)"
    using targets by (simp add: target_kinds_def example_options like)
  have no_version: "bdl_DefaultCAPackageStringID example_data = []" by (simp add: example_data_def)
  have "sync_targets c example_bundle example_data (lib_Everything example_lib) example_namespaces
      \<lparr>st_Conditions = [], st_DefaultCAPackageVersion = st_DefaultCAPackageVersion (bd_Status example_bundle)\<rparr> s =
     (Ok (Some api_request, None), Eventf EventNormal ''Synced'' ''Synced'' api_message [] (api_first s))"
    by (simp add: sync_targets_def report_synced_def api_desired cleanup api_first_apply [OF none] no_version like Let_def setBundleStatusDefaultCAVersion_eq
        set_patch_condition_def setBundleCondition_def example_status_empty synced_condition_def api_request_def)
  then have "reconcileBundle c example_req s =
     (Ok (Some api_request, None), Eventf EventNormal ''Synced'' ''Synced'' api_message [] (api_first s))"
    using data by (simp add: reconcileBundle_def get namespaces like Let_def example_spec example_options example_selected)
  moreover have "GenerateBundleStatusPatch (ctl_Marshal c) ''b'' (Some api_request) = Inr api_message"
    by (simp add: like GenerateBundleStatusPatch_def api_ctl_def api_request_def synced_condition_def)
  ultimately show ?thesis
    by (simp add: Reconcile_Bundle_def Reconcile_result_def Let_def Eventf_def log_action_def api_synced_def like)
qed

lemma Reconcile_converges_witness: "Reconcile_Bundle api_ctl example_req (api_synced api_empty) = (Ok [], api_synced api_empty)"
proof (rule Reconcile_converges [OF api.steady_cluster_axioms, where val = accept_all and nss = example_namespaces
      and sel = "lib_Everything example_lib" and st' = "api_status_of api_message" and s = api_empty])
  show "ValidateCreate accept_all example_bundle = []"
    using example_bundle_admitted [of "bd_Status example_bundle"] by (simp add: ValidateCreate_def)
  show "go_templates example_bundle"
    by (simp add: go_templates_def target_template_def example_bundle_def example_template_def wf_map_def)
  show "Reconcile_Bundle api_ctl example_req api_empty = (Ok [], api_synced api_empty)"
    using api_build by (intro api_first_reconcile) (simp_all add: api_empty_def)
  show "shows_status (bd_Status example_bundle) (new_status api_empty (api_synced api_empty)) (api_status_of api_message)"
    by (simp add: shows_status_def new_status_def api_empty_def api_synced_def api_first_def api_written_def log_action_def
        api_request_def api_status_of_def synced_condition_def)
next
  fix kind assume "kind \<in> set (target_kinds (ctl_Options api_ctl))"
  then have k: "kind = KindConfigMap" by (simp add: target_kinds_def example_options)
  have t: "res_NamespacedName example_target = \<lparr>nn_Namespace = ''ns'', nn_Name = ''b''\<rparr>" "res_Kind example_target = KindConfigMap"
    by (simp_all add: example_target_def)
  then have "target_key KindConfigMap (api_object (res_NamespacedName example_target) example_hash) = example_target"
    by (simp add: target_key_def api_object_def example_target_def)
  moreover have "api_objects (sys_world (api_synced api_empty)) example_target = Some (api_object (res_NamespacedName example_target) example_hash)"
    using api_written_shown [of example_target api_empty] t
    by (simp add: api_synced_def api_first_def example_target_def)
  ultimately show "\<exists>ts. ctl_ListTargets api_ctl (sys_world (api_synced api_empty)) kind [(BundleLabelKey, om_Name (bd_Meta example_bundle))] = Inr ts \<and>
      list_all (\<lambda>t. \<not> is_obsolete (ctl_targetReconciler api_ctl) example_bundle
        (desired_targets (ctl_Options api_ctl) example_bundle example_namespaces []) kind t) ts"
    by (simp add: k api_desired is_obsolete_def)
qed (use api_build in \<open>simp_all add: example_spec example_selected api_empty_def api_synced_def\<close>)

end
