(* ===== verification/ApplyJson.thy ===== *)
theory ApplyJson
  imports ApplyConfigV2
begin

text \<open>
  What \<open>encoding/json\<close> makes of the API types and of their apply configurations: the tags of the
  structs of \<open>types_bundle.go\<close>, \<open>types_cluster_bundle.go\<close> and \<open>pkg/applyconfigurations\<close>. A field with
  \<open>omitempty\<close> is left out when it is empty, one with \<open>omitzero\<close> when all of its struct is; the fields
  of an inlined struct stand where it is embedded; a map is written with sorted keys. The types
  of the Kubernetes libraries have their encoders in a record of parameters.
\<close>

record json_lib =
  jl_LabelSelector :: "LabelSelector \<Rightarrow> json"
  jl_Condition :: "ConditionAC \<Rightarrow> json"
  jl_ObjectMeta :: "ObjectMetaAC \<Rightarrow> json"

fun present :: "(string \<times> json option) list \<Rightarrow> (string \<times> json) list" where
  "present [] = []"
| "present ((n, None) # fs) = present fs"
| "present ((n, Some v) # fs) = (n, v) # present fs"

definition omit_string :: "string \<Rightarrow> json option" where
  "omit_string s = (if s = [] then None else Some (JStr s))"

definition omit_list :: "('a \<Rightarrow> json) \<Rightarrow> 'a list \<Rightarrow> json option" where
  "omit_list f xs = (if xs = [] then None else Some (JList (map f xs)))"

definition json_map :: "string gomap \<Rightarrow> json" where
  "json_map m = JMap (map (\<lambda>(k, v). (k, JStr v)) (sort_key fst m))"

definition omit_map :: "string gomap \<Rightarrow> json option" where
  "omit_map m = (if m = [] then None else Some (json_map m))"

definition omit_zero :: "'a \<Rightarrow> ('a \<Rightarrow> json) \<Rightarrow> 'a \<Rightarrow> json option" where
  "omit_zero zero f x = (if x = zero then None else Some (f x))"

section \<open>The types of v1alpha1\<close>

definition json_SourceObjectKeySelector :: "json_lib \<Rightarrow> SourceObjectKeySelector \<Rightarrow> json" where
  "json_SourceObjectKeySelector jl s = JMap (present
     [(''name'', omit_string (sok_Name s)), (''selector'', map_option (jl_LabelSelector jl) (sok_Selector s)),
      (''key'', omit_string (sok_Key s)), (''includeAllKeys'', map_option JBool (sok_IncludeAllKeys s))])"

definition json_BundleSource :: "json_lib \<Rightarrow> BundleSource \<Rightarrow> json" where
  "json_BundleSource jl s = JMap (present
     [(''configMap'', map_option (json_SourceObjectKeySelector jl) (bs_ConfigMap s)),
      (''secret'', map_option (json_SourceObjectKeySelector jl) (bs_Secret s)),
      (''inLine'', omit_string (bs_InLine s)), (''useDefaultCAs'', map_option JBool (bs_UseDefaultCAs s))])"

definition json_TargetMetadata :: "TargetMetadata \<Rightarrow> json" where
  "json_TargetMetadata m = JMap (present
     [(''annotations'', omit_map (tm_Annotations m)), (''labels'', omit_map (tm_Labels m))])"

abbreviation zero_TargetMetadata :: TargetMetadata where
  "zero_TargetMetadata \<equiv> \<lparr>tm_Annotations = [], tm_Labels = []\<rparr>"

definition json_TargetTemplate :: "TargetTemplate \<Rightarrow> json" where
  "json_TargetTemplate t = JMap (present
     [(''key'', omit_string (tt_Key t)), (''metadata'', omit_zero zero_TargetMetadata json_TargetMetadata (tt_Metadata t))])"

definition json_JKS :: "JKS \<Rightarrow> json" where
  "json_JKS j = JMap (present [(''key'', omit_string (jks_Key j)), (''password'', omit_string (jks_Password j))])"

definition json_PKCS12 :: "PKCS12 \<Rightarrow> json" where
  "json_PKCS12 p = JMap (present
     [(''key'', omit_string (p12_Key p)), (''password'', map_option JStr (p12_Password p)), (''profile'', omit_string (p12_Profile p))])"

definition json_AdditionalFormats :: "AdditionalFormats \<Rightarrow> json" where
  "json_AdditionalFormats f = JMap (present
     [(''jks'', map_option json_JKS (af_JKS f)), (''pkcs12'', map_option json_PKCS12 (af_PKCS12 f))])"

definition json_BundleTarget :: "json_lib \<Rightarrow> BundleTarget \<Rightarrow> json" where
  "json_BundleTarget jl t = JMap (present
     [(''configMap'', map_option json_TargetTemplate (bt_ConfigMap t)), (''secret'', map_option json_TargetTemplate (bt_Secret t)),
      (''additionalFormats'', map_option json_AdditionalFormats (bt_AdditionalFormats t)),
      (''namespaceSelector'', map_option (jl_LabelSelector jl) (bt_NamespaceSelector t))])"

abbreviation zero_BundleTarget :: BundleTarget where
  "zero_BundleTarget \<equiv> \<lparr>bt_ConfigMap = None, bt_Secret = None, bt_AdditionalFormats = None, bt_NamespaceSelector = None\<rparr>"

definition json_BundleSpec :: "json_lib \<Rightarrow> BundleSpec \<Rightarrow> json" where
  "json_BundleSpec jl sp = JMap (present
     [(''sources'', omit_list (json_BundleSource jl) (spec_Sources sp)),
      (''target'', omit_zero zero_BundleTarget (json_BundleTarget jl) (spec_Target sp))])"

section \<open>The configurations of v1alpha1\<close>

definition json_SourceObjectKeySelectorAC :: "json_lib \<Rightarrow> SourceObjectKeySelectorAC \<Rightarrow> json" where
  "json_SourceObjectKeySelectorAC jl s = JMap (present
     [(''name'', map_option JStr (sokac_Name s)), (''selector'', map_option (jl_LabelSelector jl) (sokac_Selector s)),
      (''key'', map_option JStr (sokac_Key s)), (''includeAllKeys'', map_option JBool (sokac_IncludeAllKeys s))])"

definition json_BundleSourceAC :: "json_lib \<Rightarrow> BundleSourceAC \<Rightarrow> json" where
  "json_BundleSourceAC jl s = JMap (present
     [(''configMap'', map_option (json_SourceObjectKeySelectorAC jl) (bsac_ConfigMap s)),
      (''secret'', map_option (json_SourceObjectKeySelectorAC jl) (bsac_Secret s)),
      (''inLine'', map_option JStr (bsac_InLine s)), (''useDefaultCAs'', map_option JBool (bsac_UseDefaultCAs s))])"

definition json_TargetMetadataAC :: "TargetMetadataAC \<Rightarrow> json" where
  "json_TargetMetadataAC m = JMap (present
     [(''annotations'', omit_map (entries (tmac_Annotations m))), (''labels'', omit_map (entries (tmac_Labels m)))])"

definition json_TargetTemplateAC :: "TargetTemplateAC \<Rightarrow> json" where
  "json_TargetTemplateAC t = JMap (present
     [(''key'', map_option JStr (ttac_Key t)), (''metadata'', map_option json_TargetMetadataAC (ttac_Metadata t))])"

definition json_JKSAC :: "JKSAC \<Rightarrow> json" where
  "json_JKSAC j = JMap (present [(''key'', map_option JStr (ksac_Key j)), (''password'', map_option JStr (jksac_Password j))])"

definition json_PKCS12AC :: "PKCS12AC \<Rightarrow> json" where
  "json_PKCS12AC p = JMap (present
     [(''key'', map_option JStr (ksac_Key p)), (''password'', map_option JStr (p12ac_Password p)),
      (''profile'', map_option JStr (p12ac_Profile p))])"

definition json_AdditionalFormatsAC :: "AdditionalFormatsAC \<Rightarrow> json" where
  "json_AdditionalFormatsAC f = JMap (present
     [(''jks'', map_option json_JKSAC (afac_JKS f)), (''pkcs12'', map_option json_PKCS12AC (afac_PKCS12 f))])"

definition json_BundleTargetAC :: "json_lib \<Rightarrow> BundleTargetAC \<Rightarrow> json" where
  "json_BundleTargetAC jl t = JMap (present
     [(''configMap'', map_option json_TargetTemplateAC (btac_ConfigMap t)), (''secret'', map_option json_TargetTemplateAC (btac_Secret t)),
      (''additionalFormats'', map_option json_AdditionalFormatsAC (btac_AdditionalFormats t)),
      (''namespaceSelector'', map_option (jl_LabelSelector jl) (btac_NamespaceSelector t))])"

definition json_BundleSpecAC :: "json_lib \<Rightarrow> BundleSpecAC \<Rightarrow> json" where
  "json_BundleSpecAC jl sp = JMap (present
     [(''sources'', omit_list (json_BundleSourceAC jl) (specac_Sources sp)),
      (''target'', map_option (json_BundleTargetAC jl) (specac_Target sp))])"

definition json_BundleStatusAC :: "json_lib \<Rightarrow> BundleStatusAC \<Rightarrow> json" where
  "json_BundleStatusAC jl st = JMap (present
     [(''conditions'', omit_list (jl_Condition jl) (stac_Conditions st)),
      (''defaultCAVersion'', map_option JStr (stac_DefaultCAPackageVersion st))])"

definition json_BundleAC :: "json_lib \<Rightarrow> BundleAC \<Rightarrow> json" where
  "json_BundleAC jl b = JMap (present
     [(''kind'', map_option JStr (bac_Kind b)), (''apiVersion'', map_option JStr (bac_APIVersion b)),
      (''metadata'', map_option (jl_ObjectMeta jl) (bac_ObjectMeta b)),
      (''spec'', map_option (json_BundleSpecAC jl) (bac_Spec b)), (''status'', map_option (json_BundleStatusAC jl) (bac_Status b))])"

section \<open>The types of v1alpha2\<close>

definition json_BundleSourceRef :: "json_lib \<Rightarrow> BundleSourceRef \<Rightarrow> json" where
  "json_BundleSourceRef jl s = JMap (present
     [(''kind'', omit_string (sr_Kind s)), (''name'', omit_string (sr_Name s)),
      (''selector'', map_option (jl_LabelSelector jl) (sr_Selector s)), (''key'', omit_string (bsr_Key s))])"

definition json_DefaultCAsSource :: "DefaultCAsSource \<Rightarrow> json" where
  "json_DefaultCAsSource d = JMap (present [(''provider'', omit_string (dca_Provider d))])"

definition json_TargetKeyValue :: "TargetKeyValue \<Rightarrow> json" where
  "json_TargetKeyValue kv = JMap (present
     [(''key'', omit_string (tkv_Key kv)), (''format'', omit_string (tkv_Format kv)),
      (''password'', map_option JStr (p2_Password (tkv_PKCS12 kv))), (''profile'', omit_string (p2_Profile (tkv_PKCS12 kv)))])"

definition json_KeyValueTarget :: "KeyValueTarget \<Rightarrow> json" where
  "json_KeyValueTarget t = JMap (present
     [(''data'', omit_list json_TargetKeyValue (kvt_Data t)),
      (''metadata'', omit_zero zero_TargetMetadata json_TargetMetadata (kvt_Metadata t))])"

definition json_BundleTarget_v2 :: "json_lib \<Rightarrow> BundleTarget_v2 \<Rightarrow> json" where
  "json_BundleTarget_v2 jl t = JMap (present
     [(''configMap'', map_option json_KeyValueTarget (bt2_ConfigMap t)), (''secret'', map_option json_KeyValueTarget (bt2_Secret t)),
      (''namespaceSelector'', map_option (jl_LabelSelector jl) (bt2_NamespaceSelector t))])"

abbreviation zero_BundleTarget_v2 :: BundleTarget_v2 where
  "zero_BundleTarget_v2 \<equiv> \<lparr>bt2_ConfigMap = None, bt2_Secret = None, bt2_NamespaceSelector = None\<rparr>"

definition json_BundleSpec_v2 :: "json_lib \<Rightarrow> BundleSpec_v2 \<Rightarrow> json" where
  "json_BundleSpec_v2 jl sp = JMap (present
     [(''sourceRefs'', omit_list (json_BundleSourceRef jl) (spec2_SourceRefs sp)),
      (''defaultCAs'', omit_zero \<lparr>dca_Provider = []\<rparr> json_DefaultCAsSource (spec2_DefaultCAs sp)),
      (''inLineCAs'', omit_string (spec2_InLineCAs sp)),
      (''target'', omit_zero zero_BundleTarget_v2 (json_BundleTarget_v2 jl) (spec2_Target sp))])"

section \<open>The configurations of v1alpha2\<close>

definition json_BundleSourceRefAC :: "json_lib \<Rightarrow> BundleSourceRefAC \<Rightarrow> json" where
  "json_BundleSourceRefAC jl s = JMap (present
     [(''kind'', map_option JStr (srac_Kind s)), (''name'', map_option JStr (srac_Name s)),
      (''selector'', map_option (jl_LabelSelector jl) (srac_Selector s)), (''key'', map_option JStr (bsrac_Key s))])"

definition json_DefaultCAsSourceAC :: "DefaultCAsSourceAC \<Rightarrow> json" where
  "json_DefaultCAsSourceAC d = JMap (present [(''provider'', map_option JStr (dcaac_Provider d))])"

definition json_TargetMetadataAC_v2 :: "TargetMetadataAC_v2 \<Rightarrow> json" where
  "json_TargetMetadataAC_v2 m = JMap (present
     [(''annotations'', omit_map (entries (tmac2_Annotations m))), (''labels'', omit_map (entries (tmac2_Labels m)))])"

definition json_TargetKeyValueAC :: "TargetKeyValueAC \<Rightarrow> json" where
  "json_TargetKeyValueAC kv = JMap (present
     [(''key'', map_option JStr (tkvac_Key kv)), (''format'', map_option JStr (tkvac_Format kv)),
      (''password'', map_option JStr (p12ac2_Password (tkvac_PKCS12 kv))),
      (''profile'', map_option JStr (p12ac2_Profile (tkvac_PKCS12 kv)))])"

definition json_KeyValueTargetAC :: "KeyValueTargetAC \<Rightarrow> json" where
  "json_KeyValueTargetAC t = JMap (present
     [(''data'', omit_list json_TargetKeyValueAC (kvtac_Data t)),
      (''metadata'', map_option json_TargetMetadataAC_v2 (kvtac_Metadata t))])"

definition json_BundleTargetAC_v2 :: "json_lib \<Rightarrow> BundleTargetAC_v2 \<Rightarrow> json" where
  "json_BundleTargetAC_v2 jl t = JMap (present
     [(''configMap'', map_option json_KeyValueTargetAC (btac2_ConfigMap t)), (''secret'', map_option json_KeyValueTargetAC (btac2_Secret t)),
      (''namespaceSelector'', map_option (jl_LabelSelector jl) (btac2_NamespaceSelector t))])"

definition json_BundleSpecAC_v2 :: "json_lib \<Rightarrow> BundleSpecAC_v2 \<Rightarrow> json" where
  "json_BundleSpecAC_v2 jl sp = JMap (present
     [(''sourceRefs'', omit_list (json_BundleSourceRefAC jl) (specac2_SourceRefs sp)),
      (''defaultCAs'', map_option json_DefaultCAsSourceAC (specac2_DefaultCAs sp)),
      (''inLineCAs'', map_option JStr (specac2_InLineCAs sp)),
      (''target'', map_option (json_BundleTargetAC_v2 jl) (specac2_Target sp))])"

section \<open>Configurations by kind\<close>

text \<open>\<open>pkg/applyconfigurations/utils.go\<close>: an empty configuration of the type of a kind, or nil.\<close>

record GroupVersionKind =
  gvk_Group :: string
  gvk_Version :: string
  gvk_Kind :: string

datatype any_AC =
    AnyAdditionalFormats AdditionalFormatsAC
  | AnyBundle BundleAC
  | AnyBundleSource BundleSourceAC
  | AnyBundleSpec BundleSpecAC
  | AnyBundleStatus BundleStatusAC
  | AnyBundleTarget BundleTargetAC
  | AnyJKS JKSAC
  | AnyKeySelector KeySelectorAC
  | AnyPKCS12 PKCS12AC
  | AnySourceObjectKeySelector SourceObjectKeySelectorAC
  | AnyTargetMetadata TargetMetadataAC
  | AnyTargetTemplate TargetTemplateAC

definition v1alpha1_kind :: "string \<Rightarrow> GroupVersionKind" where
  \<comment> \<open>\<open>v1alpha1.SchemeGroupVersion.WithKind\<close>\<close>
  "v1alpha1_kind k = \<lparr>gvk_Group = ''trust.cert-manager.io'', gvk_Version = ''v1alpha1'', gvk_Kind = k\<rparr>"

definition ForKind :: "GroupVersionKind \<Rightarrow> any_AC option" where
  "ForKind kind =
     (if kind = v1alpha1_kind ''AdditionalFormats'' then Some (AnyAdditionalFormats AdditionalFormats_AC)
      else if kind = v1alpha1_kind ''Bundle'' then Some (AnyBundle empty_BundleAC)
      else if kind = v1alpha1_kind ''BundleSource'' then Some (AnyBundleSource BundleSource_AC)
      else if kind = v1alpha1_kind ''BundleSpec'' then Some (AnyBundleSpec BundleSpec_AC)
      else if kind = v1alpha1_kind ''BundleStatus'' then Some (AnyBundleStatus BundleStatus_AC)
      else if kind = v1alpha1_kind ''BundleTarget'' then Some (AnyBundleTarget BundleTarget_AC)
      else if kind = v1alpha1_kind ''JKS'' then Some (AnyJKS JKS_AC)
      else if kind = v1alpha1_kind ''KeySelector'' then Some (AnyKeySelector KeySelector_AC)
      else if kind = v1alpha1_kind ''PKCS12'' then Some (AnyPKCS12 PKCS12_AC)
      else if kind = v1alpha1_kind ''SourceObjectKeySelector'' then Some (AnySourceObjectKeySelector SourceObjectKeySelector_AC)
      else if kind = v1alpha1_kind ''TargetMetadata'' then Some (AnyTargetMetadata TargetMetadata_AC)
      else if kind = v1alpha1_kind ''TargetTemplate'' then Some (AnyTargetTemplate TargetTemplate_AC)
      else None)"

definition NewTypeConverter :: "('p, 'pt) typed_lib \<Rightarrow> ('scheme \<Rightarrow> 'p option \<Rightarrow> 'conv) \<Rightarrow> 'scheme \<Rightarrow> 'p once \<Rightarrow> 'conv res \<times> 'p once" where
  "NewTypeConverter lib NewSchemeTypeConverter scheme parserOnce =
     (case Parser lib parserOnce of
        (parser, parserOnce') \<Rightarrow> (bind_res parser (\<lambda>p. Ok (NewSchemeTypeConverter scheme p)), parserOnce'))"

end
