(* ===== verification/ApplyTheorems.thy ===== *)
theory ApplyTheorems
  imports ApplyJson
begin

text \<open>
  What the apply configurations are for: a specification built by \<open>With\<close> calls is sent as the same
  JSON as the specification itself, and what a Bundle's configuration sends conforms to the schema.
  The schema and the table of kinds leave the ClusterBundle out, which has consequences.
\<close>

section \<open>Building a specification by calls\<close>

definition with_if :: "bool \<Rightarrow> ('a \<Rightarrow> 'a) \<Rightarrow> 'a \<Rightarrow> 'a" where
  "with_if c f b = (if c then f b else b)"

definition with_some :: "('v \<Rightarrow> 'a \<Rightarrow> 'a) \<Rightarrow> 'v option \<Rightarrow> 'a \<Rightarrow> 'a" where
  "with_some f v b = (case v of None \<Rightarrow> b | Some x \<Rightarrow> f x b)"

text \<open>One call for every field that is set, on an empty configuration.\<close>

definition selector_ac :: "SourceObjectKeySelector \<Rightarrow> SourceObjectKeySelectorAC" where
  "selector_ac s =
     with_some SourceObjectKeySelector_WithIncludeAllKeys (sok_IncludeAllKeys s)
    (with_if (sok_Key s \<noteq> []) (SourceObjectKeySelector_WithKey (sok_Key s))
    (SourceObjectKeySelector_WithSelector (sok_Selector s)
    (with_if (sok_Name s \<noteq> []) (SourceObjectKeySelector_WithName (sok_Name s)) SourceObjectKeySelector_AC)))"

definition source_ac :: "BundleSource \<Rightarrow> BundleSourceAC" where
  "source_ac s =
     with_some BundleSource_WithUseDefaultCAs (bs_UseDefaultCAs s)
    (with_if (bs_InLine s \<noteq> []) (BundleSource_WithInLine (bs_InLine s))
    (BundleSource_WithSecret (map_option selector_ac (bs_Secret s))
    (BundleSource_WithConfigMap (map_option selector_ac (bs_ConfigMap s)) BundleSource_AC)))"

definition metadata_ac :: "TargetMetadata \<Rightarrow> TargetMetadataAC" where
  "metadata_ac m = TargetMetadata_WithLabels (tm_Labels m) (TargetMetadata_WithAnnotations (tm_Annotations m) TargetMetadata_AC)"

definition template_ac :: "TargetTemplate \<Rightarrow> TargetTemplateAC" where
  "template_ac t =
     with_if (tt_Metadata t \<noteq> zero_TargetMetadata) (TargetTemplate_WithMetadata (Some (metadata_ac (tt_Metadata t))))
    (with_if (tt_Key t \<noteq> []) (TargetTemplate_WithKey (tt_Key t)) TargetTemplate_AC)"

definition jks_ac :: "JKS \<Rightarrow> JKSAC" where
  "jks_ac j = with_if (jks_Password j \<noteq> []) (JKS_WithPassword (jks_Password j))
    (with_if (jks_Key j \<noteq> []) (JKS_WithKey (jks_Key j)) JKS_AC)"

definition pkcs12_ac :: "PKCS12 \<Rightarrow> PKCS12AC" where
  "pkcs12_ac p = with_if (p12_Profile p \<noteq> []) (PKCS12_WithProfile (p12_Profile p))
    (with_some PKCS12_WithPassword (p12_Password p)
    (with_if (p12_Key p \<noteq> []) (PKCS12_WithKey (p12_Key p)) PKCS12_AC))"

definition formats_ac :: "AdditionalFormats \<Rightarrow> AdditionalFormatsAC" where
  "formats_ac f = AdditionalFormats_WithPKCS12 (map_option pkcs12_ac (af_PKCS12 f))
    (AdditionalFormats_WithJKS (map_option jks_ac (af_JKS f)) AdditionalFormats_AC)"

definition target_ac :: "BundleTarget \<Rightarrow> BundleTargetAC" where
  "target_ac t =
     BundleTarget_WithNamespaceSelector (bt_NamespaceSelector t)
    (BundleTarget_WithAdditionalFormats (map_option formats_ac (bt_AdditionalFormats t))
    (BundleTarget_WithSecret (map_option template_ac (bt_Secret t))
    (BundleTarget_WithConfigMap (map_option template_ac (bt_ConfigMap t)) BundleTarget_AC)))"

definition spec_ac :: "BundleSpec \<Rightarrow> BundleSpecAC res" where
  "spec_ac sp =
     bind_res (BundleSpec_WithSources (map (\<lambda>s. Some (source_ac s)) (spec_Sources sp)) BundleSpec_AC)
       (\<lambda>b. Ok (with_if (spec_Target sp \<noteq> zero_BundleTarget) (BundleSpec_WithTarget (Some (target_ac (spec_Target sp)))) b))"

text \<open>The same for a ClusterBundle.\<close>

definition ref_ac :: "BundleSourceRef \<Rightarrow> BundleSourceRefAC" where
  "ref_ac s =
     with_if (bsr_Key s \<noteq> []) (BundleSourceRef_WithKey (bsr_Key s))
    (BundleSourceRef_WithSelector (sr_Selector s)
    (with_if (sr_Name s \<noteq> []) (BundleSourceRef_WithName (sr_Name s))
    (with_if (sr_Kind s \<noteq> []) (BundleSourceRef_WithKind (sr_Kind s)) BundleSourceRef_AC)))"

definition metadata_ac_v2 :: "TargetMetadata \<Rightarrow> TargetMetadataAC_v2" where
  "metadata_ac_v2 m = TargetMetadata_v2_WithLabels (tm_Labels m)
    (TargetMetadata_v2_WithAnnotations (tm_Annotations m) TargetMetadata_v2_AC)"

definition kv_ac :: "TargetKeyValue \<Rightarrow> TargetKeyValueAC" where
  "kv_ac kv =
     with_if (p2_Profile (tkv_PKCS12 kv) \<noteq> []) (TargetKeyValue_WithProfile (p2_Profile (tkv_PKCS12 kv)))
    (with_some TargetKeyValue_WithPassword (p2_Password (tkv_PKCS12 kv))
    (with_if (tkv_Format kv \<noteq> []) (TargetKeyValue_WithFormat (tkv_Format kv))
    (with_if (tkv_Key kv \<noteq> []) (TargetKeyValue_WithKey (tkv_Key kv)) TargetKeyValue_AC)))"

definition kvt_ac :: "KeyValueTarget \<Rightarrow> KeyValueTargetAC res" where
  "kvt_ac t =
     bind_res (KeyValueTarget_WithData (map (\<lambda>kv. Some (kv_ac kv)) (kvt_Data t)) KeyValueTarget_AC)
       (\<lambda>b. Ok (with_if (kvt_Metadata t \<noteq> zero_TargetMetadata)
                  (KeyValueTarget_WithMetadata (Some (metadata_ac_v2 (kvt_Metadata t)))) b))"

definition opt_res :: "('a \<Rightarrow> 'b res) \<Rightarrow> 'a option \<Rightarrow> 'b option res" where
  "opt_res f v = (case v of None \<Rightarrow> Ok None | Some x \<Rightarrow> bind_res (f x) (\<lambda>y. Ok (Some y)))"

definition target_ac_v2 :: "BundleTarget_v2 \<Rightarrow> BundleTargetAC_v2 res" where
  "target_ac_v2 t =
     bind_res (opt_res kvt_ac (bt2_ConfigMap t)) (\<lambda>cm. bind_res (opt_res kvt_ac (bt2_Secret t)) (\<lambda>sec.
       Ok (BundleTarget_v2_WithNamespaceSelector (bt2_NamespaceSelector t)
          (BundleTarget_v2_WithSecret sec (BundleTarget_v2_WithConfigMap cm BundleTarget_v2_AC)))))"

definition spec_ac_v2 :: "BundleSpec_v2 \<Rightarrow> BundleSpecAC_v2 res" where
  "spec_ac_v2 sp =
     bind_res (BundleSpec_v2_WithSourceRefs (map (\<lambda>s. Some (ref_ac s)) (spec2_SourceRefs sp)) BundleSpec_v2_AC) (\<lambda>b.
     bind_res (target_ac_v2 (spec2_Target sp)) (\<lambda>t.
       Ok (with_if (spec2_Target sp \<noteq> zero_BundleTarget_v2) (BundleSpec_v2_WithTarget (Some t))
          (with_if (spec2_InLineCAs sp \<noteq> []) (BundleSpec_v2_WithInLineCAs (spec2_InLineCAs sp))
          (with_if (dca_Provider (spec2_DefaultCAs sp) \<noteq> [])
             (BundleSpec_v2_WithDefaultCAs (Some (DefaultCAsSource_WithProvider (dca_Provider (spec2_DefaultCAs sp)) DefaultCAsSource_AC))) b)))))"

section \<open>The same JSON\<close>

lemmas with_defs = with_if_def with_some_def omit_string_def omit_zero_def

lemma map_option_json: "map_option f (map_option g v) = map_option h v" if "\<And>x. v = Some x \<Longrightarrow> f (g x) = h x"
  using that by (cases v) simp_all

lemma append_values_some: "append_values func xs (map (\<lambda>x. Some (f x)) vs) = Ok (xs @ map f vs)"
  by (induction vs arbitrary: xs) simp_all

lemma map_put_new: "k \<notin> fst ` set m \<Longrightarrow> map_put k v m = m @ [(k, v)]"
  by (induction m) (auto simp: map_put_def)

lemma map_copy_disjoint: "wf_map es \<Longrightarrow> fst ` set es \<inter> fst ` set m = {} \<Longrightarrow> map_copy m es = m @ es"
  by (induction es arbitrary: m) (auto simp: map_put_new wf_map_def)

lemma put_entries_empty: "wf_map es \<Longrightarrow> entries (put_entries None es) = es"
  by (simp add: put_entries_entries map_copy_disjoint)

lemma selector_json: "json_SourceObjectKeySelectorAC jl (selector_ac s) = json_SourceObjectKeySelector jl s"
  by (simp add: json_SourceObjectKeySelectorAC_def json_SourceObjectKeySelector_def selector_ac_def with_defs
      SourceObjectKeySelector_WithName_def SourceObjectKeySelector_WithSelector_def SourceObjectKeySelector_WithKey_def
      SourceObjectKeySelector_WithIncludeAllKeys_def SourceObjectKeySelector_AC_def split: option.split)

lemma source_json: "json_BundleSourceAC jl (source_ac s) = json_BundleSource jl s"
  by (simp add: json_BundleSourceAC_def json_BundleSource_def source_ac_def with_defs selector_json map_option_json
      BundleSource_WithConfigMap_def BundleSource_WithSecret_def BundleSource_WithInLine_def
      BundleSource_WithUseDefaultCAs_def BundleSource_AC_def option.map_comp comp_def split: option.split)

definition wf_metadata :: "TargetMetadata \<Rightarrow> bool" where
  "wf_metadata m \<longleftrightarrow> wf_map (tm_Annotations m) \<and> wf_map (tm_Labels m)"

lemma metadata_json: "wf_metadata m \<Longrightarrow> json_TargetMetadataAC (metadata_ac m) = json_TargetMetadata m"
  by (simp add: json_TargetMetadataAC_def json_TargetMetadata_def metadata_ac_def TargetMetadata_WithLabels_def
      TargetMetadata_WithAnnotations_def TargetMetadata_AC_def wf_metadata_def put_entries_empty)

lemma template_json: "wf_metadata (tt_Metadata t) \<Longrightarrow> json_TargetTemplateAC (template_ac t) = json_TargetTemplate t"
  by (simp add: json_TargetTemplateAC_def json_TargetTemplate_def template_ac_def with_defs metadata_json
      TargetTemplate_WithMetadata_def TargetTemplate_WithKey_def TargetTemplate_AC_def)

lemma jks_json: "json_JKSAC (jks_ac j) = json_JKS j"
  by (simp add: json_JKSAC_def json_JKS_def jks_ac_def with_defs JKS_WithPassword_def JKS_WithKey_def JKS_AC_def)

lemma pkcs12_json: "json_PKCS12AC (pkcs12_ac p) = json_PKCS12 p"
  by (simp add: json_PKCS12AC_def json_PKCS12_def pkcs12_ac_def with_defs PKCS12_WithPassword_def PKCS12_WithKey_def
      PKCS12_WithProfile_def PKCS12_AC_def split: option.split)

lemma formats_json: "json_AdditionalFormatsAC (formats_ac f) = json_AdditionalFormats f"
  by (simp add: json_AdditionalFormatsAC_def json_AdditionalFormats_def formats_ac_def AdditionalFormats_WithPKCS12_def
      AdditionalFormats_WithJKS_def AdditionalFormats_AC_def option.map_comp comp_def jks_json pkcs12_json)

definition wf_target :: "BundleTarget \<Rightarrow> bool" where
  "wf_target t \<longleftrightarrow> (\<forall>tm. bt_ConfigMap t = Some tm \<or> bt_Secret t = Some tm \<longrightarrow> wf_metadata (tt_Metadata tm))"

lemma target_json:
  assumes "wf_target t"
  shows "json_BundleTargetAC jl (target_ac t) = json_BundleTarget jl t"
proof -
  have "map_option json_TargetTemplateAC (map_option template_ac v) = map_option json_TargetTemplate v"
    if "v = bt_ConfigMap t \<or> v = bt_Secret t" for v
    by (rule map_option_json, rule template_json) (use that assms in \<open>auto simp: wf_target_def\<close>)
  then show ?thesis
    by (simp add: json_BundleTargetAC_def json_BundleTarget_def target_ac_def BundleTarget_WithNamespaceSelector_def
        BundleTarget_WithAdditionalFormats_def BundleTarget_WithSecret_def BundleTarget_WithConfigMap_def BundleTarget_AC_def
        map_option_json formats_json)
qed

lemma spec_json:
  assumes "wf_target (spec_Target sp)"
  shows "\<exists>b. spec_ac sp = Ok b \<and> json_BundleSpecAC jl b = json_BundleSpec jl sp"
  using target_json [OF assms, of jl]
  by (auto simp: spec_ac_def BundleSpec_WithSources_def BundleSpec_AC_def append_values_some with_defs omit_list_def
      json_BundleSpecAC_def json_BundleSpec_def BundleSpec_WithTarget_def source_json comp_def)

lemma ref_json: "json_BundleSourceRefAC jl (ref_ac s) = json_BundleSourceRef jl s"
  by (simp add: json_BundleSourceRefAC_def json_BundleSourceRef_def ref_ac_def with_defs BundleSourceRef_WithKey_def
      BundleSourceRef_WithSelector_def BundleSourceRef_WithName_def BundleSourceRef_WithKind_def BundleSourceRef_AC_def)

lemma metadata_json_v2: "wf_metadata m \<Longrightarrow> json_TargetMetadataAC_v2 (metadata_ac_v2 m) = json_TargetMetadata m"
  by (simp add: json_TargetMetadataAC_v2_def json_TargetMetadata_def metadata_ac_v2_def TargetMetadata_v2_WithLabels_def
      TargetMetadata_v2_WithAnnotations_def TargetMetadata_v2_AC_def wf_metadata_def put_entries_empty)

lemma kv_json: "json_TargetKeyValueAC (kv_ac kv) = json_TargetKeyValue kv"
  by (simp add: json_TargetKeyValueAC_def json_TargetKeyValue_def kv_ac_def with_defs TargetKeyValue_WithProfile_def
      TargetKeyValue_WithPassword_def TargetKeyValue_WithFormat_def TargetKeyValue_WithKey_def TargetKeyValue_AC_def
      PKCS12_v2_AC_def split: option.split)

lemma kvt_json:
  assumes "wf_metadata (kvt_Metadata t)"
  shows "\<exists>b. kvt_ac t = Ok b \<and> json_KeyValueTargetAC b = json_KeyValueTarget t"
  using metadata_json_v2 [OF assms]
  by (auto simp: kvt_ac_def KeyValueTarget_WithData_def KeyValueTarget_AC_def append_values_some with_defs omit_list_def
      json_KeyValueTargetAC_def json_KeyValueTarget_def KeyValueTarget_WithMetadata_def kv_json comp_def)

definition wf_target_v2 :: "BundleTarget_v2 \<Rightarrow> bool" where
  "wf_target_v2 t \<longleftrightarrow> (\<forall>kvt. bt2_ConfigMap t = Some kvt \<or> bt2_Secret t = Some kvt \<longrightarrow> wf_metadata (kvt_Metadata kvt))"

lemma opt_res_json:
  assumes "\<And>x. v = Some x \<Longrightarrow> \<exists>b. f x = Ok b \<and> j b = h x"
  shows "\<exists>w. opt_res f v = Ok w \<and> map_option j w = map_option h v"
  using assms by (cases v) (fastforce simp: opt_res_def)+

lemma target_json_v2:
  assumes "wf_target_v2 t"
  shows "\<exists>b. target_ac_v2 t = Ok b \<and> json_BundleTargetAC_v2 jl b = json_BundleTarget_v2 jl t"
proof -
  have kvts: "\<exists>w. opt_res kvt_ac v = Ok w \<and> map_option json_KeyValueTargetAC w = map_option json_KeyValueTarget v"
    if "v = bt2_ConfigMap t \<or> v = bt2_Secret t" for v
    by (rule opt_res_json, rule kvt_json) (use that assms in \<open>auto simp: wf_target_v2_def\<close>)
  from kvts [of "bt2_ConfigMap t"]
  obtain cm where "opt_res kvt_ac (bt2_ConfigMap t) = Ok cm" "map_option json_KeyValueTargetAC cm = map_option json_KeyValueTarget (bt2_ConfigMap t)" by blast
  moreover from kvts [of "bt2_Secret t"]
  obtain sec where "opt_res kvt_ac (bt2_Secret t) = Ok sec" "map_option json_KeyValueTargetAC sec = map_option json_KeyValueTarget (bt2_Secret t)" by blast
  ultimately show ?thesis
    by (simp add: target_ac_v2_def json_BundleTargetAC_v2_def json_BundleTarget_v2_def BundleTarget_v2_WithNamespaceSelector_def
        BundleTarget_v2_WithSecret_def BundleTarget_v2_WithConfigMap_def BundleTarget_v2_AC_def)
qed

lemma spec_json_v2:
  assumes "wf_target_v2 (spec2_Target sp)"
  shows "\<exists>b. spec_ac_v2 sp = Ok b \<and> json_BundleSpecAC_v2 jl b = json_BundleSpec_v2 jl sp"
proof -
  obtain t where "target_ac_v2 (spec2_Target sp) = Ok t" "json_BundleTargetAC_v2 jl t = json_BundleTarget_v2 jl (spec2_Target sp)"
    using target_json_v2 [OF assms] by blast
  moreover have "(spec2_DefaultCAs sp = \<lparr>dca_Provider = []\<rparr>) = (dca_Provider (spec2_DefaultCAs sp) = [])"
    by (cases "spec2_DefaultCAs sp") simp
  ultimately show ?thesis
    by (auto simp: spec_ac_v2_def BundleSpec_v2_WithSourceRefs_def BundleSpec_v2_AC_def append_values_some with_defs omit_list_def
        json_BundleSpecAC_v2_def json_BundleSpec_v2_def BundleSpec_v2_WithTarget_def BundleSpec_v2_WithInLineCAs_def
        BundleSpec_v2_WithDefaultCAs_def DefaultCAsSource_WithProvider_def DefaultCAsSource_AC_def json_DefaultCAsSourceAC_def
        json_DefaultCAsSource_def ref_json comp_def)
qed

text \<open>
  C20: An apply configuration says what the object says: building a specification by \<open>With\<close> calls,
  one for each field that is set, never panics and sends the same JSON as the specification
  itself, for Bundles and for ClusterBundles, whatever the encoders of the library types.
\<close>

theorem built_configuration_sends_spec:
  assumes "wf_target (spec_Target sp)" and "wf_target_v2 (spec2_Target sp2)"
  shows "(\<exists>b. spec_ac sp = Ok b \<and> json_BundleSpecAC jl b = json_BundleSpec jl sp) \<and>
         (\<exists>b. spec_ac_v2 sp2 = Ok b \<and> json_BundleSpecAC_v2 jl b = json_BundleSpec_v2 jl sp2)"
  using spec_json [OF assms(1)] spec_json_v2 [OF assms(2)] by blast

section \<open>Conformance with the schema\<close>

abbreviation conforms_to :: "string \<Rightarrow> json \<Rightarrow> bool" where
  "conforms_to n v \<equiv> conforms schemaYAML (NamedType n) v"

lemma fst_present: "fst ` set (present ps) \<subseteq> fst ` set ps"
  by (induction ps rule: present.induct) auto

lemma distinct_present: "distinct (map fst ps) \<Longrightarrow> distinct (map fst (present ps))"
  by (induction ps rule: present.induct) (use fst_present in \<open>auto dest!: subsetD [OF fst_present]\<close>)

lemma conforms_struct:
  assumes "resolve types t = Some (map_atom fs e r)" and "distinct (map fst ps)"
    and "list_all (\<lambda>(n, v). case v of None \<Rightarrow> True | Some x \<Rightarrow>
           (case field_type fs n of None \<Rightarrow> False | Some t' \<Rightarrow> conforms types t' x)) ps"
  shows "conforms types t (JMap (present ps))"
proof -
  have "list_all (\<lambda>e'. case element_type (MapType fs e r) (fst e') of None \<Rightarrow> False | Some t' \<Rightarrow> conforms types t' (snd e')) (present ps)"
    using assms(3) by (induction ps rule: present.induct) (auto split: option.splits)
  with assms(1,2) show ?thesis by (simp add: distinct_present)
qed

lemma schema_entry: "(n, a) \<in> set schemaYAML \<Longrightarrow> resolve schemaYAML (NamedType n) = Some a"
  by (simp add: schema_lookup)

lemma schema_entries:
  "schema_AdditionalFormats \<in> set schemaYAML" "schema_Bundle \<in> set schemaYAML" "schema_BundleSource \<in> set schemaYAML"
  "schema_BundleSpec \<in> set schemaYAML" "schema_BundleStatus \<in> set schemaYAML" "schema_BundleTarget \<in> set schemaYAML"
  "schema_JKS \<in> set schemaYAML" "schema_PKCS12 \<in> set schemaYAML" "schema_PKCS12Profile \<in> set schemaYAML"
  "schema_SourceObjectKeySelector \<in> set schemaYAML" "schema_TargetMetadata \<in> set schemaYAML" "schema_TargetTemplate \<in> set schemaYAML"
  by (simp_all add: schemaYAML_def)

lemmas struct_rules =
  conforms_struct [OF schema_entry [OF schema_entries(1) [unfolded schema_AdditionalFormats_def]]]
  conforms_struct [OF schema_entry [OF schema_entries(2) [unfolded schema_Bundle_def]]]
  conforms_struct [OF schema_entry [OF schema_entries(3) [unfolded schema_BundleSource_def]]]
  conforms_struct [OF schema_entry [OF schema_entries(4) [unfolded schema_BundleSpec_def]]]
  conforms_struct [OF schema_entry [OF schema_entries(5) [unfolded schema_BundleStatus_def]]]
  conforms_struct [OF schema_entry [OF schema_entries(6) [unfolded schema_BundleTarget_def]]]
  conforms_struct [OF schema_entry [OF schema_entries(7) [unfolded schema_JKS_def]]]
  conforms_struct [OF schema_entry [OF schema_entries(8) [unfolded schema_PKCS12_def]]]
  conforms_struct [OF schema_entry [OF schema_entries(10) [unfolded schema_SourceObjectKeySelector_def]]]
  conforms_struct [OF schema_entry [OF schema_entries(11) [unfolded schema_TargetMetadata_def]]]
  conforms_struct [OF schema_entry [OF schema_entries(12) [unfolded schema_TargetTemplate_def]]]

lemma conforms_JStr: "conforms types string_type (JStr s)" by simp
lemma conforms_JBool: "conforms types boolean_type (JBool s)" by simp

lemma conforms_profile: "conforms_to (v1alpha1_type ''PKCS12Profile'') (JStr s)"
  using schema_entry [OF schema_entries(9) [unfolded schema_PKCS12Profile_def]] by simp

lemma conforms_list:
  "conforms types (Inlined (Atom None (Some (ListType t r ks)) None)) (JList vs) \<longleftrightarrow>
     (r = Associative \<longrightarrow> keys_distinct_in ks vs) \<and> list_all (conforms types t) vs"
  by simp

text \<open>What the encoders of the library are taken to do.\<close>

definition lib_conforms :: "json_lib \<Rightarrow> bool" where
  "lib_conforms jl \<longleftrightarrow>
     (\<forall>ls. conforms_to (meta_type ''LabelSelector'') (jl_LabelSelector jl ls)) \<and>
     (\<forall>c. conforms_to (meta_type ''Condition'') (jl_Condition jl c) \<and>
          json_field ''type'' (jl_Condition jl c) = map_option JStr (cac_Type c))"

named_theorems conforms_intros

lemmas [conforms_intros] = conforms_profile

lemma wf_sort: "wf_map m \<Longrightarrow> distinct (map fst (sort_key fst m))"
  unfolding wf_map_def by (metis distinct_map distinct_sort set_sort)

lemma conforms_map: "wf_map m \<Longrightarrow> conforms types string_map_type (json_map m)"
  using wf_sort [of m] by (auto simp: json_map_def comp_def case_prod_beta list_all_iff)

lemma conforms_SourceObjectKeySelector [conforms_intros]:
  "lib_conforms jl \<Longrightarrow> conforms_to (v1alpha1_type ''SourceObjectKeySelector'') (json_SourceObjectKeySelectorAC jl s)"
  unfolding json_SourceObjectKeySelectorAC_def
  by (rule struct_rules) (auto simp: lib_conforms_def simp del: conforms.simps intro: conforms_JStr conforms_JBool split: option.split)

lemma conforms_BundleSource [conforms_intros]:
  "lib_conforms jl \<Longrightarrow> conforms_to (v1alpha1_type ''BundleSource'') (json_BundleSourceAC jl s)"
  unfolding json_BundleSourceAC_def
  by (rule struct_rules) (auto simp del: conforms.simps intro: conforms_JStr conforms_JBool conforms_intros split: option.split)

definition wf_metadataAC :: "TargetMetadataAC \<Rightarrow> bool" where
  "wf_metadataAC m \<longleftrightarrow> wf_map (entries (tmac_Annotations m)) \<and> wf_map (entries (tmac_Labels m))"

lemma conforms_TargetMetadata [conforms_intros]:
  "wf_metadataAC m \<Longrightarrow> conforms_to (v1alpha1_type ''TargetMetadata'') (json_TargetMetadataAC m)"
  unfolding json_TargetMetadataAC_def
  by (rule struct_rules) (auto simp: wf_metadataAC_def omit_map_def simp del: conforms.simps intro: conforms_map split: option.split)

lemma conforms_TargetTemplate [conforms_intros]:
  "pred_option wf_metadataAC (ttac_Metadata t) \<Longrightarrow> conforms_to (v1alpha1_type ''TargetTemplate'') (json_TargetTemplateAC t)"
  unfolding json_TargetTemplateAC_def
  by (rule struct_rules) (auto simp del: conforms.simps intro: conforms_JStr conforms_intros split: option.split)

lemma conforms_JKS [conforms_intros]: "conforms_to (v1alpha1_type ''JKS'') (json_JKSAC j)"
  unfolding json_JKSAC_def
  by (rule struct_rules) (auto simp del: conforms.simps intro: conforms_JStr split: option.split)

lemma conforms_PKCS12 [conforms_intros]: "conforms_to (v1alpha1_type ''PKCS12'') (json_PKCS12AC p)"
  unfolding json_PKCS12AC_def
  by (rule struct_rules) (auto simp del: conforms.simps intro: conforms_JStr conforms_intros split: option.split)

lemma conforms_AdditionalFormats [conforms_intros]:
  "conforms_to (v1alpha1_type ''AdditionalFormats'') (json_AdditionalFormatsAC f)"
  unfolding json_AdditionalFormatsAC_def
  by (rule struct_rules) (auto simp del: conforms.simps intro: conforms_intros split: option.split)

definition wf_targetAC :: "BundleTargetAC \<Rightarrow> bool" where
  "wf_targetAC t \<longleftrightarrow> pred_option (\<lambda>tm. pred_option wf_metadataAC (ttac_Metadata tm)) (btac_ConfigMap t) \<and>
     pred_option (\<lambda>tm. pred_option wf_metadataAC (ttac_Metadata tm)) (btac_Secret t)"

lemma conforms_BundleTarget [conforms_intros]:
  assumes "lib_conforms jl" and "wf_targetAC t"
  shows "conforms_to (v1alpha1_type ''BundleTarget'') (json_BundleTargetAC jl t)"
proof -
  have "conforms_to (meta_type ''LabelSelector'') (jl_LabelSelector jl ls)" for ls
    using assms(1) by (simp add: lib_conforms_def)
  with assms(2) show ?thesis
    unfolding json_BundleTargetAC_def
    by (intro struct_rules) (auto simp: wf_targetAC_def simp del: conforms.simps intro: conforms_intros split: option.split)
qed

lemma conforms_BundleSpec [conforms_intros]:
  assumes "lib_conforms jl" and "pred_option wf_targetAC (specac_Target sp)"
  shows "conforms_to (v1alpha1_type ''BundleSpec'') (json_BundleSpecAC jl sp)"
  unfolding json_BundleSpecAC_def
  by (rule struct_rules)
    (use assms in \<open>auto simp: omit_list_def conforms_list list_all_iff simp del: conforms.simps intro: conforms_intros split: option.split\<close>)

text \<open>The conditions of a status are a map by type.\<close>

definition conditions_ok :: "ConditionAC list \<Rightarrow> bool" where
  "conditions_ok cs \<longleftrightarrow> list_all (\<lambda>c. cac_Type c \<noteq> None) cs \<and> distinct (map cac_Type cs)"

lemma conditions_keys:
  assumes "lib_conforms jl" and "conditions_ok cs"
  shows "keys_distinct_in [''type''] (map (jl_Condition jl) cs)"
proof -
  have "t = u" if "map_option JStr t = map_option JStr u" for t u using that by (cases t; cases u) simp_all
  then have "inj_on (\<lambda>t. [map_option JStr t]) (set (map cac_Type cs))" by (simp add: inj_on_def)
  then have "distinct (map (\<lambda>t. [map_option JStr t]) (map cac_Type cs))"
    using assms(2) unfolding distinct_map conditions_ok_def by blast
  then show ?thesis using assms
    by (simp add: keys_distinct_in_def lib_conforms_def conditions_ok_def list_all_iff comp_def)
qed

lemma conforms_BundleStatus [conforms_intros]:
  assumes "lib_conforms jl" and "conditions_ok (stac_Conditions st)"
  shows "conforms_to (v1alpha1_type ''BundleStatus'') (json_BundleStatusAC jl st)"
proof -
  have "conforms_to (meta_type ''Condition'') (jl_Condition jl c)" for c
    using assms(1) by (simp add: lib_conforms_def)
  then have "conforms schemaYAML (Inlined (Atom None (Some (ListType (NamedType (meta_type ''Condition'')) Associative [''type''])) None))
      (JList (map (jl_Condition jl) (stac_Conditions st)))"
    unfolding conforms_list list_all_iff using conditions_keys [OF assms] by simp
  moreover have "conforms schemaYAML string_type (JStr v)" for v by (rule conforms_JStr)
  ultimately show ?thesis
    unfolding json_BundleStatusAC_def
    by (intro struct_rules) (simp_all add: omit_list_def del: conforms.simps split: option.split)
qed

text \<open>
  C19: Type soundness of the apply configurations: whatever a Bundle's configuration holds, the JSON
  that is sent for it conforms to the schema type that the parser is asked for, provided the
  metadata and the library's encoders do, its maps are maps and no two conditions of its status
  share a type.
\<close>

theorem BundleAC_conforms:
  assumes "lib_conforms jl"
    and "\<And>m. bac_ObjectMeta b = Some m \<Longrightarrow> conforms_to (meta_type ''ObjectMeta'') (jl_ObjectMeta jl m)"
    and "\<And>sp t. bac_Spec b = Some sp \<Longrightarrow> specac_Target sp = Some t \<Longrightarrow> wf_targetAC t"
    and "\<And>st. bac_Status b = Some st \<Longrightarrow> conditions_ok (stac_Conditions st)"
  shows "conforms schemaYAML
      (NamedType ''com.github.cert-manager.trust-manager.pkg.apis.trust.v1alpha1.Bundle'') (json_BundleAC jl b)"
proof -
  have "conforms_to (v1alpha1_type ''Bundle'') (json_BundleAC jl b)"
    unfolding json_BundleAC_def
    by (rule struct_rules)
      (use assms in \<open>auto simp: pred_option_def simp del: conforms.simps intro: conforms_JStr intro!: conforms_intros split: option.split\<close>)
  then show ?thesis by (simp add: v1alpha1_type_def)
qed

section \<open>The kinds that are covered\<close>

text \<open>Names of types are compared by their package.\<close>

lemma type_names [simp]:
  "v1alpha1_type m = v1alpha1_type n \<longleftrightarrow> m = n"
  "v1alpha1_type m \<noteq> meta_type n" "v1alpha1_type m \<noteq> types_type n"
  "v1alpha1_type m \<noteq> ''__untyped_atomic_''" "v1alpha1_type m \<noteq> ''__untyped_deduced_''"
  "v1alpha2_type m \<noteq> v1alpha1_type n" "v1alpha2_type m \<noteq> meta_type n" "v1alpha2_type m \<noteq> types_type n"
  "v1alpha2_type m \<noteq> ''__untyped_atomic_''" "v1alpha2_type m \<noteq> ''__untyped_deduced_''"
  by (simp_all add: v1alpha1_type_def v1alpha2_type_def meta_type_def types_type_def)

fun is_struct :: "atom \<Rightarrow> bool" where
  "is_struct (Atom None None (Some (MapType fs e r))) = (fs \<noteq> [])"
| "is_struct _ = False"

definition struct_types :: "string list" where
  "struct_types = map fst (filter (\<lambda>(n, a). is_struct a) schemaYAML)"

lemma struct_types_eq:
  "struct_types = map v1alpha1_type [''AdditionalFormats'', ''Bundle'', ''BundleSource'', ''BundleSpec'', ''BundleStatus'',
     ''BundleTarget'', ''JKS'', ''PKCS12'', ''SourceObjectKeySelector'', ''TargetMetadata'', ''TargetTemplate''] @
   map meta_type [''Condition'', ''LabelSelector'', ''LabelSelectorRequirement'', ''ManagedFieldsEntry'', ''ObjectMeta'', ''OwnerReference'']"
  by (simp add: struct_types_def schemaYAML_def schema_defs)

text \<open>
  The table of kinds and the schema agree: \<open>ForKind\<close> has a configuration exactly for the struct
  types of the schema that belong to v1alpha1, and for the key selector, which is only embedded.
\<close>

lemma ForKind_covers_schema:
  "(\<exists>c. ForKind k = Some c) \<longleftrightarrow>
     gvk_Group k = ''trust.cert-manager.io'' \<and> gvk_Version k = ''v1alpha1'' \<and>
     (gvk_Kind k = ''KeySelector'' \<or> v1alpha1_type (gvk_Kind k) \<in> set struct_types)"
  unfolding struct_types_eq by (cases k) (auto simp: ForKind_def v1alpha1_kind_def)

lemma no_ClusterBundle_type: "map_of schemaYAML (v1alpha2_type n) = None"
proof -
  have "v1alpha2_type n \<notin> fst ` set schemaYAML"
    by (simp add: schemaYAML_def schema_defs)
  then show ?thesis by (simp add: map_of_eq_None_iff)
qed

text \<open>The states of the parser that calls of \<open>Parser\<close> without a panic lead to.\<close>

definition parser_ok :: "('p, 'pt) typed_lib \<Rightarrow> 'p once \<Rightarrow> bool" where
  "parser_ok lib parserOnce \<longleftrightarrow>
     (case parserOnce of Not_done \<Rightarrow> True | Once_done None \<Rightarrow> False
      | Once_done (Some p) \<Rightarrow> tl_NewParser lib schemaYAML = Inr p)"

lemma Parser_ok:
  assumes "parser_ok lib st" and "Parser lib st = (Ok p, st')"
  shows "\<exists>q. p = Some q \<and> tl_NewParser lib schemaYAML = Inr q \<and> parser_ok lib st'"
  using assms by (auto simp: Parser_def parser_ok_def split: once.splits sum.splits option.splits)

text \<open>
  C28: The applied configuration of a ClusterBundle cannot be extracted: the schema has no type for
  it, so every extraction ends with an error (or the panic of the parser), whatever the object, the
  field manager and the subresource, although the constructors, the setters and the extract
  functions for it exist. The library fails for types that the schema does not define.
\<close>

theorem ExtractClusterBundle_always_fails:
  assumes "\<And>types p n obj fm sub. tl_NewParser lib types = Inr p \<Longrightarrow> map_of types n = None \<Longrightarrow>
      \<exists>err. ExtractInto obj (tl_Type lib (Some p) n) fm sub = Inl err"
    and "parser_ok lib parserOnce"
  shows "\<forall>b. fst (ExtractClusterBundleFrom lib ExtractInto cb fm sub parserOnce) \<noteq> Ok b \<and>
     fst (ExtractClusterBundle lib ExtractInto cb fm parserOnce) \<noteq> Ok b \<and>
     fst (ExtractClusterBundleStatus lib ExtractInto cb fm parserOnce) \<noteq> Ok b"
proof -
  let ?n = "''com.github.cert-manager.trust-manager.pkg.apis.trustmanager.v1alpha2.ClusterBundle''"
  have n: "?n = v1alpha2_type ''ClusterBundle''" by (simp add: v1alpha2_type_def)
  have "fst (ExtractClusterBundleFrom lib ExtractInto cb fm sub' parserOnce) \<noteq> Ok b" for sub' b
  proof (cases "Parser lib parserOnce")
    case (Pair p st')
    show ?thesis
    proof (cases p)
      case (Ok r)
      with Parser_ok [OF assms(2)] Pair obtain q where q: "r = Some q" "tl_NewParser lib schemaYAML = Inr q" by blast
      obtain err where "ExtractInto cb (tl_Type lib (Some q) ?n) fm sub' = Inl err"
        using assms(1) [OF q(2)] no_ClusterBundle_type unfolding n by blast
      with Ok Pair q(1) show ?thesis by (simp add: ExtractClusterBundleFrom_def)
    qed (simp_all add: Pair ExtractClusterBundleFrom_def)
  qed
  then show ?thesis by (simp add: ExtractClusterBundle_def ExtractClusterBundleStatus_def)
qed

section \<open>Examples\<close>

definition example_typed_lib :: "((string \<times> atom) list, atom option) typed_lib" where
  "example_typed_lib = \<lparr>tl_NewParser = Inr, tl_Type = \<lambda>p n. map_of (case p of None \<Rightarrow> [] | Some types \<Rightarrow> types) n\<rparr>"

definition example_ExtractInto :: "ClusterBundle \<Rightarrow> atom option \<Rightarrow> string \<Rightarrow> string \<Rightarrow> gerr + ClusterBundleAC" where
  "example_ExtractInto obj t fm sub =
     (case t of None \<Rightarrow> Inl (Errorf ''no type found'') | Some _ \<Rightarrow> Inr empty_BundleAC)"

lemma ExtractClusterBundle_always_fails_witness:
  "fst (ExtractClusterBundle example_typed_lib example_ExtractInto
     \<lparr>cb_Meta = \<lparr>om_Name = ''b'', om_Namespace = [], om_UID = [], om_Generation = 1, om_Labels = [], om_Annotations = None,
        om_OwnerReferences = [], om_DeletionTimestamp = None, om_ManagedFields = []\<rparr>,
      cb_Spec = \<lparr>spec2_SourceRefs = [], spec2_DefaultCAs = \<lparr>dca_Provider = []\<rparr>, spec2_InLineCAs = [], spec2_Target = zero_BundleTarget_v2\<rparr>,
      cb_Status = \<lparr>st_Conditions = [], st_DefaultCAPackageVersion = []\<rparr>\<rparr> ''m'' Not_done) \<noteq> Ok (ClusterBundle_AC ''b'')"
proof -
  have "\<exists>err. example_ExtractInto obj (tl_Type example_typed_lib (Some p) n) fm sub = Inl err"
    if "tl_NewParser example_typed_lib types = Inr p" "map_of types n = None" for types p n obj fm sub
    using that by (simp add: example_typed_lib_def example_ExtractInto_def)
  moreover have "parser_ok example_typed_lib Not_done" by (simp add: parser_ok_def)
  ultimately show ?thesis
    using ExtractClusterBundle_always_fails [of example_typed_lib example_ExtractInto Not_done] by blast
qed

definition example_json_lib :: json_lib where
  "example_json_lib =
     \<lparr>jl_LabelSelector = \<lambda>ls. JMap (present [(''matchLabels'', omit_map [])]),
      jl_Condition = \<lambda>c. JMap (present [(''type'', map_option JStr (cac_Type c)), (''status'', map_option JStr (cac_Status c))]),
      jl_ObjectMeta = \<lambda>m. JMap (present [(''name'', map_option JStr (omac_Name m))])\<rparr>"

definition example_spec_v1 :: BundleSpec where
  "example_spec_v1 =
     \<lparr>spec_Sources = [\<lparr>bs_ConfigMap = Some \<lparr>sok_Name = ''cas'', sok_Selector = None, sok_Key = ''ca.crt'', sok_IncludeAllKeys = None\<rparr>,
        bs_Secret = None, bs_InLine = [], bs_UseDefaultCAs = None\<rparr>],
      spec_Target = \<lparr>bt_ConfigMap = Some \<lparr>tt_Key = ''k'', tt_Metadata = \<lparr>tm_Annotations = [(''b'', ''1''), (''a'', ''2'')], tm_Labels = []\<rparr>\<rparr>,
        bt_Secret = None, bt_AdditionalFormats = Some \<lparr>af_JKS = Some \<lparr>jks_Key = ''j'', jks_Password = []\<rparr>, af_PKCS12 = None\<rparr>,
        bt_NamespaceSelector = None\<rparr>\<rparr>"

definition example_spec_v2 :: BundleSpec_v2 where
  "example_spec_v2 =
     \<lparr>spec2_SourceRefs = [\<lparr>sr_Kind = ''ConfigMap'', sr_Name = ''cas'', sr_Selector = None, bsr_Key = ''*''\<rparr>],
      spec2_DefaultCAs = \<lparr>dca_Provider = ''System''\<rparr>, spec2_InLineCAs = [],
      spec2_Target = \<lparr>bt2_ConfigMap = Some \<lparr>kvt_Data = [\<lparr>tkv_Key = ''k'', tkv_Format = [],
          tkv_PKCS12 = \<lparr>p2_Password = None, p2_Profile = []\<rparr>\<rparr>],
        kvt_Metadata = \<lparr>tm_Annotations = [(''b'', ''1''), (''a'', ''2'')], tm_Labels = []\<rparr>\<rparr>,
        bt2_Secret = None, bt2_NamespaceSelector = None\<rparr>\<rparr>"

lemma built_configuration_sends_spec_witness:
  "(\<exists>b. spec_ac example_spec_v1 = Ok b \<and> json_BundleSpecAC example_json_lib b = json_BundleSpec example_json_lib example_spec_v1) \<and>
   (\<exists>b. spec_ac_v2 example_spec_v2 = Ok b \<and> json_BundleSpecAC_v2 example_json_lib b = json_BundleSpec_v2 example_json_lib example_spec_v2)"
  by (rule built_configuration_sends_spec)
    (auto simp: example_spec_v1_def example_spec_v2_def wf_target_def wf_target_v2_def wf_metadata_def wf_map_def)

lemma meta_entries:
  "schema_LabelSelector \<in> set schemaYAML" "schema_Condition \<in> set schemaYAML" "schema_ConditionStatus \<in> set schemaYAML"
  "schema_ObjectMeta \<in> set schemaYAML"
  by (simp_all add: schemaYAML_def)

lemmas meta_rules =
  conforms_struct [OF schema_entry [OF meta_entries(1) [unfolded schema_LabelSelector_def]]]
  conforms_struct [OF schema_entry [OF meta_entries(2) [unfolded schema_Condition_def]]]
  conforms_struct [OF schema_entry [OF meta_entries(4) [unfolded schema_ObjectMeta_def]]]

lemma example_lib_conforms: "lib_conforms example_json_lib"
proof -
  have "conforms_to (meta_type ''LabelSelector'') (JMap (present [(''matchLabels'', omit_map [])]))"
    by (rule meta_rules) (simp_all add: omit_map_def del: conforms.simps)
  moreover have "conforms_to (meta_type ''ConditionStatus'') (JStr v)" for v
    using schema_entry [OF meta_entries(3) [unfolded schema_ConditionStatus_def]] by simp
  then have "conforms_to (meta_type ''Condition'') (JMap (present
      [(''type'', map_option JStr (cac_Type c)), (''status'', map_option JStr (cac_Status c))]))" for c :: ConditionAC
    by (intro meta_rules) (simp_all del: conforms.simps add: conforms_JStr split: option.split)
  moreover have "json_field ''type'' (JMap (present [(''type'', t), (''status'', st)])) = t" for t st
    by (cases t; cases st) simp_all
  ultimately show ?thesis by (simp add: lib_conforms_def example_json_lib_def del: present.simps conforms.simps json_field.simps)
qed

definition example_condition :: "string \<Rightarrow> ConditionAC" where
  "example_condition t = \<lparr>cac_Type = Some t, cac_Status = Some ''True'', cac_ObservedGeneration = None,
     cac_LastTransitionTime = None, cac_Reason = None, cac_Message = None\<rparr>"

definition example_BundleAC :: BundleAC where
  "example_BundleAC = \<lparr>bac_Kind = Some ''Bundle'', bac_APIVersion = None,
     bac_ObjectMeta = Some (empty_ObjectMetaAC\<lparr>omac_Name := Some ''b''\<rparr>),
     bac_Spec = Some \<lparr>specac_Sources = [source_ac (hd (spec_Sources example_spec_v1))], specac_Target = Some BundleTarget_AC\<rparr>,
     bac_Status = Some \<lparr>stac_Conditions = [example_condition ''Synced'', example_condition ''Migrated''],
       stac_DefaultCAPackageVersion = None\<rparr>\<rparr>"

lemma BundleAC_conforms_witness:
  "conforms schemaYAML (NamedType ''com.github.cert-manager.trust-manager.pkg.apis.trust.v1alpha1.Bundle'')
     (json_BundleAC example_json_lib example_BundleAC)"
proof (rule BundleAC_conforms [OF example_lib_conforms])
  fix m assume "bac_ObjectMeta example_BundleAC = Some m"
  have "conforms_to (meta_type ''ObjectMeta'') (JMap (present [(''name'', map_option JStr (omac_Name m))]))"
    by (rule meta_rules) (simp_all del: conforms.simps add: conforms_JStr split: option.split)
  then show "conforms_to (meta_type ''ObjectMeta'') (jl_ObjectMeta example_json_lib m)" by (simp add: example_json_lib_def)
qed (auto simp: example_BundleAC_def BundleTarget_AC_def wf_targetAC_def conditions_ok_def example_condition_def)

end
