(* ===== verification/Migration.thy ===== *)
theory Migration
  imports ConversionProperties
begin

text \<open>
  Migrating a Bundle to ClusterBundle keeps what it distributes: the sources of the converted Bundle
  resolve to the same PEM bundle and the same version of the default package. The conversion
  joins the inline sources; that is harmless when each of them is a sequence of PEM-encoded
  certificates, with or without the final newline.
\<close>

section \<open>Success does not depend on the pool\<close>

definition indep :: "(CertPool \<Rightarrow> CertPool \<times> gerr option) \<Rightarrow> bool" where
  "indep f \<longleftrightarrow> (\<forall>cp cp'. snd (f cp) = None \<longrightarrow> snd (f cp') = None)"

lemma indep_add: "indep (\<lambda>cp. AddCertsFromPEM parse cp d)"
  by (auto simp: indep_def AddCertsFromPEM_def AddCertsFromPEM_loop_ok split: option.splits)

lemma indep_value: "indep (add_value parse mk d)"
proof -
  have "snd (add_value parse mk d cp) = None \<longleftrightarrow> snd (AddCertsFromPEM parse cp d) = None" for cp
    by (auto simp: add_value_def split: prod.split option.split)
  with indep_add [of parse d] show ?thesis by (simp add: indep_def)
qed

lemma indep_const: "indep (\<lambda>cp. (cp, e))"
  by (simp add: indep_def)

lemma indep_seq: "list_all indep fs \<Longrightarrow> indep (seq_pool fs)"
proof (induction fs)
  case (Cons f fs)
  show ?case
    unfolding indep_def
  proof (intro allI impI)
    fix cp cp'
    assume "snd (seq_pool (f # fs) cp) = None"
    then have "snd (f cp) = None" "snd (seq_pool fs (fst (f cp))) = None" by (auto split: prod.splits option.splits)
    with Cons have "snd (f cp') = None" "snd (seq_pool fs (fst (f cp'))) = None" by (auto simp: indep_def)
    then show "snd (seq_pool (f # fs) cp') = None" by (auto split: prod.splits option.splits)
  qed
qed (simp add: indep_def)

lemma indep_values: "indep (seq_pool (map (\<lambda>(k, d). add_value parse (mk k) (w d)) xs))"
  by (rule indep_seq) (auto simp: list_all_iff indep_value)

lemma indepI: "(\<And>cp cp'. snd (f cp) = None \<Longrightarrow> snd (f cp') = None) \<Longrightarrow> indep f"
  by (auto simp: indep_def)

lemma indepD: "indep f \<Longrightarrow> snd (f cp) = None \<Longrightarrow> snd (f cp') = None"
  by (auto simp: indep_def)

lemma indep_configMap_add: "indep (configMap_add parse ref cm)"
proof (rule indepI)
  fix cp cp'
  let ?bad = "invalid_PEM_at ''ConfigMap'' (om_Namespace (cm_Meta cm)) (om_Name (cm_Meta cm))"
  have "list_all indep (map (\<lambda>(k, d). add_value parse (?bad k) (Some d)) (cm_Data cm)
     @ map (\<lambda>(k, d). add_value parse (?bad k) d) (cm_BinaryData cm))"
    by (auto simp: list_all_iff indep_value)
  note all = indepD [OF indep_seq [OF this]]
  assume "snd (configMap_add parse ref cm cp) = None"
  then show "snd (configMap_add parse ref cm cp') = None"
    by (auto simp: configMap_add_def Let_def split: option.splits if_splits intro: indepD [OF indep_value] all)
qed

lemma indep_secret_add: "indep (secret_add parse ref sec)"
proof (rule indepI)
  fix cp cp'
  assume "snd (secret_add parse ref sec cp) = None"
  then show "snd (secret_add parse ref sec cp') = None"
    by (auto simp: secret_add_def Let_def split: option.splits if_splits
        intro: indepD [OF indep_value] indepD [OF indep_values [where w = "\<lambda>d. d"]])
qed

lemma indep_objects: "(\<And>x. indep (f x)) \<Longrightarrow> indep (seq_pool (map f xs))"
  by (rule indep_seq) (simp add: list_all_iff)

lemma indep_configMap_source: "indep (configMapBundleSource_addToCertPool parse lib rd ns ref)"
  by (rule indepI) (auto simp: configMapBundleSource_addToCertPool_def split: sum.splits
      intro: indepD [OF indep_objects [OF indep_configMap_add]])

lemma indep_secret_source: "indep (secretBundleSource_addToCertPool parse lib rd ns ref)"
  by (rule indepI) (auto simp: secretBundleSource_addToCertPool_def split: sum.splits
      intro: indepD [OF indep_objects [OF indep_secret_add]])

lemma indep_inline: "indep (inlineBundleSource_addToCertPool parse pem)"
  "indep (defaultCAsBundleSource_addToCertPool parse pem)"
proof -
  have "snd (inlineBundleSource_addToCertPool parse pem cp) = None \<longleftrightarrow> snd (AddCertsFromPEM parse cp (Some pem)) = None"
    "snd (defaultCAsBundleSource_addToCertPool parse pem cp) = None \<longleftrightarrow> snd (AddCertsFromPEM parse cp (Some pem)) = None" for cp
    by (auto simp: inlineBundleSource_addToCertPool_def defaultCAsBundleSource_addToCertPool_def split: prod.split option.split)
  with indep_add [of parse "Some pem"]
  show "indep (inlineBundleSource_addToCertPool parse pem)" "indep (defaultCAsBundleSource_addToCertPool parse pem)"
    by (simp_all add: indep_def)
qed

section \<open>Which lists of sources build\<close>

definition source_builds :: "x509_parser \<Rightarrow> 'sel labels_lib \<Rightarrow> 'sel reader \<Rightarrow> BundleBuilder \<Rightarrow> BundleSource \<Rightarrow> bool" where
  "source_builds parse lib rd b src \<longleftrightarrow> (\<exists>acc acc'. add_source parse lib rd b src acc = Ok acc')"

lemma add_source_any:
  assumes "add_source parse lib rd b src acc = Ok acc1"
  shows "\<exists>acc2. add_source parse lib rd b src acc' = Ok acc2"
proof -
  have any: "\<exists>q. f cp = (q, None)" if "f cp' = (q', None)" "indep f" for f cp cp' q'
    using indepD [OF that(2), of cp' cp] that(1) by (metis prod.collapse snd_conv)
  note runs = any [OF _ indep_configMap_source] any [OF _ indep_secret_source] any [OF _ indep_inline(1)] any [OF _ indep_inline(2)]
  show ?thesis
  proof (cases "bs_ConfigMap src")
    case (Some ref)
    with assms obtain q where "configMapBundleSource_addToCertPool parse lib rd (opt_Namespace (bb_Options b)) ref (bdl_CertPool acc) = (q, None)"
      by (auto simp: add_source_def Let_def split: prod.splits option.splits)
    with Some runs(1) [OF this, of "bdl_CertPool acc'"] show ?thesis by (auto simp: add_source_def Let_def)
  next
    case cm: None
    show ?thesis
    proof (cases "bs_Secret src")
      case (Some ref)
      with assms cm obtain q where "secretBundleSource_addToCertPool parse lib rd (opt_Namespace (bb_Options b)) ref (bdl_CertPool acc) = (q, None)"
        by (auto simp: add_source_def Let_def split: prod.splits option.splits)
      with cm Some runs(2) [OF this, of "bdl_CertPool acc'"] show ?thesis by (auto simp: add_source_def Let_def)
    next
      case sec: None
      show ?thesis
      proof (cases "bs_InLine src = []")
        case False
        with assms cm sec obtain q where "inlineBundleSource_addToCertPool parse (bs_InLine src) (bdl_CertPool acc) = (q, None)"
          by (auto simp: add_source_def Let_def split: prod.splits option.splits)
        with False cm sec runs(3) [OF this, of "bdl_CertPool acc'"] show ?thesis by (auto simp: add_source_def Let_def)
      next
        case True
        show ?thesis
        proof (cases "bs_UseDefaultCAs src = Some True")
          case use: True
          with assms cm sec True obtain pkg q where "bb_DefaultPackage b = Some pkg"
            "defaultCAsBundleSource_addToCertPool parse (pkg_Bundle pkg) (bdl_CertPool acc) = (q, None)"
            by (auto simp: add_source_def Let_def split: prod.splits option.splits)
          with True use cm sec runs(4) [OF this(2), of "bdl_CertPool acc'"] show ?thesis by (auto simp: add_source_def Let_def)
        next
          case False
          with assms cm sec True show ?thesis by (auto simp: add_source_def Let_def split: option.splits)
        qed
      qed
    qed
  qed
qed

lemma source_builds_iff: "source_builds parse lib rd b src \<longleftrightarrow> (\<exists>acc'. add_source parse lib rd b src acc = Ok acc')"
  using add_source_any unfolding source_builds_def by blast

lemma add_sources_iff:
  "(\<exists>acc'. add_sources parse lib rd b srcs acc = Ok acc') \<longleftrightarrow> (\<forall>src \<in> set srcs. source_builds parse lib rd b src)"
proof (induction srcs arbitrary: acc)
  case (Cons src srcs)
  show ?case
  proof (cases "add_source parse lib rd b src acc")
    case (Ok a)
    then have "source_builds parse lib rd b src" by (auto simp: source_builds_def)
    with Ok Cons.IH [of a] show ?thesis by simp
  qed (use source_builds_iff [of parse lib rd b src acc] in simp_all)
qed simp

text \<open>Two lists with the same kinds of sources build the same bundle.\<close>

lemma BuildBundle_same:
  assumes "BuildBundle parse now lib rd b srcs = Ok d"
    and "\<And>src. src \<in> set srcs' \<Longrightarrow> source_builds parse lib rd b src"
    and "set (all_certs parse lib rd b srcs') = set (all_certs parse lib rd b srcs)"
    and "list_ex uses_default srcs' = list_ex uses_default srcs"
    and inj: "inj_on fingerprint (set (all_certs parse lib rd b srcs))"
  shows "\<exists>d'. BuildBundle parse now lib rd b srcs' = Ok d' \<and> PEM (Some (bdl_CertPool d')) = PEM (Some (bdl_CertPool d)) \<and>
     bdl_DefaultCAPackageStringID d' = bdl_DefaultCAPackageStringID d"
proof -
  let ?acc = "\<lparr>bdl_CertPool = build_pool now b, bdl_DefaultCAPackageStringID = []\<rparr>"
  let ?c = "all_certs parse lib rd b srcs" and ?c' = "all_certs parse lib rd b srcs'"
  note ok = BuildBundle_Ok [OF assms(1)]
  from assms(2) obtain d' where d': "add_sources parse lib rd b srcs' ?acc = Ok d'"
    using add_sources_iff [of parse lib rd b srcs' ?acc] by blast
  from add_sources_Ok [OF d'] have pool: "bdl_CertPool d' = add_all (build_pool now b) ?c'"
    and id: "bdl_DefaultCAPackageStringID d' = (if list_ex uses_default srcs' then StringID (the (bb_DefaultPackage b)) else [])"
    by (simp_all add: all_certs_def)
  have sub: "inj_on fingerprint {c \<in> set ?c. accepts_cert (build_pool now b) c}"
    by (rule inj_on_subset [OF inj]) auto
  then have "PEM (Some (add_all (build_pool now b) ?c')) = PEM (Some (add_all (build_pool now b) ?c))"
    unfolding build_pool_def
    by (intro PEM_order_independent) (use assms(3) sub [unfolded build_pool_def] in simp_all)
  moreover have "set (Certificates (bdl_CertPool d')) = set (Certificates (bdl_CertPool d))"
    using set_Certificates_add_all [of ?c now "opt_FilterExpiredCerts (bb_Options b)" "opt_FilterNonCACerts (bb_Options b)"]
      set_Certificates_add_all [of ?c' now "opt_FilterExpiredCerts (bb_Options b)" "opt_FilterNonCACerts (bb_Options b)"]
      sub pool ok(1) assms(3) by (simp add: build_pool_def del: new_pool_simps)
  then have "Size (bdl_CertPool d') \<noteq> 0"
    using ok(2) by (metis length_0_conv length_Certificates set_empty)
  then have "BuildBundle parse now lib rd b srcs' = Ok d'"
    using d' by (simp add: BuildBundle_def build_pool_def flip: new_pool_def)
  ultimately show ?thesis using pool id ok(1,3) assms(4) by simp
qed

section \<open>Joining inline sources\<close>

text \<open>A sequence of encoded certificates, with or without the newline of the last one.\<close>

definition cert_text :: "string list \<Rightarrow> string" where
  "cert_text ders = concat (map (pem_Encode ''CERTIFICATE'') ders)"

definition pem_text :: "string list \<Rightarrow> string \<Rightarrow> bool" where
  "pem_text ders t \<longleftrightarrow> ders \<noteq> [] \<and> (t = cert_text ders \<or> t @ [nl] = cert_text ders)"

definition cert_block :: "string \<Rightarrow> pem_Block" where
  "cert_block der = \<lparr>blk_Type = ''CERTIFICATE'', blk_Headers = [], blk_Bytes = der\<rparr>"

lemma cert_text_Cons: "cert_text (d # ds) = begin_line @ body_of d @ pemEnd @ ''CERTIFICATE-----'' @ nl # cert_text ds"
  by (simp add: cert_text_def pem_Encode_shape)

lemma cert_text_append: "cert_text (ds @ es) = cert_text ds @ cert_text es"
  by (simp add: cert_text_def)

lemma cert_text_end: "ds \<noteq> [] \<Longrightarrow> \<exists>u. cert_text ds = u @ [CHR ''-'', nl]"
  by (induction ds rule: rev_induct) (simp_all add: cert_text_append cert_text_Cons cert_text_def [of "[]"])

lemma pem_blocks_cert_text: "pem_blocks (cert_text ds) = map cert_block ds"
proof (induction ds)
  case Nil
  show ?case by (simp add: cert_text_def pem_blocks_end [OF pem_Decode_Nil])
next
  case (Cons d ds)
  have "pem_Decode (cert_text (d # ds)) = (Some (cert_block d), cert_text ds)"
    unfolding cert_text_Cons cert_block_def by (subst pem_Decode_cert [where tail = "cert_text ds"]) simp_all
  from pem_blocks_next [OF this] Cons show ?case by simp
qed

lemma pem_blocks_butlast: "ds \<noteq> [] \<Longrightarrow> t @ [nl] = cert_text ds \<Longrightarrow> pem_blocks t = map cert_block ds"
proof (induction ds arbitrary: t)
  case (Cons d ds)
  show ?case
  proof (cases "ds = []")
    case True
    with Cons.prems have t: "t = begin_line @ body_of d @ pemEnd @ ''CERTIFICATE-----''"
      by (simp add: cert_text_Cons cert_text_def [of "[]"])
    have "pem_Decode t = (Some (cert_block d), [])"
      unfolding t cert_block_def using pem_Decode_cert [of "[]" "[]" d] by simp
    from pem_blocks_next [OF this] show ?thesis using True by (simp add: pem_blocks_end [OF pem_Decode_Nil])
  next
    case False
    from cert_text_end [OF this] obtain u where u: "cert_text ds = (u @ ''-'') @ [nl]" by auto
    with Cons.prems have t: "t = begin_line @ body_of d @ pemEnd @ ''CERTIFICATE-----'' @ nl # (u @ ''-'')"
      by (simp add: cert_text_Cons)
    have "pem_Decode t = (Some (cert_block d), u @ ''-'')"
      unfolding t cert_block_def by (subst pem_Decode_cert [where tail = "u @ ''-''"]) simp_all
    from pem_blocks_next [OF this] Cons.IH [OF False u [symmetric]] show ?thesis by simp
  qed
qed simp

lemma pem_text_blocks: "pem_text ds t \<Longrightarrow> pem_blocks t = map cert_block ds"
  using pem_blocks_cert_text pem_blocks_butlast by (auto simp: pem_text_def)

lemma pem_text_nonempty: "pem_text ds t \<Longrightarrow> t \<noteq> []"
  using cert_text_end [of ds] by (auto simp: pem_text_def)

lemma pem_text_join:
  assumes "pem_text ds t" and "pem_text es u"
  shows "pem_text (ds @ es) (trim_suffix t [nl] @ [nl] @ u)"
proof -
  from assms(1) obtain v where v: "cert_text ds = v @ [CHR ''-'', nl]" using cert_text_end by (auto simp: pem_text_def)
  have "trim_suffix t [nl] = v @ ''-''"
  proof (cases "t = cert_text ds")
    case True
    then have "t = (v @ ''-'') @ [nl]" by (simp add: v)
    then show ?thesis by (simp only: trim_suffix_append)
  next
    case False
    with assms(1) have "t = v @ ''-''" by (simp add: pem_text_def v)
    moreover have "\<not> has_suffix (v @ ''-'') [nl]" by (auto simp: has_suffix_iff nl_def)
    ultimately show ?thesis by (simp add: trim_suffix_def)
  qed
  then have "trim_suffix t [nl] @ [nl] = cert_text ds" by (simp add: v)
  then have "trim_suffix t [nl] @ [nl] @ u = cert_text ds @ u" by (metis append.assoc)
  then show ?thesis using assms by (auto simp: pem_text_def cert_text_append)
qed

definition inline_pem :: "BundleSource list \<Rightarrow> bool" where
  "inline_pem srcs \<longleftrightarrow> (\<forall>src \<in> set srcs. bs_InLine src \<noteq> [] \<longrightarrow> (\<exists>ds. pem_text ds (bs_InLine src)))"

lemma merge_inline_blocks:
  assumes "inline_pem srcs" and "cas = [] \<or> (\<exists>ds. pem_text ds cas)"
  shows "(foldl merge_inline cas srcs = [] \<or> (\<exists>ds. pem_text ds (foldl merge_inline cas srcs))) \<and>
    pem_blocks (foldl merge_inline cas srcs) = pem_blocks cas @ concat (map (\<lambda>src. pem_blocks (bs_InLine src)) srcs)"
  using assms
proof (induction srcs arbitrary: cas)
  case (Cons src srcs)
  have nil: "pem_blocks [] = []" by (rule pem_blocks_end [OF pem_Decode_Nil])
  have step: "(merge_inline cas src = [] \<or> (\<exists>ds. pem_text ds (merge_inline cas src))) \<and>
      pem_blocks (merge_inline cas src) = pem_blocks cas @ pem_blocks (bs_InLine src)"
  proof (cases "bs_InLine src = [] \<or> cas = []")
    case True
    with Cons.prems show ?thesis by (auto simp: merge_inline_def nil inline_pem_def)
  next
    case False
    with Cons.prems obtain ds es where d: "pem_text ds cas" and e: "pem_text es (bs_InLine src)" by (auto simp: inline_pem_def)
    have "merge_inline cas src = trim_suffix cas [nl] @ [nl] @ bs_InLine src" using False by (simp add: merge_inline_def)
    with pem_text_join [OF d e] pem_text_blocks [OF d] pem_text_blocks [OF e] pem_text_blocks [OF pem_text_join [OF d e]]
    show ?thesis by auto
  qed
  have "inline_pem srcs" using Cons.prems(1) by (simp add: inline_pem_def)
  from Cons.IH [OF this conjunct1 [OF step]] step show ?case by simp
qed simp

section \<open>The sources of the normal form\<close>

definition key_or_all :: "SourceObjectKeySelector \<Rightarrow> bool" where
  "key_or_all ref \<longleftrightarrow> (sok_Key ref \<noteq> [] \<longleftrightarrow> sok_IncludeAllKeys ref \<noteq> Some True)"

definition plain_source :: "BundleSource \<Rightarrow> bool" where
  "plain_source src \<longleftrightarrow> unionCount src = 1 \<and> (\<forall>ref. bs_ConfigMap src = Some ref \<or> bs_Secret src = Some ref \<longrightarrow> key_or_all ref)"

lemma normal_selector_fields:
  "sok_Name (normal_selector ref) = sok_Name ref" "sok_Selector (normal_selector ref) = sok_Selector ref"
  by (simp_all add: normal_selector_def)

lemma normal_selector_keys:
  assumes "key_or_all ref"
  shows "sok_Key (normal_selector ref) = sok_Key ref"
    and "ptr_Deref (sok_IncludeAllKeys (normal_selector ref)) False = ptr_Deref (sok_IncludeAllKeys ref) False"
  using assms by (cases "sok_IncludeAllKeys ref"; auto simp: key_or_all_def normal_selector_def)+

lemma normal_selector_same:
  assumes "key_or_all ref"
  shows "configMap_add parse (normal_selector ref) = configMap_add parse ref"
    and "secret_add parse (normal_selector ref) = secret_add parse ref"
    and "configMap_texts (normal_selector ref) = configMap_texts ref"
    and "secret_texts (normal_selector ref) = secret_texts ref"
    and "select_objects kind get lst lib ns (normal_selector ref) = select_objects kind get lst lib ns ref"
  by (simp_all only: configMap_add_def [abs_def] secret_add_def [abs_def] configMap_texts_def [abs_def] secret_texts_def [abs_def]
      select_objects_def normal_selector_fields normal_selector_keys [OF assms])

lemma normal_reference_same:
  assumes "key_or_all ref"
  shows "configMapBundleSource_addToCertPool parse lib rd ns (normal_selector ref) = configMapBundleSource_addToCertPool parse lib rd ns ref"
    and "secretBundleSource_addToCertPool parse lib rd ns (normal_selector ref) = secretBundleSource_addToCertPool parse lib rd ns ref"
  by (simp_all only: configMapBundleSource_addToCertPool_def [abs_def] secretBundleSource_addToCertPool_def [abs_def]
      normal_selector_same [OF assms])

lemma normal_source_same:
  assumes "plain_source src"
  shows "add_source parse lib rd b (normal_source src) acc = add_source parse lib rd b src acc"
    and "source_certs parse lib rd b (normal_source src) = source_certs parse lib rd b src"
proof -
  from assms have one: "unionCount src = 1"
    and ref: "\<And>ref. bs_ConfigMap src = Some ref \<or> bs_Secret src = Some ref \<Longrightarrow> key_or_all ref" by (auto simp: plain_source_def)
  from one show "add_source parse lib rd b (normal_source src) acc = add_source parse lib rd b src acc"
    by (cases rule: unionCount_cases) (use ref in \<open>auto simp: add_source_def normal_source_def inline_only_def default_only_def
        normal_reference_same Let_def\<close>)
  from one show "source_certs parse lib rd b (normal_source src) = source_certs parse lib rd b src"
    by (cases rule: unionCount_cases) (use ref in \<open>auto simp: source_certs_def source_texts_def normal_source_def inline_only_def
        default_only_def normal_selector_same Let_def\<close>)
qed

lemma source_certs_parts:
  assumes "unionCount src = 1"
  shows "set (source_certs parse lib rd b src) =
     (if is_object src then set (source_certs parse lib rd b src) else {}) \<union> set (pem_certs parse (bs_InLine src)) \<union>
     (if bs_UseDefaultCAs src = Some True then set (source_certs parse lib rd b (default_only True)) else {})"
proof -
  have nil: "pem_certs parse [] = []" by (simp add: pem_certs_def pem_blocks_end [OF pem_Decode_Nil])
  from assms show ?thesis
    by (cases rule: unionCount_cases)
      (simp_all add: is_object_def inline_only_def default_only_def nil source_certs_def source_texts_def)
qed

lemma uses_default_iff: "unionCount src = 1 \<Longrightarrow> uses_default src \<longleftrightarrow> bs_UseDefaultCAs src = Some True"
  by (erule unionCount_cases) (auto simp: uses_default_def inline_only_def default_only_def)

lemma last_default_filter:
  "foldl last_default d srcs =
     (let xs = filter (\<lambda>s. bs_UseDefaultCAs s \<noteq> None) srcs in if xs = [] then d else bs_UseDefaultCAs (last xs))"
  by (induction srcs rule: rev_induct) (auto simp: last_default_def split: option.split)

lemma last_default_iff:
  assumes "length (filter (\<lambda>s. bs_UseDefaultCAs s \<noteq> None) srcs) \<le> 1"
  shows "foldl last_default None srcs = Some use \<longleftrightarrow> (\<exists>src \<in> set srcs. bs_UseDefaultCAs src = Some use)"
proof (cases "filter (\<lambda>s. bs_UseDefaultCAs s \<noteq> None) srcs")
  case Nil
  then have "\<forall>s \<in> set srcs. bs_UseDefaultCAs s = None" by (simp add: filter_empty_conv)
  with Nil show ?thesis by (auto simp: last_default_filter)
next
  case (Cons x xs)
  with assms have f: "filter (\<lambda>s. bs_UseDefaultCAs s \<noteq> None) srcs = [x]" by simp
  then have "{s \<in> set srcs. bs_UseDefaultCAs s \<noteq> None} = {x}" by (metis list.set(1) list.set(2) set_filter)
  with f show ?thesis by (auto simp: last_default_filter)
qed

lemma inline_builds:
  assumes "t \<noteq> []"
  shows "source_builds parse lib rd b (inline_only t) \<longleftrightarrow> (\<forall>blk \<in> set (pem_blocks t). block_result parse blk \<noteq> Rejected)"
proof -
  fix acc :: BundleData
  have "(\<exists>a. add_source parse lib rd b (inline_only t) acc = Ok a) \<longleftrightarrow> snd (AddCertsFromPEM_loop parse (bdl_CertPool acc) t) = None"
    using assms by (auto simp: add_source_def inline_only_def inlineBundleSource_addToCertPool_def AddCertsFromPEM_def Let_def
        split: prod.split option.split)
  then show ?thesis using source_builds_iff [of parse lib rd b "inline_only t" acc] by (simp add: AddCertsFromPEM_loop_ok)
qed

lemma admissible_plain:
  assumes "admissible val bd" and "src \<in> set (spec_Sources (bd_Spec bd))"
  shows "plain_source src"
  using assms by (fastforce simp: admissible_def source_ok_def selector_ok_def plain_source_def key_or_all_def Let_def in_set_conv_nth)

lemma set_normal_certs:
  assumes "\<And>src. src \<in> set srcs \<Longrightarrow> plain_source src" and "inline_pem srcs"
    and "length (filter (\<lambda>s. bs_UseDefaultCAs s \<noteq> None) srcs) \<le> 1"
  shows "set (all_certs parse lib rd b (normal_sources srcs)) = set (all_certs parse lib rd b srcs)"
proof -
  let ?certs = "\<lambda>src. set (source_certs parse lib rd b src)"
  let ?dflt = "if \<exists>src \<in> set srcs. bs_UseDefaultCAs src = Some True then ?certs (default_only True) else {}"
  have one: "unionCount src = 1" if "src \<in> set srcs" for src using assms(1) [OF that] by (simp add: plain_source_def)
  have nil: "pem_certs parse [] = []" by (simp add: pem_certs_def pem_blocks_end [OF pem_Decode_Nil])
  have joined: "set (pem_certs parse (foldl merge_inline [] srcs)) = (\<Union>src \<in> set srcs. set (pem_certs parse (bs_InLine src)))"
    using merge_inline_blocks [OF assms(2), of "[]"] pem_blocks_end [OF pem_Decode_Nil] by (auto simp: pem_certs_def)
  have "set (all_certs parse lib rd b (normal_sources srcs)) =
      (\<Union>src \<in> set (filter is_object srcs). ?certs (normal_source src)) \<union> set (pem_certs parse (foldl merge_inline [] srcs)) \<union> ?dflt"
  proof -
    have "?certs (inline_only t) = set (pem_certs parse t)" for t
      by (cases "t = []") (simp_all add: source_certs_def source_texts_def inline_only_def nil)
    moreover have "?certs (default_only False) = {}" by (simp add: source_certs_def source_texts_def default_only_def)
    moreover have "(case foldl last_default None srcs of None \<Rightarrow> {} | Some use \<Rightarrow> ?certs (default_only use)) = ?dflt"
      using last_default_iff [OF assms(3), of True] last_default_iff [OF assms(3), of False] calculation(2)
      by (auto split: option.split bool.split simp: all_bool_eq)
    ultimately show ?thesis
      by (auto simp: all_certs_def normal_sources_def nil split: option.splits if_splits)
  qed
  also have "\<dots> = (\<Union>src \<in> set srcs. ?certs src)"
  proof -
    have "(\<Union>src \<in> set (filter is_object srcs). ?certs (normal_source src)) = (\<Union>src \<in> set srcs. if is_object src then ?certs src else {})"
    proof -
      have "(\<Union>src \<in> set (filter is_object srcs). ?certs (normal_source src)) = (\<Union>src \<in> set (filter is_object srcs). ?certs src)"
        by (rule SUP_cong [OF refl]) (simp add: normal_source_same(2) [OF assms(1)])
      also have "\<dots> = (\<Union>src \<in> set srcs. if is_object src then ?certs src else {})" by auto
      finally show ?thesis .
    qed
    moreover have "(\<Union>src \<in> set srcs. ?certs src) = (\<Union>src \<in> set srcs.
       (if is_object src then ?certs src else {}) \<union> set (pem_certs parse (bs_InLine src)) \<union>
       (if bs_UseDefaultCAs src = Some True then ?certs (default_only True) else {}))"
      by (rule SUP_cong [OF refl]) (rule source_certs_parts [OF one])
    moreover have "(\<Union>src \<in> set srcs. if bs_UseDefaultCAs src = Some True then ?certs (default_only True) else {}) = ?dflt"
      by auto
    ultimately show ?thesis unfolding joined by (simp only: UN_Un_distrib)
  qed
  also have "\<dots> = set (all_certs parse lib rd b srcs)" by (simp add: all_certs_def)
  finally show ?thesis .
qed

lemma normal_sources_build:
  assumes "\<And>src. src \<in> set srcs \<Longrightarrow> plain_source src" and "inline_pem srcs"
    and "length (filter (\<lambda>s. bs_UseDefaultCAs s \<noteq> None) srcs) \<le> 1"
    and builds: "\<And>src. src \<in> set srcs \<Longrightarrow> source_builds parse lib rd b src"
    and "src' \<in> set (normal_sources srcs)"
  shows "source_builds parse lib rd b src'"
proof -
  have one: "unionCount src = 1" if "src \<in> set srcs" for src using assms(1) [OF that] by (simp add: plain_source_def)
  have inline: "src = inline_only (bs_InLine src)" if "src \<in> set srcs" "bs_InLine src \<noteq> []" for src
    using one [OF that(1)] by (rule unionCount_cases) (use that(2) in \<open>auto simp: inline_only_def default_only_def\<close>)
  have default: "src = default_only use" if "src \<in> set srcs" "bs_UseDefaultCAs src = Some use" for src use
    using one [OF that(1)] by (rule unionCount_cases) (use that(2) in \<open>auto simp: inline_only_def default_only_def\<close>)
  from assms(5) consider src where "src \<in> set srcs" "src' = normal_source src"
    | "foldl merge_inline [] srcs \<noteq> []" "src' = inline_only (foldl merge_inline [] srcs)"
    | use where "foldl last_default None srcs = Some use" "src' = default_only use"
    by (cases "foldl last_default None srcs") (auto simp: normal_sources_def split: if_splits)
  then show ?thesis
  proof cases
    case 1
    with builds show ?thesis by (simp add: source_builds_def normal_source_same(1) [OF assms(1) [OF 1(1)]])
  next
    case 2
    have "block_result parse blk \<noteq> Rejected" if blk: "blk \<in> set (pem_blocks (foldl merge_inline [] srcs))" for blk
    proof -
      from blk obtain src where src: "src \<in> set srcs" "blk \<in> set (pem_blocks (bs_InLine src))"
        using merge_inline_blocks [OF assms(2), of "[]"] pem_blocks_end [OF pem_Decode_Nil] by auto
      then have ne: "bs_InLine src \<noteq> []" using pem_blocks_end [OF pem_Decode_Nil] by auto
      with inline_builds [OF ne, of parse lib rd b] builds [OF src(1)] inline [OF src(1) ne] src(2) show ?thesis by metis
    qed
    with inline_builds [OF 2(1)] 2(2) show ?thesis by blast
  next
    case 3
    with last_default_iff [OF assms(3)] obtain src where "src \<in> set srcs" "bs_UseDefaultCAs src = Some use" by blast
    with 3 default builds show ?thesis by metis
  qed
qed

lemma normal_uses_default:
  assumes "\<And>src. src \<in> set srcs \<Longrightarrow> unionCount src = 1"
    and "length (filter (\<lambda>s. bs_UseDefaultCAs s \<noteq> None) srcs) \<le> 1"
  shows "list_ex uses_default (normal_sources srcs) = list_ex uses_default srcs"
proof -
  have obj: "\<not> uses_default (normal_source src)" if "is_object src" for src
    using that by (auto simp: uses_default_def normal_source_def is_object_def)
  have parts: "t \<noteq> [] \<Longrightarrow> \<not> uses_default (inline_only t)" "uses_default (default_only use) \<longleftrightarrow> use" for t use
    by (simp_all add: uses_default_def inline_only_def default_only_def)
  have "list_ex uses_default (normal_sources srcs) \<longleftrightarrow> foldl last_default None srcs = Some True"
    using obj parts by (cases "foldl last_default None srcs") (auto simp: normal_sources_def list_ex_iff)
  also have "\<dots> \<longleftrightarrow> list_ex uses_default srcs"
    using last_default_iff [OF assms(2), of True] uses_default_iff [OF assms(1)] by (auto simp: list_ex_iff)
  finally show ?thesis .
qed

text \<open>
  C4: Migration does not change trust. For an admitted Bundle whose inline sources are sequences of
  PEM-encoded certificates: when its sources resolve, the Bundle that comes back from its
  ClusterBundle resolves too, in the same cluster, to the byte-identical PEM bundle and the same
  version of the default package, although the inline sources were joined, the sources were
  reordered and defaults were filled in.
\<close>

theorem migration_preserves_trust:
  assumes "ValidateCreate val bd = []" and "has_target (spec_Target (bd_Spec bd))"
    and "no_star_keys bd" and "plain_annotations (bd_Meta bd)"
    and "inline_pem (spec_Sources (bd_Spec bd))"
    and "BuildBundle parse now lib rd b (spec_Sources (bd_Spec bd)) = Ok d"
    and "inj_on fingerprint (set (all_certs parse lib rd b (spec_Sources (bd_Spec bd))))"
  shows "\<exists>bd' cb' d'. ConvertFrom (fst (ConvertTo bd)) = Ok (bd', cb') \<and>
     BuildBundle parse now lib rd b (spec_Sources (bd_Spec bd')) = Ok d' \<and>
     PEM (Some (bdl_CertPool d')) = PEM (Some (bdl_CertPool d)) \<and>
     bdl_DefaultCAPackageStringID d' = bdl_DefaultCAPackageStringID d"
proof -
  let ?srcs = "spec_Sources (bd_Spec bd)"
  have adm: "admissible val bd" using assms(1) by (simp add: ValidateCreate_def validate_admissible)
  have cv: "list_all convertible ?srcs" by (rule admissible_convertible [OF adm assms(3)])
  obtain cb' where rt: "ConvertFrom (fst (ConvertTo bd)) = Ok (normal_Bundle bd, cb')"
    using convert_roundtrip [OF cv assms(2,4) admissible_formats_distinct [OF adm]] by blast
  have plain: "plain_source src" if "src \<in> set ?srcs" for src by (rule admissible_plain [OF adm that])
  have one_default: "length (filter (\<lambda>s. bs_UseDefaultCAs s \<noteq> None) ?srcs) \<le> 1" using adm by (simp add: admissible_def Let_def)
  from assms(6) have "\<exists>acc'. add_sources parse lib rd b ?srcs \<lparr>bdl_CertPool = build_pool now b, bdl_DefaultCAPackageStringID = []\<rparr> = Ok acc'"
    by (auto simp: BuildBundle_def res_simps Let_def build_pool_def new_pool_def split: if_splits)
  then have builds: "source_builds parse lib rd b src" if "src \<in> set ?srcs" for src using that add_sources_iff by blast
  obtain d' where "BuildBundle parse now lib rd b (normal_sources ?srcs) = Ok d'"
    "PEM (Some (bdl_CertPool d')) = PEM (Some (bdl_CertPool d))" "bdl_DefaultCAPackageStringID d' = bdl_DefaultCAPackageStringID d"
    using BuildBundle_same [OF assms(6) normal_sources_build [OF plain assms(5) one_default builds]
        set_normal_certs [OF plain assms(5) one_default] normal_uses_default assms(7)] plain one_default
    by (auto simp: plain_source_def)
  with rt show ?thesis by (simp add: normal_Bundle_def)
qed

lemma migration_preserves_trust_witness:
  "\<exists>bd' cb' d'. ConvertFrom (fst (ConvertTo example_bundle)) = Ok (bd', cb') \<and>
     BuildBundle example_parse 50 example_lib example_reader example_builder (spec_Sources (bd_Spec bd')) = Ok d' \<and>
     PEM (Some (bdl_CertPool d')) = PEM (Some (bdl_CertPool example_data))"
proof -
  have sources: "spec_Sources (bd_Spec example_bundle) = [example_inline]" by (simp add: example_spec)
  have "ValidateCreate accept_all example_bundle = []"
    using example_bundle_admitted [of "bd_Status example_bundle"] by (simp add: ValidateCreate_def)
  moreover have "has_target (spec_Target (bd_Spec example_bundle))" "no_star_keys example_bundle"
      "plain_annotations (bd_Meta example_bundle)"
    by (simp_all add: example_bundle_def has_target_def no_star_keys_def plain_annotations_def AnnotationKeyJKSKey_def)
  moreover have "pem_text [''ab''] example_pem" by (simp add: pem_text_def cert_text_def example_pem_def)
  then have "inline_pem (spec_Sources (bd_Spec example_bundle))"
    by (auto simp: sources inline_pem_def example_inline_def)
  moreover have "BuildBundle example_parse 50 example_lib example_reader example_builder (spec_Sources (bd_Spec example_bundle)) = Ok example_data"
    using example_ctl_build [of empty_status None "bd_Status example_bundle"] by (simp add: example_ctl_def)
  moreover have "inj_on fingerprint (set (all_certs example_parse example_lib example_reader example_builder (spec_Sources (bd_Spec example_bundle))))"
    by (simp add: sources all_certs_def source_certs_def source_texts_def example_inline_def example_certs example_pem_nonempty)
  ultimately show ?thesis using migration_preserves_trust by blast
qed

end
