(* ===== verification/HubRoundtrip.thy ===== *)
theory HubRoundtrip
  imports ConversionProperties
begin

text \<open>
  The way from ClusterBundle to Bundle and back. Bundles can express less than ClusterBundles, so
  the conversion loses what \<open>expressible\<close> excludes, and nothing else.
\<close>

section \<open>What a Bundle can express\<close>

definition known_kind :: "BundleSourceRef \<Rightarrow> bool" where
  "known_kind ref \<longleftrightarrow> sr_Kind ref = ConfigMapKind \<or> sr_Kind ref = SecretKind"

definition known_provider :: "string \<Rightarrow> bool" where
  "known_provider provider \<longleftrightarrow> provider \<in> {[], DefaultCAsProviderDisabled, DefaultCAsProviderSystem}"

definition plain_kv :: "TargetKeyValue \<Rightarrow> bool" where
  "plain_kv tkv \<longleftrightarrow> tkv_Format tkv = [] \<and> tkv_PKCS12 tkv = no_PKCS12"

definition p12_like :: "TargetKeyValue \<Rightarrow> bool" where
  "p12_like tkv \<longleftrightarrow> tkv_Format tkv = BundleFormatPKCS12 \<and> p2_Profile (tkv_PKCS12 tkv) \<noteq> []"

definition jks_like :: "TargetKeyValue \<Rightarrow> bool" where
  "jks_like tkv \<longleftrightarrow>
     tkv_Format tkv = BundleFormatPKCS12 \<and> p2_Password (tkv_PKCS12 tkv) \<noteq> None \<and> p2_Profile (tkv_PKCS12 tkv) = []"

text \<open>The entries after the first: a JKS store exactly when the annotation names one, then a PKCS #12 store.\<close>

definition format_entries :: "string option \<Rightarrow> TargetKeyValue list \<Rightarrow> bool" where
  "format_entries jksKey rest \<longleftrightarrow>
     (case jksKey of
        None \<Rightarrow> (case rest of [] \<Rightarrow> True | [p] \<Rightarrow> p12_like p | _ \<Rightarrow> False)
      | Some k \<Rightarrow>
          (case rest of
             [j] \<Rightarrow> tkv_Key j = k \<and> jks_like j
           | [j, p] \<Rightarrow> tkv_Key j = k \<and> jks_like j \<and> p12_like p \<and> tkv_Key p \<noteq> k
           | _ \<Rightarrow> False))"

definition kv_targets :: "BundleTarget_v2 \<Rightarrow> KeyValueTarget list" where
  "kv_targets t = (case bt2_Secret t of None \<Rightarrow> [] | Some s \<Rightarrow> [s]) @ (case bt2_ConfigMap t of None \<Rightarrow> [] | Some c \<Rightarrow> [c])"

definition expressible_data :: "string option \<Rightarrow> TargetKeyValue list \<Rightarrow> bool" where
  "expressible_data jksKey data \<longleftrightarrow> (case data of [] \<Rightarrow> False | pem # rest \<Rightarrow> plain_kv pem \<and> format_entries jksKey rest)"

definition expressible_target :: "string option \<Rightarrow> BundleTarget_v2 \<Rightarrow> bool" where
  "expressible_target jksKey t \<longleftrightarrow>
     (case kv_targets t of
        [] \<Rightarrow> jksKey = None
      | kvt # kvts \<Rightarrow>
          bt2_NamespaceSelector t \<noteq> None \<and> expressible_data jksKey (kvt_Data kvt) \<and>
          list_all (\<lambda>kvt'. expressible_data jksKey (kvt_Data kvt') \<and> tl (kvt_Data kvt') = tl (kvt_Data kvt)) kvts)"

definition jks_annotation :: "ClusterBundle \<Rightarrow> string option" where
  "jks_annotation cb = map_of (entries (om_Annotations (cb_Meta cb))) AnnotationKeyJKSKey"

definition expressible :: "ClusterBundle \<Rightarrow> bool" where
  "expressible cb \<longleftrightarrow>
     list_all known_kind (spec2_SourceRefs (cb_Spec cb)) \<and>
     known_provider (dca_Provider (spec2_DefaultCAs (cb_Spec cb))) \<and>
     expressible_target (jks_annotation cb) (spec2_Target (cb_Spec cb))"

text \<open>Equality that does not tell a nil from an empty annotation map, nor the order of its entries.\<close>

definition same_meta :: "ObjectMeta \<Rightarrow> ObjectMeta \<Rightarrow> bool" where
  "same_meta m m' \<longleftrightarrow> m\<lparr>om_Annotations := None\<rparr> = m'\<lparr>om_Annotations := None\<rparr> \<and>
     map_of (entries (om_Annotations m)) = map_of (entries (om_Annotations m'))"

definition same_ClusterBundle :: "ClusterBundle \<Rightarrow> ClusterBundle \<Rightarrow> bool" where
  "same_ClusterBundle a b \<longleftrightarrow> same_meta (cb_Meta a) (cb_Meta b) \<and> cb_Spec a = cb_Spec b \<and> cb_Status a = cb_Status b"

section \<open>Sources\<close>

definition ref_of_source :: "BundleSource \<Rightarrow> BundleSourceRef" where
  "ref_of_source src = fst (Convert_v1alpha1_BundleSource_To_v1alpha2_BundleSourceRef src
     \<lparr>spec2_SourceRefs = [], spec2_DefaultCAs = \<lparr>dca_Provider = []\<rparr>, spec2_InLineCAs = [],
      spec2_Target = \<lparr>bt2_ConfigMap = None, bt2_Secret = None, bt2_NamespaceSelector = None\<rparr>\<rparr>)"

lemma fst_convert_sources: "fst (convert_sources srcs spec) = map ref_of_source srcs"
  by (induction srcs arbitrary: spec)
    (simp_all add: ref_of_source_def Convert_v1alpha1_BundleSource_To_v1alpha2_BundleSourceRef_def Let_def case_prod_beta)

lemma ref_of_back:
  "ref_of_source (Convert_v1alpha2_BundleSourceRef_To_v1alpha1_BundleSource ref) = (if known_kind ref then ref else empty_sourceRef)"
  by (cases ref)
    (auto simp: ref_of_source_def Convert_v1alpha2_BundleSourceRef_To_v1alpha1_BundleSource_def known_kind_def Let_def
      Convert_v1alpha1_BundleSource_To_v1alpha2_BundleSourceRef_def selector_of_source_def ptr_Deref_def)

lemma empty_not_known [simp]: "\<not> known_kind empty_sourceRef"
  by (auto simp: known_kind_def empty_sourceRef_def ConfigMapKind_def SecretKind_def)

lemma refs_back:
  "filter (\<lambda>bs. bs \<noteq> empty_sourceRef) (map ref_of_source (map Convert_v1alpha2_BundleSourceRef_To_v1alpha1_BundleSource refs)) =
   filter known_kind refs"
  by (induction refs) (auto simp: ref_of_back)

lemma promoted_refs [simp]:
  "ref_of_source (inline_only cas) = empty_sourceRef" "ref_of_source (default_only use) = empty_sourceRef"
  by (simp_all add: ref_of_source_def Convert_v1alpha1_BundleSource_To_v1alpha2_BundleSourceRef_def selector_of_source_def
      inline_only_def default_only_def Let_def)

definition default_of_provider :: "DefaultCAsSource \<Rightarrow> bool option" where
  "default_of_provider d = (if dca_Provider d = [] then None else Some (dca_Provider d = DefaultCAsProviderSystem))"

text \<open>The sources that \<open>ConvertFrom\<close> writes.\<close>

definition sources_back :: "BundleSpec_v2 \<Rightarrow> BundleSource list" where
  "sources_back spec =
     map Convert_v1alpha2_BundleSourceRef_To_v1alpha1_BundleSource (spec2_SourceRefs spec)
     @ (if spec2_InLineCAs spec \<noteq> [] then [inline_only (spec2_InLineCAs spec)] else [])
     @ (case default_of_provider (spec2_DefaultCAs spec) of None \<Rightarrow> [] | Some use \<Rightarrow> [default_only use])"

lemma back_fields [simp]:
  "bs_InLine (Convert_v1alpha2_BundleSourceRef_To_v1alpha1_BundleSource ref) = []"
  "bs_UseDefaultCAs (Convert_v1alpha2_BundleSourceRef_To_v1alpha1_BundleSource ref) = None"
  "bs_InLine (inline_only cas) = cas" "bs_UseDefaultCAs (inline_only cas) = None"
  "bs_InLine (default_only use) = []" "bs_UseDefaultCAs (default_only use) = Some use"
  by (simp_all add: Convert_v1alpha2_BundleSourceRef_To_v1alpha1_BundleSource_def inline_only_def default_only_def Let_def)

lemma back_folds:
  "foldl merge_inline cas (map Convert_v1alpha2_BundleSourceRef_To_v1alpha1_BundleSource refs) = cas"
  "foldl last_default d (map Convert_v1alpha2_BundleSourceRef_To_v1alpha1_BundleSource refs) = d"
  by (induction refs) (simp_all add: merge_inline_def last_default_def)

lemma sources_back_convert:
  "filter (\<lambda>bs. bs \<noteq> empty_sourceRef) (map ref_of_source (sources_back spec)) = filter known_kind (spec2_SourceRefs spec)"
  "foldl merge_inline [] (sources_back spec) = spec2_InLineCAs spec"
  "foldl last_default None (sources_back spec) = default_of_provider (spec2_DefaultCAs spec)"
  using refs_back [of "spec2_SourceRefs spec"]
  by (auto simp: sources_back_def back_folds merge_inline_def last_default_def split: option.split)

lemma provider_back: "provider_of (default_of_provider d) = d \<longleftrightarrow> known_provider (dca_Provider d)"
  by (cases d) (auto simp: provider_of_def default_of_provider_def known_provider_def)

section \<open>Targets\<close>

lemma target_back:
  "Convert_v1alpha2_BundleTarget_To_v1alpha1_BundleTarget t2 meta = Ok (t, meta') \<longleftrightarrow>
     (\<exists>jks pkcs12. formats_of_kvs (entries (om_Annotations meta)) (kvs_of_target t2) None None = Ok (jks, pkcs12) \<and>
        t = \<lparr>bt_ConfigMap = map_option Convert_v1alpha2_KeyValueTarget_To_v1alpha1_TargetTemplate (bt2_ConfigMap t2),
             bt_Secret = map_option Convert_v1alpha2_KeyValueTarget_To_v1alpha1_TargetTemplate (bt2_Secret t2),
             bt_AdditionalFormats = (if jks \<noteq> None \<or> pkcs12 \<noteq> None then Some \<lparr>af_JKS = jks, af_PKCS12 = pkcs12\<rparr> else None),
             bt_NamespaceSelector = bt2_NamespaceSelector t2\<rparr> \<and>
        meta' = meta\<lparr>om_Annotations :=
          (if map_delete AnnotationKeyJKSKey (entries (om_Annotations meta)) = [] then None
           else Some (map_delete AnnotationKeyJKSKey (entries (om_Annotations meta))))\<rparr>)"
proof (cases "formats_of_kvs (entries (om_Annotations meta)) (kvs_of_target t2) None None")
  case (Ok fmts)
  then show ?thesis
    by (cases fmts)
      (auto simp: Convert_v1alpha2_BundleTarget_To_v1alpha1_BundleTarget_def autoConvert_v1alpha2_BundleTarget_To_v1alpha1_BundleTarget_def Let_def)
qed (simp_all add: Convert_v1alpha2_BundleTarget_To_v1alpha1_BundleTarget_def)

text \<open>The template of a key-value target, converted again, is the same target exactly if it lists the plain key and the formats.\<close>

lemma template_back_data:
  "expressible_data k data \<Longrightarrow>
   tt_Key (Convert_v1alpha2_KeyValueTarget_To_v1alpha1_TargetTemplate \<lparr>kvt_Data = data, kvt_Metadata = m\<rparr>) = tkv_Key (hd data)"
  by (cases data) (simp_all add: expressible_data_def plain_kv_def Convert_v1alpha2_KeyValueTarget_To_v1alpha1_TargetTemplate_def)

lemma template_back_metadata [simp]:
  "tt_Metadata (Convert_v1alpha2_KeyValueTarget_To_v1alpha1_TargetTemplate kvt) = kvt_Metadata kvt"
  by (cases "kvt_Metadata kvt")
    (simp add: Convert_v1alpha2_KeyValueTarget_To_v1alpha1_TargetTemplate_def autoConvert_v1alpha2_TargetMetadata_To_v1alpha1_TargetMetadata_def)

definition format_kvs :: "JKS option \<Rightarrow> PKCS12 option \<Rightarrow> TargetKeyValue list" where
  "format_kvs jks pkcs12 =
     (case jks of None \<Rightarrow> [] | Some j \<Rightarrow> [jks_kv j]) @ (case pkcs12 of None \<Rightarrow> [] | Some p \<Rightarrow> [pkcs12_kv p])"

lemma kvs_for_formats:
  "bt_AdditionalFormats t = (if jks \<noteq> None \<or> pkcs12 \<noteq> None then Some \<lparr>af_JKS = jks, af_PKCS12 = pkcs12\<rparr> else None) \<Longrightarrow>
   kvs_for t tm = \<lparr>tkv_Key = tt_Key tm, tkv_Format = [], tkv_PKCS12 = no_PKCS12\<rparr> # format_kvs jks pkcs12"
  by (cases jks; cases pkcs12) (auto simp: kvs_for_def format_kvs_def)

lemma jks_kv_back: "jks_like j \<Longrightarrow> \<exists>pw. p2_Password (tkv_PKCS12 j) = Some pw \<and> jks_kv \<lparr>jks_Key = tkv_Key j, jks_Password = pw\<rparr> = j"
  by (cases j; cases "tkv_PKCS12 j") (auto simp: jks_like_def jks_kv_def)

lemma p12_kv_back: "p12_like p \<Longrightarrow> pkcs12_kv (p12_of_kv p) = p"
  by (cases p; cases "tkv_PKCS12 p")
    (auto simp: p12_like_def pkcs12_kv_def p12_of_kv_def Convert_v1alpha1_PKCS12_To_v1alpha2_PKCS12_def)

lemma like_simps [simp]:
  "jks_like (jks_kv j)" "p12_like (pkcs12_kv p)"
  by (simp_all add: jks_like_def p12_like_def jks_kv_def pkcs12_kv_def Convert_v1alpha1_PKCS12_To_v1alpha2_PKCS12_def)

lemma formats_of_kvs_skip:
  "plain_kv pem \<Longrightarrow> \<not> (jks \<noteq> None \<and> pkcs12 \<noteq> None) \<Longrightarrow>
   formats_of_kvs an (pem # kvs) jks pkcs12 = formats_of_kvs an kvs jks pkcs12"
  by (auto simp: plain_kv_def)

text \<open>The formats found in one or two copies of the entries are those that give the entries back.\<close>

lemma formats_found:
  assumes "format_entries (map_of an AnnotationKeyJKSKey) rest"
    and "plain_kv pem" and "plain_kv pem'"
    and "kvs = pem # rest \<or> kvs = (pem # rest) @ (pem' # rest)"
  shows "\<exists>jks pkcs12. formats_of_kvs an kvs None None = Ok (jks, pkcs12) \<and> format_kvs jks pkcs12 = rest \<and>
     map_of an AnnotationKeyJKSKey = map_option jks_Key jks"
proof (cases "map_of an AnnotationKeyJKSKey")
  case None
  with assms show ?thesis
    by (auto simp: format_entries_def formats_of_kvs_skip plain_kv_def p12_like_def format_kvs_def
        p12_kv_back [unfolded p12_like_def] split: list.splits)
next
  case (Some k)
  with assms(1) consider j where "rest = [j]" "tkv_Key j = k" "jks_like j"
    | j p where "rest = [j, p]" "tkv_Key j = k" "jks_like j" "p12_like p" "tkv_Key p \<noteq> k"
    by (auto simp: format_entries_def split: list.splits)
  then show ?thesis
  proof cases
    case 1
    with jks_kv_back obtain pw where "p2_Password (tkv_PKCS12 j) = Some pw" "jks_kv \<lparr>jks_Key = tkv_Key j, jks_Password = pw\<rparr> = j" by blast
    with 1 Some assms(2-4) show ?thesis by (auto simp: format_kvs_def plain_kv_def jks_like_def)
  next
    case 2
    with jks_kv_back obtain pw where "p2_Password (tkv_PKCS12 j) = Some pw" "jks_kv \<lparr>jks_Key = tkv_Key j, jks_Password = pw\<rparr> = j" by blast
    with 2 Some assms(2-4) p12_kv_back [of p] show ?thesis by (auto simp: format_kvs_def plain_kv_def jks_like_def p12_like_def)
  qed
qed

lemma formats_of_kvs_key:
  "formats_of_kvs an kvs jks p12 = Ok (jks', p12') \<Longrightarrow>
   pred_option (\<lambda>p. map_of an AnnotationKeyJKSKey \<noteq> Some (p12_Key p)) p12 \<Longrightarrow>
   pred_option (\<lambda>p. map_of an AnnotationKeyJKSKey \<noteq> Some (p12_Key p)) p12'"
proof (induction kvs arbitrary: jks p12)
  case (Cons kv kvs)
  have key: "p12_Key (p12_of_kv kv) = tkv_Key kv" by (simp add: p12_of_kv_def)
  show ?case
    using Cons.prems
    by (cases "map_of an AnnotationKeyJKSKey = Some (tkv_Key kv)"; cases "tkv_Format kv = BundleFormatPKCS12")
      (auto simp: key split: if_splits option.splits dest: Cons.IH)
qed simp

text \<open>What the conversion of any formats writes is what \<open>format_entries\<close> asks for.\<close>

lemma format_entries_kvs:
  "format_entries (map_option jks_Key jks) (format_kvs jks p12) \<longleftrightarrow>
   (\<forall>j p. jks = Some j \<longrightarrow> p12 = Some p \<longrightarrow> p12_Key p \<noteq> jks_Key j)"
  by (cases jks; cases p12) (simp_all add: format_entries_def format_kvs_def)

lemma map_of_delete: "map_of (map_delete k m) = (map_of m)(k := None)"
  by (induction m) (auto simp: map_delete_def)

definition meta_back :: "ObjectMeta \<Rightarrow> ObjectMeta" where
  "meta_back meta = meta\<lparr>om_Annotations :=
     (if map_delete AnnotationKeyJKSKey (entries (om_Annotations meta)) = [] then None
      else Some (map_delete AnnotationKeyJKSKey (entries (om_Annotations meta))))\<rparr>"

lemma meta_back_annotated:
  "same_meta (annotated t (meta_back meta)) meta \<longleftrightarrow>
   map_of (entries (om_Annotations meta)) AnnotationKeyJKSKey = map_option jks_Key (Option.bind (bt_AdditionalFormats t) af_JKS)"
proof -
  have "entries (om_Annotations (meta_back meta)) = map_delete AnnotationKeyJKSKey (entries (om_Annotations meta))"
    by (simp add: meta_back_def)
  then have "map_of (entries (om_Annotations (annotated t (meta_back meta)))) =
      (map_of (entries (om_Annotations meta)))
        (AnnotationKeyJKSKey := map_option jks_Key (Option.bind (bt_AdditionalFormats t) af_JKS))"
    by (simp add: annotated_def set_annotation_def map_of_delete split: option.split)
  moreover have "(annotated t (meta_back meta))\<lparr>om_Annotations := None\<rparr> = meta\<lparr>om_Annotations := None\<rparr>"
    by (simp add: annotated_def set_annotation_def meta_back_def split: option.split)
  ultimately show ?thesis by (simp add: same_meta_def fun_upd_idem_iff)
qed

text \<open>The target that comes back, converted again.\<close>

definition target_of :: "JKS option \<Rightarrow> PKCS12 option \<Rightarrow> BundleTarget_v2 \<Rightarrow> BundleTarget" where
  "target_of jks pkcs12 t2 =
     \<lparr>bt_ConfigMap = map_option Convert_v1alpha2_KeyValueTarget_To_v1alpha1_TargetTemplate (bt2_ConfigMap t2),
      bt_Secret = map_option Convert_v1alpha2_KeyValueTarget_To_v1alpha1_TargetTemplate (bt2_Secret t2),
      bt_AdditionalFormats = (if jks \<noteq> None \<or> pkcs12 \<noteq> None then Some \<lparr>af_JKS = jks, af_PKCS12 = pkcs12\<rparr> else None),
      bt_NamespaceSelector = bt2_NamespaceSelector t2\<rparr>"

lemma target_of_jks: "Option.bind (bt_AdditionalFormats (target_of jks pkcs12 t2)) af_JKS = jks"
  by (simp add: target_of_def)

lemma kv_targets_Nil: "kv_targets t2 = [] \<longleftrightarrow> bt2_ConfigMap t2 = None \<and> bt2_Secret t2 = None"
  by (auto simp: kv_targets_def split: option.split)

lemma no_target_again:
  assumes "kv_targets t2 = []"
  shows "Convert_v1alpha1_BundleTarget_To_v1alpha2_BundleTarget (target_of None None t2) meta = (t2, meta)"
  using assms
  by (cases t2) (simp add: kv_targets_Nil Convert_v1alpha1_BundleTarget_To_v1alpha2_BundleTarget_def target_of_def
      autoConvert_v1alpha1_BundleTarget_To_v1alpha2_BundleTarget_def Let_def)

definition data_matches :: "JKS option \<Rightarrow> PKCS12 option \<Rightarrow> TargetKeyValue list \<Rightarrow> bool" where
  "data_matches jks pkcs12 data \<longleftrightarrow> (case data of [] \<Rightarrow> False | pem # rest \<Rightarrow> plain_kv pem \<and> rest = format_kvs jks pkcs12)"

lemma kv_target_again:
  "kv_target (target_of jks pkcs12 t2) (Convert_v1alpha2_KeyValueTarget_To_v1alpha1_TargetTemplate kvt) = kvt \<longleftrightarrow>
   data_matches jks pkcs12 (kvt_Data kvt)"
proof -
  have data: "kvs_for (target_of jks pkcs12 t2) (Convert_v1alpha2_KeyValueTarget_To_v1alpha1_TargetTemplate kvt) =
     \<lparr>tkv_Key = tt_Key (Convert_v1alpha2_KeyValueTarget_To_v1alpha1_TargetTemplate kvt), tkv_Format = [], tkv_PKCS12 = no_PKCS12\<rparr>
       # format_kvs jks pkcs12"
    by (rule kvs_for_formats) (simp add: target_of_def)
  have key: "\<lparr>tkv_Key = tt_Key (Convert_v1alpha2_KeyValueTarget_To_v1alpha1_TargetTemplate kvt), tkv_Format = [], tkv_PKCS12 = no_PKCS12\<rparr> = pem
      \<longleftrightarrow> plain_kv pem" if "kvt_Data kvt = pem # rest" for pem rest
    using that by (cases pem)
      (auto simp: plain_kv_def Convert_v1alpha2_KeyValueTarget_To_v1alpha1_TargetTemplate_def)
  have "kv_target (target_of jks pkcs12 t2) (Convert_v1alpha2_KeyValueTarget_To_v1alpha1_TargetTemplate kvt) = kvt \<longleftrightarrow>
     \<lparr>tkv_Key = tt_Key (Convert_v1alpha2_KeyValueTarget_To_v1alpha1_TargetTemplate kvt), tkv_Format = [], tkv_PKCS12 = no_PKCS12\<rparr>
       # format_kvs jks pkcs12 = kvt_Data kvt"
    using data by (metis KeyValueTarget.cases KeyValueTarget.select_convs(1,2) kv_target_def template_back_metadata)
  also have "\<dots> \<longleftrightarrow> data_matches jks pkcs12 (kvt_Data kvt)"
    by (cases "kvt_Data kvt") (auto simp: data_matches_def key)
  finally show ?thesis .
qed

lemma target_again:
  assumes "kv_targets t2 \<noteq> []"
  shows "fst (Convert_v1alpha1_BundleTarget_To_v1alpha2_BundleTarget (target_of jks pkcs12 t2) meta) = t2 \<longleftrightarrow>
     bt2_NamespaceSelector t2 \<noteq> None \<and> list_all (\<lambda>kvt. data_matches jks pkcs12 (kvt_Data kvt)) (kv_targets t2)"
proof -
  have has: "has_target (target_of jks pkcs12 t2)" using assms by (auto simp: has_target_def target_of_def kv_targets_Nil)
  have again: "map_option (kv_target (target_of jks pkcs12 t2))
      (map_option Convert_v1alpha2_KeyValueTarget_To_v1alpha1_TargetTemplate x) = x \<longleftrightarrow>
      (\<forall>kvt. x = Some kvt \<longrightarrow> data_matches jks pkcs12 (kvt_Data kvt))" for x
    by (cases x) (simp_all add: kv_target_again)
  have fields: "bt_ConfigMap (target_of jks pkcs12 t2) = map_option Convert_v1alpha2_KeyValueTarget_To_v1alpha1_TargetTemplate (bt2_ConfigMap t2)"
    "bt_Secret (target_of jks pkcs12 t2) = map_option Convert_v1alpha2_KeyValueTarget_To_v1alpha1_TargetTemplate (bt2_Secret t2)"
    "bt_NamespaceSelector (target_of jks pkcs12 t2) = bt2_NamespaceSelector t2"
    by (simp_all add: target_of_def)
  have "\<lparr>bt2_ConfigMap = c, bt2_Secret = s, bt2_NamespaceSelector = n\<rparr> = t2 \<longleftrightarrow>
      c = bt2_ConfigMap t2 \<and> s = bt2_Secret t2 \<and> n = bt2_NamespaceSelector t2" for c s n
    by (cases t2) auto
  then show ?thesis
    by (auto simp: convert_target [OF has] again fields kv_targets_def normal_target_def split: option.splits)
qed

lemma data_matches_expressible:
  assumes "pred_option (\<lambda>p. map_option jks_Key jks \<noteq> Some (p12_Key p)) pkcs12"
  shows "data_matches jks pkcs12 data \<Longrightarrow> expressible_data (map_option jks_Key jks) data \<and> tl data = format_kvs jks pkcs12"
  using assms by (cases data; cases jks; cases pkcs12)
    (auto simp: data_matches_def expressible_data_def format_entries_kvs format_entries_def format_kvs_def)

lemma expressible_data_matches:
  "expressible_data k data \<Longrightarrow> tl data = format_kvs jks pkcs12 \<Longrightarrow> data_matches jks pkcs12 data"
  by (cases data) (auto simp: data_matches_def expressible_data_def)

text \<open>A target comes back unchanged exactly if it is expressible.\<close>

lemma target_again_expressible:
  "(\<exists>jks pkcs12. formats_of_kvs (entries (om_Annotations meta)) (kvs_of_target t2) None None = Ok (jks, pkcs12) \<and>
      fst (Convert_v1alpha1_BundleTarget_To_v1alpha2_BundleTarget (target_of jks pkcs12 t2) (meta_back meta)) = t2 \<and>
      same_meta (snd (Convert_v1alpha1_BundleTarget_To_v1alpha2_BundleTarget (target_of jks pkcs12 t2) (meta_back meta))) meta) \<longleftrightarrow>
   expressible_target (map_of (entries (om_Annotations meta)) AnnotationKeyJKSKey) t2"
  (is "?again \<longleftrightarrow> expressible_target ?k t2")
proof (cases "kv_targets t2")
  case Nil
  then have "kvs_of_target t2 = []" by (simp add: kvs_of_target_def kv_targets_Nil)
  moreover have "same_meta (meta_back meta) meta \<longleftrightarrow> ?k = None"
    using meta_back_annotated [of "target_of None None t2" meta] by (simp add: annotated_def target_of_def)
  ultimately show ?thesis using Nil by (simp add: no_target_again expressible_target_def)
next
  case (Cons kvt kvts)
  then have some: "kv_targets t2 \<noteq> []" by simp
  then have has: "has_target (target_of jks pkcs12 t2)" for jks pkcs12
    by (auto simp: has_target_def target_of_def kv_targets_Nil)
  have meta: "same_meta (snd (Convert_v1alpha1_BundleTarget_To_v1alpha2_BundleTarget (target_of jks pkcs12 t2) (meta_back meta))) meta
      \<longleftrightarrow> ?k = map_option jks_Key jks" for jks pkcs12
    by (simp add: convert_target [OF has] meta_back_annotated target_of_jks)
  have kvs: "kvs_of_target t2 = concat (map kvt_Data (kv_targets t2))"
    by (simp add: kvs_of_target_def kv_targets_def split: option.split)
  have few: "kvts = [] \<or> (\<exists>kvt'. kvts = [kvt'])"
    using Cons by (auto simp: kv_targets_def split: option.splits)
  show ?thesis
  proof
    assume ?again
    then obtain jks pkcs12 where found: "formats_of_kvs (entries (om_Annotations meta)) (kvs_of_target t2) None None = Ok (jks, pkcs12)"
      and sel: "bt2_NamespaceSelector t2 \<noteq> None" and data: "list_all (\<lambda>kvt. data_matches jks pkcs12 (kvt_Data kvt)) (kv_targets t2)"
      and k: "?k = map_option jks_Key jks"
      by (auto simp: target_again [OF some] meta)
    from formats_of_kvs_key [OF found] k have "pred_option (\<lambda>p. map_option jks_Key jks \<noteq> Some (p12_Key p)) pkcs12" by simp
    note match = data_matches_expressible [OF this]
    from data match have "expressible_data ?k (kvt_Data x) \<and> tl (kvt_Data x) = format_kvs jks pkcs12" if "x \<in> set (kvt # kvts)" for x
      using that Cons k by (auto simp: list_all_iff)
    with sel Cons show "expressible_target ?k t2" by (simp add: expressible_target_def list_all_iff)
  next
    assume "expressible_target ?k t2"
    with Cons have sel: "bt2_NamespaceSelector t2 \<noteq> None" and first: "expressible_data ?k (kvt_Data kvt)"
      and rest: "list_all (\<lambda>kvt'. expressible_data ?k (kvt_Data kvt') \<and> tl (kvt_Data kvt') = tl (kvt_Data kvt)) kvts"
      by (simp_all add: expressible_target_def)
    have shape: "\<exists>pem. data = pem # tl data \<and> plain_kv pem \<and> format_entries ?k (tl data)" if "expressible_data ?k data" for data
      using that by (cases data) (auto simp: expressible_data_def)
    from shape [OF first] obtain pem where pem: "kvt_Data kvt = pem # tl (kvt_Data kvt)" "plain_kv pem" "format_entries ?k (tl (kvt_Data kvt))" by blast
    have "\<exists>pem'. plain_kv pem' \<and> (kvs_of_target t2 = pem # tl (kvt_Data kvt) \<or>
        kvs_of_target t2 = (pem # tl (kvt_Data kvt)) @ (pem' # tl (kvt_Data kvt)))"
      using few rest shape pem unfolding kvs Cons by (auto simp: list_all_iff) metis+
    then obtain pem' where "plain_kv pem'" "kvs_of_target t2 = pem # tl (kvt_Data kvt) \<or>
        kvs_of_target t2 = (pem # tl (kvt_Data kvt)) @ (pem' # tl (kvt_Data kvt))" by blast
    from formats_found [OF pem(3,2) this] obtain jks pkcs12
      where found: "formats_of_kvs (entries (om_Annotations meta)) (kvs_of_target t2) None None = Ok (jks, pkcs12)"
        and formats: "format_kvs jks pkcs12 = tl (kvt_Data kvt)" and k: "?k = map_option jks_Key jks" by blast
    have "list_all (\<lambda>kvt. data_matches jks pkcs12 (kvt_Data kvt)) (kv_targets t2)"
      using first rest expressible_data_matches formats unfolding Cons by (auto simp: list_all_iff)
    with found sel k show ?again by (auto simp: target_again [OF some] meta)
  qed
qed

section \<open>ClusterBundle to Bundle and back\<close>

lemma ConvertFrom_parts:
  "(\<exists>cb'. ConvertFrom cb = Ok (bd, cb')) \<longleftrightarrow>
     (\<exists>jks pkcs12. formats_of_kvs (entries (om_Annotations (cb_Meta cb))) (kvs_of_target (spec2_Target (cb_Spec cb))) None None = Ok (jks, pkcs12) \<and>
        bd = \<lparr>bd_Meta = meta_back (cb_Meta cb),
              bd_Spec = \<lparr>spec_Sources = sources_back (cb_Spec cb), spec_Target = target_of jks pkcs12 (spec2_Target (cb_Spec cb))\<rparr>,
              bd_Status = cb_Status cb\<rparr>)"
proof -
  have default: "(if spec2_DefaultCAs spec \<noteq> \<lparr>dca_Provider = []\<rparr> then [\<lparr>bs_ConfigMap = None, bs_Secret = None, bs_InLine = [],
      bs_UseDefaultCAs = Some (dca_Provider (spec2_DefaultCAs spec) = DefaultCAsProviderSystem)\<rparr>] else []) =
      (case default_of_provider (spec2_DefaultCAs spec) of None \<Rightarrow> [] | Some use \<Rightarrow> [default_only use])" for spec
    by (cases "spec2_DefaultCAs spec") (simp add: default_of_provider_def default_only_def)
  have sources: "map Convert_v1alpha2_BundleSourceRef_To_v1alpha1_BundleSource (spec2_SourceRefs spec)
      @ (if spec2_InLineCAs spec \<noteq> [] then [\<lparr>bs_ConfigMap = None, bs_Secret = None, bs_InLine = spec2_InLineCAs spec, bs_UseDefaultCAs = None\<rparr>] else [])
      @ (if spec2_DefaultCAs spec \<noteq> \<lparr>dca_Provider = []\<rparr> then [\<lparr>bs_ConfigMap = None, bs_Secret = None, bs_InLine = [],
          bs_UseDefaultCAs = Some (dca_Provider (spec2_DefaultCAs spec) = DefaultCAsProviderSystem)\<rparr>] else [])
      = sources_back spec" for spec
    unfolding default by (simp add: sources_back_def inline_only_def)
  have status: "autoConvert_v1alpha2_BundleStatus_To_v1alpha1_BundleStatus st = st" for st
    by (cases st) (simp add: autoConvert_v1alpha2_BundleStatus_To_v1alpha1_BundleStatus_def)
  let ?f = "formats_of_kvs (entries (om_Annotations (cb_Meta cb))) (kvs_of_target (spec2_Target (cb_Spec cb))) None None"
  let ?c = "Convert_v1alpha2_BundleTarget_To_v1alpha1_BundleTarget (spec2_Target (cb_Spec cb)) (cb_Meta cb)"
  have from_target: "ConvertFrom cb = bind_res ?c (\<lambda>(target, meta). Ok (\<lparr>bd_Meta = meta,
        bd_Spec = \<lparr>spec_Sources = sources_back (cb_Spec cb), spec_Target = target\<rparr>, bd_Status = cb_Status cb\<rparr>,
        cb\<lparr>cb_Meta := (cb_Meta cb)\<lparr>om_Annotations :=
          map_option (map_delete AnnotationKeyJKSKey) (om_Annotations (cb_Meta cb))\<rparr>\<rparr>))"
    unfolding ConvertFrom_def Convert_v1alpha2_BundleSpec_To_v1alpha1_BundleSpec_def autoConvert_v1alpha2_BundleSpec_To_v1alpha1_BundleSpec_def sources status
    by (cases ?c) auto
  show ?thesis
  proof (cases ?f)
    case (Ok fmts)
    obtain jks pkcs12 where fmts: "fmts = (jks, pkcs12)" by force
    have "?c = Ok (target_of jks pkcs12 (spec2_Target (cb_Spec cb)), meta_back (cb_Meta cb))"
      unfolding target_back using Ok fmts by (simp add: target_of_def meta_back_def)
    then show ?thesis using Ok fmts by (auto simp: from_target)
  qed (simp_all add: from_target Convert_v1alpha2_BundleTarget_To_v1alpha1_BundleTarget_def)
qed

lemma ConvertTo_again:
  "same_ClusterBundle (fst (ConvertTo \<lparr>bd_Meta = meta_back (cb_Meta cb),
      bd_Spec = \<lparr>spec_Sources = sources_back (cb_Spec cb), spec_Target = t\<rparr>, bd_Status = cb_Status cb\<rparr>)) cb \<longleftrightarrow>
   list_all known_kind (spec2_SourceRefs (cb_Spec cb)) \<and> known_provider (dca_Provider (spec2_DefaultCAs (cb_Spec cb))) \<and>
   fst (Convert_v1alpha1_BundleTarget_To_v1alpha2_BundleTarget t (meta_back (cb_Meta cb))) = spec2_Target (cb_Spec cb) \<and>
   same_meta (snd (Convert_v1alpha1_BundleTarget_To_v1alpha2_BundleTarget t (meta_back (cb_Meta cb)))) (cb_Meta cb)"
proof -
  have status: "autoConvert_v1alpha1_BundleStatus_To_v1alpha2_BundleStatus st = st" for st
    by (cases st) (simp add: autoConvert_v1alpha1_BundleStatus_To_v1alpha2_BundleStatus_def)
  have spec: "\<lparr>spec2_SourceRefs = r, spec2_DefaultCAs = d, spec2_InLineCAs = i, spec2_Target = u\<rparr> = spec2 \<longleftrightarrow>
      r = spec2_SourceRefs spec2 \<and> d = spec2_DefaultCAs spec2 \<and> i = spec2_InLineCAs spec2 \<and> u = spec2_Target spec2" for r d i u spec2
    by (cases spec2) auto
  have kinds: "filter known_kind refs = refs \<longleftrightarrow> list_all known_kind refs" for refs
    by (simp add: filter_id_conv list_all_iff)
  show ?thesis
    by (auto simp: ConvertTo_def convert_spec fst_convert_sources sources_back_convert same_ClusterBundle_def spec status provider_back kinds)
qed

text \<open>
  C12: A ClusterBundle is the same after its conversion to Bundle and back exactly if it is
  expressible as a Bundle: its references have a known kind, its default provider is known, and
  each target starts with a plain entry, is followed by the same at most two trust stores, one of
  them a JKS store exactly when the internal annotation names its key, and has a namespace selector.
  Otherwise the conversion panics or loses something.
\<close>

theorem ConvertFrom_ConvertTo_iff_expressible:
  "(\<exists>bd cb'. ConvertFrom cb = Ok (bd, cb') \<and> same_ClusterBundle (fst (ConvertTo bd)) cb) \<longleftrightarrow> expressible cb"
proof -
  have "(\<exists>bd cb'. ConvertFrom cb = Ok (bd, cb') \<and> same_ClusterBundle (fst (ConvertTo bd)) cb) \<longleftrightarrow>
      (\<exists>bd. (\<exists>cb'. ConvertFrom cb = Ok (bd, cb')) \<and> same_ClusterBundle (fst (ConvertTo bd)) cb)" by blast
  also have "\<dots> \<longleftrightarrow> expressible cb"
    unfolding ConvertFrom_parts expressible_def jks_annotation_def
    using ConvertTo_again [of cb] target_again_expressible [of "cb_Meta cb" "spec2_Target (cb_Spec cb)"] by auto
  finally show ?thesis .
qed

text \<open>Whatever \<open>ConvertTo\<close> writes for a Bundle with a target is expressible, so a migrated ClusterBundle is stable.\<close>

lemma ref_of_source_known: "ref_of_source src \<noteq> empty_sourceRef \<Longrightarrow> known_kind (ref_of_source src)"
  by (auto simp: ref_of_source_def Convert_v1alpha1_BundleSource_To_v1alpha2_BundleSourceRef_def selector_of_source_def known_kind_def
      Let_def split: option.splits)

lemma known_provider_of: "known_provider (dca_Provider (provider_of d))"
  by (auto simp: provider_of_def known_provider_def split: option.split)

lemma kvs_for_expressible:
  assumes "\<And>af. bt_AdditionalFormats t = Some af \<Longrightarrow> distinct (map snd (format_specs af))"
  shows "expressible_data (map_option jks_Key (Option.bind (bt_AdditionalFormats t) af_JKS)) (kvs_for t tm)"
    and "tl (kvs_for t tm) = tl (kvs_for t tm')"
proof -
  show "expressible_data (map_option jks_Key (Option.bind (bt_AdditionalFormats t) af_JKS)) (kvs_for t tm)"
  proof (cases "bt_AdditionalFormats t")
    case (Some af)
    with assms show ?thesis
      by (cases "af_JKS af"; cases "af_PKCS12 af")
        (auto simp: expressible_data_def kvs_for_def plain_kv_def format_entries_def format_specs_def)
  qed (simp add: expressible_data_def kvs_for_def plain_kv_def format_entries_def)
qed (simp add: kvs_for_def)

lemma ConvertTo_expressible:
  assumes "has_target (spec_Target (bd_Spec bd))" and "plain_annotations (bd_Meta bd)"
    and "\<And>af. bt_AdditionalFormats (spec_Target (bd_Spec bd)) = Some af \<Longrightarrow> distinct (map snd (format_specs af))"
  shows "expressible (fst (ConvertTo bd))"
proof -
  let ?t = "spec_Target (bd_Spec bd)"
  let ?k = "map_option jks_Key (Option.bind (bt_AdditionalFormats ?t) af_JKS)"
  from assms(2) have "map_of (entries (om_Annotations (bd_Meta bd))) AnnotationKeyJKSKey = None"
    by (simp add: plain_annotations_def map_of_eq_None_iff)
  then have annotation: "map_of (entries (om_Annotations (annotated ?t (bd_Meta bd)))) AnnotationKeyJKSKey = ?k"
    by (simp add: annotated_def set_annotation_def split: option.split)
  have kvts: "kv_targets \<lparr>bt2_ConfigMap = map_option (kv_target ?t) c, bt2_Secret = map_option (kv_target ?t) s, bt2_NamespaceSelector = n\<rparr> =
      map (kv_target ?t) ((case s of None \<Rightarrow> [] | Some x \<Rightarrow> [x]) @ (case c of None \<Rightarrow> [] | Some x \<Rightarrow> [x]))" for c s n
    by (simp add: kv_targets_def split: option.split)
  have data: "expressible_data ?k (kvt_Data (kv_target ?t tm))" "tl (kvt_Data (kv_target ?t tm)) = tl (kvt_Data (kv_target ?t tm'))" for tm tm'
    using kvs_for_expressible [OF assms(3)] by (simp_all add: kv_target_def)
  have "expressible_target ?k (fst (Convert_v1alpha1_BundleTarget_To_v1alpha2_BundleTarget ?t (bd_Meta bd)))"
    using assms(1) data unfolding has_target_def
    by (auto simp: convert_target [OF assms(1)] expressible_target_def kvts normal_target_def list_all_iff split: option.split)
  then show ?thesis
    by (auto simp: expressible_def jks_annotation_def ConvertTo_def convert_spec annotation convert_target [OF assms(1)]
        fst_convert_sources known_provider_of list_all_iff dest: ref_of_source_known)
qed

end
