(* ===== verification/Scheme.thy ===== *)
theory Scheme
  imports ConversionProperties BundleController
begin

text \<open>
  Registration with the Kubernetes scheme, and the conversions as the code calls them: \<open>register.go\<close>
  of both API packages, \<open>RegisterConversions\<close> and the wrappers of \<open>zz_generated.conversion.go\<close>, and
  the methods \<open>ConvertTo\<close> and \<open>ConvertFrom\<close> of Bundle, which build a scheme and ask its converter for
  the function that is registered for a pair of Go types. The scheme itself is a parameter.
\<close>

section \<open>Values behind \<open>interface{}\<close>\<close>

datatype api_value =
    V1_Bundle Bundle | V1_BundleSpec BundleSpec | V1_BundleSource BundleSource | V1_BundleTarget BundleTarget
  | V1_PKCS12 PKCS12 | V1_TargetTemplate TargetTemplate | V1_TargetMetadata TargetMetadata | V1_BundleStatus BundleStatus
  | V2_ClusterBundle ClusterBundle | V2_BundleSpec BundleSpec_v2 | V2_BundleSourceRef BundleSourceRef | V2_BundleTarget BundleTarget_v2
  | V2_PKCS12 PKCS12_v2 | V2_KeyValueTarget KeyValueTarget | V2_TargetMetadata TargetMetadata | V2_BundleStatus BundleStatus

datatype go_type =
    T1_Bundle | T1_BundleSpec | T1_BundleSource | T1_BundleTarget | T1_PKCS12 | T1_TargetTemplate | T1_TargetMetadata | T1_BundleStatus
  | T2_ClusterBundle | T2_BundleSpec | T2_BundleSourceRef | T2_BundleTarget | T2_PKCS12 | T2_KeyValueTarget | T2_TargetMetadata | T2_BundleStatus

primrec type_of :: "api_value \<Rightarrow> go_type" where
  "type_of (V1_Bundle x) = T1_Bundle"
| "type_of (V1_BundleSpec x) = T1_BundleSpec"
| "type_of (V1_BundleSource x) = T1_BundleSource"
| "type_of (V1_BundleTarget x) = T1_BundleTarget"
| "type_of (V1_PKCS12 x) = T1_PKCS12"
| "type_of (V1_TargetTemplate x) = T1_TargetTemplate"
| "type_of (V1_TargetMetadata x) = T1_TargetMetadata"
| "type_of (V1_BundleStatus x) = T1_BundleStatus"
| "type_of (V2_ClusterBundle x) = T2_ClusterBundle"
| "type_of (V2_BundleSpec x) = T2_BundleSpec"
| "type_of (V2_BundleSourceRef x) = T2_BundleSourceRef"
| "type_of (V2_BundleTarget x) = T2_BundleTarget"
| "type_of (V2_PKCS12 x) = T2_PKCS12"
| "type_of (V2_KeyValueTarget x) = T2_KeyValueTarget"
| "type_of (V2_TargetMetadata x) = T2_TargetMetadata"
| "type_of (V2_BundleStatus x) = T2_BundleStatus"

text \<open>
  A conversion function takes the source, the destination and the context object of the scope. The
  destination points to a zero value of its type, so only its type matters; the result is the new
  destination and the context. The context is a ClusterBundle on the way to the hub and a Bundle
  on the way back.
\<close>

datatype scope = HubScope ClusterBundle | SpokeScope Bundle

type_synonym conversion_func = "api_value \<Rightarrow> api_value \<Rightarrow> scope \<Rightarrow> (api_value \<times> scope) res"

definition assertion_failed :: "'a res" where
  "assertion_failed = Panic ''interface conversion''"

text \<open>A conversion that does not look at the context, after the two type assertions.\<close>

definition plain_conversion :: "go_type \<Rightarrow> (api_value \<Rightarrow> api_value option) \<Rightarrow> conversion_func" where
  "plain_conversion dst f a b sc =
     (if type_of b \<noteq> dst then assertion_failed
      else case f a of None \<Rightarrow> assertion_failed | Some v \<Rightarrow> Ok (v, sc))"

text \<open>Conversions that write into the ClusterBundle of the scope, if the input makes them assert its type.\<close>

definition in_hub :: "bool \<Rightarrow> scope \<Rightarrow> (ClusterBundle \<Rightarrow> api_value \<times> ClusterBundle) \<Rightarrow> (api_value \<times> scope) res" where
  "in_hub needed sc f =
     (case sc of
        HubScope cb \<Rightarrow> Ok (fst (f cb), HubScope (snd (f cb)))
      | SpokeScope bd \<Rightarrow> if needed then assertion_failed else Ok (fst (f empty_ClusterBundle), sc))"

definition in_spoke :: "scope \<Rightarrow> (Bundle \<Rightarrow> (api_value \<times> Bundle) res) \<Rightarrow> (api_value \<times> scope) res" where
  "in_spoke sc f =
     (case sc of
        SpokeScope bd \<Rightarrow> bind_res (f bd) (\<lambda>(v, bd'). Ok (v, SpokeScope bd'))
      | HubScope cb \<Rightarrow> assertion_failed)"

definition target_asserts_scope :: "BundleTarget \<Rightarrow> bool" where
  "target_asserts_scope t \<longleftrightarrow>
     (bt_ConfigMap t \<noteq> None \<or> bt_Secret t \<noteq> None \<or> bt_NamespaceSelector t \<noteq> None) \<and>
     Option.bind (bt_AdditionalFormats t) af_JKS \<noteq> None"

definition source_asserts_scope :: "BundleSource \<Rightarrow> bool" where
  "source_asserts_scope src \<longleftrightarrow> bs_InLine src \<noteq> [] \<or> bs_UseDefaultCAs src \<noteq> None"

section \<open>Generated wrappers\<close>

definition Convert_v1alpha1_BundleStatus_To_v1alpha2_BundleStatus :: "BundleStatus \<Rightarrow> BundleStatus" where
  "Convert_v1alpha1_BundleStatus_To_v1alpha2_BundleStatus st = autoConvert_v1alpha1_BundleStatus_To_v1alpha2_BundleStatus st"

definition Convert_v1alpha2_BundleStatus_To_v1alpha1_BundleStatus :: "BundleStatus \<Rightarrow> BundleStatus" where
  "Convert_v1alpha2_BundleStatus_To_v1alpha1_BundleStatus st = autoConvert_v1alpha2_BundleStatus_To_v1alpha1_BundleStatus st"

definition autoConvert_v1alpha2_PKCS12_To_v1alpha1_PKCS12 :: "PKCS12_v2 \<Rightarrow> PKCS12" where
  \<comment> \<open>the key is not part of the v1alpha2 type and stays the zero value\<close>
  "autoConvert_v1alpha2_PKCS12_To_v1alpha1_PKCS12 p = \<lparr>p12_Key = [], p12_Password = p2_Password p, p12_Profile = p2_Profile p\<rparr>"

definition Convert_v1alpha2_PKCS12_To_v1alpha1_PKCS12 :: "PKCS12_v2 \<Rightarrow> PKCS12" where
  "Convert_v1alpha2_PKCS12_To_v1alpha1_PKCS12 p = autoConvert_v1alpha2_PKCS12_To_v1alpha1_PKCS12 p"

definition Convert_v1alpha1_TargetMetadata_To_v1alpha2_TargetMetadata :: "TargetMetadata \<Rightarrow> TargetMetadata" where
  "Convert_v1alpha1_TargetMetadata_To_v1alpha2_TargetMetadata m = autoConvert_v1alpha1_TargetMetadata_To_v1alpha2_TargetMetadata m"

definition Convert_v1alpha2_TargetMetadata_To_v1alpha1_TargetMetadata :: "TargetMetadata \<Rightarrow> TargetMetadata" where
  "Convert_v1alpha2_TargetMetadata_To_v1alpha1_TargetMetadata m = autoConvert_v1alpha2_TargetMetadata_To_v1alpha1_TargetMetadata m"

section \<open>The functions that are registered\<close>

text \<open>
  One definition per closure of \<open>RegisterConversions\<close>. The specification is converted into the
  \<open>Spec\<close> field of the context object, as in \<open>ConvertTo\<close>; promoted sources are written there.
\<close>

datatype registration =
    AddGeneratedConversionFunc go_type go_type conversion_func
  | AddConversionFunc go_type go_type conversion_func

definition BundleSource_to_hub :: conversion_func where
  "BundleSource_to_hub a b sc =
     (if type_of b \<noteq> T2_BundleSourceRef then assertion_failed
      else case a of
        V1_BundleSource src \<Rightarrow> in_hub (source_asserts_scope src) sc
          (\<lambda>cb. let (ref, spec) = Convert_v1alpha1_BundleSource_To_v1alpha2_BundleSourceRef src (cb_Spec cb)
                in (V2_BundleSourceRef ref, cb\<lparr>cb_Spec := spec\<rparr>))
      | _ \<Rightarrow> assertion_failed)"

definition BundleSpec_to_hub :: conversion_func where
  "BundleSpec_to_hub a b sc =
     (if type_of b \<noteq> T2_BundleSpec then assertion_failed
      else case a of
        V1_BundleSpec spec \<Rightarrow> in_hub (target_asserts_scope (spec_Target spec) \<or> list_ex source_asserts_scope (spec_Sources spec)) sc
          (\<lambda>cb. let (spec2, meta) = Convert_v1alpha1_BundleSpec_To_v1alpha2_BundleSpec spec (cb_Meta cb)
                in (V2_BundleSpec spec2, cb\<lparr>cb_Meta := meta, cb_Spec := spec2\<rparr>))
      | _ \<Rightarrow> assertion_failed)"

definition BundleTarget_to_hub :: conversion_func where
  "BundleTarget_to_hub a b sc =
     (if type_of b \<noteq> T2_BundleTarget then assertion_failed
      else case a of
        V1_BundleTarget t \<Rightarrow> in_hub (target_asserts_scope t) sc
          (\<lambda>cb. let (t2, meta) = Convert_v1alpha1_BundleTarget_To_v1alpha2_BundleTarget t (cb_Meta cb)
                in (V2_BundleTarget t2, cb\<lparr>cb_Meta := meta\<rparr>))
      | _ \<Rightarrow> assertion_failed)"

definition BundleSpec_to_spoke :: conversion_func where
  "BundleSpec_to_spoke a b sc =
     (if type_of b \<noteq> T1_BundleSpec then assertion_failed
      else case a of
        V2_BundleSpec spec \<Rightarrow> in_spoke sc
          (\<lambda>bd. bind_res (Convert_v1alpha2_BundleSpec_To_v1alpha1_BundleSpec spec (bd_Meta bd))
                (\<lambda>(spec1, meta). Ok (V1_BundleSpec spec1, bd\<lparr>bd_Meta := meta, bd_Spec := spec1\<rparr>)))
      | _ \<Rightarrow> assertion_failed)"

definition BundleTarget_to_spoke :: conversion_func where
  "BundleTarget_to_spoke a b sc =
     (if type_of b \<noteq> T1_BundleTarget then assertion_failed
      else case a of
        V2_BundleTarget t \<Rightarrow> in_spoke sc
          (\<lambda>bd. bind_res (Convert_v1alpha2_BundleTarget_To_v1alpha1_BundleTarget t (bd_Meta bd))
                (\<lambda>(t1, meta). Ok (V1_BundleTarget t1, bd\<lparr>bd_Meta := meta\<rparr>)))
      | _ \<Rightarrow> assertion_failed)"

definition plain_value :: "api_value \<Rightarrow> api_value option" where
  "plain_value v =
     (case v of
        V1_BundleStatus x \<Rightarrow> Some (V2_BundleStatus (Convert_v1alpha1_BundleStatus_To_v1alpha2_BundleStatus x))
      | V2_BundleStatus x \<Rightarrow> Some (V1_BundleStatus (Convert_v1alpha2_BundleStatus_To_v1alpha1_BundleStatus x))
      | V2_PKCS12 x \<Rightarrow> Some (V1_PKCS12 (Convert_v1alpha2_PKCS12_To_v1alpha1_PKCS12 x))
      | V1_PKCS12 x \<Rightarrow> Some (V2_PKCS12 (Convert_v1alpha1_PKCS12_To_v1alpha2_PKCS12 x))
      | V1_TargetMetadata x \<Rightarrow> Some (V2_TargetMetadata (Convert_v1alpha1_TargetMetadata_To_v1alpha2_TargetMetadata x))
      | V2_TargetMetadata x \<Rightarrow> Some (V1_TargetMetadata (Convert_v1alpha2_TargetMetadata_To_v1alpha1_TargetMetadata x))
      | V1_TargetTemplate x \<Rightarrow> Some (V2_KeyValueTarget (Convert_v1alpha1_TargetTemplate_To_v1alpha2_KeyValueTarget x))
      | V2_KeyValueTarget x \<Rightarrow> Some (V1_TargetTemplate (Convert_v1alpha2_KeyValueTarget_To_v1alpha1_TargetTemplate x))
      | V2_BundleSourceRef x \<Rightarrow> Some (V1_BundleSource (Convert_v1alpha2_BundleSourceRef_To_v1alpha1_BundleSource x))
      | _ \<Rightarrow> None)"

text \<open>The closure for a pair of types asserts both and calls the conversion of that name.\<close>

definition plain_closure :: "go_type \<Rightarrow> go_type \<Rightarrow> conversion_func" where
  "plain_closure src dst = plain_conversion dst (\<lambda>a. if type_of a = src then plain_value a else None)"

definition registrations :: "registration list" where
  "registrations =
     [AddGeneratedConversionFunc T1_BundleStatus T2_BundleStatus (plain_closure T1_BundleStatus T2_BundleStatus),
      AddGeneratedConversionFunc T2_BundleStatus T1_BundleStatus (plain_closure T2_BundleStatus T1_BundleStatus),
      AddGeneratedConversionFunc T2_PKCS12 T1_PKCS12 (plain_closure T2_PKCS12 T1_PKCS12),
      AddGeneratedConversionFunc T1_TargetMetadata T2_TargetMetadata (plain_closure T1_TargetMetadata T2_TargetMetadata),
      AddGeneratedConversionFunc T2_TargetMetadata T1_TargetMetadata (plain_closure T2_TargetMetadata T1_TargetMetadata),
      AddConversionFunc T1_BundleSource T2_BundleSourceRef BundleSource_to_hub,
      AddConversionFunc T1_BundleSpec T2_BundleSpec BundleSpec_to_hub,
      AddConversionFunc T1_BundleTarget T2_BundleTarget BundleTarget_to_hub,
      AddConversionFunc T1_PKCS12 T2_PKCS12 (plain_closure T1_PKCS12 T2_PKCS12),
      AddConversionFunc T1_TargetTemplate T2_KeyValueTarget (plain_closure T1_TargetTemplate T2_KeyValueTarget),
      AddConversionFunc T2_BundleSourceRef T1_BundleSource (plain_closure T2_BundleSourceRef T1_BundleSource),
      AddConversionFunc T2_BundleSpec T1_BundleSpec BundleSpec_to_spoke,
      AddConversionFunc T2_BundleTarget T1_BundleTarget BundleTarget_to_spoke,
      AddConversionFunc T2_KeyValueTarget T1_TargetTemplate (plain_closure T2_KeyValueTarget T1_TargetTemplate)]"

section \<open>The scheme\<close>

text \<open>What the program uses of \<open>runtime.Scheme\<close>: every call returns the scheme it leaves and its error.\<close>

record group_version =
  gv_Group :: string
  gv_Version :: string

record 's scheme_lib =
  sl_NewScheme :: 's
  sl_BuilderAddToScheme :: "('s \<Rightarrow> 's \<times> gerr option) list \<Rightarrow> 's \<Rightarrow> 's \<times> gerr option"
  sl_AddKnownTypes :: "group_version \<Rightarrow> string list \<Rightarrow> 's \<Rightarrow> 's"
  sl_AddToGroupVersion :: "group_version \<Rightarrow> 's \<Rightarrow> 's"
  sl_AddGeneratedConversionFunc :: "go_type \<Rightarrow> go_type \<Rightarrow> conversion_func \<Rightarrow> 's \<Rightarrow> 's \<times> gerr option"
  sl_AddConversionFunc :: "go_type \<Rightarrow> go_type \<Rightarrow> conversion_func \<Rightarrow> 's \<Rightarrow> 's \<times> gerr option"
  sl_Convert :: "'s \<Rightarrow> conversion_func"

text \<open>Calls in sequence, up to the first that fails: \<open>if err := f(s); err != nil { return err }\<close>.\<close>

fun run_until_error :: "('s \<Rightarrow> 's \<times> gerr option) list \<Rightarrow> 's \<Rightarrow> 's \<times> gerr option" where
  "run_until_error [] s = (s, None)"
| "run_until_error (f # fs) s = (case f s of (s', Some err) \<Rightarrow> (s', Some err) | (s', None) \<Rightarrow> run_until_error fs s')"

definition register_func :: "'s scheme_lib \<Rightarrow> registration \<Rightarrow> 's \<Rightarrow> 's \<times> gerr option" where
  "register_func lib r s =
     (case r of
        AddGeneratedConversionFunc a b f \<Rightarrow> sl_AddGeneratedConversionFunc lib a b f s
      | AddConversionFunc a b f \<Rightarrow> sl_AddConversionFunc lib a b f s)"

definition RegisterConversions :: "'s scheme_lib \<Rightarrow> 's \<Rightarrow> 's \<times> gerr option" where
  "RegisterConversions lib = run_until_error (map (register_func lib) registrations)"

definition GroupName :: string where "GroupName = ''trust.cert-manager.io''"

definition GroupName_v2 :: string where "GroupName_v2 = ''trust-manager.io''"

definition SchemeGroupVersion :: group_version where
  "SchemeGroupVersion = \<lparr>gv_Group = GroupName, gv_Version = ''v1alpha1''\<rparr>"

definition SchemeGroupVersion_v2 :: group_version where
  "SchemeGroupVersion_v2 = \<lparr>gv_Group = GroupName_v2, gv_Version = ''v1alpha2''\<rparr>"

definition addKnownTypes :: "'s scheme_lib \<Rightarrow> 's \<Rightarrow> 's \<times> gerr option" where
  "addKnownTypes lib s =
     (sl_AddToGroupVersion lib SchemeGroupVersion (sl_AddKnownTypes lib SchemeGroupVersion [''Bundle'', ''BundleList''] s), None)"

definition addKnownTypes_v2 :: "'s scheme_lib \<Rightarrow> 's \<Rightarrow> 's \<times> gerr option" where
  "addKnownTypes_v2 lib s =
     (sl_AddToGroupVersion lib SchemeGroupVersion_v2
        (sl_AddKnownTypes lib SchemeGroupVersion_v2 [''ClusterBundle'', ''ClusterBundleList''] s), None)"

text \<open>
  A scheme builder is a slice of functions. The local builder is a copy of the exported one, so what
  \<open>init\<close> registers is in the copy only.
\<close>

type_synonym 's scheme_builder = "('s \<Rightarrow> 's \<times> gerr option) list"

definition schemeBuilder :: "'s scheme_lib \<Rightarrow> 's scheme_builder" where
  "schemeBuilder lib = [addKnownTypes lib]"

definition schemeBuilder_v2 :: "'s scheme_lib \<Rightarrow> 's scheme_builder" where
  "schemeBuilder_v2 lib = [addKnownTypes_v2 lib]"

definition localSchemeBuilder :: "'s scheme_lib \<Rightarrow> 's scheme_builder" where
  "localSchemeBuilder lib = schemeBuilder lib @ [RegisterConversions lib]"

definition AddToScheme :: "'s scheme_lib \<Rightarrow> 's \<Rightarrow> 's \<times> gerr option" where
  "AddToScheme lib = sl_BuilderAddToScheme lib (schemeBuilder lib)"

definition AddToScheme_v2 :: "'s scheme_lib \<Rightarrow> 's \<Rightarrow> 's \<times> gerr option" where
  "AddToScheme_v2 lib = sl_BuilderAddToScheme lib (schemeBuilder_v2 lib)"

section \<open>The methods of Bundle\<close>

primrec type_name :: "go_type \<Rightarrow> string" where
  "type_name T1_Bundle = ''*v1alpha1.Bundle''"
| "type_name T1_BundleSpec = ''*v1alpha1.BundleSpec''"
| "type_name T1_BundleSource = ''*v1alpha1.BundleSource''"
| "type_name T1_BundleTarget = ''*v1alpha1.BundleTarget''"
| "type_name T1_PKCS12 = ''*v1alpha1.PKCS12''"
| "type_name T1_TargetTemplate = ''*v1alpha1.TargetTemplate''"
| "type_name T1_TargetMetadata = ''*v1alpha1.TargetMetadata''"
| "type_name T1_BundleStatus = ''*v1alpha1.BundleStatus''"
| "type_name T2_ClusterBundle = ''*v1alpha2.ClusterBundle''"
| "type_name T2_BundleSpec = ''*v1alpha2.BundleSpec''"
| "type_name T2_BundleSourceRef = ''*v1alpha2.BundleSourceRef''"
| "type_name T2_BundleTarget = ''*v1alpha2.BundleTarget''"
| "type_name T2_PKCS12 = ''*v1alpha2.PKCS12''"
| "type_name T2_KeyValueTarget = ''*v1alpha2.KeyValueTarget''"
| "type_name T2_TargetMetadata = ''*v1alpha2.TargetMetadata''"
| "type_name T2_BundleStatus = ''*v1alpha2.BundleStatus''"

text \<open>
  The converter writes through the pointers \<open>&dst.Spec\<close> and \<open>&dst.Status\<close>, while the context is
  \<open>dst\<close> itself. The object converted into has the zero value in both fields.
\<close>

definition hub_written :: "api_value \<Rightarrow> scope \<Rightarrow> ClusterBundle" where
  "hub_written v sc =
     (let cb = (case sc of HubScope cb \<Rightarrow> cb | SpokeScope _ \<Rightarrow> empty_ClusterBundle)
      in case v of V2_BundleSpec spec \<Rightarrow> cb\<lparr>cb_Spec := spec\<rparr> | V2_BundleStatus st \<Rightarrow> cb\<lparr>cb_Status := st\<rparr> | _ \<Rightarrow> cb)"

definition empty_Bundle :: Bundle where
  "empty_Bundle = \<lparr>bd_Meta = empty_ObjectMeta,
     bd_Spec = \<lparr>spec_Sources = [], spec_Target = \<lparr>bt_ConfigMap = None, bt_Secret = None, bt_AdditionalFormats = None, bt_NamespaceSelector = None\<rparr>\<rparr>,
     bd_Status = \<lparr>st_Conditions = [], st_DefaultCAPackageVersion = []\<rparr>\<rparr>"

definition spoke_written :: "api_value \<Rightarrow> scope \<Rightarrow> Bundle" where
  "spoke_written v sc =
     (let bd = (case sc of SpokeScope bd \<Rightarrow> bd | HubScope _ \<Rightarrow> empty_Bundle)
      in case v of V1_BundleSpec spec \<Rightarrow> bd\<lparr>bd_Spec := spec\<rparr> | V1_BundleStatus st \<Rightarrow> bd\<lparr>bd_Status := st\<rparr> | _ \<Rightarrow> bd)"

definition conversion_scheme :: "'s scheme_lib \<Rightarrow> 's \<times> gerr option" where
  "conversion_scheme lib = sl_BuilderAddToScheme lib (localSchemeBuilder lib) (sl_NewScheme lib)"

definition Bundle_ConvertTo :: "'s scheme_lib \<Rightarrow> Bundle \<Rightarrow> api_value \<Rightarrow> (ClusterBundle \<times> Bundle) res" where
  "Bundle_ConvertTo lib src dstRaw =
     (case dstRaw of
        V2_ClusterBundle dst \<Rightarrow>
          (let dst1 = dst\<lparr>cb_Meta := bd_Meta src\<rparr>;
               (scheme, err) = conversion_scheme lib
           in case err of
                Some e \<Rightarrow> Err e
              | None \<Rightarrow>
                  bind_res (sl_Convert lib scheme (V1_BundleSpec (bd_Spec src)) (V2_BundleSpec (cb_Spec dst1)) (HubScope dst1))
                    (\<lambda>(v, sc). let dst2 = hub_written v sc in
                      bind_res (sl_Convert lib scheme (V1_BundleStatus (bd_Status src)) (V2_BundleStatus (cb_Status dst2)) (HubScope dst2))
                        (\<lambda>(v', sc'). let dst3 = hub_written v' sc' in
                          Ok (dst3\<lparr>cb_Spec := (cb_Spec dst3)\<lparr>spec2_SourceRefs :=
                                filter (\<lambda>bs. bs \<noteq> empty_sourceRef) (spec2_SourceRefs (cb_Spec dst3))\<rparr>\<rparr>,
                              src\<lparr>bd_Meta := share_annotations (cb_Meta dst3) (bd_Meta src)\<rparr>))))
      | v \<Rightarrow> Err (Errorf (''expected a ClusterBundle, but got a '' @ type_name (type_of v))))"

definition Bundle_ConvertFrom :: "'s scheme_lib \<Rightarrow> api_value \<Rightarrow> (Bundle \<times> ClusterBundle) res" where
  "Bundle_ConvertFrom lib srcRaw =
     (case srcRaw of
        V2_ClusterBundle src \<Rightarrow>
          (let dst1 = empty_Bundle\<lparr>bd_Meta := cb_Meta src\<rparr>;
               (scheme, err) = conversion_scheme lib
           in case err of
                Some e \<Rightarrow> Err e
              | None \<Rightarrow>
                  bind_res (sl_Convert lib scheme (V2_BundleSpec (cb_Spec src)) (V1_BundleSpec (bd_Spec dst1)) (SpokeScope dst1))
                    (\<lambda>(v, sc). let dst2 = spoke_written v sc in
                      bind_res (sl_Convert lib scheme (V2_BundleStatus (cb_Status src)) (V1_BundleStatus (bd_Status dst2)) (SpokeScope dst2))
                        (\<lambda>(v', sc'). Ok (spoke_written v' sc',
                           src\<lparr>cb_Meta := (cb_Meta src)\<lparr>om_Annotations :=
                             map_option (map_delete AnnotationKeyJKSKey) (om_Annotations (cb_Meta src))\<rparr>\<rparr>))))
      | v \<Rightarrow> Err (Errorf (''expected a ClusterBundle, but got a '' @ type_name (type_of v))))"

end
