(* ===== verification/SchemeTheorems.thy ===== *)
theory SchemeTheorems
  imports Scheme
begin

text \<open>
  What the registration achieves: on a scheme that behaves as documented, the methods of Bundle are
  the direct conversions of \<open>Conversion\<close>, the type assertions of the registered functions hold, and
  only the local scheme builder knows the conversions.
\<close>

section \<open>Registered functions\<close>

primrec reg_pair :: "registration \<Rightarrow> go_type \<times> go_type" where
  "reg_pair (AddGeneratedConversionFunc a b f) = (a, b)"
| "reg_pair (AddConversionFunc a b f) = (a, b)"

primrec reg_func :: "registration \<Rightarrow> conversion_func" where
  "reg_func (AddGeneratedConversionFunc a b f) = f"
| "reg_func (AddConversionFunc a b f) = f"

definition registered :: "go_type \<times> go_type \<Rightarrow> conversion_func option" where
  "registered = map_of (map (\<lambda>r. (reg_pair r, reg_func r)) registrations)"

lemma registered_simps [simp]:
  "registered (T1_BundleSpec, T2_BundleSpec) = Some BundleSpec_to_hub"
  "registered (T2_BundleSpec, T1_BundleSpec) = Some BundleSpec_to_spoke"
  "registered (T1_BundleStatus, T2_BundleStatus) = Some (plain_closure T1_BundleStatus T2_BundleStatus)"
  "registered (T2_BundleStatus, T1_BundleStatus) = Some (plain_closure T2_BundleStatus T1_BundleStatus)"
  by (simp_all add: registered_def registrations_def)

lemma distinct_pairs: "distinct (map reg_pair registrations)"
  by (simp add: registrations_def)

text \<open>The context is a ClusterBundle for a conversion to the hub, and a Bundle for one from it.\<close>

definition to_hub :: "go_type \<Rightarrow> bool" where
  "to_hub t \<longleftrightarrow> t \<in> {T1_BundleSpec, T1_BundleSource, T1_BundleTarget, T1_PKCS12, T1_TargetTemplate, T1_TargetMetadata, T1_BundleStatus}"

definition scope_fits :: "scope \<Rightarrow> go_type \<Rightarrow> bool" where
  "scope_fits sc src \<longleftrightarrow> (case sc of HubScope cb \<Rightarrow> to_hub src | SpokeScope bd \<Rightarrow> \<not> to_hub src)"

lemma nil_panic_text:
  "formats_of_kvs an kvs jks p12 = Panic msg \<Longrightarrow> msg = ''runtime error: invalid memory address or nil pointer dereference''"
  by (induction an kvs jks p12 rule: formats_of_kvs.induct) (auto split: if_splits option.splits)

definition well_typed_result :: "(api_value \<times> scope) res \<Rightarrow> go_type \<Rightarrow> go_type \<Rightarrow> bool" where
  "well_typed_result r src dst \<longleftrightarrow>
     (case r of
        Ok (v, sc) \<Rightarrow> type_of v = dst \<and> scope_fits sc src
      | Err err \<Rightarrow> False
      | Panic msg \<Rightarrow> msg = ''runtime error: invalid memory address or nil pointer dereference'')"

lemma target_to_spoke_typed:
  "well_typed_result (BundleTarget_to_spoke (V2_BundleTarget t) (V1_BundleTarget t1) (SpokeScope bd)) T2_BundleTarget T1_BundleTarget"
  by (cases "formats_of_kvs (entries (om_Annotations (bd_Meta bd))) (kvs_of_target t) None None")
    (auto simp: BundleTarget_to_spoke_def in_spoke_def Convert_v1alpha2_BundleTarget_To_v1alpha1_BundleTarget_def well_typed_result_def
      scope_fits_def to_hub_def Let_def formats_of_kvs_no_Err dest: nil_panic_text)

lemma spec_to_spoke_typed:
  "well_typed_result (BundleSpec_to_spoke (V2_BundleSpec spec) (V1_BundleSpec spec1) (SpokeScope bd)) T2_BundleSpec T1_BundleSpec"
  by (cases "formats_of_kvs (entries (om_Annotations (bd_Meta bd))) (kvs_of_target (spec2_Target spec)) None None")
    (auto simp: BundleSpec_to_spoke_def in_spoke_def Convert_v1alpha2_BundleSpec_To_v1alpha1_BundleSpec_def autoConvert_v1alpha2_BundleSpec_To_v1alpha1_BundleSpec_def
      Convert_v1alpha2_BundleTarget_To_v1alpha1_BundleTarget_def well_typed_result_def
      scope_fits_def to_hub_def Let_def formats_of_kvs_no_Err dest: nil_panic_text)

lemma type_of_D:
  "type_of a = T1_BundleSpec \<Longrightarrow> \<exists>x. a = V1_BundleSpec x" "type_of a = T1_BundleTarget \<Longrightarrow> \<exists>x. a = V1_BundleTarget x"
  "type_of a = T1_BundleSource \<Longrightarrow> \<exists>x. a = V1_BundleSource x"
  "type_of a = T2_BundleSpec \<Longrightarrow> \<exists>x. a = V2_BundleSpec x" "type_of a = T2_BundleTarget \<Longrightarrow> \<exists>x. a = V2_BundleTarget x"
  by (cases a; simp)+

lemma hub_scope: "scope_fits sc src \<Longrightarrow> to_hub src \<Longrightarrow> \<exists>cb. sc = HubScope cb"
  and spoke_scope: "scope_fits sc src \<Longrightarrow> \<not> to_hub src \<Longrightarrow> \<exists>bd. sc = SpokeScope bd"
  by (auto simp: scope_fits_def split: scope.splits)

definition well_typed :: "registration \<Rightarrow> bool" where
  "well_typed r \<longleftrightarrow> (\<forall>a b sc. (type_of a, type_of b) = reg_pair r \<longrightarrow> scope_fits sc (type_of a) \<longrightarrow>
     well_typed_result (reg_func r a b sc) (type_of a) (type_of b))"

definition plain_pair :: "go_type \<Rightarrow> go_type \<Rightarrow> bool" where
  "plain_pair src dst \<longleftrightarrow> (\<forall>a. type_of a = src \<longrightarrow> (\<exists>v. plain_value a = Some v \<and> type_of v = dst))"

lemma plain_closure_typed: "plain_pair (type_of a) (type_of b) \<Longrightarrow> scope_fits sc (type_of a) \<Longrightarrow>
    well_typed_result (plain_closure (type_of a) (type_of b) a b sc) (type_of a) (type_of b)"
  by (auto simp: plain_pair_def plain_closure_def plain_conversion_def well_typed_result_def)

lemma plain_typed:
  assumes "plain_pair src dst"
  shows "well_typed (AddGeneratedConversionFunc src dst (plain_closure src dst))"
    and "well_typed (AddConversionFunc src dst (plain_closure src dst))"
  using assms plain_closure_typed by (auto simp: well_typed_def)

lemma plain_value_pair:
  "plain_pair T1_BundleStatus T2_BundleStatus" "plain_pair T2_BundleStatus T1_BundleStatus" "plain_pair T2_PKCS12 T1_PKCS12"
  "plain_pair T1_PKCS12 T2_PKCS12" "plain_pair T1_TargetMetadata T2_TargetMetadata" "plain_pair T2_TargetMetadata T1_TargetMetadata"
  "plain_pair T1_TargetTemplate T2_KeyValueTarget" "plain_pair T2_KeyValueTarget T1_TargetTemplate"
  "plain_pair T2_BundleSourceRef T1_BundleSource"
  unfolding plain_pair_def plain_value_def by (rule allI, case_tac a; simp)+

lemma to_hub_typed:
  "well_typed (AddConversionFunc T1_BundleSource T2_BundleSourceRef BundleSource_to_hub)"
  "well_typed (AddConversionFunc T1_BundleSpec T2_BundleSpec BundleSpec_to_hub)"
  "well_typed (AddConversionFunc T1_BundleTarget T2_BundleTarget BundleTarget_to_hub)"
  by (auto simp: well_typed_def to_hub_def BundleSource_to_hub_def BundleSpec_to_hub_def BundleTarget_to_hub_def in_hub_def
      well_typed_result_def case_prod_beta scope_fits_def split: scope.splits dest!: type_of_D)

lemma to_spoke_typed:
  "well_typed (AddConversionFunc T2_BundleSpec T1_BundleSpec BundleSpec_to_spoke)"
  "well_typed (AddConversionFunc T2_BundleTarget T1_BundleTarget BundleTarget_to_spoke)"
  using spoke_scope
  by (fastforce simp: well_typed_def to_hub_def spec_to_spoke_typed target_to_spoke_typed dest: type_of_D)+

lemma registrations_typed: "list_all well_typed registrations"
  unfolding registrations_def by (simp only: list.pred_inject plain_typed [OF plain_value_pair(1)] plain_typed [OF plain_value_pair(2)]
      plain_typed [OF plain_value_pair(3)] plain_typed [OF plain_value_pair(4)] plain_typed [OF plain_value_pair(5)]
      plain_typed [OF plain_value_pair(6)] plain_typed [OF plain_value_pair(7)] plain_typed [OF plain_value_pair(8)]
      plain_typed [OF plain_value_pair(9)] to_hub_typed to_spoke_typed simp_thms)

lemma registered_typed:
  assumes "registered (type_of a, type_of b) = Some f" and "scope_fits sc (type_of a)"
  shows "well_typed_result (f a b sc) (type_of a) (type_of b)"
proof -
  from assms(1) obtain r where "r \<in> set registrations" "reg_pair r = (type_of a, type_of b)" "reg_func r = f"
    using map_of_SomeD [of "map (\<lambda>r. (reg_pair r, reg_func r)) registrations"] unfolding registered_def by fastforce
  with registrations_typed assms(2) show ?thesis by (metis list_all_iff well_typed_def)
qed

section \<open>The scheme as documented\<close>

text \<open>
  \<open>manual\<close> and \<open>generated\<close> are the two tables of the converter. A function replaces an earlier one for
  the same pair; a manual function has precedence; the conversions of the library are between other
  types than those of the program.
\<close>

locale kubernetes_scheme =
  fixes lib :: "'s scheme_lib" and manual generated :: "'s \<Rightarrow> go_type \<times> go_type \<Rightarrow> conversion_func option"
  assumes builder: "sl_BuilderAddToScheme lib fs s = run_until_error fs s"
    and fresh: "manual (sl_NewScheme lib) = Map.empty" "generated (sl_NewScheme lib) = Map.empty"
    and add_generated: "\<exists>s'. sl_AddGeneratedConversionFunc lib a b f s = (s', None) \<and>
      generated s' = (generated s)((a, b) \<mapsto> f) \<and> manual s' = manual s"
    and add_manual: "\<exists>s'. sl_AddConversionFunc lib a b f s = (s', None) \<and>
      manual s' = (manual s)((a, b) \<mapsto> f) \<and> generated s' = generated s"
    and known_types: "manual (sl_AddKnownTypes lib gv names s) = manual s" "generated (sl_AddKnownTypes lib gv names s) = generated s"
      "manual (sl_AddToGroupVersion lib gv s) = manual s" "generated (sl_AddToGroupVersion lib gv s) = generated s"
    and convert_manual: "manual s (type_of x, type_of y) = Some f \<Longrightarrow> sl_Convert lib s x y sc = f x y sc"
    and convert_generated: "manual s (type_of x, type_of y) = None \<Longrightarrow> generated s (type_of x, type_of y) = Some f \<Longrightarrow>
      sl_Convert lib s x y sc = f x y sc"
    and convert_unknown: "manual s (type_of x, type_of y) = None \<Longrightarrow> generated s (type_of x, type_of y) = None \<Longrightarrow>
      \<exists>err. sl_Convert lib s x y sc = Err err"
begin

definition table :: "'s \<Rightarrow> go_type \<times> go_type \<Rightarrow> conversion_func option" where
  "table s = generated s ++ manual s"

lemma convert_table:
  "case table s (type_of x, type_of y) of
     Some f \<Rightarrow> sl_Convert lib s x y sc = f x y sc
   | None \<Rightarrow> \<exists>err. sl_Convert lib s x y sc = Err err"
  using convert_manual [of s x y] convert_generated [of s x y] convert_unknown [of s x y]
  by (auto simp: table_def map_add_def split: option.split)

lemma register_func_steps:
  assumes "reg_pair r \<notin> dom (table s)"
  obtains s' where "register_func lib r s = (s', None)" "table s' = (table s)(reg_pair r \<mapsto> reg_func r)"
proof (cases r)
  case (AddGeneratedConversionFunc a b f)
  with assms have "(a, b) \<notin> dom (manual s)" by (auto simp: table_def)
  then have "(generated s)((a, b) \<mapsto> f) ++ manual s = (generated s ++ manual s)((a, b) \<mapsto> f)"
    by (rule map_add_upd_left)
  with AddGeneratedConversionFunc that add_generated [of a b f s] show ?thesis
    by (auto simp: register_func_def table_def)
next
  case (AddConversionFunc a b f)
  with that add_manual [of a b f s] show ?thesis
    by (auto simp: register_func_def table_def)
qed

lemma register_all_steps:
  assumes "distinct (map reg_pair rs)" and "reg_pair ` set rs \<inter> dom (table s) = {}"
  shows "\<exists>s'. run_until_error (map (register_func lib) rs) s = (s', None) \<and>
    table s' = table s ++ map_of (map (\<lambda>r. (reg_pair r, reg_func r)) rs)"
  using assms
proof (induction rs arbitrary: s)
  case (Cons r rs)
  then obtain s1 where s1: "register_func lib r s = (s1, None)" "table s1 = (table s)(reg_pair r \<mapsto> reg_func r)"
    using register_func_steps [of r s] by auto
  with Cons.prems have "distinct (map reg_pair rs)" "reg_pair ` set rs \<inter> dom (table s1) = {}" by auto
  from Cons.IH [OF this] obtain s' where s': "run_until_error (map (register_func lib) rs) s1 = (s', None)"
    "table s' = table s1 ++ map_of (map (\<lambda>r. (reg_pair r, reg_func r)) rs)" by blast
  have "map_of (map (\<lambda>r. (reg_pair r, reg_func r)) rs) (reg_pair r) = None"
    using Cons.prems(1) by (force simp: map_of_eq_None_iff)
  then have "table s1 ++ map_of (map (\<lambda>r. (reg_pair r, reg_func r)) rs) =
      table s ++ map_of (map (\<lambda>r. (reg_pair r, reg_func r)) (r # rs))"
    by (auto simp: s1(2) fun_eq_iff map_add_def split: option.split)
  then have "table s' = table s ++ map_of (map (\<lambda>r. (reg_pair r, reg_func r)) (r # rs))" unfolding s'(2) .
  moreover have "run_until_error (map (register_func lib) (r # rs)) s = (s', None)" using s1(1) s'(1) by simp
  ultimately show ?case by blast
qed simp

lemma conversion_scheme_table:
  "\<exists>s. conversion_scheme lib = (s, None) \<and> table s = registered"
proof -
  define s0 where "s0 = sl_AddToGroupVersion lib SchemeGroupVersion
    (sl_AddKnownTypes lib SchemeGroupVersion [''Bundle'', ''BundleList''] (sl_NewScheme lib))"
  have "table s0 = Map.empty" by (simp add: s0_def table_def known_types fresh)
  with register_all_steps [OF distinct_pairs, of s0] obtain s
    where "run_until_error (map (register_func lib) registrations) s0 = (s, None)" "table s = registered"
    by (auto simp: registered_def)
  moreover have "conversion_scheme lib = run_until_error [RegisterConversions lib] s0"
    by (simp add: conversion_scheme_def builder localSchemeBuilder_def schemeBuilder_def addKnownTypes_def s0_def)
  ultimately show ?thesis by (auto simp: RegisterConversions_def)
qed

lemma convert_registered:
  assumes "conversion_scheme lib = (s, None)" and "registered (type_of a, type_of b) = Some f"
  shows "sl_Convert lib s a b sc = f a b sc"
proof -
  from assms(1) conversion_scheme_table have "table s = registered" by auto
  with assms(2) convert_table [of s a b sc] show ?thesis by simp
qed

lemma ConvertTo_by_scheme: "Bundle_ConvertTo lib bd (V2_ClusterBundle empty_ClusterBundle) = Ok (ConvertTo bd)"
proof -
  obtain s where s: "conversion_scheme lib = (s, None)" using conversion_scheme_table by blast
  obtain spec2 meta where spec: "Convert_v1alpha1_BundleSpec_To_v1alpha2_BundleSpec (bd_Spec bd) (bd_Meta bd) = (spec2, meta)" by force
  have "sl_Convert lib s (V1_BundleSpec (bd_Spec bd)) (V2_BundleSpec spec0) (HubScope (empty_ClusterBundle\<lparr>cb_Meta := bd_Meta bd\<rparr>)) =
      Ok (V2_BundleSpec spec2, HubScope (empty_ClusterBundle\<lparr>cb_Meta := meta, cb_Spec := spec2\<rparr>))" for spec0
    by (simp add: convert_registered [OF s] BundleSpec_to_hub_def in_hub_def spec)
  moreover have "sl_Convert lib s (V1_BundleStatus (bd_Status bd)) (V2_BundleStatus st) (HubScope cb) =
      Ok (V2_BundleStatus (autoConvert_v1alpha1_BundleStatus_To_v1alpha2_BundleStatus (bd_Status bd)), HubScope cb)" for st cb
    by (simp add: convert_registered [OF s] plain_closure_def plain_conversion_def plain_value_def
        Convert_v1alpha1_BundleStatus_To_v1alpha2_BundleStatus_def)
  ultimately show ?thesis
    by (simp add: Bundle_ConvertTo_def s hub_written_def ConvertTo_def spec Let_def ClusterBundle.equality)
qed

lemma ConvertFrom_by_scheme: "Bundle_ConvertFrom lib (V2_ClusterBundle cb) = ConvertFrom cb"
proof -
  obtain s where s: "conversion_scheme lib = (s, None)" using conversion_scheme_table by blast
  have "sl_Convert lib s (V2_BundleSpec (cb_Spec cb)) (V1_BundleSpec spec0) (SpokeScope (empty_Bundle\<lparr>bd_Meta := cb_Meta cb\<rparr>)) =
      bind_res (Convert_v1alpha2_BundleSpec_To_v1alpha1_BundleSpec (cb_Spec cb) (cb_Meta cb))
        (\<lambda>(spec, meta). Ok (V1_BundleSpec spec, SpokeScope (empty_Bundle\<lparr>bd_Meta := meta, bd_Spec := spec\<rparr>)))" for spec0
    by (cases "Convert_v1alpha2_BundleSpec_To_v1alpha1_BundleSpec (cb_Spec cb) (cb_Meta cb)")
      (auto simp: convert_registered [OF s] BundleSpec_to_spoke_def in_spoke_def)
  moreover have "sl_Convert lib s (V2_BundleStatus (cb_Status cb)) (V1_BundleStatus st) (SpokeScope bd) =
      Ok (V1_BundleStatus (autoConvert_v1alpha2_BundleStatus_To_v1alpha1_BundleStatus (cb_Status cb)), SpokeScope bd)" for st bd
    by (simp add: convert_registered [OF s] plain_closure_def plain_conversion_def plain_value_def
        Convert_v1alpha2_BundleStatus_To_v1alpha1_BundleStatus_def)
  ultimately show ?thesis
    by (cases "Convert_v1alpha2_BundleSpec_To_v1alpha1_BundleSpec (cb_Spec cb) (cb_Meta cb)")
      (auto simp: Bundle_ConvertFrom_def s spoke_written_def ConvertFrom_def Let_def Bundle.equality)
qed

lemma exported_scheme_table:
  "\<exists>s'. AddToScheme lib s = (s', None) \<and> table s' = table s"
  by (simp add: AddToScheme_def builder schemeBuilder_def addKnownTypes_def table_def known_types)

lemma convert_by_pairs:
  assumes "conversion_scheme lib = (s, None)" and "scope_fits sc (type_of a)"
  shows "(if (type_of a, type_of b) \<in> reg_pair ` set registrations
     then well_typed_result (sl_Convert lib s a b sc) (type_of a) (type_of b)
     else \<exists>err. sl_Convert lib s a b sc = Err err) \<and>
    snd (AddToScheme lib (sl_NewScheme lib)) = None \<and>
    (\<exists>err. sl_Convert lib (fst (AddToScheme lib (sl_NewScheme lib))) a b sc = Err err)"
proof -
  from assms(1) conversion_scheme_table have s: "table s = registered" by auto
  have "registered (type_of a, type_of b) = None \<longleftrightarrow> (type_of a, type_of b) \<notin> reg_pair ` set registrations"
    by (simp add: registered_def map_of_eq_None_iff image_image)
  moreover obtain s' where s': "AddToScheme lib (sl_NewScheme lib) = (s', None)" "table s' = Map.empty"
    using exported_scheme_table [of "sl_NewScheme lib"] by (auto simp: table_def fresh)
  ultimately show ?thesis
    using convert_table [of s a b sc] convert_table [of s' a b sc] registered_typed [OF _ assms(2), of b]
    by (cases "registered (type_of a, type_of b)") (auto simp: s)
qed

end

section \<open>A scheme of two tables\<close>

record table_scheme =
  ts_Manual :: "go_type \<times> go_type \<Rightarrow> conversion_func option"
  ts_Generated :: "go_type \<times> go_type \<Rightarrow> conversion_func option"
  ts_Known :: "(group_version \<times> string) list"

definition table_lib :: "table_scheme scheme_lib" where
  "table_lib =
     \<lparr>sl_NewScheme = \<lparr>ts_Manual = Map.empty, ts_Generated = Map.empty, ts_Known = []\<rparr>,
      sl_BuilderAddToScheme = run_until_error,
      sl_AddKnownTypes = (\<lambda>gv names s. s\<lparr>ts_Known := ts_Known s @ map (Pair gv) names\<rparr>),
      sl_AddToGroupVersion = (\<lambda>gv s. s),
      sl_AddGeneratedConversionFunc = (\<lambda>a b f s. (s\<lparr>ts_Generated := (ts_Generated s)((a, b) \<mapsto> f)\<rparr>, None)),
      sl_AddConversionFunc = (\<lambda>a b f s. (s\<lparr>ts_Manual := (ts_Manual s)((a, b) \<mapsto> f)\<rparr>, None)),
      sl_Convert = (\<lambda>s x y sc.
        case ts_Manual s (type_of x, type_of y) of
          Some f \<Rightarrow> f x y sc
        | None \<Rightarrow>
            (case ts_Generated s (type_of x, type_of y) of
               Some f \<Rightarrow> f x y sc
             | None \<Rightarrow> Err (Errorf (''converting ('' @ type_name (type_of x) @ '') to ('' @ type_name (type_of y) @ ''): unknown conversion''))))\<rparr>"

interpretation ts: kubernetes_scheme table_lib ts_Manual ts_Generated
  by unfold_locales (simp_all add: table_lib_def)

section \<open>Properties\<close>

text \<open>
  C40: Through any scheme that behaves as documented, the two methods of Bundle find the registered
  functions and return what the direct conversions return, panics included; an object of another
  type than ClusterBundle is refused with an error.
\<close>

theorem conversion_by_scheme:
  assumes "kubernetes_scheme lib manual generated"
  shows "Bundle_ConvertTo lib bd (V2_ClusterBundle empty_ClusterBundle) = Ok (ConvertTo bd) \<and>
    Bundle_ConvertFrom lib (V2_ClusterBundle cb) = ConvertFrom cb \<and>
    (type_of v \<noteq> T2_ClusterBundle \<longrightarrow> (\<exists>err. Bundle_ConvertTo lib bd v = Err err \<and> Bundle_ConvertFrom lib v = Err err))"
proof -
  have "\<exists>err. Bundle_ConvertTo lib bd v = Err err \<and> Bundle_ConvertFrom lib v = Err err" if "type_of v \<noteq> T2_ClusterBundle"
    using that by (cases v) (simp_all add: Bundle_ConvertTo_def Bundle_ConvertFrom_def)
  then show ?thesis
    using kubernetes_scheme.ConvertTo_by_scheme [OF assms] kubernetes_scheme.ConvertFrom_by_scheme [OF assms] by blast
qed

lemma conversion_by_scheme_witness:
  "Bundle_ConvertTo table_lib example_bundle (V2_ClusterBundle empty_ClusterBundle) = Ok (ConvertTo example_bundle) \<and>
   (\<exists>err. Bundle_ConvertTo table_lib example_bundle (V1_Bundle example_bundle) = Err err)"
  using conversion_by_scheme [OF ts.kubernetes_scheme_axioms, of example_bundle "fst (ConvertTo example_bundle)" "V1_Bundle example_bundle"] by auto

text \<open>
  The conversion functions are registered for exactly fourteen pairs of types, both ways between
  the peers of the two versions, and are well typed: called by the converter with the context of
  their direction, a function never fails a type assertion and never returns an error, its result
  has the destination type, and it panics only on a missing JKS password. For every other pair the
  converter returns an error. The exported \<open>AddToScheme\<close> registers none of them.
\<close>

lemma registered_conversions_typed:
  assumes "kubernetes_scheme lib manual generated" and "conversion_scheme lib = (s, None)"
    and "scope_fits sc (type_of a)"
  shows "(if (type_of a, type_of b) \<in> reg_pair ` set registrations
     then well_typed_result (sl_Convert lib s a b sc) (type_of a) (type_of b)
     else \<exists>err. sl_Convert lib s a b sc = Err err) \<and>
    snd (AddToScheme lib (sl_NewScheme lib)) = None \<and>
    (\<exists>err. sl_Convert lib (fst (AddToScheme lib (sl_NewScheme lib))) a b sc = Err err)"
  by (rule kubernetes_scheme.convert_by_pairs [OF assms])

lemma registered_conversions_typed_witness:
  "well_typed_result (sl_Convert table_lib (fst (conversion_scheme table_lib)) (V2_BundleSpec (cb_Spec (fst (ConvertTo example_bundle)))) (V1_BundleSpec (bd_Spec empty_Bundle))
     (SpokeScope empty_Bundle)) T2_BundleSpec T1_BundleSpec"
proof -
  have pair: "(T2_BundleSpec, T1_BundleSpec) \<in> reg_pair ` set registrations" by (simp add: registrations_def)
  obtain s where s: "conversion_scheme table_lib = (s, None)" using ts.conversion_scheme_table by blast
  have "scope_fits (SpokeScope empty_Bundle) T2_BundleSpec" by (simp add: scope_fits_def to_hub_def)
  with registered_conversions_typed [OF ts.kubernetes_scheme_axioms s, of _ "V2_BundleSpec (cb_Spec (fst (ConvertTo example_bundle)))" "V1_BundleSpec (bd_Spec empty_Bundle)"] pair s
  show ?thesis by simp
qed

end
