(* ===== verification/HashText.thy ===== *)
theory HashText
  imports TargetProperties SourceTheorems
begin

text \<open>
  What the hash annotation of a target says about its content. The text that \<open>TrustBundleHash\<close> hashes is
  the PEM bundle followed by the settings of the target; a PEM bundle is never a proper prefix of
  another one that goes on with anything but a new line, so the text determines the bundle.
\<close>

section \<open>The hashed text\<close>

definition settings_text :: "AdditionalFormats option \<Rightarrow> TargetTemplate \<Rightarrow> string" where
  "settings_text formats t =
     (case formats of None \<Rightarrow> [] | Some af \<Rightarrow>
        (case af_JKS af of None \<Rightarrow> [] | Some j \<Rightarrow> jks_Password j) @
        (case af_PKCS12 af of None \<Rightarrow> [] | Some p \<Rightarrow> (case p12_Password p of None \<Rightarrow> [] | Some pw \<Rightarrow> pw)))
     @ concat (map (\<lambda>(k, v). k @ v) (sorted_entries (GetAnnotations (Some t))))
     @ concat (map (\<lambda>(k, v). k @ v) (sorted_entries (GetLabels (Some t))))"

definition hash_text :: "Bundle \<Rightarrow> BundleData \<Rightarrow> TargetTemplate \<Rightarrow> string" where
  "hash_text bd d t = PEM (Some (bdl_CertPool d)) @ settings_text (formats_of bd) t"

lemma TrustBundleHash_text:
  "TrustBundleHash data formats (Some t) = hex_EncodeToString (Sum256 (data @ settings_text formats t))"
proof (cases formats)
  case (Some af)
  show ?thesis
    by (cases "af_JKS af"; cases "af_PKCS12 af"; cases "p12_Password (the (af_PKCS12 af))")
      (simp_all only: Some TrustBundleHash_def settings_text_def Let_def option.case option.sel if_cancel append_Nil append_Nil2 append_assoc
        split: if_split, simp_all)
qed (simp only: TrustBundleHash_def settings_text_def Let_def option.case append_Nil)

lemma desired_hash_text: "desired_hash bd d t = hex_EncodeToString (Sum256 (hash_text bd d t))"
  unfolding desired_hash_def hash_text_def by (rule TrustBundleHash_text)

lemma hexdigit_inj: "i < 16 \<Longrightarrow> j < 16 \<Longrightarrow> hexdigit i = hexdigit j \<longleftrightarrow> i = j"
  by (auto simp: hexdigit_def char_of_eq_iff take_bit_eq_mod split: if_splits)

lemma nibbles_inj:
  assumes "(of_char c :: nat) div 16 = of_char c' div 16" and "(of_char c :: nat) mod 16 = of_char c' mod 16"
  shows "c = c'"
proof -
  have "(of_char c :: nat) = of_char c'" using assms by (metis div_mult_mod_eq)
  then show ?thesis by (simp add: of_char_eq_iff)
qed

lemma hex_inj: "hex_EncodeToString s = hex_EncodeToString s' \<Longrightarrow> s = s'"
proof (induction s arbitrary: s')
  case Nil
  then show ?case using length_hex_EncodeToString [of s'] by (simp add: hex_EncodeToString_def)
next
  case (Cons c s)
  then obtain c' s'' where s': "s' = c' # s''" by (cases s') (simp_all add: hex_EncodeToString_def)
  have lt: "(of_char x :: nat) div 16 < 16" for x :: char by (rule less_mult_imp_div_less) simp
  from Cons.prems s' have "c = c'"
    by (intro nibbles_inj) (simp_all add: hex_EncodeToString_def hexdigit_inj lt)
  with Cons s' show ?case by (simp add: hex_EncodeToString_def)
qed

lemma desired_hash_nonempty: "desired_hash bd d t \<noteq> []"
proof
  assume "desired_hash bd d t = []"
  then show False using length_hex_EncodeToString [of "Sum256 (hash_text bd d t)"] by (simp add: desired_hash_text)
qed

section \<open>The PEM bundle is the first part of the text\<close>

definition fresh_line :: "string \<Rightarrow> bool" where
  "fresh_line s \<longleftrightarrow> s \<noteq> [] \<and> hd s = nl"

lemma until_dash: "CHR ''-'' \<notin> set b \<Longrightarrow> takeWhile (\<lambda>x. x \<noteq> CHR ''-'') (b @ nl # CHR ''-'' # r) = b @ [nl]"
  by (induction b) (auto simp: nl_def)

lemma bodies_equal:
  assumes "CHR ''-'' \<notin> set b" and "CHR ''-'' \<notin> set b'" and "b @ pemEnd @ r = b' @ pemEnd @ r'"
  shows "b = b' \<and> r = r'"
proof -
  have e: "pemEnd @ r = nl # CHR ''-'' # (tl (tl pemEnd) @ r)" for r by (simp add: pemEnd_def)
  have "b @ [nl] = b' @ [nl]"
    using until_dash [OF assms(1), of "tl (tl pemEnd) @ r"] until_dash [OF assms(2), of "tl (tl pemEnd) @ r'"] assms(3)
    by (simp only: e)
  then show ?thesis using assms(3) by simp
qed

lemma bundle_is_prefix:
  assumes "butlast (concat (map enc cs)) @ s = butlast (concat (map enc cs')) @ s'"
    and "cs \<noteq> []" and "cs' \<noteq> []" and "\<not> fresh_line s" and "\<not> fresh_line s'"
  shows "butlast (concat (map enc cs)) = butlast (concat (map enc cs')) \<and> s = s'"
  using assms
proof (induction cs arbitrary: cs')
  case (Cons c cs)
  from Cons.prems(3) obtain c' ds where cs': "cs' = c' # ds" by (cases cs') auto
  let ?t = "(if cs = [] then [] else nl # butlast (concat (map enc cs))) @ s"
  let ?t' = "(if ds = [] then [] else nl # butlast (concat (map enc ds))) @ s'"
  from Cons.prems(1) have "body_of (crt_Raw c) @ pemEnd @ ''CERTIFICATE-----'' @ ?t = body_of (crt_Raw c') @ pemEnd @ ''CERTIFICATE-----'' @ ?t'"
    by (simp only: cs' butlast_concat_enc append_assoc same_append_eq)
  with bodies_equal [OF body_of_no_dash body_of_no_dash] have eq: "body_of (crt_Raw c) = body_of (crt_Raw c')" "?t = ?t'"
    by (metis same_append_eq)+
  from eq(2) Cons.prems(4,5) have nil: "cs = [] \<longleftrightarrow> ds = []" by (auto simp: fresh_line_def split: if_splits)
  show ?case
  proof (cases "cs = []")
    case True
    with nil eq show ?thesis by (simp only: cs' butlast_concat_enc) simp
  next
    case False
    with nil eq(2) have rest: "butlast (concat (map enc cs)) @ s = butlast (concat (map enc ds)) @ s'" by simp
    from Cons.IH [OF rest False] nil False Cons.prems(4,5) eq(1) show ?thesis
      by (simp only: cs' butlast_concat_enc) simp
  qed
qed simp

lemma PEM_is_prefix:
  assumes "PEM (Some p) @ s = PEM (Some p') @ s'" and "Size p \<noteq> 0" and "Size p' \<noteq> 0"
    and "\<not> fresh_line s" and "\<not> fresh_line s'"
  shows "PEM (Some p) = PEM (Some p') \<and> s = s'"
proof -
  have ne: "Certificates q \<noteq> []" if "Size q \<noteq> 0" for q
    using that length_Certificates [of q] by auto
  then have shape: "PEM (Some q) = butlast (concat (map enc (Certificates q)))" if "Size q \<noteq> 0" for q
    using that trim_space_concat_enc [OF ne [OF that]] by (simp add: PEM_eq)
  show ?thesis
    using bundle_is_prefix [of "Certificates p" s "Certificates p'" s'] assms
    by (simp add: shape [OF assms(2)] shape [OF assms(3)] ne [OF assms(2)] ne [OF assms(3)])
qed

text \<open>Equal hashes of resolved bundles come from equal bundles and equal settings, if the digest has no collision here.\<close>

lemma hash_determines:
  assumes "desired_hash bd d t = desired_hash bd' d' t'"
    and "Sum256 (hash_text bd d t) = Sum256 (hash_text bd' d' t') \<Longrightarrow> hash_text bd d t = hash_text bd' d' t'"
    and "Size (bdl_CertPool d) \<noteq> 0" and "Size (bdl_CertPool d') \<noteq> 0"
    and "\<not> fresh_line (settings_text (formats_of bd) t)" and "\<not> fresh_line (settings_text (formats_of bd') t')"
  shows "PEM (Some (bdl_CertPool d)) = PEM (Some (bdl_CertPool d'))"
    and "settings_text (formats_of bd) t = settings_text (formats_of bd') t'"
proof -
  from assms(1) have "Sum256 (hash_text bd d t) = Sum256 (hash_text bd' d' t')"
    by (simp add: desired_hash_text hex_inj)
  from PEM_is_prefix [OF assms(2) [OF this, unfolded hash_text_def] assms(3-6)]
  show "PEM (Some (bdl_CertPool d)) = PEM (Some (bdl_CertPool d'))"
    and "settings_text (formats_of bd) t = settings_text (formats_of bd') t'" by simp_all
qed

section \<open>What the hash does not tell\<close>

text \<open>
  The keys are not part of the text, and the check of the managed properties compares sets. So a
  Bundle that exchanges the key of the PEM bundle with the key of its JKS trust store keeps
  its hash and its set of properties: a target that is up to date is not written again, and each of
  the two keys holds what the other one is meant to hold.
\<close>

definition swap_keys :: "Bundle \<Rightarrow> Bundle" where
  "swap_keys b =
     (case (bt_ConfigMap (spec_Target (bd_Spec b)), formats_of b) of
        (Some t, Some af) \<Rightarrow>
          (case af_JKS af of
             None \<Rightarrow> b
           | Some j \<Rightarrow> b\<lparr>bd_Spec := (bd_Spec b)\<lparr>spec_Target := (spec_Target (bd_Spec b))\<lparr>
               bt_ConfigMap := Some (t\<lparr>tt_Key := jks_Key j\<rparr>),
               bt_AdditionalFormats := Some (af\<lparr>af_JKS := Some (j\<lparr>jks_Key := tt_Key t\<rparr>)\<rparr>)\<rparr>\<rparr>\<rparr>)
      | _ \<Rightarrow> b)"

lemma key_swap_not_synced:
  assumes "ApplyTarget lib r target b d s = (Ok (False, None), s)" and "res_Kind target = KindConfigMap"
  shows "ApplyTarget lib r target (swap_keys b) d s = (Ok (False, None), s)"
proof -
  from ApplyTarget_idleD [OF assms(1)] obtain t obj where t: "bt_ConfigMap (spec_Target (bd_Spec b)) = Some t"
    and obj: "cache_of r s target = Inr obj" and u: "up_to_date r KindConfigMap obj b d t"
    by (auto simp: assms(2) target_template_def)
  have "\<exists>t'. target_template KindConfigMap (swap_keys b) = Some t' \<and> up_to_date r KindConfigMap obj (swap_keys b) d t'"
    using t u
    by (auto simp: swap_keys_def target_template_def up_to_date_def desired_hash_text hash_text_def settings_text_def
        GetAnnotations_def GetLabels_def expected_properties_def insert_commute split: option.split sum.splits)
  with obj show ?thesis by (auto simp: assms(2) intro: ApplyTarget_idleI)
qed

end
