(* ===== verification/TargetContent.thy ===== *)
theory TargetContent
  imports HashText Convergence WatchTheorems
begin

text \<open>
  The content of the targets, and the reads of the controller. The cache that the controller reads holds
  the metadata of a target only; its data is the parameter \<open>content\<close>. A read may fail with an error
  other than "not found".
\<close>

section \<open>Reads that may fail\<close>

definition transient :: "gerr \<Rightarrow> bool" where
  "transient e \<longleftrightarrow> \<not> apierrors_IsNotFound e \<and> \<not> IsSourceNotFound e"

definition or_fails :: "gerr + 'a \<Rightarrow> gerr + 'a \<Rightarrow> bool" where
  "or_fails got answer \<longleftrightarrow> got = answer \<or> (\<exists>e. got = Inl e \<and> transient e)"

definition reads_or_fails :: "'sel reader \<Rightarrow> 'sel reader \<Rightarrow> bool" where
  "reads_or_fails rd rd' \<longleftrightarrow>
     (\<forall>ns name. or_fails (rd_GetConfigMap rd ns name) (rd_GetConfigMap rd' ns name) \<and>
        or_fails (rd_GetSecret rd ns name) (rd_GetSecret rd' ns name)) \<and>
     (\<forall>sel. or_fails (rd_ListConfigMaps rd sel) (rd_ListConfigMaps rd' sel) \<and>
        or_fails (rd_ListSecrets rd sel) (rd_ListSecrets rd' sel))"

definition fails_transiently :: "'a res \<Rightarrow> bool" where
  "fails_transiently r \<longleftrightarrow> (\<exists>e. r = Err e \<and> \<not> IsSourceNotFound e)"

lemma wrapped_errors [simp]:
  "IsSourceNotFound (Wrapf p e) = IsSourceNotFound e" "apierrors_IsNotFound (Wrapf p e) = apierrors_IsNotFound e"
  by (simp_all add: IsSourceNotFound_def apierrors_IsNotFound_def)

lemma select_or_fails:
  assumes "\<And>ns name. or_fails (get ns name) (get' ns name)" and "\<And>sel. or_fails (list sel) (list' sel)"
  shows "select_objects kind get list lib ns ref = select_objects kind get' list' lib ns ref \<or>
    (\<exists>e. select_objects kind get list lib ns ref = Inl e \<and> \<not> IsSourceNotFound e)"
proof (cases "sok_Name ref = []")
  case True
  show ?thesis
  proof (cases "lib_AsSelector lib (sok_Selector ref)")
    case (Inr sel)
    with True assms(2) [of sel] show ?thesis by (auto simp: select_objects_def or_fails_def transient_def)
  qed (simp add: True select_objects_def)
next
  case False
  with assms(1) [of ns "sok_Name ref"] show ?thesis
    by (auto simp: select_objects_def or_fails_def transient_def Let_def)
qed

lemma add_source_or_fails:
  assumes "reads_or_fails rd rd'"
  shows "add_source parse lib rd bb src acc = add_source parse lib rd' bb src acc \<or> fails_transiently (add_source parse lib rd bb src acc)"
proof -
  let ?ns = "opt_Namespace (bb_Options bb)"
  have cm: "select_objects kind (rd_GetConfigMap rd) (rd_ListConfigMaps rd) lib ?ns ref =
      select_objects kind (rd_GetConfigMap rd') (rd_ListConfigMaps rd') lib ?ns ref \<or>
    (\<exists>e. select_objects kind (rd_GetConfigMap rd) (rd_ListConfigMaps rd) lib ?ns ref = Inl e \<and> \<not> IsSourceNotFound e)" for kind ref
    by (rule select_or_fails) (use assms in \<open>simp_all add: reads_or_fails_def\<close>)
  have sec: "select_objects kind (rd_GetSecret rd) (rd_ListSecrets rd) lib ?ns ref =
      select_objects kind (rd_GetSecret rd') (rd_ListSecrets rd') lib ?ns ref \<or>
    (\<exists>e. select_objects kind (rd_GetSecret rd) (rd_ListSecrets rd) lib ?ns ref = Inl e \<and> \<not> IsSourceNotFound e)" for kind ref
    by (rule select_or_fails) (use assms in \<open>simp_all add: reads_or_fails_def\<close>)
  show ?thesis
  proof (cases "bs_ConfigMap src")
    case (Some ref)
    with cm [of "''ConfigMap''" ref] show ?thesis
      by (auto simp: add_source_def configMapBundleSource_addToCertPool_def fails_transiently_def Let_def)
  next
    case None
    show ?thesis
    proof (cases "bs_Secret src")
      case (Some ref)
      with None sec [of "''Secret''" ref] show ?thesis
        by (auto simp: add_source_def secretBundleSource_addToCertPool_def fails_transiently_def Let_def)
    qed (simp add: None add_source_def Let_def)
  qed
qed

lemma add_sources_or_fails:
  assumes "reads_or_fails rd rd'"
  shows "add_sources parse lib rd bb srcs acc = add_sources parse lib rd' bb srcs acc \<or> fails_transiently (add_sources parse lib rd bb srcs acc)"
proof (induction srcs arbitrary: acc)
  case (Cons src srcs)
  show ?case
  proof (cases "fails_transiently (add_source parse lib rd bb src acc)")
    case True
    then show ?thesis by (auto simp: fails_transiently_def)
  next
    case False
    with add_source_or_fails [OF assms] have "add_source parse lib rd bb src acc = add_source parse lib rd' bb src acc" by blast
    with Cons.IH show ?thesis by (cases "add_source parse lib rd' bb src acc") simp_all
  qed
qed simp

text \<open>What the sources of a Bundle resolve to in a state of the cluster.\<close>

definition resolve :: "('w, 'sel, 'ks) bundle_ctl \<Rightarrow> (string \<Rightarrow> string \<Rightarrow> gerr) \<Rightarrow> cluster \<Rightarrow> Bundle \<Rightarrow> BundleData res" where
  "resolve b missing cl bd =
     BuildBundle (ctl_parse b) (ctl_time b) (ctl_labels b)
       (cluster_reader (ctl_labels b) (opt_Namespace (ctl_Options b)) missing cl) (ctl_bundleBuilder b) (spec_Sources (bd_Spec bd))"

lemma build_or_fails:
  assumes "reads_or_fails (ctl_Reader b w) (cluster_reader (ctl_labels b) (opt_Namespace (ctl_Options b)) missing cl)"
  shows "build b w bd = resolve b missing cl bd \<or> fails_transiently (build b w bd)"
proof -
  let ?acc = "\<lparr>bdl_CertPool = NewCertPool [WithFilteredExpiredCerts (ctl_time b) (opt_FilterExpiredCerts (bb_Options (ctl_bundleBuilder b))),
      WithFilteredNonCaCerts (opt_FilterNonCACerts (bb_Options (ctl_bundleBuilder b)))], bdl_DefaultCAPackageStringID = []\<rparr>"
  show ?thesis
    using add_sources_or_fails [OF assms, of "ctl_parse b" "ctl_labels b" "ctl_bundleBuilder b" "spec_Sources (bd_Spec bd)" ?acc]
    unfolding BuildBundle_def resolve_def Let_def fails_transiently_def by (elim disjE exE conjE) simp_all
qed

lemma resolved_nonempty: "resolve b missing cl bd = Ok d \<Longrightarrow> Size (bdl_CertPool d) \<noteq> 0"
  by (auto simp: resolve_def BuildBundle_def Let_def bind_res_Ok_iff split: if_splits)

lemma resolve_status [simp]: "resolve b missing cl (bd\<lparr>bd_Status := st\<rparr>) = resolve b missing cl bd"
  by (simp add: resolve_def)

section \<open>The data of a target\<close>

text \<open>The PEM bundle of the resolved data under its key, and a trust store of the same certificates under each other key.\<close>

definition holds_stores :: "'ks truststore_lib \<Rightarrow> CertPool \<Rightarrow> AdditionalFormats option \<Rightarrow> (string \<rightharpoonup> string) \<Rightarrow> bool" where
  "holds_stores lib pool formats m \<longleftrightarrow>
     (\<forall>af. formats = Some af \<longrightarrow>
        (\<forall>j. af_JKS af = Some j \<longrightarrow>
           (\<exists>out. jksEncoder_Encode lib (jks_Password j) pool = Ok out \<and> m (jks_Key j) = Some out)) \<and>
        (\<forall>p. af_PKCS12 af = Some p \<longrightarrow>
           (\<exists>pw out. p12_Password p = Some pw \<and> pkcs12Encoder_Encode lib pw (p12_Profile p) pool = Ok out \<and> m (p12_Key p) = Some out)))"

definition holds_data :: "'ks truststore_lib \<Rightarrow> Bundle \<Rightarrow> BundleData \<Rightarrow> TargetTemplate \<Rightarrow> (string \<rightharpoonup> string) \<Rightarrow> bool" where
  "holds_data lib bd d tm m \<longleftrightarrow>
     m (tt_Key tm) = Some (PEM (Some (bdl_CertPool d))) \<and>
     (\<exists>pool. PEM (Some pool) = PEM (Some (bdl_CertPool d)) \<and> holds_stores lib pool (formats_of bd) m)"

text \<open>The trust stores of the first formats are among those of the second.\<close>

definition formats_within :: "AdditionalFormats option \<Rightarrow> AdditionalFormats option \<Rightarrow> bool" where
  "formats_within formats formats' \<longleftrightarrow>
     (\<forall>af. formats = Some af \<longrightarrow> (\<exists>af'. formats' = Some af' \<and>
        (af_JKS af \<noteq> None \<longrightarrow> af_JKS af' = af_JKS af) \<and> (af_PKCS12 af \<noteq> None \<longrightarrow> af_PKCS12 af' = af_PKCS12 af)))"

lemma formats_within_refl: "formats_within formats formats"
  by (simp add: formats_within_def)

lemma stores_of_formats:
  assumes "formats_ok lib pool formats' bin" and "formats_within formats formats'"
    and "\<And>k. k \<in> set (expected_properties key formats) \<Longrightarrow> m k = map_of bin k"
  shows "holds_stores lib pool formats m"
  using assms by (fastforce simp: holds_stores_def formats_ok_def formats_within_def expected_properties_def split: option.splits)

text \<open>A patch that asks for the data of one Bundle, and content that agrees with it on the keys of another one.\<close>

lemma holds_patch:
  assumes cfg: "desired_patch lib t bd' d' tm' cfg" and "PEM (Some (bdl_CertPool d')) = PEM (Some (bdl_CertPool d))"
    and "tt_Key tm' = tt_Key tm" and "formats_within (formats_of bd) (formats_of bd')"
    and m: "\<And>k. k \<in> set (expected_properties (tt_Key tm) (formats_of bd)) \<Longrightarrow> m k = map_of (all_data cfg) k"
  shows "holds_data lib bd d tm m"
proof -
  have "map_of (all_data cfg) (tt_Key tm) = Some (PEM (Some (bdl_CertPool d)))"
    using cfg assms(2,3) by (simp add: desired_patch_def all_data_def)
  moreover have "formats_ok lib (bdl_CertPool d') (formats_of bd') (all_data cfg)" using cfg by (simp add: desired_patch_def)
  ultimately show ?thesis
    using stores_of_formats [OF _ assms(4) m] m [of "tt_Key tm"] assms(2)
    by (auto simp: holds_data_def expected_properties_def)
qed

section \<open>What the controller has written\<close>

text \<open>The keys that the managed fields of an object give to the controller, as far as they can be decoded.\<close>

definition entry_keys :: "'w Reconciler \<Rightarrow> string \<Rightarrow> string list \<Rightarrow> ManagedFieldsEntry \<Rightarrow> string set" where
  "entry_keys r manager names m =
     {trim_dot p |p raw fieldset f. mf_Manager m = manager \<and> mf_FieldsV1 m = Some raw \<and>
        rec_Fieldset r raw = Inr fieldset \<and> f \<in> set names \<and> p \<in> set (fieldset f)}"

definition keys_managed :: "'w Reconciler \<Rightarrow> Kind \<Rightarrow> ObjectMeta \<Rightarrow> string set" where
  "keys_managed r kind obj = (\<Union>m \<in> set (om_ManagedFields obj). entry_keys r FieldManager (target_fields kind) m)"

lemma listed_properties:
  "listManagedProperties r ms fm fs = Inr ps \<Longrightarrow> set ps = (\<Union>m \<in> set ms. entry_keys r fm fs m)"
proof (induction ms arbitrary: ps)
  case (Cons m ms)
  show ?case
  proof (cases "mf_Manager m = fm \<and> mf_FieldsV1 m \<noteq> None")
    case True
    then obtain raw where raw: "mf_FieldsV1 m = Some raw" by blast
    with True Cons.prems obtain fieldset rest where fs: "rec_Fieldset r raw = Inr fieldset"
      and rest: "listManagedProperties r ms fm fs = Inr rest" and ps: "ps = map trim_dot (concat (map fieldset fs)) @ rest"
      by (auto split: sum.splits)
    have "entry_keys r fm fs m = trim_dot ` (\<Union>f \<in> set fs. set (fieldset f))" using True raw fs by (auto simp: entry_keys_def)
    with Cons.IH [OF rest] ps show ?thesis by simp
  next
    case False
    then have "entry_keys r fm fs m = {}" by (auto simp: entry_keys_def)
    moreover have "listManagedProperties r ms fm fs = Inr ps" using False Cons.prems by (auto split: option.splits if_splits)
    ultimately show ?thesis using Cons.IH by simp
  qed
qed simp

lemma keys_managed_listed:
  "listManagedProperties r (om_ManagedFields obj) FieldManager (target_fields kind) = Inr ps \<Longrightarrow> keys_managed r kind obj = set ps"
  unfolding keys_managed_def by (rule listed_properties [symmetric])

abbreviation hash_of :: "ObjectMeta \<Rightarrow> string" where
  "hash_of obj \<equiv> get_or_empty (entries (om_Annotations obj)) BundleHashAnnotationKey"

type_synonym contents = "Resource \<Rightarrow> string \<rightharpoonup> string"

definition same_target :: "'w Reconciler \<Rightarrow> ('w \<Rightarrow> contents) \<Rightarrow> 'w \<Rightarrow> 'w \<Rightarrow> Resource \<Rightarrow> bool" where
  "same_target r content w w' t \<longleftrightarrow>
     rec_CacheGet r w' (res_Kind t) (res_NamespacedName t) = rec_CacheGet r w (res_Kind t) (res_NamespacedName t) \<and>
     content w' t = content w t"

lemma same_target_refl [simp]: "same_target r content w w t"
  by (simp add: same_target_def)

lemma same_target_trans: "same_target r content w w1 t \<Longrightarrow> same_target r content w1 w2 t \<Longrightarrow> same_target r content w w2 t"
  by (simp add: same_target_def)

text \<open>The target shows the patch, in its metadata and in its data.\<close>

definition shows_write :: "'w Reconciler \<Rightarrow> ('w \<Rightarrow> contents) \<Rightarrow> 'w \<Rightarrow> Resource \<Rightarrow> ApplyConfiguration \<Rightarrow> ObjectMeta \<Rightarrow> bool" where
  "shows_write r content w t cfg owner \<longleftrightarrow>
     (\<exists>obj. rec_CacheGet r w (res_Kind t) (res_NamespacedName t) = Inr obj \<and> shows_patch r (res_Kind t) cfg owner obj) \<and>
     (\<forall>k \<in> fst ` set (all_data cfg). content w t k = map_of (all_data cfg) k)"

text \<open>A Bundle of the cluster and data that its sources resolved to at that time; the hashes that the controller may compute.\<close>

definition asked_for ::
  "('w, 'sel, 'ks) bundle_ctl \<Rightarrow> ('w \<Rightarrow> cluster) \<Rightarrow> ('w \<Rightarrow> Bundle list) \<Rightarrow> (string \<Rightarrow> string \<Rightarrow> gerr) \<Rightarrow> Bundle \<Rightarrow> BundleData \<Rightarrow> bool" where
  "asked_for b view bundles missing bd d \<longleftrightarrow> (\<exists>w. bd \<in> set (bundles w) \<and> resolve b missing (view w) bd = Ok d)"

definition expected_hashes ::
  "('w, 'sel, 'ks) bundle_ctl \<Rightarrow> ('w \<Rightarrow> cluster) \<Rightarrow> ('w \<Rightarrow> Bundle list) \<Rightarrow> (string \<Rightarrow> string \<Rightarrow> gerr) \<Rightarrow> string set" where
  "expected_hashes b view bundles missing =
     {desired_hash bd d tm |bd d tm kind. asked_for b view bundles missing bd d \<and> target_template kind bd = Some tm}"

lemma empty_not_expected: "[] \<notin> expected_hashes b view bundles missing"
  by (auto simp: expected_hashes_def desired_hash_nonempty [symmetric])

text \<open>
  A target is genuine if the keys that it lists as managed by the controller still hold what the controller wrote
  with the hash that the target carries. A hash that the controller never computes says nothing.
\<close>

definition genuine ::
  "('w, 'sel, 'ks) bundle_ctl \<Rightarrow> ('w \<Rightarrow> cluster) \<Rightarrow> ('w \<Rightarrow> Bundle list) \<Rightarrow> (string \<Rightarrow> string \<Rightarrow> gerr) \<Rightarrow> ('w \<Rightarrow> contents) \<Rightarrow>
     'w \<Rightarrow> Resource \<Rightarrow> bool" where
  "genuine b view bundles missing content w t \<longleftrightarrow>
     (\<forall>obj. rec_CacheGet (ctl_targetReconciler b) w (res_Kind t) (res_NamespacedName t) = Inr obj \<longrightarrow>
        keys_managed (ctl_targetReconciler b) (res_Kind t) obj \<noteq> {} \<longrightarrow>
        hash_of obj \<in> expected_hashes b view bundles missing \<longrightarrow>
        (\<exists>bd d tm cfg. asked_for b view bundles missing bd d \<and> om_Name (bd_Meta bd) = nn_Name (res_NamespacedName t) \<and>
           target_template (res_Kind t) bd = Some tm \<and> desired_patch (ctl_tstore b) t bd d tm cfg \<and>
           hash_of obj = desired_hash bd d tm \<and>
           (\<forall>k \<in> keys_managed (ctl_targetReconciler b) (res_Kind t) obj.
              k \<in> fst ` set (all_data cfg) \<and> content w t k = map_of (all_data cfg) k)))"

lemma genuine_same: "genuine b view bundles missing content w t \<Longrightarrow> same_target (ctl_targetReconciler b) content w w' t \<Longrightarrow>
    genuine b view bundles missing content w' t"
  by (simp add: genuine_def same_target_def)

text \<open>
  What others may do to the targets: anything, except to pass off data as the controller's. Where an object
  carries a hash that the controller may compute and lists keys as managed by it, the object had this hash
  and managed these keys before, with the same values. (Server-side apply keeps the managed fields: who
  writes a value takes its key from the managers that want another one.)
\<close>

definition not_forged ::
  "('w, 'sel, 'ks) bundle_ctl \<Rightarrow> ('w \<Rightarrow> cluster) \<Rightarrow> ('w \<Rightarrow> Bundle list) \<Rightarrow> (string \<Rightarrow> string \<Rightarrow> gerr) \<Rightarrow> ('w \<Rightarrow> contents) \<Rightarrow> 'w \<Rightarrow> 'w \<Rightarrow> bool" where
  "not_forged b view bundles missing content w w' \<longleftrightarrow>
     (\<forall>t obj'. rec_CacheGet (ctl_targetReconciler b) w' (res_Kind t) (res_NamespacedName t) = Inr obj' \<longrightarrow>
        keys_managed (ctl_targetReconciler b) (res_Kind t) obj' \<noteq> {} \<longrightarrow>
        hash_of obj' \<in> expected_hashes b view bundles missing \<longrightarrow>
        (\<exists>obj. rec_CacheGet (ctl_targetReconciler b) w (res_Kind t) (res_NamespacedName t) = Inr obj \<and> hash_of obj' = hash_of obj \<and>
           (\<forall>k \<in> keys_managed (ctl_targetReconciler b) (res_Kind t) obj'.
              k \<in> keys_managed (ctl_targetReconciler b) (res_Kind t) obj \<and> content w' t k = content w t k)))"

lemma genuine_not_forged:
  assumes "not_forged b view bundles missing content w w'" and "genuine b view bundles missing content w t"
  shows "genuine b view bundles missing content w' t"
  unfolding genuine_def
proof (intro allI impI)
  let ?K = "keys_managed (ctl_targetReconciler b) (res_Kind t)"
  fix obj' assume new: "rec_CacheGet (ctl_targetReconciler b) w' (res_Kind t) (res_NamespacedName t) = Inr obj'"
    "?K obj' \<noteq> {}" "hash_of obj' \<in> expected_hashes b view bundles missing"
  with assms(1) obtain obj where old: "rec_CacheGet (ctl_targetReconciler b) w (res_Kind t) (res_NamespacedName t) = Inr obj"
      "hash_of obj' = hash_of obj"
    and kept: "\<And>k. k \<in> ?K obj' \<Longrightarrow> k \<in> ?K obj \<and> content w' t k = content w t k"
    unfolding not_forged_def by metis
  from kept new(2) have "?K obj \<noteq> {}" by auto
  with assms(2) old new(3) obtain bd d tm cfg where
    "asked_for b view bundles missing bd d" "om_Name (bd_Meta bd) = nn_Name (res_NamespacedName t)"
    "target_template (res_Kind t) bd = Some tm" "desired_patch (ctl_tstore b) t bd d tm cfg" "hash_of obj' = desired_hash bd d tm"
    "\<forall>k \<in> ?K obj. k \<in> fst ` set (all_data cfg) \<and> content w t k = map_of (all_data cfg) k"
    unfolding genuine_def by metis
  moreover from this(6) have "\<forall>k \<in> ?K obj'. k \<in> fst ` set (all_data cfg) \<and> content w' t k = map_of (all_data cfg) k"
    using kept by auto
  ultimately show "\<exists>bd d tm cfg. asked_for b view bundles missing bd d \<and> om_Name (bd_Meta bd) = nn_Name (res_NamespacedName t) \<and>
      target_template (res_Kind t) bd = Some tm \<and> desired_patch (ctl_tstore b) t bd d tm cfg \<and> hash_of obj' = desired_hash bd d tm \<and>
      (\<forall>k \<in> ?K obj'. k \<in> fst ` set (all_data cfg) \<and> content w' t k = map_of (all_data cfg) k)"
    by blast
qed

section \<open>The request of an apply\<close>

context target_kind begin

lemma run_request:
  assumes "run lib r target b d s = (x, s')"
  shows "s' = s \<or> (\<exists>t bin w. tmpl (spec_Target (bd_Spec b)) = Some t \<and> binaryData lib (bdl_CertPool d) (formats_of b) = Ok bin \<and>
    s' = (log_action (PatchRequest kind (mk target b t (hash_for b d t) (PEM (Some (bdl_CertPool d))) bin)) s)\<lparr>sys_world := w\<rparr>)"
proof (rule ccontr)
  assume contra: "\<not> ?thesis"
  from assms contra obtain t bin y where t: "tmpl (spec_Target (bd_Spec b)) = Some t"
    "binaryData lib (bdl_CertPool d) (formats_of b) = Ok bin"
    and patch: "patch r (Some (mk target b t (hash_for b d t) (PEM (Some (bdl_CertPool d))) bin)) s = (y, s')"
    by (auto simp: run_eq apply_with_def hash_for_def Let_def split: option.splits prod.splits res.splits)
  from patch_outcome [OF mk_named patch] contra t show False by blast
qed

end

text \<open>Whatever an apply returns, the patch that it has sent is the desired one.\<close>

lemma sent_patch:
  assumes "ApplyTarget lib r target b d s = (x, s')" and "target_template (res_Kind target) b = Some t"
    and "reserved_free t" and "distinct (expected_properties (tt_Key t) (formats_of b))"
  shows "s' = s \<or> (\<exists>cfg. sys_log s' = sys_log s @ [PatchRequest (res_Kind target) cfg] \<and> desired_patch lib target b d t cfg)"
proof -
  consider "res_Kind target = KindConfigMap" | "res_Kind target = KindSecret"
    using assms(2) by (auto simp: target_template_def split: if_splits)
  then show ?thesis
  proof cases
    case 1
    with assms(1) have run: "applyConfigMap lib r target b d s = (x, s')" by (simp add: ApplyTarget_def)
    from cm.run_request [OF run] show ?thesis
      using assms(2-) 1 desired_configMap_patch
      by (fastforce simp: log_action_def target_template_def cm.hash_for_def desired_hash_def)
  next
    case 2
    with assms(1) have run: "applySecret lib r target b d s = (x, s')" by (simp add: ApplyTarget_def)
    from sec.run_request [OF run] show ?thesis
      using assms(2-) 2 desired_secret_patch
      by (fastforce simp: log_action_def target_template_def sec.hash_for_def desired_hash_def)
  qed
qed

section \<open>Writes that reach the data\<close>

text \<open>
  The contract of \<open>steady_cluster\<close>, for the data as well: a patch that was sent shows, or it failed and
  nothing has changed; and it concerns its own target only.
\<close>

locale faithful_cluster = steady_cluster b bd d for b :: "('w, 'sel, 'ks) bundle_ctl" and bd :: Bundle and d :: BundleData +
  fixes content :: "'w \<Rightarrow> contents"
  assumes write_effect: "target_template (res_Kind t) bd = Some tm \<Longrightarrow>
      ApplyTarget (ctl_tstore b) (ctl_targetReconciler b) t bd d s = (x, s') \<Longrightarrow>
      sys_log s' = sys_log s @ [PatchRequest (res_Kind t) cfg] \<Longrightarrow>
      shows_write (ctl_targetReconciler b) content (sys_world s') t cfg (bd_Meta bd) \<or>
      (\<forall>e. x \<noteq> Ok (True, e)) \<and> same_target (ctl_targetReconciler b) content (sys_world s) (sys_world s') t"
    and content_apart: "ApplyTarget (ctl_tstore b) (ctl_targetReconciler b) t bd d s = (x, s') \<Longrightarrow> t' \<noteq> t \<Longrightarrow>
      content (sys_world s') t' = content (sys_world s) t'"
begin

lemma apply_apart:
  "ApplyTarget (ctl_tstore b) (ctl_targetReconciler b) t bd d s = (x, s') \<Longrightarrow> t' \<noteq> t \<Longrightarrow>
     same_target (ctl_targetReconciler b) content (sys_world s) (sys_world s') t'"
  using write_apart [of t s x s' t'] content_apart [of t s x s' t'] by (simp add: same_target_def cache_of_def)

text \<open>After an apply the target shows the desired patch, or it is as it was.\<close>

lemma apply_effect:
  assumes "ApplyTarget (ctl_tstore b) (ctl_targetReconciler b) t bd d s = (x, s')" and "well_templated bd"
    and "target_template (res_Kind t) bd = Some tm"
  obtains cfg where "desired_patch (ctl_tstore b) t bd d tm cfg"
      "shows_write (ctl_targetReconciler b) content (sys_world s') t cfg (bd_Meta bd)"
  | "\<forall>e. x \<noteq> Ok (True, e)" "same_target (ctl_targetReconciler b) content (sys_world s) (sys_world s') t"
proof -
  from assms(2,3) have ok: "reserved_free tm" "distinct (expected_properties (tt_Key tm) (formats_of bd))"
    by (auto simp: well_templated_def)
  from sent_patch [OF assms(1,3) ok]
  consider "s' = s" | cfg where "sys_log s' = sys_log s @ [PatchRequest (res_Kind t) cfg]" "desired_patch (ctl_tstore b) t bd d tm cfg"
    by blast
  then show thesis
  proof cases
    case 1
    have "x \<noteq> Ok (True, e)" for e
    proof
      assume "x = Ok (True, e)"
      with synced_patch [OF _ assms(3) ok] assms(1) obtain cfg w
        where "s' = (log_action (PatchRequest (res_Kind t) cfg) s)\<lparr>sys_world := w\<rparr>" by metis
      then have "sys_log s' = sys_log s @ [PatchRequest (res_Kind t) cfg]" by (simp add: log_action_def)
      with 1 show False by simp
    qed
    with 1 that(2) show thesis by simp
  next
    case 2
    from write_effect [OF assms(3,1) 2(1)] that 2(2) show thesis by blast
  qed
qed

lemma shows_write_up_to_date:
  assumes "desired_patch (ctl_tstore b) t bd d tm cfg" and "shows_write (ctl_targetReconciler b) content w t cfg (bd_Meta bd)"
  obtains obj where "rec_CacheGet (ctl_targetReconciler b) w (res_Kind t) (res_NamespacedName t) = Inr obj"
    "up_to_date (ctl_targetReconciler b) (res_Kind t) obj bd d tm"
    "holds_data (ctl_tstore b) bd d tm (content w t)"
proof -
  from assms(2) obtain obj where obj: "rec_CacheGet (ctl_targetReconciler b) w (res_Kind t) (res_NamespacedName t) = Inr obj"
    and shown: "shows_patch (ctl_targetReconciler b) (res_Kind t) cfg (bd_Meta bd) obj"
    and data: "\<And>k. k \<in> fst ` set (all_data cfg) \<Longrightarrow> content w t k = map_of (all_data cfg) k"
    by (auto simp: shows_write_def)
  have keys: "fst ` set (all_data cfg) = set (expected_properties (tt_Key tm) (formats_of bd))"
    using assms(1) by (simp add: desired_patch_def)
  have "holds_data (ctl_tstore b) bd d tm (content w t)"
    by (rule holds_patch [OF assms(1) refl refl formats_within_refl]) (use data keys in blast)
  with that [OF obj shows_patch_up_to_date [OF assms(1) shown]] show thesis by blast
qed

end

end
