(* ===== verification/Controller.thy ===== *)
theory Controller
  imports TargetContent
begin

text \<open>
  The controller as a whole: the queue of requests, the watches that fill it and the reconciles that
  empty it, interleaved with changes of the cluster. The parts are those of \<open>Watch\<close> and \<open>Reconcile\<close>;
  what they rely on in the cluster is the locale \<open>controlled_cluster\<close>.
\<close>

section \<open>States and steps\<close>

record 'w controller_state =
  cs_world :: 'w
  cs_queue :: "request set"

definition request_of :: "Bundle \<Rightarrow> request" where
  "request_of bd = \<lparr>nn_Namespace = [], nn_Name = om_Name (bd_Meta bd)\<rparr>"

text \<open>The Bundles after a step: apart from their status they are as before, or their own watch enqueued them.\<close>

definition Bundles_watched :: "Bundle list \<Rightarrow> Bundle list \<Rightarrow> request set \<Rightarrow> bool" where
  "Bundles_watched old new queue \<longleftrightarrow>
     (\<forall>bd' \<in> set new. request_of bd' \<in> queue \<or> (\<exists>bd \<in> set old. \<exists>st. bd' = bd\<lparr>bd_Status := st\<rparr>))"

text \<open>The watches that a controller has registered.\<close>

abbreviation watches_of :: "('w, 'sel, 'ks) bundle_ctl \<Rightarrow> watch list" where
  "watches_of b \<equiv> bundle_watches (ctl_labels b) (ctl_Options b)"

text \<open>
  A step is a change of the cluster from outside, or the reconcile of a queued request. The queue
  gains what the registered watches enqueue, and may gain more: the watch of the Bundles a Bundle that is
  new or changed, the watch of the owned objects the owner of a target whose metadata or data changed, and the
  mapped watches what they say for each event. A request leaves the queue when its reconcile returned no
  error; else it is retried.
\<close>

inductive controller_step ::
  "('w, 'sel, 'ks) bundle_ctl \<Rightarrow> ('w \<Rightarrow> cluster) \<Rightarrow> ('w \<Rightarrow> Bundle list) \<Rightarrow> ('w \<Rightarrow> contents) \<Rightarrow> (string \<Rightarrow> string \<Rightarrow> gerr) \<Rightarrow>
     ((ObjectMeta \<Rightarrow> bool) \<Rightarrow> (ObjectMeta \<Rightarrow> int + request list) \<Rightarrow> ObjectMeta list \<Rightarrow> request list) \<Rightarrow>
     (ObjectMeta \<Rightarrow> request set) \<Rightarrow> 'w controller_state \<Rightarrow> 'w controller_state \<Rightarrow> bool"
  for b view bundles content missing handle owner where
  changed: "cluster_run (view w) evs (view w') \<Longrightarrow>
     (WatchesBundles \<in> set (watches_of b) \<Longrightarrow> Bundles_watched (bundles w) (bundles w') queue') \<Longrightarrow>
     (\<And>t old. WatchesOwned (res_Kind t) \<in> set (watches_of b) \<Longrightarrow>
        rec_CacheGet (ctl_targetReconciler b) w (res_Kind t) (res_NamespacedName t) = Inr old \<Longrightarrow>
        \<not> same_target (ctl_targetReconciler b) content w w' t \<Longrightarrow> owner old \<subseteq> queue') \<Longrightarrow>
     (\<And>ev. ev \<in> set evs \<Longrightarrow> set (watch_requests handle (bundles w) ev (watches_of b)) \<subseteq> queue') \<Longrightarrow>
     not_forged b view bundles missing content w w' \<Longrightarrow> queue \<subseteq> queue' \<Longrightarrow>
     controller_step b view bundles content missing handle owner \<lparr>cs_world = w, cs_queue = queue\<rparr> \<lparr>cs_world = w', cs_queue = queue'\<rparr>"
| reconciled: "req \<in> queue \<Longrightarrow> Reconcile_Bundle b req \<lparr>sys_world = w, sys_log = []\<rparr> = (res, s') \<Longrightarrow>
     cluster_run (view w) evs (view (sys_world s')) \<Longrightarrow>
     (WatchesBundles \<in> set (watches_of b) \<Longrightarrow> Bundles_watched (bundles w) (bundles (sys_world s')) queue') \<Longrightarrow>
     (\<And>ev. ev \<in> set evs \<Longrightarrow> set (watch_requests handle (bundles w) ev (watches_of b)) \<subseteq> queue') \<Longrightarrow>
     (if res = Ok [] then queue - {req} else queue) \<subseteq> queue' \<Longrightarrow>
     controller_step b view bundles content missing handle owner \<lparr>cs_world = w, cs_queue = queue\<rparr> \<lparr>cs_world = sys_world s', cs_queue = queue'\<rparr>"

inductive controller_run ::
  "('w, 'sel, 'ks) bundle_ctl \<Rightarrow> ('w \<Rightarrow> cluster) \<Rightarrow> ('w \<Rightarrow> Bundle list) \<Rightarrow> ('w \<Rightarrow> contents) \<Rightarrow> (string \<Rightarrow> string \<Rightarrow> gerr) \<Rightarrow>
     ((ObjectMeta \<Rightarrow> bool) \<Rightarrow> (ObjectMeta \<Rightarrow> int + request list) \<Rightarrow> ObjectMeta list \<Rightarrow> request list) \<Rightarrow>
     (ObjectMeta \<Rightarrow> request set) \<Rightarrow> 'w controller_state \<Rightarrow> 'w controller_state \<Rightarrow> bool"
  for b view bundles content missing handle owner where
  start: "controller_run b view bundles content missing handle owner \<sigma> \<sigma>"
| step: "controller_run b view bundles content missing handle owner \<sigma> \<sigma>1 \<Longrightarrow>
     controller_step b view bundles content missing handle owner \<sigma>1 \<sigma>2 \<Longrightarrow>
     controller_run b view bundles content missing handle owner \<sigma> \<sigma>2"

section \<open>What is to hold of a Bundle that is not queued\<close>

text \<open>
  A target is settled if it exists, carries the metadata that the controller looks at, and its data is what the Bundle
  asks for: the PEM bundle and the trust stores of the given resolved certificates, each under its key.
\<close>

definition target_settled :: "('w, 'sel, 'ks) bundle_ctl \<Rightarrow> ('w \<Rightarrow> contents) \<Rightarrow> 'w \<Rightarrow> Bundle \<Rightarrow> BundleData \<Rightarrow> Resource \<Rightarrow> bool" where
  "target_settled b content w bd d t \<longleftrightarrow>
     (\<exists>tm obj. target_template (res_Kind t) bd = Some tm \<and>
        rec_CacheGet (ctl_targetReconciler b) w (res_Kind t) (res_NamespacedName t) = Inr obj \<and>
        up_to_date (ctl_targetReconciler b) (res_Kind t) obj bd d tm \<and>
        holds_data (ctl_tstore b) bd d tm (content w t))"

lemma settled_same:
  "target_settled b content w bd d t \<Longrightarrow> same_target (ctl_targetReconciler b) content w w' t \<Longrightarrow> target_settled b content w' bd d t"
  by (simp add: target_settled_def same_target_def)

definition selected_namespaces :: "('w, 'sel, 'ks) bundle_ctl \<Rightarrow> cluster \<Rightarrow> 'sel \<Rightarrow> Namespace list" where
  "selected_namespaces b cl sel = filter (lib_Matches (ctl_labels b) sel \<circ> om_Labels \<circ> ns_Meta) (cl_Namespaces cl)"

definition secrets_refused :: "('w, 'sel, 'ks) bundle_ctl \<Rightarrow> Bundle \<Rightarrow> bool" where
  "secrets_refused b bd \<longleftrightarrow> \<not> opt_SecretTargetsEnabled (ctl_Options b) \<and> bt_Secret (spec_Target (bd_Spec bd)) \<noteq> None"

text \<open>
  In each namespace that the Bundle selects, that is not terminating and that the controller may write to, each target
  that the Bundle defines holds the data that the sources resolve to now.
\<close>

definition in_sync_now ::
  "('w, 'sel, 'ks) bundle_ctl \<Rightarrow> ('w \<Rightarrow> cluster) \<Rightarrow> ('w \<Rightarrow> contents) \<Rightarrow> (string \<Rightarrow> string \<Rightarrow> gerr) \<Rightarrow> 'w \<Rightarrow> Bundle \<Rightarrow> bool" where
  "in_sync_now b view content missing w bd \<longleftrightarrow>
     (\<exists>d sel. resolve b missing (view w) bd = Ok d \<and> \<not> secrets_refused b bd \<and>
        bundleTargetNamespaceSelector (ctl_labels b) (spec_Target (bd_Spec bd)) = Inr sel \<and>
        (\<forall>n \<in> set (selected_namespaces b (view w) sel). namespace_selected (ctl_Options b) n \<longrightarrow>
           (\<forall>kind. target_template kind bd \<noteq> None \<longrightarrow> target_settled b content w bd d (resource_for kind bd n))))"

lemma in_sync_targets:
  "in_sync_now b view content missing w bd \<longleftrightarrow>
     (\<exists>d sel. resolve b missing (view w) bd = Ok d \<and> \<not> secrets_refused b bd \<and>
        bundleTargetNamespaceSelector (ctl_labels b) (spec_Target (bd_Spec bd)) = Inr sel \<and>
        (\<forall>t \<in> set (desired_targets (ctl_Options b) bd (selected_namespaces b (view w) sel) []). target_settled b content w bd d t))"
  unfolding in_sync_now_def set_desired by (auto; blast)

text \<open>The Bundle cannot be synced until somebody changes the cluster: a source is missing, or Secret targets are off.\<close>

definition blocked_now :: "('w, 'sel, 'ks) bundle_ctl \<Rightarrow> ('w \<Rightarrow> cluster) \<Rightarrow> (string \<Rightarrow> string \<Rightarrow> gerr) \<Rightarrow> 'w \<Rightarrow> Bundle \<Rightarrow> bool" where
  "blocked_now b view missing w bd \<longleftrightarrow>
     (case resolve b missing (view w) bd of Ok d \<Rightarrow> secrets_refused b bd | Err e \<Rightarrow> IsSourceNotFound e | Panic p \<Rightarrow> False)"

definition nothing_lost ::
  "('w, 'sel, 'ks) bundle_ctl \<Rightarrow> ('w \<Rightarrow> cluster) \<Rightarrow> ('w \<Rightarrow> Bundle list) \<Rightarrow> ('w \<Rightarrow> contents) \<Rightarrow> (string \<Rightarrow> string \<Rightarrow> gerr) \<Rightarrow>
     'w controller_state \<Rightarrow> bool" where
  "nothing_lost b view bundles content missing \<sigma> \<longleftrightarrow>
     (\<forall>bd \<in> set (bundles (cs_world \<sigma>)). request_of bd \<in> cs_queue \<sigma> \<or>
        in_sync_now b view content missing (cs_world \<sigma>) bd \<or> blocked_now b view missing (cs_world \<sigma>) bd)"

text \<open>No target passes off data as the controller's.\<close>

definition all_genuine ::
  "('w, 'sel, 'ks) bundle_ctl \<Rightarrow> ('w \<Rightarrow> cluster) \<Rightarrow> ('w \<Rightarrow> Bundle list) \<Rightarrow> ('w \<Rightarrow> contents) \<Rightarrow> (string \<Rightarrow> string \<Rightarrow> gerr) \<Rightarrow> 'w \<Rightarrow> bool" where
  "all_genuine b view bundles content missing w \<longleftrightarrow> (\<forall>t. genuine b view bundles missing content w t)"

lemma holds_data_status: "holds_data lib (bd\<lparr>bd_Status := st\<rparr>) d tm m = holds_data lib bd d tm m"
  by (simp add: holds_data_def)

lemma status_does_not_matter:
  "request_of (bd\<lparr>bd_Status := st\<rparr>) = request_of bd"
  "in_sync_now b view content missing w (bd\<lparr>bd_Status := st\<rparr>) = in_sync_now b view content missing w bd"
  "blocked_now b view missing w (bd\<lparr>bd_Status := st\<rparr>) = blocked_now b view missing w bd"
  by (simp_all add: request_of_def in_sync_targets blocked_now_def secrets_refused_def target_settled_def
      desired_targets_status target_template_status up_to_date_status holds_data_status split: res.split)

section \<open>The contract of the cluster\<close>

text \<open>
  What the controller relies on. Reads are current, but may fail with an error other than "not found"; the
  cache shows a write as soon as it was made (\<open>faithful_cluster\<close>); every Bundle went through the admission
  webhook. The last three laws are about the hash annotation, by which the controller recognises its own
  writes: the digests of the texts that occur do not collide, the settings of a target do not start with a
  new line, and two versions of a Bundle with the same hashed settings and the same keys give each key the same
  role, password and profile (neither the roles of the keys nor the profile are part of the hash, and
  nothing separates the two passwords).
\<close>

locale controlled_cluster =
  fixes b :: "('w, 'sel, 'ks) bundle_ctl" and view :: "'w \<Rightarrow> cluster" and bundles :: "'w \<Rightarrow> Bundle list"
    and content :: "'w \<Rightarrow> contents" and missing :: "string \<Rightarrow> string \<Rightarrow> gerr"
    and handle :: "(ObjectMeta \<Rightarrow> bool) \<Rightarrow> (ObjectMeta \<Rightarrow> int + request list) \<Rightarrow> ObjectMeta list \<Rightarrow> request list"
    and owner :: "ObjectMeta \<Rightarrow> request set"
  assumes delivers: "delivers handle"
    and reading: "reads_or_fails (ctl_Reader b w) (cluster_reader (ctl_labels b) (opt_Namespace (ctl_Options b)) missing (view w))"
    and options: "bb_Options (ctl_bundleBuilder b) = ctl_Options b"
    and get: "ctl_Get b w req = Inr bd \<Longrightarrow> bd \<in> set (bundles w) \<and> req = request_of bd"
    and get_fails: "bd \<in> set (bundles w) \<Longrightarrow> or_fails (ctl_Get b w (request_of bd)) (Inr bd)"
    and namespaces: "or_fails (ctl_ListNamespaces b w sel) (Inr (selected_namespaces b (view w) sel))"
    and range: "mset (ctl_range b xs) = mset xs"
    and faithful: "bd \<in> set (bundles w) \<Longrightarrow> resolve b missing (view w) bd = Ok d \<Longrightarrow> faithful_cluster b bd d content"
    and admitted: "bd \<in> set (bundles w) \<Longrightarrow> (\<exists>val. ValidateCreate val bd = []) \<and> go_templates bd"
    and cleanup_apart: "CleanupTarget (ctl_targetReconciler b) t bd s = (x, s') \<Longrightarrow> t' \<noteq> t \<Longrightarrow>
      same_target (ctl_targetReconciler b) content (sys_world s) (sys_world s') t'"
    and cleanup_effect: "CleanupTarget (ctl_targetReconciler b) t bd s = (x, s') \<Longrightarrow>
      same_target (ctl_targetReconciler b) content (sys_world s) (sys_world s') t \<or>
      (\<forall>obj. rec_CacheGet (ctl_targetReconciler b) (sys_world s') (res_Kind t) (res_NamespacedName t) = Inr obj \<longrightarrow>
         hash_of obj = [] \<or> keys_managed (ctl_targetReconciler b) (res_Kind t) obj = {})"
    and status_apart: "same_target (ctl_targetReconciler b) content w (snd (ctl_StatusPatch b w name patch)) t"
    and listed: "ctl_ListTargets b w kind ls = Inr objs \<Longrightarrow> obj \<in> set objs \<Longrightarrow>
      rec_CacheGet (ctl_targetReconciler b) w kind \<lparr>nn_Namespace = om_Namespace obj, nn_Name = om_Name obj\<rparr> = Inr obj"
    and one_controller: "bd \<in> set (bundles w) \<Longrightarrow> bd' \<in> set (bundles w) \<Longrightarrow>
      rec_IsControlledBy (ctl_targetReconciler b) obj (bd_Meta bd) \<Longrightarrow>
      rec_IsControlledBy (ctl_targetReconciler b) obj (bd_Meta bd') \<Longrightarrow> request_of bd = request_of bd'"
    and owner: "bd \<in> set (bundles w) \<Longrightarrow> rec_IsControlledBy (ctl_targetReconciler b) obj (bd_Meta bd) \<Longrightarrow>
      request_of bd \<in> owner obj"
    and digest: "asked_for b view bundles missing bd d \<Longrightarrow> asked_for b view bundles missing bd' d' \<Longrightarrow>
      target_template kind bd = Some tm \<Longrightarrow> target_template kind bd' = Some tm' \<Longrightarrow>
      Sum256 (hash_text bd d tm) = Sum256 (hash_text bd' d' tm') \<Longrightarrow> hash_text bd d tm = hash_text bd' d' tm'"
    and no_new_line: "bd \<in> set (bundles w) \<Longrightarrow> target_template kind bd = Some tm \<Longrightarrow> \<not> fresh_line (settings_text (formats_of bd) tm)"
    and roles: "bd \<in> set (bundles w) \<Longrightarrow> bd' \<in> set (bundles w') \<Longrightarrow> om_Name (bd_Meta bd) = om_Name (bd_Meta bd') \<Longrightarrow>
      target_template kind bd = Some tm \<Longrightarrow> target_template kind bd' = Some tm' \<Longrightarrow>
      settings_text (formats_of bd) tm = settings_text (formats_of bd') tm' \<Longrightarrow>
      set (expected_properties (tt_Key tm) (formats_of bd)) \<subseteq> set (expected_properties (tt_Key tm') (formats_of bd')) \<Longrightarrow>
      tt_Key tm = tt_Key tm' \<and> formats_within (formats_of bd) (formats_of bd')"
begin

abbreviation same :: "'w sys \<Rightarrow> 'w sys \<Rightarrow> Resource \<Rightarrow> bool" where
  "same s s' t \<equiv> same_target (ctl_targetReconciler b) content (sys_world s) (sys_world s') t"

abbreviation settled_in :: "'w \<Rightarrow> Bundle \<Rightarrow> BundleData \<Rightarrow> Resource \<Rightarrow> bool" where
  "settled_in \<equiv> target_settled b content"

abbreviation honest :: "'w \<Rightarrow> bool" where
  "honest \<equiv> all_genuine b view bundles content missing"

lemma templated: "bd \<in> set (bundles w) \<Longrightarrow> well_templated bd"
  using admitted admitted_well_templated by blast

lemma built: "build b w bd = Ok d \<Longrightarrow> resolve b missing (view w) bd = Ok d"
  using build_or_fails [OF reading, of w bd] by (auto simp: fails_transiently_def)

lemma set_range: "set (ctl_range b xs) = set xs"
  using range by (rule mset_eq_setD)

text \<open>Events that enqueue nothing leave the sources and the namespaces as they are.\<close>

definition quiet_events :: "'w \<Rightarrow> event list \<Rightarrow> Bundle \<Rightarrow> bool" where
  "quiet_events w evs bd \<longleftrightarrow> (\<forall>ev \<in> set evs. \<not> enqueues handle (ctl_labels b) (ctl_Options b) (bundles w) bd ev)"

lemma not_queued_quiet:
  assumes "\<And>ev. ev \<in> set evs \<Longrightarrow> set (watch_requests handle (bundles w) ev (watches_of b)) \<subseteq> queue"
    and "request_of bd \<notin> queue"
  shows "quiet_events w evs bd"
  using assms by (fastforce simp: quiet_events_def enqueues_def request_of_def)

lemma quiet_resolve:
  assumes "cluster_run (view w) evs (view w')" and "bd \<in> set (bundles w)" and "quiet_events w evs bd"
  shows "resolve b missing (view w') bd = resolve b missing (view w) bd"
proof -
  have "same_sources (ctl_labels b) (opt_Namespace (ctl_Options b)) (spec_Sources (bd_Spec bd)) (view w) (view w')"
    by (rule quiet_run [OF assms(1) _ delivers assms(2)]) (use assms(3) in \<open>simp add: quiet_events_def\<close>)
  from add_sources_cong [OF cluster_reader_reads cluster_reader_reads _ this, of "ctl_bundleBuilder b"] show ?thesis
    by (simp add: resolve_def BuildBundle_def options)
qed

lemma quiet_selected:
  assumes "cluster_run (view w) evs (view w')" and "bd \<in> set (bundles w)" and "quiet_events w evs bd"
    and "bundleTargetNamespaceSelector (ctl_labels b) (spec_Target (bd_Spec bd)) = Inr sel"
  shows "selected_namespaces b (view w') sel = selected_namespaces b (view w) sel"
  unfolding selected_namespaces_def
  by (rule quiet_namespaces [where opts = "ctl_Options b", OF assms(1) _ delivers assms(2,4)]) (use assms(3) in \<open>simp add: quiet_events_def\<close>)

lemma quiet_blocked:
  "cluster_run (view w) evs (view w') \<Longrightarrow> bd \<in> set (bundles w) \<Longrightarrow> quiet_events w evs bd \<Longrightarrow>
     blocked_now b view missing w bd \<Longrightarrow> blocked_now b view missing w' bd"
  by (simp add: blocked_now_def quiet_resolve)

lemma quiet_in_sync:
  assumes "cluster_run (view w) evs (view w')" and "bd \<in> set (bundles w)" and "quiet_events w evs bd"
    and "in_sync_now b view content missing w bd"
    and kept: "\<And>d t. \<not> secrets_refused b bd \<Longrightarrow> nn_Name (res_NamespacedName t) = om_Name (bd_Meta bd) \<Longrightarrow>
      settled_in w bd d t \<Longrightarrow> same_target (ctl_targetReconciler b) content w w' t"
  shows "in_sync_now b view content missing w' bd"
proof -
  from assms(4) obtain d sel where d: "resolve b missing (view w) bd = Ok d" "\<not> secrets_refused b bd"
    "bundleTargetNamespaceSelector (ctl_labels b) (spec_Target (bd_Spec bd)) = Inr sel"
    and settled: "\<And>t. t \<in> set (desired_targets (ctl_Options b) bd (selected_namespaces b (view w) sel) []) \<Longrightarrow> settled_in w bd d t"
    unfolding in_sync_targets by blast
  have "nn_Name (res_NamespacedName t) = om_Name (bd_Meta bd)"
    if "t \<in> set (desired_targets (ctl_Options b) bd nss [])" for t nss
    using that unfolding set_desired by (auto simp: resource_for_def)
  with d settled kept have "settled_in w' bd d t"
    if "t \<in> set (desired_targets (ctl_Options b) bd (selected_namespaces b (view w) sel) [])" for t
    using that settled_same by metis
  with d quiet_resolve [OF assms(1-3)] quiet_selected [OF assms(1-3) d(3)] show ?thesis
    unfolding in_sync_targets by auto
qed

text \<open>The clean-up and the writes of one Bundle leave the settled targets of another alone.\<close>

lemma cleanup_targets_apart:
  assumes "cleanup_targets (ctl_targetReconciler b) bd D kind objs s = (x, s')"
    and "\<And>obj. obj \<in> set objs \<Longrightarrow> target_key kind obj = t \<Longrightarrow> \<not> rec_IsControlledBy (ctl_targetReconciler b) obj (bd_Meta bd)"
  shows "same s s' t"
  using assms
proof (induction objs arbitrary: s)
  case (Cons obj objs)
  show ?case
  proof (cases "target_key kind obj \<in> set D \<or> om_DeletionTimestamp obj \<noteq> None \<or>
      \<not> rec_IsControlledBy (ctl_targetReconciler b) obj (bd_Meta bd)")
    case True
    with Cons.prems Cons.IH [of s] show ?thesis by (auto simp: Let_def split: if_splits)
  next
    case False
    obtain y s1 where y: "CleanupTarget (ctl_targetReconciler b) (target_key kind obj) bd s = (y, s1)" by force
    have "target_key kind obj \<noteq> t" using False Cons.prems(2) by auto
    then have "same s s1 t" using cleanup_apart [OF y, of t] by simp
    with Cons.prems Cons.IH [of s1] False y show ?thesis
      by (auto simp: Let_def intro: same_target_trans split: res.splits)
  qed
qed simp

lemma cleanup_kinds_apart:
  assumes "cleanup_kinds b bd D kinds s = (x, s')"
    and "cache_of (ctl_targetReconciler b) s t = Inr obj" and "\<not> rec_IsControlledBy (ctl_targetReconciler b) obj (bd_Meta bd)"
  shows "same s s' t"
  using assms(1,2)
proof (induction kinds arbitrary: s)
  case (Cons kind kinds)
  show ?case
  proof (cases "ctl_ListTargets b (sys_world s) kind [(BundleLabelKey, om_Name (bd_Meta bd))]")
    case (Inl err)
    with Cons.prems show ?thesis by (auto simp: Eventf_def log_action_def)
  next
    case (Inr objs)
    obtain y s1 where y: "cleanup_targets (ctl_targetReconciler b) bd D kind objs s = (y, s1)" by force
    have "\<not> rec_IsControlledBy (ctl_targetReconciler b) o' (bd_Meta bd)" if "o' \<in> set objs" "target_key kind o' = t" for o'
      using listed [OF Inr that(1)] that(2) Cons.prems(2) assms(3) by (auto simp: cache_of_def target_key_def)
    from cleanup_targets_apart [OF y this] have s1: "same s s1 t" .
    with Cons.prems(2) have "cache_of (ctl_targetReconciler b) s1 t = Inr obj" by (simp add: same_target_def cache_of_def)
    with Cons.prems(1) Inr y Cons.IH [of s1] s1 show ?thesis by (cases y) (auto intro: same_target_trans)
  qed
qed simp

lemma apply_targets_apart:
  assumes "faithful_cluster b bd d content" and "apply_targets b bd d ts ch s = (x, s')" and "t \<notin> set ts"
  shows "same s s' t"
  using assms(2,3)
proof (induction ts arbitrary: ch s)
  case (Cons t0 ts)
  obtain y s1 where y: "ApplyTarget (ctl_tstore b) (ctl_targetReconciler b) t0 bd d s = (y, s1)" by force
  have "same s s1 t" using faithful_cluster.apply_apart [OF assms(1) y] Cons.prems(2) by simp
  with Cons.prems Cons.IH [of _ s1] y show ?case
    by (auto intro: same_target_trans split: res.splits prod.splits option.splits if_splits)
qed simp

text \<open>The worlds that a reconcile passes: after the clean-up, after the writes, and after the status patch.\<close>

lemma sync_targets_worlds:
  assumes "sync_targets b bd d sel nss p s = (x, s')"
  obtains y z s1 s2 where "cleanup_kinds b bd (desired_targets (ctl_Options b) bd nss []) (target_kinds (ctl_Options b)) s = (y, s1)"
    "apply_targets b bd d (ctl_range b (desired_targets (ctl_Options b) bd nss [])) False s1 = (z, s2)"
    "sys_world s' = sys_world s1 \<or> sys_world s' = sys_world s2"
    "\<forall>st. x = Ok (st, None) \<longrightarrow> y = Ok () \<and> (\<exists>ch. z = Ok (Inr ch)) \<and> sys_world s' = sys_world s2"
proof -
  let ?D = "desired_targets (ctl_Options b) bd nss []"
  obtain y s1 where y: "cleanup_kinds b bd ?D (target_kinds (ctl_Options b)) s = (y, s1)" by force
  obtain z s2 where z: "apply_targets b bd d (ctl_range b ?D) False s1 = (z, s2)" by force
  have "sys_world s' = sys_world s1 \<or> sys_world s' = sys_world s2"
    using assms y z by (auto simp: sync_targets_def report_synced_def Let_def Eventf_def log_action_def
        split: res.splits sum.splits prod.splits if_splits)
  moreover have "y = Ok () \<and> (\<exists>ch. z = Ok (Inr ch)) \<and> sys_world s' = sys_world s2" if "x = Ok (st, None)" for st
    using assms y z that by (auto simp: sync_targets_def report_synced_def Let_def Eventf_def log_action_def
        split: res.splits sum.splits prod.splits if_splits)
  ultimately show thesis using that [OF y z] by blast
qed

lemma sync_targets_apart:
  assumes "faithful_cluster b bd d content" and "sync_targets b bd d sel nss p s = (x, s')"
    and "cache_of (ctl_targetReconciler b) s t = Inr obj" and "\<not> rec_IsControlledBy (ctl_targetReconciler b) obj (bd_Meta bd)"
    and "nn_Name (res_NamespacedName t) \<noteq> om_Name (bd_Meta bd)"
  shows "same s s' t"
proof -
  obtain y z s1 s2 where y: "cleanup_kinds b bd (desired_targets (ctl_Options b) bd nss []) (target_kinds (ctl_Options b)) s = (y, s1)"
    and z: "apply_targets b bd d (ctl_range b (desired_targets (ctl_Options b) bd nss [])) False s1 = (z, s2)"
    and worlds: "sys_world s' = sys_world s1 \<or> sys_world s' = sys_world s2"
    by (rule sync_targets_worlds [OF assms(2)])
  have "t \<notin> set (desired_targets (ctl_Options b) bd nss [])" using assms(5) unfolding set_desired by (auto simp: resource_for_def)
  then have "same s1 s2 t" by (intro apply_targets_apart [OF assms(1) z]) (simp add: set_range)
  moreover have "same s s1 t" by (rule cleanup_kinds_apart [OF y assms(3,4)])
  ultimately show ?thesis using worlds by (auto simp: same_target_def)
qed

text \<open>A reconcile either changes no target, or it found its Bundle and went as far as the targets.\<close>

lemma reconcileBundle_worlds:
  assumes "reconcileBundle b req s = (x, s')"
  obtains "sys_world s' = sys_world s"
  | bd d sel nss p where "bd \<in> set (bundles (sys_world s))" "req = request_of bd" "build b (sys_world s) bd = Ok d"
    "\<not> secrets_refused b bd" "bundleTargetNamespaceSelector (ctl_labels b) (spec_Target (bd_Spec bd)) = Inr sel"
    "ctl_ListNamespaces b (sys_world s) sel = Inr nss" "sync_targets b bd d sel nss p s = (x, s')"
proof (cases "ctl_Get b (sys_world s) req")
  case (Inl err)
  with assms that(1) show thesis by (auto simp: reconcileBundle_def split: if_splits)
next
  case (Inr bd)
  with get [OF Inr] assms that show thesis
    by (auto simp: reconcileBundle_def secrets_refused_def Let_def Eventf_def log_action_def split: res.splits sum.splits prod.splits if_splits)
qed

lemma reconcileBundle_apart:
  assumes "reconcileBundle b req s = (x, s')" and "bd \<in> set (bundles (sys_world s))" and "req \<noteq> request_of bd"
    and "cache_of (ctl_targetReconciler b) s t = Inr obj" and "rec_IsControlledBy (ctl_targetReconciler b) obj (bd_Meta bd)"
    and "nn_Name (res_NamespacedName t) = om_Name (bd_Meta bd)"
  shows "same s s' t"
  using assms(1)
proof (cases rule: reconcileBundle_worlds)
  case 1
  then show ?thesis by (simp add: same_target_def)
next
  case (2 bd' d sel nss p)
  then have other: "\<not> rec_IsControlledBy (ctl_targetReconciler b) obj (bd_Meta bd')"
    using one_controller [OF assms(2) 2(1) assms(5)] assms(3) by metis
  have name: "nn_Name (res_NamespacedName t) \<noteq> om_Name (bd_Meta bd')" using assms(3,6) 2(2) by (auto simp: request_of_def)
  show ?thesis by (rule sync_targets_apart [OF faithful [OF 2(1) built [OF 2(3)]] 2(7) assms(4) other name])
qed

lemma Reconcile_world:
  "Reconcile_Bundle b req s = (x, s') \<Longrightarrow>
     \<exists>y s1. reconcileBundle b req s = (y, s1) \<and> (\<forall>t. same s1 s' t) \<and>
       (x = Ok [] \<longrightarrow> (\<exists>st. y = Ok (st, None)))"
  by (cases "reconcileBundle b req s")
    (auto simp: Reconcile_Bundle_def Reconcile_result_def Let_def log_action_def
      split: res.splits sum.splits prod.splits option.splits, (metis snd_conv status_apart)+)

lemma other_reconcile_keeps:
  assumes "Reconcile_Bundle b req \<lparr>sys_world = w, sys_log = l\<rparr> = (x, s')" and "bd \<in> set (bundles w)" and "req \<noteq> request_of bd"
    and "nn_Name (res_NamespacedName t) = om_Name (bd_Meta bd)" and "settled_in w bd d t"
  shows "same_target (ctl_targetReconciler b) content w (sys_world s') t"
proof -
  obtain y s1 where y: "reconcileBundle b req \<lparr>sys_world = w, sys_log = l\<rparr> = (y, s1)" and rest: "same s1 s' t"
    using Reconcile_world [OF assms(1)] by blast
  from assms(5) obtain obj where "cache_of (ctl_targetReconciler b) \<lparr>sys_world = w, sys_log = l\<rparr> t = Inr obj"
    "rec_IsControlledBy (ctl_targetReconciler b) obj (bd_Meta bd)" by (auto simp: target_settled_def up_to_date_def cache_of_def)
  from reconcileBundle_apart [OF y _ assms(3) this assms(4)] assms(2) rest show ?thesis by (auto intro: same_target_trans)
qed

text \<open>The targets stay genuine: what a reconcile leaves is what it wrote, what it cleared, or what was there.\<close>

abbreviation asked :: "Bundle \<Rightarrow> BundleData \<Rightarrow> bool" where
  "asked \<equiv> asked_for b view bundles missing"

lemma asked_world: "asked bd d \<Longrightarrow> \<exists>w. bd \<in> set (bundles w) \<and> resolve b missing (view w) bd = Ok d"
  by (simp add: asked_for_def)

lemma honest_same: "honest w \<Longrightarrow> (\<And>t. same_target (ctl_targetReconciler b) content w w' t) \<Longrightarrow> honest w'"
  unfolding all_genuine_def by (blast intro: genuine_same)

lemma cleanup_honest:
  assumes "CleanupTarget (ctl_targetReconciler b) t bd s = (x, s')" and "honest (sys_world s)"
  shows "honest (sys_world s')"
  unfolding all_genuine_def
proof
  fix t'
  have old: "genuine b view bundles missing content (sys_world s) t'" using assms(2) by (simp add: all_genuine_def)
  show "genuine b view bundles missing content (sys_world s') t'"
  proof (cases "same s s' t'")
    case True
    with old show ?thesis by (rule genuine_same)
  next
    case False
    with cleanup_apart [OF assms(1)] have "t' = t" by blast
    with cleanup_effect [OF assms(1)] False have
      "hash_of obj = [] \<or> keys_managed (ctl_targetReconciler b) (res_Kind t') obj = {}"
      if "rec_CacheGet (ctl_targetReconciler b) (sys_world s') (res_Kind t') (res_NamespacedName t') = Inr obj" for obj
      using that by blast
    with empty_not_expected show ?thesis unfolding genuine_def by (metis Inr_inject)
  qed
qed

lemma apply_honest:
  assumes "ApplyTarget (ctl_tstore b) (ctl_targetReconciler b) t bd d s = (x, s')" and "honest (sys_world s)"
    and "asked bd d" and name: "om_Name (bd_Meta bd) = nn_Name (res_NamespacedName t)" and tm: "target_template (res_Kind t) bd = Some tm"
  shows "honest (sys_world s')"
  unfolding all_genuine_def
proof
  fix t'
  have old: "genuine b view bundles missing content (sys_world s) t'" using assms(2) by (simp add: all_genuine_def)
  from asked_world [OF assms(3)] obtain w0 where bd: "bd \<in> set (bundles w0)" "resolve b missing (view w0) bd = Ok d" by blast
  note fc = faithful [OF bd]
  show "genuine b view bundles missing content (sys_world s') t'"
  proof (cases "same s s' t'")
    case True
    with old show ?thesis by (rule genuine_same)
  next
    case False
    with faithful_cluster.apply_apart [OF fc assms(1)] have t': "t' = t" by blast
    from faithful_cluster.apply_effect [OF fc assms(1) templated [OF bd(1)] tm] False t'
    obtain cfg where cfg: "desired_patch (ctl_tstore b) t bd d tm cfg"
      "shows_write (ctl_targetReconciler b) content (sys_world s') t cfg (bd_Meta bd)" by metis
    from cfg(2) obtain obj where obj: "rec_CacheGet (ctl_targetReconciler b) (sys_world s') (res_Kind t) (res_NamespacedName t) = Inr obj"
      and shown: "shows_patch (ctl_targetReconciler b) (res_Kind t) cfg (bd_Meta bd) obj"
      and data: "\<And>k. k \<in> fst ` set (all_data cfg) \<Longrightarrow> content (sys_world s') t k = map_of (all_data cfg) k"
      by (auto simp: shows_write_def)
    have hash: "hash_of obj = desired_hash bd d tm"
      using shows_patch_up_to_date [OF cfg(1) shown] by (simp add: up_to_date_def)
    have keys: "keys_managed (ctl_targetReconciler b) (res_Kind t) obj = fst ` set (all_data cfg)"
      using shown by (auto simp: shows_patch_def keys_managed_listed split: sum.splits)
    show ?thesis
      unfolding genuine_def t'
      by (intro allI impI exI [of _ bd] exI [of _ d] exI [of _ tm] exI [of _ cfg])
        (use obj hash keys data cfg(1) assms(3) name tm in auto)
  qed
qed

lemma cleanup_targets_honest:
  "cleanup_targets (ctl_targetReconciler b) bd D kind objs s = (x, s') \<Longrightarrow> honest (sys_world s) \<Longrightarrow> honest (sys_world s')"
proof (induction objs arbitrary: s)
  case (Cons obj objs)
  obtain y s1 where y: "CleanupTarget (ctl_targetReconciler b) (target_key kind obj) bd s = (y, s1)" by force
  with Cons.prems Cons.IH [of s] Cons.IH [of s1] cleanup_honest [OF y] show ?case
    by (cases y) (auto simp: Let_def split: if_splits)
qed simp

lemma cleanup_kinds_honest:
  "cleanup_kinds b bd D kinds s = (x, s') \<Longrightarrow> honest (sys_world s) \<Longrightarrow> honest (sys_world s')"
proof (induction kinds arbitrary: s)
  case (Cons kind kinds)
  show ?case
  proof (cases "ctl_ListTargets b (sys_world s) kind [(BundleLabelKey, om_Name (bd_Meta bd))]")
    case (Inl err)
    with Cons.prems show ?thesis by (auto simp: Eventf_def log_action_def)
  next
    case (Inr objs)
    obtain y s1 where y: "cleanup_targets (ctl_targetReconciler b) bd D kind objs s = (y, s1)" by force
    with Cons.prems Inr Cons.IH [of s1] cleanup_targets_honest [OF y] show ?thesis by (cases y) auto
  qed
qed simp

definition own_targets :: "Bundle \<Rightarrow> Resource list \<Rightarrow> bool" where
  "own_targets bd ts \<longleftrightarrow>
     (\<forall>t \<in> set ts. om_Name (bd_Meta bd) = nn_Name (res_NamespacedName t) \<and> target_template (res_Kind t) bd \<noteq> None)"

lemma own_rest: "own_targets bd (t # ts) \<Longrightarrow> own_targets bd ts"
  unfolding own_targets_def by (meson list.set_intros(2))

lemma own_desired: "own_targets bd (ctl_range b (desired_targets (ctl_Options b) bd nss []))"
  using desired_have_template [of _ "ctl_Options b" bd nss] unfolding own_targets_def set_range
  by (auto simp: set_desired resource_for_def)

lemma apply_targets_honest:
  "apply_targets b bd d ts ch s = (x, s') \<Longrightarrow> honest (sys_world s) \<Longrightarrow> asked bd d \<Longrightarrow> own_targets bd ts \<Longrightarrow> honest (sys_world s')"
proof (induction ts arbitrary: ch s)
  case (Cons t ts)
  obtain y s1 where y: "ApplyTarget (ctl_tstore b) (ctl_targetReconciler b) t bd d s = (y, s1)" by force
  from Cons.prems(4) obtain tm where "om_Name (bd_Meta bd) = nn_Name (res_NamespacedName t)" "target_template (res_Kind t) bd = Some tm"
    by (auto simp: own_targets_def)
  from apply_honest [OF y Cons.prems(2,3) this] have s1: "honest (sys_world s1)" .
  have "own_targets bd ts" by (rule own_rest [OF Cons.prems(4)])
  with Cons.prems(1,3) Cons.IH [OF _ s1] y s1 show ?case
    by (auto split: res.splits prod.splits option.splits)
qed simp

lemma Reconcile_honest:
  assumes "Reconcile_Bundle b req s = (x, s')" and "honest (sys_world s)"
  shows "honest (sys_world s')"
proof -
  obtain y s1 where y: "reconcileBundle b req s = (y, s1)" and rest: "\<And>t. same s1 s' t"
    using Reconcile_world [OF assms(1)] by blast
  from y have "honest (sys_world s1)"
  proof (cases rule: reconcileBundle_worlds)
    case (2 bd d sel nss p)
    have asked: "asked bd d" using 2(1) built [OF 2(3)] by (auto simp: asked_for_def)
    obtain u z s2 s3 where c: "cleanup_kinds b bd (desired_targets (ctl_Options b) bd nss []) (target_kinds (ctl_Options b)) s = (u, s2)"
      and a: "apply_targets b bd d (ctl_range b (desired_targets (ctl_Options b) bd nss [])) False s2 = (z, s3)"
      and worlds: "sys_world s1 = sys_world s2 \<or> sys_world s1 = sys_world s3"
      by (rule sync_targets_worlds [OF 2(7)])
    have "honest (sys_world s2)" by (rule cleanup_kinds_honest [OF c assms(2)])
    with apply_targets_honest [OF a _ asked own_desired] worlds show ?thesis by auto
  qed (use assms(2) in simp)
  with rest show ?thesis by (blast intro: honest_same)
qed

text \<open>An up-to-date object holds the data: its hash is that of what the controller wrote, and the hash determines the data.\<close>

lemma up_to_date_holds_data:
  assumes "genuine b view bundles missing content w t" and asked: "asked bd d"
    and tm: "target_template (res_Kind t) bd = Some tm" and name: "om_Name (bd_Meta bd) = nn_Name (res_NamespacedName t)"
    and obj: "rec_CacheGet (ctl_targetReconciler b) w (res_Kind t) (res_NamespacedName t) = Inr obj"
    and upd: "up_to_date (ctl_targetReconciler b) (res_Kind t) obj bd d tm"
  shows "holds_data (ctl_tstore b) bd d tm (content w t)"
proof -
  let ?E = "\<lambda>bd tm. set (expected_properties (tt_Key tm) (formats_of bd))"
  let ?K = "keys_managed (ctl_targetReconciler b) (res_Kind t) obj"
  from upd have keys: "?K = ?E bd tm" and hash: "hash_of obj = desired_hash bd d tm"
    by (auto simp: up_to_date_def keys_managed_listed split: sum.splits)
  have "?K \<noteq> {}" using keys by (auto simp: expected_properties_def)
  moreover have "hash_of obj \<in> expected_hashes b view bundles missing" using hash asked tm by (auto simp: expected_hashes_def)
  ultimately obtain bd' d' tm' cfg where asked': "asked bd' d'" and name': "om_Name (bd_Meta bd') = nn_Name (res_NamespacedName t)"
    and tm': "target_template (res_Kind t) bd' = Some tm'" and cfg: "desired_patch (ctl_tstore b) t bd' d' tm' cfg"
    and hash': "hash_of obj = desired_hash bd' d' tm'"
    and written: "\<And>k. k \<in> ?K \<Longrightarrow> k \<in> fst ` set (all_data cfg) \<and> content w t k = map_of (all_data cfg) k"
    using assms(1) obj unfolding genuine_def by metis
  from asked_world [OF asked] asked_world [OF asked'] obtain w1 w2 where
    bd: "bd \<in> set (bundles w1)" "resolve b missing (view w1) bd = Ok d" and
    bd': "bd' \<in> set (bundles w2)" "resolve b missing (view w2) bd' = Ok d'" by blast
  have same: "desired_hash bd d tm = desired_hash bd' d' tm'" using hash hash' by simp
  note det = hash_determines [OF same digest [OF asked asked' tm tm'] resolved_nonempty [OF bd(2)] resolved_nonempty [OF bd'(2)]
      no_new_line [OF bd(1) tm] no_new_line [OF bd'(1) tm']]
  have "?E bd tm \<subseteq> ?E bd' tm'" using written keys cfg by (auto simp: desired_patch_def)
  with roles [OF bd(1) bd'(1) _ tm tm' det(2)] name name'
  have "tt_Key tm = tt_Key tm'" "formats_within (formats_of bd) (formats_of bd')" by simp_all
  then show ?thesis by (intro holds_patch [OF cfg]) (use det(1) written keys in simp_all)
qed

text \<open>A reconcile without an error leaves its Bundle in sync, or blocked.\<close>

lemma apply_settles:
  assumes run: "ApplyTarget (ctl_tstore b) (ctl_targetReconciler b) t bd d s = (Ok (wr, None), s')" and "honest (sys_world s)"
    and asked: "asked bd d" and name: "om_Name (bd_Meta bd) = nn_Name (res_NamespacedName t)" and tm: "target_template (res_Kind t) bd = Some tm"
  shows "settled_in (sys_world s') bd d t"
proof -
  from asked_world [OF asked] obtain w0 where bd: "bd \<in> set (bundles w0)" "resolve b missing (view w0) bd = Ok d" by blast
  note fc = faithful [OF bd]
  show ?thesis
  proof (cases wr)
    case True
    from faithful_cluster.apply_effect [OF fc run templated [OF bd(1)] tm] True
    obtain cfg where "desired_patch (ctl_tstore b) t bd d tm cfg" "shows_write (ctl_targetReconciler b) content (sys_world s') t cfg (bd_Meta bd)"
      by metis
    from faithful_cluster.shows_write_up_to_date [OF fc this] tm show ?thesis unfolding target_settled_def by metis
  next
    case False
    then have idle: "s' = s" using run by (auto dest: ApplyTarget_quiet)
    with run False have "ApplyTarget (ctl_tstore b) (ctl_targetReconciler b) t bd d s = (Ok (False, None), s)" by simp
    from ApplyTarget_idleD [OF this] tm obtain obj where obj:
      "rec_CacheGet (ctl_targetReconciler b) (sys_world s) (res_Kind t) (res_NamespacedName t) = Inr obj"
      "up_to_date (ctl_targetReconciler b) (res_Kind t) obj bd d tm" by (auto simp: cache_of_def)
    have "genuine b view bundles missing content (sys_world s) t" using assms(2) by (simp add: all_genuine_def)
    from up_to_date_holds_data [OF this asked tm name obj] obj tm idle show ?thesis by (auto simp: target_settled_def)
  qed
qed

lemma apply_run_apart:
  "apply_run b bd d ts s s' \<Longrightarrow> t \<notin> set ts \<Longrightarrow> faithful_cluster b bd d content \<Longrightarrow> same s s' t"
proof (induction rule: apply_run.induct)
  case (apply_step t0 s wr s1 ts s2)
  then show ?case using faithful_cluster.apply_apart [OF apply_step.prems(2) apply_step.hyps(1), of t] by (auto intro: same_target_trans)
qed simp

lemma apply_run_settles:
  "apply_run b bd d ts s s' \<Longrightarrow> distinct ts \<Longrightarrow> honest (sys_world s) \<Longrightarrow> asked bd d \<Longrightarrow> own_targets bd ts \<Longrightarrow>
     faithful_cluster b bd d content \<Longrightarrow> t \<in> set ts \<Longrightarrow> settled_in (sys_world s') bd d t"
proof (induction rule: apply_run.induct)
  case (apply_step t0 s wr s1 ts s2)
  from apply_step.prems(4) obtain tm where t0: "om_Name (bd_Meta bd) = nn_Name (res_NamespacedName t0)" "target_template (res_Kind t0) bd = Some tm"
    by (auto simp: own_targets_def)
  show ?case
  proof (cases "t = t0")
    case True
    have "settled_in (sys_world s1) bd d t0" by (rule apply_settles [OF apply_step.hyps(1) apply_step.prems(2,3) t0])
    moreover have "same s1 s2 t0" using apply_step.hyps(2) apply_step.prems(1,5)
      by (auto intro: apply_run_apart)
    ultimately show ?thesis using True by (auto intro: settled_same)
  next
    case False
    have "honest (sys_world s1)" by (rule apply_honest [OF apply_step.hyps(1) apply_step.prems(2,3) t0])
    with apply_step.IH apply_step.prems False own_rest show ?thesis by auto
  qed
qed simp

lemma reconcile_reaches_targets:
  assumes "reconcileBundle b (request_of bd) s = (Ok (st, None), s1)" and bd: "bd \<in> set (bundles (sys_world s))"
    and free: "\<not> blocked_now b view missing (sys_world s) bd"
  obtains d sel nss p where "build b (sys_world s) bd = Ok d" "\<not> secrets_refused b bd"
    "bundleTargetNamespaceSelector (ctl_labels b) (spec_Target (bd_Spec bd)) = Inr sel"
    "ctl_ListNamespaces b (sys_world s) sel = Inr nss" "sync_targets b bd d sel nss p s = (Ok (st, None), s1)"
proof -
  have got: "ctl_Get b (sys_world s) (request_of bd) = Inr bd"
    using get_fails [OF bd] assms(1) by (auto simp: or_fails_def transient_def reconcileBundle_def)
  have "\<not> IsSourceNotFound e" if "build b (sys_world s) bd = Err e" for e
    using build_or_fails [OF reading, of "sys_world s" bd] that free
    by (cases "resolve b missing (view (sys_world s)) bd") (auto simp: blocked_now_def fails_transiently_def)
  with assms(1) got obtain d where d: "build b (sys_world s) bd = Ok d"
    by (cases "build b (sys_world s) bd") (auto simp: reconcileBundle_def Let_def split: prod.splits)
  from free built [OF d] have secrets: "\<not> secrets_refused b bd" by (auto simp: blocked_now_def)
  from assms(1) got d secrets that show thesis
    by (auto simp: reconcileBundle_def secrets_refused_def Let_def split: sum.splits)
qed

lemma own_reconcile:
  assumes rec: "Reconcile_Bundle b (request_of bd) \<lparr>sys_world = w, sys_log = l\<rparr> = (Ok [], s')" and bd: "bd \<in> set (bundles w)"
    and "honest w" and run: "cluster_run (view w) evs (view (sys_world s'))" and quiet: "quiet_events w evs bd"
  shows "in_sync_now b view content missing (sys_world s') bd \<or> blocked_now b view missing (sys_world s') bd"
proof (cases "blocked_now b view missing w bd")
  case True
  with quiet_blocked [OF run bd quiet] show ?thesis by blast
next
  case False
  let ?s = "\<lparr>sys_world = w, sys_log = l\<rparr>"
  obtain st s1 where r: "reconcileBundle b (request_of bd) ?s = (Ok (st, None), s1)" and rest: "\<And>t. same s1 s' t"
    using Reconcile_world [OF rec] by blast
  obtain d sel nss p where d: "build b w bd = Ok d" "\<not> secrets_refused b bd"
    "bundleTargetNamespaceSelector (ctl_labels b) (spec_Target (bd_Spec bd)) = Inr sel" "ctl_ListNamespaces b w sel = Inr nss"
    and sync: "sync_targets b bd d sel nss p ?s = (Ok (st, None), s1)"
    by (rule reconcile_reaches_targets [OF r]) (use bd False in simp_all)
  let ?ts = "ctl_range b (desired_targets (ctl_Options b) bd nss [])"
  obtain y z s2 s3 where c: "cleanup_kinds b bd (desired_targets (ctl_Options b) bd nss []) (target_kinds (ctl_Options b)) ?s = (y, s2)"
    and a: "apply_targets b bd d ?ts False s2 = (z, s3)"
    and ok: "\<forall>st'. Ok (st, None :: gerr option) = Ok (st', None) \<longrightarrow> y = Ok () \<and> (\<exists>ch. z = Ok (Inr ch)) \<and> sys_world s1 = sys_world s3"
    by (rule sync_targets_worlds [OF sync])
  from ok [rule_format, OF refl] a obtain ch where a': "apply_targets b bd d ?ts False s2 = (Ok (Inr ch), s3)" and world: "sys_world s1 = sys_world s3" by blast
  have resolved: "resolve b missing (view w) bd = Ok d" by (rule built [OF d(1)])
  have asked: "asked bd d" using bd resolved by (auto simp: asked_for_def)
  have h: "honest (sys_world s2)" using cleanup_kinds_honest [OF c] assms(3) by simp
  have dist: "distinct ?ts" using mset_eq_imp_distinct_iff [OF range [of "desired_targets (ctl_Options b) bd nss []"]] by (simp add: distinct_desired)
  have nss: "nss = selected_namespaces b (view w) sel" using namespaces [of w sel] d(4) by (simp add: or_fails_def)
  have "settled_in (sys_world s') bd d t" if "t \<in> set (desired_targets (ctl_Options b) bd nss [])" for t
  proof -
    have "settled_in (sys_world s3) bd d t"
      by (rule apply_run_settles [OF apply_targets_run [OF a'] dist h asked own_desired faithful [OF bd resolved]])
        (use that in \<open>simp add: set_range\<close>)
    with rest [of t] world show ?thesis by (auto intro: settled_same)
  qed
  with d resolved nss quiet_resolve [OF run bd quiet] quiet_selected [OF run bd quiet d(3)] show ?thesis
    unfolding in_sync_targets by auto
qed

text \<open>Every step keeps the invariant.\<close>

lemma watched_Bundles: "WatchesBundles \<in> set (watches_of b)"
  by (simp add: bundle_watches_def)

lemma watched_targets:
  "target_template kind bd \<noteq> None \<Longrightarrow> \<not> secrets_refused b bd \<Longrightarrow> WatchesOwned kind \<in> set (watches_of b)"
  by (auto simp: target_template_def bundle_watches_def secrets_refused_def split: if_splits)

lemma nothing_lost_after:
  assumes "Bundles_watched old (bundles (cs_world \<sigma>)) (cs_queue \<sigma>)"
    and "\<And>bd. bd \<in> set old \<Longrightarrow> request_of bd \<notin> cs_queue \<sigma> \<Longrightarrow>
      in_sync_now b view content missing (cs_world \<sigma>) bd \<or> blocked_now b view missing (cs_world \<sigma>) bd"
  shows "nothing_lost b view bundles content missing \<sigma>"
  unfolding nothing_lost_def
proof
  fix bd' assume "bd' \<in> set (bundles (cs_world \<sigma>))"
  with assms(1) consider "request_of bd' \<in> cs_queue \<sigma>" | bd st where "bd \<in> set old" "bd' = bd\<lparr>bd_Status := st\<rparr>"
    by (auto simp: Bundles_watched_def)
  then show "request_of bd' \<in> cs_queue \<sigma> \<or> in_sync_now b view content missing (cs_world \<sigma>) bd' \<or>
      blocked_now b view missing (cs_world \<sigma>) bd'"
    by cases (use assms(2) in \<open>auto simp: status_does_not_matter\<close>)
qed

lemma step_invariant:
  assumes "controller_step b view bundles content missing handle owner \<sigma> \<sigma>'"
    and "nothing_lost b view bundles content missing \<sigma>" and "honest (cs_world \<sigma>)"
  shows "nothing_lost b view bundles content missing \<sigma>' \<and> honest (cs_world \<sigma>')"
  using assms
proof cases
  case (changed w evs w' queue' queue)
  have "in_sync_now b view content missing w' bd \<or> blocked_now b view missing w' bd"
    if bd: "bd \<in> set (bundles w)" and free: "request_of bd \<notin> queue'" for bd
  proof -
    have quiet: "quiet_events w evs bd" by (rule not_queued_quiet [OF changed(6) free])
    have kept: "same_target (ctl_targetReconciler b) content w w' t" if "\<not> secrets_refused b bd" "settled_in w bd d t" for d t
    proof (rule ccontr)
      assume differs: "\<not> same_target (ctl_targetReconciler b) content w w' t"
      from that(2) obtain tm obj where obj: "target_template (res_Kind t) bd = Some tm"
        "rec_CacheGet (ctl_targetReconciler b) w (res_Kind t) (res_NamespacedName t) = Inr obj"
        "up_to_date (ctl_targetReconciler b) (res_Kind t) obj bd d tm" unfolding target_settled_def by blast
      have "owner obj \<subseteq> queue'" by (rule changed(5) [OF watched_targets [OF _ that(1)] obj(2) differs]) (simp add: obj(1))
      moreover have "request_of bd \<in> owner obj" using obj(3) by (auto simp: up_to_date_def intro: owner [OF bd])
      ultimately show False using free by blast
    qed
    from assms(2) changed(1,8) bd free have "in_sync_now b view content missing w bd \<or> blocked_now b view missing w bd"
      by (auto simp: nothing_lost_def)
    with quiet_in_sync [OF changed(3) bd quiet] kept quiet_blocked [OF changed(3) bd quiet] show ?thesis by blast
  qed
  then have "nothing_lost b view bundles content missing \<sigma>'"
    using changed(2) changed(4) [OF watched_Bundles] nothing_lost_after [of "bundles w" \<sigma>'] by simp
  moreover have "honest w'" using assms(3) changed(1,7) genuine_not_forged by (fastforce simp: all_genuine_def)
  ultimately show ?thesis using changed(2) by simp
next
  case (reconciled req queue w res s' evs queue')
  have "in_sync_now b view content missing (sys_world s') bd \<or> blocked_now b view missing (sys_world s') bd"
    if bd: "bd \<in> set (bundles w)" and free: "request_of bd \<notin> queue'" for bd
  proof -
    have quiet: "quiet_events w evs bd" by (rule not_queued_quiet [OF reconciled(7) free])
    show ?thesis
    proof (cases "request_of bd = req")
      case True
      with reconciled(3,8) free have "res = Ok []" by (auto split: if_splits)
      with reconciled(1,4) assms(3) True own_reconcile [OF _ bd _ reconciled(5) quiet] show ?thesis by simp
    next
      case False
      with reconciled(8) free have "request_of bd \<notin> queue" by (auto split: if_splits)
      with assms(2) reconciled(1) bd have "in_sync_now b view content missing w bd \<or> blocked_now b view missing w bd"
        by (auto simp: nothing_lost_def)
      with quiet_in_sync [OF reconciled(5) bd quiet] quiet_blocked [OF reconciled(5) bd quiet]
        other_reconcile_keeps [OF reconciled(4) bd] False show ?thesis by blast
    qed
  qed
  then have "nothing_lost b view bundles content missing \<sigma>'"
    using reconciled(2) reconciled(6) [OF watched_Bundles] nothing_lost_after [of "bundles w" \<sigma>'] by simp
  moreover have "honest (sys_world s')" using Reconcile_honest [OF reconciled(4)] assms(3) reconciled(1) by simp
  ultimately show ?thesis using reconciled(2) by simp
qed

lemma run_invariant:
  "controller_run b view bundles content missing handle owner \<sigma> \<sigma>' \<Longrightarrow> nothing_lost b view bundles content missing \<sigma> \<Longrightarrow>
     honest (cs_world \<sigma>) \<Longrightarrow> nothing_lost b view bundles content missing \<sigma>' \<and> honest (cs_world \<sigma>')"
  by (induction rule: controller_run.induct) (auto dest: step_invariant)

end

text \<open>
  C1: The controller loses no update. Start with every Bundle on the queue, as the first listing of
  the watches leaves it, and interleave changes of sources, namespaces, targets and Bundles with
  reconciles in any order, failing ones included: at every moment, a Bundle that is not queued has
  in each namespace it wants a target that holds the PEM bundle its sources resolve to at that moment,
  and a trust store of the same certificates under each other key, or it cannot be synced because a source is
  missing or Secret targets are off. What this rests on (\<open>controlled_cluster\<close>): a reconcile is one step; reads are
  current, but may fail; the cache shows a write at once; the time that certificates are compared with stands
  still; the Bundles passed the admission webhook; an object has one controlling Bundle; nobody else passes
  off data as the controller's, at the start (\<open>all_genuine\<close>) and later (\<open>not_forged\<close>); and the hash annotation
  tells the versions of a Bundle apart: the digests that occur do not collide, no settings start with a new line,
  and two versions with the same hashed settings and the same keys give each key the same role, password
  and profile (which the hash itself does not ensure, see \<open>key_swap_not_synced\<close> and \<open>profile_change_not_synced\<close>).
\<close>

theorem controller_loses_no_update:
  assumes "controlled_cluster b view bundles content missing handle owner"
    and "\<And>bd. bd \<in> set (bundles (cs_world \<sigma>)) \<Longrightarrow> request_of bd \<in> cs_queue \<sigma>"
    and "all_genuine b view bundles content missing (cs_world \<sigma>)"
    and "controller_run b view bundles content missing handle owner \<sigma> \<sigma>'"
    and "bd \<in> set (bundles (cs_world \<sigma>'))" and "request_of bd \<notin> cs_queue \<sigma>'"
  shows "in_sync_now b view content missing (cs_world \<sigma>') bd \<or> blocked_now b view missing (cs_world \<sigma>') bd"
proof -
  have "nothing_lost b view bundles content missing \<sigma>" using assms(2) by (simp add: nothing_lost_def)
  from controlled_cluster.run_invariant [OF assms(1,4) this assms(3)] assms(5,6) show ?thesis by (auto simp: nothing_lost_def)
qed

end
