(* ===== verification/ControllerExample.thy ===== *)
theory ControllerExample
  imports Controller
begin

text \<open>
  A cluster that fulfils the contract of the controller: a server that stores the metadata and the data
  of the targets as the patches send them, with the objects that the watches see. The Bundle of the examples is
  synced by its first reconcile, and the invariant of the controller applies to it.
\<close>

section \<open>Things that do not depend on the status\<close>

lemma target_status:
  "bd_Spec (bd\<lparr>bd_Status := st\<rparr>) = bd_Spec bd"
  "target_patch t (bd\<lparr>bd_Status := st\<rparr>) = target_patch t bd"
  "configMap_patch t (bd\<lparr>bd_Status := st\<rparr>) = configMap_patch t bd"
  "secret_patch t (bd\<lparr>bd_Status := st\<rparr>) = secret_patch t bd"
  "exit_early r t got (bd\<lparr>bd_Status := st\<rparr>) hash = exit_early r t got bd hash"
  by (auto simp: target_patch_def prepareTargetPatch_def fun_eq_iff configMap_patch_def secret_patch_def exit_early_def
      needsUpdate_def Let_def split: sum.split option.split)

lemma ApplyTarget_status: "ApplyTarget lib r t (bd\<lparr>bd_Status := st\<rparr>) d s = ApplyTarget lib r t bd d s"
  unfolding ApplyTarget_def applyConfigMap_def applySecret_def target_status by (rule refl)

lemma faithful_cluster_status: "faithful_cluster b (bd\<lparr>bd_Status := st\<rparr>) d content = faithful_cluster b bd d content"
  by (simp add: faithful_cluster_def faithful_cluster_axioms_def steady_cluster_def ApplyTarget_status target_template_status)

section \<open>The wire format of the example\<close>

text \<open>A list of strings in one string: each character is preceded by a one, each string is followed by a zero.\<close>

definition pack :: "string list \<Rightarrow> string" where
  "pack xs = concat (map (\<lambda>s. concat (map (\<lambda>c. [CHR ''1'', c]) s) @ ''0'') xs)"

fun unpack_from :: "string \<Rightarrow> string \<Rightarrow> string list" where
  "unpack_from acc (m # c # r) = (if m = CHR ''0'' then acc # unpack_from [] (c # r) else unpack_from (acc @ [c]) r)"
| "unpack_from acc [m] = (if m = CHR ''0'' then [acc] else [])"
| "unpack_from acc [] = []"

definition unpack :: "string \<Rightarrow> string list" where
  "unpack = unpack_from []"

lemma unpack_string: "unpack_from acc (concat (map (\<lambda>c. [CHR ''1'', c]) s) @ CHR ''0'' # r) = (acc @ s) # unpack_from [] r"
  by (induction s arbitrary: acc) (cases r, simp_all)

lemma unpack_pack [simp]: "unpack (pack xs) = xs"
  by (induction xs) (simp_all add: unpack_def pack_def unpack_string [where acc = "[]", simplified])

fun entries_of :: "string list \<Rightarrow> string gomap" where
  "entries_of (k # v # r) = (k, v) # entries_of r"
| "entries_of r = []"

lemma entries_of_flat [simp]: "entries_of (concat (map (\<lambda>(k, v). [k, v]) m)) = m"
  by (induction m) auto

section \<open>The server\<close>

record api_world = api_server +
  api_data :: "Resource \<Rightarrow> string gomap"
  api_cluster :: cluster

text \<open>An encoded patch is the hash annotation and the data; the managed fields list the keys that were sent.\<close>

definition encode_patch :: "ApplyConfiguration \<Rightarrow> string" where
  "encode_patch cfg = pack (get_or_empty (ac_Annotations cfg) BundleHashAnnotationKey # concat (map (\<lambda>(k, v). [k, v]) (all_data cfg)))"

definition stored_object :: "NamespacedName \<Rightarrow> string list \<Rightarrow> ObjectMeta" where
  "stored_object nn parts = (api_object nn (hd parts))
     \<lparr>om_ManagedFields := [\<lparr>mf_Manager = FieldManager, mf_FieldsV1 = Some (pack (map fst (entries_of (tl parts))))\<rparr>]\<rparr>"

definition world_put :: "Kind \<Rightarrow> NamespacedName \<Rightarrow> string \<Rightarrow> api_world \<Rightarrow> api_world" where
  "world_put kind nn sent w =
     (let t = \<lparr>res_Kind = kind, res_NamespacedName = nn\<rparr>; parts = unpack sent
      in w\<lparr>api_objects := (api_objects w)(t \<mapsto> stored_object nn parts), api_data := (api_data w)(t := entries_of (tl parts))\<rparr>)"

definition world_reconciler :: "api_world Reconciler" where
  "world_reconciler =
     \<lparr>rec_CacheGet = rec_CacheGet api_reconciler,
      rec_Marshal = \<lambda>cfg. Inr (encode_patch cfg),
      rec_PatchConfigMap = \<lambda>w nn sent.
        ((\<lparr>cm_Meta = stored_object nn (unpack sent), cm_Data = entries_of (tl (unpack sent)), cm_BinaryData = []\<rparr>, None),
         world_put KindConfigMap nn sent w),
      rec_PatchSecret = \<lambda>w nn sent.
        ((\<lparr>sec_Meta = stored_object nn (unpack sent), sec_Type = [], sec_Data = map (apsnd Some) (entries_of (tl (unpack sent)))\<rparr>, None),
         world_put KindSecret nn sent w),
      rec_Delete = \<lambda>w kind nn.
        (None, w\<lparr>api_objects := (api_objects w)(\<lparr>res_Kind = kind, res_NamespacedName = nn\<rparr> := None),
                 api_data := (api_data w)(\<lparr>res_Kind = kind, res_NamespacedName = nn\<rparr> := [])\<rparr>),
      rec_PatchResourceOverwrite = None,
      rec_IsControlledBy = rec_IsControlledBy example_reconciler,
      rec_Fieldset = \<lambda>raw. Inr (\<lambda>f. if f = ''data'' then map ((#) (CHR ''.'')) (unpack raw) else [])\<rparr>"

definition world_content :: "api_world \<Rightarrow> contents" where
  "world_content w t = (if api_objects w t = None then Map.empty else map_of (api_data w t))"

definition world_namespaces :: "cluster \<Rightarrow> LabelSelector option \<Rightarrow> Namespace list" where
  "world_namespaces cl sel = filter (lib_Matches example_lib sel \<circ> om_Labels \<circ> ns_Meta) (cl_Namespaces cl)"

text \<open>The objects of a kind in the namespaces, under the name of the Bundle.\<close>

definition world_target :: "Kind \<Rightarrow> string \<Rightarrow> Resource" where
  "world_target kind ns = \<lparr>res_Kind = kind, res_NamespacedName = \<lparr>nn_Namespace = ns, nn_Name = ''b''\<rparr>\<rparr>"

definition world_targets :: "api_world \<Rightarrow> Kind \<Rightarrow> ObjectMeta list" where
  "world_targets w kind =
     [obj. ns \<leftarrow> cl_Namespaces (api_cluster w),
       obj \<leftarrow> (case api_objects w (world_target kind (om_Name (ns_Meta ns))) of None \<Rightarrow> [] | Some obj \<Rightarrow> [obj]),
       target_key kind obj = world_target kind (om_Name (ns_Meta ns))]"

definition world_ctl :: "(api_world, LabelSelector option, unit) bundle_ctl" where
  "world_ctl = api_ctl
     \<lparr>ctl_Get := \<lambda>w req. if req = request_of example_bundle then Inr (example_bundle\<lparr>bd_Status := api_status w\<rparr>)
        else Inl (ApiNotFound ''not found''),
      ctl_Reader := \<lambda>w. cluster_reader example_lib ''cert-manager'' not_here (api_cluster w),
      ctl_ListNamespaces := \<lambda>w sel. Inr (world_namespaces (api_cluster w) sel),
      ctl_ListTargets := \<lambda>w kind ls. Inr (world_targets w kind),
      ctl_targetReconciler := world_reconciler\<rparr>"

definition world_bundles :: "api_world \<Rightarrow> Bundle list" where
  "world_bundles w = [example_bundle\<lparr>bd_Status := api_status w\<rparr>]"

text \<open>The handler of the owned watch: the Bundle whose UID the controller reference carries.\<close>

definition world_owner :: "ObjectMeta \<Rightarrow> request set" where
  "world_owner obj =
     (if rec_IsControlledBy example_reconciler obj (bd_Meta example_bundle) then {request_of example_bundle} else {})"

lemma world_ctl_simps [simp]:
  "ctl_Get world_ctl w req = (if req = request_of example_bundle then Inr (example_bundle\<lparr>bd_Status := api_status w\<rparr>)
     else Inl (ApiNotFound ''not found''))"
  "ctl_Reader world_ctl w = cluster_reader example_lib ''cert-manager'' not_here (api_cluster w)"
  "ctl_ListNamespaces world_ctl w sel = Inr (world_namespaces (api_cluster w) sel)"
  "ctl_ListTargets world_ctl w kind ls = Inr (world_targets w kind)"
  "ctl_StatusPatch world_ctl w name patch = (None, w\<lparr>api_status := api_status_of patch\<rparr>)"
  "ctl_tstore world_ctl = example_tstore" "ctl_targetReconciler world_ctl = world_reconciler"
  "ctl_Options world_ctl = bb_Options example_builder" "ctl_bundleBuilder world_ctl = example_builder"
  "ctl_labels world_ctl = example_lib" "ctl_clock world_ctl = 7" "ctl_range world_ctl = rev"
  "ctl_Marshal world_ctl = ctl_Marshal (api_ctl :: (api_server, _, _) bundle_ctl)"
  by (simp_all add: world_ctl_def api_ctl_def)

lemma world_get: "rec_CacheGet world_reconciler w kind nn =
    (case api_objects w \<lparr>res_Kind = kind, res_NamespacedName = nn\<rparr> of
       None \<Rightarrow> Inl (ApiNotFound ''not found'') | Some obj \<Rightarrow> Inr obj)"
  by (simp add: world_reconciler_def api_get)

section \<open>Writes\<close>

definition world_written :: "Kind \<Rightarrow> Resource \<Rightarrow> ApplyConfiguration \<Rightarrow> api_world sys \<Rightarrow> api_world sys" where
  "world_written kind t cfg s =
     (log_action (PatchRequest kind cfg) s)\<lparr>sys_world := world_put kind (res_NamespacedName t) (encode_patch cfg) (sys_world s)\<rparr>"

lemma world_patches:
  assumes "named_config t cfg"
  shows "\<exists>cm. patchConfigMap world_reconciler (Some cfg) s = (Ok (Some cm, None), world_written KindConfigMap t cfg s) \<and>
      om_Namespace (cm_Meta cm) = nn_Namespace (res_NamespacedName t) \<and> om_Name (cm_Meta cm) = nn_Name (res_NamespacedName t) \<and>
      cm_Data cm = all_data cfg \<and> cm_BinaryData cm = []"
    and "\<exists>sec. patchSecret world_reconciler (Some cfg) s = (Ok (Some sec, None), world_written KindSecret t cfg s) \<and>
      om_Namespace (sec_Meta sec) = nn_Namespace (res_NamespacedName t) \<and> om_Name (sec_Meta sec) = nn_Name (res_NamespacedName t) \<and>
      length (sec_Data sec) = length (all_data cfg)"
  using assms by (simp_all add: patchConfigMap_def patchSecret_def world_reconciler_def named_config_def log_patch_def log_action_def
      world_written_def named_key encode_patch_def stored_object_def api_object_def)

lemma world_apply:
  assumes "ApplyTarget example_tstore world_reconciler t example_bundle example_data s = (x, s')"
  shows "s' = s \<and> (\<forall>e. x \<noteq> Ok (True, e)) \<or>
    res_Kind t = KindConfigMap \<and> x = Ok (True, None) \<and> s' = world_written KindConfigMap t (api_patch t) s"
proof -
  obtain cm where "patchConfigMap world_reconciler (Some (api_patch t)) s = (Ok (Some cm, None), world_written KindConfigMap t (api_patch t) s)"
    using world_patches(1) [OF named_configMap_patch] by blast
  moreover have "TrustBundleHash (PEM (Some (bdl_CertPool example_data))) (Some example_formats) (Some example_template) = example_hash"
    by (simp add: example_hash_def desired_hash_def example_spec)
  moreover have "bt_ConfigMap (spec_Target (bd_Spec example_bundle)) = Some example_template"
    by (simp add: example_bundle_def)
  ultimately show ?thesis using assms
    by (auto simp: ApplyTarget_def applyConfigMap_def applySecret_def example_spec Let_def
        example_binaryData exit_early_def get_failed_def split: if_splits option.splits sum.splits res.splits prod.splits bool.splits)
qed

lemma world_stored:
  "api_objects (sys_world (world_written kind t cfg s)) =
     (api_objects (sys_world s))(\<lparr>res_Kind = kind, res_NamespacedName = res_NamespacedName t\<rparr> \<mapsto>
        stored_object (res_NamespacedName t) (unpack (encode_patch cfg)))"
  "api_data (sys_world (world_written kind t cfg s)) =
     (api_data (sys_world s))(\<lparr>res_Kind = kind, res_NamespacedName = res_NamespacedName t\<rparr> := all_data cfg)"
  by (simp_all add: world_written_def world_put_def encode_patch_def Let_def)

lemma world_managed:
  "listManagedProperties world_reconciler (om_ManagedFields (stored_object nn (unpack (encode_patch cfg)))) FieldManager (target_fields KindConfigMap) =
     Inr (map fst (all_data cfg))"
  by (simp add: world_reconciler_def stored_object_def target_fields_def trim_dot_def encode_patch_def comp_def)

lemma world_shows_patch:
  "shows_patch world_reconciler KindConfigMap (api_patch t) (bd_Meta example_bundle) (stored_object nn (unpack (encode_patch (api_patch t))))"
proof -
  let ?obj = "stored_object nn (unpack (encode_patch (api_patch t)))"
  have same: "om_Labels ?obj = om_Labels (api_object nn example_hash)" "om_Annotations ?obj = om_Annotations (api_object nn example_hash)"
    and owned: "rec_IsControlledBy world_reconciler ?obj (bd_Meta example_bundle)"
    using api_patch_hash [of t] example_controlled
    by (simp_all add: stored_object_def encode_patch_def world_reconciler_def example_reconciler_def)
  have "map_of (ac_Labels (api_patch t)) \<subseteq>\<^sub>m map_of (om_Labels (api_object nn example_hash))"
    and "map_of (ac_Annotations (api_patch t)) \<subseteq>\<^sub>m map_of (entries (om_Annotations (api_object nn example_hash)))"
    using api_shows_patch [of t nn] unfolding shows_patch_def by blast+
  then show ?thesis unfolding shows_patch_def world_managed same sum.case using owned by (intro conjI) simp_all
qed

lemma world_shows_write:
  "res_Kind t = KindConfigMap \<Longrightarrow>
     shows_write world_reconciler world_content (sys_world (world_written KindConfigMap t (api_patch t) s)) t (api_patch t) (bd_Meta example_bundle)"
  using world_shows_patch [of t "res_NamespacedName t"]
  by (cases t) (simp add: shows_write_def world_get world_stored world_content_def)

lemma world_same_elsewhere:
  "t' \<noteq> \<lparr>res_Kind = kind, res_NamespacedName = res_NamespacedName t\<rparr> \<Longrightarrow>
     same_target world_reconciler world_content (sys_world s) (sys_world (world_written kind t cfg s)) t'"
  by (cases t') (auto simp: same_target_def world_get world_stored world_content_def)

interpretation world_write: faithful_cluster world_ctl example_bundle example_data world_content
proof unfold_locales
  fix t tm cfg and s s' :: "api_world sys"
  assume "ApplyTarget (ctl_tstore world_ctl) (ctl_targetReconciler world_ctl) t example_bundle example_data s = (Ok (True, None), s')"
    and log: "sys_log s' = sys_log s @ [PatchRequest (res_Kind t) cfg]"
  with world_apply [of t s "Ok (True, None)" s'] have t: "res_Kind t = KindConfigMap" "s' = world_written KindConfigMap t (api_patch t) s" by simp_all
  with log have "cfg = api_patch t" by (simp add: world_written_def log_action_def)
  with world_shows_write [OF t(1), of s] t show "\<exists>obj. cache_of (ctl_targetReconciler world_ctl) s' t = Inr obj \<and>
      shows_patch (ctl_targetReconciler world_ctl) (res_Kind t) cfg (bd_Meta example_bundle) obj"
    by (auto simp: shows_write_def cache_of_def)
next
  fix t tm x cfg and s s' :: "api_world sys"
  assume "ApplyTarget (ctl_tstore world_ctl) (ctl_targetReconciler world_ctl) t example_bundle example_data s = (x, s')"
    and log: "sys_log s' = sys_log s @ [PatchRequest (res_Kind t) cfg]"
  then have "res_Kind t = KindConfigMap" "s' = world_written KindConfigMap t (api_patch t) s"
    using world_apply [of t s x s'] by auto
  with log world_shows_write [of t s]
  show "shows_write (ctl_targetReconciler world_ctl) world_content (sys_world s') t cfg (bd_Meta example_bundle) \<or>
      (\<forall>e. x \<noteq> Ok (True, e)) \<and> same_target (ctl_targetReconciler world_ctl) world_content (sys_world s) (sys_world s') t"
    by (simp add: world_written_def log_action_def)
next
  fix t t' x and s s' :: "api_world sys"
  assume "ApplyTarget (ctl_tstore world_ctl) (ctl_targetReconciler world_ctl) t example_bundle example_data s = (x, s')" and "t' \<noteq> t"
  then have "same_target world_reconciler world_content (sys_world s) (sys_world s') t'"
    using world_apply [of t s x s'] world_same_elsewhere [of t' KindConfigMap t s "api_patch t"] by (cases t) auto
  then show "cache_of (ctl_targetReconciler world_ctl) s' t' = cache_of (ctl_targetReconciler world_ctl) s t'"
    and "world_content (sys_world s') t' = world_content (sys_world s) t'"
    by (simp_all add: same_target_def cache_of_def)
qed (simp add: fun_eq_iff world_get)

text \<open>A clean-up empties its target, which is then deleted.\<close>

lemma world_cleanup:
  assumes "CleanupTarget world_reconciler t bd s = (x, s')"
  shows "t' \<noteq> t \<Longrightarrow> same_target world_reconciler world_content (sys_world s) (sys_world s') t'"
    and "same_target world_reconciler world_content (sys_world s) (sys_world s') t \<or> api_objects (sys_world s') t = None"
proof -
  let ?w = "\<lambda>kind. world_written kind t (target_patch t bd) s"
  have patch: "named_config t (target_patch t bd)" "all_data (target_patch t bd) = []"
    by (simp_all add: named_config_def target_patch_def prepareTargetPatch_def new_ApplyConfiguration_def all_data_def)
  obtain cm sec where
    cm: "patchConfigMap world_reconciler (Some (target_patch t bd)) s = (Ok (Some cm, None), ?w KindConfigMap)"
      "om_Namespace (cm_Meta cm) = nn_Namespace (res_NamespacedName t)" "om_Name (cm_Meta cm) = nn_Name (res_NamespacedName t)"
      "cm_Data cm = []" "cm_BinaryData cm = []" and
    sec: "patchSecret world_reconciler (Some (target_patch t bd)) s = (Ok (Some sec, None), ?w KindSecret)"
      "om_Namespace (sec_Meta sec) = nn_Namespace (res_NamespacedName t)" "om_Name (sec_Meta sec) = nn_Name (res_NamespacedName t)"
      "sec_Data sec = []"
    using world_patches [OF patch(1), of s] patch(2) by auto
  have effect: "sys_world s' = sys_world s \<or>
      (\<exists>kind. res_Kind t = kind \<and> sys_world s' = (sys_world (?w kind))
        \<lparr>api_objects := (api_objects (sys_world (?w kind)))(t := None), api_data := (api_data (sys_world (?w kind)))(t := [])\<rparr>)"
    using assms cm sec
    by (cases t) (auto simp: CleanupTarget_def delete_target_def log_action_def world_reconciler_def named_key split: if_splits)
  show "same_target world_reconciler world_content (sys_world s) (sys_world s') t'" if "t' \<noteq> t"
    using effect world_same_elsewhere [of t' "res_Kind t" t s "target_patch t bd"] that
    by (cases t; cases t') (auto simp: same_target_def world_get world_content_def)
  show "same_target world_reconciler world_content (sys_world s) (sys_world s') t \<or> api_objects (sys_world s') t = None"
    using effect by auto
qed

section \<open>The contract of the controller\<close>

lemma world_resolve: "resolve world_ctl not_here cl (example_bundle\<lparr>bd_Status := st\<rparr>) = Ok example_data"
proof -
  have one: "add_source parse lib rd bb example_inline acc = add_source parse lib rd' bb example_inline acc" for parse lib rd rd' bb acc
    by (simp add: add_source_def example_inline_def)
  have all: "add_sources parse lib rd bb [example_inline] acc = add_sources parse lib rd' bb [example_inline] acc" for parse lib rd rd' bb acc
    using one [of parse lib rd bb acc rd'] by (cases "add_source parse lib rd' bb example_inline acc") simp_all
  have "BuildBundle parse now lib rd bb [example_inline] = BuildBundle parse now lib rd' bb [example_inline]" for parse now lib rd rd' bb
    unfolding BuildBundle_def using all [of parse lib rd bb _ rd'] by (simp only:)
  from this [of _ _ _ "cluster_reader (ctl_labels world_ctl) (opt_Namespace (ctl_Options world_ctl)) not_here cl" _ "ctl_Reader api_ctl w" for w]
    api_build show ?thesis
    unfolding resolve_def by (simp add: world_ctl_def api_ctl_def example_spec)
qed

lemma world_listed:
  assumes "obj \<in> set (world_targets w kind)"
  shows "rec_CacheGet world_reconciler w kind \<lparr>nn_Namespace = om_Namespace obj, nn_Name = om_Name obj\<rparr> = Inr obj"
proof -
  from assms obtain ns where "api_objects w (world_target kind ns) = Some obj" "target_key kind obj = world_target kind ns"
    by (auto simp: world_targets_def split: option.splits if_splits)
  then show ?thesis by (simp add: world_get target_key_def world_target_def)
qed

lemma world_admitted: "ValidateCreate accept_all (example_bundle\<lparr>bd_Status := st\<rparr>) = []" "go_templates (example_bundle\<lparr>bd_Status := st\<rparr>)"
  using example_bundle_admitted [of st]
  by (simp_all add: ValidateCreate_def go_templates_def target_template_def example_bundle_def example_template_def wf_map_def)

lemma world_template: "target_template kind (example_bundle\<lparr>bd_Status := st\<rparr>) = Some tm \<Longrightarrow> tm = example_template"
  by (auto simp: target_template_def example_bundle_def split: if_splits)

lemma world_settings: "\<not> fresh_line (settings_text (formats_of (example_bundle\<lparr>bd_Status := st\<rparr>)) example_template)"
  by (simp add: fresh_line_def settings_text_def example_bundle_def example_formats_def nl_def)

interpretation world: controlled_cluster world_ctl api_cluster world_bundles world_content not_here example_handle world_owner
proof (rule controlled_cluster.intro)
  show "delivers example_handle" by (rule example_handle_delivers)
next
  fix w bd d assume "bd \<in> set (world_bundles w)" and d: "resolve world_ctl not_here (api_cluster w) bd = Ok d"
  then have bd: "bd = example_bundle\<lparr>bd_Status := api_status w\<rparr>" by (simp add: world_bundles_def)
  with d world_resolve have "d = example_data" by simp
  with bd world_write.faithful_cluster_axioms show "faithful_cluster world_ctl bd d world_content" by (simp add: faithful_cluster_status)
next
  fix t bd s x s' t' assume "CleanupTarget (ctl_targetReconciler world_ctl) t bd s = (x, s')" and "t' \<noteq> t"
  then show "same_target (ctl_targetReconciler world_ctl) world_content (sys_world s) (sys_world s') t'"
    by (simp add: world_cleanup(1))
next
  fix t bd s x s' assume "CleanupTarget (ctl_targetReconciler world_ctl) t bd s = (x, s')"
  from world_cleanup(2) [OF this [simplified]]
  show "same_target (ctl_targetReconciler world_ctl) world_content (sys_world s) (sys_world s') t \<or>
      (\<forall>obj. rec_CacheGet (ctl_targetReconciler world_ctl) (sys_world s') (res_Kind t) (res_NamespacedName t) = Inr obj \<longrightarrow>
         hash_of obj = [] \<or> keys_managed (ctl_targetReconciler world_ctl) (res_Kind t) obj = {})"
    by (cases t) (auto simp: world_get)
next
  fix bd w assume "bd \<in> set (world_bundles w)"
  then show "(\<exists>val. ValidateCreate val bd = []) \<and> go_templates bd" using world_admitted by (auto simp: world_bundles_def)
next
  fix bd w obj assume "bd \<in> set (world_bundles w)" "rec_IsControlledBy (ctl_targetReconciler world_ctl) obj (bd_Meta bd)"
  then show "request_of bd \<in> world_owner obj"
    by (simp add: world_bundles_def world_owner_def world_reconciler_def request_of_def)
next
  fix bd d bd' d' kind tm tm'
  assume "asked_for world_ctl api_cluster world_bundles not_here bd d" and "asked_for world_ctl api_cluster world_bundles not_here bd' d'"
    and tm: "target_template kind bd = Some tm" "target_template kind bd' = Some tm'"
  then obtain st st' where "bd = example_bundle\<lparr>bd_Status := st\<rparr>" "bd' = example_bundle\<lparr>bd_Status := st'\<rparr>" "d = example_data" "d' = example_data"
    using world_resolve by (auto simp: asked_for_def world_bundles_def)
  with tm show "hash_text bd d tm = hash_text bd' d' tm'" by (auto simp: hash_text_def dest!: world_template)
next
  fix bd w kind tm assume "bd \<in> set (world_bundles w)" "target_template kind bd = Some tm"
  then show "\<not> fresh_line (settings_text (formats_of bd) tm)"
    using world_settings by (auto simp: world_bundles_def dest!: world_template)
next
  fix bd w bd' w' kind tm tm'
  assume "bd \<in> set (world_bundles w)" "bd' \<in> set (world_bundles w')" "target_template kind bd = Some tm" "target_template kind bd' = Some tm'"
  then show "tt_Key tm = tt_Key tm' \<and> formats_within (formats_of bd) (formats_of bd')"
    by (auto simp: world_bundles_def formats_within_refl dest!: world_template)
next
  fix w kind ls objs obj assume "ctl_ListTargets world_ctl w kind ls = Inr objs" and "obj \<in> set objs"
  then show "rec_CacheGet (ctl_targetReconciler world_ctl) w kind \<lparr>nn_Namespace = om_Namespace obj, nn_Name = om_Name obj\<rparr> = Inr obj"
    using world_listed by simp
qed (auto simp: reads_or_fails_def or_fails_def example_options world_bundles_def request_of_def selected_namespaces_def
    world_namespaces_def same_target_def world_get world_content_def split: if_splits)

section \<open>A run\<close>

definition world_start :: api_world where
  "world_start = \<lparr>api_objects = \<lambda>_. None, api_status = bd_Status example_bundle, api_data = \<lambda>_. [],
     api_cluster = \<lparr>cl_ConfigMaps = [], cl_Secrets = [], cl_Namespaces = example_namespaces\<rparr>\<rparr>"

definition world_first :: "api_world sys" where
  "world_first = world_written KindConfigMap example_target (api_patch example_target) \<lparr>sys_world = world_start, sys_log = []\<rparr>"

definition world_synced :: "api_world sys" where
  "world_synced = \<lparr>sys_world = (sys_world world_first)\<lparr>api_status := api_status_of api_message\<rparr>,
     sys_log = sys_log world_first @ [Event EventNormal ''Synced'' ''Synced'' api_message [], StatusPatchRequest ''b'' api_request]\<rparr>"

lemma world_first_apply:
  "ApplyTarget example_tstore world_reconciler example_target example_bundle example_data \<lparr>sys_world = world_start, sys_log = []\<rparr> =
     (Ok (True, None), world_first)"
proof -
  obtain cm where "patchConfigMap world_reconciler (Some (api_patch example_target)) \<lparr>sys_world = world_start, sys_log = []\<rparr> =
      (Ok (Some cm, None), world_first)"
    using world_patches(1) [OF named_configMap_patch] unfolding world_first_def by blast
  moreover have "TrustBundleHash (PEM (Some (bdl_CertPool example_data))) (Some example_formats) (Some example_template) = example_hash"
    by (simp add: example_hash_def desired_hash_def example_spec)
  moreover have "bt_ConfigMap (spec_Target (bd_Spec example_bundle)) = Some example_template"
    by (simp add: example_bundle_def)
  moreover have "res_Kind example_target = KindConfigMap" by (simp add: example_target_def)
  ultimately show ?thesis
    by (simp add: ApplyTarget_def applyConfigMap_def example_spec Let_def example_binaryData exit_early_def get_failed_def
        apierrors_IsNotFound_def world_get world_start_def)
qed

lemma world_reconcile:
  "Reconcile_Bundle world_ctl (request_of example_bundle) \<lparr>sys_world = world_start, sys_log = []\<rparr> = (Ok [], world_synced)"
proof -
  let ?s = "\<lparr>sys_world = world_start, sys_log = []\<rparr>" and ?st = "\<lparr>st_Conditions = [], st_DefaultCAPackageVersion = []\<rparr>"
  have got: "ctl_Get world_ctl world_start (request_of example_bundle) = Inr example_bundle" by (simp add: world_start_def)
  have built: "build world_ctl world_start example_bundle = Ok example_data"
    using world_resolve [of "api_cluster world_start" "bd_Status example_bundle"] by (simp add: resolve_def example_options)
  have all: "world_namespaces (api_cluster world_start) (lib_Everything example_lib) = example_namespaces"
    by (simp add: world_namespaces_def world_start_def example_lib_def)
  have none: "world_targets world_start kind = []" for kind by (simp add: world_targets_def world_start_def)
  have cleanup: "cleanup_kinds world_ctl example_bundle [example_target] (target_kinds (bb_Options example_builder)) ?s = (Ok (), ?s)"
    by (simp add: target_kinds_def example_options none)
  have no_version: "bdl_DefaultCAPackageStringID example_data = []" by (simp add: example_data_def)
  have "sync_targets world_ctl example_bundle example_data (lib_Everything example_lib) example_namespaces ?st ?s =
     (Ok (Some api_request, None), Eventf EventNormal ''Synced'' ''Synced'' api_message [] world_first)"
    by (simp add: sync_targets_def report_synced_def api_desired cleanup world_first_apply no_version Let_def setBundleStatusDefaultCAVersion_eq
        set_patch_condition_def setBundleCondition_def example_status_empty synced_condition_def api_request_def)
  then have "reconcileBundle world_ctl (request_of example_bundle) ?s =
     (Ok (Some api_request, None), Eventf EventNormal ''Synced'' ''Synced'' api_message [] world_first)"
    using built got by (simp add: reconcileBundle_def all Let_def example_spec example_options example_selected example_status_empty
        del: world_ctl_simps(1))
  moreover have "GenerateBundleStatusPatch (ctl_Marshal world_ctl) ''b'' (Some api_request) = Inr api_message"
    by (simp add: GenerateBundleStatusPatch_def api_ctl_def api_request_def synced_condition_def)
  moreover have "nn_Name (request_of example_bundle) = ''b''" by (simp add: request_of_def example_spec)
  ultimately show ?thesis
    by (simp add: Reconcile_Bundle_def Reconcile_result_def Let_def Eventf_def log_action_def world_synced_def)
qed

lemma world_run:
  "controller_run world_ctl api_cluster world_bundles world_content not_here example_handle world_owner
     \<lparr>cs_world = world_start, cs_queue = {request_of example_bundle}\<rparr> \<lparr>cs_world = sys_world world_synced, cs_queue = {}\<rparr>"
proof (rule controller_run.step [OF controller_run.start])
  have "api_cluster (sys_world world_synced) = api_cluster world_start"
    by (simp add: world_synced_def world_first_def world_written_def world_put_def Let_def)
  then have run: "cluster_run (api_cluster world_start) [] (api_cluster (sys_world world_synced))" by (simp add: cluster_run.stop)
  have "Bundles_watched (world_bundles world_start) (world_bundles (sys_world world_synced)) {}"
    by (force simp: Bundles_watched_def world_bundles_def)
  from controller_step.reconciled [OF _ world_reconcile run this, where queue = "{request_of example_bundle}"]
  show "controller_step world_ctl api_cluster world_bundles world_content not_here example_handle world_owner
     \<lparr>cs_world = world_start, cs_queue = {request_of example_bundle}\<rparr> \<lparr>cs_world = sys_world world_synced, cs_queue = {}\<rparr>"
    by simp
qed

text \<open>At the end of the run the target holds the certificate of the inline source.\<close>

lemma controller_loses_no_update_witness:
  "in_sync_now world_ctl api_cluster world_content not_here (sys_world world_synced) (example_bundle\<lparr>bd_Status := api_status (sys_world world_synced)\<rparr>)
   \<and> world_content (sys_world world_synced) example_target ''ca.crt'' = Some (PEM (Some (bdl_CertPool example_data)))"
proof -
  let ?w = "sys_world world_synced"
  let ?bd = "example_bundle\<lparr>bd_Status := api_status ?w\<rparr>"
  have "in_sync_now world_ctl api_cluster world_content not_here (cs_world \<lparr>cs_world = ?w, cs_queue = {}\<rparr>) ?bd \<or>
      blocked_now world_ctl api_cluster not_here (cs_world \<lparr>cs_world = ?w, cs_queue = {}\<rparr>) ?bd"
    by (rule controller_loses_no_update [OF world.controlled_cluster_axioms _ _ world_run])
      (auto simp: world_bundles_def status_does_not_matter all_genuine_def genuine_def world_get world_start_def)
  moreover have "\<not> blocked_now world_ctl api_cluster not_here ?w ?bd"
    using world_resolve by (simp add: blocked_now_def secrets_refused_def example_spec)
  ultimately have sync: "in_sync_now world_ctl api_cluster world_content not_here ?w ?bd" by simp
  have "selected_namespaces world_ctl (api_cluster ?w) (lib_Everything example_lib) = example_namespaces"
    by (simp add: selected_namespaces_def world_synced_def world_first_def world_written_def world_put_def world_start_def example_lib_def Let_def)
  with sync have "target_settled world_ctl world_content ?w ?bd example_data example_target"
    using world_resolve by (auto simp: in_sync_targets example_selected desired_targets_status api_desired example_spec)
  then have "world_content ?w example_target ''ca.crt'' = Some (PEM (Some (bdl_CertPool example_data)))"
    by (auto simp: target_settled_def holds_data_def example_template_def dest!: world_template)
  with sync show ?thesis by blast
qed

end
