(* ===== verification/MigrationController.thy ===== *)
theory MigrationController
  imports Controller BundleControllerTheorems
begin

text \<open>
  The migration controller as a whole: the watches that its set-up registers, the queue they fill, and
  the reconciles of \<open>BundleController\<close>, interleaved with changes of Bundles and ClusterBundles by
  others. What it relies on in the cluster is the locale \<open>migrating_cluster\<close>; the end of the theory has a
  cluster that fulfils it.
\<close>

section \<open>Set-up\<close>

datatype migration_watch =
    ForBundle \<comment> \<open>enqueues the Bundle of the event\<close>
  | OwnsClusterBundle \<comment> \<open>enqueues the Bundle that controls the ClusterBundle of the event\<close>

definition migration_watches :: "migration_watch list" where
  "migration_watches = [ForBundle, OwnsClusterBundle]"

text \<open>The builder of controller-runtime is the argument: it registers a controller with its watches, or fails.\<close>

definition br_SetupWithManager :: "(migration_watch list \<Rightarrow> gerr option) \<Rightarrow> gerr option" where
  "br_SetupWithManager complete = complete migration_watches"

section \<open>States and steps\<close>

type_synonym ClusterBundles = "string \<Rightarrow> ClusterBundle option"

record 'w migrating =
  ms_migration :: "'w migration" \<comment> \<open>the cluster, and all requests of the controller so far\<close>
  ms_queue :: "request set"

text \<open>What the watches enqueue, at least, when the cluster changes from one state to another.\<close>

definition wakes ::
  "migration_watch list \<Rightarrow> ('w \<Rightarrow> Bundle list) \<Rightarrow> ('w \<Rightarrow> ClusterBundles) \<Rightarrow> (ObjectMeta \<Rightarrow> request set) \<Rightarrow> 'w \<Rightarrow> 'w \<Rightarrow> request set \<Rightarrow> bool" where
  "wakes watches bundles cbs owner w w' queue \<longleftrightarrow>
     (ForBundle \<in> set watches \<longrightarrow> Bundles_watched (bundles w) (bundles w') queue) \<and>
     (OwnsClusterBundle \<in> set watches \<longrightarrow>
        (\<forall>n cb. cbs w n \<noteq> cbs w' n \<and> (cbs w n = Some cb \<or> cbs w' n = Some cb) \<longrightarrow> owner (cb_Meta cb) \<subseteq> queue))"

inductive migration_step ::
  "'w bundle_reconciler \<Rightarrow> ('w \<Rightarrow> Bundle list) \<Rightarrow> ('w \<Rightarrow> ClusterBundles) \<Rightarrow> (ObjectMeta \<Rightarrow> request set) \<Rightarrow>
     'w migrating \<Rightarrow> 'w migrating \<Rightarrow> bool"
  for r bundles cbs owner where
  changed: "wakes migration_watches bundles cbs owner (mig_world s) w' queue' \<Longrightarrow> queue \<subseteq> queue' \<Longrightarrow>
     migration_step r bundles cbs owner \<lparr>ms_migration = s, ms_queue = queue\<rparr> \<lparr>ms_migration = s\<lparr>mig_world := w'\<rparr>, ms_queue = queue'\<rparr>"
| reconciled: "req \<in> queue \<Longrightarrow> br_Reconcile r req s = (res, s') \<Longrightarrow>
     wakes migration_watches bundles cbs owner (mig_world s) (mig_world s') queue' \<Longrightarrow>
     (if res = Ok None then queue - {req} else queue) \<subseteq> queue' \<Longrightarrow>
     migration_step r bundles cbs owner \<lparr>ms_migration = s, ms_queue = queue\<rparr> \<lparr>ms_migration = s', ms_queue = queue'\<rparr>"

inductive migration_run ::
  "'w bundle_reconciler \<Rightarrow> ('w \<Rightarrow> Bundle list) \<Rightarrow> ('w \<Rightarrow> ClusterBundles) \<Rightarrow> (ObjectMeta \<Rightarrow> request set) \<Rightarrow>
     'w migrating \<Rightarrow> 'w migrating \<Rightarrow> bool"
  for r bundles cbs owner where
  start: "migration_run r bundles cbs owner \<sigma> \<sigma>"
| step: "migration_run r bundles cbs owner \<sigma> \<sigma>1 \<Longrightarrow> migration_step r bundles cbs owner \<sigma>1 \<sigma>2 \<Longrightarrow> migration_run r bundles cbs owner \<sigma> \<sigma>2"

section \<open>What is to hold of a Bundle that is not queued\<close>

text \<open>The ClusterBundle exists and holds what the Bundle converts to, the owner reference included.\<close>

definition migrated_now ::
  "'w bundle_reconciler \<Rightarrow> ('w \<Rightarrow> ClusterBundles) \<Rightarrow> (ClusterBundle \<Rightarrow> ClusterBundle \<Rightarrow> bool) \<Rightarrow> 'w \<Rightarrow> Bundle \<Rightarrow> bool" where
  "migrated_now r cbs meets w bd \<longleftrightarrow>
     (\<exists>config cb. owned_ClusterBundle r bd = Some config \<and> cbs w (om_Name (bd_Meta bd)) = Some cb \<and> meets config cb)"

text \<open>The controller has given the ClusterBundle to the user: its last request for it is the release.\<close>

definition release :: "string \<Rightarrow> migration_request" where
  "release n = PatchClusterBundle n (ClusterBundleACBody (ClusterBundle_AC n)) FieldManager False"

fun concerns :: "string \<Rightarrow> migration_request \<Rightarrow> bool" where
  "concerns n (PatchClusterBundle m body mgr force) \<longleftrightarrow> m = n"
| "concerns n (PatchBundleStatus m body mgr force) \<longleftrightarrow> False"

definition released :: "migration_request list \<Rightarrow> string \<Rightarrow> bool" where
  "released log n \<longleftrightarrow> (\<exists>before. filter (concerns n) log = before @ [release n])"

definition all_migrated ::
  "'w bundle_reconciler \<Rightarrow> ('w \<Rightarrow> Bundle list) \<Rightarrow> ('w \<Rightarrow> ClusterBundles) \<Rightarrow> (ClusterBundle \<Rightarrow> ClusterBundle \<Rightarrow> bool) \<Rightarrow> 'w migrating \<Rightarrow> bool" where
  "all_migrated r bundles cbs meets \<sigma> \<longleftrightarrow>
     (\<forall>bd \<in> set (bundles (mig_world (ms_migration \<sigma>))). request_of bd \<in> ms_queue \<sigma> \<or>
        migrated_now r cbs meets (mig_world (ms_migration \<sigma>)) bd \<or> released (mig_log (ms_migration \<sigma>)) (om_Name (bd_Meta bd)))"

lemma migrated_now_status: "migrated_now r cbs meets w (bd\<lparr>bd_Status := st\<rparr>) = migrated_now r cbs meets w bd"
  by (simp add: migrated_now_def owned_ClusterBundle_def convertBundleToClusterBundle_def ConvertTo_def case_prod_beta Let_def)

lemma released_log [simp]:
  "released (log @ [release n]) n"
  "released (log @ [PatchBundleStatus m body mgr force]) n \<longleftrightarrow> released log n"
  "m \<noteq> n \<Longrightarrow> released (log @ [PatchClusterBundle m body mgr force]) n \<longleftrightarrow> released log n"
  by (simp_all add: released_def release_def)

section \<open>The contract of the cluster\<close>

locale migrating_cluster =
  fixes r :: "'w bundle_reconciler" and bundles :: "'w \<Rightarrow> Bundle list" and cbs :: "'w \<Rightarrow> ClusterBundles"
    and owner :: "ObjectMeta \<Rightarrow> request set" and meets :: "ClusterBundle \<Rightarrow> ClusterBundle \<Rightarrow> bool"
  assumes get: "br_GetBundle r w req = Inr bd \<longleftrightarrow> bd \<in> set (bundles w) \<and> req = request_of bd"
    and get_ClusterBundle: "br_GetClusterBundle r w nn = Inr cb \<Longrightarrow> cbs w (nn_Name nn) = Some cb"
    and named: "cbs w n = Some cb \<Longrightarrow> om_Name (cb_Meta cb) = n"
    and marshal: "br_Marshal r body = Inl e \<Longrightarrow> \<not> apierrors_IsNotFound e"
    and applied: "br_Marshal r (ClusterBundleBody t) = Inr patch \<Longrightarrow>
      br_Patch r w (PatchClusterBundle n (ClusterBundleBody t) FieldManager True) patch = (None, w') \<Longrightarrow>
      \<exists>cb. cbs w' n = Some cb \<and> meets (tcb_ClusterBundle t) cb"
    and names_apart: "br_Patch r w (PatchClusterBundle n body mgr force) patch = (err, w') \<Longrightarrow> m \<noteq> n \<Longrightarrow> cbs w' m = cbs w m"
    and status_apart: "br_Patch r w (PatchBundleStatus n body mgr force) patch = (err, w') \<Longrightarrow> cbs w' = cbs w"
    and owner: "owned_ClusterBundle r bd = Some config \<Longrightarrow> meets config cb \<Longrightarrow> request_of bd \<in> owner (cb_Meta cb)"
begin

lemma condition_apart:
  assumes "applyBundleCondition r bd c s = (out, s')" and "cac_Type c = Some type" and "cac_Status c = Some status"
  shows "cbs (mig_world s') = cbs (mig_world s)" and "released (mig_log s') n = released (mig_log s) n"
  using assms(1) unfolding applyBundleCondition_eq [OF assms(2,3)]
  by (auto simp: send_patch_def dest: status_apart split: sum.splits prod.splits)

lemmas migrated_apart = condition_apart [where c = "migrated_condition bd" for bd, simplified]
lemmas deprecated_apart = condition_apart [where c = "deprecated_condition bd" for bd, simplified]

lemma user_managed_name: "user_managed r bd w = Some cb \<Longrightarrow> om_Name (cb_Meta cb) = om_Name (bd_Meta bd)"
  using get_ClusterBundle named by (fastforce simp: user_managed_def split: sum.splits if_splits)

lemma unmanage_releases:
  assumes "unmanageClusterBundle r cb s = (err, s1)" and "client_IgnoreNotFound err = None"
  shows "released (mig_log s1) (om_Name (cb_Meta cb))"
  using unmanage_sends [OF assms(1) marshal] assms(2) released_log(1) by (auto simp: release_def)

lemma apply_meets:
  assumes "applyClusterBundle r bd s = (None, s1)"
  shows "migrated_now r cbs meets (mig_world s1) bd"
proof -
  let ?config = "\<lambda>owners. (convertBundleToClusterBundle bd)\<lparr>cb_Meta := (cb_Meta (convertBundleToClusterBundle bd))\<lparr>om_OwnerReferences := owners\<rparr>\<rparr>"
  let ?body = "\<lambda>owners. ClusterBundleBody \<lparr>tcb_APIVersion = ''trust-manager.io/v1alpha2'', tcb_Kind = ''ClusterBundle'', tcb_ClusterBundle = ?config owners\<rparr>"
  from assms obtain owners patch w' where config: "owned_ClusterBundle r bd = Some (?config owners)"
    and sent: "br_Marshal r (?body owners) = Inr patch"
      "br_Patch r (mig_world s) (PatchClusterBundle (om_Name (bd_Meta bd)) (?body owners) FieldManager True) patch = (None, w')" "mig_world s1 = w'"
    by (auto simp: applyClusterBundle_def owned_ClusterBundle_def send_patch_def converted_name Let_def split: sum.splits prod.splits)
  from applied [OF sent(1,2)] config sent(3) show ?thesis by (auto simp: migrated_now_def)
qed

text \<open>A reconcile that returns no error leaves its Bundle migrated, or its ClusterBundle released.\<close>

lemma own_reconcile:
  assumes "br_reconcile r bd s = (Ok None, s')"
  shows "migrated_now r cbs meets (mig_world s') bd \<or> released (mig_log s') (om_Name (bd_Meta bd))"
proof (cases "user_managed r bd (mig_world s)")
  case (Some cb)
  obtain err s1 where u: "unmanageClusterBundle r cb s = (err, s1)" by force
  with assms Some have none: "client_IgnoreNotFound err = None" and c: "applyBundleCondition r bd (migrated_condition bd) s1 = (Ok None, s')"
    by (auto simp: br_reconcile_def user_managed_def split: sum.splits if_splits option.splits)
  from unmanage_releases [OF u none] migrated_apart(2) [OF c] user_managed_name [OF Some] show ?thesis by simp
next
  case None
  obtain err s1 where a: "applyClusterBundle r bd s = (err, s1)" by force
  with assms None zero_not_managed have "err = None" and c: "applyBundleCondition r bd (deprecated_condition bd) s1 = (Ok None, s')"
    by (auto simp: br_reconcile_def user_managed_def split: sum.splits if_splits option.splits)
  with apply_meets a deprecated_apart(1) [OF c] show ?thesis by (simp add: migrated_now_def)
qed

text \<open>A reconcile has no effect on the ClusterBundles of other Bundles.\<close>

lemma unmanage_apart:
  assumes "unmanageClusterBundle r cb s = (err, s1)" and "om_Name (cb_Meta cb) \<noteq> n"
  shows "cbs (mig_world s1) n = cbs (mig_world s) n" and "released (mig_log s1) n = released (mig_log s) n"
  using assms names_apart by (auto simp: unmanageClusterBundle_def send_patch_def Let_def split: sum.splits prod.splits)

lemma apply_apart:
  assumes "applyClusterBundle r bd s = (err, s1)" and "om_Name (bd_Meta bd) \<noteq> n"
  shows "cbs (mig_world s1) n = cbs (mig_world s) n" and "released (mig_log s1) n = released (mig_log s) n"
  using assms names_apart
  by (auto simp: applyClusterBundle_def send_patch_def converted_name Let_def split: sum.splits prod.splits)

lemma other_reconcile:
  assumes "br_reconcile r bd s = (out, s')" and "om_Name (bd_Meta bd) \<noteq> n"
  shows "cbs (mig_world s') n = cbs (mig_world s) n \<and> released (mig_log s') n = released (mig_log s) n"
proof (cases "user_managed r bd (mig_world s)")
  case (Some cb)
  obtain err s1 where u: "unmanageClusterBundle r cb s = (err, s1)" by force
  from assms(2) user_managed_name [OF Some] have n: "om_Name (cb_Meta cb) \<noteq> n" by simp
  from assms(1) Some u have "s' = s1 \<or> applyBundleCondition r bd (migrated_condition bd) s1 = (out, s')"
    by (auto simp: br_reconcile_def user_managed_def split: sum.splits if_splits option.splits)
  with unmanage_apart [OF u n] migrated_apart(1) migrated_apart(2) [where n = n] show ?thesis by auto
next
  case None
  obtain err s1 where a: "applyClusterBundle r bd s = (err, s1)" by force
  from assms(1) None zero_not_managed a have "s' = s \<or> s' = s1 \<or> applyBundleCondition r bd (deprecated_condition bd) s1 = (out, s')"
    by (auto simp: br_reconcile_def user_managed_def split: sum.splits if_splits option.splits)
  with apply_apart [OF a assms(2)] deprecated_apart(1) deprecated_apart(2) [where n = n] show ?thesis by auto
qed

text \<open>A Bundle that the watches left alone is the Bundle of before, up to its status, and so is its ClusterBundle.\<close>

lemma watched_before:
  assumes "wakes migration_watches bundles cbs owner w w' queue" and "bd' \<in> set (bundles w')" and "request_of bd' \<notin> queue"
  shows "\<exists>bd \<in> set (bundles w). \<exists>st. bd' = bd\<lparr>bd_Status := st\<rparr>"
  using assms by (auto simp: wakes_def migration_watches_def Bundles_watched_def)

lemma quiet_keeps_migrated:
  assumes "wakes migration_watches bundles cbs owner w w' queue" and "request_of bd \<notin> queue" and "migrated_now r cbs meets w bd"
  shows "migrated_now r cbs meets w' bd"
proof -
  from assms(3) obtain config cb where config: "owned_ClusterBundle r bd = Some config" "cbs w (om_Name (bd_Meta bd)) = Some cb" "meets config cb"
    by (auto simp: migrated_now_def)
  from owner [OF config(1,3)] assms(2) have "\<not> owner (cb_Meta cb) \<subseteq> queue" by blast
  with assms(1) config(2) have "cbs w' (om_Name (bd_Meta bd)) = Some cb"
    unfolding wakes_def migration_watches_def by (metis list.set_intros(1,2))
  with config show ?thesis by (auto simp: migrated_now_def)
qed

lemma reconcile_keeps_or_migrates:
  assumes "br_Reconcile r req s = (res, s')" and "bd \<in> set (bundles (mig_world s))"
    and "req = request_of bd \<Longrightarrow> res = Ok None"
    and "req \<noteq> request_of bd \<Longrightarrow> migrated_now r cbs meets (mig_world s) bd \<or> released (mig_log s) (om_Name (bd_Meta bd))"
  shows "migrated_now r cbs meets (mig_world s') bd \<or> released (mig_log s') (om_Name (bd_Meta bd))"
proof (cases "req = request_of bd")
  case True
  with assms(1-3) have "br_reconcile r bd s = (Ok None, s')" by (simp add: br_Reconcile_def iffD2 [OF get])
  then show ?thesis by (rule own_reconcile)
next
  case False
  have "s' = s \<or> (\<exists>bd1 out. br_reconcile r bd1 s = (out, s') \<and> request_of bd1 = req)"
    using assms(1) by (auto simp: br_Reconcile_def get split: sum.splits)
  with False other_reconcile [where n = "om_Name (bd_Meta bd)"]
  have "cbs (mig_world s') (om_Name (bd_Meta bd)) = cbs (mig_world s) (om_Name (bd_Meta bd)) \<and>
      released (mig_log s') (om_Name (bd_Meta bd)) = released (mig_log s) (om_Name (bd_Meta bd))"
    by (auto simp: request_of_def)
  with assms(4) [OF False] show ?thesis by (simp add: migrated_now_def)
qed

lemma step_invariant:
  assumes "migration_step r bundles cbs owner \<sigma> \<sigma>'" and inv: "all_migrated r bundles cbs meets \<sigma>"
  shows "all_migrated r bundles cbs meets \<sigma>'"
  unfolding all_migrated_def
proof (rule ballI, rule iffD2 [OF disj_imp], rule impI)
  fix bd' assume bd': "bd' \<in> set (bundles (mig_world (ms_migration \<sigma>')))" and free: "request_of bd' \<notin> ms_queue \<sigma>'"
  from assms(1) show "migrated_now r cbs meets (mig_world (ms_migration \<sigma>')) bd' \<or> released (mig_log (ms_migration \<sigma>')) (om_Name (bd_Meta bd'))"
  proof cases
    case (changed s w' queue' queue)
    with watched_before [of _ w' queue'] bd' free obtain bd st where bd: "bd \<in> set (bundles (mig_world s))" "bd' = bd\<lparr>bd_Status := st\<rparr>"
      by fastforce
    with changed free inv have "migrated_now r cbs meets (mig_world s) bd \<or> released (mig_log s) (om_Name (bd_Meta bd))"
      by (auto simp: all_migrated_def status_does_not_matter)
    with quiet_keeps_migrated [OF changed(3), of bd] changed(2) free bd show ?thesis
      by (auto simp: status_does_not_matter migrated_now_status)
  next
    case (reconciled req queue s res s' queue')
    with watched_before [OF reconciled(5)] bd' free obtain bd st where bd: "bd \<in> set (bundles (mig_world s))" "bd' = bd\<lparr>bd_Status := st\<rparr>"
      by fastforce
    with reconciled(2,3,6) free have "req = request_of bd \<Longrightarrow> res = Ok None" and "req \<noteq> request_of bd \<Longrightarrow> request_of bd \<notin> queue"
      by (auto simp: status_does_not_matter split: if_splits)
    with reconcile_keeps_or_migrates [OF reconciled(4) bd(1)] inv reconciled(1) bd(1)
    have "migrated_now r cbs meets (mig_world s') bd \<or> released (mig_log s') (om_Name (bd_Meta bd))"
      by (auto simp: all_migrated_def)
    with bd(2) reconciled(2) show ?thesis by (simp add: migrated_now_status)
  qed
qed

lemma run_invariant:
  "migration_run r bundles cbs owner \<sigma> \<sigma>' \<Longrightarrow> all_migrated r bundles cbs meets \<sigma> \<Longrightarrow> all_migrated r bundles cbs meets \<sigma>'"
  by (induction rule: migration_run.induct) (auto intro: step_invariant)

end

text \<open>
  C2: The migration controller forgets no Bundle. Start with every Bundle on the queue and interleave
  changes of Bundles and ClusterBundles, by anybody, with reconciles in any order, failing ones
  included: at every moment, the ClusterBundle of a Bundle that is not queued holds what the Bundle
  converts to, or the controller has released it to the user and sent nothing else for it since.
\<close>

theorem migration_forgets_no_Bundle:
  assumes "migrating_cluster r bundles cbs owner meets"
    and "\<And>bd. bd \<in> set (bundles (mig_world (ms_migration \<sigma>))) \<Longrightarrow> request_of bd \<in> ms_queue \<sigma>"
    and "migration_run r bundles cbs owner \<sigma> \<sigma>'"
    and "bd \<in> set (bundles (mig_world (ms_migration \<sigma>')))" and "request_of bd \<notin> ms_queue \<sigma>'"
  shows "migrated_now r cbs meets (mig_world (ms_migration \<sigma>')) bd \<or> released (mig_log (ms_migration \<sigma>')) (om_Name (bd_Meta bd))"
proof -
  have "all_migrated r bundles cbs meets \<sigma>" using assms(2) by (simp add: all_migrated_def)
  from migrating_cluster.run_invariant [OF assms(1,3) this] assms(4,5) show ?thesis by (auto simp: all_migrated_def)
qed

section \<open>A cluster that fulfils the contract\<close>

text \<open>
  The world holds the ClusterBundles; there is one Bundle. Applying a configuration replaces the
  specification and the owner references and adds the annotations; giving up the fields removes the
  owner references.
\<close>

definition server_ClusterBundles :: "ClusterBundles \<Rightarrow> ClusterBundles" where
  "server_ClusterBundles w n = (case w n of None \<Rightarrow> None | Some cb \<Rightarrow> if om_Name (cb_Meta cb) = n then Some cb else None)"

definition server_apply :: "string \<Rightarrow> ClusterBundle \<Rightarrow> ClusterBundle option \<Rightarrow> ClusterBundle" where
  "server_apply n config old =
     (let cb = (case old of None \<Rightarrow> empty_ClusterBundle | Some cb \<Rightarrow> cb)
      in cb\<lparr>cb_Meta := (cb_Meta cb)\<lparr>om_Name := n,
              om_Annotations := Some (let new = entries (om_Annotations (cb_Meta config))
                in new @ filter (\<lambda>(k, v). k \<notin> fst ` set new) (entries (om_Annotations (cb_Meta cb)))),
              om_OwnerReferences := om_OwnerReferences (cb_Meta config)\<rparr>,
            cb_Spec := cb_Spec config\<rparr>)"

definition server_release :: "ClusterBundle \<Rightarrow> ClusterBundle" where
  "server_release cb = cb\<lparr>cb_Meta := (cb_Meta cb)\<lparr>om_OwnerReferences := []\<rparr>\<rparr>"

fun server_Patch :: "ClusterBundles \<Rightarrow> migration_request \<Rightarrow> ClusterBundles" where
  "server_Patch w (PatchClusterBundle n (ClusterBundleBody t) mgr force) =
     w(n := Some (server_apply n (tcb_ClusterBundle t) (server_ClusterBundles w n)))"
| "server_Patch w (PatchClusterBundle n (ClusterBundleACBody ac) mgr force) = w(n := map_option server_release (server_ClusterBundles w n))"
| "server_Patch w _ = w"

definition bundle_reference :: "ObjectMeta \<Rightarrow> OwnerReference" where
  "bundle_reference owner = \<lparr>or_APIVersion = SchemeGroupVersion_String, or_Kind = BundleKind, or_Name = om_Name owner,
     or_UID = om_UID owner, or_Controller = Some True, or_BlockOwnerDeletion = Some True\<rparr>"

lemma bundle_reference_fields [simp]: "or_Name (bundle_reference owner) = om_Name owner" "or_Controller (bundle_reference owner) = Some True"
  by (simp_all add: bundle_reference_def)

definition server_reconciler :: "ClusterBundles bundle_reconciler" where
  "server_reconciler =
     \<lparr>br_GetBundle = \<lambda>w req. if req = request_of example_bundle then Inr example_bundle else Inl (ApiNotFound ''no Bundle''),
      br_GetClusterBundle = \<lambda>w nn. (case server_ClusterBundles w (nn_Name nn) of None \<Rightarrow> Inl (ApiNotFound ''no ClusterBundle'') | Some cb \<Rightarrow> Inr cb),
      br_SetControllerReference = \<lambda>owner obj. Inr [bundle_reference owner],
      br_Marshal = \<lambda>body. Inr ''json'', br_Patch = \<lambda>w req patch. (None, server_Patch w req), br_Now = 5\<rparr>"

text \<open>The handler of the owned watch reads the controller reference.\<close>

definition server_owner :: "ObjectMeta \<Rightarrow> request set" where
  "server_owner obj = {\<lparr>nn_Namespace = [], nn_Name = or_Name ref\<rparr> |ref. ref \<in> set (om_OwnerReferences obj) \<and> or_Controller ref = Some True}"

definition server_meets :: "ClusterBundle \<Rightarrow> ClusterBundle \<Rightarrow> bool" where
  "server_meets config cb \<longleftrightarrow> cb_Spec cb = cb_Spec config \<and> set (om_OwnerReferences (cb_Meta config)) \<subseteq> set (om_OwnerReferences (cb_Meta cb)) \<and>
     map_of (entries (om_Annotations (cb_Meta config))) \<subseteq>\<^sub>m map_of (entries (om_Annotations (cb_Meta cb)))"

interpretation server: migrating_cluster server_reconciler "\<lambda>w. [example_bundle]" server_ClusterBundles server_owner server_meets
proof
  fix w n body mgr force patch err w' m
  assume "br_Patch server_reconciler w (PatchClusterBundle n body mgr force) patch = (err, w')" "m \<noteq> n"
  then show "server_ClusterBundles w' m = server_ClusterBundles w m"
    by (cases body) (auto simp: server_reconciler_def server_ClusterBundles_def)
next
  fix t patch w n w'
  assume "br_Patch server_reconciler w (PatchClusterBundle n (ClusterBundleBody t) FieldManager True) patch = (None, w')"
  then show "\<exists>cb. server_ClusterBundles w' n = Some cb \<and> server_meets (tcb_ClusterBundle t) cb"
    by (auto simp: server_reconciler_def server_ClusterBundles_def server_apply_def server_meets_def Let_def)
next
  fix bd config cb
  assume "owned_ClusterBundle server_reconciler bd = Some config" "server_meets config cb"
  then show "request_of bd \<in> server_owner (cb_Meta cb)"
    by (auto simp: owned_ClusterBundle_def server_reconciler_def server_meets_def server_owner_def request_of_def Let_def
        intro!: exI [of _ "bundle_reference (bd_Meta bd)"])
qed (auto simp: server_reconciler_def server_ClusterBundles_def split: option.splits if_splits)

lemma server_name: "om_Name (bd_Meta example_bundle) = ''b''" "request_of example_bundle = \<lparr>nn_Namespace = [], nn_Name = ''b''\<rparr>"
  by (simp_all add: request_of_def example_spec)

definition server_config :: ClusterBundle where
  "server_config = the (owned_ClusterBundle server_reconciler example_bundle)"

lemma server_config: "owned_ClusterBundle server_reconciler example_bundle = Some server_config"
  by (simp add: server_config_def owned_ClusterBundle_def server_reconciler_def Let_def)

lemma server_config_eq:
  "server_config = (convertBundleToClusterBundle example_bundle)\<lparr>cb_Meta := (cb_Meta (convertBundleToClusterBundle example_bundle))
      \<lparr>om_OwnerReferences := [bundle_reference (bd_Meta example_bundle)]\<rparr>\<rparr>"
  by (simp add: server_config_def owned_ClusterBundle_def server_reconciler_def Let_def)

lemma server_fields:
  "br_GetBundle server_reconciler w req = (if req = request_of example_bundle then Inr example_bundle else Inl (ApiNotFound ''no Bundle''))"
  "br_GetClusterBundle server_reconciler w nn = (case server_ClusterBundles w (nn_Name nn) of None \<Rightarrow> Inl (ApiNotFound ''no ClusterBundle'') | Some cb \<Rightarrow> Inr cb)"
  "br_SetControllerReference server_reconciler own obj = Inr [bundle_reference own]"
  "br_Marshal server_reconciler body = Inr ''json''" "br_Patch server_reconciler w q patch = (None, server_Patch w q)"
  by (simp_all add: server_reconciler_def)

lemma server_reconcile_apply:
  assumes "case server_ClusterBundles w ''b'' of None \<Rightarrow> True | Some cb \<Rightarrow> \<not> isClusterBundleUserManaged cb"
  shows "\<exists>log. br_Reconcile server_reconciler (request_of example_bundle) \<lparr>mig_world = w, mig_log = log0\<rparr> =
    (Ok None, \<lparr>mig_world = w(''b'' \<mapsto> server_apply ''b'' server_config (server_ClusterBundles w ''b'')), mig_log = log\<rparr>) \<and> \<not> released log ''b''"
  using assms
  by (auto simp: br_Reconcile_def br_reconcile_def server_fields applyClusterBundle_def applyBundleCondition_eq send_patch_def
      server_name converted_name server_config_eq zero_not_managed apierrors_IsNotFound_def released_def release_def Let_def split: option.splits)

lemma server_reconcile_release:
  assumes "server_ClusterBundles w ''b'' = Some cb" and "isClusterBundleUserManaged cb"
  shows "\<exists>log. br_Reconcile server_reconciler (request_of example_bundle) \<lparr>mig_world = w, mig_log = log0\<rparr> =
    (Ok None, \<lparr>mig_world = w(''b'' \<mapsto> server_release cb), mig_log = log\<rparr>)"
  using assms server.named [OF assms(1)]
  by (auto simp: br_Reconcile_def br_reconcile_def server_fields unmanageClusterBundle_def applyBundleCondition_eq send_patch_def
      server_name client_IgnoreNotFound_def Let_def)

section \<open>A run\<close>

abbreviation server_run :: "ClusterBundles migrating \<Rightarrow> ClusterBundles migrating \<Rightarrow> bool" where
  "server_run \<equiv> migration_run server_reconciler (\<lambda>w. [example_bundle]) server_ClusterBundles server_owner"

abbreviation server_state :: "ClusterBundles \<Rightarrow> migration_request list \<Rightarrow> request set \<Rightarrow> ClusterBundles migrating" where
  "server_state w log queue \<equiv> \<lparr>ms_migration = \<lparr>mig_world = w, mig_log = log\<rparr>, ms_queue = queue\<rparr>"

lemma server_Bundles_watched: "Bundles_watched [example_bundle] [example_bundle] queue"
proof -
  have "\<exists>st. example_bundle = example_bundle\<lparr>bd_Status := st\<rparr>" by (rule exI [of _ "bd_Status example_bundle"]) simp
  then show ?thesis by (simp add: Bundles_watched_def)
qed

definition server_migrated :: ClusterBundles where
  "server_migrated = Map.empty(''b'' \<mapsto> server_apply ''b'' server_config None)"

lemma server_apply_again: "server_apply n config (Some (server_apply n config old)) = server_apply n config old"
proof -
  have "filter (\<lambda>(k, v). k \<notin> fst ` set xs) xs = []" for xs :: "string gomap"
    by (auto simp: filter_empty_conv rev_image_eqI)
  then show ?thesis by (simp add: server_apply_def Let_def)
qed

lemma server_migrated_simps:
  "server_ClusterBundles Map.empty n = None"
  "server_ClusterBundles server_migrated n = (if n = ''b'' then Some (server_apply ''b'' server_config None) else None)"
  "server_migrated(''b'' \<mapsto> server_apply ''b'' server_config (server_ClusterBundles server_migrated ''b'')) = server_migrated"
  by (auto simp: server_migrated_def server_ClusterBundles_def server_apply_again fun_eq_iff) (simp_all add: server_apply_def Let_def)

lemma server_migrated_own:
  "\<not> isClusterBundleUserManaged (server_apply ''b'' server_config None)"
  "server_owner (cb_Meta (server_apply ''b'' server_config None)) = {request_of example_bundle}"
  by (simp_all add: isClusterBundleUserManaged_def server_apply_def server_config_eq convertBundleToClusterBundle_def empty_ClusterBundle_def
      empty_ObjectMeta_def AnnotationKeyJKSKey_def BundleMigratedAnnotation_def server_owner_def server_name Let_def split: option.split)

text \<open>The first reconcile creates the ClusterBundle and thereby wakes the controller again; the second changes nothing.\<close>

lemma server_first_run:
  "\<exists>log. server_run (server_state Map.empty [] {request_of example_bundle}) (server_state server_migrated log {}) \<and> \<not> released log ''b''"
proof -
  from server_reconcile_apply [of Map.empty "[]"] obtain log1 where first:
    "br_Reconcile server_reconciler (request_of example_bundle) \<lparr>mig_world = Map.empty, mig_log = []\<rparr> =
      (Ok None, \<lparr>mig_world = server_migrated, mig_log = log1\<rparr>)" by (auto simp: server_migrated_def server_migrated_simps(1))
  from server_reconcile_apply [of server_migrated log1] obtain log2 where second:
    "br_Reconcile server_reconciler (request_of example_bundle) \<lparr>mig_world = server_migrated, mig_log = log1\<rparr> =
      (Ok None, \<lparr>mig_world = server_migrated, mig_log = log2\<rparr>)" and "\<not> released log2 ''b''"
    unfolding server_migrated_simps(3) by (auto simp: server_migrated_simps(2) server_migrated_own)
  have "server_run (server_state Map.empty [] {request_of example_bundle}) (server_state server_migrated log1 {request_of example_bundle})"
    by (rule migration_run.step [OF migration_run.start migration_step.reconciled [OF _ first]])
      (auto simp: wakes_def server_Bundles_watched server_migrated_simps(1,2) server_migrated_own split: if_splits)
  then have "server_run (server_state Map.empty [] {request_of example_bundle}) (server_state server_migrated log2 {})"
    by (rule migration_run.step [OF _ migration_step.reconciled [OF _ second]]) (auto simp: wakes_def server_Bundles_watched)
  with \<open>\<not> released log2 ''b''\<close> show ?thesis by blast
qed

lemma migration_forgets_no_Bundle_witness:
  "migrated_now server_reconciler server_ClusterBundles server_meets server_migrated example_bundle"
proof -
  obtain log where run: "server_run (server_state Map.empty [] {request_of example_bundle}) (server_state server_migrated log {})"
    and "\<not> released log ''b''" using server_first_run by blast
  with migration_forgets_no_Bundle [OF server.migrating_cluster_axioms _ run, of example_bundle] server_name show ?thesis by auto
qed

text \<open>
  The release is final: once a ClusterBundle was released, nothing wakes the controller when the user
  deletes it, for the released object has no controller reference. The Bundle stays without a
  ClusterBundle until it is changed itself.
\<close>

lemma release_is_final:
  "\<exists>log. server_run (server_state [''b'' \<mapsto> taken_over] [] {request_of example_bundle}) (server_state Map.empty log {}) \<and>
     \<not> migrated_now server_reconciler server_ClusterBundles server_meets Map.empty example_bundle"
proof -
  have cb: "server_ClusterBundles [''b'' \<mapsto> taken_over] n = (if n = ''b'' then Some taken_over else None)" for n
    by (simp add: server_ClusterBundles_def taken_over_def)
  have managed: "isClusterBundleUserManaged taken_over" by (simp add: isClusterBundleUserManaged_def taken_over_def)
  have bare: "server_release taken_over = taken_over" by (simp add: server_release_def taken_over_def empty_ObjectMeta_def)
  from server_reconcile_release [of "[''b'' \<mapsto> taken_over]" taken_over "[]"] obtain log where release:
    "br_Reconcile server_reconciler (request_of example_bundle) \<lparr>mig_world = [''b'' \<mapsto> taken_over], mig_log = []\<rparr> =
      (Ok None, \<lparr>mig_world = [''b'' \<mapsto> taken_over], mig_log = log\<rparr>)" by (auto simp: cb managed bare)
  have "server_run (server_state [''b'' \<mapsto> taken_over] [] {request_of example_bundle}) (server_state [''b'' \<mapsto> taken_over] log {})"
    by (rule migration_run.step [OF migration_run.start migration_step.reconciled [OF _ release]])
      (auto simp: wakes_def server_Bundles_watched)
  moreover have "server_owner (cb_Meta taken_over) = {}" by (simp add: server_owner_def taken_over_def empty_ObjectMeta_def)
  then have "wakes migration_watches (\<lambda>w. [example_bundle]) server_ClusterBundles server_owner [''b'' \<mapsto> taken_over] Map.empty {}"
    by (auto simp: wakes_def server_Bundles_watched cb server_migrated_simps(1) split: if_splits)
  then have "migration_step server_reconciler (\<lambda>w. [example_bundle]) server_ClusterBundles server_owner
      (server_state [''b'' \<mapsto> taken_over] log {}) (server_state Map.empty log {})"
    using migration_step.changed [where s = "\<lparr>mig_world = [''b'' \<mapsto> taken_over], mig_log = log\<rparr>" and queue = "{}"] by simp
  ultimately have "server_run (server_state [''b'' \<mapsto> taken_over] [] {request_of example_bundle}) (server_state Map.empty log {})"
    by (rule migration_run.step)
  then show ?thesis by (auto simp: migrated_now_def server_migrated_simps(1))
qed

end
