(* ===== verification/FuzzTest.thy ===== *)
theory FuzzTest
  imports Prelude "HOL-Library.Word"
begin

text \<open>
  The conversion test that \<open>pkg/util/conversion/conversion.go\<close> builds for two kinds of objects. It
  knows them by interfaces only: \<open>conversion.Hub\<close> and \<open>conversion.Convertible\<close> are references into a
  store \<open>'st\<close>, and \<open>methods\<close> holds what is called on them. The filler library (randfill with the fuzzers of
  apimachinery) is the parameter \<open>filler_lib\<close>; its random source is a part of the store.
\<close>

section \<open>Interfaces\<close>

text \<open>A method returns \<open>Ok ()\<close> for a nil error, and the store it leaves.\<close>

record ('hub, 'spoke, 'st) methods =
  m_Hub_DeepCopyObject :: "'hub \<Rightarrow> 'st \<Rightarrow> 'hub \<times> 'st"
  m_Spoke_DeepCopyObject :: "'spoke \<Rightarrow> 'st \<Rightarrow> 'spoke \<times> 'st"
  m_ConvertTo :: "'spoke \<Rightarrow> 'hub \<Rightarrow> 'st \<Rightarrow> unit res \<times> 'st"
  m_ConvertFrom :: "'spoke \<Rightarrow> 'hub \<Rightarrow> 'st \<Rightarrow> unit res \<times> 'st"
  m_Spoke_DeepEqual :: "'spoke \<Rightarrow> 'spoke \<Rightarrow> 'st \<Rightarrow> bool"
  m_Hub_DeepEqual :: "'hub \<Rightarrow> 'hub \<Rightarrow> 'st \<Rightarrow> bool"

record ('hub, 'spoke, 'scheme, 'funcs, 'fzr, 'st) filler_lib =
  fl_DefaultScheme :: 'scheme \<comment> \<open>\<open>scheme.Scheme\<close> of client-go\<close>
  fl_metafuzzer :: 'funcs
  fl_TimeFunc :: "(32 word \<Rightarrow> 32 word \<Rightarrow> nat) \<Rightarrow> 'funcs" \<comment> \<open>a fuzzer for non-nil times from two random numbers\<close>
  fl_FuzzerFor :: "'funcs list \<Rightarrow> 'scheme \<Rightarrow> 'fzr" \<comment> \<open>merges the functions, with a new random source, whose state is in the store\<close>
  fl_Fill_Hub :: "'fzr \<Rightarrow> 'hub \<Rightarrow> 'st \<Rightarrow> 'st"
  fl_Fill_Spoke :: "'fzr \<Rightarrow> 'spoke \<Rightarrow> 'st \<Rightarrow> 'st"

section \<open>The filler\<close>

text \<open>
  The time in seconds: \<open>metav1.Unix\<close> carries nanoseconds of a second and more over, and \<open>Rfc3339Copy\<close> drops
  the rest.
\<close>

definition fuzz_Time :: "32 word \<Rightarrow> 32 word \<Rightarrow> nat" where
  "fuzz_Time sec nsec = unat sec + unat nsec div 1000000000"

definition GetFuzzer :: "('hub, 'spoke, 'scheme, 'funcs, 'fzr, 'st) filler_lib \<Rightarrow> 'scheme \<Rightarrow> 'funcs list \<Rightarrow> 'fzr" where
  "GetFuzzer lib scheme funcs = fl_FuzzerFor lib ([fl_metafuzzer lib, fl_TimeFunc lib fuzz_Time] @ funcs) scheme"

section \<open>The test\<close>

record ('hub, 'spoke, 'scheme, 'funcs, 'st) FuzzTestFuncInput =
  in_Scheme :: "'scheme option"
  in_Hub :: 'hub
  in_HubAfterMutation :: "('hub \<Rightarrow> 'st \<Rightarrow> 'st) option"
  in_Spoke :: 'spoke
  in_SpokeAfterMutation :: "('spoke \<Rightarrow> 'st \<Rightarrow> 'st) option"
  in_FuzzerFuncs :: "'funcs list"

text \<open>A failed expectation ends its subtest; a panic ends the test.\<close>

datatype 'st outcome = Continue 'st | FailNow string 'st | Crash string

definition Expect_Succeed :: "unit res \<times> 'st \<Rightarrow> ('st \<Rightarrow> 'st outcome) \<Rightarrow> 'st outcome" where
  "Expect_Succeed result k =
     (case result of
        (Ok _, s) \<Rightarrow> k s
      | (Err err, s) \<Rightarrow> FailNow (error_text err) s
      | (Panic p, s) \<Rightarrow> Crash p)"

definition mutate :: "('ref \<Rightarrow> 'st \<Rightarrow> 'st) option \<Rightarrow> 'ref \<Rightarrow> 'st \<Rightarrow> 'st" where
  "mutate mutation ref s = (case mutation of None \<Rightarrow> s | Some f \<Rightarrow> f ref s)"

definition spoke_hub_spoke ::
  "('hub, 'spoke, 'scheme, 'funcs, 'fzr, 'st) filler_lib \<Rightarrow> ('hub, 'spoke, 'st) methods \<Rightarrow>
     ('hub, 'spoke, 'scheme, 'funcs, 'st) FuzzTestFuncInput \<Rightarrow> 'fzr \<Rightarrow> 'st \<Rightarrow> 'st outcome" where
  "spoke_hub_spoke lib m input fzr s =
     (let (spokeBefore, s1) = m_Spoke_DeepCopyObject m (in_Spoke input) s;
          s2 = fl_Fill_Spoke lib fzr spokeBefore s1;
          (hubCopy, s3) = m_Hub_DeepCopyObject m (in_Hub input) s2
      in Expect_Succeed (m_ConvertTo m spokeBefore hubCopy s3) (\<lambda>s4.
         (let (spokeAfter, s5) = m_Spoke_DeepCopyObject m (in_Spoke input) s4
          in Expect_Succeed (m_ConvertFrom m spokeAfter hubCopy s5) (\<lambda>s6.
             (let s7 = mutate (in_SpokeAfterMutation input) spokeAfter s6
              in if m_Spoke_DeepEqual m spokeBefore spokeAfter s7 then Continue s7
                 else FailNow ''the spoke differs'' s7)))))"

definition hub_spoke_hub ::
  "('hub, 'spoke, 'scheme, 'funcs, 'fzr, 'st) filler_lib \<Rightarrow> ('hub, 'spoke, 'st) methods \<Rightarrow>
     ('hub, 'spoke, 'scheme, 'funcs, 'st) FuzzTestFuncInput \<Rightarrow> 'fzr \<Rightarrow> 'st \<Rightarrow> 'st outcome" where
  "hub_spoke_hub lib m input fzr s =
     (let (hubBefore, s1) = m_Hub_DeepCopyObject m (in_Hub input) s;
          s2 = fl_Fill_Hub lib fzr hubBefore s1;
          (dstCopy, s3) = m_Spoke_DeepCopyObject m (in_Spoke input) s2
      in Expect_Succeed (m_ConvertFrom m dstCopy hubBefore s3) (\<lambda>s4.
         (let (hubAfter, s5) = m_Hub_DeepCopyObject m (in_Hub input) s4
          in Expect_Succeed (m_ConvertTo m dstCopy hubAfter s5) (\<lambda>s6.
             (let s7 = mutate (in_HubAfterMutation input) hubAfter s6
              in if m_Hub_DeepEqual m hubBefore hubAfter s7 then Continue s7
                 else FailNow ''the hub differs'' s7)))))"

primrec repeat :: "nat \<Rightarrow> ('st \<Rightarrow> 'st outcome) \<Rightarrow> 'st \<Rightarrow> 'st outcome" where
  "repeat 0 body s = Continue s"
| "repeat (Suc n) body s = (case body s of Continue s' \<Rightarrow> repeat n body s' | FailNow e s' \<Rightarrow> FailNow e s' | Crash p \<Rightarrow> Crash p)"

text \<open>The test returns whether each of its subtests passed; the second one runs in any case.\<close>

definition Run :: "'st outcome \<Rightarrow> (bool \<Rightarrow> 'st \<Rightarrow> 'a res) \<Rightarrow> 'a res" where
  "Run outcome k = (case outcome of Continue s \<Rightarrow> k True s | FailNow e s \<Rightarrow> k False s | Crash p \<Rightarrow> Panic p)"

definition FuzzTestFunc ::
  "('hub, 'spoke, 'scheme, 'funcs, 'fzr, 'st) filler_lib \<Rightarrow> ('hub, 'spoke, 'st) methods \<Rightarrow>
     ('hub, 'spoke, 'scheme, 'funcs, 'st) FuzzTestFuncInput \<Rightarrow> 'st \<Rightarrow> (bool \<times> bool) res" where
  "FuzzTestFunc lib m input s =
     (let scheme = (case in_Scheme input of None \<Rightarrow> fl_DefaultScheme lib | Some scheme \<Rightarrow> scheme);
          fzr = GetFuzzer lib scheme (in_FuzzerFuncs input)
      in Run (repeat 10000 (spoke_hub_spoke lib m input fzr) s) (\<lambda>passed1 s1.
         Run (repeat 10000 (hub_spoke_hub lib m input fzr) s1) (\<lambda>passed2 s2. Ok (passed1, passed2))))"

section \<open>When the test passes\<close>

text \<open>An invariant of the store under which a round continues makes the subtest pass.\<close>

lemma repeat_Continue:
  assumes "\<And>s. I s \<Longrightarrow> \<exists>s'. body s = Continue s' \<and> I s'" and "I s"
  shows "\<exists>s'. repeat n body s = Continue s' \<and> I s'"
  using assms(2)
proof (induction n arbitrary: s)
  case (Suc n)
  from assms(1) [OF Suc.prems] Suc.IH show ?case by auto
qed simp

lemma FuzzTestFunc_passes:
  fixes lib m input
  defines "fzr \<equiv> GetFuzzer lib (case in_Scheme input of None \<Rightarrow> fl_DefaultScheme lib | Some scheme \<Rightarrow> scheme) (in_FuzzerFuncs input)"
  assumes "\<And>s. I s \<Longrightarrow> \<exists>s'. spoke_hub_spoke lib m input fzr s = Continue s' \<and> I s'"
    and "\<And>s. I s \<Longrightarrow> \<exists>s'. hub_spoke_hub lib m input fzr s = Continue s' \<and> I s'" and "I s"
  shows "FuzzTestFunc lib m input s = Ok (True, True)"
proof -
  obtain s1 where s1: "repeat 10000 (spoke_hub_spoke lib m input fzr) s = Continue s1" "I s1"
    using repeat_Continue [where body = "spoke_hub_spoke lib m input fzr", OF assms(2,4)] by blast
  obtain s2 where "repeat 10000 (hub_spoke_hub lib m input fzr) s1 = Continue s2"
    using repeat_Continue [where body = "hub_spoke_hub lib m input fzr", OF assms(3) s1(2)] by blast
  with s1(1) show ?thesis by (simp add: FuzzTestFunc_def Run_def flip: fzr_def)
qed

end
