(* ===== verification/FuzzConversion.thy ===== *)
theory FuzzConversion
  imports FuzzTest HubRoundtrip
begin

text \<open>
  The conversion test of Bundle and ClusterBundle, \<open>TestFuzzyConversion\<close> of
  \<open>pkg/apis/trust/v1alpha1/conversion_test.go\<close>, on a store in which the objects share their annotation
  maps as the Go objects do: \<open>ConvertTo\<close> and \<open>ConvertFrom\<close> copy the map reference of the metadata and
  write through it. The rest of an object is not written after the conversion and is stored by value.
\<close>

section \<open>The store\<close>

text \<open>An object without its annotations, and the cell of its annotation map (None for a nil map).\<close>

record 'rand store =
  so_maps :: "string gomap list"
  so_Bundles :: "(Bundle \<times> nat option) list"
  so_ClusterBundles :: "(ClusterBundle \<times> nat option) list"
  so_rand :: 'rand

definition read_map :: "'rand store \<Rightarrow> nat option \<Rightarrow> string gomap option" where
  "read_map s a = map_option ((!) (so_maps s)) a"

definition read_Bundle :: "'rand store \<Rightarrow> nat \<Rightarrow> Bundle" where
  "read_Bundle s i = (case so_Bundles s ! i of (bd, a) \<Rightarrow> bd\<lparr>bd_Meta := (bd_Meta bd)\<lparr>om_Annotations := read_map s a\<rparr>\<rparr>)"

definition read_ClusterBundle :: "'rand store \<Rightarrow> nat \<Rightarrow> ClusterBundle" where
  "read_ClusterBundle s j = (case so_ClusterBundles s ! j of (cb, a) \<Rightarrow> cb\<lparr>cb_Meta := (cb_Meta cb)\<lparr>om_Annotations := read_map s a\<rparr>\<rparr>)"

definition write_Bundle :: "nat \<Rightarrow> Bundle \<Rightarrow> nat option \<Rightarrow> 'rand store \<Rightarrow> 'rand store" where
  "write_Bundle i bd a s = s\<lparr>so_Bundles := (so_Bundles s)[i := (bd, a)]\<rparr>"

definition write_ClusterBundle :: "nat \<Rightarrow> ClusterBundle \<Rightarrow> nat option \<Rightarrow> 'rand store \<Rightarrow> 'rand store" where
  "write_ClusterBundle j cb a s = s\<lparr>so_ClusterBundles := (so_ClusterBundles s)[j := (cb, a)]\<rparr>"

text \<open>A map in a new cell, nil in none.\<close>

definition new_map :: "string gomap option \<Rightarrow> 'rand store \<Rightarrow> nat option \<times> 'rand store" where
  "new_map m s = (case m of None \<Rightarrow> (None, s) | Some kvs \<Rightarrow> (Some (length (so_maps s)), s\<lparr>so_maps := so_maps s @ [kvs]\<rparr>))"

text \<open>A write through a map reference: into its cell, or into a new one when the map was nil.\<close>

definition write_map :: "nat option \<Rightarrow> string gomap option \<Rightarrow> 'rand store \<Rightarrow> nat option \<times> 'rand store" where
  "write_map a m s =
     (case a of
        None \<Rightarrow> new_map m s
      | Some k \<Rightarrow> (a, s\<lparr>so_maps := (so_maps s)[k := entries m]\<rparr>))"

section \<open>The methods\<close>

definition new_Bundle :: "Bundle \<Rightarrow> 'rand store \<Rightarrow> nat \<times> 'rand store" where
  "new_Bundle bd s = (length (so_Bundles s), case new_map (om_Annotations (bd_Meta bd)) s of
     (a, s1) \<Rightarrow> s1\<lparr>so_Bundles := so_Bundles s1 @ [(bd, a)]\<rparr>)"

definition new_ClusterBundle :: "ClusterBundle \<Rightarrow> 'rand store \<Rightarrow> nat \<times> 'rand store" where
  "new_ClusterBundle cb s = (length (so_ClusterBundles s), case new_map (om_Annotations (cb_Meta cb)) s of
     (a, s1) \<Rightarrow> s1\<lparr>so_ClusterBundles := so_ClusterBundles s1 @ [(cb, a)]\<rparr>)"

definition Bundle_ConvertTo_store :: "nat \<Rightarrow> nat \<Rightarrow> 'rand store \<Rightarrow> unit res \<times> 'rand store" where
  "Bundle_ConvertTo_store i j s =
     (let cb = fst (ConvertTo (read_Bundle s i));
          (a, s1) = write_map (snd (so_Bundles s ! i)) (om_Annotations (cb_Meta cb)) s
      in (Ok (), write_ClusterBundle j cb a s1))"

text \<open>\<open>ConvertFrom\<close> deletes from the shared map and drops its own reference when the map is empty then.\<close>

definition Bundle_ConvertFrom_store :: "nat \<Rightarrow> nat \<Rightarrow> 'rand store \<Rightarrow> unit res \<times> 'rand store" where
  "Bundle_ConvertFrom_store i j s =
     (case ConvertFrom (read_ClusterBundle s j) of
        Panic p \<Rightarrow> (Panic p, s)
      | Err e \<Rightarrow> (Err e, s)
      | Ok (bd, cb) \<Rightarrow>
          (let (a, s1) = write_map (snd (so_ClusterBundles s ! j)) (om_Annotations (cb_Meta cb)) s
           in (Ok (), write_Bundle i bd (if om_Annotations (bd_Meta bd) = None then None else a) s1)))"

text \<open>Equality that does not tell a nil from an empty annotation map.\<close>

definition same_Bundle :: "Bundle \<Rightarrow> Bundle \<Rightarrow> bool" where
  "same_Bundle a b \<longleftrightarrow> same_meta (bd_Meta a) (bd_Meta b) \<and> bd_Spec a = bd_Spec b \<and> bd_Status a = bd_Status b"

text \<open>\<open>Semantic.DeepEqual\<close> is the parameter \<open>equal\<close>.\<close>

definition conversion_methods ::
  "(Bundle \<Rightarrow> Bundle \<Rightarrow> bool) \<Rightarrow> (ClusterBundle \<Rightarrow> ClusterBundle \<Rightarrow> bool) \<Rightarrow> (nat, nat, 'rand store) methods" where
  "conversion_methods equal equal_v2 =
     \<lparr>m_Hub_DeepCopyObject = \<lambda>j s. new_ClusterBundle (read_ClusterBundle s j) s,
      m_Spoke_DeepCopyObject = \<lambda>i s. new_Bundle (read_Bundle s i) s,
      m_ConvertTo = Bundle_ConvertTo_store, m_ConvertFrom = Bundle_ConvertFrom_store,
      m_Spoke_DeepEqual = \<lambda>i i' s. equal (read_Bundle s i) (read_Bundle s i'),
      m_Hub_DeepEqual = \<lambda>j j' s. equal_v2 (read_ClusterBundle s j) (read_ClusterBundle s j')\<rparr>"

section \<open>The fuzzers\<close>

text \<open>The fuzzers of the test, each after \<open>FillNoCustom\<close> has filled the object.\<close>

definition spokeSourceObjectKeySelectorFuzzer :: "SourceObjectKeySelector \<Rightarrow> SourceObjectKeySelector" where
  "spokeSourceObjectKeySelectorFuzzer obj =
     (if ptr_Deref (sok_IncludeAllKeys obj) False then obj\<lparr>sok_Key := []\<rparr>
      else if sok_Key obj = [] then obj\<lparr>sok_IncludeAllKeys := Some True\<rparr>
      else obj\<lparr>sok_IncludeAllKeys := None\<rparr>)"

definition spokeBundleSpecFuzzer :: "BundleSpec \<Rightarrow> BundleSpec" where
  "spokeBundleSpecFuzzer obj = obj\<lparr>spec_Sources := filter (\<lambda>bs. \<not> (
     let sourceCount = (if bs_ConfigMap bs \<noteq> None then 1 else 0) + (if bs_Secret bs \<noteq> None then 1 else 0)
           + (if bs_InLine bs \<noteq> [] then 1 else 0) + (if bs_UseDefaultCAs bs \<noteq> None then 1 else 0)
     in sourceCount \<noteq> (1 :: nat))) (spec_Sources obj)\<rparr>"

definition spokeFormatsFuzzer :: "AdditionalFormats \<Rightarrow> AdditionalFormats option" where
  "spokeFormatsFuzzer af =
     (let p1 = map_option (\<lambda>p. if p12_Profile p = [] then p\<lparr>p12_Profile := LegacyRC2PKCS12Profile\<rparr> else p) (af_PKCS12 af);
          p2 = (case p1 of None \<Rightarrow> None | Some p \<Rightarrow> if p12_Key p = [] then None else Some p);
          j = (case af_JKS af of None \<Rightarrow> None | Some j \<Rightarrow> if jks_Key j = [] then None else Some j)
      in if p2 = None \<and> j = None then None else Some \<lparr>af_JKS = j, af_PKCS12 = p2\<rparr>)"

definition spokeBundleTargetFuzzer :: "BundleTarget \<Rightarrow> BundleTarget" where
  "spokeBundleTargetFuzzer obj =
     (if (case bt_Secret obj of None \<Rightarrow> True | Some t \<Rightarrow> tt_Key t = []) \<and> (case bt_ConfigMap obj of None \<Rightarrow> True | Some t \<Rightarrow> tt_Key t = [])
      then obj\<lparr>bt_AdditionalFormats := None\<rparr>
      else obj\<lparr>bt_AdditionalFormats := Option.bind (bt_AdditionalFormats obj) spokeFormatsFuzzer\<rparr>)"

text \<open>The custom fuzzers of a Bundle from the inside out.\<close>

definition fuzz_Bundle :: "Bundle \<Rightarrow> Bundle" where
  "fuzz_Bundle bd =
     (let src = (\<lambda>s. s\<lparr>bs_ConfigMap := map_option spokeSourceObjectKeySelectorFuzzer (bs_ConfigMap s),
                       bs_Secret := map_option spokeSourceObjectKeySelectorFuzzer (bs_Secret s)\<rparr>)
      in bd\<lparr>bd_Spec := spokeBundleSpecFuzzer \<lparr>spec_Sources = map src (spec_Sources (bd_Spec bd)),
               spec_Target = spokeBundleTargetFuzzer (spec_Target (bd_Spec bd))\<rparr>\<rparr>)"

text \<open>The fuzzers of a ClusterBundle; the kind and the provider are chosen at random, by \<open>kind\<close> and \<open>provider\<close>.\<close>

definition hubBundleSourceRefFuzzer :: "bool \<Rightarrow> BundleSourceRef \<Rightarrow> BundleSourceRef" where
  "hubBundleSourceRefFuzzer kind obj = obj\<lparr>sr_Kind := [ConfigMapKind, SecretKind] ! of_bool kind\<rparr>"

definition hubDefaultCAsFuzzer :: "bool \<Rightarrow> DefaultCAsSource \<Rightarrow> DefaultCAsSource" where
  "hubDefaultCAsFuzzer provider obj = obj\<lparr>dca_Provider := [DefaultCAsProviderDisabled, DefaultCAsProviderSystem] ! of_bool provider\<rparr>"

definition normalizeKeyValue :: "TargetKeyValue \<Rightarrow> TargetKeyValue" where
  "normalizeKeyValue tkv =
     (if p2_Password (tkv_PKCS12 tkv) \<noteq> None then tkv\<lparr>tkv_Format := BundleFormatPKCS12\<rparr>
      else tkv\<lparr>tkv_Format := [], tkv_PKCS12 := (tkv_PKCS12 tkv)\<lparr>p2_Profile := []\<rparr>\<rparr>)"

definition normalizeTarget :: "KeyValueTarget option \<Rightarrow> KeyValueTarget option" where
  "normalizeTarget target =
     (case target of
        None \<Rightarrow> None
      | Some t \<Rightarrow>
          (let data = filter (\<lambda>tkv. tkv_Key tkv \<noteq> []) (kvt_Data t);
               pemFound = list_ex (\<lambda>tkv. p2_Password (tkv_PKCS12 tkv) = None) data
           in if \<not> pemFound then None else Some (t\<lparr>kvt_Data := map normalizeKeyValue data\<rparr>)))"

definition hubBundleTargetFuzzer :: "BundleTarget_v2 \<Rightarrow> BundleTarget_v2" where
  "hubBundleTargetFuzzer obj = obj\<lparr>bt2_ConfigMap := normalizeTarget (bt2_ConfigMap obj), bt2_Secret := normalizeTarget (bt2_Secret obj)\<rparr>"

definition fuzz_ClusterBundle :: "(nat \<Rightarrow> bool) \<Rightarrow> bool \<Rightarrow> ClusterBundle \<Rightarrow> ClusterBundle" where
  "fuzz_ClusterBundle kinds provider cb =
     cb\<lparr>cb_Spec := (cb_Spec cb)\<lparr>spec2_SourceRefs := map2 hubBundleSourceRefFuzzer (map kinds [0..<length (spec2_SourceRefs (cb_Spec cb))]) (spec2_SourceRefs (cb_Spec cb)),
          spec2_DefaultCAs := hubDefaultCAsFuzzer provider (spec2_DefaultCAs (cb_Spec cb)),
          spec2_Target := hubBundleTargetFuzzer (spec2_Target (cb_Spec cb))\<rparr>\<rparr>"

section \<open>Reading what was written\<close>

definition valid_map :: "'rand store \<Rightarrow> nat option \<Rightarrow> bool" where
  "valid_map s a \<longleftrightarrow> (case a of None \<Rightarrow> True | Some k \<Rightarrow> k < length (so_maps s))"

lemma valid_map_None [simp]: "valid_map s None"
  by (simp add: valid_map_def)

text \<open>The annotations of an object when the annotation map of another one, with cell \<open>b\<close>, was set to \<open>m\<close>.\<close>

definition seen_through :: "nat option \<Rightarrow> nat option \<Rightarrow> string gomap option \<Rightarrow> string gomap option \<Rightarrow> string gomap option" where
  "seen_through a b m old = (if a \<noteq> None \<and> a = b then Some (entries m) else old)"

lemma read_map_simps [simp]: "read_map s None = None" "read_map s a = None \<longleftrightarrow> a = None"
  by (simp_all add: read_map_def)

lemma write_map_reads:
  assumes "write_map a m s = (a', s')" and "valid_map s a" and "a \<noteq> None \<longrightarrow> m \<noteq> None"
  shows "read_map s' a' = m" "valid_map s' a'" "so_Bundles s' = so_Bundles s" "so_ClusterBundles s' = so_ClusterBundles s"
    and "a \<noteq> None \<Longrightarrow> a' = a" "m = None \<longleftrightarrow> a' = None"
    and "valid_map s b \<Longrightarrow> read_map s' b = seen_through b a m (read_map s b) \<and> valid_map s' b"
  using assms by (auto simp: write_map_def new_map_def read_map_def valid_map_def seen_through_def nth_append split: option.splits)

lemma new_map_reads:
  assumes "new_map m s = (a, s')"
  shows "read_map s' a = m" "valid_map s' a" "so_Bundles s' = so_Bundles s" "so_ClusterBundles s' = so_ClusterBundles s"
    and "valid_map s b \<Longrightarrow> read_map s' b = read_map s b \<and> valid_map s' b"
  using assms by (auto simp: new_map_def read_map_def valid_map_def nth_append split: option.splits)

definition valid_Bundle :: "'rand store \<Rightarrow> nat \<Rightarrow> bool" where
  "valid_Bundle s i \<longleftrightarrow> i < length (so_Bundles s) \<and> valid_map s (snd (so_Bundles s ! i))"

definition valid_ClusterBundle :: "'rand store \<Rightarrow> nat \<Rightarrow> bool" where
  "valid_ClusterBundle s j \<longleftrightarrow> j < length (so_ClusterBundles s) \<and> valid_map s (snd (so_ClusterBundles s ! j))"

lemmas store_simps = read_Bundle_def read_ClusterBundle_def valid_Bundle_def valid_ClusterBundle_def
  write_Bundle_def write_ClusterBundle_def nth_append nth_list_update

text \<open>A conversion to ClusterBundle does to the store what \<open>ConvertTo\<close> says of the two objects.\<close>

lemma ConvertTo_annotated: "om_Annotations (bd_Meta bd) \<noteq> None \<Longrightarrow> om_Annotations (cb_Meta (fst (ConvertTo bd))) \<noteq> None"
  by (simp add: ConvertTo_def convert_spec Convert_v1alpha1_BundleTarget_To_v1alpha2_BundleTarget_def set_annotation_def Let_def
      split: prod.split option.split)

lemma ConvertTo_source: "snd (ConvertTo bd) = bd\<lparr>bd_Meta := share_annotations (cb_Meta (fst (ConvertTo bd))) (bd_Meta bd)\<rparr>"
  by (simp add: ConvertTo_def case_prod_beta Let_def)

lemma ConvertTo_store_reads:
  assumes "Bundle_ConvertTo_store i j s = (out, s')" and "valid_Bundle s i" and "j < length (so_ClusterBundles s)"
  shows "out = Ok ()" "read_ClusterBundle s' j = fst (ConvertTo (read_Bundle s i))" "read_Bundle s' i = snd (ConvertTo (read_Bundle s i))"
    and "valid_Bundle s' i" "valid_ClusterBundle s' j" "length (so_ClusterBundles s') = length (so_ClusterBundles s)"
    and "snd (so_Bundles s' ! i) = snd (so_Bundles s ! i)" "snd (so_Bundles s ! i) \<noteq> None \<Longrightarrow> snd (so_ClusterBundles s' ! j) = snd (so_Bundles s ! i)"
    and "valid_ClusterBundle s j' \<Longrightarrow> j' \<noteq> j \<Longrightarrow> read_ClusterBundle s' j' = (read_ClusterBundle s j')\<lparr>cb_Meta := (cb_Meta (read_ClusterBundle s j'))\<lparr>om_Annotations :=
      seen_through (snd (so_ClusterBundles s ! j')) (snd (so_Bundles s ! i)) (om_Annotations (cb_Meta (fst (ConvertTo (read_Bundle s i))))) (om_Annotations (cb_Meta (read_ClusterBundle s j')))\<rparr>\<rparr>"
proof -
  obtain bd a where cell: "so_Bundles s ! i = (bd, a)" by force
  define cb where "cb = fst (ConvertTo (read_Bundle s i))"
  obtain a' s1 where w: "write_map a (om_Annotations (cb_Meta cb)) s = (a', s1)" by force
  have "a \<noteq> None \<longrightarrow> om_Annotations (cb_Meta cb) \<noteq> None"
    using ConvertTo_annotated [of "read_Bundle s i"] cell by (auto simp: cb_def read_Bundle_def read_map_def)
  note r = write_map_reads [OF w _ this]
  have valid: "valid_map s a" "i < length (so_Bundles s)" using assms(2) cell by (simp_all add: valid_Bundle_def)
  have out: "out = Ok ()" "s' = write_ClusterBundle j cb a' s1"
    using assms(1) w cell by (simp_all add: Bundle_ConvertTo_store_def cb_def Let_def)
  have maps: "read_map s' b = read_map s1 b" "valid_map s' b = valid_map s1 b" for b
    by (simp_all add: out write_ClusterBundle_def read_map_def valid_map_def split: option.split)
  have objects: "so_Bundles s' = so_Bundles s" "so_ClusterBundles s' = (so_ClusterBundles s)[j := (cb, a')]"
    by (simp_all add: out write_ClusterBundle_def r [OF valid(1)])
  show "out = Ok ()" by (rule out)
  show "read_ClusterBundle s' j = fst (ConvertTo (read_Bundle s i))"
    using assms(3) r(1) [OF valid(1)] by (simp add: read_ClusterBundle_def objects maps flip: cb_def)
  have ann: "om_Annotations (bd_Meta (read_Bundle s i)) = read_map s a"
    and again: "read_Bundle s' i = (read_Bundle s i)\<lparr>bd_Meta := (bd_Meta (read_Bundle s i))\<lparr>om_Annotations := read_map s' a\<rparr>\<rparr>"
    by (simp_all add: read_Bundle_def objects cell)
  have "read_map s' a = om_Annotations (share_annotations (cb_Meta cb) (bd_Meta (read_Bundle s i)))"
    using r(7) [OF valid(1) valid(1)] r(6) [OF valid(1)] r(5) [OF valid(1)] ann
    by (cases a; cases "om_Annotations (cb_Meta cb)") (auto simp: maps seen_through_def share_annotations_def split: option.split)
  then show "read_Bundle s' i = snd (ConvertTo (read_Bundle s i))"
    unfolding again ConvertTo_source cb_def [symmetric] by (simp add: share_annotations_def split: option.split)
  show "valid_Bundle s' i" "valid_ClusterBundle s' j" "length (so_ClusterBundles s') = length (so_ClusterBundles s)"
    "snd (so_Bundles s' ! i) = snd (so_Bundles s ! i)" "snd (so_Bundles s ! i) \<noteq> None \<Longrightarrow> snd (so_ClusterBundles s' ! j) = snd (so_Bundles s ! i)"
    using valid assms(3) r(2,5) [OF valid(1)] r(7) [OF valid(1) valid(1)] by (simp_all add: valid_Bundle_def valid_ClusterBundle_def objects maps cell)
  show "valid_ClusterBundle s j' \<Longrightarrow> j' \<noteq> j \<Longrightarrow> read_ClusterBundle s' j' = (read_ClusterBundle s j')\<lparr>cb_Meta := (cb_Meta (read_ClusterBundle s j'))\<lparr>om_Annotations :=
      seen_through (snd (so_ClusterBundles s ! j')) (snd (so_Bundles s ! i)) (om_Annotations (cb_Meta (fst (ConvertTo (read_Bundle s i))))) (om_Annotations (cb_Meta (read_ClusterBundle s j')))\<rparr>\<rparr>"
    using r(7) [OF valid(1)]
    by (cases "so_ClusterBundles s ! j'") (simp add: valid_ClusterBundle_def read_ClusterBundle_def objects maps cell flip: cb_def)
qed

text \<open>A conversion to Bundle does to the store what \<open>ConvertFrom\<close> says of the two objects, and other Bundles see its writes.\<close>

lemma ConvertFrom_source:
  assumes "ConvertFrom cb = Ok (bd, cb')"
  shows "cb' = cb\<lparr>cb_Meta := (cb_Meta cb)\<lparr>om_Annotations := map_option (map_delete AnnotationKeyJKSKey) (om_Annotations (cb_Meta cb))\<rparr>\<rparr>"
  using assms by (auto simp: ConvertFrom_def bind_res_Ok_iff)

lemma ConvertFrom_meta: "ConvertFrom cb = Ok (bd, cb') \<Longrightarrow> bd_Meta bd = meta_back (cb_Meta cb)"
  using ConvertFrom_parts [of cb bd] by auto

lemma ConvertFrom_shared:
  assumes "ConvertFrom cb = Ok (bd, cb')" and "om_Annotations (bd_Meta bd) \<noteq> None"
  shows "om_Annotations (bd_Meta bd) = om_Annotations (cb_Meta cb')"
  using assms(2) by (cases "om_Annotations (cb_Meta cb)")
    (auto simp: ConvertFrom_meta [OF assms(1)] ConvertFrom_source [OF assms(1)] meta_back_def map_delete_def split: if_splits)

lemma ConvertFrom_store_reads:
  assumes "Bundle_ConvertFrom_store i j s = (out, s')" and from_: "ConvertFrom (read_ClusterBundle s j) = Ok (bd, cb)"
    and "i < length (so_Bundles s)" and "valid_ClusterBundle s j"
  shows "out = Ok ()" "read_Bundle s' i = bd" "read_ClusterBundle s' j = cb"
    and "valid_Bundle s' i" "valid_ClusterBundle s' j" "length (so_ClusterBundles s') = length (so_ClusterBundles s)"
    and "snd (so_ClusterBundles s' ! j) = snd (so_ClusterBundles s ! j)"
    and "snd (so_Bundles s' ! i) = (if om_Annotations (bd_Meta bd) = None then None else snd (so_ClusterBundles s ! j))"
    and "valid_Bundle s i' \<Longrightarrow> i' \<noteq> i \<Longrightarrow> read_Bundle s' i' = (read_Bundle s i')\<lparr>bd_Meta := (bd_Meta (read_Bundle s i'))\<lparr>om_Annotations :=
      seen_through (snd (so_Bundles s ! i')) (snd (so_ClusterBundles s ! j)) (om_Annotations (cb_Meta cb)) (om_Annotations (bd_Meta (read_Bundle s i')))\<rparr>\<rparr>"
proof -
  obtain cb0 a where cell: "so_ClusterBundles s ! j = (cb0, a)" by force
  obtain a' s1 where w: "write_map a (om_Annotations (cb_Meta cb)) s = (a', s1)" by force
  note source = ConvertFrom_source [OF from_]
  have ann: "om_Annotations (cb_Meta (read_ClusterBundle s j)) = read_map s a" by (simp add: read_ClusterBundle_def cell)
  have some: "om_Annotations (cb_Meta cb) = None \<longleftrightarrow> a = None" by (simp add: source ann)
  have valid: "valid_map s a" "j < length (so_ClusterBundles s)" using assms(4) cell by (simp_all add: valid_ClusterBundle_def)
  note r = write_map_reads [OF w valid(1)]
  have same: "a' = a" using r(5,6) some by (cases a) auto
  have out: "out = Ok ()" "s' = write_Bundle i bd (if om_Annotations (bd_Meta bd) = None then None else a) s1"
    using assms(1) w cell same by (simp_all add: Bundle_ConvertFrom_store_def from_ Let_def)
  have maps: "read_map s' b = read_map s1 b" "valid_map s' b = valid_map s1 b" for b
    by (simp_all add: out write_Bundle_def read_map_def valid_map_def split: option.split)
  have objects: "so_ClusterBundles s' = so_ClusterBundles s"
    "so_Bundles s' = (so_Bundles s)[i := (bd, if om_Annotations (bd_Meta bd) = None then None else a)]"
    using r some by (simp_all add: out write_Bundle_def)
  show "out = Ok ()" by (rule out)
  show "read_Bundle s' i = bd"
    using assms(3) r(1) some same ConvertFrom_shared [OF from_] by (auto simp: read_Bundle_def objects maps)
  show "read_ClusterBundle s' j = cb"
    using r(1) some same source by (simp add: read_ClusterBundle_def objects maps cell)
  show "valid_Bundle s' i" "valid_ClusterBundle s' j" "length (so_ClusterBundles s') = length (so_ClusterBundles s)"
    "snd (so_ClusterBundles s' ! j) = snd (so_ClusterBundles s ! j)"
    "snd (so_Bundles s' ! i) = (if om_Annotations (bd_Meta bd) = None then None else snd (so_ClusterBundles s ! j))"
    using valid assms(3) r(2) some same by (auto simp: valid_Bundle_def valid_ClusterBundle_def objects maps cell)
  show "valid_Bundle s i' \<Longrightarrow> i' \<noteq> i \<Longrightarrow> read_Bundle s' i' = (read_Bundle s i')\<lparr>bd_Meta := (bd_Meta (read_Bundle s i'))\<lparr>om_Annotations :=
      seen_through (snd (so_Bundles s ! i')) (snd (so_ClusterBundles s ! j)) (om_Annotations (cb_Meta cb)) (om_Annotations (bd_Meta (read_Bundle s i')))\<rparr>\<rparr>"
    using r(7) some by (cases "so_Bundles s ! i'") (simp add: valid_Bundle_def read_Bundle_def objects maps cell)
qed

text \<open>New objects do not disturb the others.\<close>

lemma new_Bundle_reads:
  assumes "new_Bundle bd s = (i, s')"
  shows "i = length (so_Bundles s)" "read_Bundle s' i = bd" "valid_Bundle s' i" "so_ClusterBundles s' = so_ClusterBundles s"
    and "valid_ClusterBundle s j \<Longrightarrow> valid_ClusterBundle s' j \<and> read_ClusterBundle s' j = read_ClusterBundle s j"
    and "valid_Bundle s i' \<Longrightarrow> valid_Bundle s' i' \<and> read_Bundle s' i' = read_Bundle s i' \<and> snd (so_Bundles s' ! i') = snd (so_Bundles s ! i')"
proof -
  obtain a s1 where n: "new_map (om_Annotations (bd_Meta bd)) s = (a, s1)" by force
  note r = new_map_reads [OF n]
  have s': "i = length (so_Bundles s)" "s' = s1\<lparr>so_Bundles := so_Bundles s @ [(bd, a)]\<rparr>"
    using assms n r(3) by (simp_all add: new_Bundle_def)
  have maps: "read_map s' b = read_map s1 b" "valid_map s' b = valid_map s1 b" for b
    by (simp_all add: s' read_map_def valid_map_def split: option.split)
  have objects: "so_Bundles s' = so_Bundles s @ [(bd, a)]" "so_ClusterBundles s' = so_ClusterBundles s" by (simp_all add: s' r)
  show "i = length (so_Bundles s)" "so_ClusterBundles s' = so_ClusterBundles s" by (rule s' objects)+
  show "read_Bundle s' i = bd" "valid_Bundle s' i" by (simp_all add: read_Bundle_def valid_Bundle_def s'(1) objects maps r)
  show "valid_ClusterBundle s j \<Longrightarrow> valid_ClusterBundle s' j \<and> read_ClusterBundle s' j = read_ClusterBundle s j"
    using r(5) by (cases "so_ClusterBundles s ! j") (simp add: valid_ClusterBundle_def read_ClusterBundle_def objects maps)
  show "valid_Bundle s i' \<Longrightarrow> valid_Bundle s' i' \<and> read_Bundle s' i' = read_Bundle s i' \<and> snd (so_Bundles s' ! i') = snd (so_Bundles s ! i')"
    using r(5) by (cases "so_Bundles s ! i'") (auto simp: valid_Bundle_def read_Bundle_def objects maps nth_append)
qed

lemma new_ClusterBundle_reads:
  assumes "new_ClusterBundle cb s = (j, s')"
  shows "j = length (so_ClusterBundles s)" "read_ClusterBundle s' j = cb" "valid_ClusterBundle s' j" "so_Bundles s' = so_Bundles s"
    and "valid_Bundle s i \<Longrightarrow> valid_Bundle s' i \<and> read_Bundle s' i = read_Bundle s i"
    and "valid_ClusterBundle s j' \<Longrightarrow> valid_ClusterBundle s' j' \<and> read_ClusterBundle s' j' = read_ClusterBundle s j' \<and>
      snd (so_ClusterBundles s' ! j') = snd (so_ClusterBundles s ! j')"
proof -
  obtain a s1 where n: "new_map (om_Annotations (cb_Meta cb)) s = (a, s1)" by force
  note r = new_map_reads [OF n]
  have s': "j = length (so_ClusterBundles s)" "s' = s1\<lparr>so_ClusterBundles := so_ClusterBundles s @ [(cb, a)]\<rparr>"
    using assms n r(4) by (simp_all add: new_ClusterBundle_def)
  have maps: "read_map s' b = read_map s1 b" "valid_map s' b = valid_map s1 b" for b
    by (simp_all add: s' read_map_def valid_map_def split: option.split)
  have objects: "so_ClusterBundles s' = so_ClusterBundles s @ [(cb, a)]" "so_Bundles s' = so_Bundles s" by (simp_all add: s' r)
  show "j = length (so_ClusterBundles s)" "so_Bundles s' = so_Bundles s" by (rule s' objects)+
  show "read_ClusterBundle s' j = cb" "valid_ClusterBundle s' j" by (simp_all add: read_ClusterBundle_def valid_ClusterBundle_def s'(1) objects maps r)
  show "valid_Bundle s i \<Longrightarrow> valid_Bundle s' i \<and> read_Bundle s' i = read_Bundle s i"
    using r(5) by (cases "so_Bundles s ! i") (simp add: valid_Bundle_def read_Bundle_def objects maps)
  show "valid_ClusterBundle s j' \<Longrightarrow> valid_ClusterBundle s' j' \<and> read_ClusterBundle s' j' = read_ClusterBundle s j' \<and>
      snd (so_ClusterBundles s' ! j') = snd (so_ClusterBundles s ! j')"
    using r(5) by (cases "so_ClusterBundles s ! j'") (auto simp: valid_ClusterBundle_def read_ClusterBundle_def objects maps nth_append)
qed

end
