(* ===== verification/FuzzTheorems.thy ===== *)
theory FuzzTheorems
  imports FuzzConversion
begin

text \<open>
  The conversion test of the repository passes whatever its filler draws, and one thing that it cannot see: a
  lost annotation, because it compares an annotation map with itself.
\<close>

section \<open>Test input\<close>

definition zero_meta :: ObjectMeta where
  "zero_meta = \<lparr>om_Name = [], om_Namespace = [], om_UID = [], om_Generation = 0, om_Labels = [], om_Annotations = None,
     om_OwnerReferences = [], om_DeletionTimestamp = None, om_ManagedFields = []\<rparr>"

definition zero_Bundle :: Bundle where
  "zero_Bundle = \<lparr>bd_Meta = zero_meta,
     bd_Spec = \<lparr>spec_Sources = [],
       spec_Target = \<lparr>bt_ConfigMap = None, bt_Secret = None, bt_AdditionalFormats = None, bt_NamespaceSelector = None\<rparr>\<rparr>,
     bd_Status = \<lparr>st_Conditions = [], st_DefaultCAPackageVersion = []\<rparr>\<rparr>"

definition zero_ClusterBundle :: ClusterBundle where
  "zero_ClusterBundle = \<lparr>cb_Meta = zero_meta,
     cb_Spec = \<lparr>spec2_SourceRefs = [], spec2_DefaultCAs = \<lparr>dca_Provider = []\<rparr>, spec2_InLineCAs = [],
       spec2_Target = \<lparr>bt2_ConfigMap = None, bt2_Secret = None, bt2_NamespaceSelector = None\<rparr>\<rparr>,
     cb_Status = \<lparr>st_Conditions = [], st_DefaultCAPackageVersion = []\<rparr>\<rparr>"

text \<open>The store holds the two zero objects that the test copies.\<close>

definition TestFuzzyConversion :: "'funcs \<Rightarrow> (nat, nat, 'scheme, 'funcs, 'st) FuzzTestFuncInput" where
  "TestFuzzyConversion fuzzFuncs = \<lparr>in_Scheme = None, in_Hub = 0, in_HubAfterMutation = None, in_Spoke = 0, in_SpokeAfterMutation = None,
     in_FuzzerFuncs = [fuzzFuncs]\<rparr>"

definition test_store :: "'rand \<Rightarrow> 'rand store" where
  "test_store rand = \<lparr>so_maps = [], so_Bundles = [(zero_Bundle, None)], so_ClusterBundles = [(zero_ClusterBundle, None)], so_rand = rand\<rparr>"

text \<open>
  The filler overwrites an object with what it draws, in memory of its own, and applies the fuzzers of the
  test. What it draws is the argument: raw objects, and the choices of kinds and provider.
\<close>

definition fill_Bundle :: "('rand \<Rightarrow> Bundle \<times> 'rand) \<Rightarrow> nat \<Rightarrow> 'rand store \<Rightarrow> 'rand store" where
  "fill_Bundle draw i s =
     (let (raw, rand) = draw (so_rand s);
          bd = fuzz_Bundle raw;
          (a, s1) = new_map (om_Annotations (bd_Meta bd)) s
      in (write_Bundle i bd a s1)\<lparr>so_rand := rand\<rparr>)"

definition fill_ClusterBundle :: "('rand \<Rightarrow> (ClusterBundle \<times> (nat \<Rightarrow> bool) \<times> bool) \<times> 'rand) \<Rightarrow> nat \<Rightarrow> 'rand store \<Rightarrow> 'rand store" where
  "fill_ClusterBundle draw j s =
     (let ((raw, kinds, provider), rand) = draw (so_rand s);
          cb = fuzz_ClusterBundle kinds provider raw;
          (a, s1) = new_map (om_Annotations (cb_Meta cb)) s
      in (write_ClusterBundle j cb a s1)\<lparr>so_rand := rand\<rparr>)"

text \<open>A library whose filler draws so, when it is built with the fuzzers of the test.\<close>

definition fills ::
  "('rand \<Rightarrow> Bundle \<times> 'rand) \<Rightarrow> ('rand \<Rightarrow> (ClusterBundle \<times> (nat \<Rightarrow> bool) \<times> bool) \<times> 'rand) \<Rightarrow> 'funcs \<Rightarrow>
     (nat, nat, 'scheme, 'funcs, 'fzr, 'rand store) filler_lib \<Rightarrow> bool" where
  "fills draw draw_v2 fuzzFuncs lib \<longleftrightarrow>
     (let fzr = GetFuzzer lib (fl_DefaultScheme lib) [fuzzFuncs]
      in fl_Fill_Spoke lib fzr = fill_Bundle draw \<and> fl_Fill_Hub lib fzr = fill_ClusterBundle draw_v2)"

text \<open>
  What the filler is known to draw: lists of at most one element, selectors that are not nil; and what it may
  draw by accident but is taken not to: the reserved key, the internal annotation, two equal keys.
\<close>

definition plain_Bundle :: "Bundle \<Rightarrow> bool" where
  "plain_Bundle bd \<longleftrightarrow> length (spec_Sources (bd_Spec bd)) \<le> 1 \<and> bt_NamespaceSelector (spec_Target (bd_Spec bd)) \<noteq> None \<and>
     no_star_keys bd \<and> AnnotationKeyJKSKey \<notin> fst ` set (entries (om_Annotations (bd_Meta bd))) \<and>
     (case bt_AdditionalFormats (spec_Target (bd_Spec bd)) of None \<Rightarrow> True | Some af \<Rightarrow>
        (case (af_JKS af, af_PKCS12 af) of (Some j, Some p) \<Rightarrow> jks_Key j \<noteq> p12_Key p | _ \<Rightarrow> True))"

definition plain_ClusterBundle :: "ClusterBundle \<Rightarrow> bool" where
  "plain_ClusterBundle cb \<longleftrightarrow> AnnotationKeyJKSKey \<notin> fst ` set (entries (om_Annotations (cb_Meta cb))) \<and>
     bt2_NamespaceSelector (spec2_Target (cb_Spec cb)) \<noteq> None \<and>
     list_all (\<lambda>t. length (kvt_Data t) \<le> 1) (kv_targets (spec2_Target (cb_Spec cb)))"

section \<open>What the fuzzers produce comes back unchanged\<close>

lemma selector_fuzzed [simp]:
  "normal_selector (spokeSourceObjectKeySelectorFuzzer sel) = spokeSourceObjectKeySelectorFuzzer sel"
  "sok_Key sel \<noteq> ''*'' \<Longrightarrow> sok_Key (spokeSourceObjectKeySelectorFuzzer sel) \<noteq> ''*''"
  by (cases sel; auto simp: normal_selector_def spokeSourceObjectKeySelectorFuzzer_def ptr_Deref_def split: option.split)+

lemma fuzz_Bundle_fields [simp]:
  "bd_Meta (fuzz_Bundle bd) = bd_Meta bd" "bd_Status (fuzz_Bundle bd) = bd_Status bd"
  "spec_Target (bd_Spec (fuzz_Bundle bd)) = spokeBundleTargetFuzzer (spec_Target (bd_Spec bd))"
  by (simp_all add: fuzz_Bundle_def spokeBundleSpecFuzzer_def Let_def)

lemma sources_fuzzed:
  assumes "plain_Bundle bd"
  shows "normal_sources (spec_Sources (bd_Spec (fuzz_Bundle bd))) = spec_Sources (bd_Spec (fuzz_Bundle bd))"
    and "list_all convertible (spec_Sources (bd_Spec (fuzz_Bundle bd)))"
proof -
  let ?src = "\<lambda>s. s\<lparr>bs_ConfigMap := map_option spokeSourceObjectKeySelectorFuzzer (bs_ConfigMap s),
                       bs_Secret := map_option spokeSourceObjectKeySelectorFuzzer (bs_Secret s)\<rparr>"
  have sources: "spec_Sources (bd_Spec (fuzz_Bundle bd)) = filter (\<lambda>s. unionCount s = 1) (map ?src (spec_Sources (bd_Spec bd)))"
    by (simp add: fuzz_Bundle_def spokeBundleSpecFuzzer_def unionCount_def count_if_def Let_def)
  from assms consider "spec_Sources (bd_Spec bd) = []" | s where "spec_Sources (bd_Spec bd) = [s]"
    by (cases "spec_Sources (bd_Spec bd)") (auto simp: plain_Bundle_def)
  then have both: "normal_sources (spec_Sources (bd_Spec (fuzz_Bundle bd))) = spec_Sources (bd_Spec (fuzz_Bundle bd)) \<and>
      list_all convertible (spec_Sources (bd_Spec (fuzz_Bundle bd)))"
  proof cases
    case 2
    show ?thesis
    proof (cases "unionCount (?src s) = 1")
      case True
      with assms 2 show ?thesis
        unfolding sources
        by (cases s) (auto simp: plain_Bundle_def no_star_keys_def convertible_def normal_sources_def merge_inline_def last_default_def
            is_object_def normal_source_def inline_only_def default_only_def unionCount_def count_if_def split: option.splits if_splits)
    qed (simp add: sources 2 normal_sources_def)
  qed (simp add: sources normal_sources_def)
  then show "normal_sources (spec_Sources (bd_Spec (fuzz_Bundle bd))) = spec_Sources (bd_Spec (fuzz_Bundle bd))"
    and "list_all convertible (spec_Sources (bd_Spec (fuzz_Bundle bd)))" by simp_all
qed

lemma formats_fuzzed:
  assumes "plain_Bundle bd" and "bt_AdditionalFormats (spokeBundleTargetFuzzer (spec_Target (bd_Spec bd))) = Some af"
  shows "distinct (map snd (format_specs af))" and "normal_formats af = Some af"
    and "has_target (spokeBundleTargetFuzzer (spec_Target (bd_Spec bd)))"
proof -
  let ?t = "spec_Target (bd_Spec bd)"
  from assms(2) obtain af0 where af0: "bt_AdditionalFormats ?t = Some af0" "spokeFormatsFuzzer af0 = Some af"
    and some: "bt_Secret ?t \<noteq> None \<or> bt_ConfigMap ?t \<noteq> None"
    by (cases "bt_AdditionalFormats ?t") (auto simp: spokeBundleTargetFuzzer_def split: if_splits option.splits)
  from some show "has_target (spokeBundleTargetFuzzer ?t)" by (auto simp: has_target_def spokeBundleTargetFuzzer_def)
  have keys: "case (af_JKS af0, af_PKCS12 af0) of (Some j, Some p) \<Rightarrow> jks_Key j \<noteq> p12_Key p | _ \<Rightarrow> True"
    using assms(1) af0(1) by (simp add: plain_Bundle_def)
  with af0(2) show "distinct (map snd (format_specs af))"
    by (cases "af_JKS af0"; cases "af_PKCS12 af0") (auto simp: spokeFormatsFuzzer_def format_specs_def Let_def split: if_splits)
  from af0(2) show "normal_formats af = Some af"
    by (cases "af_JKS af0"; cases "af_PKCS12 af0")
      (auto simp: spokeFormatsFuzzer_def normal_formats_def LegacyRC2PKCS12Profile_def Let_def split: if_splits)
qed

lemma target_fuzzed:
  assumes "plain_Bundle bd"
  shows "normal_target (spokeBundleTargetFuzzer (spec_Target (bd_Spec bd))) = spokeBundleTargetFuzzer (spec_Target (bd_Spec bd))"
proof -
  let ?t = "spokeBundleTargetFuzzer (spec_Target (bd_Spec bd))"
  have "bt_NamespaceSelector ?t \<noteq> None" using assms by (simp add: plain_Bundle_def spokeBundleTargetFuzzer_def)
  moreover have "Option.bind (bt_AdditionalFormats ?t) normal_formats = bt_AdditionalFormats ?t"
    using formats_fuzzed(2) [OF assms] by (cases "bt_AdditionalFormats ?t") auto
  ultimately show ?thesis by (cases ?t) (auto simp: normal_target_def)
qed

text \<open>The target of a fuzzed Bundle, converted and converted back.\<close>

lemma fuzzed_target_back:
  assumes "plain_Bundle bd"
  defines "t \<equiv> spokeBundleTargetFuzzer (spec_Target (bd_Spec bd))"
  defines "c \<equiv> Convert_v1alpha1_BundleTarget_To_v1alpha2_BundleTarget t (bd_Meta bd)"
  shows "\<exists>jks pkcs12. formats_of_kvs (entries (om_Annotations (snd c))) (kvs_of_target (fst c)) None None = Ok (jks, pkcs12) \<and>
      target_of jks pkcs12 (fst c) = t"
    and "snd c\<lparr>om_Annotations := None\<rparr> = (bd_Meta bd)\<lparr>om_Annotations := None\<rparr>"
    and "map_of (map_delete AnnotationKeyJKSKey (entries (om_Annotations (snd c)))) = map_of (entries (om_Annotations (bd_Meta bd)))"
proof -
  have jks: "map_of (entries (om_Annotations (bd_Meta bd))) AnnotationKeyJKSKey = None"
    using assms(1) by (simp add: plain_Bundle_def map_of_eq_None_iff)
  have snd: "snd c = annotated t (bd_Meta bd)"
  proof (cases "has_target t")
    case True
    then show ?thesis by (simp add: c_def convert_target)
  next
    case False
    with formats_fuzzed(3) [OF assms(1)] have "bt_AdditionalFormats t = None" by (cases "bt_AdditionalFormats t") (auto simp: t_def)
    then show ?thesis by (simp add: c_def Convert_v1alpha1_BundleTarget_To_v1alpha2_BundleTarget_def annotated_def Let_def)
  qed
  show "snd c\<lparr>om_Annotations := None\<rparr> = (bd_Meta bd)\<lparr>om_Annotations := None\<rparr>"
    by (simp add: snd annotated_def set_annotation_def split: option.split)
  show "map_of (map_delete AnnotationKeyJKSKey (entries (om_Annotations (snd c)))) = map_of (entries (om_Annotations (bd_Meta bd)))"
    using jks by (auto simp: snd annotated_def set_annotation_def map_of_delete fun_eq_iff split: option.split)
  define meta0 where "meta0 = (bd_Meta bd)\<lparr>om_Annotations := (if entries (om_Annotations (bd_Meta bd)) = [] then None else om_Annotations (bd_Meta bd))\<rparr>"
  have meta0: "entries (om_Annotations meta0) = entries (om_Annotations (bd_Meta bd))" "plain_annotations meta0"
    using jks by (auto simp: meta0_def plain_annotations_def map_of_eq_None_iff)
  then have entries: "entries (om_Annotations (annotated t meta0)) = entries (om_Annotations (snd c))"
    by (simp add: snd annotated_def set_annotation_def split: option.split)
  show "\<exists>jks pkcs12. formats_of_kvs (entries (om_Annotations (snd c))) (kvs_of_target (fst c)) None None = Ok (jks, pkcs12) \<and>
      target_of jks pkcs12 (fst c) = t"
  proof (cases "has_target t")
    case True
    have "fst c = fst (Convert_v1alpha1_BundleTarget_To_v1alpha2_BundleTarget t meta0)" by (simp add: c_def convert_target [OF True])
    with target_roundtrip [OF True meta0(2) formats_fuzzed(1) [OF assms(1)]]
    have "Convert_v1alpha2_BundleTarget_To_v1alpha1_BundleTarget (fst c) (annotated t meta0) = Ok (t, meta0)"
      using target_fuzzed [OF assms(1)] by (simp add: t_def)
    then obtain jks pkcs12 where found: "formats_of_kvs (entries (om_Annotations (snd c))) (kvs_of_target (fst c)) None None = Ok (jks, pkcs12)"
      and t: "t = target_of jks pkcs12 (fst c)" unfolding target_back entries target_of_def by blast
    show ?thesis by (intro exI conjI, rule found, rule t [symmetric])
  next
    case False
    with formats_fuzzed(3) [OF assms(1)] have none: "bt_AdditionalFormats t = None" "bt_ConfigMap t = None" "bt_Secret t = None"
      by (cases "bt_AdditionalFormats t"; auto simp: t_def has_target_def)+
    moreover have "bt_NamespaceSelector t \<noteq> None" using assms(1) by (simp add: t_def plain_Bundle_def spokeBundleTargetFuzzer_def)
    ultimately have "fst c = \<lparr>bt2_ConfigMap = None, bt2_Secret = None, bt2_NamespaceSelector = bt_NamespaceSelector t\<rparr>"
      by (auto simp: c_def Convert_v1alpha1_BundleTarget_To_v1alpha2_BundleTarget_def autoConvert_v1alpha1_BundleTarget_To_v1alpha2_BundleTarget_def Let_def)
    with none show ?thesis by (cases t) (simp add: kvs_of_target_def target_of_def)
  qed
qed

text \<open>A fuzzed Bundle, converted and converted back.\<close>

lemma fuzzed_Bundle_back:
  assumes "plain_Bundle bd"
  shows "\<exists>bd1 cb. ConvertFrom (fst (ConvertTo (fuzz_Bundle bd))) = Ok (bd1, cb) \<and> same_Bundle (fuzz_Bundle bd) bd1 \<and>
    map_of (entries (om_Annotations (cb_Meta cb))) = map_of (entries (om_Annotations (bd_Meta bd)))"
proof -
  let ?v = "fuzz_Bundle bd"
  let ?c = "Convert_v1alpha1_BundleTarget_To_v1alpha2_BundleTarget (spokeBundleTargetFuzzer (spec_Target (bd_Spec bd))) (bd_Meta bd)"
  let ?cb = "fst (ConvertTo ?v)"
  note ret = fuzzed_target_back [OF assms]
  have cb: "cb_Meta ?cb = snd ?c" "spec2_Target (cb_Spec ?cb) = fst ?c" "cb_Status ?cb = bd_Status bd"
    by (cases "bd_Status bd") (simp_all add: ConvertTo_def convert_spec autoConvert_v1alpha1_BundleStatus_To_v1alpha2_BundleStatus_def)
  have "default_of_provider (provider_of d) = d" for d by (auto simp: default_of_provider_def provider_of_def split: option.split)
  then have "sources_back (cb_Spec ?cb) = normal_sources (spec_Sources (bd_Spec ?v))"
    using convert_object_sources [OF sources_fuzzed(2) [OF assms]]
    by (simp add: ConvertTo_def convert_spec sources_back_def normal_sources_def)
  then have sources: "sources_back (cb_Spec ?cb) = spec_Sources (bd_Spec ?v)" using sources_fuzzed(1) [OF assms] by simp
  from ret(1) obtain jks pkcs12 where formats: "formats_of_kvs (entries (om_Annotations (snd ?c))) (kvs_of_target (fst ?c)) None None = Ok (jks, pkcs12)"
    "target_of jks pkcs12 (fst ?c) = spokeBundleTargetFuzzer (spec_Target (bd_Spec bd))" by blast
  let ?bd1 = "\<lparr>bd_Meta = meta_back (snd ?c), bd_Spec = bd_Spec ?v, bd_Status = bd_Status bd\<rparr>"
  have spec: "bd_Spec ?v = \<lparr>spec_Sources = spec_Sources (bd_Spec ?v), spec_Target = spokeBundleTargetFuzzer (spec_Target (bd_Spec bd))\<rparr>"
    by (cases "bd_Spec ?v") (metis BundleSpec.select_convs fuzz_Bundle_fields(3))
  have "\<exists>cb'. ConvertFrom ?cb = Ok (?bd1, cb')"
    unfolding ConvertFrom_parts cb sources using formats spec by auto
  then obtain cb' where from_: "ConvertFrom ?cb = Ok (?bd1, cb')" by blast
  have "same_meta (bd_Meta bd) (meta_back (snd ?c))"
    using ret(2,3) by (auto simp: same_meta_def meta_back_def split: if_splits)
  moreover have "map_of (entries (om_Annotations (cb_Meta cb'))) = map_of (entries (om_Annotations (bd_Meta bd)))"
    using ret(3) by (cases "om_Annotations (snd ?c)") (simp_all add: ConvertFrom_source [OF from_] cb map_delete_def)
  ultimately show ?thesis using from_ by (auto simp: same_Bundle_def)
qed

text \<open>A fuzzed ClusterBundle can be expressed by a Bundle.\<close>

lemma normalizeTarget_plain:
  assumes "normalizeTarget target = Some t" and "pred_option (\<lambda>t. length (kvt_Data t) \<le> 1) target"
  shows "\<exists>kv. kvt_Data t = [kv] \<and> plain_kv kv"
proof -
  from assms obtain t0 where t0: "target = Some t0" "length (kvt_Data t0) \<le> 1" by (auto simp: normalizeTarget_def split: option.splits)
  have "p = no_PKCS12" if "p2_Password p = None" "p2_Profile p = []" for p using that by (cases p) (simp add: no_PKCS12_def)
  then have "plain_kv (normalizeKeyValue kv)" if "p2_Password (tkv_PKCS12 kv) = None" for kv
    using that by (simp add: plain_kv_def normalizeKeyValue_def)
  with assms(1) t0 show ?thesis
    by (cases "kvt_Data t0") (auto simp: normalizeTarget_def Let_def split: if_splits)
qed

lemma fuzzed_ClusterBundle_expressible:
  assumes "plain_ClusterBundle cb"
  shows "expressible (fuzz_ClusterBundle kinds provider cb)"
proof -
  let ?t = "spec2_Target (cb_Spec cb)"
  let ?v = "fuzz_ClusterBundle kinds provider cb"
  have jks: "jks_annotation ?v = None"
    using assms by (simp add: jks_annotation_def fuzz_ClusterBundle_def plain_ClusterBundle_def map_of_eq_None_iff)
  have "known_kind (hubBundleSourceRefFuzzer kind ref)" for kind ref
    by (cases kind) (simp_all add: known_kind_def hubBundleSourceRefFuzzer_def)
  then have kinds: "list_all known_kind (spec2_SourceRefs (cb_Spec ?v))"
    by (auto simp: fuzz_ClusterBundle_def list_all_iff dest: set_zip_rightD)
  have provider: "known_provider (dca_Provider (spec2_DefaultCAs (cb_Spec ?v)))"
    by (cases provider) (simp_all add: fuzz_ClusterBundle_def hubDefaultCAsFuzzer_def known_provider_def)
  have small: "pred_option (\<lambda>t. length (kvt_Data t) \<le> 1) (bt2_ConfigMap ?t)" "pred_option (\<lambda>t. length (kvt_Data t) \<le> 1) (bt2_Secret ?t)"
    using assms by (auto simp: plain_ClusterBundle_def kv_targets_def list_all_iff pred_option_def split: option.splits)
  have target: "spec2_Target (cb_Spec ?v) = hubBundleTargetFuzzer ?t" by (simp add: fuzz_ClusterBundle_def)
  have "expressible_target None (hubBundleTargetFuzzer ?t)"
    using normalizeTarget_plain [OF _ small(1)] normalizeTarget_plain [OF _ small(2)] assms
    by (cases "normalizeTarget (bt2_ConfigMap ?t)"; cases "normalizeTarget (bt2_Secret ?t)")
      (auto simp: expressible_target_def kv_targets_def hubBundleTargetFuzzer_def plain_ClusterBundle_def expressible_data_def format_entries_def)
  with jks kinds provider target show ?thesis by (simp add: expressible_def)
qed

section \<open>The rounds\<close>

lemma filled_Bundle:
  assumes "i < length (so_Bundles s)"
  shows "read_Bundle (fill_Bundle draw i s) i = fuzz_Bundle (fst (draw (so_rand s)))" and "valid_Bundle (fill_Bundle draw i s) i"
proof -
  obtain raw rand where d: "draw (so_rand s) = (raw, rand)" by force
  obtain a s1 where n: "new_map (om_Annotations (bd_Meta (fuzz_Bundle raw))) s = (a, s1)" by force
  have s': "fill_Bundle draw i s = (write_Bundle i (fuzz_Bundle raw) a s1)\<lparr>so_rand := rand\<rparr>" using d n by (simp add: fill_Bundle_def)
  have maps: "read_map (fill_Bundle draw i s) a = read_map s1 a" "valid_map (fill_Bundle draw i s) a = valid_map s1 a"
    by (simp_all add: s' write_Bundle_def read_map_def valid_map_def split: option.split)
  show "read_Bundle (fill_Bundle draw i s) i = fuzz_Bundle (fst (draw (so_rand s)))" "valid_Bundle (fill_Bundle draw i s) i"
    using assms new_map_reads(1-3) [OF n] maps d unfolding read_Bundle_def valid_Bundle_def
    by (simp_all add: s' write_Bundle_def)
qed

lemma filled_ClusterBundle:
  assumes "j < length (so_ClusterBundles s)" and "draw (so_rand s) = ((raw, kinds, provider), rand)"
  shows "read_ClusterBundle (fill_ClusterBundle draw j s) j = fuzz_ClusterBundle kinds provider raw"
    and "valid_ClusterBundle (fill_ClusterBundle draw j s) j"
proof -
  let ?v = "fuzz_ClusterBundle kinds provider raw"
  obtain a s1 where n: "new_map (om_Annotations (cb_Meta ?v)) s = (a, s1)" by force
  have s': "fill_ClusterBundle draw j s = (write_ClusterBundle j ?v a s1)\<lparr>so_rand := rand\<rparr>"
    using assms(2) n by (simp add: fill_ClusterBundle_def)
  have maps: "read_map (fill_ClusterBundle draw j s) a = read_map s1 a" "valid_map (fill_ClusterBundle draw j s) a = valid_map s1 a"
    by (simp_all add: s' write_ClusterBundle_def read_map_def valid_map_def split: option.split)
  show "read_ClusterBundle (fill_ClusterBundle draw j s) j = ?v" "valid_ClusterBundle (fill_ClusterBundle draw j s) j"
    using assms(1) new_map_reads(1,2,4) [OF n] maps unfolding read_ClusterBundle_def valid_ClusterBundle_def
    by (simp_all add: s' write_ClusterBundle_def)
qed

lemma read_annotations:
  "om_Annotations (bd_Meta (read_Bundle s i)) = read_map s (snd (so_Bundles s ! i))"
  "om_Annotations (cb_Meta (read_ClusterBundle s j)) = read_map s (snd (so_ClusterBundles s ! j))"
  by (simp_all add: read_Bundle_def read_ClusterBundle_def split: prod.split)

text \<open>What the round compares in the end: the Bundle as the shared map shows it, and the one that came back.\<close>

lemma spoke_round:
  assumes "valid_Bundle s i" and "j < length (so_ClusterBundles s)"
    and from_: "ConvertFrom (fst (ConvertTo (read_Bundle s i))) = Ok (bd1, cb)"
  shows "\<exists>s4 i' s5 s6. Bundle_ConvertTo_store i j s = (Ok (), s4) \<and> new_Bundle (new s4) s4 = (i', s5) \<and>
    Bundle_ConvertFrom_store i' j s5 = (Ok (), s6) \<and> read_Bundle s6 i' = bd1 \<and>
    read_Bundle s6 i = (read_Bundle s i)\<lparr>bd_Meta := (bd_Meta (read_Bundle s i))\<lparr>om_Annotations :=
      (if om_Annotations (bd_Meta (read_Bundle s i)) = None then None else Some (entries (om_Annotations (cb_Meta cb))))\<rparr>\<rparr>"
proof -
  obtain out4 s4 where to: "Bundle_ConvertTo_store i j s = (out4, s4)" by force
  note r4 = ConvertTo_store_reads [OF to assms(1,2)]
  obtain i' s5 where new: "new_Bundle (new s4) s4 = (i', s5)" by force
  note r5 = new_Bundle_reads [OF new]
  obtain out6 s6 where back_: "Bundle_ConvertFrom_store i' j s5 = (out6, s6)" by force
  have v: "read_ClusterBundle s5 j = fst (ConvertTo (read_Bundle s i))" "valid_ClusterBundle s5 j" "valid_Bundle s5 i"
    and b: "read_Bundle s5 i = snd (ConvertTo (read_Bundle s i))" "snd (so_Bundles s5 ! i) = snd (so_Bundles s ! i)"
    using r5(5) [OF r4(5)] r5(6) [OF r4(4)] r4(2,3,7) by simp_all
  have other: "i' \<noteq> i" using r5(1) r4(4) by (simp add: valid_Bundle_def)
  have "ConvertFrom (read_ClusterBundle s5 j) = Ok (bd1, cb)" using from_ v(1) by simp
  note r6 = ConvertFrom_store_reads [OF back_ this _ v(2)]
  have i': "i' < length (so_Bundles s5)" using r5(3) by (simp add: valid_Bundle_def)
  have a: "om_Annotations (bd_Meta (read_Bundle s i)) = None \<longleftrightarrow> snd (so_Bundles s ! i) = None" by (simp add: read_annotations)
  have cell: "snd (so_ClusterBundles s5 ! j) = snd (so_Bundles s ! i)" if "snd (so_Bundles s ! i) \<noteq> None"
    using r4(8) [OF that] r5(4) by simp
  have "read_Bundle s6 i = (read_Bundle s i)\<lparr>bd_Meta := (bd_Meta (read_Bundle s i))\<lparr>om_Annotations :=
      (if om_Annotations (bd_Meta (read_Bundle s i)) = None then None else Some (entries (om_Annotations (cb_Meta cb))))\<rparr>\<rparr>"
  proof (cases "snd (so_Bundles s ! i)")
    case None
    then have "om_Annotations (bd_Meta (read_Bundle s i)) = None" using a by simp
    then show ?thesis
      using r6(9) [OF i' v(3)] other b None by (cases "read_Bundle s i")
        (simp add: seen_through_def ConvertTo_source share_annotations_def)
  next
    case (Some k)
    with a cell have "om_Annotations (bd_Meta (read_Bundle s i)) \<noteq> None" "snd (so_ClusterBundles s5 ! j) = Some k" by auto
    then show ?thesis
      using r6(9) [OF i' v(3)] other b Some by (simp add: seen_through_def ConvertTo_source share_annotations_def split: option.split)
  qed
  with to r4(1) new back_ r6(1,2) [OF i'] show ?thesis by blast
qed

lemma hub_round:
  assumes "valid_ClusterBundle s j" and "i < length (so_Bundles s)"
    and from_: "ConvertFrom (read_ClusterBundle s j) = Ok (bd, cb)"
  shows "\<exists>s4 j' s5 s6 m. Bundle_ConvertFrom_store i j s = (Ok (), s4) \<and> new_ClusterBundle (new s4) s4 = (j', s5) \<and>
    Bundle_ConvertTo_store i j' s5 = (Ok (), s6) \<and> read_ClusterBundle s6 j' = fst (ConvertTo bd) \<and>
    read_ClusterBundle s6 j = cb\<lparr>cb_Meta := (cb_Meta cb)\<lparr>om_Annotations := m\<rparr>\<rparr> \<and>
    (m = om_Annotations (cb_Meta cb) \<or> m = Some (entries (om_Annotations (cb_Meta (fst (ConvertTo bd))))))"
proof -
  obtain out4 s4 where back_: "Bundle_ConvertFrom_store i j s = (out4, s4)" by force
  note r4 = ConvertFrom_store_reads [OF back_ from_ assms(2,1)]
  obtain j' s5 where new: "new_ClusterBundle (new s4) s4 = (j', s5)" by force
  note r5 = new_ClusterBundle_reads [OF new]
  obtain out6 s6 where to: "Bundle_ConvertTo_store i j' s5 = (out6, s6)" by force
  have v: "valid_Bundle s5 i" "read_Bundle s5 i = bd" "valid_ClusterBundle s5 j" "read_ClusterBundle s5 j = cb"
    using r5(5) [OF r4(4)] r5(6) [OF r4(5)] r4(2,3) by simp_all
  have other: "j \<noteq> j'" using r5(1) r4(5) by (simp add: valid_ClusterBundle_def)
  have j': "j' < length (so_ClusterBundles s5)" using r5(3) by (simp add: valid_ClusterBundle_def)
  note r6 = ConvertTo_store_reads [OF to v(1) j']
  let ?m = "seen_through (snd (so_ClusterBundles s5 ! j)) (snd (so_Bundles s5 ! i)) (om_Annotations (cb_Meta (fst (ConvertTo bd)))) (om_Annotations (cb_Meta cb))"
  have "read_ClusterBundle s6 j = cb\<lparr>cb_Meta := (cb_Meta cb)\<lparr>om_Annotations := ?m\<rparr>\<rparr>" using r6(9) [OF v(3) other] v(2,4) by simp
  moreover have "?m = om_Annotations (cb_Meta cb) \<or> ?m = Some (entries (om_Annotations (cb_Meta (fst (ConvertTo bd)))))"
    by (simp add: seen_through_def)
  ultimately show ?thesis using back_ r4(1) new to r6(1,2) v(2) by blast
qed

section \<open>The test passes\<close>

text \<open>What the first subtest compares with the Bundle that came back: the drawn one, with the annotations that the ClusterBundle was left with.\<close>

definition seen_after :: "Bundle \<Rightarrow> ClusterBundle \<Rightarrow> Bundle" where
  "seen_after bd cb = bd\<lparr>bd_Meta := (bd_Meta bd)\<lparr>om_Annotations :=
     (if om_Annotations (bd_Meta bd) = None then None else Some (entries (om_Annotations (cb_Meta cb))))\<rparr>\<rparr>"

lemma spoke_continues:
  assumes "fills draw draw_v2 fuzzFuncs lib"
    and "\<And>r. \<exists>bd1 cb. ConvertFrom (fst (ConvertTo (fuzz_Bundle (fst (draw r))))) = Ok (bd1, cb) \<and> equal (seen_after (fuzz_Bundle (fst (draw r))) cb) bd1"
  shows "\<exists>s'. spoke_hub_spoke lib (conversion_methods equal equal_v2) (TestFuzzyConversion fuzzFuncs)
    (GetFuzzer lib (fl_DefaultScheme lib) [fuzzFuncs]) s = Continue s'"
proof -
  have fill: "fl_Fill_Spoke lib (GetFuzzer lib (fl_DefaultScheme lib) [fuzzFuncs]) = fill_Bundle draw"
    using assms(1) by (simp add: fills_def Let_def)
  obtain i s1 where n1: "new_Bundle (read_Bundle s 0) s = (i, s1)" by force
  have i: "i < length (so_Bundles s1)" using new_Bundle_reads(3) [OF n1] by (simp add: valid_Bundle_def)
  note f = filled_Bundle [OF i, of draw]
  obtain j s3 where n3: "new_ClusterBundle (read_ClusterBundle (fill_Bundle draw i s1) 0) (fill_Bundle draw i s1) = (j, s3)" by force
  note r3 = new_ClusterBundle_reads [OF n3]
  have v: "valid_Bundle s3 i" "read_Bundle s3 i = fuzz_Bundle (fst (draw (so_rand s1)))" "j < length (so_ClusterBundles s3)"
    using r3(5) [OF f(2)] f(1) r3(3) by (simp_all add: valid_ClusterBundle_def)
  from assms(2) [of "so_rand s1"] obtain bd1 cb where from_: "ConvertFrom (fst (ConvertTo (read_Bundle s3 i))) = Ok (bd1, cb)"
    and equal: "equal (seen_after (read_Bundle s3 i) cb) bd1" unfolding v(2) by blast
  from spoke_round [OF v(1,3) from_, of "\<lambda>s. read_Bundle s 0"] obtain s4 i' s5 s6 where
    run: "Bundle_ConvertTo_store i j s3 = (Ok (), s4)" "new_Bundle (read_Bundle s4 0) s4 = (i', s5)" "Bundle_ConvertFrom_store i' j s5 = (Ok (), s6)"
    and "read_Bundle s6 i' = bd1" "read_Bundle s6 i = seen_after (read_Bundle s3 i) cb" unfolding seen_after_def by blast
  with equal have "equal (read_Bundle s6 i) (read_Bundle s6 i')" by (simp only:)
  then show ?thesis
    by (simp add: spoke_hub_spoke_def conversion_methods_def TestFuzzyConversion_def mutate_def Expect_Succeed_def Let_def fill n1 n3 run)
qed

lemma spoke_subtest:
  assumes "fills draw draw_v2 fuzzFuncs lib" and "\<And>r. plain_Bundle (fst (draw r))"
    and "\<And>a b. same_Bundle a b \<Longrightarrow> equal a b"
  shows "\<exists>s'. spoke_hub_spoke lib (conversion_methods equal equal_v2) (TestFuzzyConversion fuzzFuncs)
    (GetFuzzer lib (fl_DefaultScheme lib) [fuzzFuncs]) s = Continue s'"
proof (rule spoke_continues [OF assms(1)])
  fix r
  let ?v = "fuzz_Bundle (fst (draw r))"
  from fuzzed_Bundle_back [OF assms(2) [of r]] obtain bd1 cb where from_: "ConvertFrom (fst (ConvertTo ?v)) = Ok (bd1, cb)"
    and same: "same_Bundle ?v bd1" "map_of (entries (om_Annotations (cb_Meta cb))) = map_of (entries (om_Annotations (bd_Meta ?v)))" by auto
  then have "same_Bundle (seen_after ?v cb) bd1" by (auto simp: seen_after_def same_Bundle_def same_meta_def)
  with from_ assms(3) show "\<exists>bd1 cb. ConvertFrom (fst (ConvertTo ?v)) = Ok (bd1, cb) \<and> equal (seen_after ?v cb) bd1" by blast
qed

lemma hub_subtest:
  assumes "fills draw draw_v2 fuzzFuncs lib" and "\<And>r. plain_ClusterBundle (fst (fst (draw_v2 r)))"
    and "\<And>a b. same_ClusterBundle a b \<Longrightarrow> equal_v2 a b"
  shows "\<exists>s'. hub_spoke_hub lib (conversion_methods equal equal_v2) (TestFuzzyConversion fuzzFuncs)
    (GetFuzzer lib (fl_DefaultScheme lib) [fuzzFuncs]) s = Continue s'"
proof -
  have fill: "fl_Fill_Hub lib (GetFuzzer lib (fl_DefaultScheme lib) [fuzzFuncs]) = fill_ClusterBundle draw_v2"
    using assms(1) by (simp add: fills_def Let_def)
  obtain j s1 where n1: "new_ClusterBundle (read_ClusterBundle s 0) s = (j, s1)" by force
  obtain raw kinds provider rand where d: "draw_v2 (so_rand s1) = ((raw, kinds, provider), rand)" by (metis prod.collapse)
  have j: "j < length (so_ClusterBundles s1)" using new_ClusterBundle_reads(3) [OF n1] by (simp add: valid_ClusterBundle_def)
  note f = filled_ClusterBundle [where draw = draw_v2, OF j d]
  obtain i s3 where n3: "new_Bundle (read_Bundle (fill_ClusterBundle draw_v2 j s1) 0) (fill_ClusterBundle draw_v2 j s1) = (i, s3)" by force
  note r3 = new_Bundle_reads [OF n3]
  let ?v = "fuzz_ClusterBundle kinds provider raw"
  have v: "valid_ClusterBundle s3 j" "read_ClusterBundle s3 j = ?v" "i < length (so_Bundles s3)"
    using r3(5) [OF f(2)] f(1) r3(3) by (simp_all add: valid_Bundle_def)
  have plain: "plain_ClusterBundle raw" using assms(2) [of "so_rand s1"] d by simp
  from fuzzed_ClusterBundle_expressible [OF this, of kinds provider] obtain bd cb
    where from_: "ConvertFrom (read_ClusterBundle s3 j) = Ok (bd, cb)" and again: "same_ClusterBundle (fst (ConvertTo bd)) ?v"
    unfolding ConvertFrom_ConvertTo_iff_expressible [symmetric] v(2) by blast
  from hub_round [OF v(1,3) from_, of "\<lambda>s. read_ClusterBundle s 0"] obtain s4 j' s5 s6 m where
    run: "Bundle_ConvertFrom_store i j s3 = (Ok (), s4)" "new_ClusterBundle (read_ClusterBundle s4 0) s4 = (j', s5)"
      "Bundle_ConvertTo_store i j' s5 = (Ok (), s6)"
    and after: "read_ClusterBundle s6 j' = fst (ConvertTo bd)" and before: "read_ClusterBundle s6 j = cb\<lparr>cb_Meta := (cb_Meta cb)\<lparr>om_Annotations := m\<rparr>\<rparr>"
    and m: "m = om_Annotations (cb_Meta cb) \<or> m = Some (entries (om_Annotations (cb_Meta (fst (ConvertTo bd)))))" by blast
  have cb: "cb = ?v\<lparr>cb_Meta := (cb_Meta ?v)\<lparr>om_Annotations := map_option (map_delete AnnotationKeyJKSKey) (om_Annotations (cb_Meta ?v))\<rparr>\<rparr>"
    using ConvertFrom_source [OF from_] v(2) by simp
  have "map_of (entries (om_Annotations (cb_Meta cb))) = map_of (entries (om_Annotations (cb_Meta ?v)))"
  proof -
    have "AnnotationKeyJKSKey \<notin> fst ` set (entries (om_Annotations (cb_Meta ?v)))"
      using plain by (simp add: plain_ClusterBundle_def fuzz_ClusterBundle_def)
    then show ?thesis by (cases "om_Annotations (cb_Meta ?v)") (simp_all add: cb map_delete_absent)
  qed
  with m again have "map_of (entries m) = map_of (entries (om_Annotations (cb_Meta ?v)))"
    by (auto simp: same_ClusterBundle_def same_meta_def)
  with again before have "same_ClusterBundle (read_ClusterBundle s6 j) (fst (ConvertTo bd))"
    by (simp add: same_ClusterBundle_def same_meta_def cb)
  then have "equal_v2 (read_ClusterBundle s6 j) (read_ClusterBundle s6 j')" using assms(3) after by simp
  then show ?thesis
    by (simp add: hub_spoke_hub_def conversion_methods_def TestFuzzyConversion_def mutate_def Expect_Succeed_def Let_def fill n1 n3 run)
qed

text \<open>
  C13: The conversion test of the repository passes, whatever the random source: if the filler draws lists
  of at most one element and selectors that are not nil, and hits neither the reserved key, nor the internal
  annotation, nor two equal keys, then both subtests, each of 10000 rounds of filling, converting, converting
  back and comparing, end without a failure or panic, although the objects compared share their
  annotation maps.
\<close>

theorem TestFuzzyConversion_passes:
  assumes "fills draw draw_v2 fuzzFuncs lib"
    and "\<And>r. plain_Bundle (fst (draw r))" and "\<And>r. plain_ClusterBundle (fst (fst (draw_v2 r)))"
    and "\<And>a b. same_Bundle a b \<Longrightarrow> equal a b" and "\<And>a b. same_ClusterBundle a b \<Longrightarrow> equal_v2 a b"
  shows "FuzzTestFunc lib (conversion_methods equal equal_v2) (TestFuzzyConversion fuzzFuncs) (test_store rand) = Ok (True, True)"
proof (rule FuzzTestFunc_passes [where I = "\<lambda>_. True"])
  have test: "in_Scheme (TestFuzzyConversion fuzzFuncs) = None" "in_FuzzerFuncs (TestFuzzyConversion fuzzFuncs) = [fuzzFuncs]"
    by (simp_all add: TestFuzzyConversion_def)
  fix s
  show "\<exists>s'. spoke_hub_spoke lib (conversion_methods equal equal_v2) (TestFuzzyConversion fuzzFuncs) (GetFuzzer lib
      (case in_Scheme (TestFuzzyConversion fuzzFuncs) of None \<Rightarrow> fl_DefaultScheme lib | Some scheme \<Rightarrow> scheme)
      (in_FuzzerFuncs (TestFuzzyConversion fuzzFuncs))) s = Continue s' \<and> True"
    using spoke_subtest [OF assms(1,2,4)] by (simp add: test)
  show "\<exists>s'. hub_spoke_hub lib (conversion_methods equal equal_v2) (TestFuzzyConversion fuzzFuncs) (GetFuzzer lib
      (case in_Scheme (TestFuzzyConversion fuzzFuncs) of None \<Rightarrow> fl_DefaultScheme lib | Some scheme \<Rightarrow> scheme)
      (in_FuzzerFuncs (TestFuzzyConversion fuzzFuncs))) s = Continue s' \<and> True"
    using hub_subtest [OF assms(1,3,5)] by (simp add: test)
qed simp

section \<open>A concrete filler\<close>

definition example_raw :: Bundle where
  "example_raw = annotated_bundle\<lparr>bd_Spec := (bd_Spec annotated_bundle)\<lparr>spec_Target := (spec_Target (bd_Spec annotated_bundle))
     \<lparr>bt_NamespaceSelector := Some \<lparr>ls_MatchLabels = [], ls_MatchExpressions = []\<rparr>\<rparr>\<rparr>\<rparr>"

definition example_raw_v2 :: ClusterBundle where
  "example_raw_v2 = zero_ClusterBundle\<lparr>cb_Spec := (cb_Spec zero_ClusterBundle)\<lparr>spec2_InLineCAs := ''pem'',
     spec2_Target := \<lparr>bt2_ConfigMap = Some \<lparr>kvt_Data = [\<lparr>tkv_Key = ''ca.pem'', tkv_Format = ''x'', tkv_PKCS12 = no_PKCS12\<rparr>],
         kvt_Metadata = \<lparr>tm_Annotations = [], tm_Labels = []\<rparr>\<rparr>,
       bt2_Secret = None, bt2_NamespaceSelector = Some \<lparr>ls_MatchLabels = [], ls_MatchExpressions = []\<rparr>\<rparr>\<rparr>\<rparr>"

text \<open>The filler draws these two objects, and a kind and a provider from a counter.\<close>

definition drawing :: "Bundle \<Rightarrow> (nat, nat, unit, unit, unit, nat store) filler_lib" where
  "drawing raw = \<lparr>fl_DefaultScheme = (), fl_metafuzzer = (), fl_TimeFunc = \<lambda>f. (), fl_FuzzerFor = \<lambda>funcs scheme. (),
     fl_Fill_Hub = \<lambda>fzr. fill_ClusterBundle (\<lambda>n. ((example_raw_v2, even, even n), Suc n)),
     fl_Fill_Spoke = \<lambda>fzr. fill_Bundle (\<lambda>n. (raw, Suc n))\<rparr>"

lemma drawing_fills: "fills (\<lambda>n. (raw, Suc n)) (\<lambda>n. ((example_raw_v2, even, even n), Suc n)) () (drawing raw)"
  by (simp add: fills_def drawing_def Let_def)

lemma TestFuzzyConversion_passes_witness:
  "FuzzTestFunc (drawing example_raw) (conversion_methods same_Bundle same_ClusterBundle) (TestFuzzyConversion ()) (test_store 0) = Ok (True, True)"
proof (rule TestFuzzyConversion_passes [OF drawing_fills])
  show "plain_Bundle (fst (example_raw, Suc r))" for r
    by (simp add: plain_Bundle_def example_raw_def annotated_bundle_def example_bundle_def no_star_keys_def AnnotationKeyJKSKey_def)
  show "plain_ClusterBundle (fst (fst ((example_raw_v2, even, even r), Suc r)))" for r :: nat
    by (simp add: plain_ClusterBundle_def example_raw_v2_def zero_ClusterBundle_def zero_meta_def kv_targets_def)
qed

text \<open>
  The test cannot see that an annotation is lost: a Bundle that carries the internal annotation loses it on its
  way back, but the deletion shows in the Bundle that was drawn as well, and the round goes on.
\<close>

definition lossy_raw :: Bundle where
  "lossy_raw = zero_Bundle\<lparr>bd_Meta := zero_meta\<lparr>om_Annotations := Some [(AnnotationKeyJKSKey, ''ca.jks'')]\<rparr>\<rparr>"

lemma test_misses_lost_annotation:
  "(\<exists>s'. spoke_hub_spoke (drawing lossy_raw) (conversion_methods same_Bundle same_ClusterBundle) (TestFuzzyConversion ()) () s = Continue s') \<and>
   (\<exists>bd1 cb. ConvertFrom (fst (ConvertTo lossy_raw)) = Ok (bd1, cb) \<and> \<not> same_Bundle lossy_raw bd1)"
proof -
  have same: "fuzz_Bundle lossy_raw = lossy_raw"
    by (simp add: lossy_raw_def zero_Bundle_def fuzz_Bundle_def spokeBundleSpecFuzzer_def spokeBundleTargetFuzzer_def Let_def)
  have "\<exists>cb. ConvertFrom (fst (ConvertTo lossy_raw)) = Ok (zero_Bundle, cb) \<and> om_Annotations (cb_Meta cb) = Some []"
    by (simp add: lossy_raw_def zero_Bundle_def zero_meta_def ConvertTo_def convert_spec Convert_v1alpha1_BundleTarget_To_v1alpha2_BundleTarget_def
        autoConvert_v1alpha1_BundleTarget_To_v1alpha2_BundleTarget_def ConvertFrom_def Convert_v1alpha2_BundleSpec_To_v1alpha1_BundleSpec_def
        autoConvert_v1alpha2_BundleSpec_To_v1alpha1_BundleSpec_def Convert_v1alpha2_BundleTarget_To_v1alpha1_BundleTarget_def kvs_of_target_def
        autoConvert_v1alpha2_BundleTarget_To_v1alpha1_BundleTarget_def map_delete_def provider_of_def status_roundtrip Let_def)
  then obtain cb where from_: "ConvertFrom (fst (ConvertTo lossy_raw)) = Ok (zero_Bundle, cb)" and "om_Annotations (cb_Meta cb) = Some []" by blast
  then have seen: "same_Bundle (seen_after lossy_raw cb) zero_Bundle" "\<not> same_Bundle lossy_raw zero_Bundle"
    by (simp_all add: lossy_raw_def zero_Bundle_def zero_meta_def seen_after_def same_Bundle_def same_meta_def fun_eq_iff)
  have "\<exists>s'. spoke_hub_spoke (drawing lossy_raw) (conversion_methods same_Bundle same_ClusterBundle) (TestFuzzyConversion ())
      (GetFuzzer (drawing lossy_raw) (fl_DefaultScheme (drawing lossy_raw)) [()]) s = Continue s'"
    by (rule spoke_continues [OF drawing_fills]) (use from_ seen in \<open>auto simp: same\<close>)
  then show ?thesis using from_ seen(2) by auto
qed

end
