(* ===== verification/SsaClient.thy ===== *)
theory SsaClient
  imports TargetProperties
begin

text \<open>
  \<open>pkg/bundle/internal/ssa_client/patch.go\<close>: the patch type of server-side apply, and the managed fields that
  the tests give to targets. The path sets of structured-merge-diff are the parameter \<open>fieldpath_lib\<close>; the
  reader of the same JSON is the field \<open>rec_Fieldset\<close> of the reconciler.
\<close>

section \<open>Patches\<close>

record ApplyPatch =
  ap_Patch :: string

definition ApplyPatch_Data :: "ApplyPatch \<Rightarrow> 'object \<Rightarrow> gerr + string" where
  "ApplyPatch_Data p obj = Inr (ap_Patch p)"

definition ApplyPatch_Type :: "ApplyPatch \<Rightarrow> string" where
  \<comment> \<open>\<open>types.ApplyPatchType\<close>\<close>
  "ApplyPatch_Type p = ''application/apply-patch+yaml''"

section \<open>Managed fields\<close>

record 'set fieldpath_lib =
  fp_NewSet :: 'set
  fp_Insert :: "string list \<Rightarrow> 'set \<Rightarrow> 'set"
  fp_ToJSON :: "'set \<Rightarrow> gerr + string"

definition ManagedFieldEntries :: "'set fieldpath_lib \<Rightarrow> string list \<Rightarrow> string list \<Rightarrow> ManagedFieldsEntry list res" where
  "ManagedFieldEntries lib textFields dataFields =
     (let fieldset = fold (\<lambda>property. fp_Insert lib [''data'', property]) textFields (fp_NewSet lib);
          fieldset' = fold (\<lambda>property. fp_Insert lib [''binaryData'', property]) dataFields fieldset
      in case fp_ToJSON lib fieldset' of
           Inl err \<Rightarrow> Panic (error_text err)
         | Inr jsonFieldSet \<Rightarrow> Ok [\<lparr>mf_Manager = ''trust-manager'', mf_FieldsV1 = Some jsonFieldSet\<rparr>])"

text \<open>
  What the library documents: a set read back from its JSON has the paths that were inserted; the paths
  below a field come in the form \<open>.name\<close>.
\<close>

definition reads_fieldsets :: "'set fieldpath_lib \<Rightarrow> 'w Reconciler \<Rightarrow> bool" where
  "reads_fieldsets lib r \<longleftrightarrow>
     (\<forall>paths raw. fp_ToJSON lib (fold (fp_Insert lib) paths (fp_NewSet lib)) = Inr raw \<longrightarrow>
        (\<exists>fieldset. rec_Fieldset r raw = Inr fieldset \<and> (\<forall>f. set (fieldset f) = {CHR ''.'' # k |k. [f, k] \<in> set paths})))"

lemma fold_paths: "fold (\<lambda>property. ins [f, property]) props s = fold ins (map (\<lambda>property. [f, property]) props) s"
  by (simp add: fold_map comp_def)

lemma ManagedFieldEntries_read:
  assumes "reads_fieldsets lib r" and "ManagedFieldEntries lib textFields dataFields = Ok ms"
  shows "\<exists>raw fieldset. ms = [\<lparr>mf_Manager = FieldManager, mf_FieldsV1 = Some raw\<rparr>] \<and> rec_Fieldset r raw = Inr fieldset \<and>
    set (fieldset ''data'') = (#) CHR ''.'' ` set textFields \<and> set (fieldset ''binaryData'') = (#) CHR ''.'' ` set dataFields"
proof -
  let ?paths = "map (\<lambda>k. [''data'', k]) textFields @ map (\<lambda>k. [''binaryData'', k]) dataFields"
  from assms(2) obtain raw where raw: "fp_ToJSON lib (fold (fp_Insert lib) ?paths (fp_NewSet lib)) = Inr raw"
    and ms: "ms = [\<lparr>mf_Manager = ''trust-manager'', mf_FieldsV1 = Some raw\<rparr>]"
    by (auto simp: ManagedFieldEntries_def fold_paths Let_def split: sum.splits)
  from assms(1) raw obtain fieldset where "rec_Fieldset r raw = Inr fieldset"
    "\<And>f. set (fieldset f) = {CHR ''.'' # k |k. [f, k] \<in> set ?paths}" unfolding reads_fieldsets_def by blast
  with ms show ?thesis by (auto simp: FieldManager_def image_def)
qed

lemma trim_dotted: "trim_dot ` (#) CHR ''.'' ` K = K"
  by (force simp: trim_dot_def)

text \<open>
  The managed fields that \<open>ManagedFieldEntries\<close> writes are the ones that \<open>listManagedProperties\<close> reads: a
  target with the owner, label and hash of its Bundle, whose managed fields are these, needs an update
  exactly when the keys do not match the keys that the Bundle asks for. A ConfigMap counts the keys
  of data and binary data, a Secret those of data only.
\<close>

lemma ManagedFieldEntries_roundtrip:
  assumes "reads_fieldsets lib r" and "ManagedFieldEntries lib textFields dataFields = Ok ms"
    and "om_ManagedFields obj = ms" and "rec_IsControlledBy r obj (bd_Meta bd)"
    and "get_or_empty (om_Labels obj) BundleLabelKey = om_Name (bd_Meta bd)"
    and "get_or_empty (entries (om_Annotations obj)) BundleHashAnnotationKey = hash"
  shows "(bt_ConfigMap (spec_Target (bd_Spec bd)) = Some t \<longrightarrow> needsUpdate r KindConfigMap obj bd hash =
      Ok (set textFields \<union> set dataFields \<noteq> set (expected_properties (tt_Key t) (bt_AdditionalFormats (spec_Target (bd_Spec bd)))), None)) \<and>
    (bt_Secret (spec_Target (bd_Spec bd)) = Some t \<longrightarrow> needsUpdate r KindSecret obj bd hash =
      Ok (set textFields \<noteq> set (expected_properties (tt_Key t) (bt_AdditionalFormats (spec_Target (bd_Spec bd)))), None))"
proof -
  from ManagedFieldEntries_read [OF assms(1,2)] obtain raw fieldset where ms: "ms = [\<lparr>mf_Manager = FieldManager, mf_FieldsV1 = Some raw\<rparr>]"
    and read: "rec_Fieldset r raw = Inr fieldset"
      "set (fieldset ''data'') = (#) CHR ''.'' ` set textFields" "set (fieldset ''binaryData'') = (#) CHR ''.'' ` set dataFields"
    by (elim exE conjE)
  define ps where "ps fs = map trim_dot (concat (map fieldset fs))" for fs
  have listed: "listManagedProperties r (om_ManagedFields obj) FieldManager fs = Inr (ps fs)" for fs
    by (simp add: assms(3) ms read(1) ps_def)
  have keys: "set (ps [''data'', ''binaryData'']) = set textFields \<union> set dataFields" "set (ps [''data'']) = set textFields"
    unfolding ps_def by (simp_all add: image_Un read(2,3) trim_dotted)
  have fresh: "(\<not> rec_IsControlledBy r obj (bd_Meta bd) \<or> get_or_empty (om_Labels obj) BundleLabelKey \<noteq> om_Name (bd_Meta bd) \<or>
      get_or_empty (entries (om_Annotations obj)) BundleHashAnnotationKey \<noteq> hash) = False"
    using assms(4-6) by blast
  have kinds: "(KindConfigMap = KindConfigMap) = True" "(KindSecret = KindConfigMap) = False" "(KindSecret = KindSecret) = True"
    by (simp_all add: KindConfigMap_def KindSecret_def)
  show ?thesis
    by (simp only: needsUpdate_def Let_def listed fresh kinds if_True if_False sum.case keys simp_thms) simp
qed

section \<open>A library that fulfils the contract\<close>

text \<open>Path sets as lists, with a text form in which every character is quoted and every end is marked.\<close>

definition quote_element :: "string \<Rightarrow> string" where
  "quote_element e = concat (map (\<lambda>c. [CHR ''c'', c]) e) @ [CHR ''e'']"

definition quote_path :: "string list \<Rightarrow> string" where
  "quote_path p = concat (map quote_element p) @ [CHR ''p'']"

fun unquote :: "string \<Rightarrow> string \<Rightarrow> string list \<Rightarrow> string list list" where
  "unquote (a # b # r) e p =
     (if a = CHR ''c'' then unquote r (e @ [b]) p
      else if a = CHR ''e'' then unquote (b # r) [] (p @ [e])
      else p # unquote (b # r) [] [])"
| "unquote [a] e p = [p]"
| "unquote [] e p = []"

lemma unquote_chars: "unquote (concat (map (\<lambda>c. [CHR ''c'', c]) cs) @ r) e p = unquote r (e @ cs) p"
  by (induction cs arbitrary: e) simp_all

lemma unquote_elements: "r \<noteq> [] \<Longrightarrow> unquote (concat (map quote_element es) @ r) [] p = unquote r [] (p @ es)"
proof (induction es arbitrary: p)
  case (Cons x es)
  have "unquote (quote_element x @ t) [] p = unquote t [] (p @ [x])" if "t \<noteq> []" for t
    using that by (cases t) (simp_all add: quote_element_def unquote_chars)
  from this [of "concat (map quote_element es) @ r"] show ?case using Cons.IH [OF Cons.prems, of "p @ [x]"] Cons.prems by simp
qed simp

lemma unquote_quote: "unquote (concat (map quote_path ps)) [] [] = ps"
proof (induction ps)
  case (Cons p ps)
  have "unquote (quote_path p @ r) [] [] = p # unquote r [] []" for r
    by (cases r) (simp_all add: quote_path_def unquote_elements)
  with Cons show ?case by simp
qed simp

definition list_fieldpath :: "string list list fieldpath_lib" where
  "list_fieldpath = \<lparr>fp_NewSet = [], fp_Insert = (#), fp_ToJSON = \<lambda>ps. Inr (concat (map quote_path ps))\<rparr>"

definition fieldset_reader :: "string \<Rightarrow> gerr + (string \<Rightarrow> string list)" where
  "fieldset_reader raw = Inr (\<lambda>f. map (\<lambda>p. CHR ''.'' # p ! 1) (filter (\<lambda>p. length p = 2 \<and> p ! 0 = f) (unquote raw [] [])))"

lemma list_fieldpath_reads: "reads_fieldsets list_fieldpath (r\<lparr>rec_Fieldset := fieldset_reader\<rparr>)"
proof -
  have "fold (#) ps qs = rev ps @ qs" for ps qs :: "string list list" by (induction ps arbitrary: qs) simp_all
  moreover have "(length p = 2 \<and> p ! 0 = f) = (\<exists>k. p = [f, k])" for p and f :: string
    by (cases p rule: list.exhaust [of _ "length p = 2 \<and> p ! 0 = f \<longleftrightarrow> (\<exists>k. p = [f, k])"]) (auto simp: length_Suc_conv numeral_2_eq_2)
  ultimately show ?thesis
    by (auto simp: reads_fieldsets_def list_fieldpath_def fieldset_reader_def unquote_quote intro: rev_image_eqI)
qed

lemma ManagedFieldEntries_roundtrip_witness:
  "needsUpdate (example_reconciler\<lparr>rec_Fieldset := fieldset_reader\<rparr>) KindConfigMap
     ((example_object example_hash)\<lparr>om_ManagedFields := [\<lparr>mf_Manager = ''trust-manager'', mf_FieldsV1 = Some (concat (map quote_path [[''data'', ''ca.crt'']]))\<rparr>]\<rparr>)
     example_bundle example_hash = Ok (True, None)"
proof -
  let ?obj = "(example_object example_hash)\<lparr>om_ManagedFields := [\<lparr>mf_Manager = ''trust-manager'', mf_FieldsV1 = Some (concat (map quote_path [[''data'', ''ca.crt'']]))\<rparr>]\<rparr>"
  have "ManagedFieldEntries list_fieldpath [''ca.crt''] [] = Ok (om_ManagedFields ?obj)"
    by (simp add: ManagedFieldEntries_def list_fieldpath_def)
  from ManagedFieldEntries_roundtrip [OF list_fieldpath_reads this refl, of example_reconciler example_bundle example_hash example_template]
  show ?thesis
    by (simp add: example_reconciler_def example_object_def example_bundle_def example_template_def example_formats_def expected_properties_def get_or_empty_def)
qed

end
