(* ===== verification/NegativeSerial.thy ===== *)
theory NegativeSerial
  imports Sha256Bits PoolTheorems
begin

text \<open>
  \<open>pkg/compat/negative_serial_number.go\<close>: the certificate of the first default CA package that newer versions of Go
  do not parse. The code compares digests only; that the digest it names is the one of the certificate
  it quotes is shown here, by evaluation of \<open>pem.Decode\<close> and SHA-256 on the quoted text.
\<close>

section \<open>The certificate\<close>

definition negativeSerialNumberCAPEM :: string where
  "negativeSerialNumberCAPEM =
     ''-----BEGIN CERTIFICATE-----''
     @ [nl] @ ''MIIFVjCCBD6gAwIBAgIQ7is969Qh3hSoYqwE893EATANBgkqhkiG9w0BAQUFADCB''
     @ [nl] @ ''8zELMAkGA1UEBhMCRVMxOzA5BgNVBAoTMkFnZW5jaWEgQ2F0YWxhbmEgZGUgQ2Vy''
     @ [nl] @ ''dGlmaWNhY2lvIChOSUYgUS0wODAxMTc2LUkpMSgwJgYDVQQLEx9TZXJ2ZWlzIFB1''
     @ [nl] @ ''YmxpY3MgZGUgQ2VydGlmaWNhY2lvMTUwMwYDVQQLEyxWZWdldSBodHRwczovL3d3''
     @ [nl] @ ''dy5jYXRjZXJ0Lm5ldC92ZXJhcnJlbCAoYykwMzE1MDMGA1UECxMsSmVyYXJxdWlh''
     @ [nl] @ ''IEVudGl0YXRzIGRlIENlcnRpZmljYWNpbyBDYXRhbGFuZXMxDzANBgNVBAMTBkVD''
     @ [nl] @ ''LUFDQzAeFw0wMzAxMDcyMzAwMDBaFw0zMTAxMDcyMjU5NTlaMIHzMQswCQYDVQQG''
     @ [nl] @ ''EwJFUzE7MDkGA1UEChMyQWdlbmNpYSBDYXRhbGFuYSBkZSBDZXJ0aWZpY2FjaW8g''
     @ [nl] @ ''KE5JRiBRLTA4MDExNzYtSSkxKDAmBgNVBAsTH1NlcnZlaXMgUHVibGljcyBkZSBD''
     @ [nl] @ ''ZXJ0aWZpY2FjaW8xNTAzBgNVBAsTLFZlZ2V1IGh0dHBzOi8vd3d3LmNhdGNlcnQu''
     @ [nl] @ ''bmV0L3ZlcmFycmVsIChjKTAzMTUwMwYDVQQLEyxKZXJhcnF1aWEgRW50aXRhdHMg''
     @ [nl] @ ''ZGUgQ2VydGlmaWNhY2lvIENhdGFsYW5lczEPMA0GA1UEAxMGRUMtQUNDMIIBIjAN''
     @ [nl] @ ''BgkqhkiG9w0BAQEFAAOCAQ8AMIIBCgKCAQEAsyLHT+KXQpWIR4NA9h0X84NzJB5R''
     @ [nl] @ ''85iKw5K4/0CQBXCHYMkAqbWUZRkiFRfCQ2xmRJoNBD45b6VLeqpjt4pEndljkYRm''
     @ [nl] @ ''4CgPukLjbo73FCeTae6RDqNfDrHrZqJyTxIThmV6PttPB/SnCWDaOkKZx7J/sxaV''
     @ [nl] @ ''HMf5NLWUhdWZXqBIoH7nF2W4onW4HvPlQn2v7fOKSGRdghST2MDk/7NQcvJ29rNd''
     @ [nl] @ ''QlB50JQ+awwAvthrDk4q7D7SzIKiGGUzE3eeml0aE9jD2z3Il3rucO2n5nzbcc8t''
     @ [nl] @ ''lGLfbdb1OL4/pYUKGbio2Al1QnDE6u/LDsg0qBIimAy4E5S2S+zw0JDnJwIDAQAB''
     @ [nl] @ ''o4HjMIHgMB0GA1UdEQQWMBSBEmVjX2FjY0BjYXRjZXJ0Lm5ldDAPBgNVHRMBAf8E''
     @ [nl] @ ''BTADAQH/MA4GA1UdDwEB/wQEAwIBBjAdBgNVHQ4EFgQUoMOLRKo3pUW/l4Ba0fF4''
     @ [nl] @ ''opvpXY0wfwYDVR0gBHgwdjB0BgsrBgEEAfV4AQMBCjBlMCwGCCsGAQUFBwIBFiBo''
     @ [nl] @ ''dHRwczovL3d3dy5jYXRjZXJ0Lm5ldC92ZXJhcnJlbDA1BggrBgEFBQcCAjApGidW''
     @ [nl] @ ''ZWdldSBodHRwczovL3d3dy5jYXRjZXJ0Lm5ldC92ZXJhcnJlbCAwDQYJKoZIhvcN''
     @ [nl] @ ''AQEFBQADggEBAKBIW4IB9k1IuDlVNZyAelOZ1Vr/sXE7zDkJlF7W2u++AVtd0x7Y''
     @ [nl] @ ''/X1PzaBB4DSTv8vihpw3kpBWHNzrKQXlxJ7HNd+KDM3FIUPpqojlNcAZQmNaAl6k''
     @ [nl] @ ''SBg6hW/cnbw/nZzBh7h6YQjpdwt/cKt63dmXLGQehb+8dJahw3oS7AwaboMMPOhy''
     @ [nl] @ ''Rp/7SNVel+axofjk70YllJyJ22k4vuxcDlbHZVHlUIiIv0LVKz3l+bqeLrPK9HOS''
     @ [nl] @ ''Agu+TGbrIP65y7WZf+a2E/rKS03Z7lNGBjvGTq2TWoF+bCpLagVFjPIhpDGQh2xl''
     @ [nl] @ ''nJ2lYJU6Un/10asIbvPuW/mIPX64b24D5EI=''
     @ [nl] @ ''-----END CERTIFICATE-----''"

text \<open>Its DER bytes, in lines of 64 bytes and a shorter last line.\<close>

definition negativeSerialNumberCA_lines :: "string list" where
  "negativeSerialNumberCA_lines =
     [''308205563082043ea0030201020210ee2b3debd421de14a862ac04f3ddc401300d06092a864886f70d01010505003081f3310b3009060355040613024553313b'',
      ''3039060355040a13324167656e63696120436174616c616e612064652043657274696669636163696f20284e494620512d303830313137362d49293128302606'',
      ''0355040b131f53657276656973205075626c6963732064652043657274696669636163696f31353033060355040b132c56656765752068747470733a2f2f7777'',
      ''772e636174636572742e6e65742f766572617272656c20286329303331353033060355040b132c4a657261727175696120456e74697461747320646520436572'',
      ''74696669636163696f20436174616c616e6573310f300d0603550403130645432d414343301e170d3033303130373233303030305a170d333130313037323235'',
      ''3935395a3081f3310b3009060355040613024553313b3039060355040a13324167656e63696120436174616c616e612064652043657274696669636163696f20'',
      ''284e494620512d303830313137362d492931283026060355040b131f53657276656973205075626c6963732064652043657274696669636163696f3135303306'',
      ''0355040b132c56656765752068747470733a2f2f7777772e636174636572742e6e65742f766572617272656c20286329303331353033060355040b132c4a6572'',
      ''61727175696120456e7469746174732064652043657274696669636163696f20436174616c616e6573310f300d0603550403130645432d41434330820122300d'',
      ''06092a864886f70d01010105000382010f003082010a0282010100b322c74fe297429588478340f61d17f38373241e51f3988ac392b8ff409005708760c900a9'',
      ''b5946519221517c2436c66449a0d043e396fa54b7aaa63b78a449dd963918466e0280fba42e36e8ef714279369ee910ea35f0eb1eb66a2724f121386657a3edb'',
      ''4f07f4a70960da3a4299c7b27fb316951cc7f934b59485d5995ea048a07ee71765b8a275b81ef3e5427dafedf38a48645d821493d8c0e4ffb35072f276f6b35d'',
      ''425079d0943e6b0c00bed86b0e4e2aec3ed2cc82a218653313779e9a5d1a13d8c3db3dc8977aee70eda7e67cdb71cf2d9462df6dd6f538be3fa5850a19b8a8d8'',
      ''09754270c4eaefcb0ec834a81222980cb81394b64becf0d090e7270203010001a381e33081e0301d0603551d1104163014811265635f61636340636174636572'',
      ''742e6e6574300f0603551d130101ff040530030101ff300e0603551d0f0101ff040403020106301d0603551d0e04160414a0c38b44aa37a545bf97805ad1f178'',
      ''a29be95d8d307f0603551d20047830763074060b2b06010401f5780103010a3065302c06082b06010505070201162068747470733a2f2f7777772e6361746365'',
      ''72742e6e65742f766572617272656c303506082b0601050507020230291a2756656765752068747470733a2f2f7777772e636174636572742e6e65742f766572'',
      ''617272656c20300d06092a864886f70d01010505000382010100a0485b8201f64d48b83955359c807a5399d55affb1713bcc3909945ed6daefbe015b5dd31ed8'',
      ''fd7d4fcda041e03493bfcbe2869c379290561cdceb2905e5c49ec735df8a0ccdc52143e9aa88e535c01942635a025ea448183a856fdc9dbc3f9d9cc187b87a61'',
      ''08e9770b7f70ab7addd9972c641e85bfbc7496a1c37a12ec0c1a6e830c3ce872469ffb48d55e97e6b1a1f8e4ef4625949c89db6938beec5c0e56c76551e55088'',
      ''88bf42d52b3de5f9ba9e2eb3caf47392020bbe4c66eb20feb9cbb5997fe6b613faca4b4dd9ee5346063bc64ead935a817e6c2a4b6a05458cf221a43190876c65'']"

definition negativeSerialNumberCA_end :: string where
  "negativeSerialNumberCA_end = ''9c9da560953a527ff5d1ab086ef3ee5bf9883d7eb86f6e03e442''"

definition negativeSerialNumberCA :: string where
  "negativeSerialNumberCA = unhex (concat negativeSerialNumberCA_lines @ negativeSerialNumberCA_end)"

section \<open>The digest\<close>

lemma digest_steps:
  "sha_block (hex_words ''308205563082043ea0030201020210ee2b3debd421de14a862ac04f3ddc401300d06092a864886f70d01010505003081f3310b3009060355040613024553313b'')
     (hex_state ''6a09e667bb67ae853c6ef372a54ff53a510e527f9b05688c1f83d9ab5be0cd19'') =
     hex_state ''f2ef645784a9212e3bf27b52ebdcbb67873e851a06eb210408fcfe38d7e874f6''"
  "sha_block (hex_words ''3039060355040a13324167656e63696120436174616c616e612064652043657274696669636163696f20284e494620512d303830313137362d49293128302606'')
     (hex_state ''f2ef645784a9212e3bf27b52ebdcbb67873e851a06eb210408fcfe38d7e874f6'') =
     hex_state ''480477c756bcec6df57c6b370eb4391730be57301b517961e509b7efdbb07e43''"
  "sha_block (hex_words ''0355040b131f53657276656973205075626c6963732064652043657274696669636163696f31353033060355040b132c56656765752068747470733a2f2f7777'')
     (hex_state ''480477c756bcec6df57c6b370eb4391730be57301b517961e509b7efdbb07e43'') =
     hex_state ''e1742d25cf31bfedd12f087c6cfc427d82e795cd08afea236eafb11c07a61a38''"
  "sha_block (hex_words ''772e636174636572742e6e65742f766572617272656c20286329303331353033060355040b132c4a657261727175696120456e74697461747320646520436572'')
     (hex_state ''e1742d25cf31bfedd12f087c6cfc427d82e795cd08afea236eafb11c07a61a38'') =
     hex_state ''8f987e9dbe7d1558978f90da8365271f8846dc555f89feffb8a523644e229aa8''"
  "sha_block (hex_words ''74696669636163696f20436174616c616e6573310f300d0603550403130645432d414343301e170d3033303130373233303030305a170d333130313037323235'')
     (hex_state ''8f987e9dbe7d1558978f90da8365271f8846dc555f89feffb8a523644e229aa8'') =
     hex_state ''6e14d3911739e6c44a21be45e709f8ad915fafc0530a85d9373b14ad1588ac68''"
  "sha_block (hex_words ''3935395a3081f3310b3009060355040613024553313b3039060355040a13324167656e63696120436174616c616e612064652043657274696669636163696f20'')
     (hex_state ''6e14d3911739e6c44a21be45e709f8ad915fafc0530a85d9373b14ad1588ac68'') =
     hex_state ''44df9c4eb50f1eeac53e020a8b7492d5e6581b5acbe8ae1f00ef0597d51b034a''"
  "sha_block (hex_words ''284e494620512d303830313137362d492931283026060355040b131f53657276656973205075626c6963732064652043657274696669636163696f3135303306'')
     (hex_state ''44df9c4eb50f1eeac53e020a8b7492d5e6581b5acbe8ae1f00ef0597d51b034a'') =
     hex_state ''c76acaf218f96e7856e74d6dca81b125de2f3dfcf3302e3ca5bed317c36c26fd''"
  "sha_block (hex_words ''0355040b132c56656765752068747470733a2f2f7777772e636174636572742e6e65742f766572617272656c20286329303331353033060355040b132c4a6572'')
     (hex_state ''c76acaf218f96e7856e74d6dca81b125de2f3dfcf3302e3ca5bed317c36c26fd'') =
     hex_state ''3a8a23f8b541c107d1fa5cdfbb054835d6d65f8aea90aa2f6606d778513c022c''"
  "sha_block (hex_words ''61727175696120456e7469746174732064652043657274696669636163696f20436174616c616e6573310f300d0603550403130645432d41434330820122300d'')
     (hex_state ''3a8a23f8b541c107d1fa5cdfbb054835d6d65f8aea90aa2f6606d778513c022c'') =
     hex_state ''6fadb44340d113a274025bcb308eb3a16b0c21f440da441be2548aaa90a83961''"
  "sha_block (hex_words ''06092a864886f70d01010105000382010f003082010a0282010100b322c74fe297429588478340f61d17f38373241e51f3988ac392b8ff409005708760c900a9'')
     (hex_state ''6fadb44340d113a274025bcb308eb3a16b0c21f440da441be2548aaa90a83961'') =
     hex_state ''0a917787b2a029bb7bf5f835b96879966b5a0eac57357f28b1b852b2af0acad7''"
  "sha_block (hex_words ''b5946519221517c2436c66449a0d043e396fa54b7aaa63b78a449dd963918466e0280fba42e36e8ef714279369ee910ea35f0eb1eb66a2724f121386657a3edb'')
     (hex_state ''0a917787b2a029bb7bf5f835b96879966b5a0eac57357f28b1b852b2af0acad7'') =
     hex_state ''5b449aee0bb6238bfbc727ca935e6907e1dc51becf15487c56b898d308aa5745''"
  "sha_block (hex_words ''4f07f4a70960da3a4299c7b27fb316951cc7f934b59485d5995ea048a07ee71765b8a275b81ef3e5427dafedf38a48645d821493d8c0e4ffb35072f276f6b35d'')
     (hex_state ''5b449aee0bb6238bfbc727ca935e6907e1dc51becf15487c56b898d308aa5745'') =
     hex_state ''8d99b32cebc6f709f504a923c79304a0778e25de68c009dde5be05f34c944a4a''"
  "sha_block (hex_words ''425079d0943e6b0c00bed86b0e4e2aec3ed2cc82a218653313779e9a5d1a13d8c3db3dc8977aee70eda7e67cdb71cf2d9462df6dd6f538be3fa5850a19b8a8d8'')
     (hex_state ''8d99b32cebc6f709f504a923c79304a0778e25de68c009dde5be05f34c944a4a'') =
     hex_state ''2b39b696dd060852b6f56de759ce091be256ea19aa272a9cfccff19a148146ce''"
  "sha_block (hex_words ''09754270c4eaefcb0ec834a81222980cb81394b64becf0d090e7270203010001a381e33081e0301d0603551d1104163014811265635f61636340636174636572'')
     (hex_state ''2b39b696dd060852b6f56de759ce091be256ea19aa272a9cfccff19a148146ce'') =
     hex_state ''9d52e4210a6838ce581c6e0c8d7c2787bc3ad7d21c03943df057720c5abc42d4''"
  "sha_block (hex_words ''742e6e6574300f0603551d130101ff040530030101ff300e0603551d0f0101ff040403020106301d0603551d0e04160414a0c38b44aa37a545bf97805ad1f178'')
     (hex_state ''9d52e4210a6838ce581c6e0c8d7c2787bc3ad7d21c03943df057720c5abc42d4'') =
     hex_state ''d9bd5bcaa93f6cefb5492d19f9387f4cf6e1053160e7edb7a4d14e82cbe20e1e''"
  "sha_block (hex_words ''a29be95d8d307f0603551d20047830763074060b2b06010401f5780103010a3065302c06082b06010505070201162068747470733a2f2f7777772e6361746365'')
     (hex_state ''d9bd5bcaa93f6cefb5492d19f9387f4cf6e1053160e7edb7a4d14e82cbe20e1e'') =
     hex_state ''008fa1c5410b0616a3a2f15327cc4134d7092e8ce730ee93328eb04f9c6b169e''"
  "sha_block (hex_words ''72742e6e65742f766572617272656c303506082b0601050507020230291a2756656765752068747470733a2f2f7777772e636174636572742e6e65742f766572'')
     (hex_state ''008fa1c5410b0616a3a2f15327cc4134d7092e8ce730ee93328eb04f9c6b169e'') =
     hex_state ''743bddb6ba1079666562778c47f9ed1ff5d79a906b4d7aa0323682c6874e42ba''"
  "sha_block (hex_words ''617272656c20300d06092a864886f70d01010505000382010100a0485b8201f64d48b83955359c807a5399d55affb1713bcc3909945ed6daefbe015b5dd31ed8'')
     (hex_state ''743bddb6ba1079666562778c47f9ed1ff5d79a906b4d7aa0323682c6874e42ba'') =
     hex_state ''9012f112866ecdef0d56a68bfe47ec64860035e1bde56c9bcb3d4c21be1ef3c9''"
  "sha_block (hex_words ''fd7d4fcda041e03493bfcbe2869c379290561cdceb2905e5c49ec735df8a0ccdc52143e9aa88e535c01942635a025ea448183a856fdc9dbc3f9d9cc187b87a61'')
     (hex_state ''9012f112866ecdef0d56a68bfe47ec64860035e1bde56c9bcb3d4c21be1ef3c9'') =
     hex_state ''92f40e989093ed9d479051cfc136db7868ff0781caf9aad0e231a4a928549478''"
  "sha_block (hex_words ''08e9770b7f70ab7addd9972c641e85bfbc7496a1c37a12ec0c1a6e830c3ce872469ffb48d55e97e6b1a1f8e4ef4625949c89db6938beec5c0e56c76551e55088'')
     (hex_state ''92f40e989093ed9d479051cfc136db7868ff0781caf9aad0e231a4a928549478'') =
     hex_state ''363e008c5819e4746aa00e5c35fc0a3669556166f74cef5972dda8f98e9d5fd7''"
  "sha_block (hex_words ''88bf42d52b3de5f9ba9e2eb3caf47392020bbe4c66eb20feb9cbb5997fe6b613faca4b4dd9ee5346063bc64ead935a817e6c2a4b6a05458cf221a43190876c65'')
     (hex_state ''363e008c5819e4746aa00e5c35fc0a3669556166f74cef5972dda8f98e9d5fd7'') =
     hex_state ''d1f67c0cbcff353dd075f75b6a77d5d66a5355ae6cf6e8ed738c35acb5f106ab''"
  "sha_block (hex_words ''9c9da560953a527ff5d1ab086ef3ee5bf9883d7eb86f6e03e4428000000000000000000000000000000000000000000000000000000000000000000000002ad0'')
     (hex_state ''d1f67c0cbcff353dd075f75b6a77d5d66a5355ae6cf6e8ed738c35acb5f106ab'') =
     hex_state ''88497f01602f3154246ae28c4d5aef10f1d87ebb76626f4ae0b7f95ba7968799''"
  by (simp_all only: sha_block_bits)

lemma full_lines: "list_all (\<lambda>b. length b = 128) negativeSerialNumberCA_lines" "length negativeSerialNumberCA_lines = 21"
  by (simp_all add: negativeSerialNumberCA_lines_def)

lemma length_full: "list_all (\<lambda>b. length b = n) bs \<Longrightarrow> length (concat bs) = n * length bs"
  by (induction bs) simp_all

lemma length_DER: "length (concat negativeSerialNumberCA_lines @ negativeSerialNumberCA_end) = 2740"
  by (simp add: length_full [OF full_lines(1)] full_lines(2)) (simp add: negativeSerialNumberCA_end_def)

definition padded_lines :: "string list" where
  "padded_lines = negativeSerialNumberCA_lines @ [negativeSerialNumberCA_end @ ''8000000000000000000000000000000000000000000000000000000000000000000000002ad0'']"

lemma padded_concat: "concat padded_lines = (concat negativeSerialNumberCA_lines @ negativeSerialNumberCA_end) @ ''8000000000000000000000000000000000000000000000000000000000000000000000002ad0''"
  by (simp only: padded_lines_def concat_append concat.simps append_assoc append_Nil2)

lemma padded: "sha_pad negativeSerialNumberCA = unhex (concat padded_lines)"
proof -
  let ?tail = "char_of (128 :: int) # replicate 29 (char_of (0 :: int)) @ map (\<lambda>k. char_of (drop_bit k (10960 :: int))) [56, 48, 40, 32, 24, 16, 8, 0]"
  have tail: "?tail = unhex ''8000000000000000000000000000000000000000000000000000000000000000000000002ad0''" by code_simp
  have "length negativeSerialNumberCA = 1370" by (simp only: negativeSerialNumberCA_def length_unhex length_DER)
  then have "sha_pad negativeSerialNumberCA = negativeSerialNumberCA @ ?tail" by (simp add: sha_pad_def)
  also have "\<dots> = unhex (concat padded_lines)"
    unfolding tail padded_concat negativeSerialNumberCA_def by (rule unhex_append [symmetric]) (simp only: length_DER, simp)
  finally show ?thesis .
qed

lemma negativeSerialNumberCA_digest:
  "hex_EncodeToString (Sum256 negativeSerialNumberCA) = negativeSerialNumberCAFingerprint"
proof -
  have blocks: "list_all (\<lambda>b. length b = 128) padded_lines"
    by (simp add: padded_lines_def full_lines) (simp add: negativeSerialNumberCA_end_def)
  have "fold (\<lambda>b. sha_block (hex_words b)) padded_lines sha_init = hex_state negativeSerialNumberCAFingerprint"
    by (simp only: padded_lines_def negativeSerialNumberCA_lines_def negativeSerialNumberCA_end_def append.simps fold_simps sha_init_bits
        digest_steps negativeSerialNumberCAFingerprint_def)
  then have sum: "Sum256 negativeSerialNumberCA =
      (case hex_state negativeSerialNumberCAFingerprint of (a, b, c, d, e, f, g, h) \<Rightarrow> concat (map bytes_of_word [a, b, c, d, e, f, g, h]))"
    by (simp only: Sum256_def padded words_of_hex sha_blocks_hex [OF blocks])
  have "\<dots> = concat (map bytes_of_word (hex_words negativeSerialNumberCAFingerprint))"
    by (simp add: hex_state_def negativeSerialNumberCAFingerprint_def)
  also have "\<dots> = unhex negativeSerialNumberCAFingerprint"
    by (rule bytes_of_hex) (simp add: negativeSerialNumberCAFingerprint_def)
  finally show ?thesis unfolding sum by (simp only:) code_simp
qed

section \<open>The PEM text\<close>

definition sextet :: "bool \<Rightarrow> bool \<Rightarrow> bool \<Rightarrow> bool \<Rightarrow> bool \<Rightarrow> bool \<Rightarrow> char" where
  "sextet b0 b1 b2 b3 b4 b5 = b64_char (horner_sum of_bool 2 [b0, b1, b2, b3, b4, b5])"

lemma sextet_bits:
  "sextet False False False False False False = CHR ''A''"
  "sextet True False False False False False = CHR ''B''"
  "sextet False True False False False False = CHR ''C''"
  "sextet True True False False False False = CHR ''D''"
  "sextet False False True False False False = CHR ''E''"
  "sextet True False True False False False = CHR ''F''"
  "sextet False True True False False False = CHR ''G''"
  "sextet True True True False False False = CHR ''H''"
  "sextet False False False True False False = CHR ''I''"
  "sextet True False False True False False = CHR ''J''"
  "sextet False True False True False False = CHR ''K''"
  "sextet True True False True False False = CHR ''L''"
  "sextet False False True True False False = CHR ''M''"
  "sextet True False True True False False = CHR ''N''"
  "sextet False True True True False False = CHR ''O''"
  "sextet True True True True False False = CHR ''P''"
  "sextet False False False False True False = CHR ''Q''"
  "sextet True False False False True False = CHR ''R''"
  "sextet False True False False True False = CHR ''S''"
  "sextet True True False False True False = CHR ''T''"
  "sextet False False True False True False = CHR ''U''"
  "sextet True False True False True False = CHR ''V''"
  "sextet False True True False True False = CHR ''W''"
  "sextet True True True False True False = CHR ''X''"
  "sextet False False False True True False = CHR ''Y''"
  "sextet True False False True True False = CHR ''Z''"
  "sextet False True False True True False = CHR ''a''"
  "sextet True True False True True False = CHR ''b''"
  "sextet False False True True True False = CHR ''c''"
  "sextet True False True True True False = CHR ''d''"
  "sextet False True True True True False = CHR ''e''"
  "sextet True True True True True False = CHR ''f''"
  "sextet False False False False False True = CHR ''g''"
  "sextet True False False False False True = CHR ''h''"
  "sextet False True False False False True = CHR ''i''"
  "sextet True True False False False True = CHR ''j''"
  "sextet False False True False False True = CHR ''k''"
  "sextet True False True False False True = CHR ''l''"
  "sextet False True True False False True = CHR ''m''"
  "sextet True True True False False True = CHR ''n''"
  "sextet False False False True False True = CHR ''o''"
  "sextet True False False True False True = CHR ''p''"
  "sextet False True False True False True = CHR ''q''"
  "sextet True True False True False True = CHR ''r''"
  "sextet False False True True False True = CHR ''s''"
  "sextet True False True True False True = CHR ''t''"
  "sextet False True True True False True = CHR ''u''"
  "sextet True True True True False True = CHR ''v''"
  "sextet False False False False True True = CHR ''w''"
  "sextet True False False False True True = CHR ''x''"
  "sextet False True False False True True = CHR ''y''"
  "sextet True True False False True True = CHR ''z''"
  "sextet False False True False True True = CHR ''0''"
  "sextet True False True False True True = CHR ''1''"
  "sextet False True True False True True = CHR ''2''"
  "sextet True True True False True True = CHR ''3''"
  "sextet False False False True True True = CHR ''4''"
  "sextet True False False True True True = CHR ''5''"
  "sextet False True False True True True = CHR ''6''"
  "sextet True True False True True True = CHR ''7''"
  "sextet False False True True True True = CHR ''8''"
  "sextet True False True True True True = CHR ''9''"
  "sextet False True True True True True = CHR ''+''"
  "sextet True True True True True True = CHR ''/''"
  by (simp_all add: sextet_def b64_char_def char_of_def bit_0)

abbreviation num_of :: "bool list \<Rightarrow> nat" where
  "num_of \<equiv> horner_sum of_bool 2"

lemma num_of_append: "num_of (xs @ ys) = num_of xs + 2 ^ length xs * num_of ys"
  by (simp add: horner_sum_append)

lemma num_of_split: "num_of (xs @ ys) div 2 ^ length xs = num_of ys" "num_of (xs @ ys) mod 2 ^ length xs = num_of xs"
  using horner_sum_of_bool_2_less [of xs, where ?'a = nat] by (simp_all add: num_of_append)

lemma split_char:
  fixes x :: nat
  assumes "x = of_char (Char a0 a1 a2 a3 a4 a5 a6 a7)"
  shows "x div 4 = num_of [a2, a3, a4, a5, a6, a7]" "x mod 4 = num_of [a0, a1]"
    and "x div 16 = num_of [a4, a5, a6, a7]" "x mod 16 = num_of [a0, a1, a2, a3]"
    and "x div 64 = num_of [a6, a7]" "x mod 64 = num_of [a0, a1, a2, a3, a4, a5]"
proof -
  have x: "x = num_of [a0, a1, a2, a3, a4, a5, a6, a7]" by (simp add: assms of_char_Char)
  show "x div 4 = num_of [a2, a3, a4, a5, a6, a7]" "x mod 4 = num_of [a0, a1]"
    using num_of_split [of "[a0, a1]" "[a2, a3, a4, a5, a6, a7]"] unfolding x by (simp_all del: horner_sum_simps)
  show "x div 16 = num_of [a4, a5, a6, a7]" "x mod 16 = num_of [a0, a1, a2, a3]"
    using num_of_split [of "[a0, a1, a2, a3]" "[a4, a5, a6, a7]"] unfolding x by (simp_all del: horner_sum_simps)
  show "x div 64 = num_of [a6, a7]" "x mod 64 = num_of [a0, a1, a2, a3, a4, a5]"
    using num_of_split [of "[a0, a1, a2, a3, a4, a5]" "[a6, a7]"] unfolding x by (simp_all del: horner_sum_simps)
qed

lemma join_sextet:
  "b64_char (num_of [a0, a1, a2, a3, a4, a5]) = sextet a0 a1 a2 a3 a4 a5"
  "b64_char (num_of [a0, a1] * 16 + num_of [b4, b5, b6, b7]) = sextet b4 b5 b6 b7 a0 a1"
  "b64_char (num_of [b0, b1, b2, b3] * 4 + num_of [c6, c7]) = sextet c6 c7 b0 b1 b2 b3"
  "b64_char (num_of [b0, b1, b2, b3] * 4) = sextet False False b0 b1 b2 b3"
  by (simp_all add: sextet_def algebra_simps)

lemma b64_bits:
  "b64_encode (Char a0 a1 a2 a3 a4 a5 a6 a7 # Char b0 b1 b2 b3 b4 b5 b6 b7 # Char c0 c1 c2 c3 c4 c5 c6 c7 # r) =
     sextet a2 a3 a4 a5 a6 a7 # sextet b4 b5 b6 b7 a0 a1 # sextet c6 c7 b0 b1 b2 b3 # sextet c0 c1 c2 c3 c4 c5 # b64_encode r"
  "b64_encode [Char a0 a1 a2 a3 a4 a5 a6 a7, Char b0 b1 b2 b3 b4 b5 b6 b7] =
     [sextet a2 a3 a4 a5 a6 a7, sextet b4 b5 b6 b7 a0 a1, sextet False False b0 b1 b2 b3, pad_char]"
  by (simp_all only: b64_encode.simps Let_def split_char [OF refl] join_sextet append.simps)

lemma wrap_full:
  assumes "list_all (\<lambda>l. length l = 64) ls"
  shows "wrap_lines (concat ls @ r) = concat (map (\<lambda>l. l @ [nl]) ls) @ wrap_lines r"
  using assms
proof (induction ls)
  case (Cons l ls)
  then show ?case by (subst wrap_lines.simps) auto
qed simp

lemma wrap_last: "l \<noteq> [] \<Longrightarrow> length l \<le> 64 \<Longrightarrow> wrap_lines l = l @ [nl]"
  by (subst wrap_lines.simps) (simp add: wrap_lines.simps)

definition text_lines :: "string list" where
  "text_lines =
     [''MIIFVjCCBD6gAwIBAgIQ7is969Qh3hSoYqwE893EATANBgkqhkiG9w0BAQUFADCB'',
      ''8zELMAkGA1UEBhMCRVMxOzA5BgNVBAoTMkFnZW5jaWEgQ2F0YWxhbmEgZGUgQ2Vy'',
      ''dGlmaWNhY2lvIChOSUYgUS0wODAxMTc2LUkpMSgwJgYDVQQLEx9TZXJ2ZWlzIFB1'',
      ''YmxpY3MgZGUgQ2VydGlmaWNhY2lvMTUwMwYDVQQLEyxWZWdldSBodHRwczovL3d3'',
      ''dy5jYXRjZXJ0Lm5ldC92ZXJhcnJlbCAoYykwMzE1MDMGA1UECxMsSmVyYXJxdWlh'',
      ''IEVudGl0YXRzIGRlIENlcnRpZmljYWNpbyBDYXRhbGFuZXMxDzANBgNVBAMTBkVD'',
      ''LUFDQzAeFw0wMzAxMDcyMzAwMDBaFw0zMTAxMDcyMjU5NTlaMIHzMQswCQYDVQQG'',
      ''EwJFUzE7MDkGA1UEChMyQWdlbmNpYSBDYXRhbGFuYSBkZSBDZXJ0aWZpY2FjaW8g'',
      ''KE5JRiBRLTA4MDExNzYtSSkxKDAmBgNVBAsTH1NlcnZlaXMgUHVibGljcyBkZSBD'',
      ''ZXJ0aWZpY2FjaW8xNTAzBgNVBAsTLFZlZ2V1IGh0dHBzOi8vd3d3LmNhdGNlcnQu'',
      ''bmV0L3ZlcmFycmVsIChjKTAzMTUwMwYDVQQLEyxKZXJhcnF1aWEgRW50aXRhdHMg'',
      ''ZGUgQ2VydGlmaWNhY2lvIENhdGFsYW5lczEPMA0GA1UEAxMGRUMtQUNDMIIBIjAN'',
      ''BgkqhkiG9w0BAQEFAAOCAQ8AMIIBCgKCAQEAsyLHT+KXQpWIR4NA9h0X84NzJB5R'',
      ''85iKw5K4/0CQBXCHYMkAqbWUZRkiFRfCQ2xmRJoNBD45b6VLeqpjt4pEndljkYRm'',
      ''4CgPukLjbo73FCeTae6RDqNfDrHrZqJyTxIThmV6PttPB/SnCWDaOkKZx7J/sxaV'',
      ''HMf5NLWUhdWZXqBIoH7nF2W4onW4HvPlQn2v7fOKSGRdghST2MDk/7NQcvJ29rNd'',
      ''QlB50JQ+awwAvthrDk4q7D7SzIKiGGUzE3eeml0aE9jD2z3Il3rucO2n5nzbcc8t'',
      ''lGLfbdb1OL4/pYUKGbio2Al1QnDE6u/LDsg0qBIimAy4E5S2S+zw0JDnJwIDAQAB'',
      ''o4HjMIHgMB0GA1UdEQQWMBSBEmVjX2FjY0BjYXRjZXJ0Lm5ldDAPBgNVHRMBAf8E'',
      ''BTADAQH/MA4GA1UdDwEB/wQEAwIBBjAdBgNVHQ4EFgQUoMOLRKo3pUW/l4Ba0fF4'',
      ''opvpXY0wfwYDVR0gBHgwdjB0BgsrBgEEAfV4AQMBCjBlMCwGCCsGAQUFBwIBFiBo'',
      ''dHRwczovL3d3dy5jYXRjZXJ0Lm5ldC92ZXJhcnJlbDA1BggrBgEFBQcCAjApGidW'',
      ''ZWdldSBodHRwczovL3d3dy5jYXRjZXJ0Lm5ldC92ZXJhcnJlbCAwDQYJKoZIhvcN'',
      ''AQEFBQADggEBAKBIW4IB9k1IuDlVNZyAelOZ1Vr/sXE7zDkJlF7W2u++AVtd0x7Y'',
      ''/X1PzaBB4DSTv8vihpw3kpBWHNzrKQXlxJ7HNd+KDM3FIUPpqojlNcAZQmNaAl6k'',
      ''SBg6hW/cnbw/nZzBh7h6YQjpdwt/cKt63dmXLGQehb+8dJahw3oS7AwaboMMPOhy'',
      ''Rp/7SNVel+axofjk70YllJyJ22k4vuxcDlbHZVHlUIiIv0LVKz3l+bqeLrPK9HOS'',
      ''Agu+TGbrIP65y7WZf+a2E/rKS03Z7lNGBjvGTq2TWoF+bCpLagVFjPIhpDGQh2xl'']"

lemma b64_DER: "b64_encode negativeSerialNumberCA = concat text_lines @ ''nJ2lYJU6Un/10asIbvPuW/mIPX64b24D5EI=''"
  by (simp only: text_lines_def negativeSerialNumberCA_def negativeSerialNumberCA_lines_def negativeSerialNumberCA_end_def concat.simps append.simps append_Nil2 unhex.simps nib_bits byte_bits
      b64_bits sextet_bits pad_char_def)

lemma PEM_of_DER: "pem_Encode ''CERTIFICATE'' negativeSerialNumberCA = negativeSerialNumberCAPEM @ [nl]"
proof -
  have lines: "list_all (\<lambda>l. length l = 64) text_lines" by (simp add: text_lines_def)
  have "wrap_lines (b64_encode negativeSerialNumberCA) = concat (map (\<lambda>l. l @ [nl]) text_lines) @ ''nJ2lYJU6Un/10asIbvPuW/mIPX64b24D5EI='' @ [nl]"
    unfolding b64_DER wrap_full [OF lines] by (simp add: wrap_last)
  moreover have "negativeSerialNumberCAPEM =
      ''-----BEGIN CERTIFICATE-----'' @ [nl] @ concat (map (\<lambda>l. l @ [nl]) text_lines) @ ''nJ2lYJU6Un/10asIbvPuW/mIPX64b24D5EI='' @ [nl] @ ''-----END CERTIFICATE-----''"
    by (simp only: negativeSerialNumberCAPEM_def text_lines_def list.map concat.simps append_assoc append_Nil)
  ultimately show ?thesis
    by (simp add: pem_Encode_def pemBegin_def pemEnd_def pemEndOfLine_def)
qed

lemma PEM_shape: "negativeSerialNumberCAPEM = begin_line @ body_of negativeSerialNumberCA @ pemEnd @ ''CERTIFICATE-----''"
  using PEM_of_DER unfolding pem_Encode_shape by (metis append_assoc append_same_eq)

lemma PEM_decoded:
  "pem_Decode (negativeSerialNumberCAPEM @ nl # data) = (Some \<lparr>blk_Type = ''CERTIFICATE'', blk_Headers = [], blk_Bytes = negativeSerialNumberCA\<rparr>, data)"
  using pem_Decode_cert [of "nl # data" data negativeSerialNumberCA] by (simp add: PEM_shape)

section \<open>What the pool does with it\<close>

text \<open>
  C27: The certificate that the first default CA package contains and that Go no longer parses does not
  spoil a package: when the parser refuses it for its negative serial number, the pool skips the quoted
  PEM text and goes on with the data behind it, and for any other reason it fails with that reason.
  The digest in the code is the one of the quoted certificate.
\<close>

theorem negative_serial_skipped:
  assumes "parse negativeSerialNumberCA = (c, Some err)" and "\<not> IsSkipError err"
  shows "hex_EncodeToString (Sum256 negativeSerialNumberCA) = negativeSerialNumberCAFingerprint \<and>
    AddCertsFromPEM parse cp (Some (negativeSerialNumberCAPEM @ nl # data)) =
      (if has_suffix (error_text err) negativeSerialNumberErr then AddCertsFromPEM parse cp (Some data)
       else (cp, Some (Wrapf ''invalid PEM block in bundle; invalid PEM certificate: '' err)))"
  using assms
  by (simp add: negativeSerialNumberCA_digest AddCertsFromPEM_def AddCertsFromPEM_loop.simps [of parse cp "negativeSerialNumberCAPEM @ nl # data"]
      PEM_decoded ParseCertificate_def handleNegativeSerialNumberSpecialCase_def IsSkipError_def split: option.split)

definition strict_parser :: x509_parser where
  "strict_parser der = (None, Some (Errorf ''x509: negative serial number''))"

lemma negative_serial_skipped_witness:
  "AddCertsFromPEM strict_parser (new_pool 50 True True) (Some (negativeSerialNumberCAPEM @ [nl])) = (new_pool 50 True True, None)"
proof -
  have "AddCertsFromPEM strict_parser (new_pool 50 True True) (Some []) = (new_pool 50 True True, None)"
    by (simp add: AddCertsFromPEM_def AddCertsFromPEM_loop.simps pem_Decode_Nil)
  then show ?thesis
    using negative_serial_skipped [of strict_parser None "Errorf ''x509: negative serial number''" "new_pool 50 True True" "[]"]
    by (simp add: strict_parser_def negativeSerialNumberErr_def has_suffix_def IsSkipError_def)
qed

end
