(* ===== verification/Spec2Isabelle.thy ===== *)
theory Spec2Isabelle
  imports ReconcileProperties WebhookTheorems ConversionProperties WatchTheorems BundleControllerTheorems
    CrdSchema TrustPackage StartupTheorems DeepCopyTheorems Convergence ApplyTheorems
    Migration HubRoundtrip SchemeTheorems ControllerExample MigrationController FuzzTheorems SsaClient NegativeSerial
begin

text \<open>
  \<^bold>\<open>The program.\<close> trust-manager distributes bundles of CA certificates in a Kubernetes cluster. A
  cluster-scoped \<open>Bundle\<close> names sources (ConfigMaps and Secrets of one trust namespace, inline PEM, the
  default CA package) and a target (a key of a ConfigMap or Secret of the Bundle's name, with optional
  JKS and PKCS #12 trust stores). The controller resolves the sources into a pool of certificates,
  writes the pool to every selected namespace by server-side apply, removes the targets that are no
  longer wanted, and reports a condition. A webhook admits Bundles; a second controller migrates them to
  the newer kind \<open>ClusterBundle\<close>; a small image ships the default CA package as a JSON file.

  \<^bold>\<open>Parts, in the order in which they build on each other.\<close>
  \<^item> \<open>Prelude\<close>: Go values. A \<open>string\<close> or \<open>[]byte\<close> is a list of bytes, a map is an association list with
    distinct keys whose order stands for Go's iteration order, a nil pointer is \<open>None\<close>, an \<open>error\<close> is
    \<open>gerr\<close>, and a function that can return, fail or panic returns \<open>res\<close>.
  \<^item> \<open>GoCrypto\<close>, \<open>GoPem\<close>, \<open>GoPemRoundtrip\<close>: what the program uses of the Go library: SHA-256 on 32-bit
    words, base64 and PEM, with the round trip of the two PEM functions; \<open>Sha256Bits\<close>: evaluation of
    SHA-256 by rewriting on lists of bits.
  \<^item> \<open>ApiTypes\<close>: \<open>pkg/apis/trust/v1alpha1/types_bundle.go\<close> and
    \<open>pkg/apis/trustmanager/v1alpha2/types_cluster_bundle.go\<close>; \<open>CrdSchema\<close> holds their validation markers
    and the type soundness of the conversion.
  \<^item> \<open>CertPool\<close>, \<open>PoolTheorems\<close>: \<open>pkg/util/cert_pool.go\<close> and \<open>pkg/compat\<close>. A pool is the map from
    digests to certificates with its filters; the theorems say what it accepts, that it is sorted and
    filtered, and that its PEM output can be read back. \<open>NegativeSerial\<close>: the certificate that
    \<open>pkg/compat/negative_serial_number.go\<close> quotes, its digest, and that the pool skips it.
  \<^item> \<open>Fspkg\<close>, \<open>TrustPackage\<close>: \<open>pkg/fspkg/package.go\<close>, \<open>cmd/validate-trust-package\<close> and
    \<open>trust-packages/debian/main.go\<close>: loading and copying of the default CA package.
  \<^item> \<open>Source\<close>, \<open>SourceTheorems\<close>: \<open>pkg/bundle/internal/source/source.go\<close>: resolution of the sources.
  \<^item> \<open>Truststore\<close>: \<open>pkg/bundle/internal/truststore/types.go\<close>: the JKS and PKCS #12 encoders.
  \<^item> \<open>Target\<close>, \<open>TargetTheorems\<close>, \<open>TargetProperties\<close>: \<open>pkg/bundle/internal/target/target.go\<close>. The state
    \<open>sys\<close> is the world that the API client acts on, with the log of requests and events.
  \<^item> \<open>Status\<close>, \<open>Reconcile\<close>, \<open>ReconcileTheorems\<close>, \<open>ReconcileProperties\<close>: \<open>pkg/bundle/util.go\<close>,
    \<open>pkg/bundle/internal/ssa_client\<close> and \<open>pkg/bundle/bundle.go\<close>: conditions and the reconcile loop.
  \<^item> \<open>Watch\<close>, \<open>WatchTheorems\<close>: \<open>pkg/bundle/controller.go\<close>: the watches that start a reconcile, the
    caches, and the inductive relation \<open>cluster_step\<close> of a cluster whose changes raise events.
  \<^item> \<open>Webhook\<close>, \<open>WebhookTheorems\<close>: \<open>pkg/webhook/validation.go\<close> and \<open>cluster_bundle.go\<close>: admission;
    \<open>WebhookSetup\<close>: \<open>pkg/webhook/webhook.go\<close>, the registration of the validators.
  \<^item> \<open>Conversion\<close>, \<open>ConversionTheorems\<close>, \<open>ConversionProperties\<close>: \<open>conversion.go\<close> and the functions of
    \<open>zz_generated.conversion.go\<close> that it calls, both ways.
  \<^item> \<open>HubRoundtrip\<close>: which ClusterBundles a Bundle can express; \<open>Migration\<close>: what migration keeps of
    the resolved certificates; \<open>Scheme\<close>, \<open>SchemeTheorems\<close>: \<open>register.go\<close> of both packages,
    \<open>RegisterConversions\<close>, and \<open>ConvertTo\<close> and \<open>ConvertFrom\<close> as they reach the conversions through the
    converter of a scheme.
  \<^item> \<open>ApplySchema\<close>: the schema of \<open>pkg/applyconfigurations/internal/internal.go\<close>, one definition per named
    type, and its parser; \<open>ApplyConfig\<close>, \<open>ApplyConfigV2\<close>: the configurations of both versions with their
    constructors, setters and extractors; \<open>ApplyJson\<close>: the JSON tags of API types and configurations
    and \<open>ForKind\<close>; \<open>ApplyTheorems\<close>.
  \<^item> \<open>BundleController\<close>, \<open>BundleControllerTheorems\<close>: the migration controller
    \<open>pkg/bundle/controller/bundle_controller.go\<close>; \<open>MigrationController\<close>: its registration, and its reconciles
    interleaved with changes of the cluster (\<open>migration_step\<close>).
  \<^item> \<open>Convergence\<close>: a reconcile that wrote is followed by one that does nothing. \<open>HashText\<close>: the text that
    \<open>TrustBundleHash\<close> hashes, and that it determines the PEM bundle; \<open>TargetContent\<close>: the data of the
    targets, who wrote it, and reads that may fail. \<open>Controller\<close>: the queue, the watches that
    \<open>bundle_watches\<close> registers and the reconciles as one step relation; \<open>ControllerExample\<close>: a server that
    stores what is sent and fulfils the contract.
  \<^item> \<open>Startup\<close>, \<open>StartupTheorems\<close>: \<open>cmd/trust-manager\<close>: flags, TLS options, the start and the exit status.
  \<^item> \<open>SsaClient\<close>: \<open>pkg/bundle/internal/ssa_client/patch.go\<close>, with the managed fields that the tests write.
  \<^item> \<open>FuzzTest\<close>: \<open>pkg/util/conversion/conversion.go\<close>, the test of a conversion by random objects;
    \<open>FuzzConversion\<close>, \<open>FuzzTheorems\<close>: its instance for Bundles, \<open>conversion_test.go\<close>, on a store in which the
    objects share their annotation maps.
  \<^item> \<open>GoHeap\<close>, \<open>DeepCopy\<close>, \<open>DeepCopyTheorems\<close>: the generated deep copies of both API packages. They are
    about the sharing of memory, so they are modelled on a heap: a struct holds
    references to cells, and \<open>view\<close> is what a program can observe of a value of a type.

  \<^bold>\<open>What is shown.\<close> That the controller loses no update: in every interleaving of changes and atomic
  reconciles a Bundle that is not queued has in every namespace it wants a target that holds exactly the PEM
  bundle its sources resolve to now, with trust stores of the same certificates, unless a
  source is missing or Secret targets are off. The controller does not read the data of a target, it compares a
  hash; that this suffices is proved from an invariant (what the controller lists as its own keys is what it
  wrote with that hash, provided nobody else passes off data as its own), from the shape of PEM bundles, and
  from the absence of collisions among the digests that occur. Reads may fail but are current, the cache shows
  writes at once, Bundles went through the webhook, and the clock of the certificate filter stands still, for
  expiry raises no event. Further:
  the contents of a resolved bundle and their independence of the order of sources;
  the exact patch of a target, idempotence of the apply and the cases in which nothing is sent; the
  requests that a reconcile may make, the meaning of its condition, and the fixed point of a
  synced Bundle, and that an admitted Bundle reaches it after one successful reconcile; that every
  change of an input enqueues the Bundle; that the digest of the certificate excepted for its negative serial
  number is right and that this certificate is skipped; equivalence of the webhook with declarative rules, and that
  admitted Bundles are reconciled without a panic; the round trips of the conversion in both
  directions (up to a normal form, and exactly for the expressible ClusterBundles), its panics, its
  type soundness, its dispatch through the scheme, and that it leaves the resolved certificates
  unchanged; that the fuzz test of the conversion passes, and what it cannot see; the request scripts of
  the migration, and that it forgets no Bundle; that configurations built by setters send the JSON
  of the specification and conform to the schema; that deep copies share no memory with their
  originals; and that the program starts only with a validated default package.

  \<^bold>\<open>Interfaces.\<close> Locales state what one part relies on in another, each interpreted on the model:
  pools as maps (\<open>PoolTheorems\<close>), sources and encoders that depend on a pool only through its
  certificates (\<open>SourceTheorems\<close>, \<open>Truststore\<close>), the shared control flow of the two kinds of target
  (\<open>TargetTheorems\<close>), copiers and the copies of the Kubernetes types (\<open>GoHeap\<close>, \<open>DeepCopyTheorems\<close>), the store of objects that a reader shows (\<open>WatchTheorems\<close>), a cluster that
  shows what was written (\<open>Convergence\<close>), in the data as well (\<open>TargetContent\<close>, which extends it), the cluster around the queue (\<open>Controller\<close>), the cluster around the migration (\<open>MigrationController\<close>), the two tables of a Kubernetes scheme (\<open>SchemeTheorems\<close>), and
  validators (\<open>WebhookTheorems\<close>).

  \<^bold>\<open>Parameters.\<close> Code outside the repository is an argument of the definitions: the X.509 parser, the
  label selectors, the API client and its caches, the key store libraries, the JSON and managed
  fields libraries, the field validators of apimachinery, the flag and TLS libraries and the file
  system, the Kubernetes scheme, the filler of random objects and the path sets of managed fields.
  The managers and builders of controller-runtime are functions that accept a registration or fail. Theorems that rely on their documented behaviour name it as a hypothesis.

  \<^bold>\<open>Termination.\<close> No fuel is used: every loop is structural or has a measure (the length of the input
  for PEM and SHA-256), the fuzz test its 10000 rounds. Numbers that the program counts are unbounded;
  SHA-256 words and the random times of the fuzz test have 32 bits.

  \<^bold>\<open>Not modelled.\<close> Logging, help texts, and the fixtures of the tests (\<open>test\<close>). The defaults that the API server fills in are hypotheses (trust stores have
  a password) or part of the normal form.
\<close>

end
